(* ===== verification/Go_Prelude.thy ===== *)
theory Go_Prelude
  imports Main "HOL-Library.Word" "HOL-Library.AList" "HOL-Library.Sublist"
    "HOL-Library.Char_ord" "HOL-Library.List_Lexorder" "HOL-Library.Product_Lexorder"
begin

text \<open>
  Shared vocabulary of the development: the Go types and the Go standard-library functions the
  sources call, modelled on byte strings, and the lemmas on association lists, maps and
  counters the component theories use.

  Conventions.
  \<^item> A Go \<open>string\<close> is a list of bytes: HOL's \<open>string\<close> is \<open>char list\<close> and a \<open>char\<close> is one byte.
  \<^item> A Go \<open>uint64\<close> is a \<open>64 word\<close> (\<open>u64\<close>); arithmetic on it wraps.
  \<^item> A \<open>time.Time\<close> is an instant on an integer time line; the zero value of the type is \<open>0\<close>.
  \<^item> A Go map is an association list (\<open>AList\<close>): \<open>map_of m k\<close> reads, \<open>AList.update\<close> writes,
    \<open>AList.delete\<close> deletes and \<open>length\<close> is \<open>len\<close>. \<open>gomap_ok\<close> says that every key occurs once.
\<close>

type_synonym u64 = "64 word"
type_synonym go_time = int
type_synonym ('k, 'v) gomap = "('k \<times> 'v) list"

named_theorems gomap_simps \<open>association lists read as maps\<close>

section \<open>Maps\<close>

definition gomap_ok :: "('k, 'v) gomap \<Rightarrow> bool" where
  "gomap_ok m \<longleftrightarrow> distinct (map fst m)"

lemma gomap_ok_Nil [simp]: "gomap_ok []"
  by (simp add: gomap_ok_def)

lemma gomap_ok_update [simp]: "gomap_ok m \<Longrightarrow> gomap_ok (AList.update k v m)"
  by (simp add: gomap_ok_def distinct_update)

lemma gomap_ok_delete [simp]: "gomap_ok m \<Longrightarrow> gomap_ok (AList.delete k m)"
  by (simp add: gomap_ok_def distinct_delete)

lemma map_fst_map_values [simp]: "map fst (map (\<lambda>(k, v). (k, f k v)) m) = map fst m"
  by (induction m) auto

lemma gomap_ok_map [simp]: "gomap_ok (map (\<lambda>(k, v). (k, f k v)) m) \<longleftrightarrow> gomap_ok m"
  unfolding gomap_ok_def map_fst_map_values ..

declare update_conv' [gomap_simps] delete_conv' [gomap_simps]

lemma map_of_map_values [gomap_simps]:
  "map_of (map (\<lambda>(k, v). (k, f k v)) m) k = map_option (f k) (map_of m k)"
  by (induction m) auto

lemma delete_empty_iff: "AList.delete k m = [] \<longleftrightarrow> (\<forall>k'. k' \<noteq> k \<longrightarrow> map_of m k' = None)"
  by (induction m) auto

lemma map_of_update [simp]:
  "map_of (AList.update k v m) k' = (if k' = k then Some v else map_of m k')"
  by (simp add: update_conv')

lemma map_of_delete [simp]:
  "map_of (AList.delete k m) k' = (if k' = k then None else map_of m k')"
  by (simp add: delete_conv')

lemma map_of_filter_key: "map_of (filter (\<lambda>(k, _). P k) m) x = (if P x then map_of m x else None)"
  by (induction m) auto

lemma gomap_ok_mem_iff: "gomap_ok m \<Longrightarrow> (k, v) \<in> set m \<longleftrightarrow> map_of m k = Some v"
  by (simp add: gomap_ok_def)

section \<open>Counters\<close>

lemma unat_plus_one: "(w :: u64) + 1 \<noteq> 0 \<Longrightarrow> unat (w + 1) = Suc (unat w)"
  by (simp add: unatSuc add.commute)

lemma plus_one_neq_0_iff: "(w :: u64) + 1 \<noteq> 0 \<longleftrightarrow> w \<noteq> - 1"
  by (metis add_eq_0_iff minus_equation_iff)

lemma unat_of_nat64: "n < 2 ^ 64 \<Longrightarrow> unat (of_nat n :: u64) = n"
  by (simp add: unat_of_nat take_bit_nat_eq_self)

lemma unat_max64 [simp]: "unat (- 1 :: u64) = 18446744073709551615"
  by (simp add: unsigned_minus_1_eq_mask mask_eq_exp_minus_1)

lemma less_iff_unat: "(v :: u64) < w \<longleftrightarrow> unat v < unat w"
  by (rule word_less_nat_alt)

section \<open>Lists\<close>

lemma filter_eq_drop:
  "\<forall>i < length xs. P (xs ! i) \<longleftrightarrow> k \<le> i \<Longrightarrow> filter P xs = drop k xs"
proof (induction xs arbitrary: k)
  case (Cons x xs)
  then have head: "P x \<longleftrightarrow> k = 0" and tail: "\<forall>i < length xs. P (xs ! i) \<longleftrightarrow> k \<le> Suc i"
    by (auto simp: All_less_Suc2)
  show ?case
  proof (cases k)
    case 0
    with Cons.IH [of 0] head tail show ?thesis by simp
  next
    case (Suc k')
    with Cons.IH [of k'] head tail show ?thesis by simp
  qed
qed simp

lemma drop_take_append_drop:
  "i \<le> j \<Longrightarrow> drop i (take j xs) @ drop j xs = drop i xs"
  by (metis append_take_drop_id drop_drop drop_take le_add_diff_inverse2)

section \<open>The package strings\<close>

text \<open>
  \<open>strings.TrimSpace\<close> cuts leading and trailing white space, that is the runes for which
  \<open>unicode.IsSpace\<close> holds. \<open>space_len s\<close> is the number of bytes of the white-space rune \<open>s\<close>
  starts with, 0 if it starts with none: the ASCII characters tab to carriage return and space,
  and the UTF-8 encodings of U+0085, U+00A0, U+1680, U+2000 to U+200A, U+2028, U+2029, U+202F,
  U+205F and U+3000.
\<close>

definition ascii_space :: "char \<Rightarrow> bool" where
  "ascii_space c \<longleftrightarrow> (let n = of_char c :: nat in n = 32 \<or> 9 \<le> n \<and> n \<le> 13)"

definition wide_space :: "nat \<Rightarrow> nat \<Rightarrow> nat \<Rightarrow> bool" where
  "wide_space a b c \<longleftrightarrow>
     a = 225 \<and> b = 154 \<and> c = 128 \<or>
     a = 226 \<and> b = 128 \<and> (128 \<le> c \<and> c \<le> 138 \<or> c = 168 \<or> c = 169 \<or> c = 175) \<or>
     a = 226 \<and> b = 129 \<and> c = 159 \<or>
     a = 227 \<and> b = 128 \<and> c = 128"

fun space_len :: "string \<Rightarrow> nat" where
  "space_len [] = 0"
| "space_len (a # s) =
     (if ascii_space a then 1
      else if (of_char a :: nat) < 128 then 0
      else (case s of
              [] \<Rightarrow> 0
            | b # s' \<Rightarrow>
                if of_char a = (194 :: nat) \<and> (of_char b = (133 :: nat) \<or> of_char b = (160 :: nat))
                then 2
                else (case s' of
                        [] \<Rightarrow> 0
                      | c # _ \<Rightarrow> if wide_space (of_char a) (of_char b) (of_char c) then 3 else 0)))"

function trim_left :: "string \<Rightarrow> string" where
  "trim_left s = (if s = [] \<or> space_len s = 0 then s else trim_left (drop (space_len s) s))"
  by pat_completeness auto
termination
  by (relation "measure length") auto

declare trim_left.simps [simp del]

text \<open>The same for the end of the string, on the reversed byte list.\<close>

fun space_len_rev :: "string \<Rightarrow> nat" where
  "space_len_rev [] = 0"
| "space_len_rev (c # s) =
     (if ascii_space c then 1
      else if (of_char c :: nat) < 128 then 0
      else (case s of
              [] \<Rightarrow> 0
            | b # s' \<Rightarrow>
                if of_char b = (194 :: nat) \<and> (of_char c = (133 :: nat) \<or> of_char c = (160 :: nat))
                then 2
                else (case s' of
                        [] \<Rightarrow> 0
                      | a # _ \<Rightarrow> if wide_space (of_char a) (of_char b) (of_char c) then 3 else 0)))"

function trim_right_rev :: "string \<Rightarrow> string" where
  "trim_right_rev s =
     (if s = [] \<or> space_len_rev s = 0 then s else trim_right_rev (drop (space_len_rev s) s))"
  by pat_completeness auto
termination
  by (relation "measure length") auto

declare trim_right_rev.simps [simp del]

definition TrimSpace :: "string \<Rightarrow> string" where
  "TrimSpace s = rev (trim_right_rev (rev (trim_left s)))"

lemma trim_left_Nil [simp]: "trim_left [] = []"
  by (simp add: trim_left.simps)

lemma trim_right_rev_Nil [simp]: "trim_right_rev [] = []"
  by (simp add: trim_right_rev.simps)

lemma TrimSpace_Nil [simp]: "TrimSpace [] = []"
  by (simp add: TrimSpace_def)

lemma trim_left_suffix: "suffix (trim_left s) s"
proof (induction s rule: trim_left.induct)
  case (1 s)
  then show ?case
    by (cases "s = [] \<or> space_len s = 0")
      (auto simp: trim_left.simps [of s] intro: suffix_order.trans suffix_drop)
qed

lemma trim_right_rev_suffix: "suffix (trim_right_rev s) s"
proof (induction s rule: trim_right_rev.induct)
  case (1 s)
  then show ?case
    by (cases "s = [] \<or> space_len_rev s = 0")
      (auto simp: trim_right_rev.simps [of s] intro: suffix_order.trans suffix_drop)
qed

lemma trim_left_stops: "trim_left s = [] \<or> space_len (trim_left s) = 0"
proof (induction s rule: trim_left.induct)
  case (1 s)
  then show ?case
    by (cases "s = [] \<or> space_len s = 0") (auto simp: trim_left.simps [of s])
qed

lemma trim_right_rev_stops: "trim_right_rev s = [] \<or> space_len_rev (trim_right_rev s) = 0"
proof (induction s rule: trim_right_rev.induct)
  case (1 s)
  then show ?case
    by (cases "s = [] \<or> space_len_rev s = 0") (auto simp: trim_right_rev.simps [of s])
qed

text \<open>Cutting the end of a string that starts with no white space gives no leading white space.\<close>

lemma space_len_append: "xs \<noteq> [] \<Longrightarrow> space_len (xs @ ys) = 0 \<Longrightarrow> space_len xs = 0"
  by (cases xs rule: space_len.cases)
    (auto split: if_splits list.splits simp: append_eq_Cons_conv)

lemma trim_left_fixed: "space_len s = 0 \<Longrightarrow> trim_left s = s"
  by (simp add: trim_left.simps)

lemma trim_right_rev_fixed: "space_len_rev s = 0 \<Longrightarrow> trim_right_rev s = s"
  by (simp add: trim_right_rev.simps)

lemma TrimSpace_idem [simp]: "TrimSpace (TrimSpace s) = TrimSpace s"
proof -
  let ?l = "trim_left s"
  let ?r = "trim_right_rev (rev ?l)"
  obtain zs where zs: "rev ?l = zs @ ?r"
    using trim_right_rev_suffix [of "rev ?l"] by (auto simp: suffix_def)
  then have l: "?l = rev ?r @ rev zs"
    by (metis rev_append rev_rev_ident)
  have "rev ?r = [] \<or> space_len (rev ?r) = 0"
    using trim_left_stops [of s] space_len_append [of "rev ?r" "rev zs"] l
    by (metis append_is_Nil_conv)
  then have "trim_left (rev ?r) = rev ?r"
    by (auto simp: trim_left_fixed)
  moreover have "trim_right_rev ?r = ?r"
    using trim_right_rev_stops [of "rev ?l"] by (auto simp: trim_right_rev_fixed)
  ultimately show ?thesis
    by (simp add: TrimSpace_def)
qed

text \<open>A string whose first and last byte are plain ASCII keeps its ends.\<close>

definition plain :: "char \<Rightarrow> bool" where
  "plain c \<longleftrightarrow> \<not> ascii_space c \<and> (of_char c :: nat) < 128"

lemma TrimSpace_plain:
  assumes "s \<noteq> []" "plain (hd s)" "plain (last s)"
  shows "TrimSpace s = s"
proof -
  have "space_len s = 0" using assms by (cases s) (auto simp: plain_def)
  moreover have "space_len_rev (rev s) = 0"
    using assms by (cases s rule: rev_cases) (auto simp: plain_def)
  ultimately show ?thesis
    by (simp add: TrimSpace_def trim_left_fixed trim_right_rev_fixed)
qed

text \<open>\<open>strings.HasPrefix\<close> and \<open>strings.HasSuffix\<close>.\<close>

abbreviation HasPrefix :: "string \<Rightarrow> string \<Rightarrow> bool" where
  "HasPrefix s p \<equiv> prefix p s"

abbreviation HasSuffix :: "string \<Rightarrow> string \<Rightarrow> bool" where
  "HasSuffix s p \<equiv> suffix p s"

text \<open>\<open>strings.Split\<close> with a one-byte separator, and \<open>strings.Join\<close>.\<close>

fun Split :: "string \<Rightarrow> char \<Rightarrow> string list" where
  "Split [] sep = [[]]"
| "Split (c # s) sep =
     (if c = sep then [] # Split s sep
      else (case Split s sep of [] \<Rightarrow> [[c]] | w # ws \<Rightarrow> (c # w) # ws))"

fun Join :: "string list \<Rightarrow> string \<Rightarrow> string" where
  "Join [] sep = []"
| "Join [w] sep = w"
| "Join (w # ws) sep = w @ sep @ Join ws sep"

lemma Split_not_Nil [simp]: "Split s sep \<noteq> []"
  by (cases s) (auto split: list.splits)

lemma Join_Cons: "ws \<noteq> [] \<Longrightarrow> Join (w # ws) sep = w @ sep @ Join ws sep"
  by (cases ws) auto

lemma Join_Split [simp]: "Join (Split s sep) [sep] = s"
proof (induction s)
  case (Cons c s)
  show ?case
  proof (cases "Split s sep")
    case (Cons w ws)
    with Cons.IH show ?thesis by (cases ws) auto
  qed simp
qed simp

lemma Split_no_sep: "sep \<notin> set w \<Longrightarrow> Split w sep = [w]"
  by (induction w) auto

lemma Split_append_sep: "sep \<notin> set w \<Longrightarrow> Split (w @ sep # s) sep = w # Split s sep"
  by (induction w) auto

lemma Split_Join:
  "ws \<noteq> [] \<Longrightarrow> \<forall>w \<in> set ws. sep \<notin> set w \<Longrightarrow> Split (Join ws [sep]) sep = ws"
  by (induction ws rule: induct_list012) (auto simp: Split_no_sep Split_append_sep)

lemma Split_pieces_no_sep: "w \<in> set (Split s sep) \<Longrightarrow> sep \<notin> set w"
proof (induction s arbitrary: w)
  case (Cons c s)
  then show ?case
    by (cases "Split s sep") (auto split: if_splits)
qed simp

text \<open>\<open>strings.Cut\<close> with a one-byte separator: \<open>None\<close> when it does not occur.\<close>

fun Cut :: "string \<Rightarrow> char \<Rightarrow> (string \<times> string) option" where
  "Cut [] sep = None"
| "Cut (c # s) sep =
     (if c = sep then Some ([], s) else map_option (\<lambda>(b, a). (c # b, a)) (Cut s sep))"

lemma Cut_append: "sep \<notin> set w \<Longrightarrow> Cut (w @ sep # s) sep = Some (w, s)"
  by (induction w) auto

text \<open>\<open>strings.EqualFold\<close> on ASCII letters.\<close>

definition ascii_lower :: "char \<Rightarrow> char" where
  "ascii_lower c =
     (let n = of_char c :: nat in if 65 \<le> n \<and> n \<le> 90 then char_of (n + 32) else c)"

definition EqualFold :: "string \<Rightarrow> string \<Rightarrow> bool" where
  "EqualFold s t \<longleftrightarrow> map ascii_lower s = map ascii_lower t"

section \<open>The package strconv and decimal formatting\<close>

definition digit_char :: "nat \<Rightarrow> char" where
  "digit_char d = char_of (48 + d)"

definition digit_val :: "char \<Rightarrow> nat option" where
  "digit_val c =
     (let n = of_char c :: nat in if 48 \<le> n \<and> n \<le> 57 then Some (n - 48) else None)"

lemma digit_val_char [simp]: "d < 10 \<Longrightarrow> digit_val (digit_char d) = Some d"
  by (simp add: digit_val_def digit_char_def Let_def)

fun nat_dec :: "nat \<Rightarrow> string" where
  "nat_dec n = (if n < 10 then [digit_char n] else nat_dec (n div 10) @ [digit_char (n mod 10)])"

declare nat_dec.simps [simp del]

fun dec_val :: "nat \<Rightarrow> string \<Rightarrow> nat option" where
  "dec_val acc [] = Some acc"
| "dec_val acc (c # s) =
     (case digit_val c of None \<Rightarrow> None | Some d \<Rightarrow> dec_val (10 * acc + d) s)"

lemma dec_val_append:
  "dec_val acc (s @ t) = Option.bind (dec_val acc s) (\<lambda>v. dec_val v t)"
  by (induction s arbitrary: acc) (auto split: option.splits)

lemma dec_val_nat_dec [simp]: "dec_val 0 (nat_dec n) = Some n"
proof (induction n rule: nat_dec.induct)
  case (1 n)
  then show ?case
    by (cases "n < 10") (simp_all add: nat_dec.simps [of n] dec_val_append)
qed

lemma nat_dec_not_Nil [simp]: "nat_dec n \<noteq> []"
  by (simp add: nat_dec.simps [of n])

text \<open>The format \<open>%04d\<close> of a \<open>uint64\<close>.\<close>

definition fmt04 :: "u64 \<Rightarrow> string" where
  "fmt04 w = (let s = nat_dec (unat w) in replicate (4 - length s) (CHR ''0'') @ s)"

lemma dec_val_zeros: "dec_val 0 (replicate k (CHR ''0'') @ s) = dec_val 0 s"
  by (induction k) (auto simp: digit_val_def)

lemma dec_val_fmt04 [simp]: "dec_val 0 (fmt04 w) = Some (unat w)"
  by (simp add: fmt04_def Let_def dec_val_zeros)

lemma fmt04_inject [simp]: "fmt04 v = fmt04 w \<longleftrightarrow> v = w"
  by (metis dec_val_fmt04 option.inject unsigned_word_eqI)

lemma digit_val_digit_char: "d < 10 \<Longrightarrow> c = digit_char d \<Longrightarrow> digit_val c \<noteq> None"
  by simp

lemma nat_dec_digits: "c \<in> set (nat_dec n) \<Longrightarrow> digit_val c \<noteq> None"
proof (induction n rule: nat_dec.induct)
  case (1 n)
  then show ?case by (auto simp: nat_dec.simps [of n] split: if_splits)
qed

lemma digit_val_plain: "digit_val c \<noteq> None \<Longrightarrow> plain c \<and> c \<noteq> CHR '';'' \<and> c \<noteq> CHR ''=''"
  by (auto simp: digit_val_def plain_def ascii_space_def Let_def split: if_splits)

text \<open>\<open>strconv.Atoi\<close> for a 64-bit \<open>int\<close>: \<open>None\<close> on a syntax or a range error.\<close>

definition Atoi :: "string \<Rightarrow> int option" where
  "Atoi s =
     (let (neg, digits) =
        (case s of
           c # t \<Rightarrow> if c = CHR ''-'' then (True, t) else if c = CHR ''+'' then (False, t) else (False, s)
         | [] \<Rightarrow> (False, []))
      in if digits = [] then None
         else (case dec_val 0 digits of
                 None \<Rightarrow> None
               | Some n \<Rightarrow>
                   let v = (if neg then - int n else int n)
                   in if - (2 ^ 63) \<le> v \<and> v < 2 ^ 63 then Some v else None))"

lemma digit_val_first: "nat_dec n = c # t \<Longrightarrow> digit_val c \<noteq> None"
  using dec_val_nat_dec [of n] by (auto split: option.splits simp del: dec_val_nat_dec)

lemma Atoi_nat_dec: "n < 2 ^ 63 \<Longrightarrow> Atoi (nat_dec n) = Some (int n)"
proof -
  assume n: "n < 2 ^ 63"
  then have bound: "int n < 9223372036854775808" by simp
  obtain c t where ct: "nat_dec n = c # t"
    by (cases "nat_dec n") auto
  then have "c \<noteq> CHR ''-''" "c \<noteq> CHR ''+''"
    using digit_val_first [OF ct] by (auto simp: digit_val_def)
  with ct bound show ?thesis
    using dec_val_nat_dec [of n] by (simp add: Atoi_def Let_def del: dec_val_nat_dec)
qed

section \<open>The package path/filepath\<close>

text \<open>
  \<open>filepath.Clean\<close> on a Unix system: empty and \<open>.\<close> elements go, \<open>..\<close> cancels the element before
  it, a leading \<open>..\<close> of a rooted path goes, and an empty result is \<open>.\<close>. The output is kept
  reversed, as the code's output buffer is cut at its end.
\<close>

fun clean_parts :: "bool \<Rightarrow> string list \<Rightarrow> string list \<Rightarrow> string list" where
  "clean_parts rooted out [] = rev out"
| "clean_parts rooted out (p # ps) =
     (if p = [] \<or> p = ''.'' then clean_parts rooted out ps
      else if p = ''..'' then
        (case out of
           [] \<Rightarrow> clean_parts rooted (if rooted then [] else [p]) ps
         | q # qs \<Rightarrow> if q = ''..'' then clean_parts rooted (p # out) ps else clean_parts rooted qs ps)
      else clean_parts rooted (p # out) ps)"

definition Clean :: "string \<Rightarrow> string" where
  "Clean path =
     (let rooted = HasPrefix path ''/'';
          parts = clean_parts rooted [] (Split path (CHR ''/''))
      in if rooted then CHR ''/'' # Join parts ''/''
         else if parts = [] then ''.'' else Join parts ''/'')"

text \<open>
  \<open>filepath.Dir\<close>: the path up to its last slash, cleaned. \<open>filepath.ToSlash\<close> is the identity
  where the separator is the slash.
\<close>

definition Dir :: "string \<Rightarrow> string" where
  "Dir path = Clean (rev (dropWhile (\<lambda>c. c \<noteq> CHR ''/'') (rev path)))"

definition ToSlash :: "string \<Rightarrow> string" where
  "ToSlash path = path"

text \<open>\<open>runtime.GOOS\<close>: the daemon and the models of this development are for Linux.\<close>

definition GOOS :: string where
  "GOOS = ''linux''"

end
