(* ===== verification/Proto.thy ===== *)
theory Proto
  imports Go_Prelude
begin

text \<open>
  The shared protocol vocabulary: \<open>internal/proto/types.go\<close> and \<open>internal/proto/errors.go\<close>.

  A typed string constant group of the source is a datatype when the code only compares its
  values with the constants. Where the code also looks at the empty string, the field is an
  option and \<open>None\<close> is the empty string. Three groups stay strings, because values from the wire
  are normalised (\<open>SessionKind\<close>, \<open>AuthorityState\<close>) or rebuilt from text (\<open>ErrorCode\<close>).
\<close>

section \<open>Enumerations\<close>

datatype Role = RoleOwner | RoleFollower

type_synonym SessionKind = string

definition SessionKindInteractive :: SessionKind where
  "SessionKindInteractive = ''interactive''"

definition SessionKindAuthority :: SessionKind where
  "SessionKindAuthority = ''authority''"

definition NormalizeSessionKind :: "SessionKind \<Rightarrow> SessionKind" where
  "NormalizeSessionKind kind =
     (if TrimSpace kind = SessionKindAuthority then SessionKindAuthority
      else SessionKindInteractive)"

type_synonym AuthorityState = string

definition AuthorityStateStable :: AuthorityState where
  "AuthorityStateStable = ''stable''"

definition AuthorityStateRebinding :: AuthorityState where
  "AuthorityStateRebinding = ''rebinding''"

definition AuthorityStateAbsent :: AuthorityState where
  "AuthorityStateAbsent = ''absent''"

definition NormalizeAuthorityState :: "AuthorityState \<Rightarrow> AuthorityState" where
  "NormalizeAuthorityState state =
     (if TrimSpace state = AuthorityStateRebinding then AuthorityStateRebinding
      else if TrimSpace state = AuthorityStateAbsent then AuthorityStateAbsent
      else AuthorityStateStable)"

definition AuthorityReady :: "AuthorityState \<Rightarrow> bool" where
  "AuthorityReady state \<longleftrightarrow> NormalizeAuthorityState state = AuthorityStateStable"

datatype ProjectState =
    ProjectStateInitializing
  | ProjectStateSyncing
  | ProjectStateActive
  | ProjectStateNeedsConfirmation
  | ProjectStateTerminating
  | ProjectStateTerminated

datatype SourceDiffLevel = SourceDiffNone | SourceDiffMinor | SourceDiffSevere

datatype WarningCode = WarningSourceDrift

datatype CommandState = CommandStateRunning | CommandStateExited | CommandStateFailed

datatype ProjectEventType =
    ProjectEventOwnerChanged
  | ProjectEventNeedsConfirmation
  | ProjectEventSyncStateChanged
  | ProjectEventSyncProgress
  | ProjectEventCommandStarted
  | ProjectEventCommandUpdated
  | ProjectEventAuthorityStateChanged
  | ProjectEventInstanceTerminated

datatype CommandEventType =
    CommandEventExecStarted
  | CommandEventAttachStdio
  | CommandEventDetachStdio
  | CommandEventTTYResized
  | CommandEventSignalSent
  | CommandEventExited
  | CommandEventExecFailed
  | CommandEventIOClosed

datatype InvalidateKind = InvalidateData | InvalidateDentry | InvalidateDelete | InvalidateRename

text \<open>Drift levels are ordered by severity.\<close>

instantiation SourceDiffLevel :: linorder
begin

fun diff_rank :: "SourceDiffLevel \<Rightarrow> nat" where
  "diff_rank SourceDiffNone = 0"
| "diff_rank SourceDiffMinor = 1"
| "diff_rank SourceDiffSevere = 2"

definition less_eq_SourceDiffLevel :: "SourceDiffLevel \<Rightarrow> SourceDiffLevel \<Rightarrow> bool" where
  "less_eq_SourceDiffLevel a b \<longleftrightarrow> diff_rank a \<le> diff_rank b"

definition less_SourceDiffLevel :: "SourceDiffLevel \<Rightarrow> SourceDiffLevel \<Rightarrow> bool" where
  "less_SourceDiffLevel a b \<longleftrightarrow> diff_rank a < diff_rank b"

instance
proof
  fix x y z :: SourceDiffLevel
  show "(x < y) = (x \<le> y \<and> \<not> y \<le> x)"
    by (auto simp: less_eq_SourceDiffLevel_def less_SourceDiffLevel_def)
  show "x \<le> x"
    by (simp add: less_eq_SourceDiffLevel_def)
  show "x \<le> y \<Longrightarrow> y \<le> z \<Longrightarrow> x \<le> z"
    by (simp add: less_eq_SourceDiffLevel_def)
  show "x \<le> y \<Longrightarrow> y \<le> x \<Longrightarrow> x = y"
    by (cases x; cases y) (simp_all add: less_eq_SourceDiffLevel_def)
  show "x \<le> y \<or> y \<le> x"
    by (auto simp: less_eq_SourceDiffLevel_def)
qed

end

section \<open>Errors\<close>

type_synonym ErrorCode = string

definition ErrInvalidArgument :: ErrorCode where
  "ErrInvalidArgument = ''invalid-argument''"
definition ErrAuthenticationFailed :: ErrorCode where
  "ErrAuthenticationFailed = ''authentication-failed''"
definition ErrPermissionDenied :: ErrorCode where
  "ErrPermissionDenied = ''permission-denied''"
definition ErrFollowerSyncDenied :: ErrorCode where
  "ErrFollowerSyncDenied = ''follower-sync-denied''"
definition ErrNeedsConfirmation :: ErrorCode where
  "ErrNeedsConfirmation = ''needs-confirmation''"
definition ErrReadOnlyProject :: ErrorCode where
  "ErrReadOnlyProject = ''read-only-project''"
definition ErrProjectNotReady :: ErrorCode where
  "ErrProjectNotReady = ''project-not-ready''"
definition ErrProjectInitFailed :: ErrorCode where
  "ErrProjectInitFailed = ''project-init-failed''"
definition ErrProjectTerminated :: ErrorCode where
  "ErrProjectTerminated = ''project-terminated''"
definition ErrSyncEpochMismatch :: ErrorCode where
  "ErrSyncEpochMismatch = ''sync-epoch-mismatch''"
definition ErrSyncRescanMismatch :: ErrorCode where
  "ErrSyncRescanMismatch = ''sync-rescan-mismatch''"
definition ErrCursorExpired :: ErrorCode where
  "ErrCursorExpired = ''cursor-expired''"
definition ErrUnknownClient :: ErrorCode where
  "ErrUnknownClient = ''unknown-client''"
definition ErrUnknownCommand :: ErrorCode where
  "ErrUnknownCommand = ''unknown-command''"
definition ErrUnknownFile :: ErrorCode where
  "ErrUnknownFile = ''unknown-file''"
definition ErrReconcilePrecondition :: ErrorCode where
  "ErrReconcilePrecondition = ''reconcile-precondition-failed''"
definition ErrConflict :: ErrorCode where
  "ErrConflict = ''conflict''"
definition ErrTransportInterrupted :: ErrorCode where
  "ErrTransportInterrupted = ''transport-interrupted''"

text \<open>
  A Go error value: a \<open>*proto.Error\<close> with its code and message, one of the sentinel values of the
  standard library the code asks for with \<open>errors.Is\<close>, any other error with its text, or an
  error wrapped by \<open>fmt.Errorf\<close> with \<open>%w\<close>, which keeps the inner error in its chain.
\<close>

datatype sentinel =
    CtxCanceled | CtxDeadlineExceeded
  | IoEOF | IoErrUnexpectedEOF | IoErrClosedPipe
  | NetErrClosed | OsErrClosed
  | FsErrNotExist | FsErrPermission
  | SysEPIPE | SysECONNRESET | SysECONNABORTED

datatype err =
    ProtoErr ErrorCode string
  | SentinelErr sentinel
  | PlainErr string
  | WrapErr string err

type_synonym 'a res = "err + 'a"

definition NewError :: "ErrorCode \<Rightarrow> string \<Rightarrow> err" where
  "NewError code message = ProtoErr code message"

fun sentinel_text :: "sentinel \<Rightarrow> string" where
  "sentinel_text CtxCanceled = ''context canceled''"
| "sentinel_text CtxDeadlineExceeded = ''context deadline exceeded''"
| "sentinel_text IoEOF = ''EOF''"
| "sentinel_text IoErrUnexpectedEOF = ''unexpected EOF''"
| "sentinel_text IoErrClosedPipe = ''io: read/write on closed pipe''"
| "sentinel_text NetErrClosed = ''use of closed network connection''"
| "sentinel_text OsErrClosed = ''file already closed''"
| "sentinel_text FsErrNotExist = ''file does not exist''"
| "sentinel_text FsErrPermission = ''permission denied''"
| "sentinel_text SysEPIPE = ''broken pipe''"
| "sentinel_text SysECONNRESET = ''connection reset by peer''"
| "sentinel_text SysECONNABORTED = ''software caused connection abort''"

fun Error :: "err \<Rightarrow> string" where
  "Error (ProtoErr code message) = code @ '': '' @ message"
| "Error (SentinelErr s) = sentinel_text s"
| "Error (PlainErr t) = t"
| "Error (WrapErr t e) = t @ Error e"

fun errors_Is :: "err \<Rightarrow> sentinel \<Rightarrow> bool" where
  "errors_Is (SentinelErr s) t \<longleftrightarrow> s = t"
| "errors_Is (WrapErr _ e) t \<longleftrightarrow> errors_Is e t"
| "errors_Is _ t \<longleftrightarrow> False"

text \<open>\<open>errors.As\<close> with a \<open>*proto.Error\<close> target: the first one of the chain.\<close>

fun AsError :: "err \<Rightarrow> (ErrorCode \<times> string) option" where
  "AsError (ProtoErr code message) = Some (code, message)"
| "AsError (WrapErr _ e) = AsError e"
| "AsError _ = None"

definition ErrorFields :: "err option \<Rightarrow> ErrorCode \<Rightarrow> ErrorCode \<times> string" where
  "ErrorFields e fallback =
     (case e of
        None \<Rightarrow> (fallback, [])
      | Some e \<Rightarrow>
          (case AsError e of
             Some (code, message) \<Rightarrow> (if code = [] then fallback else code, message)
           | None \<Rightarrow>
               if errors_Is e FsErrNotExist then (ErrUnknownFile, Error e)
               else if errors_Is e FsErrPermission then (ErrPermissionDenied, Error e)
               else (fallback, Error e)))"

definition ErrorFromFields :: "string \<Rightarrow> string \<Rightarrow> ErrorCode \<Rightarrow> err" where
  "ErrorFromFields code message fallback =
     NewError (if code = [] then fallback else code) message"

definition IsTransportInterrupted :: "err option \<Rightarrow> bool" where
  "IsTransportInterrupted e =
     (case e of
        None \<Rightarrow> False
      | Some e \<Rightarrow>
          errors_Is e IoEOF \<or> errors_Is e IoErrUnexpectedEOF \<or> errors_Is e IoErrClosedPipe \<or>
          errors_Is e NetErrClosed \<or> errors_Is e OsErrClosed \<or> errors_Is e SysEPIPE \<or>
          errors_Is e SysECONNRESET \<or> errors_Is e SysECONNABORTED)"

definition NormalizeError :: "err option \<Rightarrow> err option" where
  "NormalizeError e =
     (case e of
        None \<Rightarrow> None
      | Some x \<Rightarrow>
          if errors_Is x CtxCanceled \<or> errors_Is x CtxDeadlineExceeded then e
          else if AsError x \<noteq> None then e
          else if IsTransportInterrupted e then Some (NewError ErrTransportInterrupted (Error x))
          else e)"

section \<open>Records\<close>

record WorkspaceDigest =
  dig_Algorithm :: string
  dig_Value :: string

definition IsZero :: "WorkspaceDigest \<Rightarrow> bool" where
  "IsZero d \<longleftrightarrow> dig_Algorithm d = [] \<and> dig_Value d = []"

record ProjectKey =
  key_Username :: string
  key_ProjectID :: string

definition ProjectKey_String :: "ProjectKey \<Rightarrow> string" where
  "ProjectKey_String k = key_Username k @ ''/'' @ key_ProjectID k"

record Warning =
  warn_Code :: WarningCode
  warn_Message :: string
  warn_DiffLevel :: SourceDiffLevel

record TTYSpec =
  tty_Interactive :: bool
  tty_Columns :: int
  tty_Rows :: int

record CommandSnapshot =
  cmd_CommandID :: string
  cmd_ArgvTail :: "string list"
  cmd_TTY :: TTYSpec
  cmd_StartedBy :: string
  cmd_StartedByRole :: Role
  cmd_TmuxStatus :: bool
  cmd_State :: CommandState
  cmd_StartedAt :: go_time
  cmd_ExitedAt :: "go_time option"
  cmd_ExitCode :: "int option"
  cmd_FailureReason :: string

record ProjectSnapshot =
  snap_ProjectID :: string
  snap_Role :: Role
  snap_AuthorityState :: AuthorityState
  snap_OwnerWorkspaceInstanceID :: string
  snap_ProjectState :: ProjectState
  snap_CommandSnapshots :: "CommandSnapshot list"
  snap_CanStartCommands :: bool
  snap_SyncEpoch :: u64
  snap_NeedsConfirmation :: bool
  snap_Warnings :: "Warning list"
  snap_CurrentCursor :: u64

record SyncProgress =
  prog_Phase :: string
  prog_Completed :: u64
  prog_Total :: u64
  prog_Percent :: "int option"

definition SyncProgressPhaseBegin :: string where
  "SyncProgressPhaseBegin = ''begin''"

definition SyncProgressPhaseFinalize :: string where
  "SyncProgressPhaseFinalize = ''finalize''"

record ProjectEvent =
  ev_Cursor :: u64
  ev_Type :: ProjectEventType
  ev_Timestamp :: go_time
  ev_OwnerID :: string
  ev_AuthorityState :: AuthorityState
  ev_OwnerWorkspaceInstanceID :: string
  ev_ProjectState :: "ProjectState option"
  ev_NeedsConfirmation :: bool
  ev_SyncEpoch :: u64
  ev_Warning :: "Warning option"
  ev_SyncProgress :: "SyncProgress option"
  ev_Command :: "CommandSnapshot option"

record CommandEvent =
  cev_Cursor :: u64
  cev_CommandID :: string
  cev_Type :: CommandEventType
  cev_Timestamp :: go_time
  cev_ExitCode :: "int option"
  cev_Message :: string

record InvalidateChange =
  inv_Path :: string
  inv_NewPath :: string
  inv_Kind :: InvalidateKind

record InvalidateEvent =
  iev_Cursor :: u64
  iev_Timestamp :: go_time
  iev_Changes :: "InvalidateChange list"

section \<open>Lemmas\<close>

lemma SessionKind_distinct [simp]:
  "SessionKindInteractive \<noteq> SessionKindAuthority" "SessionKindAuthority \<noteq> SessionKindInteractive"
  by (simp_all add: SessionKindInteractive_def SessionKindAuthority_def)

lemma AuthorityState_distinct [simp]:
  "AuthorityStateStable \<noteq> AuthorityStateRebinding" "AuthorityStateRebinding \<noteq> AuthorityStateStable"
  "AuthorityStateStable \<noteq> AuthorityStateAbsent" "AuthorityStateAbsent \<noteq> AuthorityStateStable"
  "AuthorityStateRebinding \<noteq> AuthorityStateAbsent" "AuthorityStateAbsent \<noteq> AuthorityStateRebinding"
  by (simp_all add: AuthorityStateStable_def AuthorityStateRebinding_def AuthorityStateAbsent_def)

lemma AuthorityState_not_empty [simp]:
  "AuthorityStateStable \<noteq> []" "AuthorityStateRebinding \<noteq> []" "AuthorityStateAbsent \<noteq> []"
  by (simp_all add: AuthorityStateStable_def AuthorityStateRebinding_def AuthorityStateAbsent_def)

lemmas authority_text =
  AuthorityStateStable_def AuthorityStateRebinding_def AuthorityStateAbsent_def

lemmas trim_eval = TrimSpace_def trim_left.simps trim_right_rev.simps ascii_space_def

lemma TrimSpace_authority [simp]:
  "TrimSpace AuthorityStateStable = AuthorityStateStable"
  "TrimSpace AuthorityStateRebinding = AuthorityStateRebinding"
  "TrimSpace AuthorityStateAbsent = AuthorityStateAbsent"
  by (simp_all add: authority_text trim_eval)

lemma TrimSpace_session_kind [simp]:
  "TrimSpace SessionKindAuthority = SessionKindAuthority"
  "TrimSpace SessionKindInteractive = SessionKindInteractive"
  by (simp_all add: SessionKindInteractive_def SessionKindAuthority_def trim_eval)

lemma NormalizeAuthorityState_const [simp]:
  "NormalizeAuthorityState AuthorityStateStable = AuthorityStateStable"
  "NormalizeAuthorityState AuthorityStateRebinding = AuthorityStateRebinding"
  "NormalizeAuthorityState AuthorityStateAbsent = AuthorityStateAbsent"
  by (simp_all add: NormalizeAuthorityState_def)

lemma NormalizeAuthorityState_range:
  "NormalizeAuthorityState s \<in> {AuthorityStateStable, AuthorityStateRebinding, AuthorityStateAbsent}"
  by (simp add: NormalizeAuthorityState_def)

lemma NormalizeAuthorityState_not_empty [simp]: "NormalizeAuthorityState s \<noteq> []"
  by (simp add: NormalizeAuthorityState_def)

lemma NormalizeAuthorityState_idem [simp]:
  "NormalizeAuthorityState (NormalizeAuthorityState s) = NormalizeAuthorityState s"
  by (simp add: NormalizeAuthorityState_def)

lemma AuthorityReady_const [simp]:
  "AuthorityReady AuthorityStateStable" "\<not> AuthorityReady AuthorityStateRebinding"
  "\<not> AuthorityReady AuthorityStateAbsent"
  by (simp_all add: AuthorityReady_def)

lemma NormalizeSessionKind_const [simp]:
  "NormalizeSessionKind SessionKindAuthority = SessionKindAuthority"
  "NormalizeSessionKind SessionKindInteractive = SessionKindInteractive"
  by (simp_all add: NormalizeSessionKind_def)

lemma NormalizeSessionKind_idem [simp]:
  "NormalizeSessionKind (NormalizeSessionKind k) = NormalizeSessionKind k"
  by (simp add: NormalizeSessionKind_def)

lemma NewError_inject [simp]: "NewError c m = NewError c' m' \<longleftrightarrow> c = c' \<and> m = m'"
  by (simp add: NewError_def)

lemma AsError_NewError [simp]: "AsError (NewError c m) = Some (c, m)"
  by (simp add: NewError_def)

lemma AsError_not_sentinel: "AsError e \<noteq> None \<Longrightarrow> \<not> errors_Is e s"
  by (induction e) auto

text \<open>A protocol error sent over the wire as its fields comes back as the same error.\<close>

lemma ErrorFields_roundtrip:
  "code \<noteq> [] \<Longrightarrow>
   (case ErrorFields (Some (NewError code message)) fallback of
      (c, m) \<Rightarrow> ErrorFromFields c m fallback') = NewError code message"
  by (simp add: ErrorFields_def ErrorFromFields_def)

lemma NormalizeError_idem: "NormalizeError (NormalizeError e) = NormalizeError e"
  by (auto simp: NormalizeError_def split: option.splits)

section \<open>File system requests\<close>

type_synonym FsOperation = string

definition FsOpLookup :: FsOperation where "FsOpLookup = ''lookup''"
definition FsOpGetAttr :: FsOperation where "FsOpGetAttr = ''getattr''"
definition FsOpReadDir :: FsOperation where "FsOpReadDir = ''readdir''"
definition FsOpOpen :: FsOperation where "FsOpOpen = ''open''"
definition FsOpRead :: FsOperation where "FsOpRead = ''read''"
definition FsOpWrite :: FsOperation where "FsOpWrite = ''write''"
definition FsOpCreate :: FsOperation where "FsOpCreate = ''create''"
definition FsOpMkdir :: FsOperation where "FsOpMkdir = ''mkdir''"
definition FsOpRemove :: FsOperation where "FsOpRemove = ''remove''"
definition FsOpRmdir :: FsOperation where "FsOpRmdir = ''rmdir''"
definition FsOpRename :: FsOperation where "FsOpRename = ''rename''"
definition FsOpTruncate :: FsOperation where "FsOpTruncate = ''truncate''"
definition FsOpChmod :: FsOperation where "FsOpChmod = ''chmod''"
definition FsOpUtimens :: FsOperation where "FsOpUtimens = ''utimens''"
definition FsOpFSync :: FsOperation where "FsOpFSync = ''fsync''"
definition FsOpFlush :: FsOperation where "FsOpFlush = ''flush''"
definition FsOpRelease :: FsOperation where "FsOpRelease = ''release''"

lemmas fs_ops = FsOpLookup_def FsOpGetAttr_def FsOpReadDir_def FsOpOpen_def FsOpRead_def FsOpWrite_def FsOpCreate_def FsOpMkdir_def FsOpRemove_def FsOpRmdir_def FsOpRename_def FsOpTruncate_def FsOpChmod_def FsOpUtimens_def FsOpFSync_def FsOpFlush_def FsOpRelease_def

type_synonym FsOpenIntent = string

definition FsOpenIntentReadOnly :: FsOpenIntent where "FsOpenIntentReadOnly = ''readonly''"
definition FsOpenIntentWritable :: FsOpenIntent where "FsOpenIntentWritable = ''writable''"

definition ErrOwnerMissing :: ErrorCode where "ErrOwnerMissing = ''owner-missing''"
definition ErrUnsupportedPath :: ErrorCode where "ErrUnsupportedPath = ''unsupported-path''"
definition ErrFileCommitFailed :: ErrorCode where "ErrFileCommitFailed = ''file-commit-failed''"
definition ErrOwnerWriteFailed :: ErrorCode where "ErrOwnerWriteFailed = ''owner-write-failed''"
definition ErrUnknownHandle :: ErrorCode where "ErrUnknownHandle = ''unknown-handle''"

record FileMetadata =
  fm_Mode :: "32 word"
  fm_MTime :: go_time
  fm_Size :: int

record ManifestEntry =
  me_Path :: string
  me_IsDir :: bool
  me_Metadata :: FileMetadata
  me_StatFingerprint :: string
  me_ContentHash :: string

record MutationPrecondition =
  pc_Path :: string
  pc_ObjectGeneration :: u64
  pc_DirGeneration :: u64
  pc_MustNotExist :: bool
  pc_ObjectIdentity :: string

record FsRequest =
  rq_Path :: string
  rq_NewPath :: string
  rq_HandleID :: string
  rq_OpenIntent :: FsOpenIntent
  rq_Offset :: int
  rq_Size :: int
  rq_Mode :: "32 word"
  rq_Data :: string

record FsReply =
  rp_ObjectGeneration :: u64
  rp_DirGeneration :: u64
  rp_Conflict :: bool
  rp_ReadOnly :: bool
  rp_HandleID :: string
  rp_Invalidations :: "InvalidateChange list"
  rp_Metadata :: FileMetadata
  rp_IsDir :: bool
  rp_Data :: string

end
