(* ===== verification/Event_Stream.thy ===== *)
theory Event_Stream
  imports Proto
begin

text \<open>
  The retained event log \<open>internal/eventstream/store.go\<close>: a bounded suffix of an append-only
  sequence, read by cursor, with one-slot wake-up channels for its subscribers.

  A channel \<open>chan struct{}\<close> of capacity one is the Boolean \<open>there is a token in it\<close>;
  \<open>st_closed\<close> lists the subscribers whose channel was closed. The mutex makes every method one
  atomic step, so each method is one function on the store.
\<close>

section \<open>The store\<close>

record 'e CursorCodec =
  cc_Name :: string
  cc_GetCursor :: "('e \<Rightarrow> u64) option"
  cc_SetCursor :: "('e \<Rightarrow> u64 \<Rightarrow> 'e) option"
  cc_Clone :: "('e \<Rightarrow> 'e) option"

record 'e Store =
  st_retention :: int
  st_cursor :: u64
  st_nextSubscriberID :: u64
  st_events :: "'e list"
  st_subscribers :: "(u64, bool) gomap"
  st_closed :: "u64 list"
  st_codec :: "'e CursorCodec"

definition prepareCursorCodec :: "'e CursorCodec \<Rightarrow> 'e CursorCodec res" where
  "prepareCursorCodec codec =
     (if cc_GetCursor codec = None then Inl (PlainErr ''eventstream: GetCursor is required'')
      else if cc_SetCursor codec = None then Inl (PlainErr ''eventstream: SetCursor is required'')
      else
        let codec1 = (if cc_Clone codec = None then codec\<lparr>cc_Clone := Some (\<lambda>event. event)\<rparr> else codec);
            codec2 = (if cc_Name codec1 = [] then codec1\<lparr>cc_Name := ''event''\<rparr> else codec1)
        in Inr codec2)"

definition newStore :: "int \<Rightarrow> 'e CursorCodec \<Rightarrow> 'e Store" where
  "newStore retention codec =
     \<lparr>st_retention = retention, st_cursor = 0, st_nextSubscriberID = 0, st_events = [],
      st_subscribers = [], st_closed = [], st_codec = codec\<rparr>"

definition New :: "int \<Rightarrow> 'e CursorCodec \<Rightarrow> 'e Store res" where
  "New retention codec =
     (let retention1 = (if retention \<le> 0 then 1 else retention)
      in case prepareCursorCodec codec of
           Inl e \<Rightarrow> Inl e
         | Inr codec1 \<Rightarrow> Inr (newStore retention1 codec1))"

definition CurrentCursor :: "'e Store \<Rightarrow> u64" where
  "CurrentCursor s = st_cursor s"

abbreviation codec_get :: "'e Store \<Rightarrow> 'e \<Rightarrow> u64" where
  "codec_get s \<equiv> the (cc_GetCursor (st_codec s))"

abbreviation codec_set :: "'e Store \<Rightarrow> 'e \<Rightarrow> u64 \<Rightarrow> 'e" where
  "codec_set s \<equiv> the (cc_SetCursor (st_codec s))"

abbreviation codec_clone :: "'e Store \<Rightarrow> 'e \<Rightarrow> 'e" where
  "codec_clone s \<equiv> the (cc_Clone (st_codec s))"

definition eventsSinceLocked :: "u64 \<Rightarrow> 'e Store \<Rightarrow> 'e list res" where
  "eventsSinceLocked since s =
     (if since > st_cursor s then
        Inl (NewError ErrCursorExpired (cc_Name (st_codec s) @ '' cursor is ahead of the current head''))
      else if st_events s = [] then Inr []
      else
        let oldest = codec_get s (st_events s ! 0)
        in if since + 1 < oldest then
             Inl (NewError ErrCursorExpired (cc_Name (st_codec s) @ '' cursor is no longer retained''))
           else Inr (map (codec_clone s) (filter (\<lambda>event. codec_get s event > since) (st_events s))))"

definition EventsSince :: "u64 \<Rightarrow> 'e Store \<Rightarrow> 'e list res" where
  "EventsSince since s = eventsSinceLocked since s"

definition Subscribe :: "u64 \<Rightarrow> 'e Store \<Rightarrow> ('e list \<times> u64) res \<times> 'e Store" where
  "Subscribe since s =
     (case eventsSinceLocked since s of
        Inl e \<Rightarrow> (Inl e, s)
      | Inr events \<Rightarrow>
          let subscriberID = st_nextSubscriberID s + 1
          in (Inr (events, subscriberID),
              s\<lparr>st_nextSubscriberID := subscriberID,
                st_subscribers := AList.update subscriberID False (st_subscribers s)\<rparr>))"

fun append_loop :: "'e list \<Rightarrow> 'e list \<Rightarrow> 'e Store \<Rightarrow> 'e list \<times> 'e Store" where
  "append_loop [] appended s = (appended, s)"
| "append_loop (event # events) appended s =
     (let copy = codec_clone s event;
          cursor = st_cursor s + 1;
          copy = codec_set s copy cursor
      in append_loop events (appended @ [codec_clone s copy])
           (s\<lparr>st_cursor := cursor, st_events := st_events s @ [copy]\<rparr>))"

definition trim_retention :: "'e Store \<Rightarrow> 'e Store" where
  "trim_retention s =
     (if int (length (st_events s)) > st_retention s then
        s\<lparr>st_events := drop (length (st_events s) - nat (st_retention s)) (st_events s)\<rparr>
      else s)"

definition notify_subscribers :: "'e Store \<Rightarrow> 'e Store" where
  "notify_subscribers s =
     s\<lparr>st_subscribers := map (\<lambda>(id, token). (id, True)) (st_subscribers s)\<rparr>"

definition AppendBatch :: "'e list \<Rightarrow> 'e Store \<Rightarrow> 'e list \<times> 'e Store" where
  "AppendBatch events s =
     (if events = [] then ([], s)
      else
        let (appended, s1) = append_loop events [] s
        in (appended, notify_subscribers (trim_retention s1)))"

definition Append :: "'e \<Rightarrow> 'e Store \<Rightarrow> 'e \<times> 'e Store" where
  "Append event s = (let (events, s1) = AppendBatch [event] s in (events ! 0, s1))"

definition Unsubscribe :: "u64 \<Rightarrow> 'e Store \<Rightarrow> 'e Store" where
  "Unsubscribe subscriberID s =
     (case map_of (st_subscribers s) subscriberID of
        None \<Rightarrow> s
      | Some _ \<Rightarrow>
          s\<lparr>st_subscribers := AList.delete subscriberID (st_subscribers s),
            st_closed := subscriberID # st_closed s\<rparr>)"

definition CloseAll :: "'e Store \<Rightarrow> 'e Store" where
  "CloseAll s =
     s\<lparr>st_subscribers := [], st_closed := map fst (st_subscribers s) @ st_closed s\<rparr>"

text \<open>The receive \<open>_, ok := <-ch\<close> of a subscriber whose channel holds a token.\<close>

definition take_token :: "u64 \<Rightarrow> 'e Store \<Rightarrow> 'e Store" where
  "take_token subscriberID s =
     s\<lparr>st_subscribers := AList.update subscriberID False (st_subscribers s)\<rparr>"

section \<open>The specification: an append-only log\<close>

text \<open>The events of a log carry the cursors 1, 2, and so on.\<close>

fun stamp :: "('e \<Rightarrow> u64 \<Rightarrow> 'e) \<Rightarrow> nat \<Rightarrow> 'e list \<Rightarrow> 'e list" where
  "stamp put n [] = []"
| "stamp put n (e # es) = put e (of_nat (Suc n)) # stamp put (Suc n) es"

lemma length_stamp [simp]: "length (stamp put n es) = length es"
  by (induction es arbitrary: n) auto

lemma stamp_append: "stamp put n (es @ fs) = stamp put n es @ stamp put (n + length es) fs"
  by (induction es arbitrary: n) auto

lemma stamp_eq_Nil [simp]: "stamp put n es = [] \<longleftrightarrow> es = []"
  by (cases es) auto

text \<open>
  A store holds a log when its cursor counts the log and its events are the last \<open>retention\<close>
  stamped events. The bound says that the 64-bit cursor has not wrapped.
\<close>

definition store_holds :: "('e \<Rightarrow> u64 \<Rightarrow> 'e) \<Rightarrow> 'e Store \<Rightarrow> 'e list \<Rightarrow> bool" where
  "store_holds put s log \<longleftrightarrow>
     0 < st_retention s \<and> length log < 2 ^ 64 - 1 \<and>
     st_cursor s = of_nat (length log) \<and>
     st_events s = drop (length log - nat (st_retention s)) (stamp put 0 log)"

text \<open>What a read of the log from position \<open>k\<close> gives when the last \<open>n\<close> events are retained.\<close>

definition log_since :: "string \<Rightarrow> nat \<Rightarrow> nat \<Rightarrow> 'e list \<Rightarrow> 'e list res" where
  "log_since name n k log =
     (if length log < k then
        Inl (NewError ErrCursorExpired (name @ '' cursor is ahead of the current head''))
      else if k < length log - n then
        Inl (NewError ErrCursorExpired (name @ '' cursor is no longer retained''))
      else Inr (drop k log))"

section \<open>The codec interface\<close>

locale event_codec =
  fixes codec :: "'e CursorCodec"
    and get :: "'e \<Rightarrow> u64"
    and put :: "'e \<Rightarrow> u64 \<Rightarrow> 'e"
  assumes GetCursor: "cc_GetCursor codec = Some get"
    and SetCursor: "cc_SetCursor codec = Some put"
    and get_put: "get (put e k) = k"
    and Clone: "cc_Clone codec = Some clone \<Longrightarrow> clone e = e"
begin

lemma get_stamp: "i < length es \<Longrightarrow> get (stamp put n es ! i) = of_nat (n + Suc i)"
proof (induction es arbitrary: n i)
  case (Cons e es)
  then show ?case by (cases i) (auto simp: get_put)
qed simp

lemma prepared: "\<exists>pc. prepareCursorCodec codec = Inr pc \<and> cc_GetCursor pc = Some get \<and>
    cc_SetCursor pc = Some put \<and> (\<exists>f. cc_Clone pc = Some f \<and> (\<forall>e. f e = e))"
proof (cases "cc_Clone codec")
  case None
  then show ?thesis
    by (simp add: prepareCursorCodec_def GetCursor SetCursor Let_def)
next
  case (Some f)
  then show ?thesis
    by (simp add: prepareCursorCodec_def GetCursor SetCursor Let_def Clone)
qed

text \<open>A store of this codec.\<close>

definition is_store :: "'e Store \<Rightarrow> bool" where
  "is_store s \<longleftrightarrow> cc_GetCursor (st_codec s) = Some get \<and> cc_SetCursor (st_codec s) = Some put \<and>
     (\<exists>f. cc_Clone (st_codec s) = Some f \<and> (\<forall>e. f e = e))"

lemma New_ok: "\<exists>s. New retention codec = Inr s \<and> is_store s \<and> store_holds put s []"
  using prepared by (auto simp: New_def newStore_def is_store_def store_holds_def Let_def)

lemma is_store_simps:
  assumes "is_store s"
  shows "codec_get s = get" "codec_set s = put" "codec_clone s = (\<lambda>e. e)"
  using assms by (auto simp: is_store_def)

lemma append_loop_eq:
  "is_store s \<Longrightarrow> st_cursor s = of_nat n \<Longrightarrow>
   append_loop events acc s =
     (acc @ stamp put n events,
      s\<lparr>st_cursor := of_nat (n + length events), st_events := st_events s @ stamp put n events\<rparr>)"
proof (induction events arbitrary: acc s n)
  case Nil
  then show ?case by simp
next
  case (Cons e es)
  let ?s = "s\<lparr>st_cursor := st_cursor s + 1, st_events := st_events s @ [put e (st_cursor s + 1)]\<rparr>"
  have "is_store ?s" "st_cursor ?s = of_nat (Suc n)"
    using Cons.prems by (simp_all add: is_store_def add.commute)
  from Cons.IH [OF this] show ?case
    using Cons.prems by (simp add: is_store_simps Let_def add.commute)
qed

lemma AppendBatch_store: "is_store s \<Longrightarrow> is_store (snd (AppendBatch events s))"
proof -
  assume s: "is_store s"
  have "st_cursor s = of_nat (unat (st_cursor s))" by simp
  from append_loop_eq [OF s this] s show ?thesis
    by (auto simp: AppendBatch_def trim_retention_def notify_subscribers_def is_store_def
        simp del: of_nat_unat)
qed

lemma AppendBatch_holds:
  assumes s: "is_store s" "store_holds put s log" and len: "length log + length events < 2 ^ 64 - 1"
  shows "fst (AppendBatch events s) = stamp put (length log) events"
    and "store_holds put (snd (AppendBatch events s)) (log @ events)"
proof -
  let ?r = "nat (st_retention s)"
  have loop: "append_loop events [] s = (stamp put (length log) events,
      s\<lparr>st_cursor := of_nat (length log + length events),
        st_events := st_events s @ stamp put (length log) events\<rparr>)"
    using append_loop_eq [OF s(1), of "length log" events "[]"] s(2) by (simp add: store_holds_def)
  show "fst (AppendBatch events s) = stamp put (length log) events"
    by (simp add: AppendBatch_def loop)
  show "store_holds put (snd (AppendBatch events s)) (log @ events)"
  proof (cases "events = []")
    case True
    with s(2) show ?thesis by (simp add: AppendBatch_def)
  next
    case False
    let ?all = "stamp put 0 log @ stamp put (length log) events"
    have held: "st_events s @ stamp put (length log) events = drop (length log - ?r) ?all"
      using s(2) by (simp add: store_holds_def)
    have kept: "drop (length (drop (length log - ?r) ?all) - ?r) (drop (length log - ?r) ?all) =
        drop (length log + length events - ?r) ?all"
      by (cases "length log \<le> ?r") (simp_all add: add.commute)
    have small: "drop (length log - ?r) ?all = drop (length log + length events - ?r) ?all"
      if "\<not> int (length (drop (length log - ?r) ?all)) > st_retention s"
    proof -
      have "length log + length events - (length log - ?r) \<le> ?r"
        using that s(2) by (simp add: store_holds_def)
      then have "length log - ?r = length log + length events - ?r" by arith
      then show ?thesis by simp
    qed
    from False s(2) len kept small show ?thesis
      by (auto simp: AppendBatch_def loop trim_retention_def notify_subscribers_def
          store_holds_def held stamp_append)
  qed
qed

lemma eventsSinceLocked_eq:
  assumes s: "is_store s" "store_holds put s log"
  shows "eventsSinceLocked since s =
    log_since (cc_Name (st_codec s)) (nat (st_retention s)) (unat since) (stamp put 0 log)"
proof -
  let ?r = "nat (st_retention s)" and ?n = "length log"
  have len: "?n < 2 ^ 64 - 1" and cur: "st_cursor s = of_nat ?n" and r: "0 < ?r"
    and evs: "st_events s = drop (?n - ?r) (stamp put 0 log)"
    using s(2) by (auto simp: store_holds_def)
  have unat_cur: "unat (st_cursor s) = ?n"
    using len cur by (simp add: unat_of_nat64)
  have get_nth: "get (stamp put 0 log ! i) = of_nat (Suc i)" "unat (of_nat (Suc i) :: u64) = Suc i"
    if "i < ?n" for i
    using that len get_stamp [of i log 0] by (simp_all add: unat_of_nat64 del: of_nat_Suc)
  have filt: "filter (\<lambda>e. since < get e) (st_events s) = drop (unat since) (stamp put 0 log)"
    if "?n - ?r \<le> unat since"
  proof -
    have "filter (\<lambda>e. since < get e) (st_events s) = drop (unat since - (?n - ?r)) (st_events s)"
      by (rule filter_eq_drop) (auto simp: evs get_nth less_iff_unat simp del: of_nat_Suc)
    with that show ?thesis by (simp add: evs)
  qed
  show ?thesis
  proof (cases "log = [] \<or> ?n < unat since")
    case True
    then show ?thesis
      by (auto simp: eventsSinceLocked_def log_since_def less_iff_unat unat_cur evs)
  next
    case False
    then have ne: "log \<noteq> []" and le: "unat since \<le> ?n" by auto
    have oldest: "get (st_events s ! 0) = of_nat (Suc (?n - ?r))" "unat (of_nat (Suc (?n - ?r)) :: u64) = Suc (?n - ?r)"
      using get_nth [of "?n - ?r"] ne r by (simp_all add: evs del: of_nat_Suc)
    have "unat (since + 1) = Suc (unat since)"
      using le len by (intro unat_plus_one) (auto simp: plus_one_neq_0_iff)
    with False oldest filt r show ?thesis
      by (auto simp: eventsSinceLocked_def log_since_def Let_def is_store_simps [OF s(1)]
          less_iff_unat unat_cur evs drop_map simp del: of_nat_Suc)
  qed
qed

lemma Subscribe_holds:
  assumes "is_store s" "store_holds put s log"
  shows "is_store (snd (Subscribe since s))" "store_holds put (snd (Subscribe since s)) log"
  using assms by (auto simp: Subscribe_def is_store_def store_holds_def Let_def split: sum.splits)

lemma take_token_holds:
  assumes "is_store s" "store_holds put s log"
  shows "is_store (take_token sid s)" "store_holds put (take_token sid s) log"
  using assms by (auto simp: take_token_def is_store_def store_holds_def)

end

section \<open>Subscribers\<close>

lemma AppendBatch_frame [simp]:
  "st_codec (snd (AppendBatch es s)) = st_codec s"
  "st_retention (snd (AppendBatch es s)) = st_retention s"
proof -
  have "st_codec (snd (append_loop es acc s')) = st_codec s' \<and>
      st_retention (snd (append_loop es acc s')) = st_retention s'" for acc and s' :: "'a Store"
    by (induction es acc s' rule: append_loop.induct) (simp_all add: Let_def)
  then show "st_codec (snd (AppendBatch es s)) = st_codec s"
    "st_retention (snd (AppendBatch es s)) = st_retention s"
    by (simp_all add: AppendBatch_def notify_subscribers_def trim_retention_def split_def Let_def)
qed

lemma AppendBatch_subscribers:
  "events \<noteq> [] \<Longrightarrow>
   st_subscribers (snd (AppendBatch events s)) = map (\<lambda>(sid, token). (sid, True)) (st_subscribers s)"
proof -
  have "st_subscribers (snd (append_loop es acc s')) = st_subscribers s'" for es acc and s' :: "'a Store"
    by (induction es acc s' rule: append_loop.induct) (simp_all add: Let_def)
  then show "events \<noteq> [] \<Longrightarrow> ?thesis"
    by (simp add: AppendBatch_def notify_subscribers_def trim_retention_def split_def Let_def)
qed

lemma map_of_notified:
  "map_of (map (\<lambda>(sid, token). (sid, True)) m) sid = map_option (\<lambda>_. True) (map_of m sid)"
  by (induction m) auto

text \<open>
  A reader of a stream as \<open>streamProjectEvents\<close> (\<open>internal/control/project_session_usecase.go\<close>)
  runs it: it subscribes, emits what it was given, then waits for its channel; on a token it reads
  the events after its cursor. Between taking the token and reading, other goroutines may append.
\<close>

datatype phase = Waiting | Draining | Failed

record 'e reader =
  rd_store :: "'e Store"
  rd_log :: "'e list"
  rd_id :: u64
  rd_phase :: phase
  rd_cursor :: u64
  rd_emitted :: "'e list"

inductive reader_step :: "('e \<Rightarrow> u64) \<Rightarrow> 'e reader \<Rightarrow> 'e reader \<Rightarrow> bool" for get where
  append:
    "es \<noteq> [] \<Longrightarrow> length (rd_log r) + length es < 2 ^ 64 - 1 \<Longrightarrow>
     reader_step get r (r\<lparr>rd_store := snd (AppendBatch es (rd_store r)), rd_log := rd_log r @ es\<rparr>)"
| wake:
    "rd_phase r = Waiting \<Longrightarrow> map_of (st_subscribers (rd_store r)) (rd_id r) = Some True \<Longrightarrow>
     reader_step get r (r\<lparr>rd_store := take_token (rd_id r) (rd_store r), rd_phase := Draining\<rparr>)"
| drain:
    "rd_phase r = Draining \<Longrightarrow> EventsSince (rd_cursor r) (rd_store r) = Inr es \<Longrightarrow>
     reader_step get r
       (r\<lparr>rd_phase := Waiting, rd_emitted := rd_emitted r @ es,
          rd_cursor := (if es = [] then rd_cursor r else get (last es))\<rparr>)"
| expired:
    "rd_phase r = Draining \<Longrightarrow> EventsSince (rd_cursor r) (rd_store r) = Inl e \<Longrightarrow>
     reader_step get r (r\<lparr>rd_phase := Failed\<rparr>)"

text \<open>The state after a successful \<open>Subscribe\<close> from \<open>since\<close>, with the first events emitted.\<close>

inductive reader_reachable :: "('e \<Rightarrow> u64) \<Rightarrow> 'e Store \<Rightarrow> 'e list \<Rightarrow> u64 \<Rightarrow> 'e reader \<Rightarrow> bool"
  for get s log since where
  start:
    "Subscribe since s = (Inr (es, sid), s') \<Longrightarrow>
     reader_reachable get s log since
       \<lparr>rd_store = s', rd_log = log, rd_id = sid, rd_phase = Waiting,
        rd_cursor = (if es = [] then since else get (last es)), rd_emitted = es\<rparr>"
| step:
    "reader_reachable get s log since r \<Longrightarrow> reader_step get r r' \<Longrightarrow>
     reader_reachable get s log since r'"

text \<open>
  The invariant: the reader has emitted exactly the log from its start to its cursor, and while it
  waits it has either seen everything or has a token.
\<close>

definition reader_inv :: "('e \<Rightarrow> u64 \<Rightarrow> 'e) \<Rightarrow> u64 \<Rightarrow> 'e reader \<Rightarrow> bool" where
  "reader_inv put since r \<longleftrightarrow>
     unat since \<le> unat (rd_cursor r) \<and> unat (rd_cursor r) \<le> length (rd_log r) \<and>
     rd_emitted r = drop (unat since) (take (unat (rd_cursor r)) (stamp put 0 (rd_log r))) \<and>
     (\<exists>t. map_of (st_subscribers (rd_store r)) (rd_id r) = Some t \<and>
        (rd_phase r = Waiting \<longrightarrow> t \<or> unat (rd_cursor r) = length (rd_log r)))"

context event_codec
begin

lemma last_stamp_cursor:
  assumes "length log < 2 ^ 64 - 1" "log \<noteq> []" "k < length log"
  shows "unat (get (last (drop k (stamp put 0 log)))) = length log"
proof -
  have "get (last (drop k (stamp put 0 log))) = get (stamp put 0 log ! (length log - 1))"
    using assms by (simp add: last_conv_nth nth_append)
  also have "\<dots> = of_nat (length log)"
    using assms get_stamp [of "length log - 1" log 0] by simp
  finally show ?thesis using assms by (simp add: unat_of_nat64)
qed

lemma EventsSince_ok:
  assumes "is_store s" "store_holds put s log" "EventsSince since s = Inr es"
  shows "unat since \<le> length log" "es = drop (unat since) (stamp put 0 log)"
    "unat (if es = [] then since else get (last es)) = length log"
proof -
  have eq: "log_since (cc_Name (st_codec s)) (nat (st_retention s)) (unat since) (stamp put 0 log) = Inr es"
    using assms eventsSinceLocked_eq by (simp add: EventsSince_def)
  then show le: "unat since \<le> length log" and es: "es = drop (unat since) (stamp put 0 log)"
    by (auto simp: log_since_def split: if_splits)
  show "unat (if es = [] then since else get (last es)) = length log"
    using le last_stamp_cursor [of log "unat since"] assms(2)
    by (cases "unat since = length log") (fastforce simp: es store_holds_def)+
qed

lemma reader_step_inv:
  assumes "reader_step get r r'" "is_store (rd_store r)" "store_holds put (rd_store r) (rd_log r)"
    "reader_inv put since r"
  shows "is_store (rd_store r') \<and> store_holds put (rd_store r') (rd_log r') \<and> reader_inv put since r'"
  using assms
proof (induction rule: reader_step.induct)
  case (append es r)
  then show ?case
    by (auto simp: reader_inv_def AppendBatch_store AppendBatch_holds AppendBatch_subscribers
        map_of_notified stamp_append)
next
  case (wake r)
  then show ?case
    by (auto simp: reader_inv_def take_token_holds) (auto simp: take_token_def)
next
  case (drain r es)
  note ok = EventsSince_ok [OF drain(3,4,2)]
  then show ?case
    using drain by (auto simp: reader_inv_def drop_take_append_drop)
next
  case (expired r e)
  then show ?case by (auto simp: reader_inv_def)
qed

lemma reader_reachable_inv:
  assumes "is_store s" "store_holds put s log" "reader_reachable get s log since r"
  shows "is_store (rd_store r) \<and> store_holds put (rd_store r) (rd_log r) \<and> reader_inv put since r"
  using assms(3)
proof (induction rule: reader_reachable.induct)
  case (start es sid s')
  then have ev: "EventsSince since s = Inr es"
    and s': "s' = snd (Subscribe since s)" "map_of (st_subscribers s') sid = Some False"
    by (auto simp: Subscribe_def EventsSince_def Let_def split: sum.splits)
  from EventsSince_ok [OF assms(1,2) ev] Subscribe_holds [OF assms(1,2), of since] s'
  show ?case by (auto simp: reader_inv_def)
next
  case (step r r')
  then show ?case using reader_step_inv by blast
qed

end

end
