(* ===== verification/Project_Instance.thy ===== *)
theory Project_Instance
  imports Event_Stream
begin

text \<open>
  One shared project: \<open>internal/project/instance.go\<close>. The instance's mutex makes every method one
  atomic step, so a method is a function from the instance to its result and the new instance.

  \<open>wall\<close> is the value of \<open>time.Now().UTC()\<close>, which \<open>appendEventLocked\<close> reads when an event has no
  time stamp; \<open>now\<close> is the caller's time. \<open>in_doneCloses\<close> counts the calls \<open>close(i.done)\<close>: Go
  panics at the second one.
\<close>

section \<open>State\<close>

record clientState =
  cl_ID :: string
  cl_Role :: Role
  cl_Digest :: WorkspaceDigest
  cl_WorkspaceRoot :: string
  cl_WorkspaceInstanceID :: string
  cl_SessionKind :: SessionKind
  cl_JoinedAt :: go_time
  cl_Warnings :: "Warning list"

record ClientRemoval =
  rm_Removed :: bool
  rm_RemovedAuthority :: bool
  rm_RemainingParticipants :: int
  rm_AuthorityRebinding :: bool
  rm_AuthorityAbsent :: bool

record Instance =
  in_key :: ProjectKey
  in_state :: ProjectState
  in_authorityState :: AuthorityState
  in_terminateReason :: string
  in_doneCloses :: nat
  in_syncEpoch :: u64
  in_nextCommandID :: u64
  in_ownerID :: string
  in_ownerWorkspaceInstanceID :: string
  in_warnings :: "Warning list"
  in_clients :: "(string, clientState) gomap"
  in_commands :: "(string, CommandSnapshot) gomap"
  in_eventStream :: "ProjectEvent Store"

definition defaultEventRetention :: int where
  "defaultEventRetention = 128"

text \<open>Copies of values: in a model without aliasing they are the values themselves.\<close>

definition cloneCommand :: "CommandSnapshot \<Rightarrow> CommandSnapshot" where
  "cloneCommand command =
     command\<lparr>cmd_ArgvTail := [] @ cmd_ArgvTail command,
       cmd_ExitedAt := (case cmd_ExitedAt command of None \<Rightarrow> None | Some t \<Rightarrow> Some t),
       cmd_ExitCode := (case cmd_ExitCode command of None \<Rightarrow> None | Some c \<Rightarrow> Some c)\<rparr>"

definition cloneProjectEvent :: "ProjectEvent \<Rightarrow> ProjectEvent" where
  "cloneProjectEvent event =
     event\<lparr>ev_Warning := (case ev_Warning event of None \<Rightarrow> None | Some w \<Rightarrow> Some w),
       ev_SyncProgress := (case ev_SyncProgress event of None \<Rightarrow> None | Some p \<Rightarrow> Some p),
       ev_Command := map_option cloneCommand (ev_Command event)\<rparr>"

definition projectEventCodec :: "ProjectEvent CursorCodec" where
  "projectEventCodec =
     \<lparr>cc_Name = ''project'', cc_GetCursor = Some ev_Cursor,
      cc_SetCursor = Some (\<lambda>event cursor. event\<lparr>ev_Cursor := cursor\<rparr>),
      cc_Clone = Some cloneProjectEvent\<rparr>"

definition newProjectEventStream :: "int \<Rightarrow> ProjectEvent Store res" where
  "newProjectEventStream retention = New retention projectEventCodec"

definition NewInstance :: "ProjectKey \<Rightarrow> Instance res" where
  "NewInstance key =
     (if key_Username key = [] \<or> key_ProjectID key = [] then
        Inl (NewError ErrInvalidArgument ''project key requires username and project id'')
      else
        case newProjectEventStream defaultEventRetention of
          Inl e \<Rightarrow> Inl e
        | Inr eventStream \<Rightarrow>
            Inr \<lparr>in_key = key, in_state = ProjectStateInitializing,
                 in_authorityState = AuthorityStateAbsent, in_terminateReason = [],
                 in_doneCloses = 0, in_syncEpoch = 0, in_nextCommandID = 0, in_ownerID = [],
                 in_ownerWorkspaceInstanceID = [], in_warnings = [], in_clients = [],
                 in_commands = [], in_eventStream = eventStream\<rparr>)"

section \<open>Events\<close>

text \<open>An event literal with only its type and time stamp set.\<close>

definition project_event :: "ProjectEventType \<Rightarrow> go_time \<Rightarrow> ProjectEvent" where
  "project_event type now =
     \<lparr>ev_Cursor = 0, ev_Type = type, ev_Timestamp = now, ev_OwnerID = [], ev_AuthorityState = [],
      ev_OwnerWorkspaceInstanceID = [], ev_ProjectState = None, ev_NeedsConfirmation = False,
      ev_SyncEpoch = 0, ev_Warning = None, ev_SyncProgress = None, ev_Command = None\<rparr>"

text \<open>The fields \<open>appendEventLocked\<close> completes, and the append.\<close>

definition complete_event :: "go_time \<Rightarrow> Instance \<Rightarrow> ProjectEvent \<Rightarrow> ProjectEvent" where
  "complete_event wall i event =
     (let event = (if ev_Type event \<noteq> ProjectEventNeedsConfirmation
                   then event\<lparr>ev_NeedsConfirmation := (in_state i = ProjectStateNeedsConfirmation)\<rparr>
                   else event);
          event = (if ev_AuthorityState event = []
                   then event\<lparr>ev_AuthorityState := NormalizeAuthorityState (in_authorityState i)\<rparr>
                   else event);
          event = (if ev_OwnerWorkspaceInstanceID event = []
                   then event\<lparr>ev_OwnerWorkspaceInstanceID := in_ownerWorkspaceInstanceID i\<rparr>
                   else event)
      in if ev_Timestamp event = 0 then event\<lparr>ev_Timestamp := wall\<rparr> else event)"

definition appendEventLocked :: "go_time \<Rightarrow> ProjectEvent \<Rightarrow> Instance \<Rightarrow> Instance" where
  "appendEventLocked wall event i =
     i\<lparr>in_eventStream := snd (Append (complete_event wall i event) (in_eventStream i))\<rparr>"

section \<open>Roles\<close>

definition visibleRoleLocked :: "string \<Rightarrow> Instance \<Rightarrow> Role" where
  "visibleRoleLocked clientID i =
     (case map_of (in_clients i) clientID of
        None \<Rightarrow> RoleFollower
      | Some client \<Rightarrow>
          if cl_Role client = RoleOwner then RoleOwner
          else if cl_WorkspaceInstanceID client \<noteq> [] \<and>
                  cl_WorkspaceInstanceID client = in_ownerWorkspaceInstanceID i
          then RoleOwner
          else RoleFollower)"

definition isVisibleOwnerLocked :: "string \<Rightarrow> Instance \<Rightarrow> bool" where
  "isVisibleOwnerLocked clientID i \<longleftrightarrow> visibleRoleLocked clientID i = RoleOwner"

definition requireAuthorityLocked :: "string \<Rightarrow> Instance \<Rightarrow> err option" where
  "requireAuthorityLocked clientID i =
     (case map_of (in_clients i) clientID of
        None \<Rightarrow> Some (NewError ErrUnknownClient ''client is not attached'')
      | Some client \<Rightarrow>
          if cl_Role client \<noteq> RoleOwner \<or> in_ownerID i \<noteq> clientID
          then Some (NewError ErrPermissionDenied ''operation requires the active authority session'')
          else None)"

definition requireOwnerLocked :: "string \<Rightarrow> Instance \<Rightarrow> err option" where
  "requireOwnerLocked clientID i = requireAuthorityLocked clientID i"

section \<open>Workspace digests and source drift\<close>

definition normalizeWorkspaceRoot :: "string \<Rightarrow> string" where
  "normalizeWorkspaceRoot root =
     (let root = TrimSpace root in if root = [] then [] else Clean root)"

definition attachRootsDiffer :: "string \<Rightarrow> string \<Rightarrow> bool" where
  "attachRootsDiffer left right =
     (let left = normalizeWorkspaceRoot left; right = normalizeWorkspaceRoot right
      in if left = [] \<or> right = [] then False
         else if GOOS = ''windows'' then \<not> EqualFold left right
         else left \<noteq> right)"

record workspaceDigestSummary =
  sum_Files :: int
  sum_Root :: string

fun parse_digest_parts ::
  "string list \<Rightarrow> int option \<Rightarrow> string option \<Rightarrow> workspaceDigestSummary option" where
  "parse_digest_parts [] files root =
     (case (files, root) of
        (Some f, Some r) \<Rightarrow> Some \<lparr>sum_Files = f, sum_Root = r\<rparr>
      | _ \<Rightarrow> None)"
| "parse_digest_parts (part # parts) files root =
     (case Cut (TrimSpace part) (CHR ''='') of
        None \<Rightarrow> parse_digest_parts parts files root
      | Some (key, value) \<Rightarrow>
          if key = ''files'' then
            if files \<noteq> None then None
            else (case Atoi value of
                    None \<Rightarrow> None
                  | Some n \<Rightarrow> if n < 0 then None else parse_digest_parts parts (Some n) root)
          else if key = ''root'' then
            if root \<noteq> None \<or> value = [] then None
            else parse_digest_parts parts files (Some value)
          else parse_digest_parts parts files root)"

definition parseWorkspaceDigest :: "WorkspaceDigest \<Rightarrow> workspaceDigestSummary option" where
  "parseWorkspaceDigest digest =
     (if dig_Algorithm digest \<noteq> ''workspace-sha256'' then None
      else parse_digest_parts (Split (dig_Value digest) (CHR '';'')) None None)"

definition sourceDiffLevelLocked ::
  "string \<Rightarrow> WorkspaceDigest \<Rightarrow> string \<Rightarrow> Instance \<Rightarrow> SourceDiffLevel" where
  "sourceDiffLevelLocked clientID digest workspaceRoot i =
     (let client = map_of (in_clients i) clientID
      in if (case client of Some c \<Rightarrow> cl_Role c = RoleOwner \<and> in_ownerID i = clientID | None \<Rightarrow> False)
         then SourceDiffNone
         else if (case client of
                    Some c \<Rightarrow> cl_WorkspaceInstanceID c \<noteq> [] \<and>
                      cl_WorkspaceInstanceID c = in_ownerWorkspaceInstanceID i
                  | None \<Rightarrow> False)
         then SourceDiffNone
         else case map_of (in_clients i) (in_ownerID i) of
           None \<Rightarrow> SourceDiffNone
         | Some owner \<Rightarrow>
             let reusedWorkspaceRoot = attachRootsDiffer (cl_WorkspaceRoot owner) workspaceRoot;
                 same = (if reusedWorkspaceRoot then SourceDiffMinor else SourceDiffNone)
             in if IsZero (cl_Digest owner) \<or> IsZero digest then same
                else if cl_Digest owner = digest then same
                else case (parseWorkspaceDigest (cl_Digest owner), parseWorkspaceDigest digest) of
                  (Some ownerSummary, Some clientSummary) \<Rightarrow>
                    if sum_Root ownerSummary = sum_Root clientSummary then same
                    else if \<bar>sum_Files ownerSummary - sum_Files clientSummary\<bar> \<le> 2
                    then SourceDiffMinor
                    else SourceDiffSevere
                | _ \<Rightarrow> SourceDiffSevere)"

definition sourceDriftWarningLocked :: "string \<Rightarrow> SourceDiffLevel \<Rightarrow> Instance \<Rightarrow> Warning" where
  "sourceDriftWarningLocked clientID diff i =
     (let ownerRoot = (case map_of (in_clients i) (in_ownerID i) of
                         Some owner \<Rightarrow> cl_WorkspaceRoot owner | None \<Rightarrow> []);
          clientRoot = (case map_of (in_clients i) clientID of
                          Some client \<Rightarrow> cl_WorkspaceRoot client | None \<Rightarrow> []);
          message = (case diff of
              SourceDiffMinor \<Rightarrow> ''project key is already attached to another local workspace; current attach remains a follower and only the active owner may keep writing''
            | SourceDiffSevere \<Rightarrow> ''project key is already attached to another local workspace with incompatible content; project is locked until reconcile is confirmed''
            | _ \<Rightarrow> ''workspace source drift detected'');
          message = (if attachRootsDiffer ownerRoot clientRoot
                     then message @ '' (owner='' @ ownerRoot @ '' current='' @ clientRoot @ '')''
                     else message)
      in \<lparr>warn_Code = WarningSourceDrift, warn_Message = message, warn_DiffLevel = diff\<rparr>)"

section \<open>Snapshots\<close>

fun appendUniqueWarnings :: "Warning list \<Rightarrow> Warning list \<Rightarrow> Warning list" where
  "appendUniqueWarnings existing [] = existing"
| "appendUniqueWarnings existing (candidate # candidates) =
     appendUniqueWarnings
       (if candidate \<in> set existing then existing else existing @ [candidate]) candidates"

definition snapshotLocked :: "string \<Rightarrow> Instance \<Rightarrow> ProjectSnapshot res" where
  "snapshotLocked clientID i =
     (case map_of (in_clients i) clientID of
        None \<Rightarrow> Inl (NewError ErrUnknownClient ''client is not attached'')
      | Some client \<Rightarrow>
          Inr \<lparr>snap_ProjectID = key_ProjectID (in_key i),
               snap_Role = visibleRoleLocked clientID i,
               snap_AuthorityState = NormalizeAuthorityState (in_authorityState i),
               snap_OwnerWorkspaceInstanceID = in_ownerWorkspaceInstanceID i,
               snap_ProjectState = in_state i,
               snap_CommandSnapshots =
                 sort_key (\<lambda>c. (cmd_StartedAt c, cmd_CommandID c))
                   (map (\<lambda>(_, command). cloneCommand command) (in_commands i)),
               snap_CanStartCommands =
                 (in_state i = ProjectStateActive \<and> AuthorityReady (in_authorityState i)),
               snap_SyncEpoch = in_syncEpoch i,
               snap_NeedsConfirmation = (in_state i = ProjectStateNeedsConfirmation),
               snap_Warnings = appendUniqueWarnings (in_warnings i) (cl_Warnings client),
               snap_CurrentCursor = CurrentCursor (in_eventStream i)\<rparr>)"

definition Snapshot :: "string \<Rightarrow> Instance \<Rightarrow> ProjectSnapshot res" where
  "Snapshot clientID i = snapshotLocked clientID i"

section \<open>Attaching a client\<close>

definition err_terminated :: err where
  "err_terminated = NewError ErrProjectTerminated ''project instance has already terminated''"

abbreviation is_terminated :: "Instance \<Rightarrow> bool" where
  "is_terminated i \<equiv> in_state i = ProjectStateTerminating \<or> in_state i = ProjectStateTerminated"

text \<open>The authority branch of a first attach (lines 102 to 140).\<close>

definition bind_authority ::
  "go_time \<Rightarrow> string \<Rightarrow> string \<Rightarrow> go_time \<Rightarrow> Instance \<Rightarrow> Instance" where
  "bind_authority wall clientID workspaceInstanceID now i =
     (let i1 = i\<lparr>in_ownerID := clientID,
                 in_ownerWorkspaceInstanceID :=
                   (if workspaceInstanceID \<noteq> [] then workspaceInstanceID
                    else in_ownerWorkspaceInstanceID i),
                 in_authorityState := AuthorityStateStable\<rparr>
      in if in_state i = ProjectStateInitializing then
           let i2 = i1\<lparr>in_syncEpoch := in_syncEpoch i1 + 1, in_state := ProjectStateSyncing\<rparr>;
               event = (\<lambda>type. (project_event type now)\<lparr>ev_OwnerID := in_ownerID i2,
                          ev_ProjectState := Some (in_state i2), ev_SyncEpoch := in_syncEpoch i2\<rparr>)
           in appendEventLocked wall (event ProjectEventSyncStateChanged)
                (appendEventLocked wall (event ProjectEventOwnerChanged) i2)
         else if in_authorityState i \<noteq> AuthorityStateStable then
           appendEventLocked wall
             ((project_event ProjectEventAuthorityStateChanged now)\<lparr>ev_OwnerID := in_ownerID i1,
                ev_AuthorityState := AuthorityStateStable,
                ev_ProjectState := Some (in_state i1), ev_SyncEpoch := in_syncEpoch i1\<rparr>) i1
         else i1)"

definition join_client ::
  "go_time \<Rightarrow> string \<Rightarrow> WorkspaceDigest \<Rightarrow> string \<Rightarrow> string \<Rightarrow> SessionKind \<Rightarrow> go_time \<Rightarrow>
   Instance \<Rightarrow> Instance res" where
  "join_client wall clientID digest workspaceRoot workspaceInstanceID sessionKind now i =
     (let normalizedKind = NormalizeSessionKind sessionKind;
          workspaceInstanceID = TrimSpace workspaceInstanceID;
          authority = (normalizedKind = SessionKindAuthority)
      in if authority \<and> in_ownerID i \<noteq> [] \<and> in_ownerID i \<noteq> clientID then
           Inl (NewError ErrConflict ''project already has an active authority session'')
         else
           let i1 = (if authority then bind_authority wall clientID workspaceInstanceID now i else i)
           in Inr (i1\<lparr>in_clients := AList.update clientID
                \<lparr>cl_ID = clientID, cl_Role = (if authority then RoleOwner else RoleFollower),
                 cl_Digest = digest, cl_WorkspaceRoot = TrimSpace workspaceRoot,
                 cl_WorkspaceInstanceID = workspaceInstanceID, cl_SessionKind = normalizedKind,
                 cl_JoinedAt = now, cl_Warnings = []\<rparr> (in_clients i1)\<rparr>))"

text \<open>The drift check of every attach that is not the visible owner's (lines 152 to 176).\<close>

definition check_drift ::
  "go_time \<Rightarrow> string \<Rightarrow> WorkspaceDigest \<Rightarrow> string \<Rightarrow> go_time \<Rightarrow> Instance \<Rightarrow> Instance" where
  "check_drift wall clientID digest workspaceRoot now i =
     (case map_of (in_clients i) clientID of
        None \<Rightarrow> i
      | Some client \<Rightarrow>
          let diff = sourceDiffLevelLocked clientID digest workspaceRoot i;
              warning = sourceDriftWarningLocked clientID diff i
          in case diff of
               SourceDiffNone \<Rightarrow>
                 i\<lparr>in_clients := AList.update clientID (client\<lparr>cl_Warnings := []\<rparr>) (in_clients i)\<rparr>
             | SourceDiffMinor \<Rightarrow>
                 i\<lparr>in_clients := AList.update clientID (client\<lparr>cl_Warnings := [warning]\<rparr>) (in_clients i)\<rparr>
             | SourceDiffSevere \<Rightarrow>
                 let i1 = i\<lparr>in_state := ProjectStateNeedsConfirmation, in_warnings := [warning]\<rparr>;
                     i2 = (if in_state i \<noteq> ProjectStateNeedsConfirmation then
                             appendEventLocked wall
                               ((project_event ProjectEventNeedsConfirmation now)\<lparr>
                                  ev_OwnerID := in_ownerID i1, ev_ProjectState := Some (in_state i1),
                                  ev_NeedsConfirmation := True, ev_SyncEpoch := in_syncEpoch i1,
                                  ev_Warning := Some warning\<rparr>) i1
                           else i1)
                 in i2\<lparr>in_clients := AList.update clientID (client\<lparr>cl_Warnings := []\<rparr>) (in_clients i2)\<rparr>)"

definition AttachClientWithSession ::
  "go_time \<Rightarrow> string \<Rightarrow> WorkspaceDigest \<Rightarrow> string \<Rightarrow> string \<Rightarrow> SessionKind \<Rightarrow> go_time \<Rightarrow>
   Instance \<Rightarrow> ProjectSnapshot res \<times> Instance" where
  "AttachClientWithSession wall clientID digest workspaceRoot workspaceInstanceID sessionKind now i =
     (if clientID = [] then (Inl (NewError ErrInvalidArgument ''client id is required''), i)
      else if is_terminated i then (Inl err_terminated, i)
      else
        case (case map_of (in_clients i) clientID of
                None \<Rightarrow> join_client wall clientID digest workspaceRoot workspaceInstanceID sessionKind now i
              | Some _ \<Rightarrow> Inr i) of
          Inl e \<Rightarrow> (Inl e, i)
        | Inr i1 \<Rightarrow>
            let i2 = (if \<not> isVisibleOwnerLocked clientID i1
                      then check_drift wall clientID digest workspaceRoot now i1 else i1)
            in (snapshotLocked clientID i2, i2))"

definition AttachClient ::
  "go_time \<Rightarrow> string \<Rightarrow> WorkspaceDigest \<Rightarrow> string \<Rightarrow> go_time \<Rightarrow> Instance \<Rightarrow>
   ProjectSnapshot res \<times> Instance" where
  "AttachClient wall clientID digest workspaceRoot now i =
     AttachClientWithSession wall clientID digest workspaceRoot [] SessionKindInteractive now i"

section \<open>Initial sync and reconcile\<close>

definition CompleteInitialSync ::
  "go_time \<Rightarrow> string \<Rightarrow> u64 \<Rightarrow> go_time \<Rightarrow> Instance \<Rightarrow> ProjectSnapshot res \<times> Instance" where
  "CompleteInitialSync wall clientID syncEpoch now i =
     (case requireOwnerLocked clientID i of
        Some e \<Rightarrow> (Inl e, i)
      | None \<Rightarrow>
          if syncEpoch \<noteq> in_syncEpoch i then
            (Inl (NewError ErrSyncEpochMismatch ''sync epoch does not match the active owner epoch''), i)
          else if in_state i = ProjectStateNeedsConfirmation then
            (Inl (NewError ErrNeedsConfirmation ''project is locked pending reconcile confirmation''), i)
          else if is_terminated i then (Inl err_terminated, i)
          else
            let i1 = i\<lparr>in_state := ProjectStateActive, in_authorityState := AuthorityStateStable\<rparr>;
                i2 = appendEventLocked wall
                  ((project_event ProjectEventSyncStateChanged now)\<lparr>ev_OwnerID := in_ownerID i1,
                     ev_ProjectState := Some (in_state i1), ev_SyncEpoch := in_syncEpoch i1\<rparr>) i1
            in (snapshotLocked clientID i2, i2))"

definition reset_client ::
  "string \<Rightarrow> WorkspaceDigest \<Rightarrow> string \<Rightarrow> SessionKind \<Rightarrow> string \<Rightarrow> clientState \<Rightarrow> clientState" where
  "reset_client clientID digest workspaceInstanceID sessionKind cid client =
     (let client = client\<lparr>cl_Role := RoleFollower, cl_Warnings := []\<rparr>
      in if cid = clientID then
           client\<lparr>cl_Role := RoleOwner, cl_Digest := digest,
             cl_WorkspaceInstanceID := TrimSpace workspaceInstanceID,
             cl_SessionKind := NormalizeSessionKind sessionKind\<rparr>
         else client)"

definition ConfirmReconcileWithSession ::
  "go_time \<Rightarrow> string \<Rightarrow> u64 \<Rightarrow> WorkspaceDigest \<Rightarrow> string \<Rightarrow> SessionKind \<Rightarrow> go_time \<Rightarrow>
   Instance \<Rightarrow> ProjectSnapshot res \<times> Instance" where
  "ConfirmReconcileWithSession wall clientID expectedCursor digest workspaceInstanceID sessionKind now i =
     (if map_of (in_clients i) clientID = None then
        (Inl (NewError ErrUnknownClient ''client is not attached''), i)
      else if in_state i \<noteq> ProjectStateNeedsConfirmation then
        (Inl (NewError ErrInvalidArgument ''project is not waiting for reconcile confirmation''), i)
      else if NormalizeSessionKind sessionKind \<noteq> SessionKindAuthority then
        (Inl (NewError ErrPermissionDenied ''reconcile confirmation requires the authority session''), i)
      else if expectedCursor \<noteq> CurrentCursor (in_eventStream i) then
        (Inl (NewError ErrReconcilePrecondition ''expected cursor does not match current project cursor''), i)
      else
        let i1 = i\<lparr>in_ownerID := clientID,
                   in_ownerWorkspaceInstanceID := TrimSpace workspaceInstanceID,
                   in_authorityState := AuthorityStateStable,
                   in_syncEpoch := in_syncEpoch i + 1,
                   in_state := ProjectStateSyncing,
                   in_warnings := [],
                   in_clients := map (\<lambda>(cid, client).
                     (cid, reset_client clientID digest workspaceInstanceID sessionKind cid client))
                     (in_clients i)\<rparr>;
            event = (\<lambda>type. (project_event type now)\<lparr>ev_OwnerID := in_ownerID i1,
                       ev_ProjectState := Some (in_state i1), ev_SyncEpoch := in_syncEpoch i1\<rparr>);
            i2 = appendEventLocked wall (event ProjectEventOwnerChanged) i1;
            i3 = appendEventLocked wall
                   ((event ProjectEventNeedsConfirmation)\<lparr>ev_NeedsConfirmation := False\<rparr>) i2;
            i4 = appendEventLocked wall (event ProjectEventSyncStateChanged) i3
        in (snapshotLocked clientID i4, i4))"

definition ConfirmReconcile ::
  "go_time \<Rightarrow> string \<Rightarrow> u64 \<Rightarrow> WorkspaceDigest \<Rightarrow> go_time \<Rightarrow> Instance \<Rightarrow>
   ProjectSnapshot res \<times> Instance" where
  "ConfirmReconcile wall clientID expectedCursor digest now i =
     ConfirmReconcileWithSession wall clientID expectedCursor digest [] SessionKindInteractive now i"

text \<open>
  Progress reports. \<open>progress.Completed*100 + progress.Total/2\<close> and the quotient are computed on
  \<open>uint64\<close>, then converted to a signed \<open>int\<close>.
\<close>

definition normalizeSyncProgress :: "SyncProgress \<Rightarrow> SyncProgress res" where
  "normalizeSyncProgress progress =
     (if TrimSpace (prog_Phase progress) = [] then
        Inl (NewError ErrInvalidArgument ''sync progress phase is required'')
      else if prog_Total progress > 0 \<and> prog_Completed progress > prog_Total progress then
        Inl (NewError ErrInvalidArgument ''sync progress completed count exceeds total'')
      else
        Inr (progress\<lparr>prog_Percent :=
          (if prog_Total progress > 0
           then Some (sint ((prog_Completed progress * 100 + prog_Total progress div 2)
                              div prog_Total progress))
           else None)\<rparr>))"

definition ReportSyncProgress ::
  "go_time \<Rightarrow> string \<Rightarrow> SyncProgress \<Rightarrow> u64 \<Rightarrow> go_time \<Rightarrow> Instance \<Rightarrow> unit res \<times> Instance" where
  "ReportSyncProgress wall clientID progress syncEpoch now i =
     (case requireOwnerLocked clientID i of
        Some e \<Rightarrow> (Inl e, i)
      | None \<Rightarrow>
          if syncEpoch \<noteq> in_syncEpoch i then
            (Inl (NewError ErrSyncEpochMismatch ''sync epoch does not match the active owner epoch''), i)
          else if in_state i \<noteq> ProjectStateSyncing then
            (Inl (NewError ErrProjectNotReady ''project is not performing initial sync''), i)
          else case normalizeSyncProgress progress of
            Inl e \<Rightarrow> (Inl e, i)
          | Inr normalized \<Rightarrow>
              (Inr (), appendEventLocked wall
                ((project_event ProjectEventSyncProgress now)\<lparr>ev_OwnerID := in_ownerID i,
                   ev_ProjectState := Some (in_state i), ev_SyncEpoch := in_syncEpoch i,
                   ev_SyncProgress := Some normalized\<rparr>) i))"

section \<open>Commands\<close>

definition command_id :: "u64 \<Rightarrow> string" where
  "command_id n = ''cmd-'' @ fmt04 n"

definition StartCommand ::
  "go_time \<Rightarrow> string \<Rightarrow> string list \<Rightarrow> TTYSpec \<Rightarrow> bool \<Rightarrow> go_time \<Rightarrow> Instance \<Rightarrow>
   CommandSnapshot res \<times> Instance" where
  "StartCommand wall clientID argvTail tty tmuxStatus now i =
     (if map_of (in_clients i) clientID = None then
        (Inl (NewError ErrUnknownClient ''client is not attached''), i)
      else if in_state i = ProjectStateNeedsConfirmation then
        (Inl (NewError ErrNeedsConfirmation ''project is locked pending reconcile confirmation''), i)
      else if is_terminated i then (Inl err_terminated, i)
      else if in_state i \<noteq> ProjectStateActive \<or> \<not> AuthorityReady (in_authorityState i) then
        (Inl (NewError ErrProjectNotReady ''project cannot start commands before the shared workspace is active''), i)
      else
        let commandID = command_id (in_nextCommandID i + 1);
            snapshot = \<lparr>cmd_CommandID = commandID, cmd_ArgvTail = [] @ argvTail, cmd_TTY = tty,
              cmd_StartedBy = clientID, cmd_StartedByRole = visibleRoleLocked clientID i,
              cmd_TmuxStatus = tmuxStatus, cmd_State = CommandStateRunning, cmd_StartedAt = now,
              cmd_ExitedAt = None, cmd_ExitCode = None, cmd_FailureReason = []\<rparr>;
            i1 = i\<lparr>in_nextCommandID := in_nextCommandID i + 1,
                   in_commands := AList.update commandID snapshot (in_commands i)\<rparr>
        in (Inr snapshot, appendEventLocked wall
              ((project_event ProjectEventCommandStarted now)\<lparr>ev_OwnerID := in_ownerID i1,
                 ev_ProjectState := Some (in_state i1), ev_SyncEpoch := in_syncEpoch i1,
                 ev_Command := Some (cloneCommand snapshot)\<rparr>) i1))"

text \<open>\<open>FinishCommand\<close> and \<open>FailCommand\<close> store and publish an updated snapshot the same way.\<close>

definition update_command ::
  "go_time \<Rightarrow> string \<Rightarrow> (CommandSnapshot \<Rightarrow> CommandSnapshot) \<Rightarrow> go_time \<Rightarrow> Instance \<Rightarrow>
   CommandSnapshot res \<times> Instance" where
  "update_command wall commandID upd now i =
     (case map_of (in_commands i) commandID of
        None \<Rightarrow> (Inl (NewError ErrUnknownCommand ''command is not known to this project''), i)
      | Some command \<Rightarrow>
          let snapshot = upd command;
              i1 = i\<lparr>in_commands := AList.update commandID snapshot (in_commands i)\<rparr>
          in (Inr snapshot, appendEventLocked wall
                ((project_event ProjectEventCommandUpdated now)\<lparr>ev_OwnerID := in_ownerID i1,
                   ev_ProjectState := Some (in_state i1), ev_SyncEpoch := in_syncEpoch i1,
                   ev_Command := Some (cloneCommand snapshot)\<rparr>) i1))"

definition FinishCommand ::
  "go_time \<Rightarrow> string \<Rightarrow> int \<Rightarrow> go_time \<Rightarrow> Instance \<Rightarrow> CommandSnapshot res \<times> Instance" where
  "FinishCommand wall commandID exitCode now i =
     update_command wall commandID
       (\<lambda>snapshot. snapshot\<lparr>cmd_State := CommandStateExited, cmd_ExitCode := Some exitCode,
          cmd_ExitedAt := Some now\<rparr>) now i"

definition FailCommand ::
  "go_time \<Rightarrow> string \<Rightarrow> string \<Rightarrow> go_time \<Rightarrow> Instance \<Rightarrow> CommandSnapshot res \<times> Instance" where
  "FailCommand wall commandID reason now i =
     update_command wall commandID
       (\<lambda>snapshot. snapshot\<lparr>cmd_State := CommandStateFailed, cmd_FailureReason := reason,
          cmd_ExitedAt := Some now\<rparr>) now i"

definition Command :: "string \<Rightarrow> Instance \<Rightarrow> CommandSnapshot res" where
  "Command commandID i =
     (case map_of (in_commands i) commandID of
        None \<Rightarrow> Inl (NewError ErrUnknownCommand ''command is not known to this project'')
      | Some command \<Rightarrow> Inr (cloneCommand command))"

section \<open>Queries\<close>

definition ProjectEventsSince :: "u64 \<Rightarrow> Instance \<Rightarrow> ProjectEvent list res" where
  "ProjectEventsSince since i = EventsSince since (in_eventStream i)"

definition SubscribeProjectEvents ::
  "u64 \<Rightarrow> Instance \<Rightarrow> (ProjectEvent list \<times> u64) res \<times> Instance" where
  "SubscribeProjectEvents since i =
     (case Subscribe since (in_eventStream i) of (r, s) \<Rightarrow> (r, i\<lparr>in_eventStream := s\<rparr>))"

definition UnsubscribeProjectEvents :: "u64 \<Rightarrow> Instance \<Rightarrow> Instance" where
  "UnsubscribeProjectEvents watcherID i =
     i\<lparr>in_eventStream := Unsubscribe watcherID (in_eventStream i)\<rparr>"

definition SyncState :: "string \<Rightarrow> Instance \<Rightarrow> (ProjectState \<times> u64) res" where
  "SyncState clientID i =
     (if map_of (in_clients i) clientID = None then
        Inl (NewError ErrUnknownClient ''client is not attached'')
      else Inr (in_state i, in_syncEpoch i))"

definition ReadOnly :: "string \<Rightarrow> Instance \<Rightarrow> bool res" where
  "ReadOnly clientID i =
     (if map_of (in_clients i) clientID = None then
        Inl (NewError ErrUnknownClient ''client is not attached'')
      else Inr (in_state i = ProjectStateNeedsConfirmation \<or> in_state i = ProjectStateTerminating \<or>
                in_state i = ProjectStateTerminated \<or> \<not> AuthorityReady (in_authorityState i)))"

definition RequireAuthority :: "string \<Rightarrow> Instance \<Rightarrow> err option" where
  "RequireAuthority clientID i = requireAuthorityLocked clientID i"

definition IsActiveAuthorityClient :: "string \<Rightarrow> Instance \<Rightarrow> bool" where
  "IsActiveAuthorityClient clientID i \<longleftrightarrow> in_ownerID i \<noteq> [] \<and> in_ownerID i = clientID"

definition CurrentState :: "Instance \<Rightarrow> ProjectState" where
  "CurrentState i = in_state i"

section \<open>Losing the authority, leaving and terminating\<close>

definition EnterAuthorityRebinding ::
  "go_time \<Rightarrow> string \<Rightarrow> go_time \<Rightarrow> Instance \<Rightarrow> bool \<times> Instance" where
  "EnterAuthorityRebinding wall clientID now i =
     (if in_ownerID i = [] \<or> in_ownerID i \<noteq> clientID then (False, i)
      else if in_authorityState i = AuthorityStateRebinding then (True, i)
      else
        let i1 = i\<lparr>in_authorityState := AuthorityStateRebinding, in_ownerID := []\<rparr>
        in (True, appendEventLocked wall
              ((project_event ProjectEventAuthorityStateChanged now)\<lparr>
                 ev_AuthorityState := AuthorityStateRebinding,
                 ev_ProjectState := Some (in_state i1), ev_SyncEpoch := in_syncEpoch i1\<rparr>) i1))"

definition Terminate :: "go_time \<Rightarrow> string \<Rightarrow> go_time \<Rightarrow> Instance \<Rightarrow> Instance" where
  "Terminate wall reason now i =
     (if in_state i = ProjectStateTerminated then i
      else
        let i1 = i\<lparr>in_terminateReason := reason, in_authorityState := AuthorityStateAbsent,
                   in_state := ProjectStateTerminated\<rparr>;
            i2 = appendEventLocked wall
              ((project_event ProjectEventInstanceTerminated now)\<lparr>ev_OwnerID := in_ownerID i1,
                 ev_ProjectState := Some (in_state i1), ev_SyncEpoch := in_syncEpoch i1\<rparr>) i1
        in i2\<lparr>in_doneCloses := in_doneCloses i2 + 1\<rparr>)"

definition no_removal :: ClientRemoval where
  "no_removal = \<lparr>rm_Removed = False, rm_RemovedAuthority = False, rm_RemainingParticipants = 0,
     rm_AuthorityRebinding = False, rm_AuthorityAbsent = False\<rparr>"

definition RemoveClient ::
  "go_time \<Rightarrow> string \<Rightarrow> go_time \<Rightarrow> Instance \<Rightarrow> ClientRemoval \<times> Instance" where
  "RemoveClient wall clientID now i =
     (case map_of (in_clients i) clientID of
        None \<Rightarrow> (no_removal, i)
      | Some client \<Rightarrow>
          let i1 = i\<lparr>in_clients := AList.delete clientID (in_clients i)\<rparr>;
              removal = no_removal\<lparr>rm_Removed := True,
                rm_RemainingParticipants := int (length (in_clients i1))\<rparr>
          in if cl_Role client = RoleOwner \<and> in_ownerID i1 = clientID then
               let removal = removal\<lparr>rm_RemovedAuthority := True\<rparr>;
                   i2 = i1\<lparr>in_ownerID := []\<rparr>
               in if length (in_clients i2) = 0 then
                    (removal\<lparr>rm_AuthorityAbsent := True\<rparr>,
                     i2\<lparr>in_ownerWorkspaceInstanceID := [], in_authorityState := AuthorityStateAbsent\<rparr>)
                  else
                    (removal\<lparr>rm_AuthorityRebinding := True\<rparr>,
                     if in_authorityState i2 \<noteq> AuthorityStateRebinding then
                       let i3 = i2\<lparr>in_authorityState := AuthorityStateRebinding\<rparr>
                       in appendEventLocked wall
                            ((project_event ProjectEventAuthorityStateChanged now)\<lparr>
                               ev_AuthorityState := AuthorityStateRebinding,
                               ev_ProjectState := Some (in_state i3),
                               ev_SyncEpoch := in_syncEpoch i3\<rparr>) i3
                     else i2)
             else (removal, i1))"

section \<open>Automation\<close>

lemma cloneCommand_id [simp]: "cloneCommand c = c"
  by (simp add: cloneCommand_def split: option.splits)

lemma cloneProjectEvent_id [simp]: "cloneProjectEvent e = e"
  by (cases e; cases "ev_Warning e"; cases "ev_SyncProgress e"; cases "ev_Command e")
    (simp_all add: cloneProjectEvent_def)

lemma appendEventLocked_frame [simp]:
  "in_key (appendEventLocked wall e i) = in_key i"
  "in_state (appendEventLocked wall e i) = in_state i"
  "in_authorityState (appendEventLocked wall e i) = in_authorityState i"
  "in_terminateReason (appendEventLocked wall e i) = in_terminateReason i"
  "in_doneCloses (appendEventLocked wall e i) = in_doneCloses i"
  "in_syncEpoch (appendEventLocked wall e i) = in_syncEpoch i"
  "in_nextCommandID (appendEventLocked wall e i) = in_nextCommandID i"
  "in_ownerID (appendEventLocked wall e i) = in_ownerID i"
  "in_ownerWorkspaceInstanceID (appendEventLocked wall e i) = in_ownerWorkspaceInstanceID i"
  "in_warnings (appendEventLocked wall e i) = in_warnings i"
  "in_clients (appendEventLocked wall e i) = in_clients i"
  "in_commands (appendEventLocked wall e i) = in_commands i"
  by (simp_all add: appendEventLocked_def)

interpretation pev: event_codec projectEventCodec ev_Cursor "\<lambda>event cursor. event\<lparr>ev_Cursor := cursor\<rparr>"
  by unfold_locales (auto simp: projectEventCodec_def)

section \<open>Runs\<close>

text \<open>Every method that changes an instance, as an operation.\<close>

datatype inst_op =
    OpAttach string WorkspaceDigest string string SessionKind
  | OpComplete string u64
  | OpConfirm string u64 WorkspaceDigest string SessionKind
  | OpProgress string SyncProgress u64
  | OpStart string "string list" TTYSpec bool
  | OpFinish string int
  | OpFail string string
  | OpRebind string
  | OpTerminate string
  | OpRemove string
  | OpSubscribe u64
  | OpUnsubscribe u64

fun inst_apply :: "go_time \<Rightarrow> go_time \<Rightarrow> inst_op \<Rightarrow> Instance \<Rightarrow> Instance" where
  "inst_apply wall now (OpAttach c d r w k) i = snd (AttachClientWithSession wall c d r w k now i)"
| "inst_apply wall now (OpComplete c e) i = snd (CompleteInitialSync wall c e now i)"
| "inst_apply wall now (OpConfirm c x d w k) i = snd (ConfirmReconcileWithSession wall c x d w k now i)"
| "inst_apply wall now (OpProgress c p e) i = snd (ReportSyncProgress wall c p e now i)"
| "inst_apply wall now (OpStart c a t m) i = snd (StartCommand wall c a t m now i)"
| "inst_apply wall now (OpFinish c x) i = snd (FinishCommand wall c x now i)"
| "inst_apply wall now (OpFail c r) i = snd (FailCommand wall c r now i)"
| "inst_apply wall now (OpRebind c) i = snd (EnterAuthorityRebinding wall c now i)"
| "inst_apply wall now (OpTerminate r) i = Terminate wall r now i"
| "inst_apply wall now (OpRemove c) i = snd (RemoveClient wall c now i)"
| "inst_apply wall now (OpSubscribe s) i = snd (SubscribeProjectEvents s i)"
| "inst_apply wall now (OpUnsubscribe w) i = UnsubscribeProjectEvents w i"

text \<open>The 64-bit counters have room for one more operation.\<close>

definition counters_have_room :: "Instance \<Rightarrow> bool" where
  "counters_have_room i \<longleftrightarrow>
     in_nextCommandID i + 1 \<noteq> 0 \<and> unat (st_cursor (in_eventStream i)) + 3 < 2 ^ 64 - 1"

inductive inst_reachable :: "ProjectKey \<Rightarrow> Instance \<Rightarrow> bool" for key where
  new: "NewInstance key = Inr i \<Longrightarrow> inst_reachable key i"
| step: "inst_reachable key i \<Longrightarrow> counters_have_room i \<Longrightarrow>
    inst_reachable key (inst_apply wall now op i)"

section \<open>The invariant\<close>

definition clients_ok :: "(string, clientState) gomap \<Rightarrow> bool" where
  "clients_ok clients \<longleftrightarrow> gomap_ok clients \<and>
     (\<forall>k c. map_of clients k = Some c \<longrightarrow> cl_ID c = k \<and> k \<noteq> [])"

definition authority_ok ::
  "(string, clientState) gomap \<Rightarrow> string \<Rightarrow> AuthorityState \<Rightarrow> ProjectState \<Rightarrow> bool" where
  "authority_ok clients owner auth state \<longleftrightarrow>
     (owner \<noteq> [] \<longrightarrow> (\<exists>c. map_of clients owner = Some c \<and> cl_Role c = RoleOwner)) \<and>
     auth \<in> {AuthorityStateStable, AuthorityStateRebinding, AuthorityStateAbsent} \<and>
     (auth = AuthorityStateStable \<longleftrightarrow> owner \<noteq> [] \<and> state \<noteq> ProjectStateTerminated) \<and>
     (state = ProjectStateInitializing \<longrightarrow> owner = [])"

definition lifecycle_ok :: "ProjectState \<Rightarrow> nat \<Rightarrow> Warning list \<Rightarrow> bool" where
  "lifecycle_ok state closes warnings \<longleftrightarrow>
     state \<noteq> ProjectStateTerminating \<and>
     closes = (if state = ProjectStateTerminated then 1 else 0) \<and>
     (state = ProjectStateNeedsConfirmation \<longrightarrow> map warn_DiffLevel warnings = [SourceDiffSevere]) \<and>
     (state \<noteq> ProjectStateNeedsConfirmation \<and> state \<noteq> ProjectStateTerminated \<longrightarrow> warnings = [])"

definition commands_ok :: "(string, CommandSnapshot) gomap \<Rightarrow> u64 \<Rightarrow> bool" where
  "commands_ok commands next \<longleftrightarrow> gomap_ok commands \<and>
     (\<forall>k c. map_of commands k = Some c \<longrightarrow>
        cmd_CommandID c = k \<and> (\<exists>n. n \<noteq> 0 \<and> n \<le> next \<and> k = command_id n))"

definition inst_inv :: "Instance \<Rightarrow> bool" where
  "inst_inv i \<longleftrightarrow> clients_ok (in_clients i) \<and>
     authority_ok (in_clients i) (in_ownerID i) (in_authorityState i) (in_state i) \<and>
     lifecycle_ok (in_state i) (in_doneCloses i) (in_warnings i) \<and>
     commands_ok (in_commands i) (in_nextCommandID i)"

lemma clients_ok_update:
  "clients_ok m \<Longrightarrow> cl_ID c = k \<Longrightarrow> k \<noteq> [] \<Longrightarrow> clients_ok (AList.update k c m)"
  by (auto simp: clients_ok_def)

lemma clients_ok_Nil [simp]: "clients_ok []"
  by (simp add: clients_ok_def)

lemma clients_ok_delete: "clients_ok m \<Longrightarrow> clients_ok (AList.delete k m)"
  by (auto simp: clients_ok_def)

lemma clients_ok_get: "clients_ok m \<Longrightarrow> map_of m k = Some c \<Longrightarrow> cl_ID c = k \<and> k \<noteq> []"
  by (simp add: clients_ok_def)

lemma authority_ok_update:
  "authority_ok m owner auth state \<Longrightarrow> map_of m k = Some old \<Longrightarrow> cl_Role new = cl_Role old \<Longrightarrow>
   authority_ok (AList.update k new m) owner auth state"
  by (auto simp: authority_ok_def)

lemma authority_ok_add:
  "authority_ok m owner auth state \<Longrightarrow> map_of m k = None \<Longrightarrow>
   authority_ok (AList.update k new m) owner auth state"
  by (auto simp: authority_ok_def)

lemma authority_ok_bind:
  "owner \<noteq> [] \<Longrightarrow> map_of m owner = Some c \<Longrightarrow> cl_Role c = RoleOwner \<Longrightarrow>
   state \<noteq> ProjectStateInitializing \<Longrightarrow> state \<noteq> ProjectStateTerminated \<Longrightarrow>
   authority_ok m owner AuthorityStateStable state"
  by (auto simp: authority_ok_def)

lemma commands_ok_update:
  "commands_ok m next \<Longrightarrow> map_of m k = Some old \<Longrightarrow> cmd_CommandID new = cmd_CommandID old \<Longrightarrow>
   commands_ok (AList.update k new m) next"
  by (auto simp: commands_ok_def)

lemma commands_ok_add:
  assumes "commands_ok m next" "next + 1 \<noteq> 0" "cmd_CommandID new = command_id (next + 1)"
  shows "commands_ok (AList.update (command_id (next + 1)) new m) (next + 1)"
proof -
  have "n \<le> next \<Longrightarrow> n \<le> next + 1" for n
    using assms(2) by (simp add: word_le_nat_alt unat_plus_one)
  with assms show ?thesis by (fastforce simp: commands_ok_def)
qed

lemma command_id_inject [simp]: "command_id m = command_id n \<longleftrightarrow> m = n"
  by (simp add: command_id_def)

text \<open>A fresh identifier: the counter is above every identifier in use.\<close>

lemma commands_ok_fresh:
  assumes "commands_ok m next" "next + 1 \<noteq> 0"
  shows "map_of m (command_id (next + 1)) = None"
proof -
  have "\<not> next + 1 \<le> next"
    using assms(2) by (simp add: word_le_nat_alt unat_plus_one)
  with assms(1) show ?thesis
    by (cases "map_of m (command_id (next + 1))") (fastforce simp: commands_ok_def)+
qed

text \<open>Appending an event changes none of the fields the invariant is about.\<close>

lemma inst_inv_append [simp]: "inst_inv (appendEventLocked wall e i) \<longleftrightarrow> inst_inv i"
  by (simp add: inst_inv_def)

lemma inst_inv_stream [simp]: "inst_inv (i\<lparr>in_eventStream := s\<rparr>) \<longleftrightarrow> inst_inv i"
  by (simp add: inst_inv_def)

lemma NewInstance_inv: "NewInstance key = Inr i \<Longrightarrow> inst_inv i"
  by (auto simp: NewInstance_def inst_inv_def clients_ok_def authority_ok_def lifecycle_ok_def
      commands_ok_def split: if_splits sum.splits)

lemma requireOwner_None:
  "requireOwnerLocked c i = None \<longleftrightarrow>
   in_ownerID i = c \<and> (\<exists>cl. map_of (in_clients i) c = Some cl \<and> cl_Role cl = RoleOwner)"
  by (auto simp: requireOwnerLocked_def requireAuthorityLocked_def split: option.splits)

lemma CompleteInitialSync_inv:
  assumes inv: "inst_inv i"
  shows "inst_inv (snd (CompleteInitialSync wall c e now i))"
proof -
  have "inst_inv (i\<lparr>in_state := ProjectStateActive, in_authorityState := AuthorityStateStable\<rparr>)"
    if "requireOwnerLocked c i = None" "\<not> is_terminated i" "in_state i \<noteq> ProjectStateNeedsConfirmation"
    using inv that
    by (auto simp: inst_inv_def requireOwner_None lifecycle_ok_def intro!: authority_ok_bind
        dest: clients_ok_get)
  with inv show ?thesis
    by (auto simp: CompleteInitialSync_def Let_def split: option.splits)
qed

lemma ReportSyncProgress_inv: "inst_inv i \<Longrightarrow> inst_inv (snd (ReportSyncProgress wall c p e now i))"
  by (auto simp: ReportSyncProgress_def split: option.splits sum.splits)

lemma update_command_inv:
  assumes "inst_inv i" "\<And>c. cmd_CommandID (upd c) = cmd_CommandID c"
  shows "inst_inv (snd (update_command wall cid upd now i))"
  using assms by (auto simp: update_command_def Let_def inst_inv_def commands_ok_update split: option.splits)

lemma StartCommand_inv:
  assumes "inst_inv i" "in_nextCommandID i + 1 \<noteq> 0"
  shows "inst_inv (snd (StartCommand wall c a t m now i))"
  using assms by (auto simp: StartCommand_def Let_def inst_inv_def commands_ok_add)

lemma EnterAuthorityRebinding_inv:
  "inst_inv i \<Longrightarrow> inst_inv (snd (EnterAuthorityRebinding wall c now i))"
  by (auto simp: EnterAuthorityRebinding_def Let_def inst_inv_def authority_ok_def)

lemma Terminate_inv: "inst_inv i \<Longrightarrow> inst_inv (Terminate wall r now i)"
  by (auto simp: Terminate_def Let_def inst_inv_def authority_ok_def lifecycle_ok_def)

lemma RemoveClient_inv:
  assumes inv: "inst_inv i"
  shows "inst_inv (snd (RemoveClient wall c now i))"
proof -
  have keep: "authority_ok (AList.delete c (in_clients i)) (in_ownerID i) (in_authorityState i) (in_state i)"
    if "map_of (in_clients i) c = Some cl" "\<not> (cl_Role cl = RoleOwner \<and> in_ownerID i = c)" for cl
    using inv that by (auto simp: inst_inv_def authority_ok_def)
  have lose: "authority_ok m [] auth (in_state i)"
    if "auth = AuthorityStateRebinding \<or> auth = AuthorityStateAbsent" for m auth
    using that by (auto simp: authority_ok_def)
  from inv show ?thesis
    by (auto simp: RemoveClient_def Let_def inst_inv_def clients_ok_delete keep lose split: option.splits)
qed

lemma reset_client_simps [simp]:
  "cl_ID (reset_client c d w k cid cl) = cl_ID cl"
  "cl_Role (reset_client c d w k cid cl) = (if cid = c then RoleOwner else RoleFollower)"
  by (simp_all add: reset_client_def Let_def)

lemma ConfirmReconcile_inv:
  assumes inv: "inst_inv i"
  shows "inst_inv (snd (ConfirmReconcileWithSession wall c x d w k now i))"
proof -
  let ?m = "map (\<lambda>(cid, cl). (cid, reset_client c d w k cid cl)) (in_clients i)"
  have "clients_ok ?m"
    using inv by (auto simp: inst_inv_def clients_ok_def map_of_map_values)
  moreover have "authority_ok ?m c AuthorityStateStable ProjectStateSyncing"
    if "map_of (in_clients i) c = Some cl" for cl
    using inv that by (intro authority_ok_bind)
      (auto simp: inst_inv_def map_of_map_values dest: clients_ok_get)
  moreover have "lifecycle_ok ProjectStateSyncing (in_doneCloses i) []"
    if "in_state i = ProjectStateNeedsConfirmation"
    using inv that by (simp add: inst_inv_def lifecycle_ok_def)
  ultimately show ?thesis
    using inv by (auto simp: ConfirmReconcileWithSession_def Let_def inst_inv_def)
qed

lemma bind_authority_simps [simp]:
  "in_clients (bind_authority wall c w now i) = in_clients i"
  "in_ownerID (bind_authority wall c w now i) = c"
  "in_authorityState (bind_authority wall c w now i) = AuthorityStateStable"
  "in_doneCloses (bind_authority wall c w now i) = in_doneCloses i"
  "in_warnings (bind_authority wall c w now i) = in_warnings i"
  "in_commands (bind_authority wall c w now i) = in_commands i"
  "in_nextCommandID (bind_authority wall c w now i) = in_nextCommandID i"
  "in_state (bind_authority wall c w now i) =
     (if in_state i = ProjectStateInitializing then ProjectStateSyncing else in_state i)"
  by (simp_all add: bind_authority_def Let_def)

lemma join_client_state:
  "join_client wall c d r w k now i = Inr i' \<Longrightarrow>
   in_state i' = (if NormalizeSessionKind k = SessionKindAuthority \<and> in_state i = ProjectStateInitializing
                  then ProjectStateSyncing else in_state i)"
  by (auto simp: join_client_def Let_def split: if_splits)

lemma join_client_inv:
  assumes inv: "inst_inv i" and live: "in_state i \<noteq> ProjectStateTerminated" and c: "c \<noteq> []"
    and new: "map_of (in_clients i) c = None"
    and join: "join_client wall c d r w k now i = Inr i'"
  shows "inst_inv i'"
proof (cases "NormalizeSessionKind k = SessionKindAuthority")
  case True
  then show ?thesis
    using join inv live c
    by (auto simp: join_client_def Let_def inst_inv_def clients_ok_update lifecycle_ok_def
        intro!: authority_ok_bind split: if_splits)
next
  case False
  then show ?thesis
    using join inv c new by (auto simp: join_client_def Let_def inst_inv_def clients_ok_update authority_ok_add)
qed

text \<open>A severe drift needs an attached owner, so it never meets an instance without one.\<close>

lemma severe_drift_owner:
  assumes "inst_inv i" "sourceDiffLevelLocked c d r i = SourceDiffSevere"
  shows "in_state i \<noteq> ProjectStateInitializing"
proof
  assume "in_state i = ProjectStateInitializing"
  with assms(1) have "in_ownerID i = []" "map_of (in_clients i) [] = None"
    by (auto simp: inst_inv_def authority_ok_def clients_ok_def)
  with assms(2) show False
    by (auto simp: sourceDiffLevelLocked_def Let_def split: if_splits)
qed

lemma check_drift_inv:
  assumes inv: "inst_inv i" and live: "in_state i \<noteq> ProjectStateTerminated"
  shows "inst_inv (check_drift wall c d r now i)"
proof (cases "map_of (in_clients i) c")
  case None
  with inv show ?thesis by (simp add: check_drift_def)
next
  case (Some client)
  let ?m = "\<lambda>ws. AList.update c (client\<lparr>cl_Warnings := ws\<rparr>) (in_clients i)"
  have "cl_ID client = c" "c \<noteq> []"
    using inv Some clients_ok_get by (auto simp: inst_inv_def)
  then have m: "clients_ok (?m ws)" "authority_ok (?m ws) (in_ownerID i) (in_authorityState i) (in_state i)" for ws
    using inv Some by (auto simp: inst_inv_def clients_ok_update authority_ok_update)
  have upd: "inst_inv (i\<lparr>in_clients := ?m ws\<rparr>)" for ws
    using inv m by (simp add: inst_inv_def)
  show ?thesis
  proof (cases "sourceDiffLevelLocked c d r i")
    case SourceDiffSevere
    have "authority_ok (?m []) (in_ownerID i) (in_authorityState i) ProjectStateNeedsConfirmation"
      using m(2) [of "[]"] severe_drift_owner [OF inv SourceDiffSevere] live by (auto simp: authority_ok_def)
    moreover have "lifecycle_ok ProjectStateNeedsConfirmation (in_doneCloses i)
        [sourceDriftWarningLocked c SourceDiffSevere i]"
      using inv live by (auto simp: inst_inv_def lifecycle_ok_def sourceDriftWarningLocked_def Let_def)
    ultimately show ?thesis
      using SourceDiffSevere Some inv m by (simp add: check_drift_def Let_def inst_inv_def)
  qed (use upd Some in \<open>auto simp: check_drift_def Let_def\<close>)
qed

lemma AttachClient_inv:
  assumes inv: "inst_inv i"
  shows "inst_inv (snd (AttachClientWithSession wall c d r w k now i))"
proof (cases "c = [] \<or> is_terminated i")
  case True
  with inv show ?thesis by (auto simp: AttachClientWithSession_def)
next
  case False
  then have c: "c \<noteq> []" and live: "in_state i \<noteq> ProjectStateTerminated" by auto
  have joined: "inst_inv i' \<and> in_state i' \<noteq> ProjectStateTerminated"
    if "join_client wall c d r w k now i = Inr i'" "map_of (in_clients i) c = None" for i'
    using that join_client_inv [OF inv live c] join_client_state [OF that(1)] live by auto
  then show ?thesis
    using inv live False
    by (auto simp: AttachClientWithSession_def Let_def check_drift_inv split: option.splits sum.splits)
qed

lemma inst_apply_inv:
  assumes "inst_inv i" "counters_have_room i"
  shows "inst_inv (inst_apply wall now op i)"
  using assms
  by (cases op)
    (simp_all add: AttachClient_inv CompleteInitialSync_inv ConfirmReconcile_inv ReportSyncProgress_inv
      StartCommand_inv update_command_inv EnterAuthorityRebinding_inv Terminate_inv RemoveClient_inv
      FinishCommand_def FailCommand_def SubscribeProjectEvents_def UnsubscribeProjectEvents_def
      counters_have_room_def split_def)

lemma inst_reachable_inv: "inst_reachable key i \<Longrightarrow> inst_inv i"
  by (induction rule: inst_reachable.induct) (simp_all add: NewInstance_inv inst_apply_inv)

section \<open>The event log of an instance\<close>

abbreviation put_cursor :: "ProjectEvent \<Rightarrow> u64 \<Rightarrow> ProjectEvent" where
  "put_cursor \<equiv> \<lambda>event cursor. event\<lparr>ev_Cursor := cursor\<rparr>"

text \<open>The instance's stream holds the log of every event appended so far.\<close>

definition inst_log :: "Instance \<Rightarrow> ProjectEvent list \<Rightarrow> bool" where
  "inst_log i log \<longleftrightarrow>
     pev.is_store (in_eventStream i) \<and> store_holds put_cursor (in_eventStream i) log \<and>
     cc_Name (st_codec (in_eventStream i)) = ''project'' \<and>
     st_retention (in_eventStream i) = defaultEventRetention"

lemma inst_log_frame [simp]:
  "inst_log (i\<lparr>in_state := a\<rparr>) log = inst_log i log"
  "inst_log (i\<lparr>in_authorityState := b\<rparr>) log = inst_log i log"
  "inst_log (i\<lparr>in_terminateReason := c\<rparr>) log = inst_log i log"
  "inst_log (i\<lparr>in_doneCloses := d\<rparr>) log = inst_log i log"
  "inst_log (i\<lparr>in_syncEpoch := e\<rparr>) log = inst_log i log"
  "inst_log (i\<lparr>in_nextCommandID := f\<rparr>) log = inst_log i log"
  "inst_log (i\<lparr>in_ownerID := g\<rparr>) log = inst_log i log"
  "inst_log (i\<lparr>in_ownerWorkspaceInstanceID := h\<rparr>) log = inst_log i log"
  "inst_log (i\<lparr>in_warnings := j\<rparr>) log = inst_log i log"
  "inst_log (i\<lparr>in_clients := k\<rparr>) log = inst_log i log"
  "inst_log (i\<lparr>in_commands := l\<rparr>) log = inst_log i log"
  by (simp_all add: inst_log_def)

lemma NewInstance_log: "NewInstance key = Inr i \<Longrightarrow> inst_log i []"
  by (auto simp: NewInstance_def newProjectEventStream_def New_def prepareCursorCodec_def Let_def
      projectEventCodec_def newStore_def inst_log_def pev.is_store_def store_holds_def
      defaultEventRetention_def split: if_splits)

lemma appendEventLocked_log:
  assumes "inst_log i log" "Suc (length log) < 2 ^ 64 - 1"
  shows "inst_log (appendEventLocked wall e i) (log @ [complete_event wall i e])"
  using assms pev.AppendBatch_store pev.AppendBatch_holds(2) [of "in_eventStream i" log "[complete_event wall i e]"]
  by (simp add: inst_log_def appendEventLocked_def Append_def split_def Let_def)

lemma inst_log_cursor:
  "inst_log i log \<Longrightarrow> unat (st_cursor (in_eventStream i)) = length log"
  by (simp add: inst_log_def store_holds_def unat_of_nat64)

end
