(* ===== verification/Project_Ready.thy ===== *)
theory Project_Ready
  imports Project_Instance
begin

text \<open>
  Following a project from outside: \<open>internal/projectready/wait.go\<close>. \<open>ApplyProjectEvent\<close> folds an event
  into a snapshot; \<open>Wait\<close> follows the event stream until commands can start, the project needs
  confirmation or it has terminated. Main result: a snapshot, brought forward over the events the
  instance published since, agrees with the instance.
\<close>

section \<open>Folding events into a snapshot\<close>

text \<open>Replace the first command with the same identifier, or append the command.\<close>

fun upsert_command :: "CommandSnapshot \<Rightarrow> CommandSnapshot list \<Rightarrow> CommandSnapshot list" where
  "upsert_command command [] = [command]"
| "upsert_command command (c # cs) =
     (if cmd_CommandID c = cmd_CommandID command then command # cs else c # upsert_command command cs)"

definition ApplyProjectEvent :: "ProjectSnapshot \<Rightarrow> ProjectEvent \<Rightarrow> ProjectSnapshot" where
  "ApplyProjectEvent snapshot event =
     (let s1 = snapshot\<lparr>snap_CurrentCursor := ev_Cursor event\<rparr>;
          s2 = (case ev_ProjectState event of None \<Rightarrow> s1 | Some st \<Rightarrow> s1\<lparr>snap_ProjectState := st\<rparr>);
          s3 = (if ev_AuthorityState event \<noteq> [] then s2\<lparr>snap_AuthorityState := ev_AuthorityState event\<rparr>
                else s2);
          s4 = (if ev_OwnerWorkspaceInstanceID event \<noteq> [] \<or> ev_Type event = ProjectEventOwnerChanged
                then s3\<lparr>snap_OwnerWorkspaceInstanceID := ev_OwnerWorkspaceInstanceID event\<rparr> else s3);
          s5 = s4\<lparr>snap_SyncEpoch := ev_SyncEpoch event,
                  snap_NeedsConfirmation := ev_NeedsConfirmation event\<rparr>;
          s6 = s5\<lparr>snap_CanStartCommands :=
                  (snap_ProjectState s5 = ProjectStateActive \<and> \<not> snap_NeedsConfirmation s5 \<and>
                   AuthorityReady (snap_AuthorityState s5))\<rparr>;
          s7 = (case ev_Warning event of
                  Some warning \<Rightarrow> s6\<lparr>snap_Warnings := [warning]\<rparr>
                | None \<Rightarrow> if \<not> snap_NeedsConfirmation s6 then s6\<lparr>snap_Warnings := []\<rparr> else s6)
      in case ev_Command event of
           Some command \<Rightarrow>
             s7\<lparr>snap_CommandSnapshots := upsert_command command (snap_CommandSnapshots s7)\<rparr>
         | None \<Rightarrow> s7)"

section \<open>Waiting\<close>

definition settled :: "ProjectSnapshot \<Rightarrow> bool" where
  "settled snapshot \<longleftrightarrow> snap_CanStartCommands snapshot \<or> snap_NeedsConfirmation snapshot \<or>
     snap_ProjectState snapshot = ProjectStateTerminated"

text \<open>
  The callback of the stream: it folds the events in and stops the stream, with \<open>io.EOF\<close>, at the
  first settled snapshot. The second component tells whether it stopped.
\<close>

fun on_events :: "ProjectSnapshot \<Rightarrow> ProjectEvent list \<Rightarrow> ProjectSnapshot \<times> bool" where
  "on_events snapshot [] = (snapshot, False)"
| "on_events snapshot (event # events) =
     (let snapshot = ApplyProjectEvent snapshot event
      in if settled snapshot then (snapshot, True) else on_events snapshot events)"

text \<open>
  One entry per round of the loop: the events the stream delivers if nobody stops it, the error it
  then ends with, and what a refresh gives. A stream that was stopped by the callback returns the
  callback's \<open>io.EOF\<close>. The result is \<open>None\<close> while the loop is still waiting after these rounds.
\<close>

fun Wait_loop ::
  "bool \<Rightarrow> ProjectSnapshot \<Rightarrow> (ProjectEvent list \<times> err option \<times> ProjectSnapshot res) list \<Rightarrow>
   ProjectSnapshot res option" where
  "Wait_loop refresh snapshot [] = (if settled snapshot then Some (Inr snapshot) else None)"
| "Wait_loop refresh snapshot ((events, ending, refreshed) # rounds) =
     (if settled snapshot then Some (Inr snapshot)
      else
        let (snapshot1, stopped) = on_events snapshot events;
            streamErr = (if stopped then Some (SentinelErr IoEOF) else ending)
        in case streamErr of
             None \<Rightarrow> Some (Inr snapshot1)
           | Some e \<Rightarrow>
               if errors_Is e CtxCanceled \<or> errors_Is e IoEOF then Some (Inr snapshot1)
               else if map_option fst (AsError e) \<noteq> Some ErrCursorExpired then Some (Inl e)
               else if \<not> refresh then Some (Inl e)
               else (case refreshed of
                       Inl e' \<Rightarrow> Some (Inl e')
                     | Inr snapshot2 \<Rightarrow> Wait_loop refresh snapshot2 rounds))"

definition Wait ::
  "bool \<Rightarrow> bool \<Rightarrow> ProjectSnapshot \<Rightarrow>
   (ProjectEvent list \<times> err option \<times> ProjectSnapshot res) list \<Rightarrow> ProjectSnapshot res option" where
  "Wait stream refresh snapshot rounds =
     (if \<not> stream \<or> snap_CanStartCommands snapshot then Some (Inr snapshot)
      else Wait_loop refresh snapshot rounds)"

section \<open>Agreement of a snapshot with the instance\<close>

definition commands_agree :: "(string, CommandSnapshot) gomap \<Rightarrow> CommandSnapshot list \<Rightarrow> bool" where
  "commands_agree m cs \<longleftrightarrow> distinct (map cmd_CommandID cs) \<and>
     (\<forall>c. c \<in> set cs \<longleftrightarrow> map_of m (cmd_CommandID c) = Some c)"

definition agrees :: "Instance \<Rightarrow> ProjectSnapshot \<Rightarrow> bool" where
  "agrees i s \<longleftrightarrow>
     snap_ProjectState s = in_state i \<and>
     snap_AuthorityState s = NormalizeAuthorityState (in_authorityState i) \<and>
     snap_OwnerWorkspaceInstanceID s = in_ownerWorkspaceInstanceID i \<and>
     snap_SyncEpoch s = in_syncEpoch i \<and>
     snap_NeedsConfirmation s = (in_state i = ProjectStateNeedsConfirmation) \<and>
     snap_CanStartCommands s = (in_state i = ProjectStateActive \<and> AuthorityReady (in_authorityState i)) \<and>
     snap_CurrentCursor s = st_cursor (in_eventStream i) \<and>
     commands_agree (in_commands i) (snap_CommandSnapshots s)"

lemma set_upsert_command:
  "distinct (map cmd_CommandID cs) \<Longrightarrow>
   set (upsert_command command cs) =
     insert command {c \<in> set cs. cmd_CommandID c \<noteq> cmd_CommandID command}"
  by (induction cs) (auto simp: image_iff)

lemma ids_upsert_command:
  "set (map cmd_CommandID (upsert_command command cs)) =
   insert (cmd_CommandID command) (set (map cmd_CommandID cs))"
  by (induction cs) auto

lemma distinct_upsert_command:
  "distinct (map cmd_CommandID cs) \<Longrightarrow> distinct (map cmd_CommandID (upsert_command command cs))"
proof (induction cs)
  case (Cons c cs)
  then show ?case
    using ids_upsert_command [of command cs]
    by (cases "cmd_CommandID c = cmd_CommandID command") auto
qed simp

lemma commands_agree_upsert:
  "commands_agree m cs \<Longrightarrow>
   commands_agree (AList.update (cmd_CommandID command) command m) (upsert_command command cs)"
  by (auto simp: commands_agree_def set_upsert_command distinct_upsert_command)


section \<open>Replaying the published events\<close>

text \<open>
  An event announces the state of an instance when its fields are the instance's, or are left to
  \<open>appendEventLocked\<close> to fill in.
\<close>

definition announces :: "Instance \<Rightarrow> ProjectEvent \<Rightarrow> bool" where
  "announces i e \<longleftrightarrow>
     ev_ProjectState e = Some (in_state i) \<and> ev_SyncEpoch e = in_syncEpoch i \<and>
     ev_OwnerWorkspaceInstanceID e = [] \<and>
     (ev_AuthorityState e = [] \<or> ev_AuthorityState e = NormalizeAuthorityState (in_authorityState i)) \<and>
     (ev_Type e = ProjectEventNeedsConfirmation \<longrightarrow>
        ev_NeedsConfirmation e = (in_state i = ProjectStateNeedsConfirmation))"

definition apply_command :: "CommandSnapshot option \<Rightarrow> CommandSnapshot list \<Rightarrow> CommandSnapshot list" where
  "apply_command c cs = (case c of None \<Rightarrow> cs | Some command \<Rightarrow> upsert_command command cs)"

lemma ApplyProjectEvent_simps [simp]:
  "snap_CurrentCursor (ApplyProjectEvent s e) = ev_Cursor e"
  "snap_ProjectState (ApplyProjectEvent s e) =
     (case ev_ProjectState e of None \<Rightarrow> snap_ProjectState s | Some st \<Rightarrow> st)"
  "snap_AuthorityState (ApplyProjectEvent s e) =
     (if ev_AuthorityState e \<noteq> [] then ev_AuthorityState e else snap_AuthorityState s)"
  "snap_OwnerWorkspaceInstanceID (ApplyProjectEvent s e) =
     (if ev_OwnerWorkspaceInstanceID e \<noteq> [] \<or> ev_Type e = ProjectEventOwnerChanged
      then ev_OwnerWorkspaceInstanceID e else snap_OwnerWorkspaceInstanceID s)"
  "snap_SyncEpoch (ApplyProjectEvent s e) = ev_SyncEpoch e"
  "snap_NeedsConfirmation (ApplyProjectEvent s e) = ev_NeedsConfirmation e"
  "snap_CanStartCommands (ApplyProjectEvent s e) =
     (snap_ProjectState (ApplyProjectEvent s e) = ProjectStateActive \<and>
      \<not> ev_NeedsConfirmation e \<and> AuthorityReady (snap_AuthorityState (ApplyProjectEvent s e)))"
  "snap_CommandSnapshots (ApplyProjectEvent s e) =
     apply_command (ev_Command e) (snap_CommandSnapshots s)"
  by (auto simp: ApplyProjectEvent_def Let_def apply_command_def split: option.splits)

lemma complete_event_simps [simp]:
  "ev_Cursor (complete_event wall i e) = ev_Cursor e"
  "ev_Type (complete_event wall i e) = ev_Type e"
  "ev_ProjectState (complete_event wall i e) = ev_ProjectState e"
  "ev_SyncEpoch (complete_event wall i e) = ev_SyncEpoch e"
  "ev_Command (complete_event wall i e) = ev_Command e"
  "ev_AuthorityState (complete_event wall i e) =
     (if ev_AuthorityState e = [] then NormalizeAuthorityState (in_authorityState i)
      else ev_AuthorityState e)"
  "ev_OwnerWorkspaceInstanceID (complete_event wall i e) =
     (if ev_OwnerWorkspaceInstanceID e = [] then in_ownerWorkspaceInstanceID i
      else ev_OwnerWorkspaceInstanceID e)"
  "ev_NeedsConfirmation (complete_event wall i e) =
     (if ev_Type e \<noteq> ProjectEventNeedsConfirmation then in_state i = ProjectStateNeedsConfirmation
      else ev_NeedsConfirmation e)"
  by (simp_all add: complete_event_def Let_def)

lemma AuthorityReady_normalize [simp]: "AuthorityReady (NormalizeAuthorityState s) = AuthorityReady s"
  by (simp add: AuthorityReady_def)

text \<open>
  One published event carries the instance over: whatever the snapshot said before, it agrees
  afterwards, if the workspace owner is announced or unchanged and the command list matches.
\<close>

lemma append_agrees:
  assumes log: "inst_log i log" "Suc (length log) < 2 ^ 64 - 1" and e: "announces i e"
    and owner: "in_ownerWorkspaceInstanceID i \<noteq> [] \<or> ev_Type e = ProjectEventOwnerChanged \<or>
      snap_OwnerWorkspaceInstanceID s = in_ownerWorkspaceInstanceID i"
    and cmds: "commands_agree (in_commands i) (apply_command (ev_Command e) (snap_CommandSnapshots s))"
  shows "agrees (appendEventLocked wall e i)
    (ApplyProjectEvent s ((complete_event wall i e)\<lparr>ev_Cursor := of_nat (Suc (length log))\<rparr>))"
proof -
  have "st_cursor (in_eventStream (appendEventLocked wall e i)) = of_nat (Suc (length log))"
    using appendEventLocked_log [OF log, of wall e] by (simp add: inst_log_def store_holds_def)
  with e owner cmds show ?thesis
    by (auto simp: agrees_def announces_def simp del: of_nat_Suc)
qed

text \<open>Everything an operation does between two instances is published.\<close>

definition published :: "Instance \<Rightarrow> Instance \<Rightarrow> ProjectEvent list \<Rightarrow> bool" where
  "published i i' log \<longleftrightarrow>
     (\<exists>es. inst_log i' (log @ es) \<and>
        (\<forall>s. agrees i s \<longrightarrow> agrees i' (foldl ApplyProjectEvent s (stamp put_cursor (length log) es))))"

lemma published_trans:
  assumes "published i j log" "\<And>es. inst_log j (log @ es) \<Longrightarrow> published j k (log @ es)"
  shows "published i k log"
proof -
  obtain es where es: "inst_log j (log @ es)"
      "\<And>s. agrees i s \<Longrightarrow> agrees j (foldl ApplyProjectEvent s (stamp put_cursor (length log) es))"
    using assms(1) by (auto simp: published_def)
  obtain fs where fs: "inst_log k ((log @ es) @ fs)"
      "\<And>s. agrees j s \<Longrightarrow> agrees k (foldl ApplyProjectEvent s (stamp put_cursor (length (log @ es)) fs))"
    using assms(2) [OF es(1)] by (auto simp: published_def)
  show ?thesis
    unfolding published_def
    using es fs by (intro exI [of _ "es @ fs"]) (simp add: stamp_append)
qed

text \<open>An operation that publishes nothing and changes nothing a snapshot shows.\<close>

lemma published_quiet:
  assumes "inst_log i log" "in_eventStream i' = in_eventStream i" "in_state i' = in_state i"
    "in_authorityState i' = in_authorityState i" "in_syncEpoch i' = in_syncEpoch i"
    "in_ownerWorkspaceInstanceID i' = in_ownerWorkspaceInstanceID i" "in_commands i' = in_commands i"
  shows "published i i' log"
  unfolding published_def
  using assms by (intro exI [of _ "[]"]) (simp add: inst_log_def agrees_def)

text \<open>An operation that changes fields to \<open>i1\<close> and then publishes one event.\<close>

lemma published_one:
  assumes log: "inst_log i1 log" "Suc (length log) < 2 ^ 64 - 1" and e: "announces i1 e"
    and owner: "in_ownerWorkspaceInstanceID i1 \<noteq> [] \<or> ev_Type e = ProjectEventOwnerChanged \<or>
      in_ownerWorkspaceInstanceID i1 = in_ownerWorkspaceInstanceID i"
    and cmds: "\<And>cs. commands_agree (in_commands i) cs \<Longrightarrow>
      commands_agree (in_commands i1) (apply_command (ev_Command e) cs)"
  shows "published i (appendEventLocked wall e i1) log"
proof -
  have "agrees (appendEventLocked wall e i1)
      (ApplyProjectEvent s ((complete_event wall i1 e)\<lparr>ev_Cursor := of_nat (Suc (length log))\<rparr>))"
    if "agrees i s" for s
    using that owner by (intro append_agrees [OF log e]) (auto simp: agrees_def cmds)
  then show ?thesis
    unfolding published_def
    using appendEventLocked_log [OF log]
    by (intro exI [of _ "[complete_event wall i1 e]"]) (simp del: of_nat_Suc)
qed


lemma apply_command_None [simp]: "apply_command None cs = cs"
  by (simp add: apply_command_def)

lemma apply_command_Some [simp]: "apply_command (Some c) cs = upsert_command c cs"
  by (simp add: apply_command_def)

lemma announces_append [simp]: "announces (appendEventLocked wall e' i) e = announces i e"
  by (simp add: announces_def)

lemma project_event_simps [simp]:
  "ev_Type (project_event t now) = t" "ev_AuthorityState (project_event t now) = []"
  "ev_OwnerWorkspaceInstanceID (project_event t now) = []" "ev_Command (project_event t now) = None"
  by (simp_all add: project_event_def)

lemma published_append:
  assumes "inst_log i log" "Suc (length log) < 2 ^ 64 - 1" "announces i e" "ev_Command e = None"
  shows "published i (appendEventLocked wall e i) log"
  using assms by (intro published_one) auto

lemma inst_log_length: "inst_log i log \<Longrightarrow> inst_log i log' \<Longrightarrow> length log = length log'"
  by (metis inst_log_cursor)

lemma published_append2:
  assumes "published i j log" "inst_log j log'" "Suc (length log') < 2 ^ 64 - 1"
    "announces j e" "ev_Command e = None"
  shows "published i (appendEventLocked wall e j) log"
proof (rule published_trans [OF assms(1)])
  fix es
  assume "inst_log j (log @ es)"
  moreover have "length (log @ es) = length log'"
    using calculation assms(2) by (rule inst_log_length)
  ultimately show "published j (appendEventLocked wall e j) (log @ es)"
    using assms(3-5) by (intro published_append) simp_all
qed

lemmas published_refl = published_quiet [where i' = i and i = i for i, simplified]

section \<open>Every operation publishes what it changes\<close>

lemma CompleteInitialSync_published:
  assumes "inst_log i log" "length log + 3 < 2 ^ 64 - 1"
  shows "published i (snd (CompleteInitialSync wall c e now i)) log"
  using assms
  by (auto simp: CompleteInitialSync_def Let_def published_refl announces_def project_event_def
      split: option.splits intro!: published_one)

lemma ReportSyncProgress_published:
  assumes "inst_log i log" "length log + 3 < 2 ^ 64 - 1"
  shows "published i (snd (ReportSyncProgress wall c p e now i)) log"
  using assms
  by (auto simp: ReportSyncProgress_def published_refl announces_def project_event_def
      split: option.splits sum.splits intro!: published_one)

lemma StartCommand_published:
  assumes "inst_log i log" "length log + 3 < 2 ^ 64 - 1"
  shows "published i (snd (StartCommand wall c a t m now i)) log"
proof -
  have upd: "commands_agree (AList.update k s (in_commands i)) (upsert_command s cs)"
    if "commands_agree (in_commands i) cs" "cmd_CommandID s = k" for k s cs
    using commands_agree_upsert [OF that(1), of s] that(2) by simp
  from assms show ?thesis
    by (auto simp: StartCommand_def Let_def published_refl announces_def project_event_def upd
        intro!: published_one)
qed

lemma update_command_published:
  assumes "inst_inv i" "\<And>c. cmd_CommandID (upd c) = cmd_CommandID c"
    and log: "inst_log i log" "length log + 3 < 2 ^ 64 - 1"
  shows "published i (snd (update_command wall cid upd now i)) log"
proof (cases "map_of (in_commands i) cid")
  case None
  with log show ?thesis by (simp add: update_command_def published_refl)
next
  case (Some c)
  then have "cmd_CommandID (upd c) = cid"
    using assms(1,2) by (auto simp: inst_inv_def commands_ok_def)
  then have "commands_agree (AList.update cid (upd c) (in_commands i)) (upsert_command (upd c) cs)"
    if "commands_agree (in_commands i) cs" for cs
    using commands_agree_upsert [OF that, of "upd c"] by simp
  with Some log show ?thesis
    by (auto simp: update_command_def Let_def announces_def project_event_def intro!: published_one)
qed

lemma EnterAuthorityRebinding_published:
  assumes "inst_log i log" "length log + 3 < 2 ^ 64 - 1"
  shows "published i (snd (EnterAuthorityRebinding wall c now i)) log"
  using assms
  by (auto simp: EnterAuthorityRebinding_def Let_def published_refl announces_def project_event_def
      intro!: published_one)

lemma published_doneCloses:
  "published i i' log \<Longrightarrow> published i (i'\<lparr>in_doneCloses := n\<rparr>) log"
  by (simp add: published_def agrees_def)

lemma published_clients:
  "published i i' log \<Longrightarrow> published i (i'\<lparr>in_clients := m\<rparr>) log"
  by (simp add: published_def agrees_def)

lemma Terminate_published:
  assumes "inst_log i log" "length log + 3 < 2 ^ 64 - 1"
  shows "published i (Terminate wall r now i) log"
  using assms
  by (auto simp: Terminate_def Let_def published_refl announces_def project_event_def
      intro!: published_doneCloses published_one)

lemma RemoveClient_published:
  assumes "inst_log i log" "length log + 3 < 2 ^ 64 - 1"
    and stays: "in_clients (snd (RemoveClient wall c now i)) \<noteq> []"
  shows "published i (snd (RemoveClient wall c now i)) log"
  using assms
  by (auto simp: RemoveClient_def Let_def published_refl announces_def project_event_def
      split: option.splits if_splits intro!: published_one published_quiet)

lemma ConfirmReconcile_published:
  assumes log: "inst_log i log" "length log + 3 < 2 ^ 64 - 1"
  shows "published i (snd (ConfirmReconcileWithSession wall c x d w k now i)) log"
proof -
  have three: "published i (appendEventLocked wall e3 (appendEventLocked wall e2 (appendEventLocked wall e1 i1))) log"
    if i1: "inst_log i1 log" "in_commands i1 = in_commands i"
      and e: "announces i1 e1" "announces i1 e2" "announces i1 e3"
        "ev_Type e1 = ProjectEventOwnerChanged"
        "ev_Command e1 = None" "ev_Command e2 = None" "ev_Command e3 = None" for i1 e1 e2 e3
  proof -
    have one: "published i (appendEventLocked wall e1 i1) log"
      using i1 e log(2) by (intro published_one) auto
    have log1: "inst_log (appendEventLocked wall e1 i1) (log @ [complete_event wall i1 e1])"
      using i1 log(2) by (intro appendEventLocked_log) auto
    then have log2: "inst_log (appendEventLocked wall e2 (appendEventLocked wall e1 i1))
        ((log @ [complete_event wall i1 e1]) @ [complete_event wall (appendEventLocked wall e1 i1) e2])"
      by (rule appendEventLocked_log) (use log(2) in simp)
    from published_append2 [OF one log1] e log(2)
    have "published i (appendEventLocked wall e2 (appendEventLocked wall e1 i1)) log" by simp
    from published_append2 [OF this log2] e log(2) show ?thesis by simp
  qed
  from log(1) show ?thesis
    by (auto simp: ConfirmReconcileWithSession_def Let_def published_refl announces_def project_event_def
        intro!: three)
qed

lemma bind_authority_published:
  assumes inv: "inst_inv i" and live: "in_state i \<noteq> ProjectStateTerminated"
    and free: "in_ownerID i = []" and log: "inst_log i log" "length log + 3 < 2 ^ 64 - 1"
  shows "published i (bind_authority wall c w now i) log"
proof -
  have not_stable: "in_authorityState i \<noteq> AuthorityStateStable"
    using inv free by (auto simp: inst_inv_def authority_ok_def)
  have two: "published i (appendEventLocked wall e2 (appendEventLocked wall e1 i1)) log"
    if i1: "inst_log i1 log" "in_commands i1 = in_commands i"
      and e: "announces i1 e1" "announces i1 e2" "ev_Type e1 = ProjectEventOwnerChanged"
        "ev_Command e1 = None" "ev_Command e2 = None" for i1 e1 e2
  proof -
    have one: "published i (appendEventLocked wall e1 i1) log"
      using i1 e log(2) by (intro published_one) auto
    have log1: "inst_log (appendEventLocked wall e1 i1) (log @ [complete_event wall i1 e1])"
      using i1 log(2) by (intro appendEventLocked_log) auto
    from published_append2 [OF one log1] e log(2) show ?thesis by simp
  qed
  show ?thesis
  proof (cases "in_state i = ProjectStateInitializing")
    case True
    then show ?thesis
      using log(1) by (auto simp: bind_authority_def Let_def announces_def project_event_def intro!: two)
  next
    case False
    then show ?thesis
      using log not_stable
      by (auto simp: bind_authority_def Let_def announces_def project_event_def intro!: published_one)
  qed
qed

lemma join_client_published:
  assumes "inst_inv i" "in_state i \<noteq> ProjectStateTerminated" "map_of (in_clients i) c = None"
    and log: "inst_log i log" "length log + 3 < 2 ^ 64 - 1"
    and join: "join_client wall c d r w k now i = Inr i'"
  shows "published i i' log"
proof (cases "NormalizeSessionKind k = SessionKindAuthority")
  case True
  have "in_ownerID i \<noteq> c" if "in_ownerID i \<noteq> []"
    using that assms(1,3) by (auto simp: inst_inv_def authority_ok_def)
  with True join have free: "in_ownerID i = []"
    by (auto simp: join_client_def Let_def split: if_splits)
  then show ?thesis
    using True join bind_authority_published [OF assms(1,2) free log, of wall c "TrimSpace w" now]
    by (auto simp: join_client_def Let_def intro: published_clients)
next
  case False
  then show ?thesis
    using join published_quiet [OF log(1)] by (auto simp: join_client_def Let_def)
qed

lemma check_drift_published:
  assumes "inst_log i log" "Suc (length log) < 2 ^ 64 - 1"
  shows "published i (check_drift wall c d r now i) log"
proof (cases "map_of (in_clients i) c")
  case None
  with assms show ?thesis by (simp add: check_drift_def published_refl)
next
  case (Some client)
  show ?thesis
  proof (cases "sourceDiffLevelLocked c d r i")
    case SourceDiffSevere
    then show ?thesis
      using Some assms
      by (auto simp: check_drift_def Let_def announces_def project_event_def published_quiet
          intro!: published_clients published_one)
  qed (use Some assms in \<open>auto simp: check_drift_def Let_def intro!: published_quiet\<close>)
qed

text \<open>A first attach publishes at most two events, so the drift check has room for one more.\<close>

lemma bind_authority_log:
  assumes "inst_log i log" "length log + 3 < 2 ^ 64 - 1"
  shows "\<exists>es. inst_log (bind_authority wall c w now i) (log @ es) \<and> length es \<le> 2"
proof -
  have one: "\<exists>es. inst_log (appendEventLocked wall e i1) (log @ es) \<and> length es \<le> 2"
    if "inst_log i1 log" for e i1
    using appendEventLocked_log [OF that, of wall e] assms(2)
    by (intro exI [of _ "[complete_event wall i1 e]"]) simp
  have two: "\<exists>es. inst_log (appendEventLocked wall e2 (appendEventLocked wall e1 i1)) (log @ es) \<and> length es \<le> 2"
    if "inst_log i1 log" for e1 e2 i1
  proof -
    have "inst_log (appendEventLocked wall e1 i1) (log @ [complete_event wall i1 e1])"
      using that assms(2) by (intro appendEventLocked_log) auto
    from appendEventLocked_log [OF this, of wall e2] assms(2) show ?thesis
      by (intro exI [of _ "[complete_event wall i1 e1, complete_event wall (appendEventLocked wall e1 i1) e2]"]) simp
  qed
  have zero: "\<exists>es. inst_log i1 (log @ es) \<and> length es \<le> 2" if "inst_log i1 log" for i1
    using that by (intro exI [of _ "[]"]) simp
  show ?thesis
  proof (cases "in_state i = ProjectStateInitializing")
    case True
    with assms(1) show ?thesis by (simp add: bind_authority_def Let_def two)
  next
    case False
    with assms(1) show ?thesis
      by (cases "in_authorityState i = AuthorityStateStable")
        (simp_all add: bind_authority_def Let_def one zero)
  qed
qed

lemma join_client_log:
  assumes "inst_log i log" "length log + 3 < 2 ^ 64 - 1" "join_client wall c d r w k now i = Inr i'"
  shows "\<exists>es. inst_log i' (log @ es) \<and> length es \<le> 2"
  using assms(3) bind_authority_log [OF assms(1,2), of wall c "TrimSpace w" now]
    exI [of "\<lambda>es. inst_log i (log @ es) \<and> length es \<le> 2" "[]"] assms(1)
  by (auto simp: join_client_def Let_def split: if_splits)

lemma AttachClient_published:
  assumes inv: "inst_inv i" and log: "inst_log i log" "length log + 3 < 2 ^ 64 - 1"
  shows "published i (snd (AttachClientWithSession wall c d r w k now i)) log"
proof (cases "c = [] \<or> is_terminated i")
  case True
  with log show ?thesis by (auto simp: AttachClientWithSession_def published_refl)
next
  case False
  have drift: "published i1 (check_drift wall c d r now i1) (log @ es)"
    if "inst_log i1 (log @ es)" "inst_log i1 log'" "length log' < 2 ^ 64 - 2" for i1 es log'
    using that inst_log_length [OF that(1,2)] by (intro check_drift_published) auto
  have joined: "published i (check_drift wall c d r now i1) log \<and> published i i1 log"
    if join: "join_client wall c d r w k now i = Inr i1" "map_of (in_clients i) c = None" for i1
  proof -
    have pub: "published i i1 log"
      using False by (intro join_client_published [OF inv _ join(2) log join(1)]) auto
    obtain es where es: "inst_log i1 (log @ es)" "length es \<le> 2"
      using join_client_log [OF log join(1)] by blast
    from pub show ?thesis
      using es log(2) by (auto intro: published_trans [OF pub drift])
  qed
  have old: "published i (check_drift wall c d r now i) log"
    using log by (intro check_drift_published) auto
  from False joined old log(1) show ?thesis
    by (auto simp: AttachClientWithSession_def Let_def published_refl split: option.splits sum.splits)
qed

lemma SubscribeProjectEvents_published:
  assumes "inst_log i log"
  shows "published i (snd (SubscribeProjectEvents since i)) log"
proof -
  have "st_cursor (snd (Subscribe since s)) = st_cursor s" for s :: "ProjectEvent Store"
    by (simp add: Subscribe_def Let_def split: sum.splits)
  moreover have "inst_log (snd (SubscribeProjectEvents since i)) log"
    using assms pev.Subscribe_holds [of "in_eventStream i" log since]
    by (auto simp: SubscribeProjectEvents_def inst_log_def split_def Subscribe_def Let_def
        split: sum.splits)
  ultimately show ?thesis
    unfolding published_def
    by (intro exI [of _ "[]"]) (simp add: agrees_def SubscribeProjectEvents_def split_def)
qed

lemma UnsubscribeProjectEvents_published:
  assumes "inst_log i log"
  shows "published i (UnsubscribeProjectEvents watcher i) log"
  unfolding published_def
  using assms
  by (intro exI [of _ "[]"])
    (auto simp: agrees_def UnsubscribeProjectEvents_def inst_log_def Unsubscribe_def pev.is_store_def
      store_holds_def split: option.splits)

lemma inst_apply_published:
  assumes "inst_inv i" "inst_log i log" "counters_have_room i"
    and stays: "\<And>c. op = OpRemove c \<Longrightarrow> in_clients (inst_apply wall now op i) \<noteq> []"
  shows "published i (inst_apply wall now op i) log"
proof -
  have room: "length log + 3 < 2 ^ 64 - 1"
    using assms(2,3) by (simp add: counters_have_room_def inst_log_cursor)
  show ?thesis
    using assms(1,2) stays room
    by (cases op)
      (simp_all add: AttachClient_published CompleteInitialSync_published ConfirmReconcile_published
        ReportSyncProgress_published StartCommand_published update_command_published FinishCommand_def
        FailCommand_def EnterAuthorityRebinding_published Terminate_published RemoveClient_published
        SubscribeProjectEvents_published UnsubscribeProjectEvents_published)
qed

text \<open>The removal of the last client publishes nothing.\<close>

lemma RemoveClient_last:
  assumes "inst_log i log" "in_clients (snd (RemoveClient wall c now i)) = []"
  shows "inst_log (snd (RemoveClient wall c now i)) log"
  using assms by (auto simp: RemoveClient_def Let_def split: option.splits if_splits)

lemma inst_apply_log:
  assumes "inst_inv i" "inst_log i log" "counters_have_room i"
  shows "\<exists>es. inst_log (inst_apply wall now op i) (log @ es)"
proof (cases "(\<exists>c. op = OpRemove c) \<and> in_clients (inst_apply wall now op i) = []")
  case True
  then show ?thesis
    using RemoveClient_last [OF assms(2)] by (intro exI [of _ "[]"]) auto
next
  case False
  then have "published i (inst_apply wall now op i) log"
    by (intro inst_apply_published [OF assms]) auto
  then show ?thesis by (auto simp: published_def)
qed

lemma inst_reachable_log: "inst_reachable key i \<Longrightarrow> \<exists>log. inst_log i log"
proof (induction rule: inst_reachable.induct)
  case (new i)
  then show ?case using NewInstance_log by blast
next
  case (step i wall now op)
  then show ?case using inst_apply_log inst_reachable_inv by blast
qed

section \<open>A follower of an instance\<close>

text \<open>Runs of an instance during which the client \<open>w\<close> stays attached.\<close>

inductive watched_run :: "string \<Rightarrow> Instance \<Rightarrow> Instance \<Rightarrow> bool" for w where
  stay: "watched_run w i i"
| step: "watched_run w i j \<Longrightarrow> counters_have_room j \<Longrightarrow>
    map_of (in_clients (inst_apply wall now op j)) w \<noteq> None \<Longrightarrow>
    watched_run w i (inst_apply wall now op j)"

lemma watched_run_published:
  assumes "watched_run w i j" "inst_inv i" "inst_log i log"
  shows "inst_inv j \<and> published i j log"
  using assms
proof (induction rule: watched_run.induct)
  case (stay i)
  then show ?case by (simp add: published_refl)
next
  case (step i j wall now op)
  then have "in_clients (inst_apply wall now op j) \<noteq> []" by auto
  with step show ?case
    by (auto intro: published_trans inst_apply_published inst_apply_inv)
qed

lemma snapshotLocked_agrees:
  assumes "inst_inv i" "snapshotLocked c i = Inr s"
  shows "agrees i s"
proof -
  have ids: "map_of (in_commands i) k = Some cmd \<Longrightarrow> cmd_CommandID cmd = k" for k cmd
    using assms(1) by (simp add: inst_inv_def commands_ok_def)
  have ok: "gomap_ok (in_commands i)"
    using assms(1) by (simp add: inst_inv_def commands_ok_def)
  have "map cmd_CommandID (map snd (in_commands i)) = map fst (in_commands i)"
    using ids gomap_ok_mem_iff [OF ok] by (auto simp del: map_of_eq_Some_iff)
  then have dist: "distinct (map cmd_CommandID (map snd (in_commands i)))"
    using ok by (simp only: gomap_ok_def)
  have mem: "cmd \<in> snd ` set (in_commands i) \<longleftrightarrow> map_of (in_commands i) (cmd_CommandID cmd) = Some cmd" for cmd
  proof
    assume "cmd \<in> snd ` set (in_commands i)"
    then obtain k where "(k, cmd) \<in> set (in_commands i)" by auto
    then have "map_of (in_commands i) k = Some cmd"
      using gomap_ok_mem_iff [OF ok] by blast
    with ids show "map_of (in_commands i) (cmd_CommandID cmd) = Some cmd" by blast
  next
    assume "map_of (in_commands i) (cmd_CommandID cmd) = Some cmd"
    then show "cmd \<in> snd ` set (in_commands i)"
      by (metis map_of_SomeD image_eqI snd_conv)
  qed
  have "distinct (map cmd_CommandID (sort_key f (map snd (in_commands i))))" for f :: "CommandSnapshot \<Rightarrow> 'k::linorder"
    using dist distinct_map [of cmd_CommandID "map snd (in_commands i)"]
      distinct_map [of cmd_CommandID "sort_key f (map snd (in_commands i))"]
    by (simp only: set_sort distinct_sort)
  then have "commands_agree (in_commands i)
      (sort_key (\<lambda>c. (cmd_StartedAt c, cmd_CommandID c)) (map snd (in_commands i)))"
    unfolding commands_agree_def using mem by simp
  then show ?thesis
    using assms(2)
    by (simp add: snapshotLocked_def agrees_def CurrentCursor_def split_def split: option.splits)
      (auto simp: comp_def)
qed

text \<open>What the instance's stream gives to a reader at the cursor of its snapshot.\<close>

lemma ProjectEventsSince_log:
  assumes "inst_log j (log @ es)" "unat since = length log" "ProjectEventsSince since j = Inr evs"
  shows "evs = stamp put_cursor (length log) es"
  using assms pev.EventsSince_ok(2) [of "in_eventStream j" "log @ es" since evs]
  by (simp add: inst_log_def ProjectEventsSince_def stamp_append)

end
