(* ===== verification/Project_Demo.thy ===== *)
theory Project_Demo
  imports Project_Ready
begin

text \<open>
  A short concrete run of one project, used to instantiate the theorems: an authority session
  attaches and completes the initial sync, then a second workspace with other content attaches and
  locks the project.
\<close>

definition demo_key :: ProjectKey where
  "demo_key = \<lparr>key_Username = ''u'', key_ProjectID = ''p''\<rparr>"

definition demo_digest :: "string \<Rightarrow> WorkspaceDigest" where
  "demo_digest v = \<lparr>dig_Algorithm = ''workspace-sha256'', dig_Value = v\<rparr>"

definition demo_new :: Instance where
  "demo_new = projr (NewInstance demo_key)"

definition demo_syncing :: Instance where
  "demo_syncing = inst_apply 9 1
     (OpAttach ''a'' (demo_digest ''files=3;root=ab'') ''/w'' ''ws'' SessionKindAuthority) demo_new"

definition demo_active :: Instance where
  "demo_active = inst_apply 9 2 (OpComplete ''a'' 1) demo_syncing"

definition demo_locked :: Instance where
  "demo_locked = inst_apply 9 3
     (OpAttach ''b'' (demo_digest ''files=9;root=cd'') ''/x'' ''wx'' SessionKindInteractive) demo_active"

definition demo_closed :: Instance where
  "demo_closed = inst_apply 9 4 (OpTerminate ''done'') demo_locked"

definition demo_tty :: TTYSpec where
  "demo_tty = \<lparr>tty_Interactive = False, tty_Columns = 0, tty_Rows = 0\<rparr>"

lemma demo_facts:
  "in_state demo_syncing = ProjectStateSyncing"
  "in_state demo_active = ProjectStateActive"
  "in_state demo_locked = ProjectStateNeedsConfirmation"
  "in_state demo_closed = ProjectStateTerminated"
  "in_ownerID demo_active = ''a''"
  "in_syncEpoch demo_active = 1"
  "st_cursor (in_eventStream demo_new) = 0"
  "st_cursor (in_eventStream demo_syncing) = 2"
  "st_cursor (in_eventStream demo_active) = 3"
  "st_cursor (in_eventStream demo_locked) = 4"
  "st_cursor (in_eventStream demo_closed) = 5"
  "in_nextCommandID demo_new = 0"
  "in_nextCommandID demo_syncing = 0"
  "in_nextCommandID demo_active = 0"
  "in_nextCommandID demo_locked = 0"
  "in_nextCommandID demo_closed = 0"
  by code_simp+

lemma demo_room:
  "counters_have_room demo_new" "counters_have_room demo_syncing" "counters_have_room demo_active"
  "counters_have_room demo_locked" "counters_have_room demo_closed"
  by (simp_all add: counters_have_room_def demo_facts)

lemma demo_NewInstance: "NewInstance demo_key = Inr demo_new"
  by (simp add: demo_new_def NewInstance_def demo_key_def newProjectEventStream_def New_def
      prepareCursorCodec_def projectEventCodec_def Let_def)

lemma demo_reachable:
  "inst_reachable demo_key demo_new" "inst_reachable demo_key demo_syncing"
  "inst_reachable demo_key demo_active" "inst_reachable demo_key demo_locked"
  "inst_reachable demo_key demo_closed"
proof -
  show new: "inst_reachable demo_key demo_new"
    by (rule inst_reachable.new [OF demo_NewInstance])
  show syncing: "inst_reachable demo_key demo_syncing"
    unfolding demo_syncing_def by (rule inst_reachable.step [OF new demo_room(1)])
  show active: "inst_reachable demo_key demo_active"
    unfolding demo_active_def by (rule inst_reachable.step [OF syncing demo_room(2)])
  show locked: "inst_reachable demo_key demo_locked"
    unfolding demo_locked_def by (rule inst_reachable.step [OF active demo_room(3)])
  show "inst_reachable demo_key demo_closed"
    unfolding demo_closed_def by (rule inst_reachable.step [OF locked demo_room(4)])
qed

end
