(* ===== verification/Project_Properties.thy ===== *)
theory Project_Properties
  imports Project_Demo
begin

text \<open>
  What one project instance guarantees, over every sequence of its operations: the lifecycle, the
  authority, the reconcile lock, commands and progress reports.
\<close>

section \<open>The lifecycle\<close>

text \<open>The edges of the lifecycle, with the sync epoch. Entering \<open>Syncing\<close> opens a new epoch.\<close>

inductive lifecycle_edge :: "ProjectState \<times> u64 \<Rightarrow> ProjectState \<times> u64 \<Rightarrow> bool" where
  stay: "lifecycle_edge (s, e) (s, e)"
| bind: "lifecycle_edge (ProjectStateInitializing, e) (ProjectStateSyncing, e + 1)"
| complete: "lifecycle_edge (ProjectStateSyncing, e) (ProjectStateActive, e)"
| drift: "s = ProjectStateSyncing \<or> s = ProjectStateActive \<Longrightarrow>
    lifecycle_edge (s, e) (ProjectStateNeedsConfirmation, e)"
| confirm: "lifecycle_edge (ProjectStateNeedsConfirmation, e) (ProjectStateSyncing, e + 1)"
| terminate: "s \<noteq> ProjectStateTerminated \<Longrightarrow> lifecycle_edge (s, e) (ProjectStateTerminated, e)"

inductive_simps lifecycle_edge_simps: "lifecycle_edge (s, e) (s', e')"

abbreviation phase_of :: "Instance \<Rightarrow> ProjectState \<times> u64" where
  "phase_of i \<equiv> (in_state i, in_syncEpoch i)"

lemma join_client_phase:
  "join_client wall c d r w k now i = Inr i' \<Longrightarrow>
   phase_of i' = (if NormalizeSessionKind k = SessionKindAuthority \<and> in_state i = ProjectStateInitializing
     then (ProjectStateSyncing, in_syncEpoch i + 1) else phase_of i)"
  by (auto simp: join_client_def bind_authority_def Let_def split: if_splits)

lemma check_drift_phase:
  "phase_of (check_drift wall c d r now i) =
     (if map_of (in_clients i) c \<noteq> None \<and> sourceDiffLevelLocked c d r i = SourceDiffSevere
      then (ProjectStateNeedsConfirmation, in_syncEpoch i) else phase_of i)"
  by (auto simp: check_drift_def Let_def split: option.splits SourceDiffLevel.splits)

text \<open>A client that joined as the authority is the visible owner, so its attach checks no drift.\<close>

lemma join_client_visible:
  "join_client wall c d r w k now i = Inr i' \<Longrightarrow> NormalizeSessionKind k = SessionKindAuthority \<Longrightarrow>
   isVisibleOwnerLocked c i'"
  by (auto simp: join_client_def Let_def isVisibleOwnerLocked_def visibleRoleLocked_def split: if_splits)

lemma check_drift_edge:
  assumes "inst_inv i" "in_state i \<noteq> ProjectStateTerminated"
  shows "lifecycle_edge (phase_of i) (phase_of (check_drift wall c d r now i))"
proof -
  have "in_state i \<noteq> ProjectStateTerminating"
    using assms(1) by (simp add: inst_inv_def lifecycle_ok_def)
  with assms severe_drift_owner [OF assms(1), of c d r] show ?thesis
    by (cases "in_state i") (auto simp: check_drift_phase lifecycle_edge_simps)
qed

lemma AttachClient_edge:
  assumes inv: "inst_inv i"
  shows "lifecycle_edge (phase_of i) (phase_of (snd (AttachClientWithSession wall c d r w k now i)))"
proof (cases "c = [] \<or> is_terminated i")
  case True
  then show ?thesis by (auto simp: AttachClientWithSession_def lifecycle_edge_simps)
next
  case False
  then have c: "c \<noteq> []" and live: "in_state i \<noteq> ProjectStateTerminated" by auto
  have joined: "lifecycle_edge (phase_of i)
      (phase_of (if \<not> isVisibleOwnerLocked c i1 then check_drift wall c d r now i1 else i1))"
    if join: "join_client wall c d r w k now i = Inr i1" and new: "map_of (in_clients i) c = None" for i1
  proof (cases "NormalizeSessionKind k = SessionKindAuthority")
    case True
    then show ?thesis
      using join_client_visible [OF join] join_client_phase [OF join] by (auto simp: lifecycle_edge_simps)
  next
    case auth: False
    then have "phase_of i1 = phase_of i" using join_client_phase [OF join] by auto
    then show ?thesis
      using check_drift_edge [OF join_client_inv [OF inv live c new join], of wall c d r now] live
      by (auto simp: lifecycle_edge_simps)
  qed
  show ?thesis
    using False joined check_drift_edge [OF inv live]
    by (auto simp: AttachClientWithSession_def Let_def lifecycle_edge.stay split: option.splits sum.splits)
qed

lemma update_command_phase [simp]: "phase_of (snd (update_command wall cid upd now i)) = phase_of i"
  by (simp add: update_command_def Let_def split: option.splits)

lemma CompleteInitialSync_edge:
  assumes "inst_inv i"
  shows "lifecycle_edge (phase_of i) (phase_of (snd (CompleteInitialSync wall c e now i)))"
proof -
  have "in_state i \<noteq> ProjectStateInitializing" if "requireOwnerLocked c i = None"
    using that assms by (auto simp: requireOwner_None inst_inv_def authority_ok_def clients_ok_def)
  then show ?thesis
    by (cases "in_state i")
      (auto simp: CompleteInitialSync_def Let_def lifecycle_edge_simps split: option.splits)
qed

lemma inst_apply_edge:
  assumes "inst_inv i"
  shows "lifecycle_edge (phase_of i) (phase_of (inst_apply wall now op i))"
proof (cases op)
  case (OpAttach c d r w k)
  then show ?thesis using AttachClient_edge [OF assms] by simp
next
  case (OpComplete c e)
  then show ?thesis using CompleteInitialSync_edge [OF assms] by simp
qed (auto simp: FinishCommand_def FailCommand_def ConfirmReconcileWithSession_def
    ReportSyncProgress_def StartCommand_def EnterAuthorityRebinding_def Terminate_def RemoveClient_def
    SubscribeProjectEvents_def UnsubscribeProjectEvents_def Let_def lifecycle_edge_simps split_def
    split: option.splits sum.splits)

text \<open>
  C1: Every operation on a reachable project instance moves its state and sync epoch along one edge
  of the lifecycle: initializing to syncing, syncing to active, either of these two to
  needs-confirmation, needs-confirmation to syncing, anything to terminated. The epoch grows by one
  exactly when the project enters syncing from another state.
\<close>

theorem lifecycle_follows_edges:
  assumes "inst_reachable key i"
  shows "lifecycle_edge (in_state i, in_syncEpoch i)
    (in_state (inst_apply wall now op i), in_syncEpoch (inst_apply wall now op i))"
  by (rule inst_apply_edge [OF inst_reachable_inv [OF assms]])

theorem lifecycle_follows_edges_witness:
  "lifecycle_edge (in_state demo_active, in_syncEpoch demo_active)
    (in_state demo_locked, in_syncEpoch demo_locked)"
  unfolding demo_locked_def
  by (rule lifecycle_follows_edges [OF demo_reachable(3)])

section \<open>Authority\<close>

text \<open>
  C14: In every reachable state the authority is stable exactly when an owner is bound and the project
  has not terminated; a bound owner is an attached client with the owner role, and a project without
  an owner yet is the only one that is still initializing.
\<close>

theorem authority_is_attached:
  assumes "inst_reachable key i"
  shows "(in_authorityState i = AuthorityStateStable \<longleftrightarrow>
      in_ownerID i \<noteq> [] \<and> in_state i \<noteq> ProjectStateTerminated) \<and>
    (in_ownerID i \<noteq> [] \<longrightarrow> (\<exists>c. map_of (in_clients i) (in_ownerID i) = Some c \<and>
       cl_ID c = in_ownerID i \<and> cl_Role c = RoleOwner)) \<and>
    (in_state i = ProjectStateInitializing \<longrightarrow> in_ownerID i = [])"
  using inst_reachable_inv [OF assms] by (auto simp: inst_inv_def authority_ok_def clients_ok_def)

theorem authority_is_attached_witness:
  "\<exists>c. map_of (in_clients demo_active) ''a'' = Some c \<and> cl_ID c = ''a'' \<and> cl_Role c = RoleOwner"
  using authority_is_attached [OF demo_reachable(3)] by (simp add: demo_facts)

text \<open>
  Only one session can hold the authority. While a reachable project that is not terminated has an owner,
  another client that attaches for the first time as an authority session is refused with a conflict and
  nothing changes.
\<close>

lemma second_authority_refused:
  assumes "inst_reachable key i" "in_ownerID i \<noteq> []" "in_state i \<noteq> ProjectStateTerminated"
    "map_of (in_clients i) c = None" "c \<noteq> []" "NormalizeSessionKind k = SessionKindAuthority"
  shows "AttachClientWithSession wall c d r w k now i =
    (Inl (NewError ErrConflict ''project already has an active authority session''), i)"
proof -
  have "in_ownerID i \<noteq> c" "in_state i \<noteq> ProjectStateTerminating"
    using inst_reachable_inv [OF assms(1)] assms(2,4)
    by (auto simp: inst_inv_def authority_ok_def lifecycle_ok_def)
  with assms show ?thesis
    by (simp add: AttachClientWithSession_def join_client_def Let_def)
qed

lemma authority_attached_in:
  "inst_reachable key i \<Longrightarrow> in_ownerID i \<noteq> [] \<Longrightarrow> \<exists>c. map_of (in_clients i) (in_ownerID i) = Some c"
  using inst_reachable_inv by (auto simp: inst_inv_def authority_ok_def)

lemma demo_attached: "\<exists>c. map_of (in_clients demo_active) ''a'' = Some c"
  using authority_attached_in [OF demo_reachable(3)] by (simp add: demo_facts)

section \<open>The reconcile lock\<close>

lemma AttachClient_locked:
  assumes "in_state i = ProjectStateNeedsConfirmation"
  shows "in_state (snd (AttachClientWithSession wall c d r w k now i)) = ProjectStateNeedsConfirmation"
proof -
  have "in_state i1 = ProjectStateNeedsConfirmation" if "join_client wall c d r w k now i = Inr i1" for i1
    using join_client_state [OF that] assms by auto
  moreover have "in_state (check_drift wall c d r now i1) = ProjectStateNeedsConfirmation"
    if "in_state i1 = ProjectStateNeedsConfirmation" for i1
    using that check_drift_phase [of wall c d r now i1] by (auto split: if_splits)
  ultimately show ?thesis
    using assms by (auto simp: AttachClientWithSession_def Let_def split: option.splits sum.splits)
qed

text \<open>
  C15: A project locked for reconcile confirmation leaves the lock only by a confirmation of an attached
  client that speaks for an authority session and names the current cursor, or by termination.
\<close>

theorem reconcile_lock:
  assumes "in_state i = ProjectStateNeedsConfirmation"
    and "in_state (inst_apply wall now op i) \<noteq> ProjectStateNeedsConfirmation"
  shows "(\<exists>c d w k. op = OpConfirm c (CurrentCursor (in_eventStream i)) d w k \<and>
      map_of (in_clients i) c \<noteq> None \<and> NormalizeSessionKind k = SessionKindAuthority) \<or>
    (\<exists>r. op = OpTerminate r)"
proof (cases op)
  case (OpAttach c d r w k)
  then show ?thesis using assms AttachClient_locked by simp
next
  case (OpConfirm c x d w k)
  then show ?thesis using assms(2) assms(1) by (auto simp: ConfirmReconcileWithSession_def split: if_splits)
qed (use assms in \<open>auto simp: CompleteInitialSync_def FinishCommand_def FailCommand_def
    ReportSyncProgress_def StartCommand_def EnterAuthorityRebinding_def RemoveClient_def update_command_def
    SubscribeProjectEvents_def UnsubscribeProjectEvents_def Let_def split_def
    split: option.splits sum.splits if_splits\<close>)

theorem reconcile_lock_witness:
  "(\<exists>c d w k. OpConfirm ''b'' 4 (demo_digest ''files=9;root=cd'') ''wx'' SessionKindAuthority =
      OpConfirm c (CurrentCursor (in_eventStream demo_locked)) d w k \<and>
      map_of (in_clients demo_locked) c \<noteq> None \<and> NormalizeSessionKind k = SessionKindAuthority) \<or>
    (\<exists>r. OpConfirm ''b'' 4 (demo_digest ''files=9;root=cd'') ''wx'' SessionKindAuthority = OpTerminate r)"
proof (rule reconcile_lock [OF demo_facts(3)])
  show "in_state (inst_apply 9 5 (OpConfirm ''b'' 4 (demo_digest ''files=9;root=cd'') ''wx''
      SessionKindAuthority) demo_locked) \<noteq> ProjectStateNeedsConfirmation"
    by code_simp
qed

text \<open>
  C20: A reconcile confirmation succeeds exactly when the client is attached, the project waits for
  confirmation, the session is an authority session and the cursor is current. Then the caller is the
  only client with the owner role, the authority is stable, the project is back in syncing under a new
  epoch and its warnings are gone. A refused confirmation changes nothing.
\<close>

theorem confirm_reconcile_outcome:
  "(\<exists>snap. fst (ConfirmReconcileWithSession wall c x d w k now i) = Inr snap) =
     (map_of (in_clients i) c \<noteq> None \<and> in_state i = ProjectStateNeedsConfirmation \<and>
      NormalizeSessionKind k = SessionKindAuthority \<and> x = CurrentCursor (in_eventStream i)) \<and>
   (if map_of (in_clients i) c \<noteq> None \<and> in_state i = ProjectStateNeedsConfirmation \<and>
       NormalizeSessionKind k = SessionKindAuthority \<and> x = CurrentCursor (in_eventStream i)
    then let i' = snd (ConfirmReconcileWithSession wall c x d w k now i)
         in in_state i' = ProjectStateSyncing \<and> in_syncEpoch i' = in_syncEpoch i + 1 \<and>
            in_ownerID i' = c \<and> in_authorityState i' = AuthorityStateStable \<and> in_warnings i' = [] \<and>
            (\<exists>cl. map_of (in_clients i') c = Some cl \<and> cl_Role cl = RoleOwner \<and> cl_Digest cl = d) \<and>
            {b. \<exists>cl. map_of (in_clients i') b = Some cl \<and> cl_Role cl = RoleOwner} = {c}
    else snd (ConfirmReconcileWithSession wall c x d w k now i) = i)"
  by (auto simp: ConfirmReconcileWithSession_def snapshotLocked_def Let_def map_of_map_values reset_client_def)

section \<open>Commands\<close>

lemma demo_StartCommand:
  "\<exists>cmd. fst (StartCommand 9 ''a'' [''ls''] demo_tty False 5 demo_active) = Inr cmd"
  using demo_attached inst_reachable_inv [OF demo_reachable(3)]
  by (auto simp: StartCommand_def Let_def demo_facts inst_inv_def authority_ok_def)

text \<open>
  What a snapshot advertises is what the instance does: a client whose snapshot says that commands
  can start gets its command started, and one whose snapshot says no is refused.
\<close>

lemma can_start_commands_iff:
  assumes "Snapshot c i = Inr s"
  shows "(\<exists>cmd. fst (StartCommand wall c argv tty tmux now i) = Inr cmd) \<longleftrightarrow> snap_CanStartCommands s"
  using assms
  by (cases "in_state i")
    (auto simp: Snapshot_def snapshotLocked_def StartCommand_def Let_def split: option.splits)

text \<open>
  C30: A started command gets an identifier no command of the project has had, is stored as running,
  started by the caller, and nothing else about the project's commands changes.
\<close>

theorem started_command_is_fresh:
  assumes "inst_reachable key i" "counters_have_room i"
    and "StartCommand wall c argv tty tmux now i = (Inr cmd, i')"
  shows "map_of (in_commands i) (cmd_CommandID cmd) = None \<and>
    map_of (in_commands i') = (map_of (in_commands i))(cmd_CommandID cmd \<mapsto> cmd) \<and>
    Command (cmd_CommandID cmd) i' = Inr cmd \<and>
    cmd_State cmd = CommandStateRunning \<and> cmd_StartedBy cmd = c \<and> cmd_ArgvTail cmd = argv \<and>
    in_state i' = in_state i \<and> in_clients i' = in_clients i"
proof -
  have ok: "commands_ok (in_commands i) (in_nextCommandID i)"
    using inst_reachable_inv [OF assms(1)] by (simp add: inst_inv_def)
  have "in_nextCommandID i + 1 \<noteq> 0" using assms(2) by (simp add: counters_have_room_def)
  note fresh = commands_ok_fresh [OF ok this]
  have cmd: "cmd_CommandID cmd = command_id (in_nextCommandID i + 1)" "cmd_State cmd = CommandStateRunning"
      "cmd_StartedBy cmd = c" "cmd_ArgvTail cmd = argv"
    and i': "in_commands i' = AList.update (cmd_CommandID cmd) cmd (in_commands i)"
      "in_state i' = in_state i" "in_clients i' = in_clients i"
    using assms(3) by (auto simp: StartCommand_def Let_def split: if_splits)
  then show ?thesis using fresh by (simp add: Command_def update_conv')
qed

theorem started_command_is_fresh_witness:
  "\<exists>cmd i'. StartCommand 9 ''a'' [''ls''] demo_tty False 5 demo_active = (Inr cmd, i') \<and>
     Command (cmd_CommandID cmd) i' = Inr cmd"
proof -
  obtain cmd where "fst (StartCommand 9 ''a'' [''ls''] demo_tty False 5 demo_active) = Inr cmd"
    using demo_StartCommand by blast
  then obtain i' where "StartCommand 9 ''a'' [''ls''] demo_tty False 5 demo_active = (Inr cmd, i')"
    by (cases "StartCommand 9 ''a'' [''ls''] demo_tty False 5 demo_active") auto
  from this started_command_is_fresh [OF demo_reachable(3) demo_room(3) this] show ?thesis by blast
qed

section \<open>Termination\<close>

inductive inst_run :: "Instance \<Rightarrow> Instance \<Rightarrow> bool" where
  nothing: "inst_run i i"
| step: "inst_run i j \<Longrightarrow> counters_have_room j \<Longrightarrow> inst_run i (inst_apply wall now op j)"

lemma inst_run_reachable: "inst_run i j \<Longrightarrow> inst_reachable key i \<Longrightarrow> inst_reachable key j"
  by (induction rule: inst_run.induct) (auto intro: inst_reachable.step)

lemma terminated_stays:
  assumes "inst_run i j" "inst_reachable key i" "in_state i = ProjectStateTerminated"
  shows "in_state j = ProjectStateTerminated"
  using assms
proof (induction rule: inst_run.induct)
  case (step i j wall now op)
  then have "lifecycle_edge (phase_of j) (phase_of (inst_apply wall now op j))"
    by (meson inst_apply_edge inst_reachable_inv inst_run_reachable)
  with step show ?case by (auto simp: lifecycle_edge_simps)
qed

text \<open>
  Termination is final. After any further operations a terminated project is still terminated, its
  done channel has been closed exactly once, it is read-only for everybody attached, and it attaches no
  client and starts no command.
\<close>

lemma terminated_is_final:
  assumes "inst_reachable key i" "in_state i = ProjectStateTerminated" "inst_run i j"
  shows "in_state j = ProjectStateTerminated \<and> in_doneCloses j = 1 \<and>
    (\<forall>c. ReadOnly c j \<noteq> Inr False) \<and>
    (c \<noteq> [] \<longrightarrow> AttachClientWithSession wall c d r w k now j = (Inl err_terminated, j)) \<and>
    (\<forall>cmd. fst (StartCommand wall c argv tty tmux now j) \<noteq> Inr cmd)"
proof -
  have t: "in_state j = ProjectStateTerminated" using terminated_stays [OF assms(3,1,2)] .
  have "inst_inv j"
    using inst_reachable_inv inst_run_reachable assms by blast
  with t show ?thesis
    by (auto simp: inst_inv_def lifecycle_ok_def ReadOnly_def AttachClientWithSession_def StartCommand_def)
qed

section \<open>Leaving\<close>

text \<open>
  C31: Removing an attached client of a reachable project takes out exactly that client and reports how
  many remain. If it held the authority, the owner is unbound; with other clients left the project waits
  for a new authority session in rebinding, otherwise the authority is absent. The lifecycle state and the commands stay as they are.
\<close>

theorem remove_client_outcome:
  assumes "inst_reachable key i" "map_of (in_clients i) c \<noteq> None"
    and "RemoveClient wall c now i = (removal, i')"
  shows "rm_Removed removal \<and> map_of (in_clients i') = (map_of (in_clients i))(c := None) \<and>
    rm_RemainingParticipants removal = int (card (dom (map_of (in_clients i')))) \<and>
    (rm_RemovedAuthority removal \<longleftrightarrow> in_ownerID i = c) \<and>
    (in_ownerID i = c \<longrightarrow> in_ownerID i' = [] \<and>
       in_authorityState i' = (if dom (map_of (in_clients i')) = {} then AuthorityStateAbsent else AuthorityStateRebinding) \<and>
       rm_AuthorityAbsent removal = (dom (map_of (in_clients i')) = {}) \<and>
       rm_AuthorityRebinding removal = (dom (map_of (in_clients i')) \<noteq> {})) \<and>
    (in_ownerID i \<noteq> c \<longrightarrow> in_ownerID i' = in_ownerID i \<and> in_authorityState i' = in_authorityState i) \<and>
    in_state i' = in_state i \<and> in_commands i' = in_commands i"
proof -
  have inv: "inst_inv i" using inst_reachable_inv [OF assms(1)] .
  then have ok: "gomap_ok (in_clients i)"
    and own: "in_ownerID i = c \<Longrightarrow> \<exists>cl. map_of (in_clients i) c = Some cl \<and> cl_Role cl = RoleOwner"
    using assms(2) by (auto simp: inst_inv_def clients_ok_def authority_ok_def)
  have len: "length m = card (dom (map_of m))" if "gomap_ok m" for m :: "(string, clientState) gomap"
    using that by (metis gomap_ok_def distinct_card dom_map_of_conv_image_fst length_map set_map)
  have dom_map_of_empty: "dom (map_of m) = {} \<longleftrightarrow> m = []" for m :: "(string, clientState) gomap"
    by simp
  let ?rest = "AList.delete c (in_clients i)"
  have rest: "in_clients i' = ?rest"
    using assms(2,3) by (auto simp: RemoveClient_def Let_def split: option.splits if_splits)
  have map: "map_of (in_clients i') = (map_of (in_clients i))(c := None)"
    unfolding rest by (rule delete_conv')
  have "length ?rest = card (dom (map_of ?rest))" using ok by (intro len) simp
  then have fields: "rm_Removed removal" "rm_RemainingParticipants removal = int (card (dom (map_of (in_clients i'))))"
      "rm_RemovedAuthority removal \<longleftrightarrow> in_ownerID i = c" "in_state i' = in_state i" "in_commands i' = in_commands i"
    using assms(2,3) own unfolding rest
    by (auto simp: RemoveClient_def no_removal_def Let_def split: option.splits if_splits)
  have "in_ownerID i = c \<longrightarrow> in_ownerID i' = [] \<and>
      in_authorityState i' = (if ?rest = [] then AuthorityStateAbsent else AuthorityStateRebinding) \<and>
      rm_AuthorityAbsent removal = (?rest = []) \<and> rm_AuthorityRebinding removal = (?rest \<noteq> [])"
    "in_ownerID i \<noteq> c \<longrightarrow> in_ownerID i' = in_ownerID i \<and> in_authorityState i' = in_authorityState i"
    using assms(2,3) own by (auto simp: RemoveClient_def no_removal_def Let_def split: option.splits if_splits)
  then show ?thesis using fields map unfolding rest dom_map_of_empty by blast
qed

theorem remove_client_outcome_witness:
  "rm_AuthorityRebinding (fst (RemoveClient 9 ''a'' 5 demo_locked)) \<and>
   in_ownerID (snd (RemoveClient 9 ''a'' 5 demo_locked)) = []"
proof -
  have owner: "in_ownerID demo_locked = ''a''" "map_of (in_clients demo_locked) ''a'' \<noteq> None"
    "map_of (in_clients (snd (RemoveClient 9 ''a'' 5 demo_locked))) ''b'' \<noteq> None"
    by code_simp+
  obtain removal i' where r: "RemoveClient 9 ''a'' 5 demo_locked = (removal, i')" by fastforce
  have "in_clients i' \<noteq> []" using owner(3) r by auto
  with remove_client_outcome [OF demo_reachable(4) owner(2) r] owner(1) r show ?thesis by simp
qed

section \<open>Progress reports\<close>

text \<open>
  An accepted progress report of a transfer with a known total carries a percentage between 0 and
  100, which is the completed share rounded to the nearest integer, as long as a hundred times the
  completed count fits a 64-bit unsigned integer with the rounding term.
\<close>

lemma progress_percent_bounds:
  assumes "normalizeSyncProgress p = Inr q" "0 < prog_Total p"
    and "unat (prog_Completed p) * 100 + unat (prog_Total p) div 2 < 2 ^ 64"
  shows "prog_Completed p \<le> prog_Total p \<and>
    (\<exists>n. prog_Percent q = Some n \<and> 0 \<le> n \<and> n \<le> 100 \<and>
      n = int ((unat (prog_Completed p) * 100 + unat (prog_Total p) div 2) div unat (prog_Total p)))"
proof -
  let ?c = "unat (prog_Completed p)" and ?t = "unat (prog_Total p)"
  let ?n = "(?c * 100 + ?t div 2) div ?t"
  have le: "prog_Completed p \<le> prog_Total p"
    and q: "prog_Percent q = Some (sint ((prog_Completed p * 100 + prog_Total p div 2) div prog_Total p))"
    using assms(1,2) by (auto simp: normalizeSyncProgress_def split: if_splits)
  have t: "0 < ?t" using assms(2) by (simp add: word_gt_0 unat_gt_0)
  have "?c \<le> ?t" using le by (simp add: word_le_nat_alt)
  then have "?c * 100 + ?t div 2 < 101 * ?t" using t by arith
  then have small: "?n \<le> 100" using t by (simp add: less_mult_imp_div_less less_Suc_eq_le [symmetric])
  have "unat (prog_Completed p * 100) = ?c * 100"
    using assms(3) by (simp add: unat_mult_lem [THEN iffD1])
  then have "unat (prog_Completed p * 100 + prog_Total p div 2) = ?c * 100 + ?t div 2"
    using assms(3) by (simp add: unat_add_lem [THEN iffD1] unat_div)
  then have "unat ((prog_Completed p * 100 + prog_Total p div 2) div prog_Total p) = ?n"
    by (simp add: unat_div)
  with small have "sint ((prog_Completed p * 100 + prog_Total p div 2) div prog_Total p) = int ?n"
    by (simp add: sint_uint uint_nat signed_take_bit_int_eq_self)
  with le q small show ?thesis by simp
qed

text \<open>
  Without the bound on the product the percentage is wrong: a finished transfer of 2 to the 63
  units is accepted and reported as 0 percent, because the product is computed modulo 2 to the 64.
\<close>

lemma progress_percent_wraps:
  "map_option prog_Percent
     (case normalizeSyncProgress
        \<lparr>prog_Phase = ''upload'', prog_Completed = 2 ^ 63, prog_Total = 2 ^ 63, prog_Percent = None\<rparr>
      of Inl _ \<Rightarrow> None | Inr q \<Rightarrow> Some q) = Some (Some 0)"
  by code_simp

end
