(* ===== verification/Drift_Properties.thy ===== *)
theory Drift_Properties
  imports Project_Demo
begin

text \<open>
  Source drift: what the workspace digests of two clients tell the project, and what an attach of
  another workspace does to it. The producer of the digests is
  \<open>internal/sync/workspace_snapshot.go\<close>.
\<close>

text \<open>The digest a client sends: the number of entries and the hexadecimal fingerprint.\<close>

definition workspace_digest :: "nat \<Rightarrow> string \<Rightarrow> WorkspaceDigest" where
  "workspace_digest entries fingerprint =
     \<lparr>dig_Algorithm = ''workspace-sha256'',
      dig_Value = ''files='' @ nat_dec entries @ '';root='' @ fingerprint\<rparr>"

definition hex_string :: "string \<Rightarrow> bool" where
  "hex_string s \<longleftrightarrow> s \<noteq> [] \<and> set s \<subseteq> set ''0123456789abcdef''"

lemma hex_string_plain: "hex_string s \<Longrightarrow> c \<in> set s \<Longrightarrow> plain c \<and> c \<noteq> CHR '';''"
  by (auto simp: hex_string_def plain_def ascii_space_def)

lemma plain_letters [simp]: "plain (CHR ''f'')" "plain (CHR ''r'')"
  by (simp_all add: plain_def ascii_space_def)

lemma Split_digest:
  assumes "hex_string fp"
  shows "Split (''files='' @ nat_dec n @ '';root='' @ fp) (CHR '';'') = [''files='' @ nat_dec n, ''root='' @ fp]"
proof -
  have "CHR '';'' \<notin> set (''files='' @ nat_dec n)"
    using nat_dec_digits digit_val_plain by fastforce
  moreover have "CHR '';'' \<notin> set (''root='' @ fp)"
    using hex_string_plain [OF assms] by auto
  ultimately show ?thesis
    using Split_append_sep [of "CHR '';''" "''files='' @ nat_dec n" "''root='' @ fp"]
      Split_no_sep [of "CHR '';''" "''root='' @ fp"] by simp
qed

lemma TrimSpace_files: "TrimSpace (''files='' @ nat_dec n) = ''files='' @ nat_dec n"
proof (rule TrimSpace_plain)
  have "last (nat_dec n) \<in> set (nat_dec n)" by simp
  from nat_dec_digits [OF this] show "plain (last (''files='' @ nat_dec n))"
    by (simp add: digit_val_plain)
qed simp_all

lemma TrimSpace_root: "hex_string fp \<Longrightarrow> TrimSpace (''root='' @ fp) = ''root='' @ fp"
proof (rule TrimSpace_plain)
  assume fp: "hex_string fp"
  then have "last fp \<in> set fp" by (simp add: hex_string_def)
  with fp show "plain (last (''root='' @ fp))" by (simp add: hex_string_plain hex_string_def)
qed simp_all

lemma Cut_files: "Cut (''files='' @ s) (CHR ''='') = Some (''files'', s)"
  using Cut_append [of "CHR ''=''" "''files''" s] by simp

lemma Cut_root: "Cut (''root='' @ s) (CHR ''='') = Some (''root'', s)"
  using Cut_append [of "CHR ''=''" "''root''" s] by simp

lemma parse_workspace_digest:
  assumes "hex_string fp" "n < 2 ^ 63"
  shows "parseWorkspaceDigest (workspace_digest n fp) = Some \<lparr>sum_Files = int n, sum_Root = fp\<rparr>"
  using assms Atoi_nat_dec [OF assms(2)]
  unfolding parseWorkspaceDigest_def workspace_digest_def
  by (simp add: Split_digest [simplified] TrimSpace_files [simplified] TrimSpace_root [simplified]
      Cut_files [simplified] Cut_root [simplified] hex_string_def)

text \<open>
  C32: The digest a client computes for its workspace is parsed by the project to exactly the entry
  count and the fingerprint it was made from.
\<close>

theorem digest_round_trip:
  assumes "hex_string fp" "n < 2 ^ 63"
  shows "parseWorkspaceDigest (workspace_digest n fp) = Some \<lparr>sum_Files = int n, sum_Root = fp\<rparr>"
  by (rule parse_workspace_digest [OF assms])

theorem digest_round_trip_witness:
  "parseWorkspaceDigest (workspace_digest 12 ''ab'') = Some \<lparr>sum_Files = 12, sum_Root = ''ab''\<rparr>"
  using digest_round_trip [of "''ab''" 12] by (simp add: hex_string_def)

section \<open>Attaching another workspace\<close>

text \<open>The level of drift between an owner's and a client's workspace.\<close>

definition drift_level :: "nat \<Rightarrow> string \<Rightarrow> string \<Rightarrow> nat \<Rightarrow> string \<Rightarrow> string \<Rightarrow> SourceDiffLevel" where
  "drift_level n1 fp1 root1 n2 fp2 root2 =
     (if fp1 = fp2 then (if attachRootsDiffer root1 root2 then SourceDiffMinor else SourceDiffNone)
      else if \<bar>int n1 - int n2\<bar> \<le> 2 then SourceDiffMinor else SourceDiffSevere)"

lemma workspace_digest_not_zero [simp]: "\<not> IsZero (workspace_digest n fp)"
  by (simp add: IsZero_def workspace_digest_def)

lemma sourceDiffLevelLocked_digests:
  assumes "map_of (in_clients i) c = Some cl" "c \<noteq> in_ownerID i"
    "cl_WorkspaceInstanceID cl = [] \<or> cl_WorkspaceInstanceID cl \<noteq> in_ownerWorkspaceInstanceID i"
    "map_of (in_clients i) (in_ownerID i) = Some owner" "cl_Digest owner = workspace_digest n1 fp1"
    "hex_string fp1" "hex_string fp2" "n1 < 2 ^ 63" "n2 < 2 ^ 63"
  shows "sourceDiffLevelLocked c (workspace_digest n2 fp2) r i =
    drift_level n1 fp1 (cl_WorkspaceRoot owner) n2 fp2 r"
proof -
  note parse = parse_workspace_digest [OF assms(6,8)] parse_workspace_digest [OF assms(7,9)]
  have same: "fp1 = fp2" if "workspace_digest n1 fp1 = workspace_digest n2 fp2"
    using parse unfolding that by simp
  have not_self: "\<not> (cl_WorkspaceInstanceID cl \<noteq> [] \<and> cl_WorkspaceInstanceID cl = in_ownerWorkspaceInstanceID i)"
    using assms(3) by auto
  show ?thesis
    unfolding sourceDiffLevelLocked_def Let_def assms(1,4,5) option.case parse prod.case
    using assms(2) not_self same by (simp add: drift_level_def) blast
qed

text \<open>
  C21: A new interactive client from another workspace instance attaches to a live project whose owner
  sent a digest. The fingerprints and entry counts decide: equal fingerprints leave the project as it
  is; a difference of at most two entries gives this client a minor warning; a larger one locks the
  project for reconcile with one severe warning. Equal content under another root is a minor warning.
\<close>

theorem attach_drift_outcome:
  assumes "c \<noteq> []" "map_of (in_clients i) c = None" "NormalizeSessionKind k = SessionKindInteractive"
    "\<not> is_terminated i"
    "TrimSpace w = [] \<or> TrimSpace w \<noteq> in_ownerWorkspaceInstanceID i"
    "map_of (in_clients i) (in_ownerID i) = Some owner" "cl_Digest owner = workspace_digest n1 fp1"
    "hex_string fp1" "hex_string fp2" "n1 < 2 ^ 63" "n2 < 2 ^ 63"
    and level: "level = drift_level n1 fp1 (cl_WorkspaceRoot owner) n2 fp2 r"
    and attach: "AttachClientWithSession wall c (workspace_digest n2 fp2) r w k now i = (res, i')"
  shows "(\<exists>snap. res = Inr snap \<and> snap_Role snap = RoleFollower) \<and>
    in_state i' = (if level = SourceDiffSevere then ProjectStateNeedsConfirmation else in_state i) \<and>
    map warn_DiffLevel (in_warnings i') =
      (if level = SourceDiffSevere then [SourceDiffSevere] else map warn_DiffLevel (in_warnings i)) \<and>
    (\<exists>cl. map_of (in_clients i') c = Some cl \<and> cl_Role cl = RoleFollower \<and>
       map warn_DiffLevel (cl_Warnings cl) =
         (if level = SourceDiffMinor then [SourceDiffMinor] else [])) \<and>
    in_ownerID i' = in_ownerID i \<and> in_syncEpoch i' = in_syncEpoch i"
proof -
  let ?cl = "\<lparr>cl_ID = c, cl_Role = RoleFollower, cl_Digest = workspace_digest n2 fp2,
     cl_WorkspaceRoot = TrimSpace r, cl_WorkspaceInstanceID = TrimSpace w,
     cl_SessionKind = SessionKindInteractive, cl_JoinedAt = now, cl_Warnings = []\<rparr>"
  let ?i = "i\<lparr>in_clients := AList.update c ?cl (in_clients i)\<rparr>"
  have co: "c \<noteq> in_ownerID i" using assms(2,6) by auto
  have join: "join_client wall c (workspace_digest n2 fp2) r w k now i = Inr ?i"
    using assms(3) by (simp add: join_client_def Let_def)
  have lvl: "sourceDiffLevelLocked c (workspace_digest n2 fp2) r ?i = level"
    unfolding level using assms co by (intro sourceDiffLevelLocked_digests [where cl = ?cl]) auto
  have vis: "visibleRoleLocked c j = RoleFollower"
    if "map_of (in_clients j) c = Some d" "cl_Role d = RoleFollower" "cl_WorkspaceInstanceID d = TrimSpace w"
      "in_ownerWorkspaceInstanceID j = in_ownerWorkspaceInstanceID i" for j d
    using that assms(5) by (auto simp: visibleRoleLocked_def)
  have "visibleRoleLocked c ?i = RoleFollower" by (rule vis [where d = ?cl]) simp_all
  then have eq: "i' = check_drift wall c (workspace_digest n2 fp2) r now ?i" "res = snapshotLocked c i'"
    using attach assms(1,2,4) join by (auto simp: AttachClientWithSession_def Let_def isVisibleOwnerLocked_def)
  obtain cl where cl: "map_of (in_clients i') c = Some cl" "cl_Role cl = RoleFollower"
      "cl_WorkspaceInstanceID cl = TrimSpace w"
      "map warn_DiffLevel (cl_Warnings cl) = (if level = SourceDiffMinor then [SourceDiffMinor] else [])"
    unfolding eq(1) using lvl
    by (cases level) (simp_all add: check_drift_def Let_def sourceDriftWarningLocked_def)
  have frame: "in_ownerWorkspaceInstanceID i' = in_ownerWorkspaceInstanceID i" "in_ownerID i' = in_ownerID i"
      "in_syncEpoch i' = in_syncEpoch i"
      "in_state i' = (if level = SourceDiffSevere then ProjectStateNeedsConfirmation else in_state i)"
      "map warn_DiffLevel (in_warnings i') =
        (if level = SourceDiffSevere then [SourceDiffSevere] else map warn_DiffLevel (in_warnings i))"
    unfolding eq(1) using lvl
    by (cases level; simp add: check_drift_def Let_def sourceDriftWarningLocked_def)+
  have "\<exists>snap. res = Inr snap \<and> snap_Role snap = RoleFollower"
    using eq(2) cl(1) vis [OF cl(1-3) frame(1)] by (simp add: snapshotLocked_def)
  with cl frame show ?thesis by blast
qed

theorem attach_drift_outcome_witness:
  "in_state (snd (AttachClientWithSession 9 ''b'' (workspace_digest 9 ''cd'') ''/x'' [] [] 5 demo_active)) =
     ProjectStateNeedsConfirmation"
proof -
  have "map_option cl_Digest (map_of (in_clients demo_active) (in_ownerID demo_active)) =
      Some (workspace_digest 3 ''ab'')" by code_simp
  then obtain owner where o: "map_of (in_clients demo_active) (in_ownerID demo_active) = Some owner"
    "cl_Digest owner = workspace_digest 3 ''ab''" by auto
  obtain res i' where a: "AttachClientWithSession 9 ''b'' (workspace_digest 9 ''cd'') ''/x'' [] [] 5 demo_active
      = (res, i')" by fastforce
  have n: "map_of (in_clients demo_active) ''b'' = None" by code_simp
  have k: "NormalizeSessionKind [] = SessionKindInteractive" by code_simp
  from attach_drift_outcome [OF _ n k _ _ o _ _ _ _ refl a] a show ?thesis
    by (simp add: demo_facts hex_string_def drift_level_def)
qed

end
