(* ===== verification/Follow_Properties.thy ===== *)
theory Follow_Properties
  imports Project_Demo
begin

text \<open>
  Reading the event log: what the store gives to a reader, what a subscriber is guaranteed to see, and
  that the events a project publishes carry a client's snapshot along with the project.
\<close>

section \<open>The store as a bounded view of a log\<close>

text \<open>A store after a sequence of appended batches.\<close>

definition append_all :: "ProjectEvent list list \<Rightarrow> ProjectEvent Store \<Rightarrow> ProjectEvent Store" where
  "append_all batches s = foldl (\<lambda>s es. snd (AppendBatch es s)) s batches"

lemma append_all_holds:
  assumes "pev.is_store s" "store_holds put_cursor s log" "length log + length (concat batches) < 2 ^ 64 - 1"
  shows "pev.is_store (append_all batches s) \<and>
    store_holds put_cursor (append_all batches s) (log @ concat batches) \<and>
    st_codec (append_all batches s) = st_codec s \<and> st_retention (append_all batches s) = st_retention s"
  using assms
proof (induction batches arbitrary: s log)
  case (Cons es batches)
  have "pev.is_store (snd (AppendBatch es s))" "store_holds put_cursor (snd (AppendBatch es s)) (log @ es)"
    using Cons.prems by (auto simp: pev.AppendBatch_store intro!: pev.AppendBatch_holds(2))
  from Cons.IH [OF this] Cons.prems(3) show ?case by (simp add: append_all_def)
qed (simp add: append_all_def)

lemma New_project_store:
  assumes "newProjectEventStream retention = Inr s"
  shows "pev.is_store s" "store_holds put_cursor s []" "cc_Name (st_codec s) = ''project''"
    "st_retention s = (if retention \<le> 0 then 1 else retention)"
  using assms
  by (auto simp: newProjectEventStream_def New_def prepareCursorCodec_def projectEventCodec_def newStore_def
      pev.is_store_def store_holds_def Let_def)

text \<open>
  C5: The project event stream is a bounded view of an append-only log. After any batches of events a
  read from a cursor gives exactly the stamped events after that cursor; a cursor ahead of the head and
  a cursor whose next event is no longer retained are refused with their own cursor-expired error.
\<close>

theorem event_stream_refines_log:
  assumes "newProjectEventStream retention = Inr s" "length (concat batches) < 2 ^ 64 - 1"
  shows "EventsSince since (append_all batches s) =
    log_since ''project'' (nat (max 1 retention)) (unat since) (stamp put_cursor 0 (concat batches))"
  using append_all_holds [of s "[]" batches] New_project_store [OF assms(1)] assms(2)
    pev.eventsSinceLocked_eq [of "append_all batches s" "concat batches" since]
  by (simp add: EventsSince_def max_def)

theorem event_stream_refines_log_witness:
  "EventsSince 1 (append_all [[project_event ProjectEventSyncStateChanged 7],
       [project_event ProjectEventOwnerChanged 8, project_event ProjectEventCommandStarted 9]]
     (projr (newProjectEventStream 2))) =
   Inr [(project_event ProjectEventOwnerChanged 8)\<lparr>ev_Cursor := 2\<rparr>,
        (project_event ProjectEventCommandStarted 9)\<lparr>ev_Cursor := 3\<rparr>]"
proof -
  obtain s where s: "newProjectEventStream 2 = Inr s"
    using pev.New_ok [of 2] by (auto simp: newProjectEventStream_def)
  show ?thesis
    using event_stream_refines_log [OF s, of "[[project_event ProjectEventSyncStateChanged 7],
       [project_event ProjectEventOwnerChanged 8, project_event ProjectEventCommandStarted 9]]" 1]
    by (simp add: s log_since_def)
qed

text \<open>
  C12: A subscriber misses nothing and sees nothing twice. Whatever appends are interleaved with its
  wake-ups and reads, the events it has emitted are exactly the log between its start and its cursor,
  and when it waits with an empty channel it has emitted everything up to the head of the log.
\<close>

theorem subscriber_sees_every_event:
  assumes "newProjectEventStream retention = Inr s" "length (concat batches) < 2 ^ 64 - 1"
    and "reader_reachable ev_Cursor (append_all batches s) (concat batches) since r"
  shows "rd_emitted r = drop (unat since) (take (unat (rd_cursor r)) (stamp put_cursor 0 (rd_log r))) \<and>
    prefix (concat batches) (rd_log r) \<and>
    (rd_phase r = Waiting \<and> map_of (st_subscribers (rd_store r)) (rd_id r) \<noteq> Some True \<longrightarrow>
       rd_emitted r = drop (unat since) (stamp put_cursor 0 (rd_log r)))"
proof -
  have held: "pev.is_store (append_all batches s)" "store_holds put_cursor (append_all batches s) (concat batches)"
    using append_all_holds [of s "[]" batches] New_project_store [OF assms(1)] assms(2) by simp_all
  have "reader_inv put_cursor since r"
    using pev.reader_reachable_inv [OF held assms(3)] by blast
  moreover have "prefix (concat batches) (rd_log r)"
    using assms(3)
  proof (induction rule: reader_reachable.induct)
    case (step r r')
    then show ?case by (auto elim!: reader_step.cases intro: prefix_order.trans)
  qed simp
  ultimately show ?thesis by (auto simp: reader_inv_def)
qed

theorem subscriber_sees_every_event_witness:
  "\<exists>s r. newProjectEventStream 2 = Inr s \<and>
     reader_reachable ev_Cursor (append_all [[project_event ProjectEventOwnerChanged 8]] s)
       [project_event ProjectEventOwnerChanged 8] 0 r \<and>
     rd_emitted r = drop (unat (0 :: u64)) (take (unat (rd_cursor r)) (stamp put_cursor 0 (rd_log r)))"
proof -
  let ?e = "project_event ProjectEventOwnerChanged 8"
  obtain s where s: "newProjectEventStream 2 = Inr s"
    using pev.New_ok [of 2] by (auto simp: newProjectEventStream_def)
  note store = New_project_store [OF s]
  have "eventsSinceLocked 0 (append_all [[?e]] s) = Inr [?e\<lparr>ev_Cursor := 1\<rparr>]"
    using append_all_holds [of s "[]" "[[?e]]"] store
      pev.eventsSinceLocked_eq [of "append_all [[?e]] s" "[?e]" 0] by (simp add: log_since_def)
  then obtain sid s' where "Subscribe 0 (append_all [[?e]] s) = (Inr ([?e\<lparr>ev_Cursor := 1\<rparr>], sid), s')"
    by (simp add: Subscribe_def Let_def)
  from reader_reachable.start [OF this, of ev_Cursor "[?e]"]
  obtain r where r: "reader_reachable ev_Cursor (append_all [[?e]] s) [?e] 0 r" by blast
  with subscriber_sees_every_event [OF s, of "[[?e]]" 0 r] s show ?thesis by auto
qed

section \<open>Replaying a project's events\<close>

text \<open>
  C3: Event replay is exact. A client takes a snapshot of a reachable project, the project then runs
  through any operations that keep the client attached, and the client reads the events since its
  snapshot's cursor. Folding those events into the snapshot gives the project's current state, authority,
  owner workspace, epoch, lock, readiness, cursor and command table.
\<close>

theorem replay_tracks_project:
  assumes "inst_reachable key i" "Snapshot c i = Inr s" "watched_run c i j"
    and "ProjectEventsSince (snap_CurrentCursor s) j = Inr evs"
  shows "agrees j (foldl ApplyProjectEvent s evs)"
proof -
  have inv: "inst_inv i" using inst_reachable_inv [OF assms(1)] .
  obtain log where log: "inst_log i log" using inst_reachable_log [OF assms(1)] by blast
  have s: "agrees i s" using snapshotLocked_agrees [OF inv] assms(2) by (simp add: Snapshot_def)
  obtain es where es: "inst_log j (log @ es)"
      "agrees j (foldl ApplyProjectEvent s (stamp put_cursor (length log) es))"
    using watched_run_published [OF assms(3) inv log] s by (auto simp: published_def)
  have "unat (snap_CurrentCursor s) = length log"
    using s inst_log_cursor [OF log] by (simp add: agrees_def)
  from ProjectEventsSince_log [OF es(1) this assms(4)] es(2) show ?thesis by simp
qed

theorem replay_tracks_project_witness:
  "\<exists>s evs. Snapshot ''a'' demo_syncing = Inr s \<and>
     ProjectEventsSince (snap_CurrentCursor s) demo_active = Inr evs \<and>
     agrees demo_active (foldl ApplyProjectEvent s evs)"
proof -
  have "map_option snap_CurrentCursor (case Snapshot ''a'' demo_syncing of Inl _ \<Rightarrow> None | Inr s \<Rightarrow> Some s) = Some 2"
    by code_simp
  then obtain s where s: "Snapshot ''a'' demo_syncing = Inr s" "snap_CurrentCursor s = 2"
    by (auto split: sum.splits)
  have "map_option length (case ProjectEventsSince 2 demo_active of Inl _ \<Rightarrow> None | Inr s \<Rightarrow> Some s) = Some 1"
    by code_simp
  then obtain evs where evs: "ProjectEventsSince 2 demo_active = Inr evs"
    by (auto split: sum.splits)
  have "map_of (in_clients demo_active) ''a'' \<noteq> None" by code_simp
  then have run: "watched_run ''a'' demo_syncing demo_active"
    unfolding demo_active_def using demo_room(2) by (intro watched_run.step watched_run.stay)
  show ?thesis
    using replay_tracks_project [OF demo_reachable(2) s(1) run] s evs by auto
qed

section \<open>Waiting for a project\<close>

lemma on_events_settled: "on_events s es = (s', True) \<Longrightarrow> settled s'"
  by (induction s es rule: on_events.induct) (auto simp: Let_def split: if_splits)

text \<open>A round that ends with an expired cursor and can be refreshed.\<close>

lemma Wait_loop_result:
  assumes "Wait_loop refresh s rounds = Some (Inr s')"
    and "\<forall>(events, ending, refreshed) \<in> set rounds.
      \<exists>e. ending = Some e \<and> \<not> errors_Is e CtxCanceled \<and> \<not> errors_Is e IoEOF"
  shows "settled s'"
  using assms
proof (induction refresh s rounds rule: Wait_loop.induct)
  case (1 refresh s)
  then show ?case by (simp split: if_splits)
next
  case (2 refresh s events ending refreshed rounds)
  obtain s1 stopped where on: "on_events s events = (s1, stopped)" by fastforce
  show ?case
  proof (cases "settled s \<or> stopped")
    case True
    then show ?thesis
      using 2(2) on on_events_settled [of s events s1] by (auto split: if_splits)
  next
    case False
    then show ?thesis
      using 2 on by (auto split: if_splits option.splits sum.splits)
  qed
qed

text \<open>
  If no stream ends early (with no error, a cancelled context or end of file of its own), a snapshot the
  wait returns can start commands, needs confirmation or is terminated.
\<close>

lemma wait_returns_settled:
  assumes "Wait True refresh s rounds = Some (Inr s')"
    and "\<forall>(events, ending, refreshed) \<in> set rounds.
      \<exists>e. ending = Some e \<and> \<not> errors_Is e CtxCanceled \<and> \<not> errors_Is e IoEOF"
  shows "settled s'"
  using assms Wait_loop_result [of refresh s rounds s'] by (auto simp: Wait_def settled_def split: if_splits)

end
