(* ===== verification/Session_Registry.thy ===== *)
theory Session_Registry
  imports Proto
begin

text \<open>
  The sessions of the daemon: \<open>internal/control/session_meta.go\<close> and
  \<open>internal/control/session_registry.go\<close>.

  The registry reaches a \<open>*liveSessionRecord\<close> through two maps, by client and by session, and changes
  it in place; the records therefore live in a store \<open>reg_records\<close> under addresses, and the maps hold
  addresses. Traffic counters are shared with the connections that count bytes: \<open>traffic\<close> is their
  store. An \<open>io.Closer\<close> and an \<open>ownerfs.Client\<close> are identities (numbers); \<open>None\<close> is nil. \<open>wall\<close> is the
  value of \<open>time.Now().UTC()\<close>. The registry's mutex makes each critical section one step.
\<close>

section \<open>Session metadata\<close>

type_synonym TokenSource = string
type_synonym ChannelKind = string
type_synonym TransportKind = string

definition TokenSourceManaged :: TokenSource where
  "TokenSourceManaged = ''managed''"

definition ChannelKindControl :: ChannelKind where
  "ChannelKindControl = ''control''"

definition ChannelKindStdio :: ChannelKind where
  "ChannelKindStdio = ''stdio''"

definition ChannelKindOwnerFS :: ChannelKind where
  "ChannelKindOwnerFS = ''ownerfs''"

definition TransportKindUnknown :: TransportKind where
  "TransportKindUnknown = ''unknown''"

definition TransportKindSSH :: TransportKind where
  "TransportKindSSH = ''ssh''"

record AuthenticatedPrincipal =
  pr_Username :: string
  pr_UserDisabled :: bool
  pr_TokenID :: string
  pr_TokenSource :: TokenSource
  pr_AuthenticatedAt :: go_time

record ConnMeta =
  cm_TransportKind :: TransportKind
  cm_RemoteAddr :: string
  cm_LocalAddr :: string
  cm_ConnectedAt :: go_time
  cm_ChannelKind :: ChannelKind

type_synonym traffic = "nat \<Rightarrow> u64 \<times> u64"

definition AddIn :: "nat option \<Rightarrow> int \<Rightarrow> traffic \<Rightarrow> traffic" where
  "AddIn c n traffic =
     (case c of
        None \<Rightarrow> traffic
      | Some a \<Rightarrow> if n \<le> 0 then traffic
                  else traffic(a := (fst (traffic a) + of_int n, snd (traffic a))))"

definition AddOut :: "nat option \<Rightarrow> int \<Rightarrow> traffic \<Rightarrow> traffic" where
  "AddOut c n traffic =
     (case c of
        None \<Rightarrow> traffic
      | Some a \<Rightarrow> if n \<le> 0 then traffic
                  else traffic(a := (fst (traffic a), snd (traffic a) + of_int n)))"

definition TrafficCounters_Snapshot :: "nat option \<Rightarrow> traffic \<Rightarrow> u64 \<times> u64" where
  "TrafficCounters_Snapshot c traffic = (case c of None \<Rightarrow> (0, 0) | Some a \<Rightarrow> traffic a)"

record SessionChannelSnapshot =
  chs_ChannelID :: string
  chs_Meta :: ConnMeta
  chs_BytesIn :: u64
  chs_BytesOut :: u64

record LiveSessionSnapshot =
  ls_SessionID :: string
  ls_ClientID :: string
  ls_ProjectID :: string
  ls_WorkspaceRoot :: string
  ls_WorkspaceInstanceID :: string
  ls_WorkspaceDigest :: string
  ls_SessionKind :: SessionKind
  ls_Principal :: AuthenticatedPrincipal
  ls_ConnectedAt :: go_time
  ls_LastActivityAt :: go_time
  ls_CloseReason :: string
  ls_Role :: "Role option"
  ls_ProjectState :: "ProjectState option"
  ls_SyncEpoch :: u64
  ls_NeedsConfirmation :: bool
  ls_Control :: "SessionChannelSnapshot option"
  ls_Channels :: "SessionChannelSnapshot list"
  ls_ControlBytesIn :: u64
  ls_ControlBytesOut :: u64
  ls_StdioBytesIn :: u64
  ls_StdioBytesOut :: u64
  ls_OwnerFSBytesIn :: u64
  ls_OwnerFSBytesOut :: u64
  ls_AttachedCommandCount :: int

record liveChannelBinding =
  lc_channelID :: string
  lc_meta :: ConnMeta
  lc_counters :: "nat option"
  lc_closer :: "nat option"

section \<open>The registry\<close>

record session =
  se_ClientID :: string
  se_SessionID :: string
  se_Principal :: AuthenticatedPrincipal
  se_Username :: string
  se_ProjectID :: string
  se_WorkspaceRoot :: string
  se_WorkspaceInstanceID :: string
  se_WorkspaceDigest :: WorkspaceDigest
  se_SessionKind :: SessionKind
  se_TransportHint :: TransportKind
  se_RefCount :: int
  se_ConnectedAt :: go_time
  se_LastActivityAt :: go_time

record liveSessionRecord =
  lr_session :: session
  lr_control :: "liveChannelBinding option"
  lr_channels :: "(string, liveChannelBinding) gomap"
  lr_ownerFile :: "nat option"
  lr_closed :: bool

record SessionRegistry =
  reg_nextClientID :: u64
  reg_nextSessionID :: u64
  reg_nextChannelID :: u64
  reg_sessions :: "(string, nat) gomap"
  reg_bySessionID :: "(string, nat) gomap"
  reg_ownerFiles :: "(string, nat) gomap"
  reg_closed :: "(string, LiveSessionSnapshot) gomap"
  reg_nextAddr :: nat
  reg_records :: "(nat, liveSessionRecord) gomap"

record ownerFileRegistration =
  ofr_Session :: session
  ofr_Previous :: "nat option"

record sessionRelease =
  rel_Session :: session
  rel_OwnerFileClient :: "nat option"

record HelloRequest =
  hr_Version :: string
  hr_ProjectID :: string
  hr_TransportKind :: string
  hr_LocalWorkspaceRoot :: string
  hr_WorkspaceInstanceID :: string
  hr_SessionKind :: SessionKind
  hr_Capabilities :: "string list"
  hr_WorkspaceDigest :: WorkspaceDigest

record SyncCapabilities =
  sc_ProtocolVersion :: nat
  sc_ManifestBatch :: bool
  sc_DeleteBatch :: bool
  sc_UploadBundle :: bool
  sc_PersistentHashCache :: bool
  sc_Compression :: string
  sc_BinaryUpload :: bool

record HelloResponse =
  hs_ClientID :: string
  hs_SessionID :: string
  hs_Username :: string
  hs_ProjectID :: string
  hs_SyncCapabilities :: SyncCapabilities

definition defaultSyncCapabilities :: SyncCapabilities where
  "defaultSyncCapabilities =
     \<lparr>sc_ProtocolVersion = 2, sc_ManifestBatch = True, sc_DeleteBatch = True, sc_UploadBundle = True,
      sc_PersistentHashCache = True, sc_Compression = ''gzip'', sc_BinaryUpload = True\<rparr>"

definition newSessionRegistry :: SessionRegistry where
  "newSessionRegistry =
     \<lparr>reg_nextClientID = 0, reg_nextSessionID = 0, reg_nextChannelID = 0, reg_sessions = [],
      reg_bySessionID = [], reg_ownerFiles = [], reg_closed = [], reg_nextAddr = 0, reg_records = []\<rparr>"

text \<open>A write through the pointer at address \<open>a\<close>.\<close>

definition write_record :: "nat \<Rightarrow> liveSessionRecord \<Rightarrow> SessionRegistry \<Rightarrow> SessionRegistry" where
  "write_record a record r = r\<lparr>reg_records := AList.update a record (reg_records r)\<rparr>"

definition client_id :: "u64 \<Rightarrow> string" where
  "client_id n = ''client-'' @ fmt04 n"

definition session_id :: "u64 \<Rightarrow> string" where
  "session_id n = ''session-'' @ fmt04 n"

definition channel_id :: "u64 \<Rightarrow> string" where
  "channel_id n = ''channel-'' @ fmt04 n"

definition projectKeyForSession :: "session \<Rightarrow> ProjectKey" where
  "projectKeyForSession s = \<lparr>key_Username = se_Username s, key_ProjectID = se_ProjectID s\<rparr>"

definition normalizeConnAddr :: "string \<Rightarrow> string" where
  "normalizeConnAddr value =
     (let value = TrimSpace value in if value = [] then ''unknown'' else value)"

definition normalizeConnMeta :: "ConnMeta \<Rightarrow> ConnMeta" where
  "normalizeConnMeta meta =
     (let meta = (if cm_TransportKind meta = [] then meta\<lparr>cm_TransportKind := TransportKindUnknown\<rparr>
                  else meta)
      in meta\<lparr>cm_RemoteAddr := normalizeConnAddr (cm_RemoteAddr meta),
              cm_LocalAddr := normalizeConnAddr (cm_LocalAddr meta)\<rparr>)"

text \<open>The record a hello creates.\<close>

definition hello_record ::
  "AuthenticatedPrincipal \<Rightarrow> HelloRequest \<Rightarrow> go_time \<Rightarrow> string \<Rightarrow> string \<Rightarrow> liveSessionRecord" where
  "hello_record who request now clientID sessionID =
     \<lparr>lr_session =
        \<lparr>se_ClientID = clientID, se_SessionID = sessionID, se_Principal = who,
         se_Username = pr_Username who, se_ProjectID = hr_ProjectID request,
         se_WorkspaceRoot = hr_LocalWorkspaceRoot request,
         se_WorkspaceInstanceID = TrimSpace (hr_WorkspaceInstanceID request),
         se_WorkspaceDigest = hr_WorkspaceDigest request,
         se_SessionKind = NormalizeSessionKind (hr_SessionKind request),
         se_TransportHint = TrimSpace (hr_TransportKind request),
         se_RefCount = 1, se_ConnectedAt = now, se_LastActivityAt = now\<rparr>,
      lr_control = None, lr_channels = [], lr_ownerFile = None, lr_closed = False\<rparr>"

definition HelloPrincipal ::
  "AuthenticatedPrincipal \<Rightarrow> HelloRequest \<Rightarrow> go_time \<Rightarrow> SessionRegistry \<Rightarrow>
   HelloResponse \<times> SessionRegistry" where
  "HelloPrincipal who request now r =
     (let who = (if pr_AuthenticatedAt who = 0 then who\<lparr>pr_AuthenticatedAt := now\<rparr> else who);
          clientID = client_id (reg_nextClientID r + 1);
          sessionID = session_id (reg_nextSessionID r + 1);
          a = reg_nextAddr r
      in (\<lparr>hs_ClientID = clientID, hs_SessionID = sessionID, hs_Username = pr_Username who,
           hs_ProjectID = hr_ProjectID request, hs_SyncCapabilities = defaultSyncCapabilities\<rparr>,
          r\<lparr>reg_nextClientID := reg_nextClientID r + 1, reg_nextSessionID := reg_nextSessionID r + 1,
            reg_nextAddr := a + 1,
            reg_records := AList.update a (hello_record who request now clientID sessionID) (reg_records r),
            reg_sessions := AList.update clientID a (reg_sessions r),
            reg_bySessionID := AList.update sessionID a (reg_bySessionID r),
            reg_closed := AList.delete sessionID (reg_closed r)\<rparr>))"

definition recordLocked :: "string \<Rightarrow> SessionRegistry \<Rightarrow> (nat \<times> liveSessionRecord) res" where
  "recordLocked clientID r =
     (case Option.bind (map_of (reg_sessions r) clientID)
             (\<lambda>a. map_option (Pair a) (map_of (reg_records r) a)) of
        None \<Rightarrow> Inl (NewError ErrUnknownClient ''client session does not exist'')
      | Some record \<Rightarrow> Inr record)"

definition Registry_Session :: "string \<Rightarrow> SessionRegistry \<Rightarrow> session res" where
  "Registry_Session clientID r =
     (case recordLocked clientID r of Inl e \<Rightarrow> Inl e | Inr (_, record) \<Rightarrow> Inr (lr_session record))"

abbreviation touch :: "go_time \<Rightarrow> liveSessionRecord \<Rightarrow> liveSessionRecord" where
  "touch wall record \<equiv> record\<lparr>lr_session := (lr_session record)\<lparr>se_LastActivityAt := wall\<rparr>\<rparr>"

definition Registry_RetainClient ::
  "go_time \<Rightarrow> string \<Rightarrow> SessionRegistry \<Rightarrow> unit res \<times> SessionRegistry" where
  "Registry_RetainClient wall clientID r =
     (case recordLocked clientID r of
        Inl e \<Rightarrow> (Inl e, r)
      | Inr (a, record) \<Rightarrow>
          (Inr (), write_record a (touch wall (record\<lparr>lr_session :=
             (lr_session record)\<lparr>se_RefCount := se_RefCount (lr_session record) + 1\<rparr>\<rparr>)) r))"

text \<open>
  The snapshot of a session. The byte counts of the channels are summed by kind; the channels are
  sorted by identifier.
\<close>

definition channel_snapshot :: "traffic \<Rightarrow> liveChannelBinding \<Rightarrow> SessionChannelSnapshot" where
  "channel_snapshot traffic c =
     (let (bytesIn, bytesOut) = TrafficCounters_Snapshot (lc_counters c) traffic
      in \<lparr>chs_ChannelID = lc_channelID c, chs_Meta = lc_meta c, chs_BytesIn = bytesIn,
          chs_BytesOut = bytesOut\<rparr>)"

definition bytes_of_kind ::
  "ChannelKind \<Rightarrow> (SessionChannelSnapshot \<Rightarrow> u64) \<Rightarrow> SessionChannelSnapshot list \<Rightarrow> u64" where
  "bytes_of_kind kind f cs = sum_list (map f (filter (\<lambda>c. cm_ChannelKind (chs_Meta c) = kind) cs))"

definition Registry_snapshotLocked :: "traffic \<Rightarrow> liveSessionRecord \<Rightarrow> LiveSessionSnapshot" where
  "Registry_snapshotLocked traffic record =
     (let s = lr_session record;
          control = map_option (channel_snapshot traffic) (lr_control record);
          channels = map (\<lambda>(_, c). channel_snapshot traffic c) (lr_channels record)
      in \<lparr>ls_SessionID = se_SessionID s, ls_ClientID = se_ClientID s, ls_ProjectID = se_ProjectID s,
          ls_WorkspaceRoot = se_WorkspaceRoot s, ls_WorkspaceInstanceID = se_WorkspaceInstanceID s,
          ls_WorkspaceDigest = dig_Value (se_WorkspaceDigest s), ls_SessionKind = se_SessionKind s,
          ls_Principal = se_Principal s, ls_ConnectedAt = se_ConnectedAt s,
          ls_LastActivityAt = se_LastActivityAt s, ls_CloseReason = [], ls_Role = None,
          ls_ProjectState = None, ls_SyncEpoch = 0, ls_NeedsConfirmation = False,
          ls_Control = control, ls_Channels = sort_key chs_ChannelID channels,
          ls_ControlBytesIn = (case control of None \<Rightarrow> 0 | Some c \<Rightarrow> chs_BytesIn c),
          ls_ControlBytesOut = (case control of None \<Rightarrow> 0 | Some c \<Rightarrow> chs_BytesOut c),
          ls_StdioBytesIn = bytes_of_kind ChannelKindStdio chs_BytesIn channels,
          ls_StdioBytesOut = bytes_of_kind ChannelKindStdio chs_BytesOut channels,
          ls_OwnerFSBytesIn = bytes_of_kind ChannelKindOwnerFS chs_BytesIn channels,
          ls_OwnerFSBytesOut = bytes_of_kind ChannelKindOwnerFS chs_BytesOut channels,
          ls_AttachedCommandCount = 0\<rparr>)"

text \<open>\<open>Inr None\<close>: references remain. \<open>Inr (Some release)\<close>: the session is gone.\<close>

definition Registry_ReleaseClient ::
  "traffic \<Rightarrow> go_time \<Rightarrow> string \<Rightarrow> SessionRegistry \<Rightarrow> sessionRelease option res \<times> SessionRegistry" where
  "Registry_ReleaseClient traffic wall clientID r =
     (case recordLocked clientID r of
        Inl e \<Rightarrow> (Inl e, r)
      | Inr (a, record) \<Rightarrow>
          let record = touch wall (record\<lparr>lr_session :=
                (lr_session record)\<lparr>se_RefCount := se_RefCount (lr_session record) - 1\<rparr>\<rparr>);
              sessionID = se_SessionID (lr_session record)
          in if se_RefCount (lr_session record) > 0 then (Inr None, write_record a record r)
             else
               let record = record\<lparr>lr_closed := True\<rparr>;
                   reason = (case map_of (reg_closed r) sessionID of
                       Some existing \<Rightarrow> if TrimSpace (ls_CloseReason existing) \<noteq> []
                                        then ls_CloseReason existing else ''client disconnected''
                     | None \<Rightarrow> ''client disconnected'');
                   snapshot = (Registry_snapshotLocked traffic record)\<lparr>ls_CloseReason := reason\<rparr>
               in (Inr (Some \<lparr>rel_Session = lr_session record, rel_OwnerFileClient = lr_ownerFile record\<rparr>),
                   (write_record a record r)\<lparr>
                     reg_sessions := AList.delete clientID (reg_sessions r),
                     reg_bySessionID := AList.delete sessionID (reg_bySessionID r),
                     reg_ownerFiles := AList.delete clientID (reg_ownerFiles r),
                     reg_closed := AList.update sessionID snapshot (reg_closed r)\<rparr>))"

definition Registry_RegisterOwnerFileClient ::
  "go_time \<Rightarrow> string \<Rightarrow> nat option \<Rightarrow> SessionRegistry \<Rightarrow> ownerFileRegistration res \<times> SessionRegistry" where
  "Registry_RegisterOwnerFileClient wall clientID client r =
     (case client of
        None \<Rightarrow> (Inl (NewError ErrInvalidArgument ''owner file client is required''), r)
      | Some c \<Rightarrow>
          case recordLocked clientID r of
            Inl e \<Rightarrow> (Inl e, r)
          | Inr (a, record) \<Rightarrow>
              let previous = map_of (reg_ownerFiles r) clientID;
                  record = touch wall (record\<lparr>lr_ownerFile := Some c\<rparr>)
              in (Inr \<lparr>ofr_Session = lr_session record, ofr_Previous = previous\<rparr>,
                  (write_record a record r)\<lparr>
                    reg_ownerFiles := AList.update clientID c (reg_ownerFiles r)\<rparr>))"

definition Registry_OwnerFileClient :: "string \<Rightarrow> SessionRegistry \<Rightarrow> nat option" where
  "Registry_OwnerFileClient clientID r = map_of (reg_ownerFiles r) clientID"

text \<open>
  \<open>None\<close>: another client took over, nothing matched. \<open>Some None\<close>: matched, but the session is gone.
\<close>

definition Registry_OwnerFileDisconnected ::
  "go_time \<Rightarrow> string \<Rightarrow> nat \<Rightarrow> SessionRegistry \<Rightarrow> session option option \<times> SessionRegistry" where
  "Registry_OwnerFileDisconnected wall clientID client r =
     (if map_of (reg_ownerFiles r) clientID \<noteq> Some client then (None, r)
      else
        let r1 = r\<lparr>reg_ownerFiles := AList.delete clientID (reg_ownerFiles r)\<rparr>
        in case recordLocked clientID r1 of
             Inl _ \<Rightarrow> (Some None, r1)
           | Inr (a, record) \<Rightarrow>
               let record = touch wall (record\<lparr>lr_ownerFile := None\<rparr>)
               in (Some (Some (lr_session record)), write_record a record r1))"

text \<open>The loop over \<open>r.ownerFiles\<close>; Go's map order is arbitrary, the model's is the list's.\<close>

fun remove_owner_files ::
  "ProjectKey \<Rightarrow> string \<Rightarrow> (string \<times> nat) list \<Rightarrow> SessionRegistry \<Rightarrow> nat list \<times> SessionRegistry" where
  "remove_owner_files key excluded [] r = ([], r)"
| "remove_owner_files key excluded ((clientID, current) # rest) r =
     (if clientID = excluded then remove_owner_files key excluded rest r
      else case recordLocked clientID r of
        Inl _ \<Rightarrow> remove_owner_files key excluded rest r
      | Inr (a, record) \<Rightarrow>
          if projectKeyForSession (lr_session record) \<noteq> key
          then remove_owner_files key excluded rest r
          else
            let r1 = (write_record a (record\<lparr>lr_ownerFile := None\<rparr>) r)\<lparr>
                       reg_ownerFiles := AList.delete clientID (reg_ownerFiles r)\<rparr>;
                (clients, r2) = remove_owner_files key excluded rest r1
            in (current # clients, r2))"

definition RemoveProjectOwnerFileClients ::
  "ProjectKey \<Rightarrow> string \<Rightarrow> SessionRegistry \<Rightarrow> nat list \<times> SessionRegistry" where
  "RemoveProjectOwnerFileClients key excluded r =
     remove_owner_files key excluded (reg_ownerFiles r) r"

definition live_records :: "SessionRegistry \<Rightarrow> liveSessionRecord list" where
  "live_records r = List.map_filter (\<lambda>(_, a). map_of (reg_records r) a) (reg_sessions r)"

definition ProjectSessionCount :: "ProjectKey \<Rightarrow> SessionRegistry \<Rightarrow> nat" where
  "ProjectSessionCount key r =
     length (filter (\<lambda>record. projectKeyForSession (lr_session record) = key) (live_records r))"

definition BindControl ::
  "go_time \<Rightarrow> string \<Rightarrow> ConnMeta \<Rightarrow> nat option \<Rightarrow> nat option \<Rightarrow> SessionRegistry \<Rightarrow>
   unit res \<times> SessionRegistry" where
  "BindControl wall clientID meta counters closer r =
     (case recordLocked clientID r of
        Inl e \<Rightarrow> (Inl e, r)
      | Inr (a, record) \<Rightarrow>
          let s = lr_session record;
              meta = meta\<lparr>cm_ChannelKind := ChannelKindControl\<rparr>;
              meta = (if cm_TransportKind meta = TransportKindUnknown \<and> se_TransportHint s \<noteq> []
                      then meta\<lparr>cm_TransportKind := se_TransportHint s\<rparr> else meta);
              meta = (if cm_ConnectedAt meta = 0 then meta\<lparr>cm_ConnectedAt := se_ConnectedAt s\<rparr> else meta)
          in (Inr (), write_record a (touch wall (record\<lparr>lr_control :=
                Some \<lparr>lc_channelID = ''control'', lc_meta = normalizeConnMeta meta,
                      lc_counters = counters, lc_closer = closer\<rparr>\<rparr>)) r))"

definition AttachChannel ::
  "go_time \<Rightarrow> string \<Rightarrow> ConnMeta \<Rightarrow> nat option \<Rightarrow> nat option \<Rightarrow> SessionRegistry \<Rightarrow>
   string res \<times> SessionRegistry" where
  "AttachChannel wall clientID meta counters closer r =
     (case recordLocked clientID r of
        Inl e \<Rightarrow> (Inl e, r)
      | Inr (a, record) \<Rightarrow>
          let channelID = channel_id (reg_nextChannelID r + 1);
              meta = (if cm_ConnectedAt meta = 0 then meta\<lparr>cm_ConnectedAt := wall\<rparr> else meta);
              channel = \<lparr>lc_channelID = channelID, lc_meta = normalizeConnMeta meta,
                         lc_counters = counters, lc_closer = closer\<rparr>;
              record = touch (cm_ConnectedAt meta)
                (record\<lparr>lr_channels := AList.update channelID channel (lr_channels record)\<rparr>)
          in (Inr channelID,
              (write_record a record r)\<lparr>reg_nextChannelID := reg_nextChannelID r + 1\<rparr>))"

definition DetachChannel ::
  "go_time \<Rightarrow> string \<Rightarrow> string \<Rightarrow> SessionRegistry \<Rightarrow> SessionRegistry" where
  "DetachChannel wall clientID channelID r =
     (case recordLocked clientID r of
        Inl _ \<Rightarrow> r
      | Inr (a, record) \<Rightarrow>
          write_record a (touch wall
            (record\<lparr>lr_channels := AList.delete channelID (lr_channels record)\<rparr>)) r)"

definition MarkActivity :: "go_time \<Rightarrow> string \<Rightarrow> SessionRegistry \<Rightarrow> SessionRegistry" where
  "MarkActivity wall clientID r =
     (case recordLocked clientID r of
        Inl _ \<Rightarrow> r
      | Inr (a, record) \<Rightarrow> write_record a (touch wall record) r)"

definition ListLiveSessions :: "traffic \<Rightarrow> SessionRegistry \<Rightarrow> LiveSessionSnapshot list" where
  "ListLiveSessions traffic r =
     sort_key (\<lambda>s. (ls_ConnectedAt s, ls_SessionID s))
       (map (Registry_snapshotLocked traffic) (live_records r))"

definition record_by_session :: "string \<Rightarrow> SessionRegistry \<Rightarrow> liveSessionRecord option" where
  "record_by_session sessionID r =
     Option.bind (map_of (reg_bySessionID r) sessionID) (map_of (reg_records r))"

definition Registry_SessionSnapshot ::
  "traffic \<Rightarrow> string \<Rightarrow> SessionRegistry \<Rightarrow> LiveSessionSnapshot option" where
  "Registry_SessionSnapshot traffic sessionID r =
     (case record_by_session sessionID r of
        Some record \<Rightarrow> Some (Registry_snapshotLocked traffic record)
      | None \<Rightarrow> map_of (reg_closed r) sessionID)"

definition ClientSnapshot :: "traffic \<Rightarrow> string \<Rightarrow> SessionRegistry \<Rightarrow> LiveSessionSnapshot option" where
  "ClientSnapshot traffic clientID r =
     (case recordLocked clientID r of
        Inl _ \<Rightarrow> None
      | Inr (_, record) \<Rightarrow> Some (Registry_snapshotLocked traffic record))"

text \<open>
  \<open>TerminateSession\<close> gives up the mutex while it closes the connections, so it is two steps: the
  first tells which closers to close, the second notes the reason if the session is still there.
\<close>

definition TerminateSession_begin :: "string \<Rightarrow> SessionRegistry \<Rightarrow> nat list res" where
  "TerminateSession_begin sessionID r =
     (case record_by_session sessionID r of
        None \<Rightarrow> Inl (NewError ErrInvalidArgument ''session does not exist'')
      | Some record \<Rightarrow>
          Inr (List.map_filter id
            ((case lr_control record of None \<Rightarrow> [] | Some c \<Rightarrow> [lc_closer c]) @
             map (\<lambda>(_, c). lc_closer c) (lr_channels record))))"

definition TerminateSession_end ::
  "traffic \<Rightarrow> string \<Rightarrow> string \<Rightarrow> SessionRegistry \<Rightarrow> SessionRegistry" where
  "TerminateSession_end traffic sessionID reason r =
     (case record_by_session sessionID r of
        None \<Rightarrow> r
      | Some record \<Rightarrow>
          r\<lparr>reg_closed := AList.update sessionID
             ((Registry_snapshotLocked traffic record)\<lparr>ls_CloseReason := TrimSpace reason\<rparr>)
             (reg_closed r)\<rparr>)"

definition Registry_TerminateSession ::
  "traffic \<Rightarrow> string \<Rightarrow> string \<Rightarrow> SessionRegistry \<Rightarrow> nat list res \<times> SessionRegistry" where
  "Registry_TerminateSession traffic sessionID reason r =
     (case TerminateSession_begin sessionID r of
        Inl e \<Rightarrow> (Inl e, r)
      | Inr closers \<Rightarrow> (Inr closers, TerminateSession_end traffic sessionID reason r))"

section \<open>Runs\<close>

datatype reg_op =
    RegHello AuthenticatedPrincipal HelloRequest
  | RegRetain string
  | RegRelease string
  | RegOwnerFile string nat
  | RegOwnerFileGone string nat
  | RegRemoveProject ProjectKey string
  | RegBindControl string ConnMeta "nat option" "nat option"
  | RegAttachChannel string ConnMeta "nat option" "nat option"
  | RegDetachChannel string string
  | RegActivity string
  | RegTerminateEnd string string

fun reg_apply :: "traffic \<Rightarrow> go_time \<Rightarrow> reg_op \<Rightarrow> SessionRegistry \<Rightarrow> SessionRegistry" where
  "reg_apply traffic wall (RegHello p q) r = snd (HelloPrincipal p q wall r)"
| "reg_apply traffic wall (RegRetain c) r = snd (Registry_RetainClient wall c r)"
| "reg_apply traffic wall (RegRelease c) r = snd (Registry_ReleaseClient traffic wall c r)"
| "reg_apply traffic wall (RegOwnerFile c f) r = snd (Registry_RegisterOwnerFileClient wall c (Some f) r)"
| "reg_apply traffic wall (RegOwnerFileGone c f) r = snd (Registry_OwnerFileDisconnected wall c f r)"
| "reg_apply traffic wall (RegRemoveProject k x) r = snd (RemoveProjectOwnerFileClients k x r)"
| "reg_apply traffic wall (RegBindControl c m t x) r = snd (BindControl wall c m t x r)"
| "reg_apply traffic wall (RegAttachChannel c m t x) r = snd (AttachChannel wall c m t x r)"
| "reg_apply traffic wall (RegDetachChannel c h) r = DetachChannel wall c h r"
| "reg_apply traffic wall (RegActivity c) r = MarkActivity wall c r"
| "reg_apply traffic wall (RegTerminateEnd s x) r = TerminateSession_end traffic s x r"

text \<open>The counters of identifiers have not wrapped.\<close>

definition reg_room :: "SessionRegistry \<Rightarrow> bool" where
  "reg_room r \<longleftrightarrow> reg_nextClientID r + 1 \<noteq> 0 \<and> reg_nextSessionID r + 1 \<noteq> 0"

inductive reg_reachable :: "SessionRegistry \<Rightarrow> bool" where
  new: "reg_reachable newSessionRegistry"
| step: "reg_reachable r \<Longrightarrow> reg_room r \<Longrightarrow> reg_reachable (reg_apply traffic wall op r)"

section \<open>The invariant\<close>

text \<open>What holds of the record at address \<open>a\<close> that the registry lists for client \<open>c\<close>.\<close>

definition live_ok :: "SessionRegistry \<Rightarrow> string \<Rightarrow> nat \<Rightarrow> liveSessionRecord \<Rightarrow> bool" where
  "live_ok r c a record \<longleftrightarrow>
     se_ClientID (lr_session record) = c \<and> \<not> lr_closed record \<and>
     se_RefCount (lr_session record) \<ge> 1 \<and>
     map_of (reg_bySessionID r) (se_SessionID (lr_session record)) = Some a \<and>
     lr_ownerFile record = map_of (reg_ownerFiles r) c \<and>
     (\<exists>n. n \<noteq> 0 \<and> n \<le> reg_nextClientID r \<and> c = client_id n)"

definition reg_inv :: "SessionRegistry \<Rightarrow> bool" where
  "reg_inv r \<longleftrightarrow>
     gomap_ok (reg_sessions r) \<and> gomap_ok (reg_ownerFiles r) \<and>
     (\<forall>a. reg_nextAddr r \<le> a \<longrightarrow> map_of (reg_records r) a = None) \<and>
     (\<forall>c a. map_of (reg_sessions r) c = Some a \<longrightarrow>
        (\<exists>record. map_of (reg_records r) a = Some record \<and> live_ok r c a record)) \<and>
     (\<forall>s a. map_of (reg_bySessionID r) s = Some a \<longrightarrow>
        (\<exists>record. map_of (reg_records r) a = Some record \<and> se_SessionID (lr_session record) = s \<and>
           map_of (reg_sessions r) (se_ClientID (lr_session record)) = Some a) \<and>
        (\<exists>n. n \<noteq> 0 \<and> n \<le> reg_nextSessionID r \<and> s = session_id n)) \<and>
     (\<forall>c. map_of (reg_sessions r) c = None \<longrightarrow> map_of (reg_ownerFiles r) c = None)"

lemma client_id_inject [simp]: "client_id m = client_id n \<longleftrightarrow> m = n"
  by (simp add: client_id_def)

lemma session_id_inject [simp]: "session_id m = session_id n \<longleftrightarrow> m = n"
  by (simp add: session_id_def)

lemma not_succ_le: "(n :: u64) + 1 \<noteq> 0 \<Longrightarrow> \<not> n + 1 \<le> n"
  by (simp add: word_le_nat_alt unat_plus_one)

lemma le_succ: "(n :: u64) + 1 \<noteq> 0 \<Longrightarrow> m \<le> n \<Longrightarrow> m \<le> n + 1"
  by (simp add: word_le_nat_alt unat_plus_one)

text \<open>The parts of the invariant, as rules.\<close>

lemma reg_live:
  assumes "reg_inv r" "map_of (reg_sessions r) c = Some a"
  obtains rc where "map_of (reg_records r) a = Some rc" "live_ok r c a rc"
  using assms unfolding reg_inv_def by blast

lemma reg_by_session:
  assumes "reg_inv r" "map_of (reg_bySessionID r) s = Some a"
  obtains rc where "map_of (reg_records r) a = Some rc" "se_SessionID (lr_session rc) = s"
    "map_of (reg_sessions r) (se_ClientID (lr_session rc)) = Some a"
  using assms unfolding reg_inv_def by blast

lemma reg_session_bound:
  assumes "reg_inv r" "map_of (reg_bySessionID r) s = Some a"
  obtains n where "n \<noteq> 0" "n \<le> reg_nextSessionID r" "s = session_id n"
  using assms unfolding reg_inv_def by blast

lemma reg_no_owner_file:
  "reg_inv r \<Longrightarrow> map_of (reg_sessions r) c = None \<Longrightarrow> map_of (reg_ownerFiles r) c = None"
  by (simp add: reg_inv_def)

lemma reg_addr: "reg_inv r \<Longrightarrow> map_of (reg_records r) a = Some rc \<Longrightarrow> a < reg_nextAddr r"
  unfolding reg_inv_def by (metis leI option.distinct(1))

lemma reg_invI:
  assumes "gomap_ok (reg_sessions r)" "gomap_ok (reg_ownerFiles r)"
    and "\<And>a. reg_nextAddr r \<le> a \<Longrightarrow> map_of (reg_records r) a = None"
    and "\<And>c a. map_of (reg_sessions r) c = Some a \<Longrightarrow>
      \<exists>rc. map_of (reg_records r) a = Some rc \<and> live_ok r c a rc"
    and "\<And>s a. map_of (reg_bySessionID r) s = Some a \<Longrightarrow>
      \<exists>rc. map_of (reg_records r) a = Some rc \<and> se_SessionID (lr_session rc) = s \<and>
        map_of (reg_sessions r) (se_ClientID (lr_session rc)) = Some a"
    and "\<And>s a. map_of (reg_bySessionID r) s = Some a \<Longrightarrow>
      \<exists>n. n \<noteq> 0 \<and> n \<le> reg_nextSessionID r \<and> s = session_id n"
    and "\<And>c. map_of (reg_sessions r) c = None \<Longrightarrow> map_of (reg_ownerFiles r) c = None"
  shows "reg_inv r"
  unfolding reg_inv_def using assms by blast

lemma recordLocked_Inr:
  "recordLocked c r = Inr (a, rc) \<longleftrightarrow>
   map_of (reg_sessions r) c = Some a \<and> map_of (reg_records r) a = Some rc"
  by (auto simp: recordLocked_def Option.bind_eq_Some_conv split: option.splits)

lemma recordLocked_live:
  assumes "reg_inv r" "recordLocked c r = Inr (a, rc)"
  shows "map_of (reg_sessions r) c = Some a" "map_of (reg_records r) a = Some rc" "live_ok r c a rc"
  using assms by (auto simp: recordLocked_Inr elim: reg_live)

lemma recordLocked_None:
  assumes "reg_inv r" "recordLocked c r = Inl e"
  shows "map_of (reg_sessions r) c = None"
proof (rule ccontr)
  assume "map_of (reg_sessions r) c \<noteq> None"
  then obtain a where a: "map_of (reg_sessions r) c = Some a" by blast
  then obtain rc where "recordLocked c r = Inr (a, rc)"
    using reg_live [OF assms(1) a] recordLocked_Inr by metis
  with assms(2) show False by simp
qed

text \<open>No two clients share a record.\<close>

lemma same_address:
  assumes "reg_inv r" "map_of (reg_sessions r) c = Some a" "map_of (reg_sessions r) c' = Some a"
  shows "c = c'"
proof -
  obtain rc where rc: "map_of (reg_records r) a = Some rc" "live_ok r c a rc"
    by (rule reg_live [OF assms(1,2)])
  obtain rc' where rc': "map_of (reg_records r) a = Some rc'" "live_ok r c' a rc'"
    by (rule reg_live [OF assms(1,3)])
  from rc rc' show ?thesis by (simp add: live_ok_def)
qed

text \<open>A write that keeps the identifiers, the owner file and a positive count keeps the invariant.\<close>

lemma live_ok_write [simp]: "live_ok (write_record b x r) c a rc \<longleftrightarrow> live_ok r c a rc"
  by (simp add: live_ok_def write_record_def)

lemma write_record_simps [simp]:
  "reg_sessions (write_record a x r) = reg_sessions r"
  "reg_bySessionID (write_record a x r) = reg_bySessionID r"
  "reg_ownerFiles (write_record a x r) = reg_ownerFiles r"
  "reg_closed (write_record a x r) = reg_closed r"
  "reg_nextAddr (write_record a x r) = reg_nextAddr r"
  "reg_nextClientID (write_record a x r) = reg_nextClientID r"
  "reg_nextSessionID (write_record a x r) = reg_nextSessionID r"
  "map_of (reg_records (write_record a x r)) b = (if b = a then Some x else map_of (reg_records r) b)"
  by (simp_all add: write_record_def)

lemma write_record_inv:
  assumes inv: "reg_inv r" and c: "map_of (reg_sessions r) c = Some a"
    and ok: "map_of (reg_records r) a = Some old" "live_ok r c a new"
      "se_SessionID (lr_session new) = se_SessionID (lr_session old)"
  shows "reg_inv (write_record a new r)"
proof (rule reg_invI)
  have client: "se_ClientID (lr_session new) = c" using ok by (simp add: live_ok_def)
  show "map_of (reg_records (write_record a new r)) b = None"
    if "reg_nextAddr (write_record a new r) \<le> b" for b
    using that inv reg_addr [OF inv ok(1)] by (auto simp: reg_inv_def)
  show "\<exists>rc. map_of (reg_records (write_record a new r)) b = Some rc \<and> live_ok (write_record a new r) d b rc"
    if d: "map_of (reg_sessions (write_record a new r)) d = Some b" for d b
  proof (cases "b = a")
    case True
    then have "d = c" using same_address [OF inv _ c] d by simp
    with True ok show ?thesis by simp
  next
    case False
    with d reg_live [OF inv, of d b] show ?thesis by (simp, metis)
  qed
  show "\<exists>rc. map_of (reg_records (write_record a new r)) b = Some rc \<and> se_SessionID (lr_session rc) = s \<and>
      map_of (reg_sessions (write_record a new r)) (se_ClientID (lr_session rc)) = Some b"
    if s: "map_of (reg_bySessionID (write_record a new r)) s = Some b" for s b
  proof -
    from s obtain rc where rc: "map_of (reg_records r) b = Some rc" "se_SessionID (lr_session rc) = s"
        "map_of (reg_sessions r) (se_ClientID (lr_session rc)) = Some b"
      using reg_by_session [OF inv] by (metis write_record_simps(2))
    then show ?thesis using ok c client by (cases "b = a") auto
  qed
  show "\<exists>n. n \<noteq> 0 \<and> n \<le> reg_nextSessionID (write_record a new r) \<and> s = session_id n"
    if "map_of (reg_bySessionID (write_record a new r)) s = Some b" for s b
    using that reg_session_bound [OF inv, of s b] by auto
qed (use inv in \<open>auto simp: reg_inv_def\<close>)

lemma reg_inv_closed [simp]: "reg_inv (r\<lparr>reg_closed := x\<rparr>) \<longleftrightarrow> reg_inv r"
  by (simp add: reg_inv_def live_ok_def)

lemma reg_inv_channelID [simp]: "reg_inv (r\<lparr>reg_nextChannelID := x\<rparr>) \<longleftrightarrow> reg_inv r"
  by (simp add: reg_inv_def live_ok_def)

lemma newSessionRegistry_inv: "reg_inv newSessionRegistry"
  by (simp add: reg_inv_def newSessionRegistry_def)

lemma HelloPrincipal_fresh:
  assumes inv: "reg_inv r" and room: "reg_room r"
  shows "map_of (reg_sessions r) (client_id (reg_nextClientID r + 1)) = None"
    "map_of (reg_ownerFiles r) (client_id (reg_nextClientID r + 1)) = None"
    "map_of (reg_bySessionID r) (session_id (reg_nextSessionID r + 1)) = None"
    "map_of (reg_records r) (reg_nextAddr r) = None"
proof -
  show none: "map_of (reg_sessions r) (client_id (reg_nextClientID r + 1)) = None"
  proof (rule ccontr)
    assume "map_of (reg_sessions r) (client_id (reg_nextClientID r + 1)) \<noteq> None"
    then obtain a rc where "live_ok r (client_id (reg_nextClientID r + 1)) a rc"
      using reg_live [OF inv] by blast
    then show False using room not_succ_le by (auto simp: reg_room_def live_ok_def)
  qed
  show "map_of (reg_bySessionID r) (session_id (reg_nextSessionID r + 1)) = None"
  proof (rule ccontr)
    assume "map_of (reg_bySessionID r) (session_id (reg_nextSessionID r + 1)) \<noteq> None"
    then obtain n where "n \<le> reg_nextSessionID r" "session_id (reg_nextSessionID r + 1) = session_id n"
      using reg_session_bound [OF inv] by blast
    then show False using room not_succ_le by (auto simp: reg_room_def)
  qed
  show "map_of (reg_ownerFiles r) (client_id (reg_nextClientID r + 1)) = None"
    using reg_no_owner_file [OF inv none] .
  show "map_of (reg_records r) (reg_nextAddr r) = None"
    using inv by (simp add: reg_inv_def)
qed

lemma HelloPrincipal_inv:
  assumes inv: "reg_inv r" and room: "reg_room r"
  shows "reg_inv (snd (HelloPrincipal p q now r))"
proof -
  define r' where "r' = snd (HelloPrincipal p q now r)"
  define c s a where "c = client_id (reg_nextClientID r + 1)" and "s = session_id (reg_nextSessionID r + 1)"
    and "a = reg_nextAddr r"
  note fresh = HelloPrincipal_fresh [OF inv room, folded c_def s_def a_def]
  define rc where "rc = hello_record (if pr_AuthenticatedAt p = 0 then p\<lparr>pr_AuthenticatedAt := now\<rparr> else p)
    q now c s"
  have rc: "reg_records r' = AList.update a rc (reg_records r)"
      "reg_sessions r' = AList.update c a (reg_sessions r)"
      "reg_bySessionID r' = AList.update s a (reg_bySessionID r)" "reg_ownerFiles r' = reg_ownerFiles r"
      "reg_nextAddr r' = a + 1" "reg_nextClientID r' = reg_nextClientID r + 1"
      "reg_nextSessionID r' = reg_nextSessionID r + 1"
      "se_ClientID (lr_session rc) = c" "se_SessionID (lr_session rc) = s" "se_RefCount (lr_session rc) = 1"
      "lr_ownerFile rc = None" "\<not> lr_closed rc"
    by (simp_all add: r'_def HelloPrincipal_def Let_def c_def s_def a_def rc_def hello_record_def)
  have bounds: "n \<le> reg_nextClientID r \<Longrightarrow> n \<le> reg_nextClientID r + 1"
      "n \<le> reg_nextSessionID r \<Longrightarrow> n \<le> reg_nextSessionID r + 1" for n
    using room le_succ by (auto simp: reg_room_def)
  have new: "live_ok r' c a rc"
    using rc fresh room by (auto simp: live_ok_def c_def reg_room_def)
  have "reg_inv r'"
  proof (rule reg_invI)
    show "\<exists>x. map_of (reg_records r') b = Some x \<and> live_ok r' d b x"
      if d: "map_of (reg_sessions r') d = Some b" for d b
    proof (cases "d = c")
      case True
      with d rc new show ?thesis by auto
    next
      case False
      with d rc obtain x where x: "map_of (reg_records r) b = Some x" "live_ok r d b x"
        using reg_live [OF inv] by (metis map_of_update)
      then have "live_ok r' d b x"
        using rc fresh(3) bounds by (auto simp: live_ok_def)
      moreover have "b \<noteq> a" using x fresh(4) by auto
      ultimately show ?thesis using x rc by simp
    qed
    show "\<exists>x. map_of (reg_records r') b = Some x \<and> se_SessionID (lr_session x) = t \<and>
        map_of (reg_sessions r') (se_ClientID (lr_session x)) = Some b"
      if t: "map_of (reg_bySessionID r') t = Some b" for t b
    proof (cases "t = s")
      case True
      with t rc show ?thesis by auto
    next
      case False
      with t rc obtain x where x: "map_of (reg_records r) b = Some x" "se_SessionID (lr_session x) = t"
          "map_of (reg_sessions r) (se_ClientID (lr_session x)) = Some b"
        using reg_by_session [OF inv] by (metis map_of_update)
      moreover have "b \<noteq> a" "se_ClientID (lr_session x) \<noteq> c" using x fresh by auto
      ultimately show ?thesis using rc by simp
    qed
    show "\<exists>n. n \<noteq> 0 \<and> n \<le> reg_nextSessionID r' \<and> t = session_id n"
      if t: "map_of (reg_bySessionID r') t = Some b" for t b
    proof (cases "t = s")
      case True
      then show ?thesis using rc(7) room by (auto simp: s_def reg_room_def)
    next
      case False
      with t have "map_of (reg_bySessionID r) t = Some b" by (simp add: rc(3))
      from reg_session_bound [OF inv this] bounds(2) rc(7) show ?thesis by metis
    qed
    show "gomap_ok (reg_sessions r')" "gomap_ok (reg_ownerFiles r')"
      using inv rc by (simp_all add: reg_inv_def)
    show "map_of (reg_records r') b = None" if "reg_nextAddr r' \<le> b" for b
      using that rc inv by (auto simp: reg_inv_def a_def)
    show "map_of (reg_ownerFiles r') d = None" if "map_of (reg_sessions r') d = None" for d
      using that rc reg_no_owner_file [OF inv] by (auto split: if_splits)
  qed
  then show ?thesis by (simp add: r'_def)
qed

text \<open>Writes of \<open>RetainClient\<close>, \<open>BindControl\<close>, \<open>AttachChannel\<close>, \<open>DetachChannel\<close> and \<open>MarkActivity\<close>.\<close>

lemma recordLocked_write_inv:
  assumes "reg_inv r" "recordLocked c r = Inr (a, rc)"
    and "se_ClientID (lr_session new) = se_ClientID (lr_session rc)"
      "se_SessionID (lr_session new) = se_SessionID (lr_session rc)"
      "lr_ownerFile new = lr_ownerFile rc" "lr_closed new = lr_closed rc" "1 \<le> se_RefCount (lr_session new)"
  shows "reg_inv (write_record a new r)"
  using recordLocked_live [OF assms(1,2)] assms by (intro write_record_inv) (auto simp: live_ok_def)

lemma Registry_RetainClient_inv:
  assumes inv: "reg_inv r"
  shows "reg_inv (snd (Registry_RetainClient wall c r))"
proof (cases "recordLocked c r")
  case (Inr x)
  then obtain a rc where x: "recordLocked c r = Inr (a, rc)" by (cases x) auto
  moreover have "1 \<le> se_RefCount (lr_session rc)"
    using recordLocked_live(3) [OF inv x] by (simp add: live_ok_def)
  ultimately show ?thesis
    using recordLocked_write_inv [OF inv x] by (simp add: Registry_RetainClient_def)
qed (simp add: Registry_RetainClient_def inv)

lemma BindControl_inv: "reg_inv r \<Longrightarrow> reg_inv (snd (BindControl wall c m t x r))"
  by (auto simp: BindControl_def Let_def live_ok_def dest: recordLocked_live(3)
      intro!: recordLocked_write_inv split: sum.splits)

lemma AttachChannel_inv: "reg_inv r \<Longrightarrow> reg_inv (snd (AttachChannel wall c m t x r))"
  by (auto simp: AttachChannel_def Let_def live_ok_def dest: recordLocked_live(3)
      intro!: recordLocked_write_inv split: sum.splits)

lemma DetachChannel_inv: "reg_inv r \<Longrightarrow> reg_inv (DetachChannel wall c h r)"
  by (auto simp: DetachChannel_def Let_def live_ok_def dest: recordLocked_live(3)
      intro!: recordLocked_write_inv split: sum.splits)

lemma MarkActivity_inv: "reg_inv r \<Longrightarrow> reg_inv (MarkActivity wall c r)"
  by (auto simp: MarkActivity_def live_ok_def dest: recordLocked_live(3)
      intro!: recordLocked_write_inv split: sum.splits)

lemma TerminateSession_end_inv: "reg_inv r \<Longrightarrow> reg_inv (TerminateSession_end traffic s x r)"
  by (simp add: TerminateSession_end_def split: option.splits)

text \<open>The owner file of a client changes in its record and in \<open>ownerFiles\<close> together.\<close>

lemma owner_file_inv:
  assumes inv: "reg_inv r" and rl: "recordLocked c r = Inr (a, rc)"
    and new: "se_ClientID (lr_session new) = se_ClientID (lr_session rc)"
      "se_SessionID (lr_session new) = se_SessionID (lr_session rc)" "lr_closed new = lr_closed rc"
      "se_RefCount (lr_session new) = se_RefCount (lr_session rc)"
    and files: "gomap_ok files"
      "\<And>d. map_of files d = (if d = c then lr_ownerFile new else map_of (reg_ownerFiles r) d)"
  shows "reg_inv ((write_record a new r)\<lparr>reg_ownerFiles := files\<rparr>)"
proof -
  note live = recordLocked_live [OF inv rl]
  let ?r = "(write_record a new r)\<lparr>reg_ownerFiles := files\<rparr>"
  show ?thesis
  proof (rule reg_invI)
    show "\<exists>x. map_of (reg_records ?r) b = Some x \<and> live_ok ?r d b x" if d: "map_of (reg_sessions ?r) d = Some b" for d b
    proof (cases "d = c")
      case True
      then show ?thesis using d live new files by (simp add: live_ok_def)
    next
      case False
      then have ba: "b \<noteq> a" using same_address [OF inv _ live(1)] d by auto
      from d have "map_of (reg_sessions r) d = Some b" by simp
      then obtain x where "map_of (reg_records r) b = Some x" "live_ok r d b x" by (rule reg_live [OF inv])
      with ba False show ?thesis by (simp add: live_ok_def files(2))
    qed
    show "\<exists>x. map_of (reg_records ?r) b = Some x \<and> se_SessionID (lr_session x) = t \<and>
        map_of (reg_sessions ?r) (se_ClientID (lr_session x)) = Some b"
      if "map_of (reg_bySessionID ?r) t = Some b" for t b
    proof -
      from that have "map_of (reg_bySessionID r) t = Some b" by simp
      then obtain x where "map_of (reg_records r) b = Some x" "se_SessionID (lr_session x) = t"
        "map_of (reg_sessions r) (se_ClientID (lr_session x)) = Some b" by (rule reg_by_session [OF inv])
      then show ?thesis using live new by (cases "b = a") auto
    qed
    show "\<exists>n. n \<noteq> 0 \<and> n \<le> reg_nextSessionID ?r \<and> t = session_id n"
      if "map_of (reg_bySessionID ?r) t = Some b" for t b
      using that reg_session_bound [OF inv, of t b] by auto
    show "map_of (reg_records ?r) b = None" if "reg_nextAddr ?r \<le> b" for b
      using that inv reg_addr [OF inv live(2)] by (auto simp: reg_inv_def)
    show "map_of (reg_ownerFiles ?r) d = None" if "map_of (reg_sessions ?r) d = None" for d
      using that live(1) reg_no_owner_file [OF inv, of d] by (auto simp: files)
  qed (use inv files in \<open>auto simp: reg_inv_def\<close>)
qed

lemma Registry_RegisterOwnerFileClient_inv:
  assumes inv: "reg_inv r"
  shows "reg_inv (snd (Registry_RegisterOwnerFileClient wall c f r))"
proof (cases "recordLocked c r")
  case (Inr x)
  then obtain a rc where x: "recordLocked c r = Inr (a, rc)" by (cases x) auto
  moreover have "gomap_ok (reg_ownerFiles r)" using inv by (simp add: reg_inv_def)
  ultimately show ?thesis
    using inv by (auto simp: Registry_RegisterOwnerFileClient_def Let_def intro!: owner_file_inv split: option.splits)
qed (simp add: Registry_RegisterOwnerFileClient_def inv split: option.splits)

lemma recordLocked_ownerFiles [simp]: "recordLocked c (r\<lparr>reg_ownerFiles := x\<rparr>) = recordLocked c r"
  by (simp add: recordLocked_def)

lemma write_record_ownerFiles: "write_record a x (r\<lparr>reg_ownerFiles := f\<rparr>) = (write_record a x r)\<lparr>reg_ownerFiles := f\<rparr>"
  by (simp add: write_record_def)

lemma Registry_OwnerFileDisconnected_inv:
  assumes inv: "reg_inv r"
  shows "reg_inv (snd (Registry_OwnerFileDisconnected wall c f r))"
proof (cases "recordLocked c r")
  case (Inl e)
  then have "map_of (reg_ownerFiles r) c = None"
    using recordLocked_None [OF inv] reg_no_owner_file [OF inv] by blast
  then show ?thesis using inv by (simp add: Registry_OwnerFileDisconnected_def)
next
  case (Inr x)
  then obtain a rc where x: "recordLocked c r = Inr (a, rc)" by (cases x) auto
  moreover have "gomap_ok (reg_ownerFiles r)" using inv by (simp add: reg_inv_def)
  ultimately show ?thesis
    using inv by (auto simp: Registry_OwnerFileDisconnected_def Let_def write_record_ownerFiles intro!: owner_file_inv)
qed

lemma remove_owner_files_inv: "reg_inv r \<Longrightarrow> reg_inv (snd (remove_owner_files k x fs r))"
proof (induction k x fs r rule: remove_owner_files.induct)
  case (2 key excluded clientID current rest r)
  show ?case
  proof (cases "recordLocked clientID r")
    case (Inr y)
    then obtain a rc where y: "recordLocked clientID r = Inr (a, rc)" by (cases y) auto
    have "gomap_ok (reg_ownerFiles r)" using "2.prems" by (simp add: reg_inv_def)
    then have "reg_inv ((write_record a (rc\<lparr>lr_ownerFile := None\<rparr>) r)\<lparr>
        reg_ownerFiles := AList.delete clientID (reg_ownerFiles r)\<rparr>)"
      using "2.prems" y by (intro owner_file_inv) auto
    then show ?thesis using 2 y by (auto simp: Let_def split_def)
  qed (use 2 in auto)
qed simp

lemma Registry_ReleaseClient_inv:
  assumes inv: "reg_inv r"
  shows "reg_inv (snd (Registry_ReleaseClient traffic wall c r))"
proof (cases "recordLocked c r")
  case (Inr x)
  then obtain a rc where x: "recordLocked c r = Inr (a, rc)" by (cases x) auto
  note live = recordLocked_live [OF inv x]
  let ?s = "se_SessionID (lr_session rc)"
  have keep: "reg_inv (write_record a new r)"
    if "se_ClientID (lr_session new) = se_ClientID (lr_session rc)"
      "se_SessionID (lr_session new) = ?s" "lr_ownerFile new = lr_ownerFile rc" "lr_closed new = lr_closed rc"
      "1 \<le> se_RefCount (lr_session new)" for new
    using recordLocked_write_inv [OF inv x that] .
  have gone: "reg_inv (write_record a new r\<lparr>reg_sessions := AList.delete c (reg_sessions r),
      reg_bySessionID := AList.delete ?s (reg_bySessionID r),
      reg_ownerFiles := AList.delete c (reg_ownerFiles r)\<rparr>)" (is "reg_inv ?r") for new
  proof (rule reg_invI)
    show "\<exists>x. map_of (reg_records ?r) b = Some x \<and> live_ok ?r d b x" if d: "map_of (reg_sessions ?r) d = Some b" for d b
    proof -
      from d have dc: "d \<noteq> c" and d': "map_of (reg_sessions r) d = Some b" by (auto split: if_splits)
      then have ba: "b \<noteq> a" using same_address [OF inv _ live(1)] by auto
      obtain x where x': "map_of (reg_records r) b = Some x" "live_ok r d b x" by (rule reg_live [OF inv d'])
      moreover have "se_SessionID (lr_session x) \<noteq> ?s"
        using x'(2) live(3) ba by (auto simp: live_ok_def)
      ultimately show ?thesis using ba dc by (auto simp: live_ok_def)
    qed
    show "\<exists>x. map_of (reg_records ?r) b = Some x \<and> se_SessionID (lr_session x) = t \<and>
        map_of (reg_sessions ?r) (se_ClientID (lr_session x)) = Some b"
      if t: "map_of (reg_bySessionID ?r) t = Some b" for t b
    proof -
      from t have ts: "t \<noteq> ?s" and t': "map_of (reg_bySessionID r) t = Some b" by (auto split: if_splits)
      obtain x where x': "map_of (reg_records r) b = Some x" "se_SessionID (lr_session x) = t"
        "map_of (reg_sessions r) (se_ClientID (lr_session x)) = Some b" by (rule reg_by_session [OF inv t'])
      have "b \<noteq> a" using x' ts live(2) by auto
      moreover have "se_ClientID (lr_session x) \<noteq> c" using calculation x'(3) live(1) by auto
      ultimately show ?thesis using x' by auto
    qed
    show "\<exists>n. n \<noteq> 0 \<and> n \<le> reg_nextSessionID ?r \<and> t = session_id n"
      if "map_of (reg_bySessionID ?r) t = Some b" for t b
      using that reg_session_bound [OF inv, of t b] by (auto split: if_splits)
    show "map_of (reg_records ?r) b = None" if "reg_nextAddr ?r \<le> b" for b
      using that inv reg_addr [OF inv live(2)] by (auto simp: reg_inv_def)
    show "map_of (reg_ownerFiles ?r) d = None" if "map_of (reg_sessions ?r) d = None" for d
      using that reg_no_owner_file [OF inv, of d] by (auto split: if_splits)
  qed (use inv in \<open>auto simp: reg_inv_def\<close>)
  show ?thesis
    using x by (auto simp: Registry_ReleaseClient_def Let_def intro!: keep gone)
qed (simp add: Registry_ReleaseClient_def inv)

lemma reg_apply_inv:
  assumes "reg_inv r" "reg_room r"
  shows "reg_inv (reg_apply traffic wall op r)"
  using assms
  by (cases op)
    (simp_all add: HelloPrincipal_inv Registry_RetainClient_inv Registry_ReleaseClient_inv
      Registry_RegisterOwnerFileClient_inv Registry_OwnerFileDisconnected_inv RemoveProjectOwnerFileClients_def
      remove_owner_files_inv BindControl_inv AttachChannel_inv DetachChannel_inv MarkActivity_inv
      TerminateSession_end_inv)

lemma reg_reachable_inv: "reg_reachable r \<Longrightarrow> reg_inv r"
  by (induction rule: reg_reachable.induct) (simp_all add: newSessionRegistry_inv reg_apply_inv)

end
