(* ===== verification/Session_Properties.thy ===== *)
theory Session_Properties
  imports Session_Registry
begin

text \<open>
  What the session registry guarantees: its two indexes agree, sessions live exactly as long as they
  are referenced, and the reason of a closed session.
\<close>

section \<open>A concrete registry\<close>

definition demo_principal :: AuthenticatedPrincipal where
  "demo_principal = \<lparr>pr_Username = ''u'', pr_UserDisabled = False, pr_TokenID = ''t'',
     pr_TokenSource = TokenSourceManaged, pr_AuthenticatedAt = 0\<rparr>"

definition demo_hello :: HelloRequest where
  "demo_hello = \<lparr>hr_Version = [], hr_ProjectID = ''p'', hr_TransportKind = ''ssh'',
     hr_LocalWorkspaceRoot = ''/w'', hr_WorkspaceInstanceID = ''ws'', hr_SessionKind = ''authority'',
     hr_Capabilities = [], hr_WorkspaceDigest = \<lparr>dig_Algorithm = [], dig_Value = []\<rparr>\<rparr>"

definition demo_registry :: SessionRegistry where
  "demo_registry = reg_apply (\<lambda>_. (0, 0)) 5 (RegHello demo_principal demo_hello) newSessionRegistry"

lemma demo_registry_reachable: "reg_reachable demo_registry"
  unfolding demo_registry_def
  by (rule reg_reachable.step [OF reg_reachable.new]) (simp add: reg_room_def newSessionRegistry_def)

lemma demo_registry_room: "reg_room demo_registry"
  by code_simp

section \<open>Indexes\<close>

text \<open>
  C23: The indexes of the registry agree. In every reachable registry a live session is found under its own
  client id, has at least one reference, its snapshot by session id is its snapshot by client id, the
  owner file client in its record is the one in the owner file table, and no other client shares its
  session id.
\<close>

theorem registry_indexes_agree:
  assumes "reg_reachable r" "Registry_Session c r = Inr s"
  shows "se_ClientID s = c \<and> 1 \<le> se_RefCount s \<and>
    Registry_SessionSnapshot traffic (se_SessionID s) r = ClientSnapshot traffic c r \<and>
    ClientSnapshot traffic c r \<noteq> None \<and>
    (\<exists>a record. recordLocked c r = Inr (a, record) \<and> lr_session record = s \<and>
       lr_ownerFile record = Registry_OwnerFileClient c r) \<and>
    (\<forall>d s'. Registry_Session d r = Inr s' \<and> se_SessionID s' = se_SessionID s \<longrightarrow> d = c)"
proof -
  have inv: "reg_inv r" using reg_reachable_inv [OF assms(1)] .
  obtain a rc where x: "recordLocked c r = Inr (a, rc)" "s = lr_session rc"
    using assms(2) by (auto simp: Registry_Session_def split: sum.splits)
  note live = recordLocked_live [OF inv x(1)]
  have rc: "record_by_session (se_SessionID s) r = Some rc"
    using live x(2) by (simp add: record_by_session_def live_ok_def)
  have "d = c" if d: "Registry_Session d r = Inr s'" and same: "se_SessionID s' = se_SessionID s" for d s'
  proof -
    obtain b rd where y: "recordLocked d r = Inr (b, rd)" "s' = lr_session rd"
      using d by (auto simp: Registry_Session_def split: sum.splits)
    note live' = recordLocked_live [OF inv y(1)]
    have "b = a" using live(3) live'(3) same x(2) y(2) by (simp add: live_ok_def)
    then show ?thesis using same_address [OF inv live'(1)] live(1) by simp
  qed
  then show ?thesis
    using live rc x by (auto simp: live_ok_def Registry_SessionSnapshot_def ClientSnapshot_def Registry_OwnerFileClient_def)
qed

theorem registry_indexes_agree_witness:
  "\<exists>s. Registry_Session ''client-0001'' demo_registry = Inr s \<and> se_ClientID s = ''client-0001'' \<and>
     Registry_SessionSnapshot (\<lambda>_. (0, 0)) (se_SessionID s) demo_registry =
       ClientSnapshot (\<lambda>_. (0, 0)) ''client-0001'' demo_registry"
proof -
  have "map_option se_RefCount
      (case Registry_Session ''client-0001'' demo_registry of Inl _ \<Rightarrow> None | Inr s \<Rightarrow> Some s) = Some 1"
    by code_simp
  then obtain s where "Registry_Session ''client-0001'' demo_registry = Inr s"
    by (auto split: sum.splits)
  with registry_indexes_agree [OF demo_registry_reachable this] show ?thesis by blast
qed

section \<open>Reference counting\<close>

text \<open>What the registry's operations do to a part of every live session.\<close>

definition viewed :: "(session \<Rightarrow> 'v) \<Rightarrow> SessionRegistry \<Rightarrow> string \<Rightarrow> 'v option" where
  "viewed view r c = (case Registry_Session c r of Inl _ \<Rightarrow> None | Inr s \<Rightarrow> Some (view s))"

locale session_view =
  fixes view :: "session \<Rightarrow> 'v"
  assumes touched: "view (s\<lparr>se_LastActivityAt := t\<rparr>) = view s"
begin

lemma view_bind:
  "viewed view r c = Option.bind (map_of (reg_sessions r) c)
     (\<lambda>a. map_option (\<lambda>rc. view (lr_session rc)) (map_of (reg_records r) a))"
  by (auto simp: viewed_def Registry_Session_def recordLocked_def split: option.splits sum.splits
      Option.bind_splits)

lemma view_recordLocked:
  "recordLocked c r = Inr (a, rc) \<Longrightarrow> viewed view r c = Some (view (lr_session rc))"
  "recordLocked c r = Inl e \<Longrightarrow> viewed view r c = None"
  by (simp_all add: viewed_def Registry_Session_def)

lemma view_write:
  assumes "reg_inv r" "recordLocked c r = Inr (a, rc)"
  shows "viewed view (write_record a new r) = (viewed view r)(c \<mapsto> view (lr_session new))"
proof
  fix d
  show "viewed view (write_record a new r) d = ((viewed view r)(c \<mapsto> view (lr_session new))) d"
    using recordLocked_live [OF assms] same_address [OF assms(1), of c a d]
    by (cases "map_of (reg_sessions r) d") (auto simp: view_bind)
qed

lemma view_frame:
  "viewed view (r\<lparr>reg_ownerFiles := x\<rparr>) = viewed view r" "viewed view (r\<lparr>reg_closed := y\<rparr>) = viewed view r"
  "viewed view (r\<lparr>reg_nextChannelID := z\<rparr>) = viewed view r" "viewed view (r\<lparr>reg_bySessionID := w\<rparr>) = viewed view r"
  by (simp_all add: view_bind fun_eq_iff)

lemma view_keep:
  assumes "reg_inv r" "recordLocked c r = Inr (a, rc)" "view (lr_session new) = view (lr_session rc)"
  shows "viewed view (write_record a new r) = viewed view r"
  using view_write [OF assms(1,2)] view_recordLocked(1) [OF assms(2)] assms(3) by (simp add: fun_upd_idem)

lemma view_quiet:
  assumes "reg_inv r"
  shows "viewed view (snd (Registry_RegisterOwnerFileClient wall c f r)) = viewed view r"
    "viewed view (snd (BindControl wall c m t x r)) = viewed view r"
    "viewed view (snd (AttachChannel wall c m t x r)) = viewed view r"
    "viewed view (DetachChannel wall c h r) = viewed view r"
    "viewed view (MarkActivity wall c r) = viewed view r"
    "viewed view (TerminateSession_end traffic s reason r) = viewed view r"
  using view_keep [OF assms]
  by (auto simp: Registry_RegisterOwnerFileClient_def BindControl_def AttachChannel_def DetachChannel_def
      MarkActivity_def TerminateSession_end_def Let_def view_frame touched split: sum.splits option.splits)

lemma view_disconnect:
  "reg_inv r \<Longrightarrow> viewed view (snd (Registry_OwnerFileDisconnected wall c f r)) = viewed view r"
  using view_keep [of r c]
  by (auto simp: Registry_OwnerFileDisconnected_def Let_def write_record_ownerFiles view_frame touched split: sum.splits)

lemma view_remove_owner_files:
  "reg_inv r \<Longrightarrow> viewed view (snd (remove_owner_files k x fs r)) = viewed view r"
proof (induction k x fs r rule: remove_owner_files.induct)
  case (2 key excluded clientID current rest r)
  show ?case
  proof (cases "recordLocked clientID r")
    case (Inr y)
    then obtain a rc where y: "recordLocked clientID r = Inr (a, rc)" by (cases y) auto
    let ?r = "(write_record a (rc\<lparr>lr_ownerFile := None\<rparr>) r)\<lparr>
        reg_ownerFiles := AList.delete clientID (reg_ownerFiles r)\<rparr>"
    have "gomap_ok (reg_ownerFiles r)" using "2.prems" by (simp add: reg_inv_def)
    then have inv: "reg_inv ?r"
      using "2.prems" y by (intro owner_file_inv) auto
    have "viewed view ?r = viewed view r" using view_keep [OF "2.prems" y] by (simp add: view_frame)
    then show ?thesis using "2.IH" "2.prems" y inv by (auto simp: Let_def split_def)
  qed (use 2 in auto)
qed simp

lemma view_hello:
  assumes "reg_inv r" "reg_room r"
  shows "viewed view (snd (HelloPrincipal p q now r)) = (viewed view r)(client_id (reg_nextClientID r + 1) \<mapsto>
    view (lr_session (hello_record (if pr_AuthenticatedAt p = 0 then p\<lparr>pr_AuthenticatedAt := now\<rparr> else p) q now
      (client_id (reg_nextClientID r + 1)) (session_id (reg_nextSessionID r + 1)))))"
proof
  fix d
  note fresh = HelloPrincipal_fresh [OF assms]
  have "a \<noteq> reg_nextAddr r" if a: "map_of (reg_sessions r) d = Some a" for a
  proof -
    obtain x where "map_of (reg_records r) a = Some x" by (rule reg_live [OF assms(1) a])
    then show ?thesis using fresh(4) by auto
  qed
  then show "viewed view (snd (HelloPrincipal p q now r)) d = ((viewed view r)(client_id (reg_nextClientID r + 1) \<mapsto>
    view (lr_session (hello_record (if pr_AuthenticatedAt p = 0 then p\<lparr>pr_AuthenticatedAt := now\<rparr> else p) q now
      (client_id (reg_nextClientID r + 1)) (session_id (reg_nextSessionID r + 1)))))) d"
    by (cases "map_of (reg_sessions r) d") (auto simp: view_bind HelloPrincipal_def Let_def)
qed

lemma view_gone:
  assumes "reg_inv r" "recordLocked c r = Inr (a, rc)"
  shows "viewed view (write_record a new r\<lparr>reg_sessions := AList.delete c (reg_sessions r)\<rparr>) = (viewed view r)(c := None)"
proof -
  have "viewed view (r'\<lparr>reg_sessions := AList.delete c (reg_sessions r')\<rparr>) = (viewed view r')(c := None)" for r'
    by (auto simp: view_bind fun_eq_iff)
  from this [of "write_record a new r"] view_write [OF assms] show ?thesis by simp
qed

end

text \<open>The number of references of every live client, and what each operation may do to it.\<close>

definition refs :: "SessionRegistry \<Rightarrow> string \<Rightarrow> int option" where
  "refs = viewed se_RefCount"

interpretation refs: session_view se_RefCount
  by unfold_locales simp

lemmas refs_recordLocked = refs.view_recordLocked [folded refs_def]
  and refs_write = refs.view_write [folded refs_def]
  and refs_frame [simp] = refs.view_frame [folded refs_def]
  and refs_quiet = refs.view_quiet [folded refs_def]
  and refs_disconnect = refs.view_disconnect [folded refs_def]
  and refs_remove_owner_files = refs.view_remove_owner_files [folded refs_def]
  and refs_gone = refs.view_gone [folded refs_def]

fun refs_spec :: "u64 \<Rightarrow> reg_op \<Rightarrow> (string \<Rightarrow> int option) \<Rightarrow> string \<Rightarrow> int option" where
  "refs_spec n (RegHello p q) m = m(client_id (n + 1) := Some 1)"
| "refs_spec n (RegRetain c) m = m(c := map_option (\<lambda>k. k + 1) (m c))"
| "refs_spec n (RegRelease c) m =
     m(c := (case m c of None \<Rightarrow> None | Some k \<Rightarrow> if k > 1 then Some (k - 1) else None))"
| "refs_spec n op m = m"

lemma refs_hello:
  assumes "reg_inv r" "reg_room r"
  shows "refs (snd (HelloPrincipal p q now r)) = (refs r)(client_id (reg_nextClientID r + 1) \<mapsto> 1)"
  using refs.view_hello [OF assms, of p q now] by (simp add: refs_def hello_record_def)

lemma refs_release:
  assumes "reg_inv r"
  shows "refs (snd (Registry_ReleaseClient traffic wall c r)) = refs_spec n (RegRelease c) (refs r)"
proof (cases "recordLocked c r")
  case (Inl e)
  then show ?thesis using refs_recordLocked(2) [OF Inl] by (simp add: Registry_ReleaseClient_def fun_upd_idem)
next
  case (Inr x)
  then obtain a rc where x: "recordLocked c r = Inr (a, rc)" by (cases x) auto
  show ?thesis
    using x refs_gone [OF assms x] refs_write [OF assms x] refs_recordLocked(1) [OF x]
    by (simp add: Registry_ReleaseClient_def Let_def)
qed

text \<open>
  C22: Sessions are reference counted. Seen as a map from clients to reference counts, every operation
  on a reachable registry does exactly what it should: a hello adds a fresh client with one reference,
  retain adds one, release takes one and drops the client at the last one, and nothing else changes any
  count. A release reports that the session is gone exactly when it took the last reference.
\<close>

theorem reference_counts_refine:
  assumes "reg_reachable r" "reg_room r"
  shows "refs (reg_apply traffic wall op r) = refs_spec (reg_nextClientID r) op (refs r) \<and>
    ((\<exists>rel. fst (Registry_ReleaseClient traffic wall c r) = Inr (Some rel)) \<longleftrightarrow> refs r c = Some 1)"
proof
  have inv: "reg_inv r" using reg_reachable_inv [OF assms(1)] .
  show "refs (reg_apply traffic wall op r) = refs_spec (reg_nextClientID r) op (refs r)"
  proof (cases op)
    case (RegRetain d)
    show ?thesis
    proof (cases "recordLocked d r")
      case (Inl e)
      then show ?thesis
        using refs_recordLocked(2) [OF Inl] RegRetain by (simp add: Registry_RetainClient_def fun_upd_idem)
    next
      case (Inr x)
      then obtain a rc where x: "recordLocked d r = Inr (a, rc)" by (cases x) auto
      show ?thesis
        using x refs_write [OF inv x] refs_recordLocked(1) [OF x] RegRetain
        by (simp add: Registry_RetainClient_def)
    qed
  qed (use refs_hello [OF inv assms(2)] refs_release [OF inv] refs_quiet [OF inv] refs_disconnect [OF inv]
      refs_remove_owner_files [OF inv] in \<open>simp_all add: RemoveProjectOwnerFileClients_def\<close>)
  show "(\<exists>rel. fst (Registry_ReleaseClient traffic wall c r) = Inr (Some rel)) \<longleftrightarrow> refs r c = Some 1"
  proof (cases "recordLocked c r")
    case (Inr x)
    then obtain a rc where x: "recordLocked c r = Inr (a, rc)" by (cases x) auto
    have "1 \<le> se_RefCount (lr_session rc)"
      using recordLocked_live(3) [OF inv x] by (simp add: live_ok_def)
    then show ?thesis
      using x refs_recordLocked(1) [OF x] by (auto simp: Registry_ReleaseClient_def Let_def)
  qed (use refs_recordLocked(2) [of c r] in \<open>auto simp: Registry_ReleaseClient_def\<close>)
qed

theorem reference_counts_refine_witness:
  "refs (reg_apply (\<lambda>_. (0, 0)) 6 (RegRelease ''client-0001'') demo_registry) =
   refs_spec (reg_nextClientID demo_registry) (RegRelease ''client-0001'') (refs demo_registry)"
  using reference_counts_refine [OF demo_registry_reachable demo_registry_room] by blast

section \<open>Closing a session\<close>

text \<open>
  A session an administrator terminates keeps the administrator's reason when its last reference
  goes: after the termination and the release the session is found as closed with that reason, and its
  client is unknown.
\<close>

lemma terminate_reason_kept:
  assumes "reg_reachable r" "recordLocked c r = Inr (a, rc)" "se_RefCount (lr_session rc) = 1"
    and "TrimSpace reason \<noteq> []" and "s = se_SessionID (lr_session rc)"
    and "r' = snd (Registry_ReleaseClient traffic wall c (snd (Registry_TerminateSession traffic s reason r)))"
  shows "map_option ls_CloseReason (Registry_SessionSnapshot traffic s r') = Some (TrimSpace reason) \<and>
    Registry_Session c r' = Inl (NewError ErrUnknownClient ''client session does not exist'')"
proof -
  have inv: "reg_inv r" using reg_reachable_inv [OF assms(1)] .
  note live = recordLocked_live [OF inv assms(2)]
  have by_s: "record_by_session s r = Some rc"
    using live assms(5) by (simp add: record_by_session_def live_ok_def)
  have rl: "recordLocked c (r\<lparr>reg_closed := x\<rparr>) = Inr (a, rc)" for x
    using assms(2) by (simp add: recordLocked_def)
  from assms(3-6) by_s rl show ?thesis
    by (simp add: Registry_TerminateSession_def TerminateSession_begin_def TerminateSession_end_def
        Registry_ReleaseClient_def Let_def Registry_SessionSnapshot_def record_by_session_def
        Registry_Session_def recordLocked_def)
qed

text \<open>
  C33: The reason is lost when the closed connection releases the session first. \<open>TerminateSession\<close> gives
  up the registry's lock while it closes the connections; if the release of the last reference runs in
  that window, the session is recorded as disconnected by the client and the later half of the
  termination finds no session to note the reason for.
\<close>

theorem terminate_reason_lost_in_race:
  assumes "reg_reachable r" "recordLocked c r = Inr (a, rc)" "se_RefCount (lr_session rc) = 1"
    and "s = se_SessionID (lr_session rc)" and "map_of (reg_closed r) s = None"
    and "r' = TerminateSession_end traffic s reason (snd (Registry_ReleaseClient traffic wall c r))"
  shows "(\<exists>closers. TerminateSession_begin s r = Inr closers) \<and>
    map_option ls_CloseReason (Registry_SessionSnapshot traffic s r') = Some ''client disconnected''"
proof -
  have inv: "reg_inv r" using reg_reachable_inv [OF assms(1)] .
  note live = recordLocked_live [OF inv assms(2)]
  have by_s: "record_by_session s r = Some rc"
    using live assms(4) by (simp add: record_by_session_def live_ok_def)
  from assms(2-6) by_s show ?thesis
    by (simp add: TerminateSession_begin_def TerminateSession_end_def Registry_ReleaseClient_def Let_def
        Registry_SessionSnapshot_def record_by_session_def)
qed

theorem terminate_reason_lost_in_race_witness:
  "map_option ls_CloseReason (Registry_SessionSnapshot (\<lambda>_. (0, 0)) ''session-0001''
     (TerminateSession_end (\<lambda>_. (0, 0)) ''session-0001'' ''maintenance''
       (snd (Registry_ReleaseClient (\<lambda>_. (0, 0)) 7 ''client-0001'' demo_registry)))) =
   Some ''client disconnected''"
proof -
  have "map_option (\<lambda>(a, rc). (se_RefCount (lr_session rc), se_SessionID (lr_session rc)))
      (case recordLocked ''client-0001'' demo_registry of Inl _ \<Rightarrow> None | Inr x \<Rightarrow> Some x) =
      Some (1, ''session-0001'')"
    by code_simp
  then obtain a rc where rc: "recordLocked ''client-0001'' demo_registry = Inr (a, rc)"
      "se_RefCount (lr_session rc) = 1" "''session-0001'' = se_SessionID (lr_session rc)"
    by (auto split: sum.splits)
  have none: "map_of (reg_closed demo_registry) ''session-0001'' = None" by code_simp
  from terminate_reason_lost_in_race [OF demo_registry_reachable rc none refl] show ?thesis by simp
qed

end
