(* ===== verification/Control_Streams.thy ===== *)
theory Control_Streams
  imports Event_Stream
begin

text \<open>
  The smaller parts of the control service: \<open>internal/invalidation/changes.go\<close> and, in
  \<open>internal/control\<close>, \<open>event_streams.go\<close>, \<open>upload_tracker.go\<close>, \<open>invalidate_hub.go\<close> and
  \<open>command_controller.go\<close>.

  The runtime behind the service (it runs the processes and the file system) is an interface here. A
  call to it is recorded in the list of calls an operation returns, in the order they are made; its
  answer is an argument of the operation.
\<close>

section \<open>Calls to the runtime\<close>

datatype runtime_call =
    CallPrepareProject ProjectKey
  | CallSync string ProjectKey
  | CallFsRead ProjectKey
  | CallFsMutation ProjectKey
  | CallApplyOwnerInvalidations ProjectKey "InvalidateChange list"
  | CallEnterConservativeMode ProjectKey string
  | CallSetAuthorityState ProjectKey AuthorityState
  | CallSetAuthoritativeRoot ProjectKey string
  | CallSetAuthoritativeClient ProjectKey nat
  | CallClearAuthoritativeRoot ProjectKey
  | CallLaunch ProjectKey CommandSnapshot
  | CallReadOutput ProjectKey string
  | CallWaitOutput ProjectKey string
  | CallResizeTTY ProjectKey string int int
  | CallSendSignal ProjectKey string string
  | CallWriteInput ProjectKey string string
  | CallCloseInput ProjectKey string
  | CallStopProject ProjectKey
  | CallCloseOwnerFile nat

section \<open>Invalidations\<close>

definition parentPath :: "string \<Rightarrow> string" where
  "parentPath path = (let dir = Dir (ToSlash path) in if dir = ''.'' then [] else ToSlash dir)"

fun AppendChanges :: "InvalidateChange list \<Rightarrow> InvalidateChange list \<Rightarrow> InvalidateChange list" where
  "AppendChanges existing [] = existing"
| "AppendChanges existing (candidate # candidates) =
     AppendChanges (if candidate \<in> set existing then existing else existing @ [candidate]) candidates"

abbreviation change :: "string \<Rightarrow> InvalidateKind \<Rightarrow> InvalidateChange" where
  "change path kind \<equiv> \<lparr>inv_Path = path, inv_NewPath = [], inv_Kind = kind\<rparr>"

definition DataPath :: "string \<Rightarrow> InvalidateChange list" where
  "DataPath path =
     AppendChanges [] [change path InvalidateData, change (parentPath path) InvalidateDentry]"

definition MkdirPath :: "string \<Rightarrow> InvalidateChange list" where
  "MkdirPath path =
     AppendChanges [] [change path InvalidateDentry, change (parentPath path) InvalidateDentry]"

definition DeletePath :: "string \<Rightarrow> InvalidateChange list" where
  "DeletePath path =
     AppendChanges [] [change path InvalidateDelete, change (parentPath path) InvalidateDentry]"

definition RenamePaths :: "string \<Rightarrow> string \<Rightarrow> InvalidateChange list" where
  "RenamePaths path newPath =
     AppendChanges []
       [\<lparr>inv_Path = path, inv_NewPath = newPath, inv_Kind = InvalidateRename\<rparr>,
        change (parentPath path) InvalidateDentry, change (parentPath newPath) InvalidateDentry]"

section \<open>Event streams\<close>

definition defaultCommandEventRetention :: int where
  "defaultCommandEventRetention = 256"

definition defaultInvalidateEventRetention :: int where
  "defaultInvalidateEventRetention = 256"

definition commandEventCodec :: "CommandEvent CursorCodec" where
  "commandEventCodec =
     \<lparr>cc_Name = ''command'', cc_GetCursor = Some cev_Cursor,
      cc_SetCursor = Some (\<lambda>event cursor. event\<lparr>cev_Cursor := cursor\<rparr>), cc_Clone = None\<rparr>"

definition newCommandEventStreamWithRetention :: "int \<Rightarrow> CommandEvent Store res" where
  "newCommandEventStreamWithRetention retention = New retention commandEventCodec"

definition newCommandEventStream :: "CommandEvent Store res" where
  "newCommandEventStream = newCommandEventStreamWithRetention defaultCommandEventRetention"

definition cloneInvalidateEvent :: "InvalidateEvent \<Rightarrow> InvalidateEvent" where
  "cloneInvalidateEvent event = event\<lparr>iev_Changes := [] @ iev_Changes event\<rparr>"

definition invalidateEventCodec :: "InvalidateEvent CursorCodec" where
  "invalidateEventCodec =
     \<lparr>cc_Name = ''invalidate'', cc_GetCursor = Some iev_Cursor,
      cc_SetCursor = Some (\<lambda>event cursor. event\<lparr>iev_Cursor := cursor\<rparr>),
      cc_Clone = Some cloneInvalidateEvent\<rparr>"

definition newInvalidateEventStreamWithRetention :: "int \<Rightarrow> InvalidateEvent Store res" where
  "newInvalidateEventStreamWithRetention retention = New retention invalidateEventCodec"

definition newInvalidateEventStream :: "InvalidateEvent Store res" where
  "newInvalidateEventStream = newInvalidateEventStreamWithRetention defaultInvalidateEventRetention"

section \<open>Uploads\<close>

record UploadTracker =
  ut_uploads :: "(string, string) gomap"

definition newUploadTracker :: UploadTracker where
  "newUploadTracker = \<lparr>ut_uploads = []\<rparr>"

definition upload_key :: "ProjectKey \<Rightarrow> string \<Rightarrow> string" where
  "upload_key projectKey fileID = ProjectKey_String projectKey @ '':'' @ fileID"

definition Upload_Begin :: "ProjectKey \<Rightarrow> string \<Rightarrow> string \<Rightarrow> UploadTracker \<Rightarrow> UploadTracker" where
  "Upload_Begin projectKey fileID path t =
     t\<lparr>ut_uploads := AList.update (upload_key projectKey fileID) path (ut_uploads t)\<rparr>"

definition Upload_Commit :: "ProjectKey \<Rightarrow> string \<Rightarrow> UploadTracker \<Rightarrow> string \<times> UploadTracker" where
  "Upload_Commit projectKey fileID t =
     (let key = upload_key projectKey fileID
      in (case map_of (ut_uploads t) key of None \<Rightarrow> [] | Some path \<Rightarrow> path,
          t\<lparr>ut_uploads := AList.delete key (ut_uploads t)\<rparr>))"

definition Upload_Abort :: "ProjectKey \<Rightarrow> string \<Rightarrow> UploadTracker \<Rightarrow> UploadTracker" where
  "Upload_Abort projectKey fileID t =
     t\<lparr>ut_uploads := AList.delete (upload_key projectKey fileID) (ut_uploads t)\<rparr>"

definition Upload_CleanupProject :: "ProjectKey \<Rightarrow> UploadTracker \<Rightarrow> UploadTracker" where
  "Upload_CleanupProject projectKey t =
     t\<lparr>ut_uploads := filter (\<lambda>(key, _). \<not> HasPrefix key (ProjectKey_String projectKey @ '':'')) (ut_uploads t)\<rparr>"

section \<open>Invalidation streams\<close>

record InvalidateHub =
  ih_streams :: "(string, InvalidateEvent Store) gomap"

definition newInvalidateHub :: "InvalidateHub res" where
  "newInvalidateHub =
     (case newInvalidateEventStream of Inl e \<Rightarrow> Inl e | Inr _ \<Rightarrow> Inr \<lparr>ih_streams = []\<rparr>)"

definition Hub_stream :: "ProjectKey \<Rightarrow> InvalidateHub \<Rightarrow> InvalidateEvent Store res \<times> InvalidateHub" where
  "Hub_stream projectKey h =
     (let key = ProjectKey_String projectKey
      in case map_of (ih_streams h) key of
           Some stream \<Rightarrow> (Inr stream, h)
         | None \<Rightarrow>
             case newInvalidateEventStream of
               Inl e \<Rightarrow> (Inl e, h)
             | Inr stream \<Rightarrow> (Inr stream, h\<lparr>ih_streams := AList.update key stream (ih_streams h)\<rparr>))"

definition Hub_Watch ::
  "ProjectKey \<Rightarrow> u64 \<Rightarrow> InvalidateHub \<Rightarrow> InvalidateEvent list res \<times> InvalidateHub" where
  "Hub_Watch projectKey sinceCursor h =
     (case Hub_stream projectKey h of
        (Inl e, h1) \<Rightarrow> (Inl e, h1)
      | (Inr stream, h1) \<Rightarrow> (EventsSince sinceCursor stream, h1))"

definition Hub_Subscribe ::
  "ProjectKey \<Rightarrow> u64 \<Rightarrow> InvalidateHub \<Rightarrow> (InvalidateEvent list \<times> u64) res \<times> InvalidateHub" where
  "Hub_Subscribe projectKey sinceCursor h =
     (case Hub_stream projectKey h of
        (Inl e, h1) \<Rightarrow> (Inl e, h1)
      | (Inr stream, h1) \<Rightarrow>
          (case Subscribe sinceCursor stream of
             (answer, stream1) \<Rightarrow>
               (answer, h1\<lparr>ih_streams := AList.update (ProjectKey_String projectKey) stream1 (ih_streams h1)\<rparr>)))"

definition Hub_Append ::
  "go_time \<Rightarrow> ProjectKey \<Rightarrow> InvalidateChange list \<Rightarrow> InvalidateHub \<Rightarrow> unit res \<times> InvalidateHub" where
  "Hub_Append now projectKey changes h =
     (if changes = [] then (Inr (), h)
      else case Hub_stream projectKey h of
        (Inl e, h1) \<Rightarrow> (Inl e, h1)
      | (Inr stream, h1) \<Rightarrow>
          (Inr (), h1\<lparr>ih_streams := AList.update (ProjectKey_String projectKey)
             (snd (Append \<lparr>iev_Cursor = 0, iev_Timestamp = now, iev_Changes = [] @ changes\<rparr> stream))
             (ih_streams h1)\<rparr>))"

text \<open>The cleanups close the streams they drop: the first component is the closed streams.\<close>

definition Hub_CleanupProject :: "ProjectKey \<Rightarrow> InvalidateHub \<Rightarrow> InvalidateEvent Store list \<times> InvalidateHub" where
  "Hub_CleanupProject projectKey h =
     (let key = ProjectKey_String projectKey
      in case map_of (ih_streams h) key of
           None \<Rightarrow> ([], h)
         | Some stream \<Rightarrow> ([CloseAll stream], h\<lparr>ih_streams := AList.delete key (ih_streams h)\<rparr>))"

section \<open>Commands\<close>

record CommandController =
  cx_backend :: bool
  cx_owners :: "(string, ProjectKey) gomap"
  cx_streams :: "(string, CommandEvent Store) gomap"

definition newCommandController :: "bool \<Rightarrow> CommandController res" where
  "newCommandController backend =
     (case newCommandEventStream of
        Inl e \<Rightarrow> Inl e
      | Inr _ \<Rightarrow> Inr \<lparr>cx_backend = backend, cx_owners = [], cx_streams = []\<rparr>)"

definition Commands_streamLocked ::
  "string \<Rightarrow> CommandController \<Rightarrow> CommandEvent Store res \<times> CommandController" where
  "Commands_streamLocked commandID c =
     (case map_of (cx_streams c) commandID of
        Some stream \<Rightarrow> (Inr stream, c)
      | None \<Rightarrow>
          case newCommandEventStream of
            Inl e \<Rightarrow> (Inl e, c)
          | Inr stream \<Rightarrow> (Inr stream, c\<lparr>cx_streams := AList.update commandID stream (cx_streams c)\<rparr>))"

definition recordBatch ::
  "string \<Rightarrow> CommandEvent list \<Rightarrow> CommandController \<Rightarrow> unit res \<times> CommandController" where
  "recordBatch commandID events c =
     (if events = [] then (Inr (), c)
      else case Commands_streamLocked commandID c of
        (Inl e, c1) \<Rightarrow> (Inl e, c1)
      | (Inr stream, c1) \<Rightarrow>
          (Inr (), c1\<lparr>cx_streams := AList.update commandID (snd (AppendBatch events stream)) (cx_streams c1)\<rparr>))"

abbreviation command_event :: "string \<Rightarrow> CommandEventType \<Rightarrow> go_time \<Rightarrow> string \<Rightarrow> CommandEvent" where
  "command_event commandID type now message \<equiv>
     \<lparr>cev_Cursor = 0, cev_CommandID = commandID, cev_Type = type, cev_Timestamp = now,
      cev_ExitCode = None, cev_Message = message\<rparr>"

definition Commands_record ::
  "string \<Rightarrow> CommandEvent \<Rightarrow> CommandController \<Rightarrow> unit res \<times> CommandController" where
  "Commands_record commandID event c = recordBatch commandID [event] c"

definition Commands_Start ::
  "ProjectKey \<Rightarrow> CommandSnapshot \<Rightarrow> CommandController \<Rightarrow> unit res \<times> runtime_call list \<times> CommandController" where
  "Commands_Start projectKey command c =
     (let commandID = cmd_CommandID command;
          c1 = c\<lparr>cx_owners := AList.update commandID projectKey (cx_owners c)\<rparr>
      in case Commands_streamLocked commandID c1 of
           (Inl e, c2) \<Rightarrow> (Inl e, [], c2\<lparr>cx_owners := AList.delete commandID (cx_owners c2)\<rparr>)
         | (Inr stream, c2) \<Rightarrow>
             (Inr (), if cx_backend c then [CallLaunch projectKey command] else [],
              c2\<lparr>cx_streams := AList.update commandID
                (snd (Append (command_event commandID CommandEventExecStarted (cmd_StartedAt command)
                        ''command launched'') stream)) (cx_streams c2)\<rparr>))"

definition backendForCommand :: "string \<Rightarrow> CommandController \<Rightarrow> ProjectKey option" where
  "backendForCommand commandID c =
     (case map_of (cx_owners c) commandID of
        None \<Rightarrow> None
      | Some projectKey \<Rightarrow> if \<not> cx_backend c then None else Some projectKey)"

definition Commands_ReadOutput ::
  "'a res \<Rightarrow> string \<Rightarrow> CommandController \<Rightarrow> 'a res \<times> runtime_call list" where
  "Commands_ReadOutput answer commandID c =
     (case backendForCommand commandID c of
        None \<Rightarrow> (Inl (NewError ErrInvalidArgument ''command output is unavailable''), [])
      | Some projectKey \<Rightarrow> (answer, [CallReadOutput projectKey commandID]))"

definition Commands_WaitOutput ::
  "unit res \<Rightarrow> string \<Rightarrow> CommandController \<Rightarrow> unit res \<times> runtime_call list" where
  "Commands_WaitOutput answer commandID c =
     (case backendForCommand commandID c of
        None \<Rightarrow> (Inl (NewError ErrInvalidArgument ''command output is unavailable''), [])
      | Some projectKey \<Rightarrow> (answer, [CallWaitOutput projectKey commandID]))"

definition Commands_OpenStdio ::
  "go_time \<Rightarrow> string \<Rightarrow> CommandController \<Rightarrow> unit res \<times> CommandController" where
  "Commands_OpenStdio now commandID c =
     Commands_record commandID (command_event commandID CommandEventAttachStdio now ''stdio attached'') c"

definition Commands_DetachStdio ::
  "go_time \<Rightarrow> string \<Rightarrow> CommandController \<Rightarrow> unit res \<times> CommandController" where
  "Commands_DetachStdio now commandID c =
     Commands_record commandID (command_event commandID CommandEventDetachStdio now ''stdio detached'') c"

definition Commands_Watch ::
  "string \<Rightarrow> u64 \<Rightarrow> CommandController \<Rightarrow> CommandEvent list res \<times> CommandController" where
  "Commands_Watch commandID sinceCursor c =
     (case Commands_streamLocked commandID c of
        (Inl e, c1) \<Rightarrow> (Inl e, c1)
      | (Inr stream, c1) \<Rightarrow> (EventsSince sinceCursor stream, c1))"

definition Commands_Subscribe ::
  "string \<Rightarrow> u64 \<Rightarrow> CommandController \<Rightarrow> (CommandEvent list \<times> u64) res \<times> CommandController" where
  "Commands_Subscribe commandID sinceCursor c =
     (case Commands_streamLocked commandID c of
        (Inl e, c1) \<Rightarrow> (Inl e, c1)
      | (Inr stream, c1) \<Rightarrow>
          (case Subscribe sinceCursor stream of
             (answer, stream1) \<Rightarrow>
               (answer, c1\<lparr>cx_streams := AList.update commandID stream1 (cx_streams c1)\<rparr>)))"

definition int_dec :: "int \<Rightarrow> string" where
  "int_dec i = (if i < 0 then CHR ''-'' # nat_dec (nat (- i)) else nat_dec (nat i))"

definition Commands_ResizeTTY ::
  "unit res \<Rightarrow> go_time \<Rightarrow> string \<Rightarrow> int \<Rightarrow> int \<Rightarrow> CommandController \<Rightarrow>
   unit res \<times> runtime_call list \<times> CommandController" where
  "Commands_ResizeTTY answer now commandID columns rows c =
     (case backendForCommand commandID c of
        None \<Rightarrow> (Inr (), [], c)
      | Some projectKey \<Rightarrow>
          let call = CallResizeTTY projectKey commandID columns rows
          in case answer of
               Inl e \<Rightarrow> (Inl e, [call], c)
             | Inr _ \<Rightarrow>
                 (case Commands_record commandID (command_event commandID CommandEventTTYResized now
                         (int_dec columns @ ''x'' @ int_dec rows)) c of
                    (r, c1) \<Rightarrow> (r, [call], c1)))"

definition Commands_SendSignal ::
  "unit res \<Rightarrow> go_time \<Rightarrow> string \<Rightarrow> string \<Rightarrow> CommandController \<Rightarrow>
   unit res \<times> runtime_call list \<times> CommandController" where
  "Commands_SendSignal answer now commandID name c =
     (case backendForCommand commandID c of
        None \<Rightarrow> (Inl (NewError ErrInvalidArgument ''command signal is unavailable''), [], c)
      | Some projectKey \<Rightarrow>
          let call = CallSendSignal projectKey commandID name
          in case answer of
               Inl e \<Rightarrow> (Inl e, [call], c)
             | Inr _ \<Rightarrow>
                 (case Commands_record commandID (command_event commandID CommandEventSignalSent now name) c of
                    (r, c1) \<Rightarrow> (r, [call], c1)))"

definition Commands_WriteInput ::
  "unit res \<Rightarrow> string \<Rightarrow> string \<Rightarrow> CommandController \<Rightarrow> unit res \<times> runtime_call list" where
  "Commands_WriteInput answer commandID data c =
     (case backendForCommand commandID c of
        None \<Rightarrow> (Inl (NewError ErrInvalidArgument ''command input is unavailable''), [])
      | Some projectKey \<Rightarrow> (answer, [CallWriteInput projectKey commandID data]))"

definition Commands_CloseInput ::
  "unit res \<Rightarrow> go_time \<Rightarrow> string \<Rightarrow> CommandController \<Rightarrow> unit res \<times> runtime_call list \<times> CommandController" where
  "Commands_CloseInput answer now commandID c =
     (case backendForCommand commandID c of
        None \<Rightarrow> (Inl (NewError ErrInvalidArgument ''command input is unavailable''), [], c)
      | Some projectKey \<Rightarrow>
          let call = CallCloseInput projectKey commandID
          in case answer of
               Inl e \<Rightarrow> (Inl e, [call], c)
             | Inr _ \<Rightarrow>
                 (case Commands_record commandID (command_event commandID CommandEventIOClosed now ''stdin closed'') c of
                    (r, c1) \<Rightarrow> (r, [call], c1)))"

definition Commands_StopProject :: "ProjectKey \<Rightarrow> CommandController \<Rightarrow> runtime_call list" where
  "Commands_StopProject projectKey c = (if \<not> cx_backend c then [] else [CallStopProject projectKey])"

fun cleanup_commands ::
  "ProjectKey \<Rightarrow> (string \<times> ProjectKey) list \<Rightarrow> CommandController \<Rightarrow>
   CommandEvent Store list \<times> CommandController" where
  "cleanup_commands projectKey [] c = ([], c)"
| "cleanup_commands projectKey ((commandID, owner) # rest) c =
     (if owner \<noteq> projectKey then cleanup_commands projectKey rest c
      else
        let c1 = c\<lparr>cx_owners := AList.delete commandID (cx_owners c)\<rparr>
        in case map_of (cx_streams c1) commandID of
             None \<Rightarrow> cleanup_commands projectKey rest c1
           | Some stream \<Rightarrow>
               let c2 = c1\<lparr>cx_streams := AList.delete commandID (cx_streams c1)\<rparr>;
                   (closed, c3) = cleanup_commands projectKey rest c2
               in (CloseAll stream # closed, c3))"

definition Commands_CleanupProject ::
  "ProjectKey \<Rightarrow> CommandController \<Rightarrow> CommandEvent Store list \<times> CommandController" where
  "Commands_CleanupProject projectKey c = cleanup_commands projectKey (cx_owners c) c"

definition valueOrNow :: "go_time option \<Rightarrow> go_time \<Rightarrow> go_time" where
  "valueOrNow value fallback = (case value of Some t \<Rightarrow> t | None \<Rightarrow> fallback)"

interpretation cev: event_codec commandEventCodec cev_Cursor "\<lambda>event cursor. event\<lparr>cev_Cursor := cursor\<rparr>"
  by unfold_locales (auto simp: commandEventCodec_def)

interpretation iev: event_codec invalidateEventCodec iev_Cursor "\<lambda>event cursor. event\<lparr>iev_Cursor := cursor\<rparr>"
  by unfold_locales (auto simp: invalidateEventCodec_def cloneInvalidateEvent_def)

end
