(* ===== verification/Project_Coordinator.thy ===== *)
theory Project_Coordinator
  imports Project_Instance Session_Registry Control_Streams
begin

text \<open>
  The projects of the daemon: \<open>internal/control/project_coordinator.go\<close> and
  \<open>internal/control/authority_strategy.go\<close>, on the state of the whole control service.

  A \<open>*project.Instance\<close> and a \<open>*projectEntry\<close> are shared pointers: they live under addresses in
  \<open>co_objects\<close> and \<open>co_entries\<close>. Each function runs as one step; the one place where the code waits for
  another goroutine, the preparation of a new project, is split into the critical sections
  \<open>lookup_step\<close>, \<open>bootstrap_done\<close> and \<open>waiter_result\<close> that the function is made of.
\<close>

section \<open>State\<close>

record projectEntry =
  pe_instance :: "nat option"
  pe_ready :: bool
  pe_err :: "err option"

text \<open>\<open>pe_ready\<close>: the entry has a \<open>ready\<close> channel, that is its project is still being prepared.\<close>

record ProjectCoordinator =
  co_bootstrap :: bool
  co_instances :: "(string, nat) gomap"
  co_entries :: "(nat, projectEntry) gomap"
  co_objects :: "(nat, Instance) gomap"
  co_next :: nat

definition newProjectCoordinator :: "bool \<Rightarrow> ProjectCoordinator" where
  "newProjectCoordinator bootstrap =
     \<lparr>co_bootstrap = bootstrap, co_instances = [], co_entries = [], co_objects = [], co_next = 0\<rparr>"

text \<open>
  The control service. \<open>sv_runtime\<close> and \<open>sv_observer\<close>: a runtime and a session observer are configured.
  \<open>sv_calls\<close> lists the calls to the runtime, \<open>sv_published\<close> the snapshots sent to the observer (with
  \<open>True\<close> for a closed session), oldest first.
\<close>

record Service =
  sv_runtime :: bool
  sv_observer :: bool
  sv_sessions :: SessionRegistry
  sv_projects :: ProjectCoordinator
  sv_commands :: CommandController
  sv_uploads :: UploadTracker
  sv_invalidates :: InvalidateHub
  sv_calls :: "runtime_call list"
  sv_published :: "(bool \<times> LiveSessionSnapshot) list"

text \<open>
  What an operation reads from outside: the wall clock, the service's clock, the traffic counters and
  what the runtime answers when it is asked to prepare a project.
\<close>

record env =
  en_wall :: go_time
  en_now :: go_time
  en_traffic :: traffic
  en_prepare :: "ProjectKey \<Rightarrow> err option"

definition do_calls :: "runtime_call list \<Rightarrow> Service \<Rightarrow> Service" where
  "do_calls calls s = s\<lparr>sv_calls := sv_calls s @ calls\<rparr>"

text \<open>A method on an instance through its pointer.\<close>

definition on_instance :: "nat \<Rightarrow> (Instance \<Rightarrow> 'a \<times> Instance) \<Rightarrow> 'a \<Rightarrow> Service \<Rightarrow> 'a \<times> Service" where
  "on_instance a f nil s =
     (case map_of (co_objects (sv_projects s)) a of
        None \<Rightarrow> (nil, s)
      | Some i \<Rightarrow>
          (case f i of (answer, i') \<Rightarrow>
             (answer, s\<lparr>sv_projects := (sv_projects s)\<lparr>
                co_objects := AList.update a i' (co_objects (sv_projects s))\<rparr>\<rparr>)))"

text \<open>Addresses are never freed, so the default for a dangling pointer is never used.\<close>

definition nil_pointer :: err where
  "nil_pointer = PlainErr ''nil pointer''"

abbreviation on_res :: "nat \<Rightarrow> (Instance \<Rightarrow> 'a res \<times> Instance) \<Rightarrow> Service \<Rightarrow> 'a res \<times> Service" where
  "on_res a f \<equiv> on_instance a f (Inl nil_pointer)"

definition read_instance :: "nat \<Rightarrow> (Instance \<Rightarrow> 'a res) \<Rightarrow> Service \<Rightarrow> 'a res" where
  "read_instance a f s =
     (case map_of (co_objects (sv_projects s)) a of None \<Rightarrow> Inl nil_pointer | Some i \<Rightarrow> f i)"

text \<open>\<open>x, err := f(); if err != nil { return err }\<close>\<close>

definition attempt ::
  "'a res \<times> Service \<Rightarrow> ('a \<Rightarrow> Service \<Rightarrow> 'b res \<times> Service) \<Rightarrow> 'b res \<times> Service" where
  "attempt r k = (case r of (Inl e, s) \<Rightarrow> (Inl e, s) | (Inr x, s) \<Rightarrow> k x s)"

definition require :: "err option \<Rightarrow> Service \<Rightarrow> (Service \<Rightarrow> 'b res \<times> Service) \<Rightarrow> 'b res \<times> Service" where
  "require e s k = (case e of Some err \<Rightarrow> (Inl err, s) | None \<Rightarrow> k s)"

section \<open>Finding and creating instances\<close>

definition wrapBootstrapError :: "err \<Rightarrow> err" where
  "wrapBootstrapError e =
     (if AsError e \<noteq> None then e else NewError ErrProjectInitFailed (Error e))"

datatype lookup_result =
    LookupWait nat
  | LookupRetry
  | LookupFound nat
  | LookupPrepare nat nat
  | LookupFailed err

text \<open>One round of the loop, from \<open>c.mu.Lock()\<close> to \<open>c.mu.Unlock()\<close>.\<close>

definition lookup_step :: "ProjectKey \<Rightarrow> ProjectCoordinator \<Rightarrow> lookup_result \<times> ProjectCoordinator" where
  "lookup_step key c =
     (case Option.bind (map_of (co_instances c) (ProjectKey_String key))
             (\<lambda>a. map_option (Pair a) (map_of (co_entries c) a)) of
        Some (a, entry) \<Rightarrow>
          if pe_ready entry then (LookupWait a, c)
          else if pe_err entry \<noteq> None then
            (LookupRetry, c\<lparr>co_instances := AList.delete (ProjectKey_String key) (co_instances c)\<rparr>)
          else (case pe_instance entry of
                  Some i \<Rightarrow> (LookupFound i, c)
                | None \<Rightarrow> (LookupFailed nil_pointer, c))
      | None \<Rightarrow>
          case NewInstance key of
            Inl e \<Rightarrow> (LookupFailed e, c)
          | Inr instance \<Rightarrow>
              let a = co_next c;
                  entry = \<lparr>pe_instance = Some a, pe_ready = co_bootstrap c, pe_err = None\<rparr>;
                  c1 = c\<lparr>co_instances := AList.update (ProjectKey_String key) a (co_instances c),
                         co_entries := AList.update a entry (co_entries c),
                         co_objects := AList.update a instance (co_objects c),
                         co_next := a + 1\<rparr>
              in (if co_bootstrap c then LookupPrepare a a else LookupFound a, c1))"

text \<open>The section after \<open>PrepareProject\<close>: note a failure, close \<open>ready\<close>.\<close>

definition bootstrap_done :: "nat \<Rightarrow> err option \<Rightarrow> ProjectCoordinator \<Rightarrow> ProjectCoordinator" where
  "bootstrap_done a answer c =
     (case map_of (co_entries c) a of
        None \<Rightarrow> c
      | Some entry \<Rightarrow>
          let entry = (case answer of None \<Rightarrow> entry
                       | Some e \<Rightarrow> entry\<lparr>pe_instance := None, pe_err := Some e\<rparr>)
          in c\<lparr>co_entries := AList.update a (entry\<lparr>pe_ready := False\<rparr>) (co_entries c)\<rparr>)"

text \<open>What a waiter reads from its entry after \<open><-ready\<close>; \<open>None\<close> means \<open>continue\<close>.\<close>

definition waiter_result :: "nat \<Rightarrow> ProjectCoordinator \<Rightarrow> nat res option" where
  "waiter_result a c =
     (case map_of (co_entries c) a of
        None \<Rightarrow> None
      | Some entry \<Rightarrow>
          (case pe_err entry of
             Some e \<Rightarrow> Some (Inl (wrapBootstrapError e))
           | None \<Rightarrow> map_option Inr (pe_instance entry)))"

text \<open>
  The loop, run by one caller. Two rounds are enough: only a failed entry makes it go round again, and
  that round removes the entry.
\<close>

fun instance_loop ::
  "nat \<Rightarrow> (ProjectKey \<Rightarrow> err option) \<Rightarrow> ProjectKey \<Rightarrow> ProjectCoordinator \<Rightarrow>
   nat res \<times> runtime_call list \<times> ProjectCoordinator" where
  "instance_loop 0 prepare key c = (Inl nil_pointer, [], c)"
| "instance_loop (Suc fuel) prepare key c =
     (case lookup_step key c of
        (LookupFound i, c1) \<Rightarrow> (Inr i, [], c1)
      | (LookupFailed e, c1) \<Rightarrow> (Inl e, [], c1)
      | (LookupRetry, c1) \<Rightarrow> instance_loop fuel prepare key c1
      | (LookupWait a, c1) \<Rightarrow>
          (case waiter_result a c1 of
             Some answer \<Rightarrow> (answer, [], c1)
           | None \<Rightarrow> instance_loop fuel prepare key c1)
      | (LookupPrepare a i, c1) \<Rightarrow>
          let answer = prepare key;
              c2 = bootstrap_done a answer c1
          in (case answer of
                Some e \<Rightarrow> (Inl (wrapBootstrapError e), [CallPrepareProject key], c2)
              | None \<Rightarrow> (Inr i, [CallPrepareProject key], c2)))"

definition instanceForSession :: "env \<Rightarrow> session \<Rightarrow> Service \<Rightarrow> nat res \<times> Service" where
  "instanceForSession env clientSession s =
     (case instance_loop 2 (en_prepare env) (projectKeyForSession clientSession) (sv_projects s) of
        (answer, calls, c) \<Rightarrow> (answer, do_calls calls (s\<lparr>sv_projects := c\<rparr>)))"

definition InstanceForClient :: "env \<Rightarrow> string \<Rightarrow> Service \<Rightarrow> (nat \<times> session) res \<times> Service" where
  "InstanceForClient env clientID s =
     attempt (Registry_Session clientID (sv_sessions s), s) (\<lambda>clientSession s.
     attempt (instanceForSession env clientSession s) (\<lambda>instance s.
       (Inr (instance, clientSession), s)))"

definition instanceIfExists :: "ProjectKey \<Rightarrow> Service \<Rightarrow> nat option" where
  "instanceIfExists key s =
     Option.bind (map_of (co_instances (sv_projects s)) (ProjectKey_String key))
       (\<lambda>a. Option.bind (map_of (co_entries (sv_projects s)) a) pe_instance)"

definition InstanceForKey :: "ProjectKey \<Rightarrow> Service \<Rightarrow> nat res" where
  "InstanceForKey key s =
     (case instanceIfExists key s of
        None \<Rightarrow> Inl (NewError ErrInvalidArgument ''project instance does not exist'')
      | Some i \<Rightarrow> Inr i)"

section \<open>The authoritative source\<close>

definition sessionUsesWorkspaceRootAuthority :: "session \<Rightarrow> bool" where
  "sessionUsesWorkspaceRootAuthority clientSession \<longleftrightarrow>
     TrimSpace (se_WorkspaceRoot clientSession) \<noteq> [] \<and>
     se_TransportHint clientSession \<noteq> TransportKindSSH"

definition sessionUsesOwnerFileAuthority :: "session \<Rightarrow> bool" where
  "sessionUsesOwnerFileAuthority clientSession \<longleftrightarrow> \<not> sessionUsesWorkspaceRootAuthority clientSession"

definition is_authority_client :: "nat \<Rightarrow> string \<Rightarrow> Service \<Rightarrow> bool" where
  "is_authority_client a clientID s =
     (case map_of (co_objects (sv_projects s)) a of
        None \<Rightarrow> False | Some i \<Rightarrow> IsActiveAuthorityClient clientID i)"

definition assignAuthoritativeSource :: "nat \<Rightarrow> session \<Rightarrow> Service \<Rightarrow> Service" where
  "assignAuthoritativeSource a clientSession s =
     (if \<not> sv_runtime s \<or> \<not> is_authority_client a (se_ClientID clientSession) s then s
      else
        let projectKey = projectKeyForSession clientSession
        in if sessionUsesWorkspaceRootAuthority clientSession then
             do_calls [CallSetAuthoritativeRoot projectKey (se_WorkspaceRoot clientSession)] s
           else case Registry_OwnerFileClient (se_ClientID clientSession) (sv_sessions s) of
             None \<Rightarrow> s
           | Some client \<Rightarrow> do_calls [CallSetAuthoritativeClient projectKey client] s)"

definition clearAuthoritativeSource :: "session \<Rightarrow> Service \<Rightarrow> Service" where
  "clearAuthoritativeSource clientSession s =
     (if \<not> sv_runtime s then s
      else do_calls [CallClearAuthoritativeRoot (projectKeyForSession clientSession)] s)"

section \<open>Attaching, confirming, completing\<close>

definition err_project_mismatch :: err where
  "err_project_mismatch =
     NewError ErrInvalidArgument ''project id does not match the authenticated session''"

definition Coordinator_EnsureProject ::
  "env \<Rightarrow> string \<Rightarrow> string \<Rightarrow> Service \<Rightarrow> ProjectSnapshot res \<times> Service" where
  "Coordinator_EnsureProject env clientID projectID s =
     attempt (Registry_Session clientID (sv_sessions s), s) (\<lambda>clientSession s.
       if projectID \<noteq> se_ProjectID clientSession then (Inl err_project_mismatch, s)
       else
         attempt (instanceForSession env clientSession s) (\<lambda>instance s.
         attempt (on_res instance (AttachClientWithSession (en_wall env) clientID
             (se_WorkspaceDigest clientSession) (se_WorkspaceRoot clientSession)
             (se_WorkspaceInstanceID clientSession) (se_SessionKind clientSession) (en_now env)) s)
           (\<lambda>snapshot s. (Inr snapshot, assignAuthoritativeSource instance clientSession s))))"

definition Coordinator_ConfirmReconcile ::
  "env \<Rightarrow> string \<Rightarrow> string \<Rightarrow> u64 \<Rightarrow> WorkspaceDigest \<Rightarrow> Service \<Rightarrow> ProjectSnapshot res \<times> Service" where
  "Coordinator_ConfirmReconcile env clientID projectID expectedCursor digest s =
     attempt (InstanceForClient env clientID s) (\<lambda>(instance, clientSession) s.
       if projectID \<noteq> se_ProjectID clientSession then (Inl err_project_mismatch, s)
       else
         attempt (on_res instance (ConfirmReconcileWithSession (en_wall env) clientID expectedCursor
             digest (se_WorkspaceInstanceID clientSession) (se_SessionKind clientSession) (en_now env)) s)
           (\<lambda>snapshot s. (Inr snapshot, assignAuthoritativeSource instance clientSession s)))"

definition Coordinator_CompleteInitialSync ::
  "env \<Rightarrow> string \<Rightarrow> u64 \<Rightarrow> Service \<Rightarrow> ProjectSnapshot res \<times> Service" where
  "Coordinator_CompleteInitialSync env clientID syncEpoch s =
     attempt (InstanceForClient env clientID s) (\<lambda>(instance, _) s.
       on_res instance (CompleteInitialSync (en_wall env) clientID syncEpoch (en_now env)) s)"

section \<open>Leaving and terminating\<close>

definition cleanupProjectRuntimeState :: "ProjectKey \<Rightarrow> Service \<Rightarrow> Service" where
  "cleanupProjectRuntimeState key s =
     s\<lparr>sv_invalidates := snd (Hub_CleanupProject key (sv_invalidates s)),
       sv_uploads := Upload_CleanupProject key (sv_uploads s),
       sv_commands := snd (Commands_CleanupProject key (sv_commands s))\<rparr>"

definition cleanupProject :: "ProjectKey \<Rightarrow> Service \<Rightarrow> Service" where
  "cleanupProject key s =
     cleanupProjectRuntimeState key
       (s\<lparr>sv_projects := (sv_projects s)\<lparr>
          co_instances := AList.delete (ProjectKey_String key) (co_instances (sv_projects s))\<rparr>\<rparr>)"

definition terminate_instance :: "env \<Rightarrow> nat \<Rightarrow> string \<Rightarrow> Service \<Rightarrow> Service" where
  "terminate_instance env a reason s =
     snd (on_instance a (\<lambda>i. ((), Terminate (en_wall env) reason (en_now env) i)) () s)"

definition close_owner_file :: "nat option \<Rightarrow> Service \<Rightarrow> Service" where
  "close_owner_file client s =
     (case client of None \<Rightarrow> s | Some c \<Rightarrow> do_calls [CallCloseOwnerFile c] s)"

definition Coordinator_ReleaseClient :: "env \<Rightarrow> string \<Rightarrow> Service \<Rightarrow> unit res \<times> Service" where
  "Coordinator_ReleaseClient env clientID s =
     (case Registry_ReleaseClient (en_traffic env) (en_wall env) clientID (sv_sessions s) of
        (Inl e, r) \<Rightarrow> (Inl e, s\<lparr>sv_sessions := r\<rparr>)
      | (Inr None, r) \<Rightarrow> (Inr (), s\<lparr>sv_sessions := r\<rparr>)
      | (Inr (Some release), r) \<Rightarrow>
          let s1 = s\<lparr>sv_sessions := r\<rparr>;
              projectKey = projectKeyForSession (rel_Session release)
          in case instanceIfExists projectKey s1 of
               None \<Rightarrow> (Inr (), close_owner_file (rel_OwnerFileClient release) s1)
             | Some a \<Rightarrow>
                 let (removal, s2) = on_instance a (RemoveClient (en_wall env) clientID (en_now env)) no_removal s1;
                     s3 = (if rm_AuthorityRebinding removal \<and> sv_runtime s2
                           then do_calls [CallSetAuthorityState projectKey AuthorityStateRebinding] s2 else s2);
                     s4 = (if rm_RemainingParticipants removal = 0 then
                             let t1 = terminate_instance env a ''last project participant disconnected'' s3;
                                 t2 = clearAuthoritativeSource (rel_Session release) t1;
                                 t3 = do_calls (Commands_StopProject projectKey (sv_commands t2)) t2
                             in cleanupProject projectKey t3
                           else s3)
                 in (Inr (), close_owner_file (rel_OwnerFileClient release) s4))"

definition HandleOwnerFileDisconnect :: "env \<Rightarrow> string \<Rightarrow> nat \<Rightarrow> Service \<Rightarrow> Service" where
  "HandleOwnerFileDisconnect env clientID client s =
     (case Registry_OwnerFileDisconnected (en_wall env) clientID client (sv_sessions s) of
        (None, r) \<Rightarrow> s\<lparr>sv_sessions := r\<rparr>
      | (Some None, r) \<Rightarrow> s\<lparr>sv_sessions := r\<rparr>
      | (Some (Some clientSession), r) \<Rightarrow>
          let s1 = s\<lparr>sv_sessions := r\<rparr>;
              projectKey = projectKeyForSession clientSession
          in case instanceIfExists projectKey s1 of
               None \<Rightarrow> s1
             | Some a \<Rightarrow>
                 if \<not> sessionUsesOwnerFileAuthority clientSession then s1
                 else
                   let (entered, s2) =
                         on_instance a (EnterAuthorityRebinding (en_wall env) clientID (en_now env)) False s1
                   in if \<not> entered then s2
                      else if sv_runtime s2
                      then do_calls [CallSetAuthorityState projectKey AuthorityStateRebinding] s2
                      else s2)"

text \<open>
  \<open>disconnect.Matched\<close> with no session leaves the zero session, whose project key is empty; no instance
  has that key (\<open>NewInstance\<close> refuses it), so the code returns at \<open>!ok\<close>.
\<close>

definition Coordinator_TerminateProject :: "env \<Rightarrow> ProjectKey \<Rightarrow> string \<Rightarrow> Service \<Rightarrow> Service" where
  "Coordinator_TerminateProject env key reason s =
     (case instanceIfExists key s of
        None \<Rightarrow> s
      | Some a \<Rightarrow>
          let (ownerFileClients, r) = RemoveProjectOwnerFileClients key [] (sv_sessions s);
              s1 = terminate_instance env a reason (s\<lparr>sv_sessions := r\<rparr>);
              s2 = (if sv_runtime s1 then do_calls [CallClearAuthoritativeRoot key] s1 else s1);
              s3 = do_calls (map CallCloseOwnerFile ownerFileClients) s2;
              s4 = do_calls (Commands_StopProject key (sv_commands s3)) s3
          in if ProjectSessionCount key (sv_sessions s4) = 0 then cleanupProject key s4
             else cleanupProjectRuntimeState key s4)"

definition shouldTerminateInitialSyncError :: "err \<Rightarrow> bool" where
  "shouldTerminateInitialSyncError e =
     (case AsError e of None \<Rightarrow> True | Some (code, _) \<Rightarrow> code \<noteq> ErrSyncRescanMismatch)"

definition FailInitialSync :: "env \<Rightarrow> ProjectKey \<Rightarrow> nat \<Rightarrow> err \<Rightarrow> Service \<Rightarrow> Service" where
  "FailInitialSync env projectKey a e s =
     (case map_of (co_objects (sv_projects s)) a of
        None \<Rightarrow> s
      | Some i \<Rightarrow>
          if CurrentState i \<noteq> ProjectStateSyncing \<or> \<not> shouldTerminateInitialSyncError e then s
          else Coordinator_TerminateProject env projectKey (''initial sync failed: '' @ Error e) s)"

end
