(* ===== verification/Control_Service.thy ===== *)
theory Control_Service
  imports Project_Coordinator Project_Ready
begin

text \<open>
  The control service's request handlers: in \<open>internal/control\<close>, \<open>service.go\<close>, \<open>session_control.go\<close>,
  \<open>session_observer.go\<close>, \<open>admin_sessions.go\<close>, \<open>tmux_status.go\<close>, \<open>project_lifecycle.go\<close>,
  \<open>project_session_usecase.go\<close>, \<open>command_control.go\<close>, \<open>sync_control.go\<close>, \<open>filesystem_control.go\<close> and
  \<open>invalidate_stream.go\<close>.

  Every handler runs as one step on the service. The runtime's answer is an argument; what a handler
  reports to the log is left out. On an error the code returns the error with an otherwise unused
  reply; the model returns the error.
\<close>

section \<open>Construction and hello\<close>

definition NewServiceWithDependencies :: "bool \<Rightarrow> bool \<Rightarrow> bool \<Rightarrow> Service res" where
  "NewServiceWithDependencies auth runtime observer =
     (if \<not> auth then Inl (PlainErr ''authenticator is required'')
      else case newCommandController runtime of
        Inl e \<Rightarrow> Inl e
      | Inr commands \<Rightarrow>
          case newInvalidateHub of
            Inl e \<Rightarrow> Inl e
          | Inr invalidates \<Rightarrow>
              Inr \<lparr>sv_runtime = runtime, sv_observer = observer, sv_sessions = newSessionRegistry,
                   sv_projects = newProjectCoordinator runtime, sv_commands = commands,
                   sv_uploads = newUploadTracker, sv_invalidates = invalidates, sv_calls = [],
                   sv_published = []\<rparr>)"

definition HelloAuthenticated ::
  "env \<Rightarrow> AuthenticatedPrincipal \<Rightarrow> HelloRequest \<Rightarrow> Service \<Rightarrow> HelloResponse res \<times> Service" where
  "HelloAuthenticated env who request s =
     (if TrimSpace (hr_ProjectID request) = [] then
        (Inl (NewError ErrInvalidArgument ''project id is required''), s)
      else if TrimSpace (hr_TransportKind request) \<noteq> [] \<and>
              TrimSpace (hr_TransportKind request) \<noteq> TransportKindSSH then
        (Inl (NewError ErrInvalidArgument ''transport kind must be ssh''), s)
      else if TrimSpace (hr_SessionKind request) \<notin> {[], SessionKindInteractive, SessionKindAuthority} then
        (Inl (NewError ErrInvalidArgument ''session kind must be interactive or authority''), s)
      else
        let who = (if pr_AuthenticatedAt who = 0 then who\<lparr>pr_AuthenticatedAt := en_now env\<rparr> else who);
            (response, r) = HelloPrincipal who request (en_now env) (sv_sessions s)
        in (Inr response, s\<lparr>sv_sessions := r\<rparr>))"

section \<open>Session snapshots and the observer\<close>

definition enrichSessionSnapshot ::
  "env \<Rightarrow> LiveSessionSnapshot \<Rightarrow> Service \<Rightarrow> LiveSessionSnapshot \<times> Service" where
  "enrichSessionSnapshot env snapshot s =
     (case InstanceForClient env (ls_ClientID snapshot) s of
        (Inl _, s1) \<Rightarrow> (snapshot, s1)
      | (Inr (a, _), s1) \<Rightarrow>
          (case read_instance a (Snapshot (ls_ClientID snapshot)) s1 of
             Inl _ \<Rightarrow> (snapshot, s1)
           | Inr p \<Rightarrow>
               (snapshot\<lparr>ls_Role := Some (snap_Role p), ls_ProjectState := Some (snap_ProjectState p),
                  ls_SyncEpoch := snap_SyncEpoch p, ls_NeedsConfirmation := snap_NeedsConfirmation p,
                  ls_AttachedCommandCount := int (length (snap_CommandSnapshots p))\<rparr>, s1)))"

fun enrich_all ::
  "env \<Rightarrow> LiveSessionSnapshot list \<Rightarrow> Service \<Rightarrow> LiveSessionSnapshot list \<times> Service" where
  "enrich_all env [] s = ([], s)"
| "enrich_all env (snapshot # snapshots) s =
     (let (snapshot1, s1) = enrichSessionSnapshot env snapshot s;
          (snapshots1, s2) = enrich_all env snapshots s1
      in (snapshot1 # snapshots1, s2))"

definition ListSessions :: "env \<Rightarrow> Service \<Rightarrow> LiveSessionSnapshot list \<times> Service" where
  "ListSessions env s = enrich_all env (ListLiveSessions (en_traffic env) (sv_sessions s)) s"

definition Service_SessionSnapshot ::
  "env \<Rightarrow> string \<Rightarrow> Service \<Rightarrow> LiveSessionSnapshot option \<times> Service" where
  "Service_SessionSnapshot env sessionID s =
     (case Registry_SessionSnapshot (en_traffic env) sessionID (sv_sessions s) of
        None \<Rightarrow> (None, s)
      | Some snapshot \<Rightarrow>
          (case enrichSessionSnapshot env snapshot s of (snapshot1, s1) \<Rightarrow> (Some snapshot1, s1)))"

definition publishSessionByID :: "env \<Rightarrow> string \<Rightarrow> Service \<Rightarrow> Service" where
  "publishSessionByID env sessionID s =
     (if \<not> sv_observer s \<or> sessionID = [] then s
      else case Service_SessionSnapshot env sessionID s of
        (None, s1) \<Rightarrow> s1
      | (Some snapshot, s1) \<Rightarrow>
          s1\<lparr>sv_published := sv_published s1 @ [(ls_CloseReason snapshot \<noteq> [], snapshot)]\<rparr>)"

definition publishSessionByClientID :: "env \<Rightarrow> string \<Rightarrow> Service \<Rightarrow> Service" where
  "publishSessionByClientID env clientID s =
     (if \<not> sv_observer s \<or> clientID = [] then s
      else case Registry_Session clientID (sv_sessions s) of
        Inl _ \<Rightarrow> s
      | Inr clientSession \<Rightarrow> publishSessionByID env (se_SessionID clientSession) s)"

definition publishProjectSessions :: "env \<Rightarrow> ProjectKey \<Rightarrow> Service \<Rightarrow> Service" where
  "publishProjectSessions env projectKey s =
     (if \<not> sv_observer s then s
      else case ListSessions env s of
        (snapshots, s1) \<Rightarrow>
          s1\<lparr>sv_published := sv_published s1 @
             map (Pair False) (filter (\<lambda>snapshot. ls_ProjectID snapshot = key_ProjectID projectKey \<and>
                pr_Username (ls_Principal snapshot) = key_Username projectKey) snapshots)\<rparr>)"

text \<open>\<open>if clientSession, sessionErr := s.sessions.Session(clientID); sessionErr == nil { ... }\<close>\<close>

definition publish_project_of :: "env \<Rightarrow> string \<Rightarrow> Service \<Rightarrow> Service" where
  "publish_project_of env clientID s =
     (case Registry_Session clientID (sv_sessions s) of
        Inl _ \<Rightarrow> s
      | Inr clientSession \<Rightarrow> publishProjectSessions env (projectKeyForSession clientSession) s)"

section \<open>Sessions\<close>

definition Service_RetainClient :: "env \<Rightarrow> string \<Rightarrow> Service \<Rightarrow> unit res \<times> Service" where
  "Service_RetainClient env clientID s =
     (case Registry_RetainClient (en_wall env) clientID (sv_sessions s) of
        (answer, r) \<Rightarrow> (answer, s\<lparr>sv_sessions := r\<rparr>))"

definition Service_ReleaseClient :: "env \<Rightarrow> string \<Rightarrow> Service \<Rightarrow> unit res \<times> Service" where
  "Service_ReleaseClient env clientID s =
     (let clientSession = Registry_Session clientID (sv_sessions s);
          (answer, s1) = Coordinator_ReleaseClient env clientID s
      in case (answer, clientSession) of
           (Inr _, Inr session) \<Rightarrow>
             (Inr (), publishProjectSessions env (projectKeyForSession session)
                        (publishSessionByID env (se_SessionID session) s1))
         | _ \<Rightarrow> (answer, s1))"

definition DisconnectClient :: "env \<Rightarrow> string \<Rightarrow> Service \<Rightarrow> Service" where
  "DisconnectClient env clientID s = snd (Service_ReleaseClient env clientID s)"

definition Service_RegisterOwnerFileClient ::
  "env \<Rightarrow> unit res \<Rightarrow> string \<Rightarrow> nat option \<Rightarrow> Service \<Rightarrow> unit res \<times> Service" where
  "Service_RegisterOwnerFileClient env answer clientID client s =
     (case Registry_RegisterOwnerFileClient (en_wall env) clientID client (sv_sessions s) of
        (Inl e, r) \<Rightarrow> (Inl e, s\<lparr>sv_sessions := r\<rparr>)
      | (Inr registration, r) \<Rightarrow>
          let s1 = s\<lparr>sv_sessions := r\<rparr>;
              s2 = (case ofr_Previous registration of
                      None \<Rightarrow> s1
                    | Some previous \<Rightarrow> if Some previous \<noteq> client
                        then do_calls [CallCloseOwnerFile previous] s1 else s1);
              publish = (\<lambda>s. (Inr (), publishSessionByClientID env clientID s))
          in if sv_runtime s2 \<and> sessionUsesOwnerFileAuthority (ofr_Session registration) then
               case InstanceForClient env clientID s2 of
                 (Inl _, s3) \<Rightarrow> publish s3
               | (Inr (a, _), s3) \<Rightarrow>
                   if is_authority_client a clientID s3 then
                     let s4 = do_calls [CallSetAuthoritativeClient
                                (projectKeyForSession (ofr_Session registration)) (the client)] s3
                     in (case answer of Inl e \<Rightarrow> (Inl e, s4) | Inr _ \<Rightarrow> publish s4)
                   else publish s3
             else publish s2)"

text \<open>The part of \<open>watchOwnerFileClient\<close> after the owner file client is done.\<close>

definition watchOwnerFileClient :: "env \<Rightarrow> session option \<Rightarrow> string \<Rightarrow> nat \<Rightarrow> Service \<Rightarrow> Service" where
  "watchOwnerFileClient env clientSession clientID client s =
     (let s1 = HandleOwnerFileDisconnect env clientID client s;
          s2 = (case Registry_Session clientID (sv_sessions s1) of
                  Inl _ \<Rightarrow> s1 | Inr _ \<Rightarrow> publishSessionByClientID env clientID s1)
      in case clientSession of
           None \<Rightarrow> s2
         | Some session \<Rightarrow> if se_SessionID session = [] then s2
             else publishProjectSessions env (projectKeyForSession session) s2)"

definition BindControlConnection ::
  "env \<Rightarrow> string \<Rightarrow> ConnMeta \<Rightarrow> nat option \<Rightarrow> nat option \<Rightarrow> Service \<Rightarrow> unit res \<times> Service" where
  "BindControlConnection env clientID meta counters closer s =
     (case BindControl (en_wall env) clientID meta counters closer (sv_sessions s) of
        (Inl e, r) \<Rightarrow> (Inl e, s\<lparr>sv_sessions := r\<rparr>)
      | (Inr _, r) \<Rightarrow> (Inr (), publishSessionByClientID env clientID (s\<lparr>sv_sessions := r\<rparr>)))"

definition AttachSessionChannel ::
  "env \<Rightarrow> string \<Rightarrow> ConnMeta \<Rightarrow> nat option \<Rightarrow> nat option \<Rightarrow> Service \<Rightarrow> string res \<times> Service" where
  "AttachSessionChannel env clientID meta counters closer s =
     (case AttachChannel (en_wall env) clientID meta counters closer (sv_sessions s) of
        (Inl e, r) \<Rightarrow> (Inl e, s\<lparr>sv_sessions := r\<rparr>)
      | (Inr channelID, r) \<Rightarrow>
          (Inr channelID, publishSessionByClientID env clientID (s\<lparr>sv_sessions := r\<rparr>)))"

definition DetachSessionChannel :: "env \<Rightarrow> string \<Rightarrow> string \<Rightarrow> Service \<Rightarrow> Service" where
  "DetachSessionChannel env clientID channelID s =
     publishSessionByClientID env clientID
       (s\<lparr>sv_sessions := DetachChannel (en_wall env) clientID channelID (sv_sessions s)\<rparr>)"

definition NoteSessionActivity :: "env \<Rightarrow> string \<Rightarrow> Service \<Rightarrow> Service" where
  "NoteSessionActivity env clientID s =
     publishSessionByClientID env clientID
       (s\<lparr>sv_sessions := MarkActivity (en_wall env) clientID (sv_sessions s)\<rparr>)"

definition Service_TerminateSession ::
  "env \<Rightarrow> string \<Rightarrow> string \<Rightarrow> Service \<Rightarrow> nat list res \<times> Service" where
  "Service_TerminateSession env sessionID reason s =
     (case Registry_TerminateSession (en_traffic env) sessionID reason (sv_sessions s) of
        (answer, r) \<Rightarrow> (answer, s\<lparr>sv_sessions := r\<rparr>))"

section \<open>Projects\<close>

definition Service_EnsureProject :: "env \<Rightarrow> string \<Rightarrow> Service \<Rightarrow> ProjectSnapshot res \<times> Service" where
  "Service_EnsureProject env clientID s =
     attempt (Registry_Session clientID (sv_sessions s), s) (\<lambda>clientSession s.
     attempt (Coordinator_EnsureProject env clientID (se_ProjectID clientSession) s) (\<lambda>snapshot s.
       (Inr snapshot, publishProjectSessions env (projectKeyForSession clientSession) s)))"

definition EnsureProjectRequest ::
  "env \<Rightarrow> string \<Rightarrow> string \<Rightarrow> Service \<Rightarrow> ProjectSnapshot res \<times> Service" where
  "EnsureProjectRequest env clientID projectID s =
     (if projectID = [] then (Inl (NewError ErrInvalidArgument ''project id is required''), s)
      else attempt (Coordinator_EnsureProject env clientID projectID s) (\<lambda>snapshot s.
        (Inr snapshot, publish_project_of env clientID s)))"

definition Service_ConfirmReconcile ::
  "env \<Rightarrow> string \<Rightarrow> string \<Rightarrow> u64 \<Rightarrow> WorkspaceDigest \<Rightarrow> Service \<Rightarrow> ProjectSnapshot res \<times> Service" where
  "Service_ConfirmReconcile env clientID projectID expectedCursor digest s =
     attempt (Coordinator_ConfirmReconcile env clientID projectID expectedCursor digest s) (\<lambda>snapshot s.
       (Inr snapshot, publish_project_of env clientID s))"

definition Service_CompleteInitialSync ::
  "env \<Rightarrow> string \<Rightarrow> u64 \<Rightarrow> Service \<Rightarrow> ProjectSnapshot res \<times> Service" where
  "Service_CompleteInitialSync env clientID syncEpoch s =
     attempt (Coordinator_CompleteInitialSync env clientID syncEpoch s) (\<lambda>snapshot s.
       (Inr snapshot, publish_project_of env clientID s))"

definition WatchProject ::
  "env \<Rightarrow> string \<Rightarrow> string \<Rightarrow> u64 \<Rightarrow> Service \<Rightarrow> ProjectEvent list res \<times> Service" where
  "WatchProject env clientID projectID sinceCursor s =
     attempt (InstanceForClient env clientID s) (\<lambda>(a, clientSession) s.
       if projectID \<noteq> se_ProjectID clientSession then (Inl err_project_mismatch, s)
       else (read_instance a (ProjectEventsSince sinceCursor) s, s))"

definition Service_SubscribeProjectEvents ::
  "env \<Rightarrow> string \<Rightarrow> string \<Rightarrow> u64 \<Rightarrow> Service \<Rightarrow> (ProjectEvent list \<times> u64) res \<times> Service" where
  "Service_SubscribeProjectEvents env clientID projectID sinceCursor s =
     attempt (InstanceForClient env clientID s) (\<lambda>(a, clientSession) s.
       if projectID \<noteq> se_ProjectID clientSession then (Inl err_project_mismatch, s)
       else on_res a (SubscribeProjectEvents sinceCursor) s)"

definition Service_TerminateProject :: "env \<Rightarrow> ProjectKey \<Rightarrow> string \<Rightarrow> Service \<Rightarrow> Service" where
  "Service_TerminateProject env key reason s =
     publishProjectSessions env key (Coordinator_TerminateProject env key reason s)"

section \<open>Commands\<close>

definition ensureCommandControlAllowed :: "string \<Rightarrow> Instance \<Rightarrow> unit res" where
  "ensureCommandControlAllowed clientID i =
     (case SyncState clientID i of
        Inl e \<Rightarrow> Inl e
      | Inr (state, _) \<Rightarrow>
          if state = ProjectStateTerminating \<or> state = ProjectStateTerminated
          then Inl err_terminated else Inr ())"

definition runningCommand :: "string \<Rightarrow> Instance \<Rightarrow> CommandSnapshot res" where
  "runningCommand commandID i =
     (case Command commandID i of
        Inl e \<Rightarrow> Inl e
      | Inr command \<Rightarrow>
          if cmd_State command \<noteq> CommandStateRunning
          then Inl (NewError ErrUnknownCommand ''command is not running'') else Inr command)"

definition isTerminalCommandState :: "CommandState \<Rightarrow> bool" where
  "isTerminalCommandState state \<longleftrightarrow> state = CommandStateExited \<or> state = CommandStateFailed"

definition isStaleInputError :: "err \<Rightarrow> bool" where
  "isStaleInputError e \<longleftrightarrow> map_option fst (AsError e) = Some ErrUnknownCommand"

definition Service_StartCommand ::
  "env \<Rightarrow> string \<Rightarrow> string \<Rightarrow> string list \<Rightarrow> TTYSpec \<Rightarrow> bool \<Rightarrow> Service \<Rightarrow> string res \<times> Service" where
  "Service_StartCommand env clientID projectID argvTail tty tmuxStatus s =
     attempt (InstanceForClient env clientID s) (\<lambda>(a, clientSession) s.
       if projectID \<noteq> se_ProjectID clientSession then (Inl err_project_mismatch, s)
       else
         attempt (on_res a (StartCommand (en_wall env) clientID argvTail tty tmuxStatus (en_now env)) s)
           (\<lambda>command s.
             case Commands_Start (projectKeyForSession clientSession) command (sv_commands s) of
               (Inl e, calls, c) \<Rightarrow> (Inl e, do_calls calls (s\<lparr>sv_commands := c\<rparr>))
             | (Inr _, calls, c) \<Rightarrow>
                 (Inr (cmd_CommandID command),
                  publishProjectSessions env (projectKeyForSession clientSession)
                    (do_calls calls (s\<lparr>sv_commands := c\<rparr>)))))"

text \<open>The instance of the caller, after the check that commands may be controlled.\<close>

definition controlled_instance :: "env \<Rightarrow> string \<Rightarrow> Service \<Rightarrow> nat res \<times> Service" where
  "controlled_instance env clientID s =
     attempt (InstanceForClient env clientID s) (\<lambda>(a, _) s.
     attempt (read_instance a (ensureCommandControlAllowed clientID) s, s) (\<lambda>_ s. (Inr a, s)))"

record AttachStdioResponse =
  as_Stdout :: string
  as_Stderr :: string
  as_StdoutOffset :: int
  as_StderrOffset :: int
  as_Complete :: bool

definition AttachStdio ::
  "env \<Rightarrow> AttachStdioResponse res \<Rightarrow> string \<Rightarrow> string \<Rightarrow> Service \<Rightarrow> AttachStdioResponse res \<times> Service" where
  "AttachStdio env answer clientID commandID s =
     attempt (controlled_instance env clientID s) (\<lambda>a s.
     attempt (read_instance a (Command commandID) s, s) (\<lambda>command s.
       case Commands_ReadOutput answer commandID (sv_commands s) of
         (Inl e, calls) \<Rightarrow> (Inl e, do_calls calls s)
       | (Inr output, calls) \<Rightarrow>
           (Inr (if \<not> as_Complete output \<and> isTerminalCommandState (cmd_State command)
                 then output\<lparr>as_Complete := True\<rparr> else output), do_calls calls s)))"

definition WaitCommandOutput ::
  "env \<Rightarrow> unit res \<Rightarrow> string \<Rightarrow> string \<Rightarrow> Service \<Rightarrow> unit res \<times> Service" where
  "WaitCommandOutput env answer clientID commandID s =
     attempt (controlled_instance env clientID s) (\<lambda>a s.
     attempt (read_instance a (Command commandID) s, s) (\<lambda>command s.
       if isTerminalCommandState (cmd_State command) then (Inr (), s)
       else case Commands_WaitOutput answer commandID (sv_commands s) of
         (r, calls) \<Rightarrow> (r, do_calls calls s)))"

definition ensureStdioControlAllowed :: "env \<Rightarrow> string \<Rightarrow> string \<Rightarrow> Service \<Rightarrow> unit res \<times> Service" where
  "ensureStdioControlAllowed env clientID commandID s =
     attempt (controlled_instance env clientID s) (\<lambda>a s.
     attempt (read_instance a (runningCommand commandID) s, s) (\<lambda>_ s. (Inr (), s)))"

definition with_commands ::
  "Service \<Rightarrow> unit res \<times> runtime_call list \<times> CommandController \<Rightarrow> unit res \<times> Service" where
  "with_commands s r = (case r of (answer, calls, c) \<Rightarrow> (answer, do_calls calls (s\<lparr>sv_commands := c\<rparr>)))"

definition Service_OpenStdio :: "env \<Rightarrow> string \<Rightarrow> string \<Rightarrow> Service \<Rightarrow> unit res \<times> Service" where
  "Service_OpenStdio env clientID commandID s =
     attempt (ensureStdioControlAllowed env clientID commandID s) (\<lambda>_ s.
       case Commands_OpenStdio (en_now env) commandID (sv_commands s) of
         (answer, c) \<Rightarrow> (answer, s\<lparr>sv_commands := c\<rparr>))"

definition Service_DetachStdio :: "env \<Rightarrow> string \<Rightarrow> string \<Rightarrow> Service \<Rightarrow> unit res \<times> Service" where
  "Service_DetachStdio env clientID commandID s =
     attempt (ensureStdioControlAllowed env clientID commandID s) (\<lambda>_ s.
       case Commands_DetachStdio (en_now env) commandID (sv_commands s) of
         (answer, c) \<Rightarrow> (answer, s\<lparr>sv_commands := c\<rparr>))"

definition WatchCommand ::
  "env \<Rightarrow> string \<Rightarrow> string \<Rightarrow> u64 \<Rightarrow> Service \<Rightarrow> CommandEvent list res \<times> Service" where
  "WatchCommand env clientID commandID sinceCursor s =
     attempt (controlled_instance env clientID s) (\<lambda>a s.
     attempt (read_instance a (Command commandID) s, s) (\<lambda>_ s.
       case Commands_Watch commandID sinceCursor (sv_commands s) of
         (answer, c) \<Rightarrow> (answer, s\<lparr>sv_commands := c\<rparr>)))"

definition SubscribeCommandEvents ::
  "env \<Rightarrow> string \<Rightarrow> string \<Rightarrow> u64 \<Rightarrow> Service \<Rightarrow> (CommandEvent list \<times> u64) res \<times> Service" where
  "SubscribeCommandEvents env clientID commandID sinceCursor s =
     attempt (controlled_instance env clientID s) (\<lambda>a s.
     attempt (read_instance a (Command commandID) s, s) (\<lambda>_ s.
       case Commands_Subscribe commandID sinceCursor (sv_commands s) of
         (answer, c) \<Rightarrow> (answer, s\<lparr>sv_commands := c\<rparr>)))"

definition Service_ResizeTTY ::
  "env \<Rightarrow> unit res \<Rightarrow> string \<Rightarrow> string \<Rightarrow> int \<Rightarrow> int \<Rightarrow> Service \<Rightarrow> unit res \<times> Service" where
  "Service_ResizeTTY env answer clientID commandID columns rows s =
     attempt (ensureStdioControlAllowed env clientID commandID s) (\<lambda>_ s.
       with_commands s (Commands_ResizeTTY answer (en_now env) commandID columns rows (sv_commands s)))"

definition Service_SendSignal ::
  "env \<Rightarrow> unit res \<Rightarrow> string \<Rightarrow> string \<Rightarrow> string \<Rightarrow> Service \<Rightarrow> unit res \<times> Service" where
  "Service_SendSignal env answer clientID commandID name s =
     attempt (ensureStdioControlAllowed env clientID commandID s) (\<lambda>_ s.
       with_commands s (Commands_SendSignal answer (en_now env) commandID name (sv_commands s)))"

definition ignore_stale :: "unit res \<times> Service \<Rightarrow> unit res \<times> Service" where
  "ignore_stale r =
     (case r of (Inl e, s) \<Rightarrow> if isStaleInputError e then (Inr (), s) else (Inl e, s) | (Inr _, s) \<Rightarrow> (Inr (), s))"

definition WriteCommandInput ::
  "env \<Rightarrow> unit res \<Rightarrow> string \<Rightarrow> string \<Rightarrow> string \<Rightarrow> Service \<Rightarrow> unit res \<times> Service" where
  "WriteCommandInput env answer clientID commandID data s =
     attempt (controlled_instance env clientID s) (\<lambda>a s.
     attempt (read_instance a (Command commandID) s, s) (\<lambda>_ s.
       ignore_stale (case Commands_WriteInput answer commandID data (sv_commands s) of
         (r, calls) \<Rightarrow> (r, do_calls calls s))))"

definition CloseCommandInput ::
  "env \<Rightarrow> unit res \<Rightarrow> string \<Rightarrow> string \<Rightarrow> Service \<Rightarrow> unit res \<times> Service" where
  "CloseCommandInput env answer clientID commandID s =
     attempt (controlled_instance env clientID s) (\<lambda>a s.
     attempt (read_instance a (Command commandID) s, s) (\<lambda>_ s.
       ignore_stale (with_commands s
         (Commands_CloseInput answer (en_now env) commandID (sv_commands s)))))"

definition recordCommandTerminalEvents ::
  "env \<Rightarrow> CommandSnapshot \<Rightarrow> Service \<Rightarrow> unit res \<times> Service" where
  "recordCommandTerminalEvents env command s =
     (let timestamp = valueOrNow (cmd_ExitedAt command) (en_now env);
          commandID = cmd_CommandID command;
          batch = (\<lambda>events. case recordBatch commandID events (sv_commands s) of
                     (answer, c) \<Rightarrow> (answer, s\<lparr>sv_commands := c\<rparr>))
      in case cmd_State command of
           CommandStateExited \<Rightarrow>
             batch [(command_event commandID CommandEventExited timestamp ''command exited'')\<lparr>
                      cev_ExitCode := cmd_ExitCode command\<rparr>,
                    command_event commandID CommandEventIOClosed timestamp ''command exited'']
         | CommandStateFailed \<Rightarrow>
             batch [command_event commandID CommandEventExecFailed timestamp (cmd_FailureReason command),
                    command_event commandID CommandEventIOClosed timestamp ''exec failed'']
         | CommandStateRunning \<Rightarrow> (Inr (), s))"

definition CompleteCommand :: "env \<Rightarrow> ProjectKey \<Rightarrow> string \<Rightarrow> int \<Rightarrow> Service \<Rightarrow> unit res \<times> Service" where
  "CompleteCommand env projectKey commandID exitCode s =
     attempt (InstanceForKey projectKey s, s) (\<lambda>a s.
     attempt (on_res a (FinishCommand (en_wall env) commandID exitCode (en_now env)) s) (\<lambda>command s.
     attempt (recordCommandTerminalEvents env command s) (\<lambda>_ s.
       (Inr (), publishProjectSessions env projectKey s))))"

definition Service_FailCommand :: "env \<Rightarrow> ProjectKey \<Rightarrow> string \<Rightarrow> string \<Rightarrow> Service \<Rightarrow> unit res \<times> Service" where
  "Service_FailCommand env projectKey commandID reason s =
     attempt (InstanceForKey projectKey s, s) (\<lambda>a s.
     attempt (on_res a (FailCommand (en_wall env) commandID reason (en_now env)) s) (\<lambda>command s.
     attempt (recordCommandTerminalEvents env command s) (\<lambda>_ s.
       (Inr (), publishProjectSessions env projectKey s))))"

end
