(* ===== verification/Control_Sync.thy ===== *)
theory Control_Sync
  imports Control_Service
begin

text \<open>
  The handlers of the initial sync, of the shared file system and of invalidations: in
  \<open>internal/control\<close>, \<open>sync_control.go\<close>, \<open>filesystem_control.go\<close>, \<open>invalidate_stream.go\<close> and
  \<open>project_session_usecase.go\<close>.
\<close>

section \<open>Access of the owner\<close>

definition ensureOwnerSyncAccess :: "string \<Rightarrow> u64 \<Rightarrow> Instance \<Rightarrow> unit res" where
  "ensureOwnerSyncAccess clientID expectedEpoch i =
     (case SyncState clientID i of
        Inl e \<Rightarrow> Inl e
      | Inr (state, activeEpoch) \<Rightarrow>
          if state = ProjectStateNeedsConfirmation then
            Inl (NewError ErrNeedsConfirmation ''project is locked pending reconcile confirmation'')
          else if state = ProjectStateTerminating \<or> state = ProjectStateTerminated then Inl err_terminated
          else if expectedEpoch \<noteq> 0 \<and> expectedEpoch \<noteq> activeEpoch then
            Inl (NewError ErrSyncEpochMismatch ''sync epoch does not match the active owner epoch'')
          else case RequireAuthority clientID i of
            None \<Rightarrow> Inr ()
          | Some e \<Rightarrow>
              (case e of
                 ProtoErr code message \<Rightarrow>
                   if code = ErrPermissionDenied
                   then Inl (NewError ErrFollowerSyncDenied ''sync operation requires the active authority session'')
                   else Inl e
               | _ \<Rightarrow> Inl e))"

definition resolveSyncInvocation ::
  "env \<Rightarrow> string \<Rightarrow> u64 \<Rightarrow> Service \<Rightarrow> (nat \<times> ProjectKey) res \<times> Service" where
  "resolveSyncInvocation env clientID expectedEpoch s =
     attempt (InstanceForClient env clientID s) (\<lambda>(a, session) s.
     attempt (read_instance a (ensureOwnerSyncAccess clientID expectedEpoch) s, s) (\<lambda>_ s.
       if \<not> sv_runtime s then (Inl (NewError ErrProjectNotReady ''sync backend is unavailable''), s)
       else (Inr (a, projectKeyForSession session), s)))"

text \<open>
  The part all sync handlers share: resolve the invocation, call the runtime's method \<open>name\<close>, and on
  an error of the runtime fail the initial sync.
\<close>

definition sync_call ::
  "env \<Rightarrow> string \<Rightarrow> 'a res \<Rightarrow> string \<Rightarrow> u64 \<Rightarrow> Service \<Rightarrow> ('a \<times> nat \<times> ProjectKey) res \<times> Service" where
  "sync_call env name answer clientID expectedEpoch s =
     attempt (resolveSyncInvocation env clientID expectedEpoch s) (\<lambda>(a, projectKey) s.
       let s1 = do_calls [CallSync name projectKey] s
       in case answer of
            Inl e \<Rightarrow> (Inl e, FailInitialSync env projectKey a e s1)
          | Inr response \<Rightarrow> (Inr (response, a, projectKey), s1))"

abbreviation one_of_one :: "string \<Rightarrow> SyncProgress" where
  "one_of_one phase \<equiv> \<lparr>prog_Phase = phase, prog_Completed = 1, prog_Total = 1, prog_Percent = None\<rparr>"

definition report_progress ::
  "env \<Rightarrow> nat \<Rightarrow> string \<Rightarrow> SyncProgress \<Rightarrow> u64 \<Rightarrow> Service \<Rightarrow> unit res \<times> Service" where
  "report_progress env a clientID progress syncEpoch s =
     on_res a (ReportSyncProgress (en_wall env) clientID progress syncEpoch (en_now env)) s"

section \<open>Sync handlers\<close>

definition BeginSync :: "env \<Rightarrow> unit res \<Rightarrow> string \<Rightarrow> u64 \<Rightarrow> Service \<Rightarrow> unit res \<times> Service" where
  "BeginSync env answer clientID syncEpoch s =
     attempt (sync_call env ''BeginSync'' answer clientID syncEpoch s) (\<lambda>(_, a, _) s.
       report_progress env a clientID (one_of_one SyncProgressPhaseBegin) syncEpoch s)"

definition StartSyncSession :: "env \<Rightarrow> 'a res \<Rightarrow> string \<Rightarrow> u64 \<Rightarrow> Service \<Rightarrow> 'a res \<times> Service" where
  "StartSyncSession env answer clientID syncEpoch s =
     attempt (sync_call env ''StartSyncSession'' answer clientID syncEpoch s) (\<lambda>(response, a, _) s.
     attempt (report_progress env a clientID (one_of_one SyncProgressPhaseBegin) syncEpoch s)
       (\<lambda>_ s. (Inr response, s)))"

definition ScanManifest :: "env \<Rightarrow> unit res \<Rightarrow> string \<Rightarrow> Service \<Rightarrow> unit res \<times> Service" where
  "ScanManifest env answer clientID s =
     attempt (sync_call env ''ScanManifest'' answer clientID 0 s) (\<lambda>_ s. (Inr (), s))"

definition SyncManifestBatch :: "env \<Rightarrow> unit res \<Rightarrow> string \<Rightarrow> Service \<Rightarrow> unit res \<times> Service" where
  "SyncManifestBatch env answer clientID s =
     attempt (sync_call env ''SyncManifestBatch'' answer clientID 0 s) (\<lambda>_ s. (Inr (), s))"

definition PlanManifestHashes :: "env \<Rightarrow> 'a res \<Rightarrow> string \<Rightarrow> Service \<Rightarrow> 'a res \<times> Service" where
  "PlanManifestHashes env answer clientID s =
     attempt (sync_call env ''PlanManifestHashes'' answer clientID 0 s) (\<lambda>(response, _) s. (Inr response, s))"

definition PlanSyncActions :: "env \<Rightarrow> 'a res \<Rightarrow> string \<Rightarrow> Service \<Rightarrow> 'a res \<times> Service" where
  "PlanSyncActions env answer clientID s =
     attempt (sync_call env ''PlanSyncActions'' answer clientID 0 s) (\<lambda>(response, _) s. (Inr response, s))"

definition PlanSyncV2 :: "env \<Rightarrow> 'a res \<Rightarrow> string \<Rightarrow> Service \<Rightarrow> 'a res \<times> Service" where
  "PlanSyncV2 env answer clientID s =
     attempt (sync_call env ''PlanSyncV2'' answer clientID 0 s) (\<lambda>(response, _) s. (Inr response, s))"

text \<open>The runtime answers a file id; the tracker remembers the path of the upload.\<close>

definition BeginFile ::
  "env \<Rightarrow> string res \<Rightarrow> string \<Rightarrow> u64 \<Rightarrow> string \<Rightarrow> Service \<Rightarrow> string res \<times> Service" where
  "BeginFile env answer clientID syncEpoch path s =
     attempt (sync_call env ''BeginFile'' answer clientID syncEpoch s) (\<lambda>(fileID, _, projectKey) s.
       (Inr fileID, s\<lparr>sv_uploads := Upload_Begin projectKey fileID path (sv_uploads s)\<rparr>))"

definition ApplyChunk :: "env \<Rightarrow> unit res \<Rightarrow> string \<Rightarrow> Service \<Rightarrow> unit res \<times> Service" where
  "ApplyChunk env answer clientID s =
     attempt (sync_call env ''ApplyChunk'' answer clientID 0 s) (\<lambda>_ s. (Inr (), s))"

definition append_invalidates ::
  "env \<Rightarrow> ProjectKey \<Rightarrow> InvalidateChange list \<Rightarrow> Service \<Rightarrow> unit res \<times> Service" where
  "append_invalidates env projectKey changes s =
     (case Hub_Append (en_now env) projectKey changes (sv_invalidates s) of
        (answer, h) \<Rightarrow> (answer, s\<lparr>sv_invalidates := h\<rparr>))"

definition CommitFile :: "env \<Rightarrow> unit res \<Rightarrow> string \<Rightarrow> string \<Rightarrow> Service \<Rightarrow> unit res \<times> Service" where
  "CommitFile env answer clientID fileID s =
     attempt (sync_call env ''CommitFile'' answer clientID 0 s) (\<lambda>(_, _, projectKey) s.
       let (path, uploads) = Upload_Commit projectKey fileID (sv_uploads s);
           s1 = s\<lparr>sv_uploads := uploads\<rparr>
       in if path \<noteq> [] then append_invalidates env projectKey (DataPath path) s1 else (Inr (), s1))"

text \<open>
  \<open>AbortFile\<close> forgets the upload whatever happens; when the invocation is not resolved, under the zero
  project key.
\<close>

definition AbortFile :: "env \<Rightarrow> unit res \<Rightarrow> string \<Rightarrow> string \<Rightarrow> Service \<Rightarrow> unit res \<times> Service" where
  "AbortFile env answer clientID fileID s =
     (case resolveSyncInvocation env clientID 0 s of
        (Inl e, s1) \<Rightarrow>
          (Inl e, s1\<lparr>sv_uploads := Upload_Abort \<lparr>key_Username = [], key_ProjectID = []\<rparr> fileID (sv_uploads s1)\<rparr>)
      | (Inr (_, projectKey), s1) \<Rightarrow>
          (answer, (do_calls [CallSync ''AbortFile'' projectKey] s1)\<lparr>
             sv_uploads := Upload_Abort projectKey fileID (sv_uploads s1)\<rparr>))"

definition Service_DeletePath ::
  "env \<Rightarrow> unit res \<Rightarrow> string \<Rightarrow> u64 \<Rightarrow> string \<Rightarrow> Service \<Rightarrow> unit res \<times> Service" where
  "Service_DeletePath env answer clientID syncEpoch path s =
     attempt (sync_call env ''DeletePath'' answer clientID syncEpoch s) (\<lambda>(_, _, projectKey) s.
       append_invalidates env projectKey (DeletePath path) s)"

definition DeletePathsBatch ::
  "env \<Rightarrow> unit res \<Rightarrow> string \<Rightarrow> u64 \<Rightarrow> string list \<Rightarrow> Service \<Rightarrow> unit res \<times> Service" where
  "DeletePathsBatch env answer clientID syncEpoch paths s =
     attempt (sync_call env ''DeletePathsBatch'' answer clientID syncEpoch s) (\<lambda>(_, _, projectKey) s.
       append_invalidates env projectKey
         (foldl (\<lambda>changes path. AppendChanges changes (DeletePath path)) [] paths) s)"

definition UploadBundleBegin :: "env \<Rightarrow> 'a res \<Rightarrow> string \<Rightarrow> u64 \<Rightarrow> Service \<Rightarrow> 'a res \<times> Service" where
  "UploadBundleBegin env answer clientID syncEpoch s =
     attempt (sync_call env ''UploadBundleBegin'' answer clientID syncEpoch s)
       (\<lambda>(response, _) s. (Inr response, s))"

definition UploadBundleCommit ::
  "env \<Rightarrow> unit res \<Rightarrow> string \<Rightarrow> string list \<Rightarrow> Service \<Rightarrow> unit res \<times> Service" where
  "UploadBundleCommit env answer clientID paths s =
     attempt (sync_call env ''UploadBundleCommit'' answer clientID 0 s) (\<lambda>(_, _, projectKey) s.
       append_invalidates env projectKey
         (foldl (\<lambda>changes path. AppendChanges changes (DataPath path)) [] paths) s)"

text \<open>\<open>FinalizeSync\<close> and \<open>FinalizeSyncV2\<close> differ in the runtime's method only.\<close>

definition finalize_sync ::
  "env \<Rightarrow> string \<Rightarrow> unit res \<Rightarrow> string \<Rightarrow> u64 \<Rightarrow> Service \<Rightarrow> ProjectSnapshot res \<times> Service" where
  "finalize_sync env name answer clientID syncEpoch s =
     attempt (sync_call env name answer clientID syncEpoch s) (\<lambda>(_, a, projectKey) s.
     attempt (report_progress env a clientID (one_of_one SyncProgressPhaseFinalize) syncEpoch s) (\<lambda>_ s.
     attempt (on_res a (CompleteInitialSync (en_wall env) clientID syncEpoch (en_now env)) s)
       (\<lambda>snapshot s. (Inr snapshot, publishProjectSessions env projectKey s))))"

definition FinalizeSync ::
  "env \<Rightarrow> unit res \<Rightarrow> string \<Rightarrow> u64 \<Rightarrow> Service \<Rightarrow> ProjectSnapshot res \<times> Service" where
  "FinalizeSync env answer clientID syncEpoch s = finalize_sync env ''FinalizeSync'' answer clientID syncEpoch s"

definition FinalizeSyncV2 ::
  "env \<Rightarrow> unit res \<Rightarrow> string \<Rightarrow> u64 \<Rightarrow> Service \<Rightarrow> ProjectSnapshot res \<times> Service" where
  "FinalizeSyncV2 env answer clientID syncEpoch s =
     finalize_sync env ''FinalizeSyncV2'' answer clientID syncEpoch s"

definition Service_ReportSyncProgress ::
  "env \<Rightarrow> string \<Rightarrow> SyncProgress \<Rightarrow> u64 \<Rightarrow> Service \<Rightarrow> unit res \<times> Service" where
  "Service_ReportSyncProgress env clientID progress syncEpoch s =
     attempt (InstanceForClient env clientID s) (\<lambda>(a, _) s.
     attempt (read_instance a (ensureOwnerSyncAccess clientID syncEpoch) s, s) (\<lambda>_ s.
     attempt (report_progress env a clientID progress syncEpoch s) (\<lambda>_ s.
       (Inr (), publish_project_of env clientID s))))"

section \<open>The shared file system\<close>

definition allowsMutationCleanup :: "FsOperation \<Rightarrow> bool" where
  "allowsMutationCleanup op \<longleftrightarrow> op = FsOpRelease"

definition err_read_only :: err where
  "err_read_only = NewError ErrReadOnlyProject ''project is currently read-only''"

definition err_no_filesystem :: err where
  "err_no_filesystem = NewError ErrProjectNotReady ''filesystem backend is unavailable''"

definition FsReadContext :: "env \<Rightarrow> 'a res \<Rightarrow> string \<Rightarrow> Service \<Rightarrow> 'a res \<times> Service" where
  "FsReadContext env answer clientID s =
     attempt (InstanceForClient env clientID s) (\<lambda>(a, session) s.
     attempt (read_instance a (SyncState clientID) s, s) (\<lambda>(state, _) s.
       if state = ProjectStateTerminating \<or> state = ProjectStateTerminated then (Inl err_terminated, s)
       else if \<not> sv_runtime s then (Inl err_no_filesystem, s)
       else (answer, do_calls [CallFsRead (projectKeyForSession session)] s)))"

text \<open>The runtime's reply with the invalidations it carries.\<close>

definition mutate ::
  "env \<Rightarrow> ('a \<times> InvalidateChange list) res \<Rightarrow> ProjectKey \<Rightarrow> Service \<Rightarrow> 'a res \<times> Service" where
  "mutate env answer projectKey s =
     (if \<not> sv_runtime s then (Inl err_no_filesystem, s)
      else
        attempt (answer, do_calls [CallFsMutation projectKey] s) (\<lambda>(reply, invalidations) s.
        attempt (append_invalidates env projectKey invalidations s) (\<lambda>_ s. (Inr reply, s))))"

definition FsMutationContext ::
  "env \<Rightarrow> ('a \<times> InvalidateChange list) res \<Rightarrow> string \<Rightarrow> FsOperation \<Rightarrow> Service \<Rightarrow> 'a res \<times> Service" where
  "FsMutationContext env answer clientID op s =
     attempt (InstanceForClient env clientID s) (\<lambda>(a, session) s.
     attempt (read_instance a (SyncState clientID) s, s) (\<lambda>(state, _) s.
     attempt (read_instance a (ReadOnly clientID) s, s) (\<lambda>readOnly s.
       if readOnly \<and> \<not> allowsMutationCleanup op then
         (Inl (if state = ProjectStateTerminating \<or> state = ProjectStateTerminated
               then err_terminated else err_read_only), s)
       else mutate env answer (projectKeyForSession session) s)))"

definition instance_state :: "Instance \<Rightarrow> ProjectState res" where
  "instance_state i = Inr (CurrentState i)"

definition ProjectFsReadContext :: "'a res \<Rightarrow> ProjectKey \<Rightarrow> Service \<Rightarrow> 'a res \<times> Service" where
  "ProjectFsReadContext answer projectKey s =
     attempt (InstanceForKey projectKey s, s) (\<lambda>a s.
     attempt (read_instance a instance_state s, s) (\<lambda>state s.
       if state = ProjectStateTerminating \<or> state = ProjectStateTerminated then (Inl err_terminated, s)
       else if \<not> sv_runtime s then (Inl err_no_filesystem, s)
       else (answer, do_calls [CallFsRead projectKey] s)))"

definition ProjectFsMutationContext ::
  "env \<Rightarrow> ('a \<times> InvalidateChange list) res \<Rightarrow> ProjectKey \<Rightarrow> FsOperation \<Rightarrow> Service \<Rightarrow> 'a res \<times> Service" where
  "ProjectFsMutationContext env answer projectKey op s =
     attempt (InstanceForKey projectKey s, s) (\<lambda>a s.
     attempt (read_instance a instance_state s, s) (\<lambda>state s.
       if state = ProjectStateNeedsConfirmation \<and> \<not> allowsMutationCleanup op then (Inl err_read_only, s)
       else if (state = ProjectStateTerminating \<or> state = ProjectStateTerminated) \<and>
               \<not> allowsMutationCleanup op then (Inl err_terminated, s)
       else mutate env answer projectKey s))"

section \<open>Invalidations\<close>

definition WatchInvalidate ::
  "env \<Rightarrow> string \<Rightarrow> string \<Rightarrow> u64 \<Rightarrow> Service \<Rightarrow> InvalidateEvent list res \<times> Service" where
  "WatchInvalidate env clientID projectID sinceCursor s =
     attempt (InstanceForClient env clientID s) (\<lambda>(_, clientSession) s.
       if projectID \<noteq> se_ProjectID clientSession then (Inl err_project_mismatch, s)
       else case Hub_Watch (projectKeyForSession clientSession) sinceCursor (sv_invalidates s) of
         (answer, h) \<Rightarrow> (answer, s\<lparr>sv_invalidates := h\<rparr>))"

definition InvalidateContext ::
  "env \<Rightarrow> unit res \<Rightarrow> string \<Rightarrow> InvalidateChange list \<Rightarrow> Service \<Rightarrow> unit res \<times> Service" where
  "InvalidateContext env answer clientID changes s =
     attempt (InstanceForClient env clientID s) (\<lambda>(a, clientSession) s.
     attempt (read_instance a (ensureOwnerSyncAccess clientID 0) s, s) (\<lambda>_ s.
       let projectKey = projectKeyForSession clientSession
       in if sv_runtime s then
            attempt (answer, do_calls [CallApplyOwnerInvalidations projectKey changes] s) (\<lambda>_ s.
              append_invalidates env projectKey changes s)
          else append_invalidates env projectKey changes s))"

definition OwnerWatcherFailedContext ::
  "env \<Rightarrow> InvalidateChange list res \<Rightarrow> string \<Rightarrow> string \<Rightarrow> Service \<Rightarrow> unit res \<times> Service" where
  "OwnerWatcherFailedContext env answer clientID reason s =
     attempt (InstanceForClient env clientID s) (\<lambda>(a, clientSession) s.
     attempt (read_instance a (ensureOwnerSyncAccess clientID 0) s, s) (\<lambda>_ s.
       if \<not> sv_runtime s then (Inr (), s)
       else
         let projectKey = projectKeyForSession clientSession
         in attempt (answer, do_calls [CallEnterConservativeMode projectKey reason] s) (\<lambda>changes s.
              append_invalidates env projectKey changes s)))"

definition SubscribeInvalidateEvents ::
  "env \<Rightarrow> string \<Rightarrow> string \<Rightarrow> u64 \<Rightarrow> Service \<Rightarrow> (InvalidateEvent list \<times> u64) res \<times> Service" where
  "SubscribeInvalidateEvents env clientID projectID sinceCursor s =
     attempt (InstanceForClient env clientID s) (\<lambda>(_, clientSession) s.
       if projectID \<noteq> se_ProjectID clientSession then (Inl err_project_mismatch, s)
       else case Hub_Subscribe (projectKeyForSession clientSession) sinceCursor (sv_invalidates s) of
         (answer, h) \<Rightarrow> (answer, s\<lparr>sv_invalidates := h\<rparr>))"

definition ProjectWatchInvalidate ::
  "ProjectKey \<Rightarrow> u64 \<Rightarrow> Service \<Rightarrow> InvalidateEvent list res \<times> Service" where
  "ProjectWatchInvalidate projectKey sinceCursor s =
     attempt (InstanceForKey projectKey s, s) (\<lambda>_ s.
       case Hub_Watch projectKey sinceCursor (sv_invalidates s) of
         (answer, h) \<Rightarrow> (answer, s\<lparr>sv_invalidates := h\<rparr>))"

definition SubscribeProjectInvalidate ::
  "ProjectKey \<Rightarrow> u64 \<Rightarrow> Service \<Rightarrow> (InvalidateEvent list \<times> u64) res \<times> Service" where
  "SubscribeProjectInvalidate projectKey sinceCursor s =
     attempt (InstanceForKey projectKey s, s) (\<lambda>_ s.
       case Hub_Subscribe projectKey sinceCursor (sv_invalidates s) of
         (answer, h) \<Rightarrow> (answer, s\<lparr>sv_invalidates := h\<rparr>))"

section \<open>Project sessions\<close>

definition OpenProjectSession :: "env \<Rightarrow> string \<Rightarrow> string \<Rightarrow> Service \<Rightarrow> ProjectSnapshot res \<times> Service" where
  "OpenProjectSession env clientID projectID s = EnsureProjectRequest env clientID projectID s"

definition ResumeProjectSession ::
  "env \<Rightarrow> string \<Rightarrow> string \<Rightarrow> u64 \<Rightarrow> WorkspaceDigest \<Rightarrow> Service \<Rightarrow> ProjectSnapshot res \<times> Service" where
  "ResumeProjectSession env clientID projectID expectedCursor digest s =
     Service_ConfirmReconcile env clientID projectID expectedCursor digest s"

text \<open>
  \<open>StartProjectCommandSession\<close> waits for the project between these two parts; other handlers run
  meanwhile. The wait is \<open>Wait\<close> on the snapshot of the first part, its result the argument \<open>waited\<close> of
  the second.
\<close>

definition StartProjectCommandSession_begin ::
  "env \<Rightarrow> string \<Rightarrow> string \<Rightarrow> Service \<Rightarrow> (nat \<times> ProjectSnapshot) res \<times> Service" where
  "StartProjectCommandSession_begin env clientID projectID s =
     attempt (InstanceForClient env clientID s) (\<lambda>(a, session) s.
       if TrimSpace projectID = [] then (Inl (NewError ErrInvalidArgument ''project id is required''), s)
       else if projectID \<noteq> se_ProjectID session then (Inl err_project_mismatch, s)
       else attempt (read_instance a (Snapshot clientID) s, s) (\<lambda>snapshot s. (Inr (a, snapshot), s)))"

definition StartProjectCommandSession_resume ::
  "env \<Rightarrow> nat \<Rightarrow> ProjectSnapshot res \<Rightarrow> string \<Rightarrow> string \<Rightarrow> string list \<Rightarrow> TTYSpec \<Rightarrow> bool \<Rightarrow> Service \<Rightarrow>
   (ProjectSnapshot \<times> string option) res \<times> Service" where
  "StartProjectCommandSession_resume env a waited clientID projectID argvTail tty tmuxStatus s =
     attempt (waited, s) (\<lambda>snapshot s.
       if \<not> snap_CanStartCommands snapshot then (Inr (snapshot, None), s)
       else
         attempt (Service_StartCommand env clientID projectID ([] @ argvTail) tty tmuxStatus s) (\<lambda>started s.
         attempt (read_instance a (Snapshot clientID) s, s) (\<lambda>updatedSnapshot s.
           (Inr (updatedSnapshot, Some started), s))))"

section \<open>The status line of a terminal session\<close>

record TmuxStatusSnapshot =
  ts_ClientID :: string
  ts_ProjectID :: string
  ts_Role :: "Role option"
  ts_CommandID :: string
  ts_CommandState :: CommandState
  ts_ProjectState :: "ProjectState option"
  ts_ControlConnected :: bool
  ts_StdioConnected :: bool
  ts_StdioBytesIn :: u64
  ts_StdioBytesOut :: u64
  ts_LastActivityAt :: go_time
  ts_AttachedCommands :: int

definition sessionHasChannelKind :: "LiveSessionSnapshot \<Rightarrow> ChannelKind \<Rightarrow> bool" where
  "sessionHasChannelKind snapshot kind =
     list_ex (\<lambda>channel. cm_ChannelKind (chs_Meta channel) = kind) (ls_Channels snapshot)"

definition TmuxStatus :: "env \<Rightarrow> string \<Rightarrow> string \<Rightarrow> Service \<Rightarrow> TmuxStatusSnapshot res \<times> Service" where
  "TmuxStatus env clientID commandID s =
     (if TrimSpace clientID = [] then (Inl (NewError ErrInvalidArgument ''client id is required''), s)
      else if TrimSpace commandID = [] then (Inl (NewError ErrInvalidArgument ''command id is required''), s)
      else case ClientSnapshot (en_traffic env) clientID (sv_sessions s) of
        None \<Rightarrow> (Inl (NewError ErrUnknownClient ''client session does not exist''), s)
      | Some raw \<Rightarrow>
          let (snapshot, s1) = enrichSessionSnapshot env raw s
          in attempt (InstanceForClient env clientID s1) (\<lambda>(a, _) s.
             attempt (read_instance a (Command commandID) s, s) (\<lambda>command s.
               (Inr \<lparr>ts_ClientID = clientID, ts_ProjectID = ls_ProjectID snapshot, ts_Role = ls_Role snapshot,
                     ts_CommandID = commandID, ts_CommandState = cmd_State command,
                     ts_ProjectState = ls_ProjectState snapshot,
                     ts_ControlConnected = (ls_Control snapshot \<noteq> None),
                     ts_StdioConnected = sessionHasChannelKind snapshot ChannelKindStdio,
                     ts_StdioBytesIn = ls_StdioBytesIn snapshot, ts_StdioBytesOut = ls_StdioBytesOut snapshot,
                     ts_LastActivityAt = ls_LastActivityAt snapshot,
                     ts_AttachedCommands = ls_AttachedCommandCount snapshot\<rparr>, s))))"

end
