(* ===== verification/Control_Invariant.thy ===== *)
theory Control_Invariant
  imports Control_Sync Session_Properties Project_Properties
begin

text \<open>
  What the handlers of the control service keep.

  A handler changes the service through few primitive changes: a registry operation, a look-up of a
  project, a method of an instance, an attach, a leave, the removal of a project. The locale
  \<open>svc_kept\<close> states what a predicate on services has to keep under these, and shows once that every
  handler keeps it. It is interpreted on the invariant of the service here, and on the finality of
  termination in \<open>Control_Properties\<close>.
\<close>

section \<open>Runs of the service\<close>

text \<open>The instance the coordinator hands out for a project.\<close>

definition current :: "Service \<Rightarrow> string \<Rightarrow> nat option" where
  "current s k =
     Option.bind (map_of (co_instances (sv_projects s)) k)
       (\<lambda>a. Option.bind (map_of (co_entries (sv_projects s)) a) pe_instance)"

abbreviation object_at :: "Service \<Rightarrow> nat \<Rightarrow> Instance option" where
  "object_at s a \<equiv> map_of (co_objects (sv_projects s)) a"

definition set_object :: "nat \<Rightarrow> Instance \<Rightarrow> Service \<Rightarrow> Service" where
  "set_object a j s = s\<lparr>sv_projects := (sv_projects s)\<lparr>co_objects := AList.update a j (co_objects (sv_projects s))\<rparr>\<rparr>"

text \<open>The handlers of the service, with the runtime's answers among their arguments.\<close>

datatype session_op =
    SvcHello AuthenticatedPrincipal HelloRequest
  | SvcListSessions
  | SvcSessionSnapshot string
  | SvcRetain string
  | SvcRelease string
  | SvcRegisterOwnerFile "unit res" string "nat option"
  | SvcOwnerFileGone "session option" string nat
  | SvcBindControl string ConnMeta "nat option" "nat option"
  | SvcAttachChannel string ConnMeta "nat option" "nat option"
  | SvcDetachChannel string string
  | SvcActivity string
  | SvcTerminateSession string string
  | SvcTmuxStatus string string

fun session_apply :: "env \<Rightarrow> session_op \<Rightarrow> Service \<Rightarrow> Service" where
  "session_apply env (SvcHello p q) s = snd (HelloAuthenticated env p q s)"
| "session_apply env SvcListSessions s = snd (ListSessions env s)"
| "session_apply env (SvcSessionSnapshot t) s = snd (Service_SessionSnapshot env t s)"
| "session_apply env (SvcRetain c) s = snd (Service_RetainClient env c s)"
| "session_apply env (SvcRelease c) s = snd (Service_ReleaseClient env c s)"
| "session_apply env (SvcRegisterOwnerFile r c f) s = snd (Service_RegisterOwnerFileClient env r c f s)"
| "session_apply env (SvcOwnerFileGone z c f) s = watchOwnerFileClient env z c f s"
| "session_apply env (SvcBindControl c m t x) s = snd (BindControlConnection env c m t x s)"
| "session_apply env (SvcAttachChannel c m t x) s = snd (AttachSessionChannel env c m t x s)"
| "session_apply env (SvcDetachChannel c h) s = DetachSessionChannel env c h s"
| "session_apply env (SvcActivity c) s = NoteSessionActivity env c s"
| "session_apply env (SvcTerminateSession t x) s = snd (Service_TerminateSession env t x s)"
| "session_apply env (SvcTmuxStatus c i) s = snd (TmuxStatus env c i s)"

datatype project_op =
    SvcEnsureProject string
  | SvcEnsureProjectRequest string string
  | SvcConfirmReconcile string string u64 WorkspaceDigest
  | SvcCompleteInitialSync string u64
  | SvcWatchProject string string u64
  | SvcSubscribeProject string string u64
  | SvcTerminateProject ProjectKey string
  | SvcCommandSessionBegin string string
  | SvcCommandSessionResume nat "ProjectSnapshot res" string string "string list" TTYSpec bool

fun project_apply :: "env \<Rightarrow> project_op \<Rightarrow> Service \<Rightarrow> Service" where
  "project_apply env (SvcEnsureProject c) s = snd (Service_EnsureProject env c s)"
| "project_apply env (SvcEnsureProjectRequest c p) s = snd (EnsureProjectRequest env c p s)"
| "project_apply env (SvcConfirmReconcile c p x d) s = snd (Service_ConfirmReconcile env c p x d s)"
| "project_apply env (SvcCompleteInitialSync c e) s = snd (Service_CompleteInitialSync env c e s)"
| "project_apply env (SvcWatchProject c p x) s = snd (WatchProject env c p x s)"
| "project_apply env (SvcSubscribeProject c p x) s = snd (Service_SubscribeProjectEvents env c p x s)"
| "project_apply env (SvcTerminateProject k x) s = Service_TerminateProject env k x s"
| "project_apply env (SvcCommandSessionBegin c p) s = snd (StartProjectCommandSession_begin env c p s)"
| "project_apply env (SvcCommandSessionResume a w c p v t m) s =
     snd (StartProjectCommandSession_resume env a w c p v t m s)"

datatype command_op =
    SvcStartCommand string string "string list" TTYSpec bool
  | SvcAttachStdio "AttachStdioResponse res" string string
  | SvcWaitOutput "unit res" string string
  | SvcOpenStdio string string
  | SvcDetachStdio string string
  | SvcWatchCommand string string u64
  | SvcSubscribeCommand string string u64
  | SvcResizeTTY "unit res" string string int int
  | SvcSendSignal "unit res" string string string
  | SvcWriteInput "unit res" string string string
  | SvcCloseInput "unit res" string string
  | SvcCompleteCommand ProjectKey string int
  | SvcFailCommand ProjectKey string string

fun command_apply :: "env \<Rightarrow> command_op \<Rightarrow> Service \<Rightarrow> Service" where
  "command_apply env (SvcStartCommand c p a t m) s = snd (Service_StartCommand env c p a t m s)"
| "command_apply env (SvcAttachStdio r c i) s = snd (AttachStdio env r c i s)"
| "command_apply env (SvcWaitOutput r c i) s = snd (WaitCommandOutput env r c i s)"
| "command_apply env (SvcOpenStdio c i) s = snd (Service_OpenStdio env c i s)"
| "command_apply env (SvcDetachStdio c i) s = snd (Service_DetachStdio env c i s)"
| "command_apply env (SvcWatchCommand c i x) s = snd (WatchCommand env c i x s)"
| "command_apply env (SvcSubscribeCommand c i x) s = snd (SubscribeCommandEvents env c i x s)"
| "command_apply env (SvcResizeTTY r c i w h) s = snd (Service_ResizeTTY env r c i w h s)"
| "command_apply env (SvcSendSignal r c i n) s = snd (Service_SendSignal env r c i n s)"
| "command_apply env (SvcWriteInput r c i d) s = snd (WriteCommandInput env r c i d s)"
| "command_apply env (SvcCloseInput r c i) s = snd (CloseCommandInput env r c i s)"
| "command_apply env (SvcCompleteCommand k i x) s = snd (CompleteCommand env k i x s)"
| "command_apply env (SvcFailCommand k i x) s = snd (Service_FailCommand env k i x s)"

datatype sync_op =
    SvcBeginSync "unit res" string u64
  | SvcStartSyncSession "string res" string u64
  | SvcScanManifest "unit res" string
  | SvcManifestBatch "unit res" string
  | SvcPlanHashes "string res" string
  | SvcPlanActions "string res" string
  | SvcPlanV2 "string res" string
  | SvcReportProgress string SyncProgress u64
  | SvcFinalize "unit res" string u64
  | SvcFinalizeV2 "unit res" string u64

fun sync_apply :: "env \<Rightarrow> sync_op \<Rightarrow> Service \<Rightarrow> Service" where
  "sync_apply env (SvcBeginSync r c e) s = snd (BeginSync env r c e s)"
| "sync_apply env (SvcStartSyncSession r c e) s = snd (StartSyncSession env r c e s)"
| "sync_apply env (SvcScanManifest r c) s = snd (ScanManifest env r c s)"
| "sync_apply env (SvcManifestBatch r c) s = snd (SyncManifestBatch env r c s)"
| "sync_apply env (SvcPlanHashes r c) s = snd (PlanManifestHashes env r c s)"
| "sync_apply env (SvcPlanActions r c) s = snd (PlanSyncActions env r c s)"
| "sync_apply env (SvcPlanV2 r c) s = snd (PlanSyncV2 env r c s)"
| "sync_apply env (SvcReportProgress c p e) s = snd (Service_ReportSyncProgress env c p e s)"
| "sync_apply env (SvcFinalize r c e) s = snd (FinalizeSync env r c e s)"
| "sync_apply env (SvcFinalizeV2 r c e) s = snd (FinalizeSyncV2 env r c e s)"

datatype upload_op =
    SvcBeginFile "string res" string u64 string
  | SvcApplyChunk "unit res" string
  | SvcCommitFile "unit res" string string
  | SvcAbortFile "unit res" string string
  | SvcDeletePath "unit res" string u64 string
  | SvcDeletePaths "unit res" string u64 "string list"
  | SvcBundleBegin "string res" string u64
  | SvcBundleCommit "unit res" string "string list"

fun upload_apply :: "env \<Rightarrow> upload_op \<Rightarrow> Service \<Rightarrow> Service" where
  "upload_apply env (SvcBeginFile r c e p) s = snd (BeginFile env r c e p s)"
| "upload_apply env (SvcApplyChunk r c) s = snd (ApplyChunk env r c s)"
| "upload_apply env (SvcCommitFile r c f) s = snd (CommitFile env r c f s)"
| "upload_apply env (SvcAbortFile r c f) s = snd (AbortFile env r c f s)"
| "upload_apply env (SvcDeletePath r c e p) s = snd (Service_DeletePath env r c e p s)"
| "upload_apply env (SvcDeletePaths r c e ps) s = snd (DeletePathsBatch env r c e ps s)"
| "upload_apply env (SvcBundleBegin r c e) s = snd (UploadBundleBegin env r c e s)"
| "upload_apply env (SvcBundleCommit r c ps) s = snd (UploadBundleCommit env r c ps s)"

datatype file_op =
    SvcFsRead "string res" string
  | SvcFsMutation "(string \<times> InvalidateChange list) res" string FsOperation
  | SvcProjectFsRead "string res" ProjectKey
  | SvcProjectFsMutation "(string \<times> InvalidateChange list) res" ProjectKey FsOperation
  | SvcWatchInvalidate string string u64
  | SvcInvalidate "unit res" string "InvalidateChange list"
  | SvcWatcherFailed "InvalidateChange list res" string string
  | SvcSubscribeInvalidate string string u64
  | SvcProjectWatchInvalidate ProjectKey u64
  | SvcProjectSubscribeInvalidate ProjectKey u64

fun file_apply :: "env \<Rightarrow> file_op \<Rightarrow> Service \<Rightarrow> Service" where
  "file_apply env (SvcFsRead r c) s = snd (FsReadContext env r c s)"
| "file_apply env (SvcFsMutation r c op) s = snd (FsMutationContext env r c op s)"
| "file_apply env (SvcProjectFsRead r k) s = snd (ProjectFsReadContext r k s)"
| "file_apply env (SvcProjectFsMutation r k op) s = snd (ProjectFsMutationContext env r k op s)"
| "file_apply env (SvcWatchInvalidate c p x) s = snd (WatchInvalidate env c p x s)"
| "file_apply env (SvcInvalidate r c ch) s = snd (InvalidateContext env r c ch s)"
| "file_apply env (SvcWatcherFailed r c x) s = snd (OwnerWatcherFailedContext env r c x s)"
| "file_apply env (SvcSubscribeInvalidate c p x) s = snd (SubscribeInvalidateEvents env c p x s)"
| "file_apply env (SvcProjectWatchInvalidate k x) s = snd (ProjectWatchInvalidate k x s)"
| "file_apply env (SvcProjectSubscribeInvalidate k x) s = snd (SubscribeProjectInvalidate k x s)"

datatype svc_op =
    Svc_session session_op
  | Svc_project project_op
  | Svc_command command_op
  | Svc_sync sync_op
  | Svc_upload upload_op
  | Svc_file file_op

fun svc_apply :: "env \<Rightarrow> svc_op \<Rightarrow> Service \<Rightarrow> Service" where
  "svc_apply env (Svc_session op) s = session_apply env op s"
| "svc_apply env (Svc_project op) s = project_apply env op s"
| "svc_apply env (Svc_command op) s = command_apply env op s"
| "svc_apply env (Svc_sync op) s = sync_apply env op s"
| "svc_apply env (Svc_upload op) s = upload_apply env op s"
| "svc_apply env (Svc_file op) s = file_apply env op s"

text \<open>The counters behind the identifiers have not wrapped.\<close>

definition svc_room :: "Service \<Rightarrow> bool" where
  "svc_room s \<longleftrightarrow> reg_room (sv_sessions s) \<and>
     (\<forall>a i. object_at s a = Some i \<longrightarrow> in_nextCommandID i + 1 \<noteq> 0)"

inductive svc_run :: "Service \<Rightarrow> Service \<Rightarrow> bool" for s where
  start: "svc_run s s"
| step: "svc_run s t \<Longrightarrow> svc_room t \<Longrightarrow> svc_run s (svc_apply env op t)"

section \<open>The primitive changes\<close>

text \<open>A registry operation other than a release; a hello needs room.\<close>

fun plain_reg_op :: "reg_op \<Rightarrow> SessionRegistry \<Rightarrow> bool" where
  "plain_reg_op (RegHello p q) r = reg_room r"
| "plain_reg_op (RegRelease c) r = False"
| "plain_reg_op op r = True"

text \<open>A method of an instance other than an attach; starting a command needs room.\<close>

fun plain_inst_op :: "inst_op \<Rightarrow> Instance \<Rightarrow> bool" where
  "plain_inst_op (OpAttach c d r w k) i = False"
| "plain_inst_op (OpStart c a t m) i = (in_nextCommandID i + 1 \<noteq> 0)"
| "plain_inst_op op i = True"

text \<open>The part of \<open>ReleaseClient\<close> that removes the session and its attachment.\<close>

definition leave :: "env \<Rightarrow> string \<Rightarrow> Service \<Rightarrow> Service" where
  "leave env c s =
     (case Registry_ReleaseClient (en_traffic env) (en_wall env) c (sv_sessions s) of
        (Inr (Some release), r) \<Rightarrow>
          (case instanceIfExists (projectKeyForSession (rel_Session release)) (s\<lparr>sv_sessions := r\<rparr>) of
             None \<Rightarrow> s\<lparr>sv_sessions := r\<rparr>
           | Some a \<Rightarrow> snd (on_instance a (RemoveClient (en_wall env) c (en_now env)) no_removal
                              (s\<lparr>sv_sessions := r\<rparr>)))
      | (_, r) \<Rightarrow> s\<lparr>sv_sessions := r\<rparr>)"

definition forget_project :: "string \<Rightarrow> Service \<Rightarrow> Service" where
  "forget_project k s = s\<lparr>sv_projects := (sv_projects s)\<lparr>
     co_instances := AList.delete k (co_instances (sv_projects s))\<rparr>\<rparr>"

definition looked_up :: "(ProjectKey \<Rightarrow> err option) \<Rightarrow> ProjectKey \<Rightarrow> Service \<Rightarrow> Service" where
  "looked_up prepare key s = s\<lparr>sv_projects := snd (snd (instance_loop 2 prepare key (sv_projects s)))\<rparr>"

text \<open>A look-up that answers leaves its answer as the current instance.\<close>

definition answered :: "string \<Rightarrow> nat \<Rightarrow> ProjectCoordinator \<Rightarrow> bool" where
  "answered k a c \<longleftrightarrow> (\<exists>b e. map_of (co_instances c) k = Some b \<and>
     map_of (co_entries c) b = Some e \<and> pe_instance e = Some a)"

lemma lookup_step_answered:
  "lookup_step key c = (LookupFound a, c') \<Longrightarrow> answered (ProjectKey_String key) a c'"
  "lookup_step key c = (LookupWait b, c') \<Longrightarrow> waiter_result b c' = Some (Inr a) \<Longrightarrow>
     answered (ProjectKey_String key) a c'"
  "lookup_step key c = (LookupPrepare b a, c') \<Longrightarrow> answered (ProjectKey_String key) a (bootstrap_done b None c')"
  by (auto simp: lookup_step_def waiter_result_def bootstrap_done_def answered_def Let_def bind_eq_Some_conv
      split: option.splits if_splits sum.splits)

lemma instance_loop_answered:
  assumes "instance_loop n prepare key c = (Inr a, calls, c')"
  shows "answered (ProjectKey_String key) a c'"
  using assms
proof (induction n arbitrary: c)
  case (Suc n)
  obtain step d where step: "lookup_step key c = (step, d)" by fastforce
  show ?case
    using Suc.prems step Suc.IH [of d]
    by (auto simp: Let_def dest: lookup_step_answered split: lookup_result.splits option.splits)
qed simp

lemma instanceForSession_current:
  assumes "instanceForSession env z s = (Inr a, s')"
  shows "current s' (ProjectKey_String (projectKeyForSession z)) = Some a"
proof -
  obtain answer calls c where loop: "instance_loop 2 (en_prepare env) (projectKeyForSession z) (sv_projects s) = (answer, calls, c)"
    by (metis prod_cases3)
  with assms have "answer = Inr a" "sv_projects s' = c" by (auto simp: instanceForSession_def do_calls_def)
  with instance_loop_answered loop show ?thesis by (fastforce simp: current_def answered_def)
qed

lemma instanceForSession_sessions [simp]:
  "sv_sessions (snd (instanceForSession env z s)) = sv_sessions s"
  by (simp add: instanceForSession_def do_calls_def split: prod.splits)

lemma on_instance_sessions [simp]: "sv_sessions (snd (on_instance a f nil s)) = sv_sessions s"
  by (simp add: on_instance_def split: option.splits prod.splits)

locale svc_kept =
  fixes ok :: "Service \<Rightarrow> bool"
  assumes frame: "ok s \<Longrightarrow> sv_sessions t = sv_sessions s \<Longrightarrow> sv_projects t = sv_projects s \<Longrightarrow> ok t"
    and registry: "ok s \<Longrightarrow> plain_reg_op rop (sv_sessions s) \<Longrightarrow>
      ok (s\<lparr>sv_sessions := reg_apply traffic wall rop (sv_sessions s)\<rparr>)"
    and lookup: "ok s \<Longrightarrow> ok (looked_up prepare key s)"
    and instance_step: "ok s \<Longrightarrow> object_at s a = Some i \<Longrightarrow> plain_inst_op op i \<Longrightarrow>
      ok (set_object a (inst_apply wall now op i) s)"
    and attach: "ok s \<Longrightarrow> object_at s a = Some i \<Longrightarrow> Registry_Session c (sv_sessions s) = Inr z \<Longrightarrow>
      current s (ProjectKey_String (projectKeyForSession z)) = Some a \<Longrightarrow>
      ok (set_object a (inst_apply wall now (OpAttach c d r w k) i) s)"
    and left: "ok s \<Longrightarrow> ok (leave env c s)"
    and forget: "ok s \<Longrightarrow> ok (forget_project k s)"
begin

lemma attempt_kept:
  assumes "ok (snd r)" "\<And>x s. r = (Inr x, s) \<Longrightarrow> ok s \<Longrightarrow> ok (snd (k x s))"
  shows "ok (snd (attempt r k))"
  using assms by (cases r) (auto simp: attempt_def split: sum.splits)

lemma let_kept: "ok e \<Longrightarrow> (\<And>t. ok t \<Longrightarrow> ok (f t)) \<Longrightarrow> ok (let t = e in f t)"
  by (simp add: Let_def)

lemma let_snd_kept: "ok (snd e) \<Longrightarrow> (\<And>x t. ok t \<Longrightarrow> ok (f x t)) \<Longrightarrow> ok (let (x, t) = e in f x t)"
  by (simp add: split_def)

lemma if_kept: "(b \<Longrightarrow> ok s) \<Longrightarrow> (\<not> b \<Longrightarrow> ok t) \<Longrightarrow> ok (if b then s else t)"
  by simp

lemma calls_kept: "ok s \<Longrightarrow> ok (do_calls calls s)"
  by (rule frame) (simp_all add: do_calls_def)

lemma commands_kept: "ok s \<Longrightarrow> ok (s\<lparr>sv_commands := c\<rparr>)"
  by (rule frame) simp_all

lemma uploads_kept: "ok s \<Longrightarrow> ok (s\<lparr>sv_uploads := u\<rparr>)"
  by (rule frame) simp_all

lemma hub_kept: "ok s \<Longrightarrow> ok (s\<lparr>sv_invalidates := h\<rparr>)"
  by (rule frame) simp_all

lemma published_kept: "ok s \<Longrightarrow> ok (s\<lparr>sv_published := p\<rparr>)"
  by (rule frame) simp_all

lemmas frames_kept = calls_kept commands_kept uploads_kept hub_kept published_kept

lemma on_instance_kept:
  assumes "ok s" "\<And>i. object_at s a = Some i \<Longrightarrow> \<exists>op wall now. plain_inst_op op i \<and> snd (f i) = inst_apply wall now op i"
  shows "ok (snd (on_instance a f nil s))"
proof (cases "object_at s a")
  case (Some i)
  with assms obtain op wall now where "plain_inst_op op i" "snd (f i) = inst_apply wall now op i" by blast
  with instance_step [OF assms(1) Some this(1), of wall now] Some show ?thesis
    by (simp add: on_instance_def set_object_def split_def)
qed (simp add: on_instance_def assms(1))

lemma methods_kept:
  assumes "ok s"
  shows "ok (snd (on_res a (CompleteInitialSync wall c e now) s))"
    "ok (snd (on_res a (ConfirmReconcileWithSession wall c x d w k now) s))"
    "ok (snd (on_res a (ReportSyncProgress wall c p e now) s))"
    "ok (snd (on_res a (FinishCommand wall i code now) s))"
    "ok (snd (on_res a (FailCommand wall i reason now) s))"
    "ok (snd (on_res a (SubscribeProjectEvents since) s))"
    "ok (snd (on_instance a (EnterAuthorityRebinding wall c now) False s))"
    "ok (terminate_instance env a reason s)"
  unfolding terminate_instance_def
  by (rule on_instance_kept [OF assms];
      metis (no_types) plain_inst_op.simps inst_apply.simps snd_conv)+

lemma start_kept:
  assumes "ok s" "\<And>i. object_at s a = Some i \<Longrightarrow> in_nextCommandID i + 1 \<noteq> 0"
  shows "ok (snd (on_res a (StartCommand wall c argv tty tmux now) s))"
  by (rule on_instance_kept [OF assms(1)]) (metis assms(2) inst_apply.simps(5) plain_inst_op.simps(2))

lemma instanceForSession_kept: "ok s \<Longrightarrow> ok (snd (instanceForSession env z s))"
  using lookup [of s "en_prepare env" "projectKeyForSession z"]
  by (auto simp: instanceForSession_def looked_up_def split: prod.splits intro!: calls_kept)

lemma InstanceForClient_kept: "ok s \<Longrightarrow> ok (snd (InstanceForClient env c s))"
  by (auto simp: InstanceForClient_def intro!: attempt_kept instanceForSession_kept)

text \<open>What a snapshot, a publication or a list of sessions reads may create a project.\<close>

lemma enrichSessionSnapshot_kept: "ok s \<Longrightarrow> ok (snd (enrichSessionSnapshot env x s))"
  using InstanceForClient_kept [of s env "ls_ClientID x"]
  by (auto simp: enrichSessionSnapshot_def split: prod.splits sum.splits)

lemma enrich_all_kept: "ok s \<Longrightarrow> ok (snd (enrich_all env xs s))"
proof (induction xs arbitrary: s)
  case (Cons x xs)
  show ?case using Cons.IH [OF enrichSessionSnapshot_kept [OF Cons.prems]] by (simp add: split_def Let_def)
qed simp

lemma ListSessions_kept: "ok s \<Longrightarrow> ok (snd (ListSessions env s))"
  by (simp add: ListSessions_def enrich_all_kept)

lemma SessionSnapshot_kept: "ok s \<Longrightarrow> ok (snd (Service_SessionSnapshot env t s))"
  using enrichSessionSnapshot_kept
  by (auto simp: Service_SessionSnapshot_def split_def split: option.splits)

lemma publishSessionByID_kept: "ok s \<Longrightarrow> ok (publishSessionByID env t s)"
  using SessionSnapshot_kept [of s env t]
  by (auto simp: publishSessionByID_def published_kept split: prod.splits option.splits)

lemma publishSessionByClientID_kept: "ok s \<Longrightarrow> ok (publishSessionByClientID env c s)"
  by (simp add: publishSessionByClientID_def publishSessionByID_kept split: sum.splits)

lemma publishProjectSessions_kept: "ok s \<Longrightarrow> ok (publishProjectSessions env k s)"
  using ListSessions_kept [of s env]
  by (auto simp: publishProjectSessions_def published_kept split: prod.splits)

lemma publish_project_of_kept: "ok s \<Longrightarrow> ok (publish_project_of env c s)"
  by (simp add: publish_project_of_def publishProjectSessions_kept split: sum.splits)

lemmas publish_kept = publishSessionByID_kept publishSessionByClientID_kept publishProjectSessions_kept
  publish_project_of_kept

lemma assign_kept: "ok s \<Longrightarrow> ok (assignAuthoritativeSource a z s)"
  by (simp add: assignAuthoritativeSource_def Let_def calls_kept split: option.splits)

lemma on_attach_kept:
  assumes "ok s" "Registry_Session c (sv_sessions s) = Inr z"
    "current s (ProjectKey_String (projectKeyForSession z)) = Some a"
  shows "ok (snd (on_res a (AttachClientWithSession wall c d r w k now) s))"
proof (cases "object_at s a")
  case (Some i)
  then show ?thesis
    using attach [OF assms(1) Some assms(2,3), of wall now d r w k]
    by (simp add: on_instance_def set_object_def split_def)
qed (simp add: on_instance_def assms(1))

lemma Coordinator_EnsureProject_kept:
  assumes "ok s"
  shows "ok (snd (Coordinator_EnsureProject env c p s))"
proof -
  have "ok (snd (on_res a (AttachClientWithSession wall c d r w k now) t))"
    if z: "Registry_Session c (sv_sessions s) = Inr z" and t: "instanceForSession env z s = (Inr a, t)"
    for z a t wall now d r w k
  proof (rule on_attach_kept)
    show "ok t" using instanceForSession_kept [OF assms, of env z] t by simp
    show "Registry_Session c (sv_sessions t) = Inr z"
      using instanceForSession_sessions [of env z s] t z by simp
    show "current t (ProjectKey_String (projectKeyForSession z)) = Some a"
      by (rule instanceForSession_current [OF t])
  qed
  with assms show ?thesis
    by (auto simp: Coordinator_EnsureProject_def intro!: attempt_kept instanceForSession_kept assign_kept)
qed

lemma cleanup_kept:
  assumes "ok s"
  shows "ok (cleanupProjectRuntimeState k s)" "ok (cleanupProject k s)"
proof -
  have runtime: "ok t \<Longrightarrow> ok (cleanupProjectRuntimeState k t)" for t
    by (erule frame) (simp_all add: cleanupProjectRuntimeState_def)
  show "ok (cleanupProjectRuntimeState k s)" using assms by (rule runtime)
  show "ok (cleanupProject k s)"
    unfolding cleanupProject_def using forget [OF assms, of "ProjectKey_String k"]
    by (intro runtime) (simp add: forget_project_def)
qed

lemma Coordinator_TerminateProject_kept:
  assumes "ok s"
  shows "ok (Coordinator_TerminateProject env k x s)"
proof (cases "instanceIfExists k s")
  case (Some a)
  obtain clients r where r: "RemoveProjectOwnerFileClients k [] (sv_sessions s) = (clients, r)" by fastforce
  then have ok: "ok (s\<lparr>sv_sessions := r\<rparr>)"
    using registry [OF assms, of "RegRemoveProject k []"] by simp
  show ?thesis
    unfolding Coordinator_TerminateProject_def Some option.case r Let_def [of "(clients, r)"] prod.case
    by (intro let_kept if_kept cleanup_kept calls_kept methods_kept ok)
qed (simp add: Coordinator_TerminateProject_def assms)

lemma FailInitialSync_kept: "ok s \<Longrightarrow> ok (FailInitialSync env k a e s)"
  by (simp add: FailInitialSync_def Coordinator_TerminateProject_kept split: option.splits)

end

end
