(* ===== verification/Control_Kept.thy ===== *)
theory Control_Kept
  imports Control_Invariant
begin

text \<open>
  Every handler of the control service keeps a predicate that meets the laws of \<open>svc_kept\<close>.
\<close>

section \<open>Look-ups keep the room\<close>

lemma NewInstance_commands: "NewInstance key = Inr i \<Longrightarrow> in_nextCommandID i = 0"
  by (auto simp: NewInstance_def split: if_splits sum.splits)

lemma instance_loop_objects:
  assumes "map_of (co_objects (snd (snd (instance_loop n prepare key c)))) a = Some i"
  shows "map_of (co_objects c) a = Some i \<or> NewInstance key = Inr i"
  using assms
proof (induction n arbitrary: c)
  case (Suc n)
  obtain step d where step: "lookup_step key c = (step, d)" by fastforce
  have d: "map_of (co_objects d) a = Some i \<Longrightarrow> map_of (co_objects c) a = Some i \<or> NewInstance key = Inr i"
    using step by (auto simp: lookup_step_def Let_def split: option.splits if_splits sum.splits)
  have done_objects: "co_objects (bootstrap_done b e d) = co_objects d" for b e
    by (simp add: bootstrap_done_def Let_def split: option.splits)
  show ?case
    using Suc.prems Suc.IH [of d] d step
    by (auto simp: Let_def done_objects split: lookup_result.splits option.splits)
qed simp

lemma InstanceForClient_room:
  assumes "svc_room s"
  shows "svc_room (snd (InstanceForClient env c s))"
proof (cases "Registry_Session c (sv_sessions s)")
  case (Inr z)
  have "svc_room (snd (instanceForSession env z s))"
    using assms instance_loop_objects [of 2 "en_prepare env" "projectKeyForSession z" "sv_projects s"] NewInstance_commands
    by (fastforce simp: svc_room_def instanceForSession_def do_calls_def split_def)
  with Inr show ?thesis
    by (auto simp: InstanceForClient_def attempt_def split: prod.splits sum.splits)
qed (simp add: InstanceForClient_def attempt_def assms)

context svc_kept
begin

lemma let_answer_kept: "ok e \<Longrightarrow> (\<And>t. ok t \<Longrightarrow> ok (snd (f t))) \<Longrightarrow> ok (snd (let t = e in f t))"
  by (simp add: Let_def)

lemma answer_kept: "ok s \<Longrightarrow> ok (snd (answer, s))"
  by simp

section \<open>Sessions\<close>

lemma registry_kept:
  assumes "ok s"
  shows "ok (s\<lparr>sv_sessions := snd (Registry_RetainClient wall c (sv_sessions s))\<rparr>)"
    "ok (s\<lparr>sv_sessions := snd (Registry_RegisterOwnerFileClient wall c f (sv_sessions s))\<rparr>)"
    "ok (s\<lparr>sv_sessions := snd (Registry_OwnerFileDisconnected wall c g (sv_sessions s))\<rparr>)"
    "ok (s\<lparr>sv_sessions := snd (BindControl wall c m t x (sv_sessions s))\<rparr>)"
    "ok (s\<lparr>sv_sessions := snd (AttachChannel wall c m t x (sv_sessions s))\<rparr>)"
    "ok (s\<lparr>sv_sessions := DetachChannel wall c h (sv_sessions s)\<rparr>)"
    "ok (s\<lparr>sv_sessions := MarkActivity wall c (sv_sessions s)\<rparr>)"
    "ok (s\<lparr>sv_sessions := TerminateSession_end traffic z y (sv_sessions s)\<rparr>)"
proof -
  note law = registry [OF assms]
  show "ok (s\<lparr>sv_sessions := snd (Registry_RetainClient wall c (sv_sessions s))\<rparr>)"
    using law [of "RegRetain c" _ wall] by simp
  show "ok (s\<lparr>sv_sessions := snd (Registry_RegisterOwnerFileClient wall c f (sv_sessions s))\<rparr>)"
    using law [of "RegOwnerFile c (the f)" _ wall] assms
    by (cases f) (simp_all add: Registry_RegisterOwnerFileClient_def)
  show "ok (s\<lparr>sv_sessions := snd (Registry_OwnerFileDisconnected wall c g (sv_sessions s))\<rparr>)"
    using law [of "RegOwnerFileGone c g" _ wall] by simp
  show "ok (s\<lparr>sv_sessions := snd (BindControl wall c m t x (sv_sessions s))\<rparr>)"
    using law [of "RegBindControl c m t x" _ wall] by simp
  show "ok (s\<lparr>sv_sessions := snd (AttachChannel wall c m t x (sv_sessions s))\<rparr>)"
    using law [of "RegAttachChannel c m t x" _ wall] by simp
  show "ok (s\<lparr>sv_sessions := DetachChannel wall c h (sv_sessions s)\<rparr>)"
    using law [of "RegDetachChannel c h" _ wall] by simp
  show "ok (s\<lparr>sv_sessions := MarkActivity wall c (sv_sessions s)\<rparr>)"
    using law [of "RegActivity c" _ wall] by simp
  show "ok (s\<lparr>sv_sessions := TerminateSession_end traffic z y (sv_sessions s)\<rparr>)"
    using law [of "RegTerminateEnd z y" traffic] by simp
qed

lemma Hello_kept:
  assumes "ok s" "reg_room (sv_sessions s)"
  shows "ok (snd (HelloAuthenticated env p q s))"
  using registry [OF assms(1), of "RegHello p q" _ "en_now env"]
    registry [OF assms(1), of "RegHello (p\<lparr>pr_AuthenticatedAt := en_now env\<rparr>) q" _ "en_now env"] assms
  by (simp add: HelloAuthenticated_def Let_def split_def)

lemma Retain_kept: "ok s \<Longrightarrow> ok (snd (Service_RetainClient env c s))"
  using registry_kept(1) by (simp add: Service_RetainClient_def split_def)

lemma close_owner_file_kept: "ok s \<Longrightarrow> ok (close_owner_file f s)"
  by (simp add: close_owner_file_def calls_kept split: option.splits)

lemma Coordinator_Release_kept:
  assumes "ok s"
  shows "ok (snd (Coordinator_ReleaseClient env c s))"
proof -
  obtain answer r where release: "Registry_ReleaseClient (en_traffic env) (en_wall env) c (sv_sessions s) = (answer, r)"
    by fastforce
  note left = left [OF assms, of env c, unfolded leave_def release prod.case]
  show ?thesis
  proof (cases "\<exists>x a. answer = Inr (Some x) \<and>
      instanceIfExists (projectKeyForSession (rel_Session x)) (s\<lparr>sv_sessions := r\<rparr>) = Some a")
    case True
    then obtain x a where xa: "answer = Inr (Some x)"
      "instanceIfExists (projectKeyForSession (rel_Session x)) (s\<lparr>sv_sessions := r\<rparr>) = Some a" by blast
    obtain removal t where t: "on_instance a (RemoveClient (en_wall env) c (en_now env)) no_removal
        (s\<lparr>sv_sessions := r\<rparr>) = (removal, t)" by fastforce
    have "ok t" using left by (simp add: xa t)
    then show ?thesis
      unfolding Coordinator_ReleaseClient_def release prod.case sum.case option.case xa Let_def [of "(removal, t)"] t
        clearAuthoritativeSource_def Let_def [of "s\<lparr>sv_sessions := r\<rparr>"] Let_def [of "projectKeyForSession _"]
      by - (intro let_kept let_answer_kept answer_kept if_kept cleanup_kept calls_kept methods_kept close_owner_file_kept)
  next
    case False
    with left show ?thesis
      by (auto simp: Coordinator_ReleaseClient_def release close_owner_file_kept split: sum.splits option.splits)
  qed
qed

lemma Service_Release_kept: "ok s \<Longrightarrow> ok (snd (Service_ReleaseClient env c s))"
  using Coordinator_Release_kept [of s env c]
  by (auto simp: Service_ReleaseClient_def Let_def split_def publish_kept split: sum.splits)

lemma RegisterOwnerFile_kept:
  assumes "ok s"
  shows "ok (snd (Service_RegisterOwnerFileClient env answer c f s))"
proof -
  obtain y r where reg: "Registry_RegisterOwnerFileClient (en_wall env) c f (sv_sessions s) = (y, r)" by fastforce
  with registry_kept(2) [OF assms, of "en_wall env" c f] have r: "ok (s\<lparr>sv_sessions := r\<rparr>)" by simp
  show ?thesis
  proof (cases y)
    case (Inl e)
    with r show ?thesis by (simp add: Service_RegisterOwnerFileClient_def reg)
  next
    case (Inr x)
    define t where "t = (case ofr_Previous x of None \<Rightarrow> s\<lparr>sv_sessions := r\<rparr>
        | Some p \<Rightarrow> if Some p \<noteq> f then do_calls [CallCloseOwnerFile p] (s\<lparr>sv_sessions := r\<rparr>) else s\<lparr>sv_sessions := r\<rparr>)"
    have t: "ok t" using r by (simp add: t_def calls_kept split: option.splits)
    show ?thesis
      using t InstanceForClient_kept [OF t, of env c]
      by (auto simp: Service_RegisterOwnerFileClient_def reg Inr Let_def t_def [symmetric] publish_kept calls_kept
          split: prod.splits sum.splits)
  qed
qed

lemma Disconnect_kept: "ok s \<Longrightarrow> ok (HandleOwnerFileDisconnect env c f s)"
  using registry_kept(3) [of s "en_wall env" c f]
  by (auto simp: HandleOwnerFileDisconnect_def Let_def split_def methods_kept calls_kept
      split: prod.splits option.splits)

lemma watchOwnerFile_kept: "ok s \<Longrightarrow> ok (watchOwnerFileClient env z c f s)"
  using Disconnect_kept [of s env c f]
  by (auto simp: watchOwnerFileClient_def Let_def publish_kept split: option.splits sum.splits)

lemma BindControl_kept: "ok s \<Longrightarrow> ok (snd (BindControlConnection env c m t x s))"
  using registry_kept(4) [of s "en_wall env" c m t x]
  by (auto simp: BindControlConnection_def publish_kept split: prod.splits sum.splits)

lemma AttachChannel_kept: "ok s \<Longrightarrow> ok (snd (AttachSessionChannel env c m t x s))"
  using registry_kept(5) [of s "en_wall env" c m t x]
  by (auto simp: AttachSessionChannel_def publish_kept split: prod.splits sum.splits)

lemma TerminateSession_kept: "ok s \<Longrightarrow> ok (snd (Service_TerminateSession env t x s))"
  using registry_kept(8) [of s "en_traffic env" t x]
  by (simp add: Service_TerminateSession_def Registry_TerminateSession_def split_def split: sum.splits)

lemma TmuxStatus_kept: "ok s \<Longrightarrow> ok (snd (TmuxStatus env c i s))"
  by (auto simp: TmuxStatus_def split_def Let_def intro!: attempt_kept InstanceForClient_kept enrichSessionSnapshot_kept
      split: option.splits)

lemma session_op_kept:
  assumes "ok s" "svc_room s"
  shows "ok (session_apply env op s)"
  using assms
  by (cases op)
    (simp_all add: Hello_kept svc_room_def ListSessions_kept SessionSnapshot_kept Retain_kept Service_Release_kept
      RegisterOwnerFile_kept watchOwnerFile_kept BindControl_kept AttachChannel_kept DetachSessionChannel_def
      NoteSessionActivity_def publish_kept registry_kept TerminateSession_kept TmuxStatus_kept)

section \<open>Projects\<close>

lemmas handler_kept = attempt_kept InstanceForClient_kept publish_kept frames_kept methods_kept assign_kept

lemma Ensure_kept: "ok s \<Longrightarrow> ok (snd (Service_EnsureProject env c s))"
  by (auto simp: Service_EnsureProject_def intro!: handler_kept Coordinator_EnsureProject_kept)

lemma EnsureRequest_kept: "ok s \<Longrightarrow> ok (snd (EnsureProjectRequest env c p s))"
  by (auto simp: EnsureProjectRequest_def intro!: handler_kept Coordinator_EnsureProject_kept)

lemma Confirm_kept: "ok s \<Longrightarrow> ok (snd (Service_ConfirmReconcile env c p x d s))"
  by (auto simp: Service_ConfirmReconcile_def Coordinator_ConfirmReconcile_def split_def intro!: handler_kept)

lemma Complete_kept: "ok s \<Longrightarrow> ok (snd (Service_CompleteInitialSync env c e s))"
  by (auto simp: Service_CompleteInitialSync_def Coordinator_CompleteInitialSync_def split_def intro!: handler_kept)

lemma WatchProject_kept: "ok s \<Longrightarrow> ok (snd (WatchProject env c p x s))"
  by (auto simp: WatchProject_def split_def intro!: handler_kept)

lemma SubscribeProject_kept: "ok s \<Longrightarrow> ok (snd (Service_SubscribeProjectEvents env c p x s))"
  by (auto simp: Service_SubscribeProjectEvents_def split_def intro!: handler_kept)

lemma TerminateProject_kept: "ok s \<Longrightarrow> ok (Service_TerminateProject env k x s)"
  by (simp add: Service_TerminateProject_def Coordinator_TerminateProject_kept publish_kept)

text \<open>A look-up only adds fresh instances, so the identifiers of commands keep their room.\<close>

lemma StartCommand_kept:
  assumes "ok s" "svc_room s"
  shows "ok (snd (Service_StartCommand env c p argv tty tmux s))"
proof -
  have "ok (snd (on_res a (StartCommand wall c argv tty tmux now) t))"
    if t: "InstanceForClient env c s = (Inr (a, z), t)" for a z t wall now
  proof (rule start_kept)
    show "ok t" using InstanceForClient_kept [OF assms(1), of env c] t by simp
    show "in_nextCommandID i + 1 \<noteq> 0" if "object_at t a = Some i" for i
      using InstanceForClient_room [OF assms(2), of env c] t that by (simp add: svc_room_def)
  qed
  then show ?thesis
    using assms
    by (auto simp: Service_StartCommand_def split_def split: sum.splits prod.splits intro!: handler_kept)
qed

lemma CommandSessionBegin_kept: "ok s \<Longrightarrow> ok (snd (StartProjectCommandSession_begin env c p s))"
  by (auto simp: StartProjectCommandSession_begin_def split_def intro!: handler_kept)

lemma CommandSessionResume_kept:
  "ok s \<Longrightarrow> svc_room s \<Longrightarrow> ok (snd (StartProjectCommandSession_resume env a w c p v t m s))"
  by (auto simp: StartProjectCommandSession_resume_def intro!: attempt_kept StartCommand_kept)

lemma project_op_kept: "ok s \<Longrightarrow> svc_room s \<Longrightarrow> ok (project_apply env op s)"
  by (cases op)
    (simp_all add: Ensure_kept EnsureRequest_kept Confirm_kept Complete_kept WatchProject_kept SubscribeProject_kept
      TerminateProject_kept CommandSessionBegin_kept CommandSessionResume_kept)

section \<open>Commands\<close>

lemma controlled_kept: "ok s \<Longrightarrow> ok (snd (controlled_instance env c s))"
  by (auto simp: controlled_instance_def split_def intro!: handler_kept)

lemma stdio_kept: "ok s \<Longrightarrow> ok (snd (ensureStdioControlAllowed env c i s))"
  by (auto simp: ensureStdioControlAllowed_def intro!: handler_kept controlled_kept)

lemma with_commands_kept: "ok s \<Longrightarrow> ok (snd (with_commands s r))"
  by (simp add: with_commands_def frames_kept split: prod.splits)

lemma ignore_stale_kept: "ok (snd r) \<Longrightarrow> ok (snd (ignore_stale r))"
  by (cases r) (simp add: ignore_stale_def split: sum.splits)

lemma terminal_events_kept: "ok s \<Longrightarrow> ok (snd (recordCommandTerminalEvents env x s))"
  by (simp add: recordCommandTerminalEvents_def Let_def split_def frames_kept split: CommandState.splits)

lemmas command_kept = handler_kept controlled_kept stdio_kept with_commands_kept ignore_stale_kept terminal_events_kept

lemma stdio_ops_kept:
  assumes "ok s"
  shows "ok (snd (AttachStdio env y c i s))" "ok (snd (WaitCommandOutput env u c i s))"
    "ok (snd (Service_OpenStdio env c i s))" "ok (snd (Service_DetachStdio env c i s))"
    "ok (snd (WatchCommand env c i x s))" "ok (snd (SubscribeCommandEvents env c i x s))"
  using assms
  by (auto simp: AttachStdio_def WaitCommandOutput_def Service_OpenStdio_def Service_DetachStdio_def WatchCommand_def
      SubscribeCommandEvents_def split_def split: sum.splits prod.splits intro!: command_kept)

lemma input_ops_kept:
  assumes "ok s"
  shows "ok (snd (Service_ResizeTTY env u c i w h s))" "ok (snd (Service_SendSignal env u c i n s))"
    "ok (snd (WriteCommandInput env u c i d s))" "ok (snd (CloseCommandInput env u c i s))"
    "ok (snd (CompleteCommand env k i code s))" "ok (snd (Service_FailCommand env k i n s))"
  using assms
  by (auto simp: Service_ResizeTTY_def Service_SendSignal_def WriteCommandInput_def CloseCommandInput_def
      CompleteCommand_def Service_FailCommand_def split_def intro!: command_kept)

lemma command_op_kept: "ok s \<Longrightarrow> svc_room s \<Longrightarrow> ok (command_apply env op s)"
  by (cases op) (simp_all add: StartCommand_kept stdio_ops_kept input_ops_kept)

section \<open>Sync, uploads and files\<close>

lemma resolve_kept: "ok s \<Longrightarrow> ok (snd (resolveSyncInvocation env c e s))"
  by (auto simp: resolveSyncInvocation_def split_def intro!: handler_kept)

lemma sync_call_kept: "ok s \<Longrightarrow> ok (snd (sync_call env n y c e s))"
  by (auto simp: sync_call_def split_def Let_def split: sum.splits intro!: handler_kept resolve_kept FailInitialSync_kept)

lemma report_kept: "ok s \<Longrightarrow> ok (snd (report_progress env a c p e s))"
  by (simp add: report_progress_def methods_kept)

lemma append_kept: "ok s \<Longrightarrow> ok (snd (append_invalidates env k ch s))"
  by (simp add: append_invalidates_def split_def frames_kept)

lemmas sync_kept = handler_kept sync_call_kept report_kept append_kept

lemma sync_op_kept: "ok s \<Longrightarrow> ok (sync_apply env op s)"
  by (cases op)
    (auto simp: BeginSync_def StartSyncSession_def ScanManifest_def SyncManifestBatch_def PlanManifestHashes_def
      PlanSyncActions_def PlanSyncV2_def Service_ReportSyncProgress_def FinalizeSync_def FinalizeSyncV2_def
      finalize_sync_def split_def intro!: sync_kept)

lemma AbortFile_kept: "ok s \<Longrightarrow> ok (snd (AbortFile env u c f s))"
  using resolve_kept [of s env c 0]
  by (auto simp: AbortFile_def split: prod.splits sum.splits intro!: frames_kept)

lemma upload_op_kept: "ok s \<Longrightarrow> ok (upload_apply env op s)"
  by (cases op)
    (auto simp: BeginFile_def ApplyChunk_def CommitFile_def AbortFile_kept Service_DeletePath_def DeletePathsBatch_def
      UploadBundleBegin_def UploadBundleCommit_def split_def Let_def intro!: sync_kept)

lemma mutate_kept: "ok s \<Longrightarrow> ok (snd (mutate env y k s))"
  by (auto simp: mutate_def split_def intro!: sync_kept)

lemma file_op_kept: "ok s \<Longrightarrow> ok (file_apply env op s)"
  by (cases op)
    (auto simp: FsReadContext_def FsMutationContext_def ProjectFsReadContext_def ProjectFsMutationContext_def
      WatchInvalidate_def InvalidateContext_def OwnerWatcherFailedContext_def SubscribeInvalidateEvents_def
      ProjectWatchInvalidate_def SubscribeProjectInvalidate_def split_def Let_def
      split: sum.splits intro!: sync_kept mutate_kept)

section \<open>All handlers\<close>

lemma svc_op_kept: "ok s \<Longrightarrow> svc_room s \<Longrightarrow> ok (svc_apply env op s)"
  by (cases op)
    (simp_all add: session_op_kept project_op_kept command_op_kept sync_op_kept upload_op_kept file_op_kept)

lemma svc_run_kept: "svc_run s t \<Longrightarrow> ok s \<Longrightarrow> ok t"
  by (induction rule: svc_run.induct) (auto intro: svc_op_kept)

end

end
