(* ===== verification/Control_Demo.thy ===== *)
theory Control_Demo
  imports Control_Invariant Project_Demo
begin

text \<open>
  A short concrete run of the control service, used to instantiate its theorems: an authority session
  says hello and opens its project, completes the initial sync, and a second session says hello.
\<close>

definition demo_env :: env where
  "demo_env = \<lparr>en_wall = 9, en_now = 8, en_traffic = (\<lambda>_. (0, 0)), en_prepare = (\<lambda>_. None)\<rparr>"

definition demo_svc0 :: Service where
  "demo_svc0 = projr (NewServiceWithDependencies True True True)"

definition demo_svc1 :: Service where
  "demo_svc1 = svc_apply demo_env (Svc_session (SvcHello demo_principal demo_hello)) demo_svc0"

definition demo_svc2 :: Service where
  "demo_svc2 = svc_apply demo_env (Svc_project (SvcEnsureProject ''client-0001'')) demo_svc1"

definition demo_svc3 :: Service where
  "demo_svc3 = svc_apply demo_env (Svc_project (SvcCompleteInitialSync ''client-0001'' 1)) demo_svc2"

definition demo_svc4 :: Service where
  "demo_svc4 = svc_apply demo_env
     (Svc_session (SvcHello demo_principal (demo_hello\<lparr>hr_SessionKind := ''interactive''\<rparr>))) demo_svc3"

definition demo_svc5 :: Service where
  "demo_svc5 = svc_apply demo_env (Svc_project (SvcTerminateProject demo_key ''stop'')) demo_svc4"

definition has_room :: "Service \<Rightarrow> bool" where
  "has_room s \<longleftrightarrow> reg_room (sv_sessions s) \<and>
     list_all (\<lambda>(_, i). in_nextCommandID i + 1 \<noteq> 0) (co_objects (sv_projects s))"

lemma has_room_svc_room: "has_room s \<Longrightarrow> svc_room s"
  by (auto simp: has_room_def svc_room_def list_all_iff dest: map_of_SomeD)

lemma demo_svc_room: "has_room demo_svc0" "has_room demo_svc1" "has_room demo_svc2" "has_room demo_svc3" "has_room demo_svc4" "has_room demo_svc5"
  by code_simp+

lemma demo_svc_new: "NewServiceWithDependencies True True True = Inr demo_svc0"
proof -
  have "\<not> isl (NewServiceWithDependencies True True True)" by code_simp
  then show ?thesis by (simp add: demo_svc0_def)
qed

lemma demo_svc_run:
  "svc_run demo_svc0 demo_svc1" "svc_run demo_svc0 demo_svc2" "svc_run demo_svc0 demo_svc3"
  "svc_run demo_svc0 demo_svc4" "svc_run demo_svc0 demo_svc5"
proof -
  note step = svc_run.step [OF _ has_room_svc_room]
  show 1: "svc_run demo_svc0 demo_svc1"
    unfolding demo_svc1_def by (rule step [OF svc_run.start demo_svc_room(1)])
  show 2: "svc_run demo_svc0 demo_svc2"
    unfolding demo_svc2_def by (rule step [OF 1 demo_svc_room(2)])
  show 3: "svc_run demo_svc0 demo_svc3"
    unfolding demo_svc3_def by (rule step [OF 2 demo_svc_room(3)])
  show 4: "svc_run demo_svc0 demo_svc4"
    unfolding demo_svc4_def by (rule step [OF 3 demo_svc_room(4)])
  show "svc_run demo_svc0 demo_svc5"
    unfolding demo_svc5_def by (rule step [OF 4 demo_svc_room(5)])
qed

lemma demo_svc_instance:
  "instanceIfExists demo_key demo_svc2 = Some 0" "instanceIfExists demo_key demo_svc3 = Some 0"
  "instanceIfExists demo_key demo_svc4 = Some 0" "instanceIfExists demo_key demo_svc5 = Some 0"
  by code_simp+

end
