(* ===== verification/Bootstrap.thy ===== *)
theory Bootstrap
  imports Project_Coordinator
begin

text \<open>
  Callers that ask for a project at the same time: \<open>instanceForSession\<close> of
  \<open>internal/control/project_coordinator.go\<close> as the interleaving of its critical sections
  \<open>lookup_step\<close> (one round of the loop), \<open>bootstrap_done\<close> (after \<open>PrepareProject\<close> returned) and
  \<open>waiter_result\<close> (after the channel \<open>ready\<close> was closed). Meanwhile other requests may remove projects
  from the coordinator's map.
\<close>

section \<open>Steps\<close>

text \<open>
  Where a caller is. \<open>BootDone a answer\<close>: it returned \<open>answer\<close>, taken from the entry \<open>a\<close> unless \<open>NewInstance\<close>
  failed.
\<close>

datatype boot_phase =
    BootLooking
  | BootPreparing ProjectKey nat
  | BootWaiting nat
  | BootDone "nat option" "nat res"

definition after_lookup :: "ProjectKey \<Rightarrow> ProjectCoordinator \<Rightarrow> lookup_result \<Rightarrow> boot_phase" where
  "after_lookup key c r =
     (case r of
        LookupFound i \<Rightarrow> BootDone (map_of (co_instances c) (ProjectKey_String key)) (Inr i)
      | LookupFailed e \<Rightarrow> BootDone None (Inl e)
      | LookupRetry \<Rightarrow> BootLooking
      | LookupWait a \<Rightarrow> BootWaiting a
      | LookupPrepare a i \<Rightarrow> BootPreparing key a)"

definition after_prepare :: "nat \<Rightarrow> err option \<Rightarrow> boot_phase" where
  "after_prepare a answer =
     BootDone (Some a) (case answer of None \<Rightarrow> Inr a | Some e \<Rightarrow> Inl (wrapBootstrapError e))"

definition after_wait :: "nat \<Rightarrow> ProjectCoordinator \<Rightarrow> boot_phase" where
  "after_wait a c = (case waiter_result a c of None \<Rightarrow> BootLooking | Some answer \<Rightarrow> BootDone (Some a) answer)"

definition still_preparing :: "nat \<Rightarrow> ProjectCoordinator \<Rightarrow> bool" where
  "still_preparing a c \<longleftrightarrow> (case map_of (co_entries c) a of None \<Rightarrow> False | Some e \<Rightarrow> pe_ready e)"

type_synonym boot_state = "ProjectCoordinator \<times> (nat \<Rightarrow> boot_phase)"

text \<open>\<open>removals\<close> tells whether projects may be removed meanwhile.\<close>

inductive boot_step :: "bool \<Rightarrow> boot_state \<Rightarrow> boot_state \<Rightarrow> bool" for removals where
  look: "ph p = BootLooking \<Longrightarrow> lookup_step key c = (r, c') \<Longrightarrow>
    boot_step removals (c, ph) (c', ph(p := after_lookup key c' r))"
| prepared: "ph p = BootPreparing key a \<Longrightarrow>
    boot_step removals (c, ph) (bootstrap_done a answer c, ph(p := after_prepare a answer))"
| woken: "ph p = BootWaiting a \<Longrightarrow> \<not> still_preparing a c \<Longrightarrow>
    boot_step removals (c, ph) (c, ph(p := after_wait a c))"
| removed: "removals \<Longrightarrow>
    boot_step removals (c, ph) (c\<lparr>co_instances := AList.delete k (co_instances c)\<rparr>, ph)"

inductive boot_reachable :: "bool \<Rightarrow> boot_state \<Rightarrow> bool" for removals where
  start: "boot_reachable removals (newProjectCoordinator bootstrap, \<lambda>_. BootLooking)"
| step: "boot_reachable removals s \<Longrightarrow> boot_step removals s t \<Longrightarrow> boot_reachable removals t"

section \<open>Invariant\<close>

definition entry_answer :: "projectEntry \<Rightarrow> nat \<Rightarrow> nat res option" where
  "entry_answer e a =
     (if pe_ready e then None
      else case (pe_err e, pe_instance e) of
        (None, Some b) \<Rightarrow> if b = a then Some (Inr a) else None
      | (Some x, None) \<Rightarrow> Some (Inl (wrapBootstrapError x))
      | _ \<Rightarrow> None)"

definition preparing :: "projectEntry \<Rightarrow> nat \<Rightarrow> bool" where
  "preparing e a \<longleftrightarrow> pe_ready e \<and> pe_err e = None \<and> pe_instance e = Some a"

definition prepares :: "boot_phase \<Rightarrow> nat \<Rightarrow> bool" where
  "prepares x a \<longleftrightarrow> (\<exists>key. x = BootPreparing key a)"

definition entries_ok :: "ProjectCoordinator \<Rightarrow> (nat \<Rightarrow> boot_phase) \<Rightarrow> bool" where
  "entries_ok c ph \<longleftrightarrow>
     (\<forall>a e. map_of (co_entries c) a = Some e \<longrightarrow>
        a < co_next c \<and> (preparing e a \<and> (\<exists>p. prepares (ph p) a) \<or> entry_answer e a \<noteq> None)) \<and>
     (\<forall>k a. map_of (co_instances c) k = Some a \<longrightarrow> map_of (co_entries c) a \<noteq> None)"

fun phase_ok :: "ProjectCoordinator \<Rightarrow> boot_phase \<Rightarrow> bool" where
  "phase_ok c BootLooking = True"
| "phase_ok c (BootPreparing key a) = (\<exists>e. map_of (co_entries c) a = Some e \<and> preparing e a)"
| "phase_ok c (BootWaiting a) = (map_of (co_entries c) a \<noteq> None)"
| "phase_ok c (BootDone None answer) = (\<exists>e. answer = Inl e)"
| "phase_ok c (BootDone (Some a) answer) =
     (\<exists>e. map_of (co_entries c) a = Some e \<and> entry_answer e a = Some answer)"

definition boot_inv :: "bool \<Rightarrow> boot_state \<Rightarrow> bool" where
  "boot_inv removals s \<longleftrightarrow> (case s of (c, ph) \<Rightarrow>
     entries_ok c ph \<and> (\<forall>p. phase_ok c (ph p)) \<and>
     (\<forall>p q a. prepares (ph p) a \<longrightarrow> prepares (ph q) a \<longrightarrow> p = q) \<and>
     (\<not> removals \<longrightarrow> (\<forall>p key a. ph p = BootPreparing key a \<longrightarrow>
        map_of (co_instances c) (ProjectKey_String key) = Some a)))"

section \<open>The invariant is kept\<close>

text \<open>A new entry for the project key \<open>k\<close>.\<close>

definition add_project :: "string \<Rightarrow> Instance \<Rightarrow> projectEntry \<Rightarrow> ProjectCoordinator \<Rightarrow> ProjectCoordinator" where
  "add_project k i e c = c\<lparr>co_instances := AList.update k (co_next c) (co_instances c),
     co_entries := AList.update (co_next c) e (co_entries c),
     co_objects := AList.update (co_next c) i (co_objects c), co_next := co_next c + 1\<rparr>"

lemma add_project_simps [simp]:
  "map_of (co_instances (add_project k i e c)) h = (if h = k then Some (co_next c) else map_of (co_instances c) h)"
  "map_of (co_entries (add_project k i e c)) a = (if a = co_next c then Some e else map_of (co_entries c) a)"
  "map_of (co_objects (add_project k i e c)) a = (if a = co_next c then Some i else map_of (co_objects c) a)"
  "co_next (add_project k i e c) = co_next c + 1"
  by (simp_all add: add_project_def)

lemma bootstrap_done_add:
  "bootstrap_done (co_next c) answer (add_project k i e c) =
   add_project k i (case answer of None \<Rightarrow> e\<lparr>pe_ready := False\<rparr>
     | Some x \<Rightarrow> e\<lparr>pe_instance := None, pe_err := Some x, pe_ready := False\<rparr>) c"
  by (simp add: bootstrap_done_def add_project_def Let_def split: option.splits)

lemma lookup_cases:
  assumes "lookup_step key c = (r, c')"
  obtains
    (wait) a e where "map_of (co_instances c) (ProjectKey_String key) = Some a" "map_of (co_entries c) a = Some e"
      "r = LookupWait a" "c' = c"
  | (retry) a e where "map_of (co_instances c) (ProjectKey_String key) = Some a" "map_of (co_entries c) a = Some e"
      "\<not> pe_ready e" "r = LookupRetry" "c' = c\<lparr>co_instances := AList.delete (ProjectKey_String key) (co_instances c)\<rparr>"
  | (found) a e b where "map_of (co_instances c) (ProjectKey_String key) = Some a" "map_of (co_entries c) a = Some e"
      "\<not> pe_ready e" "pe_err e = None" "pe_instance e = Some b" "r = LookupFound b" "c' = c"
  | (failed) x where "r = LookupFailed x" "c' = c"
  | (new) i where "NewInstance key = Inr i" "c' = add_project (ProjectKey_String key) i
      \<lparr>pe_instance = Some (co_next c), pe_ready = co_bootstrap c, pe_err = None\<rparr> c"
      "r = (if co_bootstrap c then LookupPrepare (co_next c) (co_next c) else LookupFound (co_next c))"
      "\<And>a. map_of (co_instances c) (ProjectKey_String key) = Some a \<Longrightarrow> map_of (co_entries c) a = None"
proof (cases "Option.bind (map_of (co_instances c) (ProjectKey_String key))
    (\<lambda>a. map_option (Pair a) (map_of (co_entries c) a))")
  case None
  with assms show ?thesis
    by (cases "NewInstance key")
      (auto simp: lookup_step_def add_project_def Let_def split: if_splits intro: failed new)
next
  case (Some ae)
  then obtain a e where "ae = (a, e)" "map_of (co_instances c) (ProjectKey_String key) = Some a"
    "map_of (co_entries c) a = Some e" by (auto simp: bind_eq_Some_conv)
  with Some assms show ?thesis
    by (auto simp: lookup_step_def split: if_splits option.splits intro: wait retry found failed)
qed

lemma entry_answer_settled: "entry_answer e a \<noteq> None \<Longrightarrow> \<not> pe_ready e"
  by (auto simp: entry_answer_def)

lemma entries_fresh: "entries_ok c ph \<Longrightarrow> map_of (co_entries c) (co_next c) = None"
  unfolding entries_ok_def by (metis less_irrefl option.exhaust)

lemma phase_ok_entries:
  assumes "phase_ok c x" "\<And>a e. map_of (co_entries c) a = Some e \<Longrightarrow> map_of (co_entries d) a = Some e"
  shows "phase_ok d x"
proof (cases x)
  case (BootDone via answer)
  with assms show ?thesis by (cases via) auto
qed (use assms in auto)

lemma boot_invI:
  assumes "entries_ok c ph" "\<And>q. phase_ok c (ph q)" "\<And>p q a. prepares (ph p) a \<Longrightarrow> prepares (ph q) a \<Longrightarrow> p = q"
    "\<And>p key a. \<not> removals \<Longrightarrow> ph p = BootPreparing key a \<Longrightarrow> map_of (co_instances c) (ProjectKey_String key) = Some a"
  shows "boot_inv removals (c, ph)"
  using assms by (auto simp: boot_inv_def)

lemma boot_invD:
  assumes "boot_inv removals (c, ph)"
  shows "entries_ok c ph" "phase_ok c (ph q)" "prepares (ph p) a \<Longrightarrow> prepares (ph q) a \<Longrightarrow> p = q"
    "\<not> removals \<Longrightarrow> ph p = BootPreparing key a \<Longrightarrow> map_of (co_instances c) (ProjectKey_String key) = Some a"
  using assms by (auto simp: boot_inv_def)

text \<open>A step that leaves the entries alone and does not end a preparation.\<close>

lemma calm_step:
  assumes inv: "boot_inv removals (c, ph)" and p: "\<And>a. \<not> prepares (ph p) a" "\<And>a. \<not> prepares x a" "phase_ok c x"
    and c': "co_entries c' = co_entries c" "co_next c' = co_next c"
      "\<And>k a. map_of (co_instances c') k = Some a \<Longrightarrow> map_of (co_instances c) k = Some a"
      "\<And>q key a. \<not> removals \<Longrightarrow> ph q = BootPreparing key a \<Longrightarrow> map_of (co_instances c') (ProjectKey_String key) = Some a"
  shows "boot_inv removals (c', ph(p := x))"
proof (rule boot_invI)
  have prep: "prepares ((ph(p := x)) q) a \<longleftrightarrow> prepares (ph q) a" for q a using p by simp
  show "entries_ok c' (ph(p := x))"
    unfolding entries_ok_def prep c'(1,2)
    using boot_invD(1) [OF inv, unfolded entries_ok_def] c'(3) by blast
  show "phase_ok c' ((ph(p := x)) q)" for q
    using boot_invD(2) [OF inv, of q] p(3) c'(1) by (auto intro: phase_ok_entries)
  show "q = r" if "prepares ((ph(p := x)) q) a" "prepares ((ph(p := x)) r) a" for q r a
    using that boot_invD(3) [OF inv] unfolding prep by blast
  show "map_of (co_instances c') (ProjectKey_String key) = Some a"
    if "\<not> removals" "(ph(p := x)) q = BootPreparing key a" for q key a
    using that p(2) c'(4) by (auto simp: prepares_def split: if_splits)
qed

lemma look_inv:
  assumes inv: "boot_inv removals (c, ph)" and p: "ph p = BootLooking" and step: "lookup_step key c = (r, c')"
  shows "boot_inv removals (c', ph(p := after_lookup key c' r))"
proof -
  note ok = boot_invD [OF inv]
  have looking: "\<not> prepares (ph p) a" for a using p by (simp add: prepares_def)
  note calm = calm_step [OF inv looking]
  from step show ?thesis
  proof (cases rule: lookup_cases)
    case (wait a e)
    then show ?thesis using ok(4) by (intro calm) (simp_all add: after_lookup_def prepares_def)
  next
    case (retry a e)
    have "ProjectKey_String k \<noteq> ProjectKey_String key" if "\<not> removals" "ph q = BootPreparing k b" for q k b
      using ok(2) [of q] ok(4) [OF that] that(2) retry by (auto simp: preparing_def)
    then show ?thesis
      using retry ok(4) by (intro calm) (auto simp: after_lookup_def prepares_def split: if_splits)
  next
    case (found a e b)
    have "entry_answer e a = Some (Inr b)"
      using ok(1) found unfolding entries_ok_def by (fastforce simp: preparing_def entry_answer_def split: if_splits)
    then show ?thesis
      using found ok(4) by (intro calm) (simp_all add: after_lookup_def prepares_def)
  next
    case (failed x)
    then show ?thesis using ok(4) by (intro calm) (simp_all add: after_lookup_def prepares_def)
  next
    case (new i)
    have fresh: "map_of (co_entries c) (co_next c) = None" by (rule entries_fresh [OF ok(1)])
    have others: "b \<noteq> co_next c" if "prepares (ph q) b" for q b
      using ok(2) [of q] that fresh by (auto simp: prepares_def)
    let ?x = "after_lookup key c' r"
    have x: "phase_ok c' ?x" "prepares ?x a \<longleftrightarrow> co_bootstrap c \<and> a = co_next c" for a
      using new by (auto simp: after_lookup_def preparing_def prepares_def entry_answer_def)
    show ?thesis
    proof (rule boot_invI)
      have kept: "\<exists>q. prepares ((ph(p := ?x)) q) a" if "prepares (ph q) a" for q a
        using that looking by (intro exI [of _ q]) auto
      show "entries_ok c' (ph(p := ?x))"
        unfolding entries_ok_def
      proof (intro conjI allI impI)
        fix a e
        assume e: "map_of (co_entries c') a = Some e"
        show "a < co_next c'" using e new ok(1) by (auto simp: entries_ok_def less_Suc_eq split: if_splits)
        show "preparing e a \<and> (\<exists>q. prepares ((ph(p := ?x)) q) a) \<or> entry_answer e a \<noteq> None"
        proof (cases "a = co_next c")
          case True
          have "co_bootstrap c \<Longrightarrow> \<exists>q. prepares ((ph(p := ?x)) q) a" using x(2) True by (intro exI [of _ p]) simp
          with True e new show ?thesis by (auto simp: preparing_def entry_answer_def)
        next
          case False
          with e new have "map_of (co_entries c) a = Some e" by simp
          with ok(1) kept show ?thesis unfolding entries_ok_def by blast
        qed
      next
        fix k a
        assume "map_of (co_instances c') k = Some a"
        with new ok(1) show "map_of (co_entries c') a \<noteq> None" by (auto simp: entries_ok_def split: if_splits)
      qed
      show "phase_ok c' ((ph(p := ?x)) q)" for q
      proof -
        have "phase_ok c' (ph q)" by (rule phase_ok_entries [OF ok(2)]) (use new fresh in auto)
        with x(1) show ?thesis by simp
      qed
      show "q = u" if "prepares ((ph(p := ?x)) q) a" "prepares ((ph(p := ?x)) u) a" for q u a
        using that x(2) others ok(3) by (auto split: if_splits)
      show "map_of (co_instances c') (ProjectKey_String k) = Some a"
        if r: "\<not> removals" "(ph(p := ?x)) q = BootPreparing k a" for q k a
      proof (cases "q = p")
        case True
        with r(2) new show ?thesis by (auto simp: after_lookup_def split: if_splits)
      next
        case False
        with r have old: "map_of (co_instances c) (ProjectKey_String k) = Some a" using ok(4) by simp
        have "map_of (co_instances c) (ProjectKey_String key) = None"
          using new(4) ok(1) unfolding entries_ok_def by (metis option.exhaust)
        with old new show ?thesis by auto
      qed
    qed
  qed
qed

lemma prepared_inv:
  assumes inv: "boot_inv removals (c, ph)" and p: "ph p = BootPreparing key a"
  shows "boot_inv removals (bootstrap_done a answer c, ph(p := after_prepare a answer))" (is "boot_inv _ (?c, ?ph)")
proof -
  note ok = boot_invD [OF inv]
  from ok(2) [of p] p obtain e where e: "map_of (co_entries c) a = Some e" "preparing e a" by auto
  define e' where "e' = (case answer of None \<Rightarrow> e | Some x \<Rightarrow> e\<lparr>pe_instance := None, pe_err := Some x\<rparr>)\<lparr>pe_ready := False\<rparr>"
  have c: "?c = c\<lparr>co_entries := AList.update a e' (co_entries c)\<rparr>"
    using e by (simp add: bootstrap_done_def e'_def Let_def)
  have answer: "after_prepare a answer = BootDone (Some a) z \<Longrightarrow> entry_answer e' a = Some z" for z
    using e(2) by (auto simp: after_prepare_def e'_def entry_answer_def preparing_def split: option.splits)
  have me: "q = p" if "prepares (ph q) a" for q using ok(3) [OF that, of p] p by (simp add: prepares_def)
  have prep: "prepares (?ph q) b \<longleftrightarrow> prepares (ph q) b \<and> q \<noteq> p" for q b
    by (auto simp: after_prepare_def prepares_def)
  have others: "prepares (ph p) b \<longleftrightarrow> b = a" for b using p by (auto simp: prepares_def)
  show ?thesis
  proof (rule boot_invI)
    show "entries_ok ?c ?ph"
      unfolding entries_ok_def prep
    proof (intro conjI allI impI)
      fix b x
      assume x: "map_of (co_entries ?c) b = Some x"
      show "b < co_next ?c" using x ok(1) e(1) by (auto simp: c entries_ok_def split: if_splits)
      show "preparing x b \<and> (\<exists>q. prepares (ph q) b \<and> q \<noteq> p) \<or> entry_answer x b \<noteq> None"
      proof (cases "b = a")
        case True
        with x answer show ?thesis by (auto simp: c after_prepare_def)
      next
        case False
        with x have "map_of (co_entries c) b = Some x" by (simp add: c)
        with ok(1) False others show ?thesis unfolding entries_ok_def by blast
      qed
    next
      fix k b
      assume "map_of (co_instances ?c) k = Some b"
      with ok(1) show "map_of (co_entries ?c) b \<noteq> None" by (auto simp: c entries_ok_def)
    qed
    show "phase_ok ?c (?ph q)" for q
    proof (cases "q = p")
      case True
      then show ?thesis using answer by (auto simp: after_prepare_def c)
    next
      case False
      have "phase_ok ?c (ph q)"
      proof (cases "ph q")
        case (BootPreparing k b)
        with me [of q] False have "b \<noteq> a" by (auto simp: prepares_def)
        with ok(2) [of q] BootPreparing show ?thesis by (auto simp: c)
      next
        case (BootDone via z)
        have "entry_answer e a = None" using e(2) by (simp add: preparing_def entry_answer_def)
        with ok(2) [of q] e(1) BootDone show ?thesis by (cases via) (auto simp: c)
      qed (use ok(2) [of q] in \<open>auto simp: c\<close>)
      with False show ?thesis by simp
    qed
    show "q = u" if "prepares (?ph q) b" "prepares (?ph u) b" for q u b
      using that ok(3) unfolding prep by blast
    show "map_of (co_instances ?c) (ProjectKey_String k) = Some b" if "\<not> removals" "?ph q = BootPreparing k b" for q k b
      using that ok(4) by (auto simp: c after_prepare_def split: if_splits)
  qed
qed

lemma woken_inv:
  assumes inv: "boot_inv removals (c, ph)" and p: "ph p = BootWaiting a" "\<not> still_preparing a c"
  shows "boot_inv removals (c, ph(p := after_wait a c))"
    and "\<exists>e answer. map_of (co_entries c) a = Some e \<and> entry_answer e a = Some answer \<and> after_wait a c = BootDone (Some a) answer"
proof -
  note ok = boot_invD [OF inv]
  from ok(2) [of p] p(1) obtain e where e: "map_of (co_entries c) a = Some e" by auto
  with p(2) have "\<not> pe_ready e" by (simp add: still_preparing_def)
  with ok(1) e have "entry_answer e a \<noteq> None" by (auto simp: entries_ok_def preparing_def)
  then obtain z where z: "entry_answer e a = Some z" by blast
  with e have w: "after_wait a c = BootDone (Some a) z"
    by (auto simp: after_wait_def waiter_result_def entry_answer_def split: option.splits if_splits)
  with e z p(1) ok(4) show "boot_inv removals (c, ph(p := after_wait a c))"
    by (intro calm_step [OF inv]) (auto simp: prepares_def)
  show "\<exists>e answer. map_of (co_entries c) a = Some e \<and> entry_answer e a = Some answer \<and> after_wait a c = BootDone (Some a) answer"
    using e z w by blast
qed

lemma removed_inv:
  assumes inv: "boot_inv True (c, ph)"
  shows "boot_inv True (c\<lparr>co_instances := AList.delete k (co_instances c)\<rparr>, ph)"
proof (rule boot_invI)
  note ok = boot_invD [OF inv]
  show "entries_ok (c\<lparr>co_instances := AList.delete k (co_instances c)\<rparr>) ph"
    using ok(1) by (auto simp: entries_ok_def split: if_splits)
  show "phase_ok (c\<lparr>co_instances := AList.delete k (co_instances c)\<rparr>) (ph q)" for q
    by (rule phase_ok_entries [OF ok(2)]) simp
qed (use boot_invD(3) [OF inv] in auto)

lemma boot_reachable_inv: "boot_reachable removals s \<Longrightarrow> boot_inv removals s"
proof (induction rule: boot_reachable.induct)
  case (start bootstrap)
  show ?case by (rule boot_invI) (simp_all add: newProjectCoordinator_def entries_ok_def prepares_def)
next
  case (step s t)
  from step.hyps(2) step.IH show ?case
    by cases (auto intro: look_inv prepared_inv woken_inv removed_inv)
qed

section \<open>Properties\<close>

text \<open>
  C7: Callers that ask for a project at the same time never wait for nothing. In every reachable state a
  waiting caller either waits for a preparation that exactly one other caller is running, and is not
  that caller itself, or its entry is settled and its next step returns the entry's answer: it does not
  go round the loop again. So no interleaving blocks a waiter once its preparation has returned.
\<close>

theorem waiter_is_woken:
  assumes "boot_reachable removals (c, ph)" "ph p = BootWaiting a"
  shows "(still_preparing a c \<and> (\<exists>!q. prepares (ph q) a) \<and> \<not> prepares (ph p) a) \<or>
    (\<not> still_preparing a c \<and>
     (\<exists>answer. boot_step removals (c, ph) (c, ph(p := BootDone (Some a) answer))))"
proof (cases "still_preparing a c")
  case True
  note ok = boot_invD [OF boot_reachable_inv [OF assms(1)]]
  from True obtain e where e: "map_of (co_entries c) a = Some e" "pe_ready e"
    by (auto simp: still_preparing_def split: option.splits)
  moreover have "entry_answer e a = None" using e(2) by (simp add: entry_answer_def)
  ultimately have "\<exists>q. prepares (ph q) a" using ok(1) unfolding entries_ok_def by blast
  with ok(3) True assms(2) show ?thesis by (auto simp: prepares_def)
next
  case False
  obtain z where "after_wait a c = BootDone (Some a) z"
    using woken_inv(2) [OF boot_reachable_inv [OF assms(1)] assms(2) False] by blast
  with boot_step.woken [of ph p a c removals] assms(2) False show ?thesis by auto
qed

text \<open>Two callers: the first prepares the project, the second waits for it.\<close>

definition boot_demo_key :: ProjectKey where
  "boot_demo_key = \<lparr>key_Username = ''u'', key_ProjectID = ''p''\<rparr>"

definition boot_demo :: ProjectCoordinator where
  "boot_demo = snd (lookup_step boot_demo_key (newProjectCoordinator True))"

definition boot_demo_phases :: "nat \<Rightarrow> boot_phase" where
  "boot_demo_phases = (\<lambda>_. BootLooking)(0 := BootPreparing boot_demo_key 0, 1 := BootWaiting 0)"

lemma boot_demo_reachable: "boot_reachable False (boot_demo, boot_demo_phases)"
proof -
  have "case lookup_step boot_demo_key (newProjectCoordinator True) of (LookupPrepare a b, _) \<Rightarrow> a = 0 | _ \<Rightarrow> False"
    by code_simp
  then obtain b where 1: "lookup_step boot_demo_key (newProjectCoordinator True) = (LookupPrepare 0 b, boot_demo)"
    by (cases "lookup_step boot_demo_key (newProjectCoordinator True)")
      (auto simp: boot_demo_def split: lookup_result.splits)
  have "case lookup_step boot_demo_key boot_demo of (LookupWait a, c) \<Rightarrow> a = 0 | _ \<Rightarrow> False"
    by code_simp
  moreover have "r = LookupWait a \<Longrightarrow> c = boot_demo" if "lookup_step boot_demo_key boot_demo = (r, c)" for r c a
    using that by (cases rule: lookup_cases) (auto split: if_splits)
  ultimately have 2: "lookup_step boot_demo_key boot_demo = (LookupWait 0, boot_demo)"
    by (cases "lookup_step boot_demo_key boot_demo") (auto split: lookup_result.splits)
  let ?first = "(\<lambda>_. BootLooking)(0 := BootPreparing boot_demo_key 0)"
  have "boot_step False (newProjectCoordinator True, \<lambda>_. BootLooking) (boot_demo, ?first)"
    using boot_step.look [of "\<lambda>_. BootLooking" 0 boot_demo_key "newProjectCoordinator True", OF _ 1]
    by (simp add: after_lookup_def)
  then have "boot_reachable False (boot_demo, ?first)" by (rule boot_reachable.step [OF boot_reachable.start])
  moreover have "boot_step False (boot_demo, ?first) (boot_demo, boot_demo_phases)"
    using boot_step.look [of ?first 1 boot_demo_key boot_demo, OF _ 2]
    by (simp add: after_lookup_def boot_demo_phases_def)
  ultimately show ?thesis by (rule boot_reachable.step)
qed

theorem waiter_is_woken_witness:
  "still_preparing 0 boot_demo \<and> (\<exists>!q. prepares (boot_demo_phases q) 0)"
proof -
  have w: "boot_demo_phases 1 = BootWaiting 0" by (simp add: boot_demo_phases_def)
  have "still_preparing 0 boot_demo" by code_simp
  with waiter_is_woken [OF boot_demo_reachable w] show ?thesis by blast
qed

text \<open>
  C18: Everybody who asked for the same project entry gets the same answer, the instance or the failure of its
  one preparation; and unless projects are removed meanwhile, no project is being prepared twice at
  the same time.
\<close>

theorem one_preparation_per_project:
  assumes "boot_reachable removals (c, ph)"
  shows "(ph p = BootDone (Some a) x \<longrightarrow> ph q = BootDone (Some a) y \<longrightarrow> x = y) \<and>
    (ph p = BootPreparing key a \<longrightarrow> ph q = BootPreparing key' a \<longrightarrow> p = q) \<and>
    (\<not> removals \<longrightarrow> ph p = BootPreparing key a \<longrightarrow> ph q = BootPreparing key' b \<longrightarrow>
       ProjectKey_String key = ProjectKey_String key' \<longrightarrow> p = q \<and> a = b)"
proof (intro conjI impI)
  note ok = boot_invD [OF boot_reachable_inv [OF assms]]
  show "x = y" if "ph p = BootDone (Some a) x" "ph q = BootDone (Some a) y"
    using ok(2) [of p] ok(2) [of q] that by auto
  show same: "p = q" if "ph p = BootPreparing key a" "ph q = BootPreparing key' a" for key key' a
    using ok(3) [of p a q] that by (auto simp: prepares_def)
  show ab: "a = b" if "\<not> removals" "ph p = BootPreparing key a" "ph q = BootPreparing key' b"
    "ProjectKey_String key = ProjectKey_String key'"
    using ok(4) [of p key a] ok(4) [of q key' b] that by simp
  then show "p = q" if "\<not> removals" "ph p = BootPreparing key a" "ph q = BootPreparing key' b"
    "ProjectKey_String key = ProjectKey_String key'"
    using same that by blast
qed

theorem one_preparation_per_project_witness:
  "boot_demo_phases 0 = BootPreparing boot_demo_key 0 \<and>
   {q. \<exists>b. boot_demo_phases q = BootPreparing boot_demo_key b} = {0}"
proof -
  have "boot_demo_phases 0 = BootPreparing boot_demo_key 0" by (simp add: boot_demo_phases_def)
  with one_preparation_per_project [OF boot_demo_reachable, where p = 0 and key = boot_demo_key and a = 0
      and key' = boot_demo_key] show ?thesis by blast
qed

end
