(* ===== verification/Control_Properties.thy ===== *)
theory Control_Properties
  imports Control_Kept Control_Demo Bootstrap
begin

text \<open>
  The invariant of the control service and what follows from it: the registry's invariant, every
  project instance within its own invariant, a well-formed coordinator, and that everybody attached to a
  current project is a live session of that project.
\<close>

section \<open>The invariant\<close>

definition key_at :: "ProjectCoordinator \<Rightarrow> nat \<Rightarrow> string option" where
  "key_at c a = map_option (\<lambda>i. ProjectKey_String (in_key i)) (map_of (co_objects c) a)"

text \<open>An entry in the coordinator's map is prepared, and has either its instance or an error.\<close>

definition entry_ok :: "string \<Rightarrow> nat \<Rightarrow> projectEntry option \<Rightarrow> string option \<Rightarrow> bool" where
  "entry_ok k a entry key \<longleftrightarrow>
     (\<exists>e. entry = Some e \<and> \<not> pe_ready e \<and>
        (pe_err e = None \<and> pe_instance e = Some a \<and> key = Some k \<or> pe_err e \<noteq> None \<and> pe_instance e = None))"

definition coord_ok :: "ProjectCoordinator \<Rightarrow> bool" where
  "coord_ok c \<longleftrightarrow>
     (\<forall>a. co_next c \<le> a \<longrightarrow> map_of (co_entries c) a = None \<and> map_of (co_objects c) a = None) \<and>
     (\<forall>a i. map_of (co_objects c) a = Some i \<longrightarrow> inst_inv i) \<and>
     (\<forall>k a. map_of (co_instances c) k = Some a \<longrightarrow> entry_ok k a (map_of (co_entries c) a) (key_at c a))"

definition session_key :: "SessionRegistry \<Rightarrow> string \<Rightarrow> ProjectKey option" where
  "session_key = viewed projectKeyForSession"

definition participants_ok :: "Service \<Rightarrow> bool" where
  "participants_ok s \<longleftrightarrow>
     (\<forall>k a i c. current s k = Some a \<longrightarrow> object_at s a = Some i \<longrightarrow> map_of (in_clients i) c \<noteq> None \<longrightarrow>
        map_option ProjectKey_String (session_key (sv_sessions s) c) = Some k)"

definition svc_inv :: "Service \<Rightarrow> bool" where
  "svc_inv s \<longleftrightarrow> reg_inv (sv_sessions s) \<and> coord_ok (sv_projects s) \<and> participants_ok s"

interpretation key_view: session_view projectKeyForSession
  by unfold_locales (simp add: projectKeyForSession_def)

section \<open>Registry operations\<close>

lemma Retain_view_key:
  assumes "reg_inv r"
  shows "session_key (snd (Registry_RetainClient wall c r)) = session_key r"
proof (cases "recordLocked c r")
  case (Inr x)
  then obtain a rc where "recordLocked c r = Inr (a, rc)" by (cases x) auto
  then show ?thesis
    by (simp add: Registry_RetainClient_def session_key_def key_view.view_keep [OF assms] projectKeyForSession_def)
qed (simp add: Registry_RetainClient_def)

lemma reg_apply_key:
  assumes "reg_inv r" "plain_reg_op op r" "session_key r c = Some k"
  shows "session_key (reg_apply traffic wall op r) c = Some k"
proof (cases op)
  case (RegHello p q)
  have "session_key r (client_id (reg_nextClientID r + 1)) = None"
    using HelloPrincipal_fresh(1) [OF assms(1)] assms(2) RegHello by (simp add: session_key_def key_view.view_bind)
  with assms RegHello show ?thesis
    by (auto simp: session_key_def key_view.view_hello)
qed (use assms Retain_view_key [OF assms(1)] in
    \<open>simp_all add: session_key_def key_view.view_quiet key_view.view_disconnect RemoveProjectOwnerFileClients_def
      key_view.view_remove_owner_files\<close>)

lemma release_key:
  assumes "reg_inv r" "Registry_ReleaseClient traffic wall c r = (answer, r')"
  shows "session_key r' = (case answer of Inr (Some x) \<Rightarrow> (session_key r)(c := None) | _ \<Rightarrow> session_key r)"
    and "answer = Inr (Some x) \<Longrightarrow> session_key r c = Some (projectKeyForSession (rel_Session x))"
proof -
  have "session_key r' = (case answer of Inr (Some x) \<Rightarrow> (session_key r)(c := None) | _ \<Rightarrow> session_key r) \<and>
    (\<forall>x. answer = Inr (Some x) \<longrightarrow> session_key r c = Some (projectKeyForSession (rel_Session x)))"
  proof (cases "recordLocked c r")
    case (Inr y)
    then obtain a rc where y: "recordLocked c r = Inr (a, rc)" by (cases y) auto
    have keep: "viewed projectKeyForSession (write_record a new r) = viewed projectKeyForSession r"
      if "projectKeyForSession (lr_session new) = projectKeyForSession (lr_session rc)" for new
      using key_view.view_keep [OF assms(1) y that] .
    show ?thesis
      using assms(2) y keep key_view.view_gone [OF assms(1) y] key_view.view_recordLocked(1) [OF y]
      by (auto simp: Registry_ReleaseClient_def session_key_def key_view.view_frame projectKeyForSession_def Let_def
          split: if_splits)
  qed (use assms(2) in \<open>auto simp: Registry_ReleaseClient_def\<close>)
  then show "session_key r' = (case answer of Inr (Some x) \<Rightarrow> (session_key r)(c := None) | _ \<Rightarrow> session_key r)"
    "answer = Inr (Some x) \<Longrightarrow> session_key r c = Some (projectKeyForSession (rel_Session x))" by auto
qed

section \<open>Instances\<close>

lemma check_drift_frame [simp]:
  "in_key (check_drift wall c d r now i) = in_key i"
  "map_of (in_clients (check_drift wall c d r now i)) b = None \<longleftrightarrow> map_of (in_clients i) b = None"
  by (auto simp: check_drift_def Let_def split: option.splits SourceDiffLevel.splits)

lemma attach_frame:
  "in_key (inst_apply wall now (OpAttach c d r w k) i) = in_key i"
  "b \<noteq> c \<Longrightarrow> map_of (in_clients i) b = None \<Longrightarrow> map_of (in_clients (inst_apply wall now (OpAttach c d r w k) i)) b = None"
  by (auto simp: AttachClientWithSession_def join_client_def bind_authority_def Let_def
      split: option.splits sum.splits if_splits)

lemma update_command_frame [simp]:
  "in_key (snd (update_command wall cid upd now i)) = in_key i"
  "in_clients (snd (update_command wall cid upd now i)) = in_clients i"
  by (simp_all add: update_command_def Let_def split: option.splits)

lemma delete_absent: "map_of m c = None \<Longrightarrow> AList.delete c m = m"
  by (simp add: delete_id map_of_eq_None_iff)

lemma remove_frame:
  "in_key (snd (RemoveClient wall c now i)) = in_key i"
  "in_clients (snd (RemoveClient wall c now i)) = AList.delete c (in_clients i)"
  by (auto simp: RemoveClient_def Let_def delete_absent split: option.splits)

lemma confirm_frame:
  "in_key (snd (ConfirmReconcileWithSession wall c x d w k now i)) = in_key i"
  "map_of (in_clients (snd (ConfirmReconcileWithSession wall c x d w k now i))) b = None \<longleftrightarrow>
     map_of (in_clients i) b = None"
  by (auto simp: ConfirmReconcileWithSession_def Let_def map_of_map_values)

lemma other_frames:
  "in_key (snd (CompleteInitialSync wall c e now i)) = in_key i"
  "in_clients (snd (CompleteInitialSync wall c e now i)) = in_clients i"
  "in_key (snd (ReportSyncProgress wall c p e now i)) = in_key i"
  "in_clients (snd (ReportSyncProgress wall c p e now i)) = in_clients i"
  "in_key (snd (StartCommand wall c a t m now i)) = in_key i"
  "in_clients (snd (StartCommand wall c a t m now i)) = in_clients i"
  "in_key (snd (EnterAuthorityRebinding wall c now i)) = in_key i"
  "in_clients (snd (EnterAuthorityRebinding wall c now i)) = in_clients i"
  "in_key (Terminate wall reason now i) = in_key i"
  "in_clients (Terminate wall reason now i) = in_clients i"
  by (simp_all add: CompleteInitialSync_def ReportSyncProgress_def StartCommand_def EnterAuthorityRebinding_def
      Terminate_def Let_def split: option.splits sum.splits)

lemma plain_op_frame:
  assumes "plain_inst_op op i"
  shows "in_key (inst_apply wall now op i) = in_key i"
    "map_of (in_clients i) b = None \<Longrightarrow> map_of (in_clients (inst_apply wall now op i)) b = None"
  using assms
  by (cases op; simp add: remove_frame confirm_frame other_frames FinishCommand_def FailCommand_def
      SubscribeProjectEvents_def UnsubscribeProjectEvents_def split_def)+

lemma plain_op_inv:
  assumes "inst_inv i" "plain_inst_op op i"
  shows "inst_inv (inst_apply wall now op i)"
  using assms
  by (cases op)
    (simp_all add: CompleteInitialSync_inv ConfirmReconcile_inv ReportSyncProgress_inv StartCommand_inv
      update_command_inv EnterAuthorityRebinding_inv Terminate_inv RemoveClient_inv FinishCommand_def FailCommand_def
      SubscribeProjectEvents_def UnsubscribeProjectEvents_def split_def)

section \<open>The coordinator\<close>

lemma coord_fresh:
  "coord_ok c \<Longrightarrow> co_next c \<le> a \<Longrightarrow> map_of (co_entries c) a = None \<and> map_of (co_objects c) a = None"
  unfolding coord_ok_def by blast

lemma coord_inst: "coord_ok c \<Longrightarrow> map_of (co_objects c) a = Some i \<Longrightarrow> inst_inv i"
  unfolding coord_ok_def by blast

lemma coord_entry:
  "coord_ok c \<Longrightarrow> map_of (co_instances c) k = Some a \<Longrightarrow> entry_ok k a (map_of (co_entries c) a) (key_at c a)"
  unfolding coord_ok_def by blast

lemma current_obj:
  assumes "coord_ok (sv_projects s)" "current s k = Some a"
  obtains i where "object_at s a = Some i" "ProjectKey_String (in_key i) = k"
    "map_of (co_instances (sv_projects s)) k = Some a"
proof -
  from assms(2) obtain b e where b: "map_of (co_instances (sv_projects s)) k = Some b"
    "map_of (co_entries (sv_projects s)) b = Some e" "pe_instance e = Some a"
    by (auto simp: current_def bind_eq_Some_conv)
  with coord_entry [OF assms(1) b(1)] have e: "a = b" "key_at (sv_projects s) a = Some k"
    by (simp_all add: entry_ok_def)
  from e(2) obtain i where "object_at s a = Some i" "ProjectKey_String (in_key i) = k"
    by (auto simp: key_at_def)
  with e(1) b(1) show ?thesis by (intro that [of i]) simp_all
qed

lemma instanceIfExists_current: "instanceIfExists key s = current s (ProjectKey_String key)"
  by (simp add: instanceIfExists_def current_def)

lemma coord_ok_set_object:
  assumes c: "coord_ok c" "map_of (co_objects c) a = Some i" and j: "in_key j = in_key i" "inst_inv j"
  shows "coord_ok (c\<lparr>co_objects := AList.update a j (co_objects c)\<rparr>)" (is "coord_ok ?c")
proof -
  have "key_at ?c b = key_at c b" for b using c j by (auto simp: key_at_def)
  moreover have "a < co_next c" using coord_fresh [OF c(1), of a] c(2) by (auto simp: not_le [symmetric])
  ultimately show ?thesis using c j by (auto simp: coord_ok_def)
qed

lemma current_set_object [simp]: "current (set_object a j s) k = current s k"
  by (simp add: set_object_def current_def)

lemma set_object_simps [simp]:
  "sv_sessions (set_object a j s) = sv_sessions s"
  "object_at (set_object a j s) b = (if b = a then Some j else object_at s b)"
  by (auto simp: set_object_def)

text \<open>A change of the instance at an address.\<close>

lemma participantsD:
  assumes "participants_ok s" "current s k = Some a" "object_at s a = Some i" "map_of (in_clients i) c \<noteq> None"
  shows "map_option ProjectKey_String (session_key (sv_sessions s) c) = Some k"
  using assms unfolding participants_ok_def by blast

lemma set_object_inv:
  assumes inv: "svc_inv s" and old: "object_at s a = Some i" and new: "in_key j = in_key i" "inst_inv j"
    and clients: "\<And>k c. current s k = Some a \<Longrightarrow> map_of (in_clients j) c \<noteq> None \<Longrightarrow> map_of (in_clients i) c = None \<Longrightarrow>
      map_option ProjectKey_String (session_key (sv_sessions s) c) = Some k"
  shows "svc_inv (set_object a j s)"
proof -
  have "coord_ok (sv_projects (set_object a j s))"
    using inv coord_ok_set_object [OF _ old new] by (simp add: svc_inv_def set_object_def)
  moreover have "participants_ok (set_object a j s)"
    unfolding participants_ok_def
  proof (intro allI impI)
    fix k b x c
    assume "current (set_object a j s) k = Some b" "object_at (set_object a j s) b = Some x"
      "map_of (in_clients x) c \<noteq> None"
    then show "map_option ProjectKey_String (session_key (sv_sessions (set_object a j s)) c) = Some k"
      using clients [of k c] participantsD [of s k b _ c] inv old
      by (cases "b = a"; cases "map_of (in_clients i) c") (auto simp: svc_inv_def)
  qed
  ultimately show ?thesis using inv by (simp add: svc_inv_def)
qed

lemma current_sessions [simp]: "current (s\<lparr>sv_sessions := r\<rparr>) k = current s k"
  by (simp add: current_def)

lemma participants_sessions:
  assumes "participants_ok s" "\<And>c k. session_key (sv_sessions s) c = Some k \<Longrightarrow> session_key r c = Some k"
  shows "participants_ok (s\<lparr>sv_sessions := r\<rparr>)"
  unfolding participants_ok_def
  using assms(2) participantsD [OF assms(1)] by (auto dest!: participantsD [OF assms(1)])

lemma coord_ok_forget: "coord_ok c \<Longrightarrow> coord_ok (c\<lparr>co_instances := AList.delete k (co_instances c)\<rparr>)"
  by (auto simp: coord_ok_def key_at_def split: if_splits)

text \<open>A look-up on a well-formed coordinator adds at most one project, without clients.\<close>

lemma lookup_step_cases:
  assumes "coord_ok c" "lookup_step key c = (r, d)"
  shows "(\<exists>i. r = LookupPrepare (co_next c) (co_next c) \<and> NewInstance key = Inr i \<and>
       d = add_project (ProjectKey_String key) i \<lparr>pe_instance = Some (co_next c), pe_ready = True, pe_err = None\<rparr> c) \<or>
     ((\<forall>a b. r \<noteq> LookupPrepare a b) \<and>
      (d = c \<or> d = c\<lparr>co_instances := AList.delete (ProjectKey_String key) (co_instances c)\<rparr> \<or>
       (\<exists>i. NewInstance key = Inr i \<and>
          d = add_project (ProjectKey_String key) i \<lparr>pe_instance = Some (co_next c), pe_ready = False, pe_err = None\<rparr> c)))"
  using assms(2) by (cases rule: lookup_cases) auto

lemma coord_ok_add:
  assumes c: "coord_ok c" and i: "inst_inv i" "ProjectKey_String (in_key i) = k"
    and e: "\<not> pe_ready e" "pe_err e = None \<and> pe_instance e = Some (co_next c) \<or> pe_err e \<noteq> None \<and> pe_instance e = None"
  shows "coord_ok (add_project k i e c)" (is "coord_ok ?c")
proof -
  have old: "map_of (co_entries ?c) a = map_of (co_entries c) a" "key_at ?c a = key_at c a"
    if "map_of (co_instances c) h = Some a" for h a
  proof -
    have "map_of (co_entries c) a \<noteq> None"
      using coord_entry [OF c that] by (auto simp: entry_ok_def)
    then have "a \<noteq> co_next c" using coord_fresh [OF c, of "co_next c"] by auto
    then show "map_of (co_entries ?c) a = map_of (co_entries c) a" "key_at ?c a = key_at c a"
      by (auto simp: add_project_def key_at_def)
  qed
  have "entry_ok h a (map_of (co_entries ?c) a) (key_at ?c a)" if h: "map_of (co_instances ?c) h = Some a" for h a
  proof (cases "h = k")
    case True
    with h have "a = co_next c" by (simp add: add_project_def)
    with True e i show ?thesis by (auto simp: add_project_def key_at_def entry_ok_def)
  next
    case False
    with h have "map_of (co_instances c) h = Some a" by (simp add: add_project_def)
    with old coord_entry [OF c this] show ?thesis by simp
  qed
  moreover have "inst_inv j" if "map_of (co_objects ?c) a = Some j" for a j
    using that coord_inst [OF c, of a j] i by (auto simp: add_project_def split: if_splits)
  moreover have "map_of (co_entries ?c) a = None \<and> map_of (co_objects ?c) a = None" if "co_next ?c \<le> a" for a
    using that coord_fresh [OF c, of a] by (auto simp: add_project_def)
  ultimately show ?thesis unfolding coord_ok_def by blast
qed

definition grown :: "ProjectCoordinator \<Rightarrow> ProjectCoordinator \<Rightarrow> bool" where
  "grown c d \<longleftrightarrow> coord_ok d \<and> (\<forall>a i. map_of (co_objects c) a = Some i \<longrightarrow> map_of (co_objects d) a = Some i) \<and>
     (\<forall>k a i. answered k a d \<longrightarrow> map_of (co_objects d) a = Some i \<longrightarrow>
        in_clients i = [] \<or> answered k a c \<and> map_of (co_objects c) a = Some i)"

lemma grown_coord: "grown c d \<Longrightarrow> coord_ok d"
  by (simp add: grown_def)

lemma grown_object: "grown c d \<Longrightarrow> map_of (co_objects c) a = Some i \<Longrightarrow> map_of (co_objects d) a = Some i"
  by (simp add: grown_def)

lemma grown_answered:
  "grown c d \<Longrightarrow> answered k a d \<Longrightarrow> map_of (co_objects d) a = Some i \<Longrightarrow> in_clients i \<noteq> [] \<Longrightarrow>
   answered k a c \<and> map_of (co_objects c) a = Some i"
  unfolding grown_def by blast

lemma grown_refl: "coord_ok c \<Longrightarrow> grown c c"
  by (simp add: grown_def)

lemma grown_trans: "grown c d \<Longrightarrow> grown d e \<Longrightarrow> grown c e"
  unfolding grown_def by blast

lemma grown_forget: "coord_ok c \<Longrightarrow> grown c (c\<lparr>co_instances := AList.delete k (co_instances c)\<rparr>)"
  by (auto simp: grown_def coord_ok_forget answered_def split: if_splits)

lemma NewInstance_empty: "NewInstance key = Inr i \<Longrightarrow> in_key i = key \<and> in_clients i = []"
  by (auto simp: NewInstance_def split: if_splits sum.splits)

lemma grown_add:
  assumes c: "coord_ok c" and i: "NewInstance key = Inr i"
    and e: "\<not> pe_ready e" "pe_err e = None \<and> pe_instance e = Some (co_next c) \<or> pe_err e \<noteq> None \<and> pe_instance e = None"
  shows "grown c (add_project (ProjectKey_String key) i e c)" (is "grown c ?c")
proof -
  have "coord_ok ?c"
    using coord_ok_add [OF c NewInstance_inv [OF i] _ e] NewInstance_empty [OF i] by simp
  moreover have "in_clients j = [] \<or> answered k a c \<and> map_of (co_objects c) a = Some j"
    if k: "answered k a ?c" "map_of (co_objects ?c) a = Some j" for k a j
  proof (cases "a = co_next c")
    case True
    with k(2) NewInstance_empty [OF i] show ?thesis by (auto simp: add_project_def)
  next
    case False
    with k(2) have j: "map_of (co_objects c) a = Some j" by (simp add: add_project_def)
    have "answered k a c"
      using k(1) False e(2) by (auto simp: answered_def add_project_def split: if_splits)
    with j show ?thesis by blast
  qed
  moreover have "map_of (co_objects ?c) a = Some j" if "map_of (co_objects c) a = Some j" for a j
    using that coord_fresh [OF c, of "co_next c"] by (auto simp: add_project_def)
  ultimately show ?thesis unfolding grown_def by blast
qed

lemma instance_loop_grown: "coord_ok c \<Longrightarrow> grown c (snd (snd (instance_loop n prepare key c)))"
proof (induction n arbitrary: c)
  case (Suc n)
  obtain step d where step: "lookup_step key c = (step, d)" by fastforce
  show ?case
  proof (cases "\<exists>a b. step = LookupPrepare a b")
    case True
    then obtain i where i: "NewInstance key = Inr i" "step = LookupPrepare (co_next c) (co_next c)"
      "d = add_project (ProjectKey_String key) i \<lparr>pe_instance = Some (co_next c), pe_ready = True, pe_err = None\<rparr> c"
      using lookup_step_cases [OF Suc.prems step] by auto
    then show ?thesis
      using step grown_add [OF Suc.prems i(1)] by (simp add: bootstrap_done_add Let_def split: option.splits)
  next
    case False
    then have d: "grown c d"
      using lookup_step_cases [OF Suc.prems step] Suc.prems
      by (auto simp: grown_refl grown_forget intro!: grown_add)
    then have "grown c (snd (snd (instance_loop n prepare key d)))"
      using Suc.IH grown_trans unfolding grown_def by blast
    with d False step show ?thesis by (simp split: lookup_result.splits option.splits)
  qed
qed (simp add: grown_refl)

section \<open>The handlers keep the invariant\<close>

lemma current_answered: "current s k = Some a \<longleftrightarrow> answered k a (sv_projects s)"
  by (auto simp: current_def answered_def bind_eq_Some_conv)

lemma looked_up_inv:
  assumes "svc_inv s"
  shows "svc_inv (looked_up prepare key s)"
proof -
  let ?c = "snd (snd (instance_loop 2 prepare key (sv_projects s)))"
  have grown: "grown (sv_projects s) ?c"
    using assms by (intro instance_loop_grown) (simp add: svc_inv_def)
  have "participants_ok (looked_up prepare key s)"
    unfolding participants_ok_def
  proof (intro allI impI)
    fix k a i c
    assume k: "current (looked_up prepare key s) k = Some a" "object_at (looked_up prepare key s) a = Some i"
      "map_of (in_clients i) c \<noteq> None"
    then have "in_clients i \<noteq> []" by auto
    with k grown_answered [OF grown, of k a i] have "current s k = Some a" "object_at s a = Some i"
      by (simp_all add: current_answered looked_up_def)
    with k(3) assms show "map_option ProjectKey_String (session_key (sv_sessions (looked_up prepare key s)) c) = Some k"
      by (simp add: svc_inv_def participantsD looked_up_def)
  qed
  with grown assms show ?thesis by (simp add: svc_inv_def looked_up_def grown_coord)
qed

text \<open>The registry drops the session and the instance drops the client.\<close>

lemma leave_inv:
  assumes inv: "svc_inv s"
  shows "svc_inv (leave env c s)"
proof -
  obtain answer r where rel: "Registry_ReleaseClient (en_traffic env) (en_wall env) c (sv_sessions s) = (answer, r)"
    by fastforce
  have reg: "reg_inv (sv_sessions s)" using inv by (simp add: svc_inv_def)
  have r: "reg_inv r" using Registry_ReleaseClient_inv [OF reg, of "en_traffic env" "en_wall env" c] rel by simp
  note key = release_key [OF reg rel]
  show ?thesis
  proof (cases "\<exists>x. answer = Inr (Some x)")
    case False
    then have "session_key r = session_key (sv_sessions s)" using key(1) by (auto split: sum.splits option.splits)
    moreover have "leave env c s = s\<lparr>sv_sessions := r\<rparr>"
      using False rel by (auto simp: leave_def split: sum.splits option.splits)
    ultimately show ?thesis using inv r by (simp add: svc_inv_def participants_sessions)
  next
    case True
    then obtain x where x: "answer = Inr (Some x)" by blast
    let ?k = "ProjectKey_String (projectKeyForSession (rel_Session x))"
    have gone: "session_key r = (session_key (sv_sessions s))(c := None)"
      and old: "session_key (sv_sessions s) c = Some (projectKeyForSession (rel_Session x))"
      using key x by simp_all
    have others: "map_option ProjectKey_String (session_key r d) = Some k"
      if "current s k = Some a" "object_at s a = Some i" "map_of (in_clients i) d \<noteq> None" "d \<noteq> c \<or> k \<noteq> ?k" for k a i d
      using participantsD [OF _ that(1-3)] inv old that(4) by (auto simp: svc_inv_def gone)
    show ?thesis
    proof (cases "current s ?k")
      case None
      then have "leave env c s = s\<lparr>sv_sessions := r\<rparr>"
        using rel x by (simp add: leave_def instanceIfExists_current)
      moreover have "participants_ok (s\<lparr>sv_sessions := r\<rparr>)"
        unfolding participants_ok_def using others None by fastforce
      ultimately show ?thesis using inv r by (simp add: svc_inv_def)
    next
      case (Some a)
      then obtain i where i: "object_at s a = Some i" "ProjectKey_String (in_key i) = ?k"
        using current_obj [of s ?k a] inv by (auto simp: svc_inv_def)
      let ?j = "snd (RemoveClient (en_wall env) c (en_now env) i)" and ?s = "s\<lparr>sv_sessions := r\<rparr>"
      have leave: "leave env c s = set_object a ?j ?s"
        using rel x Some i by (simp add: leave_def instanceIfExists_current on_instance_def set_object_def split_def)
      have coord: "coord_ok (sv_projects (set_object a ?j ?s))"
        using inv i coord_inst RemoveClient_inv remove_frame
        by (auto simp: svc_inv_def set_object_def intro!: coord_ok_set_object)
      have "participants_ok (set_object a ?j ?s)"
        unfolding participants_ok_def
      proof (intro allI impI)
        fix k b y d
        assume k: "current (set_object a ?j ?s) k = Some b" "object_at (set_object a ?j ?s) b = Some y"
          "map_of (in_clients y) d \<noteq> None"
        have ks: "current s k = Some b" using k(1) by simp
        show "map_option ProjectKey_String (session_key (sv_sessions (set_object a ?j ?s)) d) = Some k"
        proof (cases "b = a")
          case True
          with k have "d \<noteq> c" "map_of (in_clients i) d \<noteq> None" by (auto simp: remove_frame split: if_splits)
          with others [OF ks] i True show ?thesis by simp
        next
          case False
          with ks Some have "k \<noteq> ?k" by auto
          with others [OF ks] k False show ?thesis by simp
        qed
      qed
      with coord r leave show ?thesis by (simp add: svc_inv_def)
    qed
  qed
qed

lemma registry_inv:
  assumes "svc_inv s" "plain_reg_op op (sv_sessions s)"
  shows "svc_inv (s\<lparr>sv_sessions := reg_apply traffic wall op (sv_sessions s)\<rparr>)"
proof -
  have "reg_inv (reg_apply traffic wall op (sv_sessions s))"
    using assms
    by (cases op) (simp_all add: svc_inv_def HelloPrincipal_inv Registry_RetainClient_inv
        Registry_RegisterOwnerFileClient_inv Registry_OwnerFileDisconnected_inv RemoveProjectOwnerFileClients_def
        remove_owner_files_inv BindControl_inv AttachChannel_inv DetachChannel_inv MarkActivity_inv
        TerminateSession_end_inv)
  with assms show ?thesis by (auto simp: svc_inv_def intro!: participants_sessions reg_apply_key)
qed

lemma attach_inv:
  assumes inv: "svc_inv s" and a: "object_at s a = Some i" "Registry_Session c (sv_sessions s) = Inr z"
    "current s (ProjectKey_String (projectKeyForSession z)) = Some a"
  shows "svc_inv (set_object a (inst_apply wall now (OpAttach c d r w k) i) s)"
proof (rule set_object_inv [OF inv a(1) attach_frame(1)])
  show "inst_inv (inst_apply wall now (OpAttach c d r w k) i)"
    using inv coord_inst a(1) by (auto simp: svc_inv_def intro: AttachClient_inv)
  fix l b
  assume l: "current s l = Some a" and b: "map_of (in_clients (inst_apply wall now (OpAttach c d r w k) i)) b \<noteq> None"
    "map_of (in_clients i) b = None"
  have "b = c" using attach_frame(2) [of b c i wall now d r w k] b by (cases "b = c") simp_all
  moreover have "l = ProjectKey_String (projectKeyForSession z)"
    using current_obj [OF _ l] current_obj [OF _ a(3)] inv by (metis option.inject svc_inv_def)
  ultimately show "map_option ProjectKey_String (session_key (sv_sessions s) b) = Some l"
    using a(2) by (simp add: session_key_def viewed_def)
qed

interpretation svc: svc_kept svc_inv
proof unfold_locales
  fix s t :: Service and op traffic wall now prepare key a i iop c z d r w k env
  assume inv: "svc_inv s"
  show "sv_sessions t = sv_sessions s \<Longrightarrow> sv_projects t = sv_projects s \<Longrightarrow> svc_inv t"
    using inv by (simp add: svc_inv_def participants_ok_def current_def)
  show "object_at s a = Some i \<Longrightarrow> plain_inst_op iop i \<Longrightarrow> svc_inv (set_object a (inst_apply wall now iop i) s)"
    using plain_op_frame [of iop i] plain_op_inv [of i iop] coord_inst [of "sv_projects s" a i] inv
    by (intro set_object_inv) (auto simp: svc_inv_def)
  have "participants_ok (forget_project k s)"
    using inv unfolding svc_inv_def participants_ok_def forget_project_def current_def by (auto split: if_splits)
  then show "svc_inv (forget_project k s)"
    using inv coord_ok_forget by (simp add: svc_inv_def forget_project_def)
qed (simp_all add: registry_inv looked_up_inv attach_inv leave_inv del: inst_apply.simps)

lemma reachable_inv:
  assumes "NewServiceWithDependencies True runtime observer = Inr s0" "svc_run s0 s"
  shows "svc_inv s"
proof (rule svc.svc_run_kept [OF assms(2)])
  show "svc_inv s0"
    using assms(1) by (auto simp: NewServiceWithDependencies_def newProjectCoordinator_def svc_inv_def coord_ok_def
        participants_ok_def current_def newSessionRegistry_inv split: sum.splits)
qed

lemma lookup_after_retry:
  assumes "lookup_step key c = (LookupRetry, c1)"
  shows "fst (lookup_step key c1) \<noteq> LookupRetry" "fst (lookup_step key c1) \<noteq> LookupWait a"
  using assms by (auto simp: lookup_step_def delete_conv' Let_def split: option.splits if_splits sum.splits Option.bind_splits)

text \<open>Two rounds of the loop are enough: more of them change nothing.\<close>

lemma two_rounds_enough:
  assumes "coord_ok c"
  shows "instance_loop (Suc (Suc n)) prepare key c = instance_loop 2 prepare key c"
proof -
  obtain r c1 where step: "lookup_step key c = (r, c1)" by (meson surj_pair)
  have "waiter_result a c1 \<noteq> None" if "r = LookupWait a" for a
    using step that assms unfolding coord_ok_def
    by (fastforce simp: lookup_step_def waiter_result_def entry_ok_def Let_def split: option.splits if_splits sum.splits Option.bind_splits)
  then show ?thesis
    using step lookup_after_retry [of key c c1]
    by (cases r; cases "lookup_step key c1"; cases "fst (lookup_step key c1)")
      (auto simp: numeral_2_eq_2 split: option.splits)
qed

lemma split_at_char: "c \<notin> set a \<Longrightarrow> c \<notin> set b \<Longrightarrow> a @ c # x = b @ c # y \<longleftrightarrow> a = b \<and> x = y"
proof (induction a arbitrary: b)
  case Nil
  then show ?case by (cases b) auto
next
  case (Cons h a)
  then show ?case by (cases b) auto
qed

definition plain_user :: "ProjectKey \<Rightarrow> bool" where
  "plain_user k \<longleftrightarrow> CHR ''/'' \<notin> set (key_Username k)"

lemma plain_user_inject: "plain_user k \<Longrightarrow> plain_user k' \<Longrightarrow> ProjectKey_String k = ProjectKey_String k' \<longleftrightarrow> k = k'"
  by (auto simp: plain_user_def ProjectKey_String_def split_at_char)

text \<open>
  C4: Whatever requests a daemon serves, everybody attached to a project that it hands out is a live
  session: no handler leaves a client attached whose session is gone. The session's project and
  the project have the same name, the user and the project id joined by a slash, which is all the code
  compares; when neither user name has a slash in it, they are the same project, so no such session is
  attached to somebody else's. Each such project instance meets its own invariant (one authority at
  most, which is attached; warnings and termination as its state says), and it is found under the name of
  its key.
\<close>

theorem attached_clients_are_sessions:
  assumes "NewServiceWithDependencies True runtime observer = Inr s0" "svc_run s0 s"
    "instanceIfExists key s = Some a"
  shows "\<exists>i. map_of (co_objects (sv_projects s)) a = Some i \<and> inst_inv i \<and>
    ProjectKey_String (in_key i) = ProjectKey_String key \<and>
    (\<forall>c cl. map_of (in_clients i) c = Some cl \<longrightarrow>
       (\<exists>z. Registry_Session c (sv_sessions s) = Inr z \<and> se_ClientID z = c \<and>
          ProjectKey_String (projectKeyForSession z) = ProjectKey_String key \<and>
          (plain_user key \<and> plain_user (projectKeyForSession z) \<longrightarrow> projectKeyForSession z = key)))"
proof -
  have inv: "svc_inv s" by (rule reachable_inv [OF assms(1,2)])
  then have c: "coord_ok (sv_projects s)" "reg_inv (sv_sessions s)" by (simp_all add: svc_inv_def)
  from assms(3) have cur: "current s (ProjectKey_String key) = Some a" by (simp add: instanceIfExists_current)
  then obtain i where i: "object_at s a = Some i" "ProjectKey_String (in_key i) = ProjectKey_String key"
    by (rule current_obj [OF c(1)])
  have "\<exists>z. Registry_Session b (sv_sessions s) = Inr z \<and> se_ClientID z = b \<and>
      ProjectKey_String (projectKeyForSession z) = ProjectKey_String key \<and>
      (plain_user key \<and> plain_user (projectKeyForSession z) \<longrightarrow> projectKeyForSession z = key)"
    if "map_of (in_clients i) b = Some cl" for b cl
  proof -
    have "map_option ProjectKey_String (session_key (sv_sessions s) b) = Some (ProjectKey_String key)"
      using participantsD [OF _ cur i(1), of b] that inv by (simp add: svc_inv_def)
    then obtain z where z: "Registry_Session b (sv_sessions s) = Inr z"
      "ProjectKey_String (projectKeyForSession z) = ProjectKey_String key"
      by (auto simp: session_key_def viewed_def split: sum.splits)
    then obtain h rc where rc: "recordLocked b (sv_sessions s) = Inr (h, rc)" "z = lr_session rc"
      by (auto simp: Registry_Session_def split: sum.splits)
    with recordLocked_live(3) [OF c(2) rc(1)] z plain_user_inject show ?thesis by (auto simp: live_ok_def)
  qed
  with i coord_inst [OF c(1) i(1)] show ?thesis by blast
qed

theorem attached_clients_are_sessions_witness:
  "\<exists>i. map_of (co_objects (sv_projects demo_svc2)) 0 = Some i \<and> inst_inv i \<and>
     map_of (in_clients i) ''client-0001'' \<noteq> None \<and> (\<exists>z. Registry_Session ''client-0001'' (sv_sessions demo_svc2) = Inr z)"
proof -
  obtain i where i: "map_of (co_objects (sv_projects demo_svc2)) 0 = Some i" "inst_inv i"
    "\<forall>c cl. map_of (in_clients i) c = Some cl \<longrightarrow> (\<exists>z. Registry_Session c (sv_sessions demo_svc2) = Inr z)"
    using attached_clients_are_sessions [OF demo_svc_new demo_svc_run(2) demo_svc_instance(1)] by blast
  have "map_option (\<lambda>i. map_of (in_clients i) ''client-0001'' \<noteq> None) (map_of (co_objects (sv_projects demo_svc2)) 0) = Some True"
    by code_simp
  with i show ?thesis by auto
qed

section \<open>Termination at the service\<close>

definition finished :: "nat \<Rightarrow> Service \<Rightarrow> bool" where
  "finished a s \<longleftrightarrow> (\<exists>i. object_at s a = Some i \<and> in_state i = ProjectStateTerminated)"

lemma terminated_apply:
  assumes "inst_inv i" "in_state i = ProjectStateTerminated"
  shows "in_state (inst_apply wall now op i) = ProjectStateTerminated"
  using inst_apply_edge [OF assms(1), of wall now op] assms(2) by (auto simp: lifecycle_edge_simps)

lemma finished_set_object:
  assumes "svc_inv s" "finished a s" "object_at s b = Some i"
  shows "finished a (set_object b (inst_apply wall now op i) s)"
  using assms terminated_apply [of i wall now op] coord_inst [of "sv_projects s" b i]
  by (auto simp: finished_def svc_inv_def)

lemma finished_sessions [simp]: "finished a (s\<lparr>sv_sessions := r\<rparr>) = finished a s"
  by (simp add: finished_def)

lemma finished_leave:
  assumes "svc_inv s" "finished a s"
  shows "finished a (leave env c s)"
proof -
  have "finished a (snd (on_instance b (RemoveClient (en_wall env) c (en_now env)) no_removal (s\<lparr>sv_sessions := r\<rparr>)))" for b r
  proof (cases "object_at s b")
    case (Some i)
    with finished_set_object [OF assms Some, of "en_wall env" "en_now env" "OpRemove c"] show ?thesis
      by (simp add: on_instance_def set_object_def split_def finished_def)
  qed (use assms in \<open>simp add: on_instance_def\<close>)
  with assms show ?thesis by (auto simp: leave_def split: prod.splits sum.splits option.splits)
qed

interpretation over: svc_kept "\<lambda>s. svc_inv s \<and> finished a s" for a
proof unfold_locales
  fix s prepare key
  assume s: "svc_inv s \<and> finished a s"
  then have "grown (sv_projects s) (sv_projects (looked_up prepare key s))"
    unfolding looked_up_def by (simp add: instance_loop_grown svc_inv_def)
  with s show "svc_inv (looked_up prepare key s) \<and> finished a (looked_up prepare key s)"
    by (auto simp: looked_up_inv finished_def dest: grown_object)
qed (auto simp: svc.frame svc.registry svc.instance_step attach_inv leave_inv svc.forget finished_leave finished_set_object
    simp del: inst_apply.simps, auto simp: finished_def forget_project_def intro: svc.frame svc.registry)

end
