(* ===== verification/Service_Properties.thy ===== *)
theory Service_Properties
  imports Control_Properties
begin

text \<open>
  What the handlers of the control service do: who may sync and who may write, what happens when a
  participant leaves, and how uploads and commands are tracked.
\<close>

section \<open>Requests of the initial sync\<close>

text \<open>Who may sync: the attached authority, in a project that is neither locked nor finished, at its epoch.\<close>

definition may_sync :: "string \<Rightarrow> u64 \<Rightarrow> Instance \<Rightarrow> bool" where
  "may_sync c e i \<longleftrightarrow> in_ownerID i = c \<and> map_option cl_Role (map_of (in_clients i) c) = Some RoleOwner \<and>
     in_state i \<notin> {ProjectStateNeedsConfirmation, ProjectStateTerminating, ProjectStateTerminated} \<and>
     (e = 0 \<or> e = in_syncEpoch i)"

lemma ensureOwnerSyncAccess_iff: "(\<exists>u. ensureOwnerSyncAccess c e i = Inr u) \<longleftrightarrow> may_sync c e i"
  by (auto simp: ensureOwnerSyncAccess_def SyncState_def RequireAuthority_def requireAuthorityLocked_def may_sync_def
      split: option.splits err.splits)

fun is_sync_call :: "runtime_call \<Rightarrow> bool" where
  "is_sync_call (CallSync name key) = True"
| "is_sync_call _ = False"

abbreviation sync_calls :: "Service \<Rightarrow> runtime_call list" where
  "sync_calls s \<equiv> filter is_sync_call (sv_calls s)"

lemma on_instance_calls [simp]: "sv_calls (snd (on_instance a f nil s)) = sv_calls s"
  by (simp add: on_instance_def split: option.splits prod.splits)

lemma instance_loop_calls: "filter is_sync_call (fst (snd (instance_loop n prepare key c))) = []"
  by (induction n arbitrary: c) (auto simp: Let_def split: prod.splits lookup_result.splits option.splits)

lemma InstanceForClient_sync_calls: "sync_calls (snd (InstanceForClient env c s)) = sync_calls s"
  using instance_loop_calls
  by (auto simp: InstanceForClient_def attempt_def instanceForSession_def do_calls_def split: sum.splits prod.splits)
    (metis fst_conv snd_conv append_Nil2 filter_append)+

lemma terminate_sync_calls: "sync_calls (Coordinator_TerminateProject env k x s) = sync_calls s"
  by (auto simp: Coordinator_TerminateProject_def Let_def split_def do_calls_def cleanupProject_def
      cleanupProjectRuntimeState_def Commands_StopProject_def terminate_instance_def filter_map o_def
      split: option.splits)

lemma FailInitialSync_sync_calls: "sync_calls (FailInitialSync env k a e s) = sync_calls s"
  by (simp add: FailInitialSync_def terminate_sync_calls split: option.splits)

lemma InstanceForClient_runtime [simp]: "sv_runtime (snd (InstanceForClient env c s)) = sv_runtime s"
  by (auto simp: InstanceForClient_def attempt_def instanceForSession_def do_calls_def split: sum.splits prod.splits)

lemma resolve_gate:
  assumes "InstanceForClient env c s = (Inr (a, z), t)" "object_at t a = Some i"
  shows "may_sync c e i \<Longrightarrow> sv_runtime s \<Longrightarrow> resolveSyncInvocation env c e s = (Inr (a, projectKeyForSession z), t)"
    "\<not> (may_sync c e i \<and> sv_runtime s) \<Longrightarrow> \<exists>x. resolveSyncInvocation env c e s = (Inl x, t)"
proof -
  have run: "sv_runtime t = sv_runtime s" using InstanceForClient_runtime [of env c s] assms(1) by simp
  have resolve: "resolveSyncInvocation env c e s =
      attempt (ensureOwnerSyncAccess c e i, t) (\<lambda>_ s.
        if \<not> sv_runtime s then (Inl (NewError ErrProjectNotReady ''sync backend is unavailable''), s)
        else (Inr (a, projectKeyForSession z), s))"
    using assms by (simp add: resolveSyncInvocation_def attempt_def read_instance_def)
  note access = ensureOwnerSyncAccess_iff [of c e i]
  show "may_sync c e i \<Longrightarrow> sv_runtime s \<Longrightarrow> resolveSyncInvocation env c e s = (Inr (a, projectKeyForSession z), t)"
    using resolve access run by (auto simp: attempt_def)
  show "\<not> (may_sync c e i \<and> sv_runtime s) \<Longrightarrow> \<exists>x. resolveSyncInvocation env c e s = (Inl x, t)"
    using resolve access run by (cases "ensureOwnerSyncAccess c e i") (auto simp: attempt_def)
qed

text \<open>The client and the epoch of a request, its answer if it is an error, and the method of the runtime it calls.\<close>

fun sync_request :: "sync_op \<Rightarrow> string \<times> u64" where
  "sync_request (SvcBeginSync r c e) = (c, e)"
| "sync_request (SvcStartSyncSession x c e) = (c, e)"
| "sync_request (SvcScanManifest r c) = (c, 0)"
| "sync_request (SvcManifestBatch r c) = (c, 0)"
| "sync_request (SvcPlanHashes x c) = (c, 0)"
| "sync_request (SvcPlanActions x c) = (c, 0)"
| "sync_request (SvcPlanV2 x c) = (c, 0)"
| "sync_request (SvcReportProgress c p e) = (c, e)"
| "sync_request (SvcFinalize r c e) = (c, e)"
| "sync_request (SvcFinalizeV2 r c e) = (c, e)"

fun upload_request :: "upload_op \<Rightarrow> string \<times> u64" where
  "upload_request (SvcBeginFile x c e p) = (c, e)"
| "upload_request (SvcApplyChunk r c) = (c, 0)"
| "upload_request (SvcCommitFile r c f) = (c, 0)"
| "upload_request (SvcAbortFile r c f) = (c, 0)"
| "upload_request (SvcDeletePath r c e p) = (c, e)"
| "upload_request (SvcDeletePaths r c e ps) = (c, e)"
| "upload_request (SvcBundleBegin x c e) = (c, e)"
| "upload_request (SvcBundleCommit r c ps) = (c, 0)"

definition refusal :: "'a res \<times> Service \<Rightarrow> err option" where
  "refusal r = (case fst r of Inl e \<Rightarrow> Some e | Inr _ \<Rightarrow> None)"

fun sync_refusal :: "env \<Rightarrow> sync_op \<Rightarrow> Service \<Rightarrow> err option" where
  "sync_refusal env (SvcBeginSync r c e) s = refusal (BeginSync env r c e s)"
| "sync_refusal env (SvcStartSyncSession r c e) s = refusal (StartSyncSession env r c e s)"
| "sync_refusal env (SvcScanManifest r c) s = refusal (ScanManifest env r c s)"
| "sync_refusal env (SvcManifestBatch r c) s = refusal (SyncManifestBatch env r c s)"
| "sync_refusal env (SvcPlanHashes r c) s = refusal (PlanManifestHashes env r c s)"
| "sync_refusal env (SvcPlanActions r c) s = refusal (PlanSyncActions env r c s)"
| "sync_refusal env (SvcPlanV2 r c) s = refusal (PlanSyncV2 env r c s)"
| "sync_refusal env (SvcReportProgress c p e) s = refusal (Service_ReportSyncProgress env c p e s)"
| "sync_refusal env (SvcFinalize r c e) s = refusal (FinalizeSync env r c e s)"
| "sync_refusal env (SvcFinalizeV2 r c e) s = refusal (FinalizeSyncV2 env r c e s)"

fun upload_refusal :: "env \<Rightarrow> upload_op \<Rightarrow> Service \<Rightarrow> err option" where
  "upload_refusal env (SvcBeginFile r c e p) s = refusal (BeginFile env r c e p s)"
| "upload_refusal env (SvcApplyChunk r c) s = refusal (ApplyChunk env r c s)"
| "upload_refusal env (SvcCommitFile r c f) s = refusal (CommitFile env r c f s)"
| "upload_refusal env (SvcAbortFile r c f) s = refusal (AbortFile env r c f s)"
| "upload_refusal env (SvcDeletePath r c e p) s = refusal (Service_DeletePath env r c e p s)"
| "upload_refusal env (SvcDeletePaths r c e ps) s = refusal (DeletePathsBatch env r c e ps s)"
| "upload_refusal env (SvcBundleBegin r c e) s = refusal (UploadBundleBegin env r c e s)"
| "upload_refusal env (SvcBundleCommit r c ps) s = refusal (UploadBundleCommit env r c ps s)"

fun sync_method :: "sync_op \<Rightarrow> string option" where
  "sync_method (SvcBeginSync r c e) = Some ''BeginSync''"
| "sync_method (SvcStartSyncSession r c e) = Some ''StartSyncSession''"
| "sync_method (SvcScanManifest r c) = Some ''ScanManifest''"
| "sync_method (SvcManifestBatch r c) = Some ''SyncManifestBatch''"
| "sync_method (SvcPlanHashes r c) = Some ''PlanManifestHashes''"
| "sync_method (SvcPlanActions r c) = Some ''PlanSyncActions''"
| "sync_method (SvcPlanV2 r c) = Some ''PlanSyncV2''"
| "sync_method (SvcReportProgress c p e) = None"
| "sync_method (SvcFinalize r c e) = Some ''FinalizeSync''"
| "sync_method (SvcFinalizeV2 r c e) = Some ''FinalizeSyncV2''"

fun upload_method :: "upload_op \<Rightarrow> string" where
  "upload_method (SvcBeginFile r c e p) = ''BeginFile''"
| "upload_method (SvcApplyChunk r c) = ''ApplyChunk''"
| "upload_method (SvcCommitFile r c f) = ''CommitFile''"
| "upload_method (SvcAbortFile r c f) = ''AbortFile''"
| "upload_method (SvcDeletePath r c e p) = ''DeletePath''"
| "upload_method (SvcDeletePaths r c e ps) = ''DeletePathsBatch''"
| "upload_method (SvcBundleBegin r c e) = ''UploadBundleBegin''"
| "upload_method (SvcBundleCommit r c ps) = ''UploadBundleCommit''"

text \<open>
  What a refused upload request leaves of a service: \<open>AbortFile\<close> looks for the upload it was asked to forget
  under the empty project.
\<close>

fun after_refusal :: "upload_op \<Rightarrow> Service \<Rightarrow> Service" where
  "after_refusal (SvcAbortFile r c f) s =
     s\<lparr>sv_uploads := Upload_Abort \<lparr>key_Username = [], key_ProjectID = []\<rparr> f (sv_uploads s)\<rparr>"
| "after_refusal _ s = s"

lemma sync_call_open:
  assumes "InstanceForClient env c s = (Inr (a, z), t)" "object_at t a = Some i" "may_sync c e i" "sv_runtime s"
  shows "sync_calls (snd (sync_call env name answer c e s)) = sync_calls s @ [CallSync name (projectKeyForSession z)]"
    "fst (sync_call env name answer c e s) = map_sum id (\<lambda>x. (x, a, projectKeyForSession z)) answer"
proof -
  have "sync_calls t = sync_calls s" using InstanceForClient_sync_calls [of env c s] assms(1) by simp
  then show "sync_calls (snd (sync_call env name answer c e s)) = sync_calls s @ [CallSync name (projectKeyForSession z)]"
    by (cases answer) (simp_all add: sync_call_def attempt_def resolve_gate(1) [OF assms] Let_def
        FailInitialSync_sync_calls, simp_all add: do_calls_def)
  show "fst (sync_call env name answer c e s) = map_sum id (\<lambda>x. (x, a, projectKeyForSession z)) answer"
    by (cases answer) (simp_all add: sync_call_def attempt_def resolve_gate(1) [OF assms] Let_def)
qed

lemma sync_call_closed:
  assumes "InstanceForClient env c s = (Inr (a, z), t)" "object_at t a = Some i" "\<not> (may_sync c e i \<and> sv_runtime s)"
  shows "\<exists>x. sync_call env name answer c e s = (Inl x, t)"
  using resolve_gate(2) [OF assms] by (auto simp: sync_call_def attempt_def)

lemma refusal_simps [simp]: "refusal (Inl x, s) = Some x" "refusal (Inr y, s) = None"
  by (simp_all add: refusal_def)

lemma attempt_closed:
  assumes "InstanceForClient env c s = (Inr (a, z), t)" "object_at t a = Some i" "\<not> may_sync c e i"
  shows "\<exists>x. refusal (attempt (sync_call env name answer c e s) k) = Some x" "snd (attempt (sync_call env name answer c e s) k) = t"
  using sync_call_closed [OF assms(1,2), of e name answer] assms(3) by (auto simp: attempt_def)

lemma closed_requests:
  assumes inst: "InstanceForClient env c s = (Inr (a, z), t)" "object_at t a = Some i" and no: "\<not> may_sync c e i"
  shows "sync_request op = (c, e) \<Longrightarrow> sync_refusal env op s \<noteq> None \<and> sync_apply env op s = t"
    "upload_request uop = (c, e) \<Longrightarrow> upload_refusal env uop s \<noteq> None \<and> upload_apply env uop s = after_refusal uop t"
proof -
  note closed = attempt_closed [OF inst]
  have access: "\<exists>x. ensureOwnerSyncAccess c e i = Inl x"
    using ensureOwnerSyncAccess_iff [of c e i] no by (cases "ensureOwnerSyncAccess c e i") auto
  show "sync_refusal env op s \<noteq> None \<and> sync_apply env op s = t" if "sync_request op = (c, e)"
    using that access inst no
    by (cases op)
      (auto simp: closed BeginSync_def StartSyncSession_def ScanManifest_def SyncManifestBatch_def PlanManifestHashes_def
        PlanSyncActions_def PlanSyncV2_def FinalizeSync_def FinalizeSyncV2_def finalize_sync_def
        Service_ReportSyncProgress_def attempt_def [of "(Inr _, _)"] attempt_def [of "(Inl _, _)"] read_instance_def)
  show "upload_refusal env uop s \<noteq> None \<and> upload_apply env uop s = after_refusal uop t" if "upload_request uop = (c, e)"
    using that no resolve_gate(2) [OF inst, of e]
    by (cases uop)
      (auto simp: closed BeginFile_def ApplyChunk_def CommitFile_def Service_DeletePath_def DeletePathsBatch_def
        UploadBundleBegin_def UploadBundleCommit_def AbortFile_def)
qed

lemma enrich_sync_calls: "sync_calls (snd (enrichSessionSnapshot env x s)) = sync_calls s"
  using InstanceForClient_sync_calls [of env "ls_ClientID x" s]
  by (auto simp: enrichSessionSnapshot_def split: prod.splits sum.splits)

lemma enrich_all_sync_calls: "sync_calls (snd (enrich_all env xs s)) = sync_calls s"
  by (induction xs arbitrary: s) (simp_all add: split_def Let_def enrich_sync_calls)

text \<open>After its call to the runtime no handler calls the runtime again for the sync.\<close>

lemma quiet_calls [simp]:
  "sync_calls (snd (append_invalidates env k changes s)) = sync_calls s"
  "sync_calls (snd (report_progress env a c p e s)) = sync_calls s"
  "sync_calls (snd (on_res a f s)) = sync_calls s"
  "sync_calls (publishProjectSessions env k s) = sync_calls s"
  by (simp_all add: append_invalidates_def report_progress_def publishProjectSessions_def
      ListSessions_def enrich_all_sync_calls split_def)

lemma attempt_quiet:
  "(\<And>x u. sync_calls (snd (k x u)) = sync_calls u) \<Longrightarrow> sync_calls (snd (attempt r k)) = sync_calls (snd r)"
  by (cases r) (auto simp: attempt_def split: sum.splits)

lemma open_requests:
  assumes inst: "InstanceForClient env c s = (Inr (a, z), t)" "object_at t a = Some i" "may_sync c e i" "sv_runtime s"
  shows "sync_request op = (c, e) \<Longrightarrow> sync_method op = Some name \<Longrightarrow>
      sync_calls (sync_apply env op s) = sync_calls s @ [CallSync name (projectKeyForSession z)]"
    "upload_request uop = (c, e) \<Longrightarrow>
      sync_calls (upload_apply env uop s) = sync_calls s @ [CallSync (upload_method uop) (projectKeyForSession z)]"
proof -
  note opened = sync_call_open(1) [OF inst(1,2) _ inst(4)]
  have t: "sync_calls t = sync_calls s" using InstanceForClient_sync_calls [of env c s] inst(1) by simp
  show "sync_calls (sync_apply env op s) = sync_calls s @ [CallSync name (projectKeyForSession z)]"
    if "sync_request op = (c, e)" "sync_method op = Some name"
    using that inst
    by (cases op)
      (auto simp: BeginSync_def StartSyncSession_def ScanManifest_def SyncManifestBatch_def PlanManifestHashes_def
        PlanSyncActions_def PlanSyncV2_def FinalizeSync_def FinalizeSyncV2_def finalize_sync_def attempt_quiet opened
        split: prod.splits)
  show "sync_calls (upload_apply env uop s) = sync_calls s @ [CallSync (upload_method uop) (projectKeyForSession z)]"
    if "upload_request uop = (c, e)"
    using that inst t resolve_gate(1) [OF inst]
    by (cases uop)
      (auto simp: BeginFile_def ApplyChunk_def CommitFile_def Service_DeletePath_def DeletePathsBatch_def
        UploadBundleBegin_def UploadBundleCommit_def AbortFile_def Let_def do_calls_def attempt_quiet opened split: prod.splits)
qed

text \<open>
  C6: Only the authority syncs a project. Let the look-up of a client find a project. Every sync request and
  every upload request of a client that is not the attached authority, or in a project that is locked for confirmation or finished, or at another
  sync epoch (0 is not checked), is answered with an error and changes nothing: the service is left as the look-up of the
  project left it. \<open>AbortFile\<close> is refused like the others, but still drops an upload of that
  id that is filed under the empty project key, and nothing else. When the client may sync and there is a
  runtime, every request but a progress report makes exactly one call to the runtime for the sync, the one
  of its own name, for the project of the client's own session; and the part the handlers other than
  \<open>AbortFile\<close> share hands on the runtime's answer.
\<close>

theorem only_authority_syncs:
  assumes "InstanceForClient env c s = (Inr (a, z), t)" "map_of (co_objects (sv_projects t)) a = Some i"
  shows "(\<not> may_sync c e i \<longrightarrow>
      (sync_request op = (c, e) \<longrightarrow> sync_refusal env op s \<noteq> None \<and> sync_apply env op s = t) \<and>
      (upload_request uop = (c, e) \<longrightarrow> upload_refusal env uop s \<noteq> None \<and> upload_apply env uop s = after_refusal uop t)) \<and>
    (may_sync c e i \<and> sv_runtime s \<longrightarrow>
      (sync_request op = (c, e) \<and> sync_method op = Some name \<longrightarrow>
         sync_calls (sync_apply env op s) = sync_calls s @ [CallSync name (projectKeyForSession z)]) \<and>
      (upload_request uop = (c, e) \<longrightarrow>
         sync_calls (upload_apply env uop s) = sync_calls s @ [CallSync (upload_method uop) (projectKeyForSession z)]) \<and>
      fst (sync_call env name answer c e s) = map_sum id (\<lambda>x. (x, a, projectKeyForSession z)) answer)"
  using closed_requests [OF assms] open_requests [OF assms] sync_call_open(2) [OF assms] by blast

definition demo_lookup :: "Service \<Rightarrow> (nat \<times> session) res \<times> Service" where
  "demo_lookup s = InstanceForClient demo_env ''client-0001'' s"

theorem only_authority_syncs_witness:
  "\<exists>t i z. InstanceForClient demo_env ''client-0001'' demo_svc2 = (Inr (0, z), t) \<and>
     map_of (co_objects (sv_projects t)) 0 = Some i \<and> may_sync ''client-0001'' 1 i \<and> \<not> may_sync ''client-0001'' 7 i \<and>
     sync_apply demo_env (SvcBeginSync (Inr ()) ''client-0001'' 7) demo_svc2 = t \<and>
     sync_refusal demo_env (SvcBeginSync (Inr ()) ''client-0001'' 7) demo_svc2 \<noteq> None \<and>
     sync_calls (sync_apply demo_env (SvcBeginSync (Inr ()) ''client-0001'' 1) demo_svc2) =
       [CallSync ''BeginSync'' (projectKeyForSession z)]"
proof -
  have found: "case demo_lookup demo_svc2 of (Inr (a, z), t) \<Rightarrow> a = 0 \<and>
      (case map_of (co_objects (sv_projects t)) 0 of None \<Rightarrow> False
       | Some i \<Rightarrow> may_sync ''client-0001'' 1 i \<and> \<not> may_sync ''client-0001'' 7 i) | _ \<Rightarrow> False" by code_simp
  obtain y t where y: "demo_lookup demo_svc2 = (y, t)" by fastforce
  with found obtain z i where f: "InstanceForClient demo_env ''client-0001'' demo_svc2 = (Inr (0, z), t)"
    "map_of (co_objects (sv_projects t)) 0 = Some i" "may_sync ''client-0001'' 1 i" "\<not> may_sync ''client-0001'' 7 i"
    by (auto simp: demo_lookup_def split: sum.splits option.splits)
  have "sv_runtime demo_svc2" "sync_calls demo_svc2 = []" by code_simp+
  with only_authority_syncs [OF f(1,2), where e = 1 and name = "''BeginSync''" and op = "SvcBeginSync (Inr ()) ''client-0001'' 1"]
    only_authority_syncs [OF f(1,2), where e = 7 and op = "SvcBeginSync (Inr ()) ''client-0001'' 7"] f
  show ?thesis by auto
qed

section \<open>Writes to the shared file system\<close>

lemma Hub_Append_ok: "fst (Hub_Append now k changes h) = Inr ()"
  by (auto simp: Hub_Append_def Hub_stream_def newInvalidateEventStream_def newInvalidateEventStreamWithRetention_def
      New_def prepareCursorCodec_def invalidateEventCodec_def defaultInvalidateEventRetention_def Let_def split: option.splits)

lemma append_invalidates_ok:
  "append_invalidates env k changes s = (Inr (), s\<lparr>sv_invalidates := snd (Hub_Append (en_now env) k changes (sv_invalidates s))\<rparr>)"
  using Hub_Append_ok [of "en_now env" k changes "sv_invalidates s"] by (simp add: append_invalidates_def split_def)

definition frozen :: "Instance \<Rightarrow> bool" where
  "frozen i \<longleftrightarrow> in_state i \<in> {ProjectStateNeedsConfirmation, ProjectStateTerminating, ProjectStateTerminated} \<or>
     \<not> AuthorityReady (in_authorityState i)"

text \<open>
  C16: The shared file system is written only while the project has its authority. While a project is locked
  for confirmation, finished, or without its authority, every mutation of an attached client but the
  release of a handle is refused with the right error and reaches neither the runtime nor the
  invalidation stream. Otherwise the runtime is called once, and on success exactly the changes it
  reported are appended to the project's invalidation stream.
\<close>

theorem writes_need_authority:
  assumes "InstanceForClient env c s = (Inr (a, z), t)" "map_of (co_objects (sv_projects t)) a = Some i"
    "map_of (in_clients i) c \<noteq> None"
  shows "(frozen i \<and> op \<noteq> FsOpRelease \<longrightarrow>
      FsMutationContext env answer c op s =
        (Inl (if in_state i \<in> {ProjectStateTerminating, ProjectStateTerminated} then err_terminated else err_read_only), t)) \<and>
    ((\<not> frozen i \<or> op = FsOpRelease) \<and> sv_runtime s \<longrightarrow>
      FsMutationContext env answer c op s =
        (let called = do_calls [CallFsMutation (projectKeyForSession z)] t
         in case answer of
              Inl e \<Rightarrow> (Inl e, called)
            | Inr (reply, changes) \<Rightarrow>
                (Inr reply, called\<lparr>sv_invalidates :=
                   snd (Hub_Append (en_now env) (projectKeyForSession z) changes (sv_invalidates t))\<rparr>)))"
proof -
  have run: "sv_runtime t = sv_runtime s" using InstanceForClient_runtime [of env c s] assms(1) by simp
  have "FsMutationContext env answer c op s =
      (if frozen i \<and> op \<noteq> FsOpRelease then
         (Inl (if in_state i \<in> {ProjectStateTerminating, ProjectStateTerminated} then err_terminated else err_read_only), t)
       else mutate env answer (projectKeyForSession z) t)"
    using assms by (auto simp: FsMutationContext_def attempt_def read_instance_def SyncState_def ReadOnly_def
        allowsMutationCleanup_def frozen_def)
  moreover have "sv_invalidates (do_calls x t) = sv_invalidates t" for x by (simp add: do_calls_def)
  ultimately show ?thesis
    using run by (auto simp: mutate_def attempt_def append_invalidates_ok Let_def split: sum.splits)
qed

theorem writes_need_authority_witness:
  "\<exists>t z. InstanceForClient demo_env ''client-0001'' demo_svc5 = (Inr (0, z), t) \<and>
     FsMutationContext demo_env (Inr ((), [])) ''client-0001'' ''write'' demo_svc5 = (Inl err_terminated, t)"
proof -
  have found: "case demo_lookup demo_svc5 of (Inr (a, z), t) \<Rightarrow> a = 0 \<and>
      (case map_of (co_objects (sv_projects t)) 0 of None \<Rightarrow> False
       | Some i \<Rightarrow> map_of (in_clients i) ''client-0001'' \<noteq> None \<and> in_state i = ProjectStateTerminated) | _ \<Rightarrow> False"
    by code_simp
  obtain y t where y: "demo_lookup demo_svc5 = (y, t)" by fastforce
  with found obtain z i where f: "InstanceForClient demo_env ''client-0001'' demo_svc5 = (Inr (0, z), t)"
    "map_of (co_objects (sv_projects t)) 0 = Some i" "map_of (in_clients i) ''client-0001'' \<noteq> None"
    "in_state i = ProjectStateTerminated"
    by (auto simp: demo_lookup_def split: sum.splits option.splits)
  moreover have "''write'' \<noteq> FsOpRelease" by (simp add: FsOpRelease_def)
  ultimately show ?thesis
    using writes_need_authority [OF f(1-3), of "''write''" "Inr ((), [])"] by (auto simp: frozen_def)
qed

section \<open>Leaving\<close>

lemma service_frames [simp]:
  "object_at (do_calls x s) a = object_at s a" "instanceIfExists k (do_calls x s) = instanceIfExists k s"
  "sv_sessions (do_calls x s) = sv_sessions s" "sv_calls (do_calls x s) = sv_calls s @ x"
  "sv_commands (do_calls x s) = sv_commands s" "sv_uploads (do_calls x s) = sv_uploads s"
  "sv_runtime (do_calls x s) = sv_runtime s" "sv_projects (do_calls x s) = sv_projects s"
  by (simp_all add: do_calls_def instanceIfExists_def)

lemma cleanup_frames [simp]:
  "object_at (cleanupProject k s) a = object_at s a" "instanceIfExists k (cleanupProject k s) = None"
  "sv_sessions (cleanupProject k s) = sv_sessions s" "sv_calls (cleanupProject k s) = sv_calls s"
  by (simp_all add: cleanupProject_def cleanupProjectRuntimeState_def instanceIfExists_def)

lemma close_owner_file_frames [simp]:
  "object_at (close_owner_file f s) a = object_at s a" "instanceIfExists k (close_owner_file f s) = instanceIfExists k s"
  "sv_sessions (close_owner_file f s) = sv_sessions s"
  by (simp_all add: close_owner_file_def split: option.splits)

lemma close_owner_file_calls: "x \<in> set (sv_calls s) \<Longrightarrow> x \<in> set (sv_calls (close_owner_file f s))"
  by (simp add: close_owner_file_def split: option.splits)

lemma terminate_frames [simp]:
  "sv_sessions (terminate_instance env a x s) = sv_sessions s" "sv_calls (terminate_instance env a x s) = sv_calls s"
  "sv_commands (terminate_instance env a x s) = sv_commands s"
  by (simp_all add: terminate_instance_def on_instance_def split: option.splits)

lemma terminate_finishes: "object_at s a = Some i \<Longrightarrow> finished a (terminate_instance env a x s)"
  by (simp add: terminate_instance_def on_instance_def finished_def Terminate_def Let_def)

lemma finished_frames [simp]:
  "finished a (do_calls x s) = finished a s" "finished a (cleanupProject k s) = finished a s"
  "finished a (close_owner_file f s) = finished a s" "finished a (clearAuthoritativeSource z s) = finished a s"
  by (simp_all add: finished_def clearAuthoritativeSource_def)

lemma RemoveClient_remaining:
  "rm_RemainingParticipants (fst (RemoveClient wall c now i)) =
     (if map_of (in_clients i) c = None then 0 else int (length (AList.delete c (in_clients i))))"
  "in_state (snd (RemoveClient wall c now i)) = in_state i"
  by (auto simp: RemoveClient_def no_removal_def Let_def split: option.splits)

lemma last_release:
  assumes "reg_inv r" "Registry_Session c r = Inr z" "se_RefCount z = 1"
  obtains x r' where "Registry_ReleaseClient traffic wall c r = (Inr (Some x), r')"
    "projectKeyForSession (rel_Session x) = projectKeyForSession z" "\<exists>e. Registry_Session c r' = Inl e"
proof -
  obtain y r' where rel: "Registry_ReleaseClient traffic wall c r = (y, r')" by fastforce
  obtain b rc where "recordLocked c r = Inr (b, rc)" "lr_session rc = z"
    using assms(2) by (auto simp: Registry_Session_def split: sum.splits)
  with rel assms(3) obtain x where y: "y = Inr (Some x)" by (auto simp: Registry_ReleaseClient_def Let_def)
  have "session_key r' c = None" using release_key(1) [OF assms(1) rel] y by simp
  then have "\<exists>e. Registry_Session c r' = Inl e" by (auto simp: session_key_def viewed_def split: sum.splits)
  moreover have "projectKeyForSession (rel_Session x) = projectKeyForSession z"
    using release_key(2) [OF assms(1) rel y] assms(2) by (simp add: session_key_def viewed_def)
  ultimately show ?thesis using rel y that by blast
qed

text \<open>
  C11: What happens to its project when a session loses its last reference. The session is gone. If others
  stay attached, the project stays, in its state and without the client. If nobody is left, the project
  is finished, no longer found, and its commands are stopped. The third case is a session that was
  never attached: it stops the project too, whoever is attached to it.
\<close>

theorem leaving_a_project:
  assumes "NewServiceWithDependencies True runtime observer = Inr s0" "svc_run s0 s"
    "Registry_Session c (sv_sessions s) = Inr z" "se_RefCount z = 1"
    "instanceIfExists (projectKeyForSession z) s = Some a" "map_of (co_objects (sv_projects s)) a = Some i"
    "Coordinator_ReleaseClient env c s = (answer, s')"
  shows "answer = Inr () \<and> (\<exists>e. Registry_Session c (sv_sessions s') = Inl e) \<and>
    (if map_of (in_clients i) c \<noteq> None \<and> AList.delete c (in_clients i) \<noteq> [] then
       instanceIfExists (projectKeyForSession z) s' = Some a \<and>
       (\<exists>j. map_of (co_objects (sv_projects s')) a = Some j \<and> in_clients j = AList.delete c (in_clients i) \<and>
          in_state j = in_state i)
     else
       instanceIfExists (projectKeyForSession z) s' = None \<and> finished a s' \<and>
       (cx_backend (sv_commands s) \<longrightarrow> CallStopProject (projectKeyForSession z) \<in> set (sv_calls s')))"
proof -
  have reg: "reg_inv (sv_sessions s)" using reachable_inv [OF assms(1,2)] by (simp add: svc_inv_def)
  obtain x r where rel: "Registry_ReleaseClient (en_traffic env) (en_wall env) c (sv_sessions s) = (Inr (Some x), r)"
    and key: "projectKeyForSession (rel_Session x) = projectKeyForSession z"
    and gone: "\<exists>e. Registry_Session c r = Inl e"
    by (rule last_release [OF reg assms(3,4)])
  let ?s1 = "s\<lparr>sv_sessions := r\<rparr>"
  let ?rm = "fst (RemoveClient (en_wall env) c (en_now env) i)" and ?j = "snd (RemoveClient (en_wall env) c (en_now env) i)"
  have found: "instanceIfExists (projectKeyForSession z) ?s1 = Some a"
    using assms(5) by (simp add: instanceIfExists_def)
  have on: "on_instance a (RemoveClient (en_wall env) c (en_now env)) no_removal ?s1 = (?rm, set_object a ?j ?s1)"
    using assms(6) by (simp add: on_instance_def set_object_def split_def)
  define s3 where "s3 = (if rm_AuthorityRebinding ?rm \<and> sv_runtime (set_object a ?j ?s1)
      then do_calls [CallSetAuthorityState (projectKeyForSession z) AuthorityStateRebinding] (set_object a ?j ?s1)
      else set_object a ?j ?s1)"
  have s3: "object_at s3 a = Some ?j" "sv_sessions s3 = r" "sv_commands s3 = sv_commands s"
    "instanceIfExists (projectKeyForSession z) s3 = Some a"
    using found by (auto simp: s3_def instanceIfExists_current set_object_def current_def)
  define s4 where "s4 = (if rm_RemainingParticipants ?rm = 0 then
      let t1 = terminate_instance env a ''last project participant disconnected'' s3;
          t2 = clearAuthoritativeSource (rel_Session x) t1;
          t3 = do_calls (Commands_StopProject (projectKeyForSession z) (sv_commands t2)) t2
      in cleanupProject (projectKeyForSession z) t3 else s3)"
  have "Coordinator_ReleaseClient env c s = (Inr (), close_owner_file (rel_OwnerFileClient x) s4)"
    unfolding Coordinator_ReleaseClient_def rel prod.case sum.case option.case Let_def [of ?s1] Let_def [of "projectKeyForSession _"]
      key found on Let_def [of "(?rm, _)"] s3_def [symmetric] Let_def [of s3] s4_def [symmetric] Let_def [of s4] ..
  with assms(7) have s': "answer = Inr ()" "s' = close_owner_file (rel_OwnerFileClient x) s4" by simp_all
  show ?thesis
  proof (cases "map_of (in_clients i) c \<noteq> None \<and> AList.delete c (in_clients i) \<noteq> []")
    case True
    then have "rm_RemainingParticipants ?rm \<noteq> 0" by (auto simp: RemoveClient_remaining)
    then have "s4 = s3" by (simp add: s4_def)
    with True s' s3 gone show ?thesis by (simp add: remove_frame RemoveClient_remaining)
  next
    case False
    then have zero: "rm_RemainingParticipants ?rm = 0" by (auto simp: RemoveClient_remaining)
    have "sv_sessions s4 = r" "instanceIfExists (projectKeyForSession z) s4 = None" "finished a s4"
      using zero s3 terminate_finishes [OF s3(1)] by (auto simp: s4_def Let_def clearAuthoritativeSource_def)
    moreover have "cx_backend (sv_commands s) \<Longrightarrow> CallStopProject (projectKeyForSession z) \<in> set (sv_calls s4)"
      using zero s3 by (auto simp: s4_def Let_def clearAuthoritativeSource_def Commands_StopProject_def)
    ultimately show ?thesis using False s' gone by (auto intro: close_owner_file_calls)
  qed
qed

theorem leaving_a_project_witness:
  "\<exists>s'. Coordinator_ReleaseClient demo_env ''client-0001'' demo_svc3 = (Inr (), s') \<and>
     instanceIfExists demo_key s' = None \<and> finished 0 s'"
proof -
  have found: "case Registry_Session ''client-0001'' (sv_sessions demo_svc3) of Inl _ \<Rightarrow> False
      | Inr z \<Rightarrow> se_RefCount z = 1 \<and> projectKeyForSession z = demo_key" by code_simp
  then obtain z where z: "Registry_Session ''client-0001'' (sv_sessions demo_svc3) = Inr z" "se_RefCount z = 1"
    "projectKeyForSession z = demo_key" by (auto split: sum.splits)
  have "case map_of (co_objects (sv_projects demo_svc3)) 0 of None \<Rightarrow> False
      | Some i \<Rightarrow> AList.delete ''client-0001'' (in_clients i) = []" by code_simp
  then obtain i where i: "map_of (co_objects (sv_projects demo_svc3)) 0 = Some i"
    "AList.delete ''client-0001'' (in_clients i) = []" by (auto split: option.splits)
  have inst: "instanceIfExists (projectKeyForSession z) demo_svc3 = Some 0" using demo_svc_instance(2) z(3) by simp
  obtain y s' where s': "Coordinator_ReleaseClient demo_env ''client-0001'' demo_svc3 = (y, s')" by fastforce
  show ?thesis
    using leaving_a_project [OF demo_svc_new demo_svc_run(3) z(1,2) inst i(1) s'] i(2) s' z(3) by auto
qed

text \<open>
  A session that only said hello stops a running project when it disconnects: a concrete reachable run
  in which one client is attached to its synced project, a second session of the same project says hello
  and disconnects without ever opening the project, and the project is terminated and removed although the
  first client is still attached and its session alive.
\<close>

lemma unattached_session_stops_project:
  "\<exists>s' i. DisconnectClient demo_env ''client-0002'' demo_svc4 = s' \<and> svc_run demo_svc0 s' \<and>
     map_of (co_objects (sv_projects s')) 0 = Some i \<and> map_of (in_clients i) ''client-0001'' \<noteq> None \<and>
     in_state i = ProjectStateTerminated \<and> instanceIfExists demo_key demo_svc4 = Some 0 \<and>
     map_option in_state (map_of (co_objects (sv_projects demo_svc4)) 0) = Some ProjectStateActive \<and>
     (\<exists>z. Registry_Session ''client-0001'' (sv_sessions s') = Inr z)"
proof -
  let ?s = "DisconnectClient demo_env ''client-0002'' demo_svc4"
  have "svc_run demo_svc0 (svc_apply demo_env (Svc_session (SvcRelease ''client-0002'')) demo_svc4)"
    by (rule svc_run.step [OF demo_svc_run(4) has_room_svc_room [OF demo_svc_room(5)]])
  then have "svc_run demo_svc0 ?s" by (simp add: DisconnectClient_def)
  moreover have "(case map_of (co_objects (sv_projects ?s)) 0 of None \<Rightarrow> False
      | Some i \<Rightarrow> map_of (in_clients i) ''client-0001'' \<noteq> None \<and> in_state i = ProjectStateTerminated)" by code_simp
  moreover have "map_option in_state (map_of (co_objects (sv_projects demo_svc4)) 0) = Some ProjectStateActive"
    "\<not> isl (Registry_Session ''client-0001'' (sv_sessions ?s))" by code_simp+
  ultimately show ?thesis
    using demo_svc_instance(3) by (auto simp: isl_def split: option.splits) (metis sum.exhaust_sel sum.disc)
qed

section \<open>Terminated projects\<close>

lemma mutation_refused:
  assumes "InstanceForClient env c t = (Inr (a, z), u)" "object_at u a = Some i" "in_state i = ProjectStateTerminated"
    "op \<noteq> FsOpRelease"
  shows "\<exists>x. FsMutationContext env written c op t = (Inl x, u)"
  using assms by (auto simp: FsMutationContext_def attempt_def read_instance_def SyncState_def ReadOnly_def allowsMutationCleanup_def
      split: sum.splits option.splits)

text \<open>
  C17: Termination is final at the service. Whatever requests follow, an instance that was terminated stays
  so. While a client's look-up still finds it, every sync request and every upload request of the client
  is answered with an error and leaves the service as the look-up left it, without a call to the runtime
  (an \<open>AbortFile\<close> drops an upload under the empty project key, if there is one); and so does every change
  of a file but the release of a handle.
\<close>

theorem terminated_stays_terminated:
  assumes "NewServiceWithDependencies True runtime observer = Inr s0" "svc_run s0 s" "finished a s" "svc_run s t"
  shows "finished a t \<and>
    (\<forall>env c z u e name answer written op request upload. InstanceForClient env c t = (Inr (a, z), u) \<longrightarrow>
       (\<exists>x. sync_call env name answer c e t = (Inl x, u)) \<and>
       (sync_request request = (c, e) \<longrightarrow> sync_refusal env request t \<noteq> None \<and> sync_apply env request t = u) \<and>
       (upload_request upload = (c, e) \<longrightarrow> upload_refusal env upload t \<noteq> None \<and> upload_apply env upload t = after_refusal upload u) \<and>
       (op \<noteq> FsOpRelease \<longrightarrow> (\<exists>x. FsMutationContext env written c op t = (Inl x, u))))"
proof (intro conjI allI impI)
  have s: "svc_inv s" by (rule reachable_inv [OF assms(1,2)])
  then have t: "svc_inv t \<and> finished a t" using over.svc_run_kept [OF assms(4)] assms(3) by simp
  then show "finished a t" ..
  fix env c z u e name op request upload and answer :: "'a res" and written :: "('b \<times> InvalidateChange list) res"
  assume u: "InstanceForClient env c t = (Inr (a, z), u)"
  have "svc_inv u \<and> finished a u" using over.InstanceForClient_kept [OF t, of env c] u by simp
  then obtain i where i: "object_at u a = Some i" "in_state i = ProjectStateTerminated" by (auto simp: finished_def)
  then have closed: "\<not> may_sync c e i" by (simp add: may_sync_def)
  then show "\<exists>x. sync_call env name answer c e t = (Inl x, u)" using sync_call_closed [OF u i(1)] by blast
  note refused = closed_requests [OF u i(1) closed]
  show "sync_refusal env request t \<noteq> None" "sync_apply env request t = u" if "sync_request request = (c, e)"
    using refused(1) [OF that] by blast+
  show "upload_refusal env upload t \<noteq> None" "upload_apply env upload t = after_refusal upload u" if "upload_request upload = (c, e)"
    using refused(2) [OF that] by blast+
  show "\<exists>x. FsMutationContext env written c op t = (Inl x, u)" if "op \<noteq> FsOpRelease"
    using mutation_refused [OF u i that] .
qed

theorem terminated_stays_terminated_witness:
  "finished 0 demo_svc5 \<and> finished 0 (svc_apply demo_env (Svc_project (SvcEnsureProject ''client-0001'')) demo_svc5)"
proof -
  have f: "finished 0 demo_svc5"
  proof -
    have "case map_of (co_objects (sv_projects demo_svc5)) 0 of None \<Rightarrow> False
        | Some i \<Rightarrow> in_state i = ProjectStateTerminated" by code_simp
    then show ?thesis by (auto simp: finished_def split: option.splits)
  qed
  have "svc_run demo_svc5 (svc_apply demo_env (Svc_project (SvcEnsureProject ''client-0001'')) demo_svc5)"
    by (rule svc_run.step [OF svc_run.start has_room_svc_room [OF demo_svc_room(6)]])
  with terminated_stays_terminated [OF demo_svc_new demo_svc_run(5) f] f show ?thesis by blast
qed

text \<open>
  C26: When the runtime fails a sync request, the caller gets the error, and the project is
  terminated with that error exactly if it is still in its initial sync and the error is not the mismatch that
  asks for a new scan; in every other case the project stays as it is.
\<close>

theorem failed_sync_terminates:
  assumes "InstanceForClient env c s = (Inr (a, z), t)" "map_of (co_objects (sv_projects t)) a = Some i"
    "may_sync c e i" "sv_runtime s"
  shows "fst (sync_call env name (Inl x :: 'a res) c e s) = Inl x \<and>
    (if in_state i = ProjectStateSyncing \<and> (\<forall>m. AsError x \<noteq> Some (ErrSyncRescanMismatch, m))
     then (\<exists>j. map_of (co_objects (sv_projects (snd (sync_call env name (Inl x :: 'a res) c e s)))) a = Some j \<and>
             in_state j = ProjectStateTerminated \<and> in_terminateReason j = ''initial sync failed: '' @ Error x)
     else snd (sync_call env name (Inl x :: 'a res) c e s) = do_calls [CallSync name (projectKeyForSession z)] t)"
proof -
  let ?t = "do_calls [CallSync name (projectKeyForSession z)] t"
  have call: "sync_call env name (Inl x :: 'a res) c e s = (Inl x, FailInitialSync env (projectKeyForSession z) a x ?t)"
    by (simp add: sync_call_def attempt_def resolve_gate(1) [OF assms] Let_def)
  have cur: "instanceIfExists (projectKeyForSession z) t = Some a"
  proof -
    obtain y where "Registry_Session c (sv_sessions s) = Inr y" "instanceForSession env y s = (Inr a, t)" "y = z"
      using assms(1) by (auto simp: InstanceForClient_def attempt_def split: sum.splits prod.splits)
    then show ?thesis using instanceForSession_current by (simp add: instanceIfExists_current)
  qed
  have should: "shouldTerminateInitialSyncError x \<longleftrightarrow> (\<forall>m. AsError x \<noteq> Some (ErrSyncRescanMismatch, m))"
    by (auto simp: shouldTerminateInitialSyncError_def split: option.splits)
  have done_object: "object_at (Coordinator_TerminateProject env (projectKeyForSession z) reason ?t) a =
      Some (Terminate (en_wall env) reason (en_now env) i)" for reason
    using assms(2) cur
    by (auto simp: Coordinator_TerminateProject_def Let_def split_def terminate_instance_def on_instance_def
        cleanupProjectRuntimeState_def)
  have "in_state i = ProjectStateSyncing \<Longrightarrow> in_state (Terminate wall reason now i) = ProjectStateTerminated \<and>
      in_terminateReason (Terminate wall reason now i) = reason" for wall reason now
    by (simp add: Terminate_def Let_def)
  then show ?thesis
    using call assms(2) should done_object by (auto simp: FailInitialSync_def CurrentState_def)
qed

theorem failed_sync_terminates_witness:
  "\<exists>j. map_of (co_objects (sv_projects (snd (sync_call demo_env ''BeginSync'' (Inl (PlainErr ''disk'') :: unit res)
     ''client-0001'' 1 demo_svc2)))) 0 = Some j \<and> in_state j = ProjectStateTerminated"
proof -
  have found: "case demo_lookup demo_svc2 of (Inr (a, z), t) \<Rightarrow> a = 0 \<and>
      (case map_of (co_objects (sv_projects t)) 0 of None \<Rightarrow> False
       | Some i \<Rightarrow> may_sync ''client-0001'' 1 i \<and> in_state i = ProjectStateSyncing) | _ \<Rightarrow> False" by code_simp
  obtain y t where y: "demo_lookup demo_svc2 = (y, t)" by fastforce
  with found obtain z i where f: "InstanceForClient demo_env ''client-0001'' demo_svc2 = (Inr (0, z), t)"
    "map_of (co_objects (sv_projects t)) 0 = Some i" "may_sync ''client-0001'' 1 i" "in_state i = ProjectStateSyncing"
    by (auto simp: demo_lookup_def split: sum.splits option.splits)
  have run: "sv_runtime demo_svc2" by code_simp
  from failed_sync_terminates [OF f(1-3) run, where name = "''BeginSync''" and x = "PlainErr ''disk''" and 'a = unit] f(4)
  show ?thesis by auto
qed

section \<open>Uploads\<close>

text \<open>The names that the tracker's keys tell apart.\<close>

definition clean_key :: "ProjectKey \<Rightarrow> bool" where
  "clean_key k \<longleftrightarrow> CHR ''/'' \<notin> set (key_Username k) \<and> CHR '':'' \<notin> set (key_ProjectID k)"

lemma upload_key_inject:
  assumes "clean_key k" "clean_key k'"
  shows "upload_key k f = upload_key k' f' \<longleftrightarrow> k = k' \<and> f = f'"
  using assms by (auto simp: upload_key_def ProjectKey_String_def clean_key_def split_at_char)

lemma upload_key_prefix:
  assumes "clean_key k" "clean_key k'"
  shows "HasPrefix (upload_key k' f) (ProjectKey_String k @ '':'') \<longleftrightarrow> k = k'"
proof
  assume "HasPrefix (upload_key k' f) (ProjectKey_String k @ '':'')"
  then obtain g where "upload_key k' f = upload_key k g" by (auto simp: prefix_def upload_key_def)
  then show "k = k'" using upload_key_inject [OF assms(2,1)] by blast
qed (simp add: upload_key_def)

definition track :: "UploadTracker \<Rightarrow> ProjectKey \<Rightarrow> string \<Rightarrow> string option" where
  "track t k f = map_of (ut_uploads t) (upload_key k f)"

text \<open>
  C29: The upload tracker is a table of paths by project and file id, although it keeps one map from joined
  strings. For projects whose user has no slash and whose id has no colon in its name: beginning an upload sets exactly
  its entry, committing returns its path (or nothing) and clears exactly its entry, aborting clears it,
  and cleaning up a project clears its entries and no other project's.
\<close>

theorem uploads_refine_table:
  assumes "clean_key k" "clean_key k'"
  shows "track (Upload_Begin k f path t) k' f' = (if k' = k \<and> f' = f then Some path else track t k' f') \<and>
    fst (Upload_Commit k f t) = (case track t k f of None \<Rightarrow> [] | Some p \<Rightarrow> p) \<and>
    track (snd (Upload_Commit k f t)) k' f' = (if k' = k \<and> f' = f then None else track t k' f') \<and>
    track (Upload_Abort k f t) k' f' = (if k' = k \<and> f' = f then None else track t k' f') \<and>
    track (Upload_CleanupProject k t) k' f' = (if k' = k then None else track t k' f')"
  using assms upload_key_inject [OF assms(2,1), of f' f] upload_key_prefix [OF assms, of f']
  by (auto simp: track_def Upload_Begin_def Upload_Commit_def Upload_Abort_def Upload_CleanupProject_def Let_def
      map_of_filter_key)

theorem uploads_refine_table_witness:
  "track (Upload_CleanupProject demo_key (Upload_Begin demo_key ''f'' ''a/b'' newUploadTracker)) demo_key ''f'' = None \<and>
   fst (Upload_Commit demo_key ''f'' (Upload_Begin demo_key ''f'' ''a/b'' newUploadTracker)) = ''a/b''"
proof -
  have c: "clean_key demo_key" by (simp add: clean_key_def demo_key_def)
  show ?thesis
    using uploads_refine_table [OF c c, of "''f''" "''a/b''" newUploadTracker "''f''"]
      uploads_refine_table [OF c c, of "''f''" "[]" "Upload_Begin demo_key ''f'' ''a/b'' newUploadTracker" "''f''"]
    by simp
qed

section \<open>Commands of several projects\<close>

text \<open>A second user opens a project of the same name, and the first user starts a command.\<close>

definition demo_start :: "string \<Rightarrow> svc_op" where
  "demo_start c = Svc_command (SvcStartCommand c ''p'' [''sh''] demo_tty False)"

definition demo_others :: "svc_op list" where
  "demo_others = [Svc_session (SvcHello (demo_principal\<lparr>pr_Username := ''v''\<rparr>) demo_hello),
     Svc_project (SvcEnsureProject ''client-0002''), Svc_project (SvcCompleteInitialSync ''client-0002'' 1),
     demo_start ''client-0001'']"

fun serve :: "svc_op list \<Rightarrow> Service \<Rightarrow> Service option" where
  "serve [] s = Some s"
| "serve (op # ops) s = (if has_room s then serve ops (svc_apply demo_env op s) else None)"

definition demo_cross :: Service where
  "demo_cross = the (serve demo_others demo_svc3)"

lemma ignore_stale_calls: "sv_calls (snd (ignore_stale r)) = sv_calls (snd r)"
  by (cases r) (auto simp: ignore_stale_def split: sum.splits)

lemma InstanceForClient_commands: "sv_commands (snd (InstanceForClient env c s)) = sv_commands s"
  by (auto simp: InstanceForClient_def attempt_def instanceForSession_def do_calls_def split: sum.splits prod.splits)

lemma publish_commands: "sv_commands (publishProjectSessions env k s) = sv_commands s"
proof -
  have one: "sv_commands (snd (enrichSessionSnapshot env x s)) = sv_commands s" for x s
    using InstanceForClient_commands [of env "ls_ClientID x" s]
    by (auto simp: enrichSessionSnapshot_def split: prod.splits sum.splits)
  have "sv_commands (snd (enrich_all env xs s)) = sv_commands s" for xs s
    by (induction xs arbitrary: s) (simp_all add: split_def Let_def one)
  then show ?thesis by (simp add: publishProjectSessions_def ListSessions_def split_def)
qed

lemma streamLocked_kept:
  "Commands_streamLocked cid c = (r, c') \<Longrightarrow> cx_owners c' = cx_owners c \<and> cx_backend c' = cx_backend c"
  by (auto simp: Commands_streamLocked_def split: option.splits sum.splits)

lemma controlled_instance_commands:
  assumes "controlled_instance env c s = (r, t)"
  shows "sv_commands t = sv_commands s"
proof (cases "InstanceForClient env c s")
  case (Pair q u)
  then have "sv_commands u = sv_commands s" using InstanceForClient_commands [of env c s] by simp
  then show ?thesis using assms Pair by (auto simp: controlled_instance_def attempt_def split: sum.splits)
qed

text \<open>
  C24: Commands are told apart by their id alone, over all projects of a service with a command backend. The id of a new command depends on how
  many commands its own project has started. And whoever types into a command of that id, in whatever
  project: right after a client has started it, the runtime is asked to write the input to the project of
  that client. So two projects that have started equally many commands share their ids, and what is typed
  into a command of the one that started it first goes to the command of the other.
\<close>

theorem input_reaches_other_project:
  assumes found: "InstanceForClient env d s = (Inr (b, z), s0)" "map_of (co_objects (sv_projects s0)) b = Some j"
    and started: "Service_StartCommand env d project argv tty tmux s = (Inr cid, s1)"
    and backend: "cx_backend (sv_commands s)"
    and typing: "controlled_instance env' c s1 = (Inr a, t)" "map_of (co_objects (sv_projects t)) a = Some i"
      "map_of (in_commands i) cid \<noteq> None"
  shows "cid = command_id (in_nextCommandID j + 1) \<and>
    sv_calls (snd (WriteCommandInput env' answer c cid data s1)) =
      sv_calls t @ [CallWriteInput (projectKeyForSession z) cid data]"
proof -
  have s0: "sv_commands s0 = sv_commands s" using InstanceForClient_commands [of env d s] found(1) by simp
  obtain r j' where start: "StartCommand (en_wall env) d argv tty tmux (en_now env) j = (r, j')" by (meson surj_pair)
  obtain cmd where cmd: "r = Inr cmd" "cmd_CommandID cmd = cid" "map_of (cx_owners (sv_commands s1)) cid = Some (projectKeyForSession z)"
    "cx_backend (sv_commands s1)"
    using started found start s0 backend
    by (auto simp: Service_StartCommand_def attempt_def on_instance_def Commands_Start_def Let_def publish_commands do_calls_def
        dest!: streamLocked_kept split: if_splits sum.splits prod.splits)
  have "cid = command_id (in_nextCommandID j + 1)"
    using start cmd(1,2) by (auto simp: StartCommand_def Let_def split: if_splits)
  moreover have "sv_commands t = sv_commands s1" by (rule controlled_instance_commands [OF typing(1)])
  then have "Commands_WriteInput answer cid data (sv_commands t) = (answer, [CallWriteInput (projectKeyForSession z) cid data])"
    using cmd(3,4) by (simp add: Commands_WriteInput_def backendForCommand_def)
  ultimately show ?thesis
    using typing by (auto simp: WriteCommandInput_def attempt_def read_instance_def Command_def ignore_stale_calls do_calls_def
        split: option.splits)
qed

definition demo_second :: "string res \<times> Service" where
  "demo_second = Service_StartCommand demo_env ''client-0002'' ''p'' [''sh''] demo_tty False demo_cross"

theorem input_reaches_other_project_witness:
  "\<exists>s1 (t :: Service) x. demo_second = (Inr ''cmd-0001'', s1) \<and>
     Registry_Session ''client-0001'' (sv_sessions s1) = Inr x \<and> key_Username (projectKeyForSession x) = ''u'' \<and>
     sv_calls (snd (WriteCommandInput demo_env (Inr ()) ''client-0001'' ''cmd-0001'' ''secret'' s1)) =
       sv_calls t @ [CallWriteInput (demo_key\<lparr>key_Username := ''v''\<rparr>) ''cmd-0001'' ''secret'']"
proof -
  have found: "case InstanceForClient demo_env ''client-0002'' demo_cross of
      (Inr (b, z), s0) \<Rightarrow> map_of (co_objects (sv_projects s0)) b \<noteq> None \<and> projectKeyForSession z = demo_key\<lparr>key_Username := ''v''\<rparr>
    | _ \<Rightarrow> False" by code_simp
  then obtain b z s0 j where f: "InstanceForClient demo_env ''client-0002'' demo_cross = (Inr (b, z), s0)"
    "map_of (co_objects (sv_projects s0)) b = Some j" "projectKeyForSession z = demo_key\<lparr>key_Username := ''v''\<rparr>"
    by (auto split: prod.splits sum.splits)
  have "fst demo_second = Inr ''cmd-0001''" by code_simp
  then obtain s1 where second: "demo_second = (Inr ''cmd-0001'', s1)" by (metis prod.collapse)
  have backend: "cx_backend (sv_commands demo_cross)" by code_simp
  have user: "case Registry_Session ''client-0001'' (sv_sessions (snd demo_second)) of Inl _ \<Rightarrow> False
    | Inr x \<Rightarrow> key_Username (projectKeyForSession x) = ''u''" by code_simp
  have "case controlled_instance demo_env ''client-0001'' (snd demo_second) of
      (Inr a, t) \<Rightarrow> (case map_of (co_objects (sv_projects t)) a of None \<Rightarrow> False
        | Some i \<Rightarrow> map_of (in_commands i) ''cmd-0001'' \<noteq> None)
    | _ \<Rightarrow> False" by code_simp
  then obtain a t i where typing: "controlled_instance demo_env ''client-0001'' s1 = (Inr a, t)"
    "map_of (co_objects (sv_projects t)) a = Some i" "map_of (in_commands i) ''cmd-0001'' \<noteq> None"
    by (auto simp: second split: prod.splits sum.splits option.splits)
  from input_reaches_other_project [OF f(1,2) second [unfolded demo_second_def] backend typing,
      THEN conjunct2, of "Inr ()" "''secret''"]
  have reached: "sv_calls (snd (WriteCommandInput demo_env (Inr ()) ''client-0001'' ''cmd-0001'' ''secret'' s1)) =
      sv_calls t @ [CallWriteInput (demo_key\<lparr>key_Username := ''v''\<rparr>) ''cmd-0001'' ''secret'']"
    by (simp only: f(3))
  from user obtain x where x: "Registry_Session ''client-0001'' (sv_sessions s1) = Inr x" "key_Username (projectKeyForSession x) = ''u''"
    by (simp add: second split: sum.splits)
  show ?thesis by (intro exI conjI) (rule second x reached)+
qed

end
