(* ===== verification/Portable_Paths.thy ===== *)
theory Portable_Paths
  imports Proto
begin

text \<open>
  Paths inside a shared workspace (\<open>internal/portablefs/paths.go\<close>), the directories of a project on
  the daemon (\<open>internal/daemon/layout.go\<close>) and the path helpers of the workspace manager.

  The theorems say that a path the validation accepts names a place below the workspace directory
  it is joined to, and that the directories of different projects do not overlap.
\<close>

section \<open>UTF-8\<close>

text \<open>
  \<open>utf8.DecodeRuneInString\<close>: the first rune of a non-empty string and the number of bytes it takes;
  an encoding error gives \<open>None\<close> where Go gives \<open>RuneError\<close> with one byte.
\<close>

definition continuation :: "nat \<Rightarrow> bool" where
  "continuation b \<longleftrightarrow> 128 \<le> b \<and> b < 192"

definition decode2 :: "nat \<Rightarrow> nat \<Rightarrow> nat option" where
  "decode2 a b = (if 194 \<le> a \<and> a < 224 \<and> continuation b then Some ((a - 192) * 64 + (b - 128)) else None)"

definition decode3 :: "nat \<Rightarrow> nat \<Rightarrow> nat \<Rightarrow> nat option" where
  "decode3 a b c =
     (if 224 \<le> a \<and> a < 240 \<and> continuation b \<and> continuation c \<and>
         (a = 224 \<longrightarrow> 160 \<le> b) \<and> (a = 237 \<longrightarrow> b < 160)
      then Some ((a - 224) * 4096 + (b - 128) * 64 + (c - 128)) else None)"

definition decode4 :: "nat \<Rightarrow> nat \<Rightarrow> nat \<Rightarrow> nat \<Rightarrow> nat option" where
  "decode4 a b c d =
     (if 240 \<le> a \<and> a < 245 \<and> continuation b \<and> continuation c \<and> continuation d \<and>
         (a = 240 \<longrightarrow> 144 \<le> b) \<and> (a = 244 \<longrightarrow> b < 144)
      then Some ((a - 240) * 262144 + (b - 128) * 4096 + (c - 128) * 64 + (d - 128)) else None)"

definition byte_at :: "string \<Rightarrow> nat \<Rightarrow> nat" where
  "byte_at s i = (if i < length s then of_char (s ! i) else 0)"

definition DecodeRune :: "string \<Rightarrow> (nat \<times> nat) option" where
  "DecodeRune s =
     (let a = byte_at s 0; b = byte_at s 1; c = byte_at s 2; d = byte_at s 3
      in if s = [] then None
         else if a < 128 then Some (a, 1)
         else case decode2 a b of Some r \<Rightarrow> Some (r, 2)
         | None \<Rightarrow> (case decode3 a b c of Some r \<Rightarrow> Some (r, 3)
         | None \<Rightarrow> (case decode4 a b c d of Some r \<Rightarrow> Some (r, 4) | None \<Rightarrow> None)))"

lemma DecodeRune_size: "DecodeRune s = Some (r, n) \<Longrightarrow> 0 < n \<and> s \<noteq> []"
  by (auto simp: DecodeRune_def Let_def split: if_splits option.splits)

text \<open>\<open>RuneError\<close>, the runes a \<open>range\<close> loop over a string sees, and \<open>utf8.ValidString\<close>.\<close>

definition RuneError :: nat where
  "RuneError = 65533"

function runes :: "string \<Rightarrow> nat list" where
  "runes s =
     (if s = [] then []
      else case DecodeRune s of
             None \<Rightarrow> RuneError # runes (drop 1 s)
           | Some (r, n) \<Rightarrow> r # runes (drop n s))"
  by pat_completeness auto
termination
  by (relation "measure length") (auto dest: DecodeRune_size)

declare runes.simps [simp del]

function ValidString :: "string \<Rightarrow> bool" where
  "ValidString s \<longleftrightarrow>
     (s = [] \<or> (case DecodeRune s of None \<Rightarrow> False | Some (r, n) \<Rightarrow> ValidString (drop n s)))"
  by pat_completeness auto
termination
  by (relation "measure length") (auto dest: DecodeRune_size)

declare ValidString.simps [simp del]

section \<open>Portable paths\<close>

text \<open>
  The only runes that are not ASCII and whose upper case is ASCII are the dotless i and the long s,
  whose upper cases occur in no reserved name: mapping the ASCII letters is enough here.
\<close>

definition ascii_upper :: "char \<Rightarrow> char" where
  "ascii_upper c = (let n = of_char c :: nat in if 97 \<le> n \<and> n \<le> 122 then char_of (n - 32) else c)"

definition windowsReservedNames :: "string list" where
  "windowsReservedNames =
     [''CON'', ''PRN'', ''AUX'', ''NUL'',
      ''COM1'', ''COM2'', ''COM3'', ''COM4'', ''COM5'', ''COM6'', ''COM7'', ''COM8'', ''COM9'',
      ''LPT1'', ''LPT2'', ''LPT3'', ''LPT4'', ''LPT5'', ''LPT6'', ''LPT7'', ''LPT8'', ''LPT9'']"

definition err_not_portable :: err where
  "err_not_portable = PlainErr
     ''workspace path contains a filename that is not portable across Windows and macOS''"

definition err_outside :: err where
  "err_outside = PlainErr ''workspace path must stay within the shared workspace''"

text \<open>The characters of the Go literal \<open><>:"\|?*\<close> by their codes.\<close>

definition reserved_runes :: "nat list" where
  "reserved_runes = [60, 62, 58, 34, 92, 124, 63, 42]"

definition validateComponent :: "string \<Rightarrow> err option" where
  "validateComponent component =
     (if \<not> ValidString component then
        Some (PlainErr ''workspace path contains a filename that is not valid UTF-8'')
      else if HasSuffix component ''.'' \<or> HasSuffix component '' '' then Some err_not_portable
      else if list_ex (\<lambda>r. r = 0 \<or> r < 32 \<or> r \<in> set reserved_runes) (runes component)
        then Some err_not_portable
      else
        let base = (case Cut component (CHR ''.'') of None \<Rightarrow> component | Some (base, _) \<Rightarrow> base)
        in if map ascii_upper base \<in> set windowsReservedNames
           then Some (PlainErr ''workspace path contains a Windows-reserved filename'')
           else None)"

fun validate_parts :: "string list \<Rightarrow> err option" where
  "validate_parts [] = None"
| "validate_parts (part # parts) =
     (if part = [] \<or> part = ''.'' \<or> part = ''..'' then Some err_outside
      else case validateComponent part of Some e \<Rightarrow> Some e | None \<Rightarrow> validate_parts parts)"

definition ValidateRelativePath :: "string \<Rightarrow> err option" where
  "ValidateRelativePath path =
     (let clean = ToSlash (TrimSpace path)
      in if clean = [] \<or> clean = ''.'' then Some (PlainErr ''workspace path is required'')
         else if HasPrefix clean ''/'' then Some err_outside
         else validate_parts (Split clean (CHR ''/'')))"

text \<open>
  \<open>CollisionKey\<close>: the decomposition \<open>norm.NFD.String\<close> of \<open>golang.org/x/text\<close> and the lower case of
  the Unicode tables are the parameters \<open>nfd\<close> and \<open>lower\<close>.
\<close>

definition CollisionKey :: "(string \<Rightarrow> string) \<Rightarrow> (string \<Rightarrow> string) \<Rightarrow> string \<Rightarrow> string" where
  "CollisionKey nfd lower path =
     (let clean = ToSlash (TrimSpace path)
      in if clean = [] then []
         else Join (map (\<lambda>part. lower (nfd part)) (Split clean (CHR ''/''))) ''/'')"

section \<open>Project directories\<close>

text \<open>\<open>filepath.Join\<close>: the non-empty elements joined by slashes and cleaned.\<close>

definition path_Join :: "string list \<Rightarrow> string" where
  "path_Join elems =
     (let elems = filter (\<lambda>e. e \<noteq> []) elems in if elems = [] then [] else Clean (Join elems ''/''))"

record ProjectLayout =
  lay_Root :: string
  lay_WorkspaceDir :: string
  lay_MountDir :: string
  lay_RuntimeDir :: string
  lay_CommandsDir :: string

record CommandLayout =
  cmdl_Dir :: string
  cmdl_StdoutPath :: string
  cmdl_StderrPath :: string
  cmdl_ExitCodePath :: string

definition validatePathSegment :: "string \<Rightarrow> string \<Rightarrow> err option" where
  "validatePathSegment value field =
     (let value = TrimSpace value
      in if value = [] then Some (PlainErr (field @ '' is required''))
         else if value = ''.'' \<or> value = ''..'' then Some (PlainErr (field @ '' must not be dot segments''))
         else if CHR ''/'' \<in> set value then Some (PlainErr (field @ '' must not contain path separators''))
         else None)"

definition ResolveProjectLayout :: "string \<Rightarrow> ProjectKey \<Rightarrow> ProjectLayout res" where
  "ResolveProjectLayout projectsRoot key =
     (if TrimSpace projectsRoot = [] then Inl (PlainErr ''projects root is required'')
      else case validatePathSegment (key_Username key) ''username'' of Some e \<Rightarrow> Inl e
      | None \<Rightarrow> (case validatePathSegment (key_ProjectID key) ''project id'' of Some e \<Rightarrow> Inl e
      | None \<Rightarrow>
          let root = path_Join [projectsRoot, key_Username key, key_ProjectID key]
          in Inr \<lparr>lay_Root = root,
                  lay_WorkspaceDir = path_Join [root, ''workspace''],
                  lay_MountDir = path_Join [root, ''mount''],
                  lay_RuntimeDir = path_Join [root, ''runtime''],
                  lay_CommandsDir = path_Join [root, ''commands'']\<rparr>))"

definition ResolveCommandLayout :: "string \<Rightarrow> ProjectLayout \<Rightarrow> CommandLayout res" where
  "ResolveCommandLayout commandID l =
     (case validatePathSegment commandID ''command id'' of Some e \<Rightarrow> Inl e
      | None \<Rightarrow>
          let dir = path_Join [lay_CommandsDir l, commandID]
          in Inr \<lparr>cmdl_Dir = dir,
                  cmdl_StdoutPath = path_Join [dir, ''stdout.log''],
                  cmdl_StderrPath = path_Join [dir, ''stderr.log''],
                  cmdl_ExitCodePath = path_Join [dir, ''exit_code.txt'']\<rparr>)"

definition canonicalWorkspacePath :: "ProjectLayout \<Rightarrow> string \<Rightarrow> string" where
  "canonicalWorkspacePath layout workspacePath = path_Join [lay_WorkspaceDir layout, workspacePath]"

definition publishedWorkspacePath :: "ProjectLayout \<Rightarrow> string \<Rightarrow> string" where
  "publishedWorkspacePath layout workspacePath = path_Join [lay_MountDir layout, workspacePath]"

section \<open>Path helpers of the workspace manager\<close>

definition validateWorkspacePath :: "string \<Rightarrow> err option" where
  "validateWorkspacePath path =
     map_option (\<lambda>e. NewError ErrUnsupportedPath (Error e)) (ValidateRelativePath path)"

definition isRootWorkspacePath :: "string \<Rightarrow> bool" where
  "isRootWorkspacePath path \<longleftrightarrow>
     (let clean = ToSlash (TrimSpace path) in clean = [] \<or> clean = ''.'')"

definition workspace_parentPath :: "string \<Rightarrow> string" where
  "workspace_parentPath path =
     (let dir = Dir (ToSlash path) in if dir = ''.'' then [] else ToSlash dir)"

definition isWorkspacePathEqualOrNested :: "string \<Rightarrow> string \<Rightarrow> bool" where
  "isWorkspacePathEqualOrNested path pre \<longleftrightarrow>
     (let path = ToSlash (TrimSpace path); pre = ToSlash (TrimSpace pre)
      in path \<noteq> [] \<and> pre \<noteq> [] \<and> (path = pre \<or> HasPrefix path (pre @ ''/'')))"

section \<open>White space around a path\<close>

text \<open>No byte of a white-space rune is a slash or a dot.\<close>

definition path_neutral :: "string \<Rightarrow> bool" where
  "path_neutral s \<longleftrightarrow> CHR ''/'' \<notin> set s \<and> CHR ''.'' \<notin> set s"

lemma path_neutral_simps [simp]:
  "path_neutral []" "path_neutral (s @ t) \<longleftrightarrow> path_neutral s \<and> path_neutral t"
  "path_neutral (rev s) \<longleftrightarrow> path_neutral s"
  by (auto simp: path_neutral_def)

lemma path_neutral_Cons [simp]:
  "path_neutral (c # s) \<longleftrightarrow> c \<noteq> CHR ''/'' \<and> c \<noteq> CHR ''.'' \<and> path_neutral s"
  by (auto simp: path_neutral_def)

lemma space_byte_neutral: "ascii_space c \<or> 128 \<le> (of_char c :: nat) \<Longrightarrow> c \<noteq> CHR ''/'' \<and> c \<noteq> CHR ''.''"
  by (auto simp: ascii_space_def Let_def)

lemma wide_space_neutral:
  "wide_space (of_char a) (of_char b) (of_char c) \<Longrightarrow> path_neutral [a, b, c]"
  using space_byte_neutral [of a] space_byte_neutral [of b] space_byte_neutral [of c]
  by (auto simp: wide_space_def)

lemma space_len_neutral: "path_neutral (take (space_len s) s)"
proof (cases s)
  case (Cons a t)
  show ?thesis
    using space_byte_neutral [of a] space_byte_neutral [of "hd t"] wide_space_neutral [of a]
    unfolding Cons by (cases t; cases "tl t") (simp_all split: if_splits, force+)
qed simp

lemma space_len_rev_neutral: "path_neutral (take (space_len_rev s) s)"
proof (cases s)
  case (Cons c t)
  show ?thesis
    using space_byte_neutral [of c] space_byte_neutral [of "hd t"]
      wide_space_neutral [of "hd (tl t)" "hd t" c]
    unfolding Cons by (cases t; cases "tl t") (simp_all split: if_splits)
qed simp

lemma trim_left_neutral: "\<exists>l. path_neutral l \<and> s = l @ trim_left s"
proof (induction s rule: trim_left.induct)
  case (1 s)
  show ?case
  proof (cases "s = [] \<or> space_len s = 0")
    case False
    then obtain l where "path_neutral l" "drop (space_len s) s = l @ trim_left s"
      using 1 by (auto simp: trim_left.simps [of s])
    then have "path_neutral (take (space_len s) s @ l)" "s = (take (space_len s) s @ l) @ trim_left s"
      using space_len_neutral [of s] by (simp, metis append.assoc append_take_drop_id)
    then show ?thesis by blast
  qed (auto simp: trim_left.simps [of s])
qed

lemma trim_right_rev_neutral: "\<exists>l. path_neutral l \<and> s = l @ trim_right_rev s"
proof (induction s rule: trim_right_rev.induct)
  case (1 s)
  show ?case
  proof (cases "s = [] \<or> space_len_rev s = 0")
    case False
    then obtain l where "path_neutral l" "drop (space_len_rev s) s = l @ trim_right_rev s"
      using 1 by (auto simp: trim_right_rev.simps [of s])
    then have "path_neutral (take (space_len_rev s) s @ l)"
      "s = (take (space_len_rev s) s @ l) @ trim_right_rev s"
      using space_len_rev_neutral [of s] by (simp, metis append.assoc append_take_drop_id)
    then show ?thesis by blast
  qed (auto simp: trim_right_rev.simps [of s])
qed

lemma TrimSpace_neutral:
  obtains l r where "path_neutral l" "path_neutral r" "s = l @ TrimSpace s @ r"
proof -
  obtain l where l: "path_neutral l" "s = l @ trim_left s" using trim_left_neutral by blast
  obtain r where r: "path_neutral r" "rev (trim_left s) = r @ trim_right_rev (rev (trim_left s))"
    using trim_right_rev_neutral by blast
  then have "trim_left s = TrimSpace s @ rev r"
    by (metis TrimSpace_def rev_append rev_rev_ident)
  with l r(1) that [of l "rev r"] show thesis by simp
qed

section \<open>Elements of a path\<close>

text \<open>An element that is a name: not empty, no dot segment and free of slashes.\<close>

definition proper_element :: "string \<Rightarrow> bool" where
  "proper_element p \<longleftrightarrow> p \<noteq> [] \<and> p \<noteq> ''.'' \<and> p \<noteq> ''..'' \<and> CHR ''/'' \<notin> set p"

lemma proper_element_pad:
  assumes "proper_element p" "path_neutral l" "path_neutral r"
  shows "proper_element (l @ p @ r)"
proof -
  have dots: "set (l @ p @ r) \<subseteq> {CHR ''.''} \<Longrightarrow> l = [] \<and> r = []"
    using assms(2,3) by (cases l; cases r) auto
  have "l @ p @ r \<noteq> ''.''" "l @ p @ r \<noteq> ''..''"
    using dots assms(1) by (force simp: proper_element_def)+
  then show ?thesis
    using assms by (auto simp: proper_element_def path_neutral_def)
qed

lemma Split_Cons_hd: "Split s sep = hd (Split s sep) # tl (Split s sep)"
  by simp

lemma Split_prefix_neutral: "sep \<notin> set l \<Longrightarrow> Split (l @ s) sep = (l @ hd (Split s sep)) # tl (Split s sep)"
  by (induction l) (auto split: list.splits)

lemma Split_suffix_neutral:
  "sep \<notin> set r \<Longrightarrow> Split (s @ r) sep = butlast (Split s sep) @ [last (Split s sep) @ r]"
proof (induction s)
  case (Cons c s)
  then show ?case by (cases "Split s sep") auto
qed (simp add: Split_no_sep)

lemma hd_butlast_last: "xs \<noteq> [] \<Longrightarrow> \<forall>x \<in> set xs. P x \<Longrightarrow> P (hd xs) \<and> P (last xs) \<and> (\<forall>x \<in> set (butlast xs). P x)"
  by (auto dest: in_set_butlastD)

lemma proper_split_pad:
  assumes parts: "\<forall>p \<in> set (Split s (CHR ''/'')). proper_element p" and "path_neutral l" "path_neutral r"
  shows "\<forall>p \<in> set (Split (l @ s @ r) (CHR ''/'')). proper_element p"
proof -
  let ?S = "\<lambda>s. Split s (CHR ''/'')"
  have pad: "proper_element p \<Longrightarrow> proper_element (p @ r)" "proper_element p \<Longrightarrow> proper_element (l @ p)" for p
    using proper_element_pad [of p "[]" r] proper_element_pad [of p l "[]"] assms by auto
  have "\<forall>p \<in> set (?S (s @ r)). proper_element p"
    using parts pad(1) assms(3) hd_butlast_last [OF Split_not_Nil parts]
    by (auto simp: Split_suffix_neutral path_neutral_def)
  moreover have "?S (l @ s @ r) = (l @ hd (?S (s @ r))) # tl (?S (s @ r))"
    using assms(2) by (simp add: Split_prefix_neutral path_neutral_def)
  ultimately show ?thesis
    using pad(2) by (metis Split_Cons_hd list.set_intros(1) list.set_intros(2) set_ConsD)
qed

lemma validate_parts_proper:
  "validate_parts parts = None \<Longrightarrow> \<forall>p \<in> set parts. CHR ''/'' \<notin> set p \<Longrightarrow> \<forall>p \<in> set parts. proper_element p"
  by (induction parts) (auto simp: proper_element_def split: if_splits option.splits)

lemma ValidateRelativePath_elements:
  assumes "ValidateRelativePath path = None"
  shows "\<forall>p \<in> set (Split path (CHR ''/'')). proper_element p"
proof -
  obtain l r where lr: "path_neutral l" "path_neutral r" "path = l @ TrimSpace path @ r"
    by (rule TrimSpace_neutral)
  have "validate_parts (Split (TrimSpace path) (CHR ''/'')) = None"
    using assms by (auto simp: ValidateRelativePath_def ToSlash_def Let_def split: if_splits)
  then have "\<forall>p \<in> set (Split (TrimSpace path) (CHR ''/'')). proper_element p"
    using validate_parts_proper Split_pieces_no_sep by blast
  then show ?thesis
    using proper_split_pad [OF _ lr(1,2)] lr(3) by metis
qed

lemma validatePathSegment_proper:
  assumes "validatePathSegment value field = None"
  shows "proper_element value"
proof -
  obtain l r where lr: "path_neutral l" "path_neutral r" "value = l @ TrimSpace value @ r"
    by (rule TrimSpace_neutral)
  have "proper_element (TrimSpace value)"
    using assms by (auto simp: validatePathSegment_def proper_element_def Let_def split: if_splits)
  then show ?thesis
    using proper_element_pad lr by metis
qed

section \<open>Cleaned paths\<close>

text \<open>
  A path is read as whether it is rooted and the list of its elements once cleaned; \<open>render\<close> writes
  it back.
\<close>

definition rooted :: "string \<Rightarrow> bool" where
  "rooted s \<longleftrightarrow> HasPrefix s ''/''"

definition elements :: "string \<Rightarrow> string list" where
  "elements s = clean_parts (rooted s) [] (Split s (CHR ''/''))"

definition render :: "bool \<Rightarrow> string list \<Rightarrow> string" where
  "render r es = (if r then CHR ''/'' # Join es ''/'' else if es = [] then ''.'' else Join es ''/'')"

lemma Clean_render: "Clean s = render (rooted s) (elements s)"
  by (simp add: Clean_def render_def elements_def rooted_def Let_def)

definition clean_form :: "bool \<Rightarrow> string list \<Rightarrow> bool" where
  "clean_form r es \<longleftrightarrow> (\<exists>n names. es = replicate n ''..'' @ names \<and> (r \<longrightarrow> n = 0) \<and>
     (\<forall>p \<in> set names. proper_element p))"

lemma clean_parts_proper: "\<forall>p \<in> set ps. proper_element p \<Longrightarrow> clean_parts r out ps = rev out @ ps"
  by (induction ps arbitrary: out) (auto simp: proper_element_def)

lemma clean_parts_append:
  "\<forall>p \<in> set ys. proper_element p \<Longrightarrow> clean_parts r out (xs @ ys) = clean_parts r out xs @ ys"
  by (induction r out xs rule: clean_parts.induct) (auto simp: clean_parts_proper split: list.splits)

lemma clean_form_Nil [simp]: "clean_form r []"
  by (simp add: clean_form_def)

lemma clean_form_up: "clean_form False [''..'']"
  unfolding clean_form_def by (intro exI [of _ 1] exI [of _ "[]"]) simp

lemma clean_form_snoc: "clean_form r es \<Longrightarrow> proper_element p \<Longrightarrow> clean_form r (es @ [p])"
  by (fastforce simp: clean_form_def)

lemma clean_form_append: "clean_form r es \<Longrightarrow> \<forall>p \<in> set ps. proper_element p \<Longrightarrow> clean_form r (es @ ps)"
  by (fastforce simp: clean_form_def)

lemma clean_form_dots: "clean_form False (es @ [''..'']) \<Longrightarrow> clean_form False (es @ [''..'', ''..''])"
proof -
  assume "clean_form False (es @ [''..''])"
  then obtain n names where es: "es @ [''..''] = replicate n ''..'' @ names" "\<forall>p \<in> set names. proper_element p"
    by (auto simp: clean_form_def)
  then have "names = []"
    by (cases names rule: rev_cases) (auto simp: proper_element_def)
  with es have "es @ [''..'', ''..''] = replicate (Suc n) ''..'' @ []"
    by (metis append.assoc append_Cons append_Nil append_Nil2 replicate_Suc replicate_append_same)
  then show ?thesis
    unfolding clean_form_def by (intro exI [of _ "Suc n"] exI [of _ "[]"]) simp
qed

lemma clean_form_rooted_last: "clean_form True es \<Longrightarrow> p \<in> set es \<Longrightarrow> p \<noteq> ''..''"
  by (auto simp: clean_form_def proper_element_def)

lemma clean_form_butlast: "clean_form r (es @ [p]) \<Longrightarrow> clean_form r es"
proof -
  assume "clean_form r (es @ [p])"
  then obtain n names where es: "es @ [p] = replicate n ''..'' @ names" "r \<longrightarrow> n = 0"
    "\<forall>p \<in> set names. proper_element p"
    by (auto simp: clean_form_def)
  show ?thesis
  proof (cases names rule: rev_cases)
    case Nil
    with es(1) have "es = replicate (n - 1) ''..'' @ []"
      by (cases n) (auto simp flip: replicate_append_same)
    with es(2) show ?thesis
      unfolding clean_form_def by (intro exI [of _ "n - 1"] exI [of _ "[]"]) simp
  next
    case (snoc ys y)
    with es show ?thesis unfolding clean_form_def by auto
  qed
qed

lemma clean_parts_form:
  "clean_form r (rev out) \<Longrightarrow> \<forall>p \<in> set ps. CHR ''/'' \<notin> set p \<Longrightarrow> clean_form r (clean_parts r out ps)"
proof (induction r out ps rule: clean_parts.induct)
  case (2 r out p ps)
  have up: "clean_form r (clean_parts r (if r then [] else [p]) ps)" if "out = []" "p = ''..''"
    using 2(2) [OF _ that(2,1)] 2(7) that clean_form_up by (cases r) auto
  have push: "clean_form r (clean_parts r (p # out) ps)"
    if "p = ''..''" "out = q # qs" "q = ''..''" for q qs
    using 2(3) [OF _ that] 2(6,7) that clean_form_dots [of "rev qs"] clean_form_rooted_last [of "rev out" q]
    by (cases r) auto
  have pop: "clean_form r (clean_parts r qs ps)" if "p = ''..''" "out = q # qs" "q \<noteq> ''..''" for q qs
    using 2(4) [OF _ that] 2(6,7) that clean_form_butlast by auto
  have name: "clean_form r (clean_parts r (p # out) ps)" if "proper_element p"
    using that 2 clean_form_snoc by (auto simp: proper_element_def)
  show ?case
    using 2(1,6,7) up push pop name by (auto simp: proper_element_def split: list.splits)
qed simp

lemma elements_form: "clean_form (rooted s) (elements s)"
  using clean_parts_form [of _ "[]"] Split_pieces_no_sep by (auto simp: elements_def)

lemma clean_form_elements:
  assumes "clean_form r es" "p \<in> set es"
  shows "p \<noteq> [] \<and> CHR ''/'' \<notin> set p"
proof -
  from assms have "p = ''..'' \<or> proper_element p"
    unfolding clean_form_def by (auto simp: in_set_replicate)
  then show ?thesis by (auto simp: proper_element_def)
qed

lemma clean_parts_dots:
  assumes "\<forall>p \<in> set names. proper_element p"
  shows "clean_parts False (replicate k ''..'') (replicate n ''..'' @ names) = replicate (k + n) ''..'' @ names"
proof (induction n arbitrary: k)
  case 0
  then show ?case using assms by (simp add: clean_parts_proper)
next
  case (Suc n)
  then show ?case using Suc.IH [of "Suc k"] by (cases k) simp_all
qed

lemma clean_parts_clean_form: "clean_form r es \<Longrightarrow> clean_parts r [] es = es"
  using clean_parts_dots [of _ 0] by (cases r) (auto simp: clean_form_def clean_parts_proper)

lemma not_rooted_Join: "es \<noteq> [] \<Longrightarrow> \<forall>p \<in> set es. p \<noteq> [] \<and> CHR ''/'' \<notin> set p \<Longrightarrow> \<not> rooted (Join es ''/'')"
  by (cases es; cases "hd es"; cases "tl es") (auto simp: rooted_def)

lemma elements_render:
  assumes "clean_form r es" "r \<or> es \<noteq> []"
  shows "rooted (render r es) = r" "elements (render r es) = es"
proof -
  note es = clean_form_elements [OF assms(1)]
  show r: "rooted (render r es) = r"
    using es assms(2) not_rooted_Join by (auto simp: render_def rooted_def)
  have "es \<noteq> [] \<Longrightarrow> Split (Join es ''/'') (CHR ''/'') = es"
    using es by (simp add: Split_Join)
  then show "elements (render r es) = es"
    using assms clean_parts_clean_form
    unfolding elements_def r by (auto simp: render_def)
qed

lemma Join_append: "xs \<noteq> [] \<Longrightarrow> ys \<noteq> [] \<Longrightarrow> Join (xs @ ys) sep = Join xs sep @ sep @ Join ys sep"
  by (induction xs rule: induct_list012) (auto simp: Join_Cons)

lemma render_append: "es \<noteq> [] \<Longrightarrow> ps \<noteq> [] \<Longrightarrow> render r (es @ ps) = render r es @ ''/'' @ Join ps ''/''"
  by (simp add: render_def Join_append)

lemma Split_slash: "Split (s @ sep # t) sep = Split s sep @ Split t sep"
  by (induction s) (auto split: list.splits)

lemma Join_not_Nil: "ws \<noteq> [] \<Longrightarrow> hd ws \<noteq> [] \<Longrightarrow> Join ws sep \<noteq> []"
  by (cases ws; cases "tl ws") auto

lemma render_not_Nil: "clean_form r es \<Longrightarrow> render r es \<noteq> []"
  using clean_form_elements [of r es "hd es"] Join_not_Nil [of es] by (auto simp: render_def)

lemma path_Join_elements:
  assumes "a \<noteq> []" "\<forall>e \<in> set (Split p (CHR ''/'')). proper_element e"
  shows "path_Join [a, p] = render (rooted a) (elements a @ Split p (CHR ''/''))"
proof -
  have "p \<noteq> []" using assms(2) by (cases p) (simp_all add: proper_element_def)
  then have "path_Join [a, p] = Clean (a @ CHR ''/'' # p)"
    using assms(1) by (simp add: path_Join_def)
  moreover have "rooted (a @ CHR ''/'' # p) = rooted a"
    using assms(1) by (cases a) (simp_all add: rooted_def)
  ultimately show ?thesis
    using assms(2) by (simp add: Clean_render elements_def Split_slash clean_parts_append)
qed

lemma path_Join_render:
  assumes "clean_form r es" "es \<noteq> []" "\<forall>e \<in> set (Split p (CHR ''/'')). proper_element e"
  shows "path_Join [render r es, p] = render r (es @ Split p (CHR ''/''))"
  using path_Join_elements [OF render_not_Nil assms(3)] elements_render [of r es] assms by simp

lemma Split_proper: "proper_element p \<Longrightarrow> Split p (CHR ''/'') = [p]"
  by (simp add: Split_no_sep proper_element_def)

text \<open>The directories of a project are the elements of the root, the user and the project.\<close>

lemma ResolveProjectLayout_render:
  assumes "ResolveProjectLayout root key = Inr l"
  obtains r es where "clean_form r es"
    "lay_Root l = render r (es @ [key_Username key, key_ProjectID key])"
    "lay_WorkspaceDir l = render r (es @ [key_Username key, key_ProjectID key, ''workspace''])"
    "lay_MountDir l = render r (es @ [key_Username key, key_ProjectID key, ''mount''])"
    "proper_element (key_Username key)" "proper_element (key_ProjectID key)"
    "r = rooted root" "es = elements root"
proof -
  let ?u = "key_Username key" and ?k = "key_ProjectID key"
  have uk: "proper_element ?u" "proper_element ?k" and root: "root \<noteq> []"
    and l: "lay_Root l = path_Join [root, ?u, ?k]"
      "lay_WorkspaceDir l = path_Join [lay_Root l, ''workspace'']"
      "lay_MountDir l = path_Join [lay_Root l, ''mount'']"
    using assms validatePathSegment_proper
    by (auto simp: ResolveProjectLayout_def Let_def split: if_splits option.splits)
  have "path_Join [root, ?u, ?k] = path_Join [root, ?u @ CHR ''/'' # ?k]"
    using uk root by (simp add: path_Join_def proper_element_def)
  also have "\<dots> = render (rooted root) (elements root @ [?u, ?k])"
    using path_Join_elements [OF root, of "?u @ CHR ''/'' # ?k"] uk by (simp add: Split_slash Split_proper)
  finally have R: "lay_Root l = render (rooted root) (elements root @ [?u, ?k])" using l by simp
  have form: "clean_form (rooted root) (elements root @ [?u, ?k])"
    using clean_form_append [OF elements_form] uk by simp
  have "path_Join [lay_Root l, d] = render (rooted root) (elements root @ [?u, ?k, d])"
    if "proper_element d" for d
    using path_Join_render [OF form, of d] that by (simp add: R Split_proper)
  then show thesis
    using that [OF elements_form R] l uk by (simp add: proper_element_def)
qed

text \<open>
  C34: A workspace path that \<open>ValidateRelativePath\<close> accepts has no empty element and no dot segment, and
  joining it to the workspace or the mount directory of a project gives exactly that directory, a
  slash and the path: the file it names lies below the directory.
\<close>

theorem validated_path_stays_inside:
  assumes "ResolveProjectLayout root key = Inr l" "ValidateRelativePath p = None"
  shows "canonicalWorkspacePath l p = lay_WorkspaceDir l @ ''/'' @ p \<and>
    publishedWorkspacePath l p = lay_MountDir l @ ''/'' @ p \<and>
    set (Split p (CHR ''/'')) \<inter> {[], ''.'', ''..''} = {}"
proof -
  note parts = ValidateRelativePath_elements [OF assms(2)]
  obtain r es where es: "clean_form r es"
    and W: "lay_WorkspaceDir l = render r (es @ [key_Username key, key_ProjectID key, ''workspace''])"
    and M: "lay_MountDir l = render r (es @ [key_Username key, key_ProjectID key, ''mount''])"
    and uk: "proper_element (key_Username key)" "proper_element (key_ProjectID key)"
    by (rule ResolveProjectLayout_render [OF assms(1)])
  have "path_Join [render r (es @ [key_Username key, key_ProjectID key, d]), p] =
      render r (es @ [key_Username key, key_ProjectID key, d]) @ ''/'' @ p" if "proper_element d" for d
    using path_Join_render [OF clean_form_append [OF es], of "[key_Username key, key_ProjectID key, d]" p]
      parts uk that render_append [of "es @ [key_Username key, key_ProjectID key, d]" "Split p (CHR ''/'')"]
    by simp
  then show ?thesis
    using parts W M
    by (auto simp: canonicalWorkspacePath_def publishedWorkspacePath_def proper_element_def)
qed

definition demo_key :: "string \<Rightarrow> ProjectKey" where
  "demo_key project = \<lparr>key_Username = ''ann'', key_ProjectID = project\<rparr>"

theorem validated_path_stays_inside_witness:
  "\<exists>l. ResolveProjectLayout ''/srv/./x'' (demo_key ''p'') = Inr l \<and> ValidateRelativePath ''a/b.c'' = None \<and>
     ValidateRelativePath ''a/../../b'' = Some err_outside \<and>
     canonicalWorkspacePath l ''a/b.c'' = ''/srv/x/ann/p/workspace/a/b.c'' \<and>
     canonicalWorkspacePath l ''a/b.c'' = lay_WorkspaceDir l @ ''/'' @ ''a/b.c''"
proof -
  define l where "l = projr (ResolveProjectLayout ''/srv/./x'' (demo_key ''p''))"
  have "ResolveProjectLayout ''/srv/./x'' (demo_key ''p'') =
      Inr (projr (ResolveProjectLayout ''/srv/./x'' (demo_key ''p'')))" by code_simp
  then have l: "ResolveProjectLayout ''/srv/./x'' (demo_key ''p'') = Inr l" unfolding l_def .
  have v: "ValidateRelativePath ''a/b.c'' = None" "ValidateRelativePath ''a/../../b'' = Some err_outside"
    by code_simp+
  have "canonicalWorkspacePath l ''a/b.c'' = ''/srv/x/ann/p/workspace/a/b.c''" unfolding l_def by code_simp
  with l v validated_path_stays_inside [OF l v(1)] show ?thesis by blast
qed

text \<open>
  C38: The directories of two projects do not overlap: no path at or below the root directory of one
  project is at or below the root directory of another.
\<close>

theorem project_directories_disjoint:
  assumes "ResolveProjectLayout root k1 = Inr l1" "ResolveProjectLayout root k2 = Inr l2" "k1 \<noteq> k2"
  shows "\<not> HasPrefix (lay_Root l2 @ ''/'' @ p) (lay_Root l1 @ ''/'')"
proof
  assume "HasPrefix (lay_Root l2 @ ''/'' @ p) (lay_Root l1 @ ''/'')"
  then obtain q where q: "lay_Root l2 @ ''/'' @ p = lay_Root l1 @ ''/'' @ q" by (auto simp: prefix_def)
  have base: "render (rooted root) (elements root @ [u, k]) = B @ u @ CHR ''/'' # k"
    if "B = (if elements root = [] then if rooted root then ''/'' else [] else render (rooted root) (elements root) @ ''/'')"
    for u k B
    using that by (simp add: render_def Join_append)
  obtain B where B: "render (rooted root) (elements root @ [u, k]) = B @ u @ CHR ''/'' # k" for u k
    using base by blast
  have root: "lay_Root l = B @ key_Username k @ CHR ''/'' # key_ProjectID k \<and>
      CHR ''/'' \<notin> set (key_Username k) \<and> CHR ''/'' \<notin> set (key_ProjectID k)"
    if "ResolveProjectLayout root k = Inr l" for k l
    by (rule ResolveProjectLayout_render [OF that]) (simp add: B proper_element_def)
  note r1 = root [OF assms(1)] and r2 = root [OF assms(2)]
  have cut: "Cut (u @ CHR ''/'' # s) (CHR ''/'') = Some (u, s)" if "CHR ''/'' \<notin> set u" for u s
    using that by (rule Cut_append)
  from q r1 r2 have "key_Username k2 @ CHR ''/'' # key_ProjectID k2 @ CHR ''/'' # p =
      key_Username k1 @ CHR ''/'' # key_ProjectID k1 @ CHR ''/'' # q" by simp
  then have "key_Username k1 = key_Username k2 \<and> key_ProjectID k1 = key_ProjectID k2"
    using cut r1 r2 by (metis Pair_inject option.inject)
  with assms(3) show False by simp
qed

theorem project_directories_disjoint_witness:
  "ResolveProjectLayout ''/srv'' (demo_key ''p'') \<noteq> ResolveProjectLayout ''/srv'' (demo_key ''pq'') \<and>
   \<not> HasPrefix (lay_Root (projr (ResolveProjectLayout ''/srv'' (demo_key ''pq''))) @ ''/'' @ ''x'')
     (lay_Root (projr (ResolveProjectLayout ''/srv'' (demo_key ''p''))) @ ''/'')"
proof -
  have "ResolveProjectLayout ''/srv'' (demo_key ''p'') = Inr (projr (ResolveProjectLayout ''/srv'' (demo_key ''p'')))"
    "ResolveProjectLayout ''/srv'' (demo_key ''pq'') = Inr (projr (ResolveProjectLayout ''/srv'' (demo_key ''pq'')))"
    "demo_key ''p'' \<noteq> demo_key ''pq''"
    by code_simp+
  note project_directories_disjoint [OF this, of "''x''"]
  moreover have "ResolveProjectLayout ''/srv'' (demo_key ''p'') \<noteq> ResolveProjectLayout ''/srv'' (demo_key ''pq'')"
    by code_simp
  ultimately show ?thesis by blast
qed

end
