(* ===== verification/Glob.thy ===== *)
theory Glob
  imports Portable_Paths
begin

text \<open>
  \<open>filepath.Match\<close> of the Go library, which the ignore rules of a workspace call for each element of
  a path: \<open>*\<close>, \<open>?\<close>, character classes and escapes, on byte strings with UTF-8 runes where the library
  decodes them.
\<close>

section \<open>Chunks of a pattern\<close>

text \<open>
  \<open>scanChunk\<close>: the stars at the beginning, then the part up to the next star outside of brackets, then
  the rest of the pattern. \<open>chunk_len\<close> is the length of the second part.
\<close>

fun chunk_len :: "bool \<Rightarrow> string \<Rightarrow> nat" where
  "chunk_len inrange [] = 0"
| "chunk_len inrange (c # s) =
     (if c = CHR 0x5C then (case s of [] \<Rightarrow> 1 | _ # s' \<Rightarrow> 2 + chunk_len inrange s')
      else if c = CHR ''['' then 1 + chunk_len True s
      else if c = CHR '']'' then 1 + chunk_len False s
      else if c = CHR ''*'' \<and> \<not> inrange then 0
      else 1 + chunk_len inrange s)"

definition scanChunk :: "string \<Rightarrow> bool \<times> string \<times> string" where
  "scanChunk pattern =
     (let rest = dropWhile (\<lambda>c. c = CHR ''*'') pattern; n = chunk_len False rest
      in (HasPrefix pattern ''*'', take n rest, drop n rest))"

lemma chunk_len_pos: "s \<noteq> [] \<Longrightarrow> hd s \<noteq> CHR ''*'' \<Longrightarrow> 0 < chunk_len False s"
  by (cases s) (auto split: list.splits)

lemma scanChunk_shorter: "pattern \<noteq> [] \<Longrightarrow> scanChunk pattern = (star, chunk, rest) \<Longrightarrow> length rest < length pattern"
proof -
  assume p: "pattern \<noteq> []" and "scanChunk pattern = (star, chunk, rest)"
  then have rest: "rest = drop (chunk_len False (dropWhile (\<lambda>c. c = CHR ''*'') pattern)) (dropWhile (\<lambda>c. c = CHR ''*'') pattern)"
    by (simp add: scanChunk_def Let_def)
  show ?thesis
  proof (cases "hd pattern = CHR ''*''")
    case True
    then have "length (dropWhile (\<lambda>c. c = CHR ''*'') pattern) < length pattern"
      using p by (cases pattern) (auto simp: le_imp_less_Suc length_dropWhile_le)
    then show ?thesis unfolding rest by simp
  next
    case False
    then have "dropWhile (\<lambda>c. c = CHR ''*'') pattern = pattern" using p by (cases pattern) auto
    then show ?thesis unfolding rest using p chunk_len_pos [OF p False] by simp
  qed
qed

section \<open>Matching a chunk\<close>

datatype chunk_result = BadPattern | NoMatch | Rest string

definition decode_rune :: "string \<Rightarrow> nat \<times> nat" where
  "decode_rune s = (case DecodeRune s of None \<Rightarrow> (RuneError, 1) | Some x \<Rightarrow> x)"

text \<open>\<open>getEsc\<close>: a rune of a character class, possibly escaped, with the non-empty rest; \<open>None\<close> is \<open>ErrBadPattern\<close>.\<close>

definition getEsc :: "string \<Rightarrow> (nat \<times> string) option" where
  "getEsc chunk =
     (if chunk = [] \<or> hd chunk = CHR ''-'' \<or> hd chunk = CHR '']'' then None
      else
        let chunk = (if hd chunk = CHR 0x5C then tl chunk else chunk)
        in case DecodeRune chunk of
             None \<Rightarrow> None
           | Some (r, n) \<Rightarrow> if drop n chunk = [] then None else Some (r, drop n chunk))"

lemma getEsc_shorter: "getEsc chunk = Some (r, rest) \<Longrightarrow> length rest < length chunk \<and> rest \<noteq> []"
  by (cases chunk) (auto simp: getEsc_def Let_def dest!: DecodeRune_size split: if_splits option.splits)

text \<open>The ranges of a class up to the closing bracket, which may not come first.\<close>

function match_ranges :: "nat \<Rightarrow> bool \<Rightarrow> bool \<Rightarrow> string \<Rightarrow> (bool \<times> string) option" where
  "match_ranges r matched later chunk =
     (if later \<and> HasPrefix chunk '']'' then Some (matched, tl chunk)
      else case getEsc chunk of
             None \<Rightarrow> None
           | Some (lo, chunk1) \<Rightarrow>
               (case (if hd chunk1 = CHR ''-'' then getEsc (tl chunk1) else Some (lo, chunk1)) of
                  None \<Rightarrow> None
                | Some (hi, chunk2) \<Rightarrow> match_ranges r (matched \<or> lo \<le> r \<and> r \<le> hi) True chunk2))"
  by pat_completeness auto
termination
proof (relation "measure (\<lambda>(_, _, _, chunk). length chunk)", goal_cases)
  case (2 r matched later chunk x2 lo chunk1 x2a hi chunk2)
  then have "length chunk1 < length chunk" "length chunk2 \<le> length chunk1"
    by (auto dest!: getEsc_shorter split: if_splits)
  then show ?case by simp
qed simp

declare match_ranges.simps [simp del]

lemma match_ranges_shorter: "match_ranges r matched later chunk = Some (m, rest) \<Longrightarrow> length rest \<le> length chunk"
proof (induction r matched later chunk rule: match_ranges.induct)
  case (1 r matched later chunk)
  show ?case
  proof (cases "later \<and> HasPrefix chunk '']''")
    case True
    then show ?thesis using "1.prems" by (subst (asm) match_ranges.simps) auto
  next
    case False
    then obtain lo chunk1 hi chunk2 where *: "getEsc chunk = Some (lo, chunk1)"
      "(if hd chunk1 = CHR ''-'' then getEsc (tl chunk1) else Some (lo, chunk1)) = Some (hi, chunk2)"
      "match_ranges r (matched \<or> lo \<le> r \<and> r \<le> hi) True chunk2 = Some (m, rest)"
      using "1.prems" by (subst (asm) match_ranges.simps) (auto split: option.splits if_splits)
    have "length chunk2 \<le> length chunk1" using *(2) by (auto dest!: getEsc_shorter split: if_splits)
    with "1.IH" [OF False *(1) refl *(2) refl *(3)] getEsc_shorter [OF *(1)] show ?thesis by simp
  qed
qed

text \<open>After a mismatch the chunk is still read to its end, because a bad pattern is an error.\<close>

function match_chunk :: "bool \<Rightarrow> string \<Rightarrow> string \<Rightarrow> chunk_result" where
  "match_chunk failed [] s = (if failed then NoMatch else Rest s)"
| "match_chunk failed0 (c # chunk) s =
     (let failed = (failed0 \<or> s = [])
      in if c = CHR ''['' then
           let (r, n) = (if failed then (0, 0) else decode_rune s);
               negated = HasPrefix chunk ''^''
           in (case match_ranges r False False (if negated then tl chunk else chunk) of
                 None \<Rightarrow> BadPattern
               | Some (matched, chunk) \<Rightarrow> match_chunk (failed \<or> matched = negated) chunk (drop n s))
         else if c = CHR ''?'' then
           match_chunk (failed \<or> hd s = CHR ''/'') chunk (if failed then s else drop (snd (decode_rune s)) s)
         else if c = CHR 0x5C then
           (case chunk of
              [] \<Rightarrow> BadPattern
            | c # chunk \<Rightarrow> match_chunk (failed \<or> c \<noteq> hd s) chunk (if failed then s else tl s))
         else match_chunk (failed \<or> c \<noteq> hd s) chunk (if failed then s else tl s))"
  by pat_completeness auto
termination
proof (relation "measure (\<lambda>(_, chunk, _). length chunk)", goal_cases)
  case (2 failed0 c chunk s x y r n negated z matched rest)
  then have "length rest \<le> length (if negated then tl chunk else chunk)" by (auto dest!: match_ranges_shorter)
  also have "\<dots> \<le> length chunk" by simp
  finally show ?case by simp
qed auto

section \<open>Match\<close>

text \<open>After a star: the first place, at most up to the next slash, from which the chunk matches.\<close>

fun skip_match :: "string \<Rightarrow> bool \<Rightarrow> string \<Rightarrow> chunk_result" where
  "skip_match chunk final [] = NoMatch"
| "skip_match chunk final (c # name) =
     (if c = CHR ''/'' then NoMatch
      else case match_chunk False chunk name of
             Rest t \<Rightarrow> if final \<and> t \<noteq> [] then skip_match chunk final name else Rest t
           | BadPattern \<Rightarrow> BadPattern
           | NoMatch \<Rightarrow> skip_match chunk final name)"

function valid_pattern :: "string \<Rightarrow> bool" where
  "valid_pattern pattern =
     (if pattern = [] then True
      else case scanChunk pattern of (_, chunk, rest) \<Rightarrow> match_chunk False chunk [] \<noteq> BadPattern \<and> valid_pattern rest)"
  by pat_completeness auto
termination
  by (relation "measure length") (auto dest: scanChunk_shorter [OF _ sym])

declare valid_pattern.simps [simp del]

text \<open>\<open>None\<close> is \<open>ErrBadPattern\<close>.\<close>

function Match :: "string \<Rightarrow> string \<Rightarrow> bool option" where
  "Match pattern name =
     (if pattern = [] then Some (name = [])
      else case scanChunk pattern of
        (star, chunk, rest) \<Rightarrow>
          if star \<and> chunk = [] then Some (CHR ''/'' \<notin> set name)
          else
            case (case match_chunk False chunk name of
                    Rest t \<Rightarrow>
                      if t = [] \<or> rest \<noteq> [] then Rest t
                      else if star then skip_match chunk (rest = []) name else NoMatch
                  | BadPattern \<Rightarrow> BadPattern
                  | NoMatch \<Rightarrow> if star then skip_match chunk (rest = []) name else NoMatch) of
              Rest t \<Rightarrow> Match rest t
            | BadPattern \<Rightarrow> None
            | NoMatch \<Rightarrow> if valid_pattern rest then Some False else None)"
  by pat_completeness auto
termination
  by (relation "measure (\<lambda>(pattern, _). length pattern)") (auto dest: scanChunk_shorter [OF _ sym])

declare Match.simps [simp del]

section \<open>Literal patterns\<close>

definition literal :: "string \<Rightarrow> bool" where
  "literal p \<longleftrightarrow> set p \<inter> {CHR ''*'', CHR ''?'', CHR ''['', CHR 0x5C} = {}"

lemma literal_Cons: "literal (c # p) \<longleftrightarrow> c \<noteq> CHR ''*'' \<and> c \<noteq> CHR ''?'' \<and> c \<noteq> CHR ''['' \<and> c \<noteq> CHR 0x5C \<and> literal p"
  by (auto simp: literal_def)

lemma chunk_len_literal: "literal p \<Longrightarrow> chunk_len False p = length p"
  by (induction p) (auto simp: literal_Cons)

lemma scanChunk_literal: "literal p \<Longrightarrow> scanChunk p = (False, p, [])"
  by (cases p) (auto simp: scanChunk_def chunk_len_literal literal_Cons Let_def)

lemma match_chunk_failed: "literal p \<Longrightarrow> match_chunk True p s = NoMatch"
  by (induction p arbitrary: s) (auto simp: literal_Cons)

lemma match_chunk_literal: "literal p \<Longrightarrow> match_chunk False p s = (if prefix p s then Rest (drop (length p) s) else NoMatch)"
proof (induction p arbitrary: s)
  case (Cons c p)
  then show ?case by (cases s; cases "c = hd s") (auto simp: literal_Cons match_chunk_failed)
qed simp

lemma Match_literal: "literal p \<Longrightarrow> Match p s = Some (p = s)"
proof (cases "p = []")
  case False
  assume "literal p"
  then show ?thesis
    using False by (auto simp: Match.simps [of p] Match.simps [of "[]"] scanChunk_literal match_chunk_literal
        valid_pattern.simps [of "[]"] prefix_def split: if_splits)
qed (auto simp: Match.simps [of "[]"])

end
