(* ===== verification/Workspace_View.thy ===== *)
theory Workspace_View
  imports Glob
begin

text \<open>
  The ignore rules of a workspace (\<open>internal/sync/workspace_view_rules.go\<close>): reading \<open>.stignore\<close>,
  matching a path against its rules and deciding which paths a client shares.

  \<open>sha\<close> is SHA-256 in hexadecimal. What reading \<open>.stignore\<close> gives is an argument: an error, \<open>None\<close>
  when the file does not exist, or its bytes.
\<close>

section \<open>Rules\<close>

definition WorkspaceIgnoreFileName :: string where
  "WorkspaceIgnoreFileName = ''.stignore''"

record workspaceViewRule =
  vr_include :: bool
  vr_pattern :: string
  vr_segments :: "string list"
  vr_staticPrefix :: string

record WorkspaceViewRules =
  wv_fingerprint :: string
  wv_rules :: "workspaceViewRule list"

fun strip_dot_slash :: "string \<Rightarrow> string" where
  "strip_dot_slash (a # b # s) = (if a = CHR ''.'' \<and> b = CHR ''/'' then strip_dot_slash s else a # b # s)"
| "strip_dot_slash s = s"

definition trim_slash :: "string \<Rightarrow> string" where
  "trim_slash s = (if HasPrefix s ''/'' then tl s else s)"

definition normalizeWorkspaceViewPath :: "string \<Rightarrow> string" where
  "normalizeWorkspaceViewPath path =
     (let path = trim_slash (strip_dot_slash (ToSlash (TrimSpace path))) in if path = ''.'' then [] else path)"

definition normalizeWorkspaceViewPattern :: "string \<Rightarrow> string" where
  "normalizeWorkspaceViewPattern pattern =
     (let pattern = trim_slash (strip_dot_slash (ToSlash (TrimSpace pattern)))
      in if pattern = ''.'' then []
         else if HasSuffix pattern ''/'' then
           (if butlast pattern = [] then [] else butlast pattern @ ''/**'')
         else pattern)"

definition splitWorkspaceViewSegments :: "string \<Rightarrow> string list" where
  "splitWorkspaceViewSegments path =
     (let path = normalizeWorkspaceViewPath path in if path = [] then [] else Split path (CHR ''/''))"

definition has_wildcard :: "string \<Rightarrow> bool" where
  "has_wildcard segment \<longleftrightarrow> segment = ''**'' \<or> set segment \<inter> {CHR ''*'', CHR ''?'', CHR ''[''} \<noteq> {}"

definition workspaceViewStaticPrefix :: "string list \<Rightarrow> string" where
  "workspaceViewStaticPrefix segments = Join (takeWhile (\<lambda>segment. \<not> has_wildcard segment) segments) ''/''"

definition isWorkspaceIgnorePath :: "string \<Rightarrow> bool" where
  "isWorkspaceIgnorePath path \<longleftrightarrow> normalizeWorkspaceViewPath path = WorkspaceIgnoreFileName"

section \<open>Reading the rules\<close>

text \<open>\<open>strings.ReplaceAll(s, "\r\n", "\n")\<close>\<close>

fun replace_crlf :: "string \<Rightarrow> string" where
  "replace_crlf (a # b # s) =
     (if of_char a = (13 :: nat) \<and> of_char b = (10 :: nat) then b # replace_crlf s else a # replace_crlf (b # s))"
| "replace_crlf s = s"

text \<open>One line: comments and lines without a pattern give no rule.\<close>

definition parse_rule :: "string \<Rightarrow> workspaceViewRule option" where
  "parse_rule line =
     (let line = TrimSpace line
      in if line = [] \<or> HasPrefix line ''#'' then None
         else
           let include = HasPrefix line ''!'';
               line = normalizeWorkspaceViewPattern (if include then TrimSpace (tl line) else line)
           in if line = [] then None
              else
                let segments = splitWorkspaceViewSegments line
                in Some \<lparr>vr_include = include, vr_pattern = line, vr_segments = segments,
                         vr_staticPrefix = workspaceViewStaticPrefix segments\<rparr>)"

definition parseWorkspaceViewRules :: "string \<Rightarrow> string \<Rightarrow> WorkspaceViewRules" where
  "parseWorkspaceViewRules fingerprint data =
     \<lparr>wv_fingerprint = fingerprint,
      wv_rules = (if data = [] then [] else List.map_filter parse_rule (Split (replace_crlf data) (CHR ''\<newline>'')))\<rparr>"

definition workspaceRulesSource :: "(string \<Rightarrow> string) \<Rightarrow> string option res \<Rightarrow> (string \<times> string) res" where
  "workspaceRulesSource sha source =
     (case source of
        Inl e \<Rightarrow> Inl e
      | Inr None \<Rightarrow> Inr (''missing'', [])
      | Inr (Some data) \<Rightarrow> Inr (sha data, data))"

definition LoadWorkspaceViewRules :: "(string \<Rightarrow> string) \<Rightarrow> string option res \<Rightarrow> WorkspaceViewRules res" where
  "LoadWorkspaceViewRules sha source =
     (case workspaceRulesSource sha source of
        Inl e \<Rightarrow> Inl e
      | Inr (fingerprint, data) \<Rightarrow> Inr (parseWorkspaceViewRules fingerprint data))"

text \<open>The resolver parses again only when the fingerprint of the file has changed.\<close>

record WorkspaceViewResolver =
  rv_fingerprint :: string
  rv_rules :: "WorkspaceViewRules option"

definition NewWorkspaceViewResolver :: WorkspaceViewResolver where
  "NewWorkspaceViewResolver = \<lparr>rv_fingerprint = [], rv_rules = None\<rparr>"

definition Resolver_Rules ::
  "(string \<Rightarrow> string) \<Rightarrow> string option res \<Rightarrow> WorkspaceViewResolver \<Rightarrow> WorkspaceViewRules res \<times> WorkspaceViewResolver" where
  "Resolver_Rules sha source r =
     (case workspaceRulesSource sha source of
        Inl e \<Rightarrow> (Inl e, r)
      | Inr (fingerprint, data) \<Rightarrow>
          (case rv_rules r of
             Some rules \<Rightarrow>
               if rv_fingerprint r = fingerprint then (Inr rules, r)
               else let rules = parseWorkspaceViewRules fingerprint data
                    in (Inr rules, \<lparr>rv_fingerprint = fingerprint, rv_rules = Some rules\<rparr>)
           | None \<Rightarrow>
               let rules = parseWorkspaceViewRules fingerprint data
               in (Inr rules, \<lparr>rv_fingerprint = fingerprint, rv_rules = Some rules\<rparr>)))"

section \<open>Matching\<close>

text \<open>
  The matcher remembers the pairs of positions it has been at. The deferred function writes \<open>False\<close>
  when a call returns, also over the \<open>True\<close> the call wrote just before. A position beyond the pattern
  is never asked for; it is counted as its end.
\<close>

type_synonym match_memo = "(nat \<times> nat, bool) gomap"

function match_from :: "string list \<Rightarrow> string list \<Rightarrow> nat \<Rightarrow> nat \<Rightarrow> match_memo \<Rightarrow> bool \<times> match_memo" where
  "match_from pattern path i j memo =
     (case map_of memo (i, j) of
        Some cached \<Rightarrow> (cached, memo)
      | None \<Rightarrow>
          let (result, memo) =
                (if i \<ge> length pattern then (j = length path, memo)
                 else if pattern ! i = ''**'' then
                   (case match_from pattern path (i + 1) j memo of
                      (True, memo) \<Rightarrow> (True, AList.update (i, j) True memo)
                    | (False, memo) \<Rightarrow>
                        if j < length path then
                          (case match_from pattern path i (j + 1) memo of
                             (True, memo) \<Rightarrow> (True, AList.update (i, j) True memo)
                           | (False, memo) \<Rightarrow> (False, memo))
                        else (False, memo))
                 else if j \<ge> length path then (False, memo)
                 else if Match (pattern ! i) (path ! j) \<noteq> Some True then (False, memo)
                 else
                   (case match_from pattern path (i + 1) (j + 1) memo of
                      (True, memo) \<Rightarrow> (True, AList.update (i, j) True memo)
                    | (False, memo) \<Rightarrow> (False, memo)))
          in (result, AList.update (i, j) False memo))"
  by pat_completeness auto
termination
  by (relation "measure (\<lambda>(pattern, path, i, j, _). (length pattern - i) + (length path - j))") auto

declare match_from.simps [simp del]

definition matchWorkspaceViewSegments :: "string list \<Rightarrow> string list \<Rightarrow> bool" where
  "matchWorkspaceViewSegments pattern path = fst (match_from pattern path 0 0 [])"

definition rule_matches :: "workspaceViewRule \<Rightarrow> string \<Rightarrow> bool" where
  "rule_matches rule path = matchWorkspaceViewSegments (vr_segments rule) (splitWorkspaceViewSegments path)"

definition mightMatchSubtree :: "workspaceViewRule \<Rightarrow> string \<Rightarrow> bool" where
  "mightMatchSubtree rule dir =
     (let dir = normalizeWorkspaceViewPath dir; pre = vr_staticPrefix rule
      in dir = [] \<or> pre = [] \<or> pre = dir \<or> HasPrefix pre (dir @ ''/'') \<or> HasPrefix dir (pre @ ''/'') \<or>
         rule_matches rule dir)"

text \<open>The last rule that matches decides. The second result is its index, -1 when no rule matches.\<close>

fun evaluate_loop :: "string \<Rightarrow> int \<Rightarrow> workspaceViewRule list \<Rightarrow> bool \<times> int \<Rightarrow> bool \<times> int" where
  "evaluate_loop path idx [] st = st"
| "evaluate_loop path idx (rule # rules) st =
     evaluate_loop path (idx + 1) rules (if rule_matches rule path then (vr_include rule, idx) else st)"

definition evaluate :: "WorkspaceViewRules \<Rightarrow> string \<Rightarrow> bool \<times> int" where
  "evaluate r path =
     (let path = normalizeWorkspaceViewPath path
      in if path = [] \<or> isWorkspaceIgnorePath path then (True, -1)
         else evaluate_loop path 0 (wv_rules r) (True, -1))"

definition AllowsPath :: "WorkspaceViewRules \<Rightarrow> string \<Rightarrow> bool" where
  "AllowsPath r path = fst (evaluate r path)"

definition CanPruneDirectory :: "WorkspaceViewRules \<Rightarrow> string \<Rightarrow> bool" where
  "CanPruneDirectory r path =
     (let path = normalizeWorkspaceViewPath path
      in if path = [] then False
         else case evaluate r path of
                (allowed, lastMatch) \<Rightarrow>
                  \<not> allowed \<and>
                  list_all (\<lambda>rule. \<not> (vr_include rule \<and> mightMatchSubtree rule path))
                    (drop (nat (lastMatch + 1)) (wv_rules r)))"

section \<open>What is on disk\<close>

text \<open>
  A node of a directory tree on disk: a directory with its permissions, modification time, what
  reading it fails with if it does, and its entries; a regular file with its bytes; a symbolic link;
  another kind of file; an entry whose \<open>Info\<close> fails.
\<close>

datatype disk_node =
    DiskDir "32 word" go_time "err option" "(string \<times> disk_node) list"
  | DiskFile "32 word" go_time string
  | DiskSymlink
  | DiskOther
  | DiskGone err

fun node_IsDir :: "disk_node \<Rightarrow> bool" where
  "node_IsDir (DiskDir _ _ _ _) = True"
| "node_IsDir _ = False"

fun visibleExistingWorkspacePath :: "WorkspaceViewRules \<Rightarrow> string \<Rightarrow> disk_node \<Rightarrow> bool res"
  and visible_entries :: "WorkspaceViewRules \<Rightarrow> string \<Rightarrow> (string \<times> disk_node) list \<Rightarrow> bool res" where
  "visibleExistingWorkspacePath rules workspacePath node =
     (let path = normalizeWorkspaceViewPath workspacePath
      in if path = [] then Inr True
         else case node of
                DiskDir _ _ readErr entries \<Rightarrow>
                  if AllowsPath rules path then Inr True
                  else if CanPruneDirectory rules path then Inr False
                  else (case readErr of Some e \<Rightarrow> Inl e | None \<Rightarrow> visible_entries rules path entries)
              | _ \<Rightarrow> Inr (AllowsPath rules path))"
| "visible_entries rules path [] = Inr False"
| "visible_entries rules path ((name, node) # entries) =
     (case visibleExistingWorkspacePath rules (path @ ''/'' @ name) node of
        Inl e \<Rightarrow> Inl e
      | Inr True \<Rightarrow> Inr True
      | Inr False \<Rightarrow> visible_entries rules path entries)"

declare visibleExistingWorkspacePath.simps [simp del]

text \<open>\<open>stat\<close> is what \<open>os.Stat\<close> finds at the path; a missing path is \<open>None\<close>.\<close>

definition PathVisibleOnDisk :: "WorkspaceViewRules \<Rightarrow> string \<Rightarrow> disk_node option res \<Rightarrow> bool res" where
  "PathVisibleOnDisk rules workspacePath stat =
     (let path = normalizeWorkspaceViewPath workspacePath
      in if path = [] then Inr True
         else case stat of
                Inl e \<Rightarrow> Inl e
              | Inr None \<Rightarrow> Inr False
              | Inr (Some node) \<Rightarrow> visibleExistingWorkspacePath rules path node)"

fun visible_names :: "WorkspaceViewRules \<Rightarrow> string \<Rightarrow> (string \<times> disk_node) list \<Rightarrow> string list res" where
  "visible_names rules path [] = Inr []"
| "visible_names rules path ((name, node) # entries) =
     (case visibleExistingWorkspacePath rules (if path = [] then name else path @ ''/'' @ name) node of
        Inl e \<Rightarrow> Inl e
      | Inr visible \<Rightarrow>
          (case visible_names rules path entries of
             Inl e \<Rightarrow> Inl e
           | Inr names \<Rightarrow> Inr (if visible then name # names else names)))"

definition VisibleDirectoryNamesOnDisk ::
  "WorkspaceViewRules \<Rightarrow> string \<Rightarrow> (string \<times> disk_node) list res \<Rightarrow> string list res" where
  "VisibleDirectoryNamesOnDisk rules workspacePath entries =
     (case entries of
        Inl e \<Rightarrow> Inl e
      | Inr entries \<Rightarrow> visible_names rules (normalizeWorkspaceViewPath workspacePath) entries)"

end
