(* ===== verification/Workspace_State.thy ===== *)
theory Workspace_State
  imports Control_Streams Portable_Paths
begin

text \<open>
  What the daemon keeps for the workspace of one project: \<open>workspaceState\<close> of
  \<open>internal/daemon/workspace_manager.go\<close> with the operations on it that run under the manager's
  mutex, and the conservative validation of \<open>workspace_manager_conservative.go\<close>.

  Every object of the workspace has a generation, its directory has one, and an object that exists
  has an identity \<open>obj-n\<close>. Clients send the generations and the identity they have seen as
  preconditions of a mutation. The theorems on identities and generations are at the end.
\<close>

section \<open>State\<close>

record workspaceCommittedState =
  wc_objectGen :: "(string, u64) gomap"
  wc_dirGen :: "(string, u64) gomap"
  wc_objectIdentity :: "(string, string) gomap"
  wc_nextObjectID :: u64
  wc_manifest :: "(string, ManifestEntry) gomap"
  wc_generation :: u64

record remoteHashMemoEntry =
  rh_size :: int
  rh_mode :: "32 word"
  rh_mtimeNanos :: int
  rh_hash :: string

text \<open>
  An upload holds the bytes written to its temporary file; the running hash of the code is the hash
  of these bytes.
\<close>

record uploadSession =
  us_fileID :: string
  us_path :: string
  us_expectedSize :: int
  us_metadata :: FileMetadata
  us_statFingerprint :: string
  us_data :: string

record syncSession =
  ss_sessionID :: string
  ss_epoch :: u64
  ss_attemptID :: u64
  ss_rootFingerprint :: string
  ss_manifest :: "(string, ManifestEntry) gomap"
  ss_changedFiles :: "(string, ManifestEntry) gomap"
  ss_deleted :: "(string, unit) gomap"
  ss_uploads :: "(string, uploadSession) gomap"
  ss_bundles :: "(string, unit) gomap"
  ss_remoteHashMemo :: "(string, remoteHashMemoEntry) gomap"
  ss_nextUploadID :: u64
  ss_nextBundleID :: u64
  ss_manifestBatches :: u64
  ss_deleteBatches :: u64
  ss_uploadBundles :: u64

record workspaceSyncState =
  wy_activeEpoch :: u64
  wy_sessions :: "(u64, syncSession) gomap"

datatype stagedHandleState =
  stagedHandleClean | stagedHandleDirty | stagedHandleCommitting | stagedHandleCommitted | stagedHandleFailed

datatype stagedHandleTargetKind = stagedHandleTargetNone | stagedHandleTargetFile | stagedHandleTargetDir

datatype stagedHandleBackingKind = stagedHandleBackingStagedTemp | stagedHandleBackingOwnerReadThrough

record stagedHandle =
  sh_handleID :: string
  sh_op :: FsOperation
  sh_path :: string
  sh_newPath :: string
  sh_tempPath :: string
  sh_targetKind :: stagedHandleTargetKind
  sh_backingKind :: stagedHandleBackingKind
  sh_openIntent :: FsOpenIntent
  sh_metadata :: FileMetadata
  sh_preconditions :: "MutationPrecondition list"
  sh_state :: stagedHandleState
  sh_resultID :: string
  sh_transactionID :: string

record closedHandleOutcome =
  ch_resultID :: string

record stagedHandleResult =
  hr_reply :: FsReply
  hr_err :: "err option"

text \<open>A transaction is the \<open>done\<close> channel of its identifier: it is in the map until it is finished.\<close>

record workspaceHandleState =
  wh_open :: "(string, stagedHandle) gomap"
  wh_closed :: "(string, closedHandleOutcome) gomap"
  wh_results :: "(string, stagedHandleResult) gomap"
  wh_transactions :: "(string, unit) gomap"
  wh_nextHandleID :: u64
  wh_nextResultID :: u64
  wh_nextTxnID :: u64

record workspaceValidationState =
  wv_conservative :: bool
  wv_objectState :: "(string, string) gomap"
  wv_directoryView :: "(string, string) gomap"

record workspaceState =
  ws_committed :: workspaceCommittedState
  ws_sync :: workspaceSyncState
  ws_handles :: workspaceHandleState
  ws_validation :: workspaceValidationState

record conservativeObservation =
  ob_path :: string
  ob_objectFingerprint :: string
  ob_directoryView :: string

definition new_workspaceState :: workspaceState where
  "new_workspaceState =
     \<lparr>ws_committed = \<lparr>wc_objectGen = [], wc_dirGen = [], wc_objectIdentity = [], wc_nextObjectID = 0,
        wc_manifest = [], wc_generation = 0\<rparr>,
      ws_sync = \<lparr>wy_activeEpoch = 0, wy_sessions = []\<rparr>,
      ws_handles = \<lparr>wh_open = [], wh_closed = [], wh_results = [], wh_transactions = [],
        wh_nextHandleID = 0, wh_nextResultID = 0, wh_nextTxnID = 0\<rparr>,
      ws_validation = \<lparr>wv_conservative = False, wv_objectState = [], wv_directoryView = []\<rparr>\<rparr>"

text \<open>Reading a map of counters or strings at a missing key gives the zero value.\<close>

definition gen_at :: "(string, u64) gomap \<Rightarrow> string \<Rightarrow> u64" where
  "gen_at m k = (case map_of m k of None \<Rightarrow> 0 | Some g \<Rightarrow> g)"

definition str_at :: "(string, string) gomap \<Rightarrow> string \<Rightarrow> string" where
  "str_at m k = (case map_of m k of None \<Rightarrow> [] | Some s \<Rightarrow> s)"

definition bump :: "string \<Rightarrow> (string, u64) gomap \<Rightarrow> (string, u64) gomap" where
  "bump k m = AList.update k (gen_at m k + 1) m"

definition zero_FileMetadata :: FileMetadata where
  "zero_FileMetadata = \<lparr>fm_Mode = 0, fm_MTime = 0, fm_Size = 0\<rparr>"

definition zero_FsReply :: FsReply where
  "zero_FsReply = \<lparr>rp_ObjectGeneration = 0, rp_DirGeneration = 0, rp_Conflict = False, rp_ReadOnly = False,
     rp_HandleID = [], rp_Invalidations = [], rp_Metadata = zero_FileMetadata, rp_IsDir = False, rp_Data = []\<rparr>"

section \<open>Preconditions, generations and identities\<close>

definition checkPreconditionsLocked ::
  "string \<Rightarrow> MutationPrecondition \<Rightarrow> workspaceCommittedState \<Rightarrow> err option" where
  "checkPreconditionsLocked path condition c =
     (let path = (if pc_Path condition \<noteq> [] then pc_Path condition else path)
      in if pc_MustNotExist condition \<and> map_of (wc_objectIdentity c) path \<noteq> None then
           Some (NewError ErrConflict ''path already exists'')
         else if pc_ObjectGeneration condition \<noteq> 0 \<and>
                 gen_at (wc_objectGen c) path \<noteq> pc_ObjectGeneration condition then
           Some (NewError ErrConflict ''object generation precondition failed'')
         else if pc_DirGeneration condition \<noteq> 0 \<and>
                 gen_at (wc_dirGen c) (workspace_parentPath path) \<noteq> pc_DirGeneration condition then
           Some (NewError ErrConflict ''directory generation precondition failed'')
         else if pc_ObjectIdentity condition \<noteq> [] \<and>
                 str_at (wc_objectIdentity c) path \<noteq> pc_ObjectIdentity condition then
           Some (NewError ErrConflict ''object identity precondition failed'')
         else None)"

definition object_identity :: "u64 \<Rightarrow> string" where
  "object_identity n = ''obj-'' @ nat_dec (unat n)"

definition nextObjectIdentityLocked :: "workspaceCommittedState \<Rightarrow> string \<times> workspaceCommittedState" where
  "nextObjectIdentityLocked c =
     (let n = wc_nextObjectID c + 1 in (object_identity n, c\<lparr>wc_nextObjectID := n\<rparr>))"

definition give_identity :: "string \<Rightarrow> workspaceCommittedState \<Rightarrow> workspaceCommittedState" where
  "give_identity path c =
     (let (x, c) = nextObjectIdentityLocked c
      in c\<lparr>wc_objectIdentity := AList.update path x (wc_objectIdentity c)\<rparr>)"

definition ensureObjectIdentityLocked :: "string \<Rightarrow> workspaceCommittedState \<Rightarrow> workspaceCommittedState" where
  "ensureObjectIdentityLocked path c =
     (if path = [] \<or> map_of (wc_objectIdentity c) path \<noteq> None then c else give_identity path c)"

definition committedReplyLocked :: "string \<Rightarrow> workspaceCommittedState \<Rightarrow> FsReply" where
  "committedReplyLocked path c = zero_FsReply\<lparr>rp_ObjectGeneration := gen_at (wc_objectGen c) path,
     rp_DirGeneration := gen_at (wc_dirGen c) (workspace_parentPath path)\<rparr>"

definition bump_object :: "string \<Rightarrow> workspaceCommittedState \<Rightarrow> workspaceCommittedState" where
  "bump_object path c = c\<lparr>wc_objectGen := bump path (wc_objectGen c)\<rparr>"

definition bump_dir :: "string \<Rightarrow> workspaceCommittedState \<Rightarrow> workspaceCommittedState" where
  "bump_dir path c = c\<lparr>wc_dirGen := bump path (wc_dirGen c)\<rparr>"

definition drop_identity :: "string \<Rightarrow> workspaceCommittedState \<Rightarrow> workspaceCommittedState" where
  "drop_identity path c = c\<lparr>wc_objectIdentity := AList.delete path (wc_objectIdentity c)\<rparr>"

definition move_identity ::
  "string \<Rightarrow> string \<Rightarrow> workspaceCommittedState \<Rightarrow> workspaceCommittedState" where
  "move_identity movedIdentity newPath c =
     (if movedIdentity = [] then give_identity newPath c
      else c\<lparr>wc_objectIdentity := AList.update newPath movedIdentity (wc_objectIdentity c)\<rparr>)"

definition bumpPathGenerationsLocked ::
  "string \<Rightarrow> workspaceCommittedState \<Rightarrow> FsReply \<times> workspaceCommittedState" where
  "bumpPathGenerationsLocked path c =
     (let c = bump_dir (workspace_parentPath path) (bump_object path c);
          c = (if str_at (wc_objectIdentity c) path = [] then give_identity path c else c)
      in (committedReplyLocked path c, c))"

definition bumpOwnerDataLocked :: "string \<Rightarrow> workspaceCommittedState \<Rightarrow> workspaceCommittedState" where
  "bumpOwnerDataLocked path c = ensureObjectIdentityLocked path (bump_object path c)"

definition bumpOwnerDeleteLocked :: "string \<Rightarrow> workspaceCommittedState \<Rightarrow> workspaceCommittedState" where
  "bumpOwnerDeleteLocked path c = drop_identity path (bump_object path c)"

definition bumpOwnerRenameLocked ::
  "string \<Rightarrow> string \<Rightarrow> workspaceCommittedState \<Rightarrow> workspaceCommittedState" where
  "bumpOwnerRenameLocked path newPath c =
     (if path = newPath then bumpOwnerDataLocked path c
      else
        let movedIdentity = str_at (wc_objectIdentity c) path
        in move_identity movedIdentity newPath
             (bump_object newPath (drop_identity path (bump_object path c))))"

definition bumpOwnerDentryLocked :: "string \<Rightarrow> workspaceCommittedState \<Rightarrow> workspaceCommittedState" where
  "bumpOwnerDentryLocked path c =
     (let c = bump_object path (bump_dir path c)
      in if path \<noteq> [] then ensureObjectIdentityLocked path c else c)"

definition bumpDeleteGenerationsLocked ::
  "string \<Rightarrow> workspaceCommittedState \<Rightarrow> FsReply \<times> workspaceCommittedState" where
  "bumpDeleteGenerationsLocked path c =
     (let c = drop_identity path (bump_dir (workspace_parentPath path) (bump_object path c))
      in (committedReplyLocked path c, c))"

definition bumpRenameGenerationsLocked ::
  "string \<Rightarrow> string \<Rightarrow> workspaceCommittedState \<Rightarrow> FsReply \<times> workspaceCommittedState" where
  "bumpRenameGenerationsLocked path newPath c =
     (if path = newPath then (committedReplyLocked path c, c)
      else
        let movedIdentity = str_at (wc_objectIdentity c) path;
            c = drop_identity path (bump_dir (workspace_parentPath path) (bump_object path c));
            c = bump_dir (workspace_parentPath newPath) (bump_object newPath c);
            c = move_identity movedIdentity newPath c
        in (committedReplyLocked newPath c, c))"

section \<open>Metadata and manifests\<close>

text \<open>
  Instants are counted in nanoseconds. \<open>Time.Round(time.Second)\<close> rounds to a multiple of the second,
  halfway values up.
\<close>

definition round_second :: "go_time \<Rightarrow> go_time" where
  "round_second t = (t + 500000000) div 1000000000 * 1000000000"

definition normalizeMetadata :: "FileMetadata \<Rightarrow> FileMetadata" where
  "normalizeMetadata metadata = metadata\<lparr>fm_MTime := round_second (fm_MTime metadata)\<rparr>"

definition cloneManifestEntry :: "ManifestEntry \<Rightarrow> ManifestEntry" where
  "cloneManifestEntry entry = entry\<lparr>me_Metadata := normalizeMetadata (me_Metadata entry)\<rparr>"

definition cloneManifestMap :: "(string, ManifestEntry) gomap \<Rightarrow> (string, ManifestEntry) gomap" where
  "cloneManifestMap values = map (\<lambda>(path, entry). (path, cloneManifestEntry entry)) values"

text \<open>\<open>uniqueStrings\<close> drops a string equal to the one before it.\<close>

definition uniqueStrings :: "string list \<Rightarrow> string list" where
  "uniqueStrings values = remdups_adj values"

definition uniqueWorkspacePaths :: "string list \<Rightarrow> string list" where
  "uniqueWorkspacePaths paths =
     uniqueStrings (sort (map (\<lambda>path. let clean = ToSlash (TrimSpace path)
                                      in if clean = ''.'' then [] else clean) paths))"

definition trackedPathsForManifest :: "(string, ManifestEntry) gomap \<Rightarrow> string list" where
  "trackedPathsForManifest entries =
     uniqueWorkspacePaths ([] # concat (map (\<lambda>(path, _). [path, workspace_parentPath path]) entries))"

definition clearConservativePathsLocked ::
  "string list \<Rightarrow> workspaceValidationState \<Rightarrow> workspaceValidationState" where
  "clearConservativePathsLocked paths v =
     fold (\<lambda>path v. v\<lparr>wv_objectState := AList.delete path (wv_objectState v),
                      wv_directoryView := AList.delete path (wv_directoryView v)\<rparr>)
       (uniqueWorkspacePaths paths) v"

definition touch_path :: "string \<Rightarrow> workspaceCommittedState \<Rightarrow> workspaceCommittedState" where
  "touch_path path c =
     (let c = (if str_at (wc_objectIdentity c) path = [] then give_identity path c else c);
          c = (if map_of (wc_objectGen c) path = None
               then c\<lparr>wc_objectGen := AList.update path 0 (wc_objectGen c)\<rparr> else c);
          parent = workspace_parentPath path
      in if map_of (wc_dirGen c) parent = None
         then c\<lparr>wc_dirGen := AList.update parent 0 (wc_dirGen c)\<rparr> else c)"

definition syncManifest_committed ::
  "(string, ManifestEntry) gomap \<Rightarrow> workspaceCommittedState \<Rightarrow> workspaceCommittedState" where
  "syncManifest_committed entries c =
     (let c = c\<lparr>wc_manifest := cloneManifestMap entries, wc_generation := wc_generation c + 1\<rparr>;
          keep = set (map fst entries);
          c = fold touch_path (map fst entries) c
      in c\<lparr>wc_objectIdentity := filter (\<lambda>(path, _). path \<in> keep) (wc_objectIdentity c),
           wc_objectGen := filter (\<lambda>(path, _). path \<in> keep) (wc_objectGen c)\<rparr>)"

definition syncManifestStateLocked :: "(string, ManifestEntry) gomap \<Rightarrow> workspaceState \<Rightarrow> workspaceState" where
  "syncManifestStateLocked entries s =
     s\<lparr>ws_committed := syncManifest_committed entries (ws_committed s),
       ws_validation := clearConservativePathsLocked (trackedPathsForManifest entries) (ws_validation s)\<rparr>"

section \<open>Conservative validation\<close>

definition conservativeMissingFingerprint :: string where
  "conservativeMissingFingerprint = ''missing''"

definition conservativeNotDirectoryFingerprint :: string where
  "conservativeNotDirectoryFingerprint = ''not-dir''"

definition isMissingFingerprint :: "string \<Rightarrow> bool" where
  "isMissingFingerprint fingerprint \<longleftrightarrow> fingerprint = conservativeMissingFingerprint"

definition committedPathExistsLocked :: "string \<Rightarrow> workspaceCommittedState \<Rightarrow> bool" where
  "committedPathExistsLocked path c \<longleftrightarrow>
     isRootWorkspacePath path \<or> str_at (wc_objectIdentity c) path \<noteq> []"

definition setConservativeObservationLocked ::
  "conservativeObservation \<Rightarrow> workspaceState \<Rightarrow> workspaceState" where
  "setConservativeObservationLocked observation s =
     (let v = ws_validation s
      in s\<lparr>ws_validation :=
           v\<lparr>wv_objectState := AList.update (ob_path observation) (ob_objectFingerprint observation) (wv_objectState v),
             wv_directoryView := AList.update (ob_path observation) (ob_directoryView observation) (wv_directoryView v)\<rparr>\<rparr>)"

definition validate_object :: "conservativeObservation \<Rightarrow> workspaceState \<Rightarrow> workspaceCommittedState" where
  "validate_object observation s =
     (let c = ws_committed s; path = ob_path observation; fingerprint = ob_objectFingerprint observation
      in case map_of (wv_objectState (ws_validation s)) path of
           Some previousObject \<Rightarrow>
             if previousObject \<noteq> fingerprint then
               if isMissingFingerprint fingerprint then bumpOwnerDeleteLocked path c
               else bumpOwnerDataLocked path c
             else c
         | None \<Rightarrow>
             if committedPathExistsLocked path c \<and> isMissingFingerprint fingerprint
             then bumpOwnerDeleteLocked path c
             else if \<not> committedPathExistsLocked path c \<and> \<not> isMissingFingerprint fingerprint
             then bumpOwnerDataLocked path c
             else c)"

definition validate_directory ::
  "conservativeObservation \<Rightarrow> workspaceState \<Rightarrow> workspaceCommittedState \<Rightarrow> workspaceCommittedState" where
  "validate_directory observation s c =
     (case map_of (wv_directoryView (ws_validation s)) (ob_path observation) of
        Some previousDirectory \<Rightarrow>
          if previousDirectory \<noteq> ob_directoryView observation
          then bumpOwnerDentryLocked (ob_path observation) c else c
      | None \<Rightarrow> c)"

definition validateConservativeObservationLocked ::
  "conservativeObservation \<Rightarrow> workspaceState \<Rightarrow> workspaceState" where
  "validateConservativeObservationLocked observation s =
     (let c = validate_directory observation s (validate_object observation s)
      in setConservativeObservationLocked observation (s\<lparr>ws_committed := c\<rparr>))"

text \<open>
  \<open>seedConservativePaths\<close> and \<open>revalidateConservativePaths\<close>: \<open>collected\<close> is the answer of
  \<open>collectConservativeObservations\<close>, what the owner or the disk says of each path. It is asked for
  only in conservative mode.
\<close>

definition seedConservativePaths ::
  "conservativeObservation list res \<Rightarrow> workspaceState \<Rightarrow> err option \<times> workspaceState" where
  "seedConservativePaths collected s =
     (if \<not> wv_conservative (ws_validation s) then (None, s)
      else case collected of
             Inl e \<Rightarrow> (Some e, s)
           | Inr observations \<Rightarrow> (None, fold setConservativeObservationLocked observations s))"

definition revalidateConservativePaths ::
  "conservativeObservation list res \<Rightarrow> workspaceState \<Rightarrow> err option \<times> workspaceState" where
  "revalidateConservativePaths collected s =
     (if \<not> wv_conservative (ws_validation s) then (None, s)
      else case collected of
             Inl e \<Rightarrow> (Some e, s)
           | Inr observations \<Rightarrow> (None, fold validateConservativeObservationLocked observations s))"

definition on_committed ::
  "(workspaceCommittedState \<Rightarrow> workspaceCommittedState) \<Rightarrow> workspaceState \<Rightarrow> workspaceState" where
  "on_committed f s = s\<lparr>ws_committed := f (ws_committed s)\<rparr>"

definition clear_paths :: "string list \<Rightarrow> workspaceState \<Rightarrow> workspaceState" where
  "clear_paths paths s = s\<lparr>ws_validation := clearConservativePathsLocked paths (ws_validation s)\<rparr>"

definition apply_owner_change :: "InvalidateChange \<Rightarrow> workspaceState \<Rightarrow> workspaceState" where
  "apply_owner_change ch s =
     (let path = inv_Path ch; newPath = inv_NewPath ch
      in case inv_Kind ch of
           InvalidateData \<Rightarrow> clear_paths [path] (on_committed (bumpOwnerDataLocked path) s)
         | InvalidateDelete \<Rightarrow>
             clear_paths [path, workspace_parentPath path] (on_committed (bumpOwnerDeleteLocked path) s)
         | InvalidateRename \<Rightarrow>
             clear_paths [path, newPath, workspace_parentPath path, workspace_parentPath newPath]
               (on_committed (bumpOwnerRenameLocked path newPath) s)
         | InvalidateDentry \<Rightarrow> clear_paths [path] (on_committed (bumpOwnerDentryLocked path) s))"

definition is_ctx_error :: "err \<Rightarrow> bool" where
  "is_ctx_error e \<longleftrightarrow> errors_Is e CtxCanceled \<or> errors_Is e CtxDeadlineExceeded"

definition ApplyOwnerInvalidationsContext ::
  "conservativeObservation list res \<Rightarrow> InvalidateChange list \<Rightarrow> workspaceState \<Rightarrow> err option \<times> workspaceState" where
  "ApplyOwnerInvalidationsContext collected changes s =
     (if changes = [] \<or> wv_conservative (ws_validation s) then (None, s)
      else
        let s = fold apply_owner_change changes s;
            (e, s) = seedConservativePaths collected s
        in (case e of Some e \<Rightarrow> if is_ctx_error e then Some e else None | None \<Rightarrow> None, s))"

definition trackedPathsLocked :: "workspaceCommittedState \<Rightarrow> string list" where
  "trackedPathsLocked c =
     uniqueWorkspacePaths ([] # concat (map (\<lambda>(path, _). [path, workspace_parentPath path]) (wc_objectGen c)) @
       map fst (wc_dirGen c) @
       concat (map (\<lambda>(path, _). [path, workspace_parentPath path]) (wc_objectIdentity c)))"

definition conservative_changes :: "workspaceCommittedState \<Rightarrow> InvalidateChange list" where
  "conservative_changes c =
     fold (\<lambda>path changes. AppendChanges changes
             [\<lparr>inv_Path = path, inv_NewPath = [], inv_Kind = InvalidateDentry\<rparr>,
              \<lparr>inv_Path = workspace_parentPath path, inv_NewPath = [], inv_Kind = InvalidateDentry\<rparr>])
       (uniqueStrings (sort (filter (\<lambda>path. \<not> isRootWorkspacePath path) (trackedPathsLocked c)))) []"

definition EnterConservativeModeContext ::
  "conservativeObservation list res \<Rightarrow> workspaceState \<Rightarrow> InvalidateChange list res \<times> workspaceState" where
  "EnterConservativeModeContext collected s =
     (let v = ws_validation s;
          s = s\<lparr>ws_validation := v\<lparr>wv_conservative := True\<rparr>\<rparr>;
          changes = conservative_changes (ws_committed s);
          (e, s) = seedConservativePaths collected s
      in (case e of Some e \<Rightarrow> if is_ctx_error e then Inl e else Inr changes | None \<Rightarrow> Inr changes, s))"

section \<open>Results and transactions of handles\<close>

definition result_id :: "u64 \<Rightarrow> string" where
  "result_id n = ''result-'' @ fmt04 n"

definition txn_id :: "u64 \<Rightarrow> string" where
  "txn_id n = ''txn-'' @ fmt04 n"

definition recordResultLocked ::
  "FsReply \<Rightarrow> err option \<Rightarrow> workspaceHandleState \<Rightarrow> string \<times> workspaceHandleState" where
  "recordResultLocked reply e h =
     (let n = wh_nextResultID h + 1
      in (result_id n, h\<lparr>wh_nextResultID := n,
            wh_results := AList.update (result_id n) \<lparr>hr_reply = reply, hr_err = e\<rparr> (wh_results h)\<rparr>))"

definition clearResultLocked :: "string \<Rightarrow> workspaceHandleState \<Rightarrow> workspaceHandleState" where
  "clearResultLocked resultID h =
     (if resultID = [] then h else h\<lparr>wh_results := AList.delete resultID (wh_results h)\<rparr>)"

definition openResultLocked :: "stagedHandle \<Rightarrow> workspaceHandleState \<Rightarrow> stagedHandleResult option" where
  "openResultLocked handle h =
     (if sh_resultID handle = [] then None else map_of (wh_results h) (sh_resultID handle))"

definition closedResultLocked :: "string \<Rightarrow> workspaceHandleState \<Rightarrow> stagedHandleResult option" where
  "closedResultLocked handleID h =
     (case map_of (wh_closed h) handleID of
        None \<Rightarrow> None
      | Some outcome \<Rightarrow>
          if ch_resultID outcome = [] then None else map_of (wh_results h) (ch_resultID outcome))"

text \<open>A handle is a pointer in the code; here the changed handle is returned with the state.\<close>

definition setHandleResultLocked ::
  "stagedHandle \<Rightarrow> stagedHandleState \<Rightarrow> FsReply \<Rightarrow> err option \<Rightarrow> workspaceHandleState \<Rightarrow>
   stagedHandleResult \<times> stagedHandle \<times> workspaceHandleState" where
  "setHandleResultLocked handle state reply e h =
     (let h = clearResultLocked (sh_resultID handle) h;
          (rid, h) = recordResultLocked reply e h
      in (\<lparr>hr_reply = reply, hr_err = e\<rparr>,
          handle\<lparr>sh_resultID := rid, sh_state := state, sh_transactionID := []\<rparr>, h))"

definition clearHandleResultLocked ::
  "stagedHandle \<Rightarrow> workspaceHandleState \<Rightarrow> stagedHandle \<times> workspaceHandleState" where
  "clearHandleResultLocked handle h =
     (handle\<lparr>sh_resultID := []\<rparr>, clearResultLocked (sh_resultID handle) h)"

definition beginTransactionLocked ::
  "stagedHandle \<Rightarrow> workspaceHandleState \<Rightarrow> string \<times> stagedHandle \<times> workspaceHandleState" where
  "beginTransactionLocked handle h =
     (let n = wh_nextTxnID h + 1
      in (txn_id n, handle\<lparr>sh_transactionID := txn_id n\<rparr>,
          h\<lparr>wh_nextTxnID := n, wh_transactions := AList.update (txn_id n) () (wh_transactions h)\<rparr>))"

definition transactionLocked :: "stagedHandle \<Rightarrow> workspaceHandleState \<Rightarrow> string option" where
  "transactionLocked handle h =
     (if sh_transactionID handle = [] \<or> map_of (wh_transactions h) (sh_transactionID handle) = None
      then None else Some (sh_transactionID handle))"

definition finishTransactionLocked ::
  "stagedHandle \<Rightarrow> stagedHandleState \<Rightarrow> FsReply \<Rightarrow> err option \<Rightarrow> workspaceHandleState \<Rightarrow>
   stagedHandleResult \<times> stagedHandle \<times> workspaceHandleState" where
  "finishTransactionLocked handle state reply e h =
     setHandleResultLocked handle state reply e
       (h\<lparr>wh_transactions := AList.delete (sh_transactionID handle) (wh_transactions h)\<rparr>)"

end
