(* ===== verification/Workspace_Tree.thy ===== *)
theory Workspace_Tree
  imports Workspace_State
begin

text \<open>
  A directory tree on disk and the file operations of package \<open>os\<close> that the daemon uses on it, with
  the helpers of \<open>internal/daemon/workspace_manager.go\<close> and \<open>workspace_manager_sync.go\<close> that are built
  from them.

  A tree is the map of the entries below a root directory by their slash-separated path relative to
  it; the root itself, the empty path, always exists. A file has its bytes, permissions and
  modification time. What the system reports for a directory (its size and times change on their
  own) is the parameter \<open>dirinfo\<close> of the operations that look at it. Operations fail for the reasons
  that depend on the tree: a missing entry, a file where a directory is needed, a directory where a
  file is needed, a directory that is not empty. Failures of the device are not modelled.
\<close>

datatype node = FileNode string "32 word" go_time | DirNode

type_synonym tree = "(string, node) gomap"

definition ENOENT :: err where "ENOENT = SentinelErr FsErrNotExist"
definition ENOTDIR :: err where "ENOTDIR = PlainErr ''not a directory''"
definition EISDIR :: err where "EISDIR = PlainErr ''is a directory''"
definition EEXIST :: err where "EEXIST = PlainErr ''file exists''"
definition ENOTEMPTY :: err where "ENOTEMPTY = PlainErr ''directory not empty''"

definition errorsIsNotExist :: "err \<Rightarrow> bool" where
  "errorsIsNotExist e \<longleftrightarrow> e = ENOENT"

definition under :: "string \<Rightarrow> string \<Rightarrow> bool" where
  "under q p \<longleftrightarrow> q = p \<or> HasPrefix q (p @ ''/'')"

text \<open>The proper ancestors of a path below the root, the shortest first.\<close>

fun ancestors_from :: "string \<Rightarrow> string list \<Rightarrow> string list" where
  "ancestors_from pre [] = []"
| "ancestors_from pre [p] = []"
| "ancestors_from pre (p # ps) = (pre @ p) # ancestors_from (pre @ p @ ''/'') ps"

definition ancestors :: "string \<Rightarrow> string list" where
  "ancestors p = ancestors_from [] (Split p (CHR ''/''))"

fun is_file :: "node option \<Rightarrow> bool" where
  "is_file (Some (FileNode _ _ _)) \<longleftrightarrow> True"
| "is_file _ \<longleftrightarrow> False"

definition blocked :: "tree \<Rightarrow> string \<Rightarrow> bool" where
  "blocked t p \<longleftrightarrow> list_ex (\<lambda>a. is_file (map_of t a)) (ancestors p)"

definition Stat :: "tree \<Rightarrow> string \<Rightarrow> node res" where
  "Stat t p =
     (if p = [] then Inr DirNode
      else if blocked t p then Inl ENOTDIR
      else case map_of t p of None \<Rightarrow> Inl ENOENT | Some n \<Rightarrow> Inr n)"

fun mkdirs :: "string list \<Rightarrow> tree \<Rightarrow> tree res" where
  "mkdirs [] t = Inr t"
| "mkdirs (p # ps) t =
     (case map_of t p of
        None \<Rightarrow> mkdirs ps (AList.update p DirNode t)
      | Some DirNode \<Rightarrow> mkdirs ps t
      | Some (FileNode _ _ _) \<Rightarrow> Inl ENOTDIR)"

definition MkdirAll :: "string \<Rightarrow> tree \<Rightarrow> tree res" where
  "MkdirAll p t = (if p = [] then Inr t else mkdirs (ancestors p @ [p]) t)"

definition RemoveAll :: "string \<Rightarrow> tree \<Rightarrow> tree res" where
  "RemoveAll p t =
     (if blocked t p then Inl ENOTDIR else Inr (filter (\<lambda>(q, _). \<not> under q p) t))"

definition Remove :: "string \<Rightarrow> tree \<Rightarrow> tree res" where
  "Remove p t =
     (case Stat t p of
        Inl e \<Rightarrow> Inl e
      | Inr (FileNode _ _ _) \<Rightarrow> Inr (AList.delete p t)
      | Inr DirNode \<Rightarrow>
          if list_ex (\<lambda>(q, _). HasPrefix q (p @ ''/'')) t then Inl ENOTEMPTY
          else Inr (AList.delete p t))"

text \<open>Creating or truncating a file, writing it and setting its permissions and time.\<close>

definition PutFile :: "string \<Rightarrow> string \<Rightarrow> 32 word \<Rightarrow> go_time \<Rightarrow> tree \<Rightarrow> tree res" where
  "PutFile p data mode mtime t =
     (case Stat t (workspace_parentPath p) of
        Inl e \<Rightarrow> Inl e
      | Inr (FileNode _ _ _) \<Rightarrow> Inl ENOTDIR
      | Inr DirNode \<Rightarrow>
          if map_of t p = Some DirNode then Inl EISDIR
          else Inr (AList.update p (FileNode data mode mtime) t))"

definition ReadFile :: "tree \<Rightarrow> string \<Rightarrow> string res" where
  "ReadFile t p =
     (case Stat t p of
        Inl e \<Rightarrow> Inl e
      | Inr (FileNode data _ _) \<Rightarrow> Inr data
      | Inr DirNode \<Rightarrow> Inl EISDIR)"

definition perm :: "32 word \<Rightarrow> 32 word" where
  "perm mode = and mode 511"

fun fileInfoMetadata :: "FileMetadata \<Rightarrow> node \<Rightarrow> FileMetadata" where
  "fileInfoMetadata dirinfo (FileNode data mode mtime) =
     normalizeMetadata \<lparr>fm_Mode = perm mode, fm_MTime = mtime, fm_Size = int (length data)\<rparr>"
| "fileInfoMetadata dirinfo DirNode = normalizeMetadata dirinfo"

section \<open>Replacing a file\<close>

definition commit_suffix :: string where
  "commit_suffix = ''.symterm-commit''"

text \<open>
  \<open>replaceFileFromStaged\<close>: the source is copied next to the target, the copy gets its metadata and is
  renamed to the target; a directory at the target makes the rename fail and the copy goes. A
  directory as the source can be opened but not read, and the empty copy stays: \<open>created\<close> is the node
  the system makes for a new file of that mode.
\<close>

definition replaceFileFromStaged ::
  "(32 word \<Rightarrow> node) \<Rightarrow> node res \<Rightarrow> string \<Rightarrow> FileMetadata \<Rightarrow> tree \<Rightarrow> err option \<times> tree" where
  "replaceFileFromStaged created source target metadata t =
     (case MkdirAll (workspace_parentPath target) t of
        Inl e \<Rightarrow> (Some e, t)
      | Inr t1 \<Rightarrow>
          (case source of
             Inl e \<Rightarrow> (Some e, t1)
           | Inr DirNode \<Rightarrow>
               if map_of t1 (target @ commit_suffix) = Some DirNode then (Some EISDIR, t1)
               else (Some EISDIR, AList.update (target @ commit_suffix) (created (fm_Mode metadata)) t1)
           | Inr (FileNode data _ _) \<Rightarrow>
               (case PutFile (target @ commit_suffix) data (fm_Mode metadata) (fm_MTime metadata) t1 of
                  Inl e \<Rightarrow> (Some e, t1)
                | Inr t2 \<Rightarrow>
                    let t3 = AList.delete (target @ commit_suffix) t2
                    in if map_of t1 target = Some DirNode then (Some EEXIST, t3)
                       else (None, AList.update target
                         (FileNode data (fm_Mode metadata) (fm_MTime metadata)) t3))))"

section \<open>Trees and manifests\<close>

definition manifest_entry :: "(string \<Rightarrow> FileMetadata) \<Rightarrow> string \<Rightarrow> node \<Rightarrow> ManifestEntry" where
  "manifest_entry dirinfo path n =
     \<lparr>me_Path = path, me_IsDir = (n = DirNode), me_Metadata = fileInfoMetadata (dirinfo path) n,
      me_StatFingerprint = [], me_ContentHash = []\<rparr>"

definition manifestEntriesFromRoot ::
  "(string \<Rightarrow> FileMetadata) \<Rightarrow> tree \<Rightarrow> (string, ManifestEntry) gomap" where
  "manifestEntriesFromRoot dirinfo t = map (\<lambda>(path, n). (path, manifest_entry dirinfo path n)) t"

definition listWorkspaceEntries :: "tree \<Rightarrow> string list" where
  "listWorkspaceEntries t = sort (map fst t)"

definition sortedManifestEntries :: "(string, ManifestEntry) gomap \<Rightarrow> ManifestEntry list" where
  "sortedManifestEntries entries = sort_key me_Path (map snd entries)"

text \<open>The longest path first, and of paths of one length the greatest.\<close>

definition deepest_first :: "string list \<Rightarrow> string list" where
  "deepest_first paths = rev (sort_key (\<lambda>p. (length p, p)) paths)"

definition sortedDeletePaths :: "(string, unit) gomap \<Rightarrow> string list" where
  "sortedDeletePaths paths = uniqueStrings (sort_key (\<lambda>p. (length p, p)) (map fst paths))"

definition sortedDeletePathsDeepestFirst :: "(string, unit) gomap \<Rightarrow> string list" where
  "sortedDeletePathsDeepestFirst paths = deepest_first (sortedDeletePaths paths)"

text \<open>The parents of a path up to the root, which is left out.\<close>

function parents :: "string \<Rightarrow> string list" where
  "parents p = (let q = workspace_parentPath p
                in if q = [] \<or> length p \<le> length q then [] else q # parents q)"
  by pat_completeness auto
termination
  by (relation "measure length") auto

declare parents.simps [simp del]

definition expectedDirs :: "(string, ManifestEntry) gomap \<Rightarrow> string list" where
  "expectedDirs entries =
     concat (map (\<lambda>(path, entry). if me_IsDir entry then [path] else parents path) entries)"

fun remove_dirs :: "string list \<Rightarrow> tree \<Rightarrow> err option \<times> tree" where
  "remove_dirs [] t = (None, t)"
| "remove_dirs (p # ps) t =
     (case Remove p t of
        Inr t1 \<Rightarrow> remove_dirs ps t1
      | Inl e \<Rightarrow> if errorsIsNotExist e \<or> e = ENOTEMPTY then remove_dirs ps t else (Some e, t))"

definition removeUnexpectedDirectories :: "string list \<Rightarrow> tree \<Rightarrow> err option \<times> tree" where
  "removeUnexpectedDirectories expected t =
     remove_dirs (deepest_first (map fst (filter (\<lambda>(path, n). n = DirNode \<and> path \<notin> set expected) t))) t"

definition syncManifestMatchesWorkspace ::
  "(string \<Rightarrow> FileMetadata) \<Rightarrow> (string, ManifestEntry) gomap \<Rightarrow> tree \<Rightarrow> bool" where
  "syncManifestMatchesWorkspace dirinfo entries t \<longleftrightarrow>
     (let current = manifestEntriesFromRoot dirinfo t
      in length current = length entries \<and>
         list_all (\<lambda>(path, entry).
           case map_of current path of
             None \<Rightarrow> False
           | Some currentEntry \<Rightarrow>
               me_IsDir currentEntry = me_IsDir entry \<and>
               normalizeMetadata (me_Metadata currentEntry) = normalizeMetadata (me_Metadata entry)) entries)"

definition mergeStagedFilesIntoChangedSet ::
  "tree \<Rightarrow> (string, ManifestEntry) gomap \<Rightarrow> (string, ManifestEntry) gomap \<Rightarrow> (string, ManifestEntry) gomap" where
  "mergeStagedFilesIntoChangedSet stage entries changedFiles =
     fold (\<lambda>path changedFiles.
         case map_of entries path of
           None \<Rightarrow> changedFiles
         | Some entry \<Rightarrow> if me_IsDir entry then changedFiles else AList.update path entry changedFiles)
       (listWorkspaceEntries stage) changedFiles"

end
