(* ===== verification/Workspace_Sync.thy ===== *)
theory Workspace_Sync
  imports Workspace_Tree
begin

text \<open>
  The sync session of the daemon (\<open>internal/daemon/workspace_manager_sync.go\<close>): the client sends the
  manifest of its workspace, asks what has to be done, sends deletions and file contents into a
  staging directory and finalises; only then is the workspace directory changed.

  \<open>SyncManager\<close> is the workspace state of a project with its three directory trees: the workspace,
  the published mount and the stage of the active session. Each operation is one step; the places
  where the code gives up its mutex for file operations are not split. What comes from outside is in
  \<open>sync_env\<close>: the hash function SHA-256 in hexadecimal, the gzip decoder, the clock, what the system
  reports for directories and new files, whether the mount directory has to be mirrored, the outcome
  of preparing the project's directories and what the owner answers when paths are observed.
\<close>

record SyncManager =
  sm_state :: workspaceState
  sm_workspace :: tree
  sm_mount :: tree
  sm_stage :: tree

record sync_env =
  sy_sha :: "string \<Rightarrow> string"
  sy_gunzip :: "string \<Rightarrow> string res"
  sy_dirinfo :: "string \<Rightarrow> FileMetadata"
  sy_created :: "32 word \<Rightarrow> node"
  sy_mirror :: "bool res"
  sy_now :: int
  sy_layout :: "err option"
  sy_observed :: "conservativeObservation list res"

section \<open>Sessions\<close>

definition err_no_session :: err where
  "err_no_session = NewError ErrProjectNotReady ''there is no active sync session''"

definition activeSyncLocked :: "workspaceState \<Rightarrow> syncSession res" where
  "activeSyncLocked s =
     (let y = ws_sync s
      in if wy_activeEpoch y = 0 then Inl err_no_session
         else case map_of (wy_sessions y) (wy_activeEpoch y) of
                None \<Rightarrow> Inl err_no_session | Some session \<Rightarrow> Inr session)"

text \<open>The session is a pointer in the code: writing it back changes the map of the active epoch.\<close>

definition put_session :: "syncSession \<Rightarrow> SyncManager \<Rightarrow> SyncManager" where
  "put_session session m =
     (let s = sm_state m; y = ws_sync s
      in m\<lparr>sm_state := s\<lparr>ws_sync := y\<lparr>wy_sessions :=
           AList.update (wy_activeEpoch y) session (wy_sessions y)\<rparr>\<rparr>\<rparr>)"

definition uploadLocked :: "string \<Rightarrow> workspaceState \<Rightarrow> uploadSession res" where
  "uploadLocked fileID s =
     (case activeSyncLocked s of
        Inl e \<Rightarrow> Inl e
      | Inr session \<Rightarrow>
          (case map_of (ss_uploads session) fileID of
             None \<Rightarrow> Inl (NewError ErrUnknownFile ''file upload handle does not exist'')
           | Some upload \<Rightarrow> Inr upload))"

definition ensureCommittedManifestLocked :: "sync_env \<Rightarrow> tree \<Rightarrow> workspaceState \<Rightarrow> workspaceState" where
  "ensureCommittedManifestLocked env workspace s =
     (let c = ws_committed s
      in if wc_manifest c \<noteq> [] \<or> wc_generation c \<noteq> 0 then s
         else
           let s = syncManifestStateLocked (manifestEntriesFromRoot (sy_dirinfo env) workspace) s
           in on_committed (\<lambda>c. if wc_generation c > 0 then c\<lparr>wc_generation := wc_generation c - 1\<rparr> else c) s)"

record StartSyncSessionResponse =
  sr_SessionID :: string
  sr_SyncEpoch :: u64
  sr_ProtocolVersion :: nat
  sr_RemoteGeneration :: u64
  sr_RemoteManifestEntries :: nat

definition sync_session_id :: "u64 \<Rightarrow> int \<Rightarrow> string" where
  "sync_session_id epoch now =
     ''sync-'' @ nat_dec (unat epoch) @ ''-'' @ (if now < 0 then ''-'' else []) @ nat_dec (nat \<bar>now\<bar>)"

definition new_session :: "sync_env \<Rightarrow> u64 \<Rightarrow> u64 \<Rightarrow> string \<Rightarrow> syncSession" where
  "new_session env epoch attemptID rootFingerprint =
     \<lparr>ss_sessionID = sync_session_id epoch (sy_now env), ss_epoch = epoch, ss_attemptID = attemptID,
      ss_rootFingerprint = rootFingerprint, ss_manifest = [], ss_changedFiles = [], ss_deleted = [],
      ss_uploads = [], ss_bundles = [], ss_remoteHashMemo = [], ss_nextUploadID = 0, ss_nextBundleID = 0,
      ss_manifestBatches = 0, ss_deleteBatches = 0, ss_uploadBundles = 0\<rparr>"

definition startSyncSession ::
  "sync_env \<Rightarrow> u64 \<Rightarrow> u64 \<Rightarrow> string \<Rightarrow> SyncManager \<Rightarrow> StartSyncSessionResponse res \<times> SyncManager" where
  "startSyncSession env epoch attemptID rootFingerprint m =
     (case sy_layout env of
        Some e \<Rightarrow> (Inl (WrapErr ''begin sync: '' e), m)
      | None \<Rightarrow>
          let s = ensureCommittedManifestLocked env (sm_workspace m) (sm_state m);
              session = new_session env epoch attemptID rootFingerprint;
              s = s\<lparr>ws_sync := \<lparr>wy_activeEpoch = epoch, wy_sessions = [(epoch, session)]\<rparr>\<rparr>
          in (Inr \<lparr>sr_SessionID = ss_sessionID session, sr_SyncEpoch = epoch, sr_ProtocolVersion = 2,
                   sr_RemoteGeneration = wc_generation (ws_committed s),
                   sr_RemoteManifestEntries = length (wc_manifest (ws_committed s))\<rparr>,
              m\<lparr>sm_state := s, sm_stage := []\<rparr>))"

definition Manager_BeginSync ::
  "sync_env \<Rightarrow> u64 \<Rightarrow> u64 \<Rightarrow> string \<Rightarrow> SyncManager \<Rightarrow> err option \<times> SyncManager" where
  "Manager_BeginSync env epoch attemptID rootFingerprint m =
     (case startSyncSession env epoch attemptID rootFingerprint m of
        (Inl e, m) \<Rightarrow> (Some e, m) | (Inr _, m) \<Rightarrow> (None, m))"

section \<open>The manifest of the client\<close>

fun scan_entries :: "ManifestEntry list \<Rightarrow> syncSession \<Rightarrow> err option \<times> syncSession" where
  "scan_entries [] session = (None, session)"
| "scan_entries (entry # entries) session =
     (case validateWorkspacePath (me_Path entry) of
        Some e \<Rightarrow> (Some e, session)
      | None \<Rightarrow> scan_entries entries
          (session\<lparr>ss_manifest := AList.update (me_Path entry) (cloneManifestEntry entry) (ss_manifest session)\<rparr>))"

definition Manager_ScanManifest :: "ManifestEntry list \<Rightarrow> SyncManager \<Rightarrow> err option \<times> SyncManager" where
  "Manager_ScanManifest entries m =
     (case activeSyncLocked (sm_state m) of
        Inl e \<Rightarrow> (Some e, m)
      | Inr session \<Rightarrow>
          (case scan_entries entries session of (e, session) \<Rightarrow> (e, put_session session m)))"

definition Manager_SyncManifestBatch :: "string \<Rightarrow> ManifestEntry list \<Rightarrow> SyncManager \<Rightarrow> err option \<times> SyncManager" where
  "Manager_SyncManifestBatch sessionID entries m =
     (case activeSyncLocked (sm_state m) of
        Inl e \<Rightarrow> (Some e, m)
      | Inr session \<Rightarrow>
          if ss_sessionID session \<noteq> TrimSpace sessionID then
            (Some (NewError ErrSyncEpochMismatch ''sync manifest batch does not match the active sync session''), m)
          else
            (case scan_entries entries (session\<lparr>ss_manifestBatches := ss_manifestBatches session + 1\<rparr>) of
               (e, session) \<Rightarrow> (e, put_session session m)))"

section \<open>Planning\<close>

definition isPathDeletedOrNested :: "string \<Rightarrow> (string, unit) gomap \<Rightarrow> bool" where
  "isPathDeletedOrNested path deleted \<longleftrightarrow>
     list_ex (\<lambda>(candidate, _). isWorkspacePathEqualOrNested path candidate) deleted"

text \<open>The file that stands for a path on the daemon: in the stage or in the workspace.\<close>

datatype place = InStage | InWorkspace

definition place_tree :: "place \<Rightarrow> SyncManager \<Rightarrow> tree" where
  "place_tree pl m = (case pl of InStage \<Rightarrow> sm_stage m | InWorkspace \<Rightarrow> sm_workspace m)"

definition remoteManifestEntryForPath ::
  "(string, ManifestEntry) gomap \<Rightarrow> string \<Rightarrow> syncSession \<Rightarrow> (ManifestEntry \<times> place) option" where
  "remoteManifestEntryForPath committedEntries path session =
     (if isPathDeletedOrNested path (ss_deleted session) then None
      else case map_of (ss_changedFiles session) path of
             Some changedEntry \<Rightarrow> Some (cloneManifestEntry changedEntry, InStage)
           | None \<Rightarrow>
               (case map_of committedEntries path of
                  Some committedEntry \<Rightarrow> Some (cloneManifestEntry committedEntry, InWorkspace)
                | None \<Rightarrow> None))"

definition refreshRemoteManifestEntry ::
  "sync_env \<Rightarrow> string \<Rightarrow> tree \<Rightarrow> (ManifestEntry \<times> place) option res" where
  "refreshRemoteManifestEntry env path workspace =
     (case Stat workspace path of
        Inl e \<Rightarrow> if errorsIsNotExist e then Inr None else Inl e
      | Inr n \<Rightarrow> Inr (Some (manifest_entry (sy_dirinfo env) path n, InWorkspace)))"

definition memo_key :: "node \<Rightarrow> FileMetadata \<Rightarrow> int \<times> 32 word \<times> int" where
  "memo_key n dirinfo =
     (case n of
        FileNode data mode mtime \<Rightarrow> (int (length data), perm mode, mtime)
      | DirNode \<Rightarrow> (fm_Size dirinfo, fm_Mode dirinfo, fm_MTime dirinfo))"

definition hash_and_remember ::
  "sync_env \<Rightarrow> string \<Rightarrow> tree \<Rightarrow> node \<Rightarrow> (string, remoteHashMemoEntry) gomap \<Rightarrow>
   string res \<times> (string, remoteHashMemoEntry) gomap" where
  "hash_and_remember env path t n memos =
     (case ReadFile t path of
        Inl e \<Rightarrow> (Inl e, memos)
      | Inr data \<Rightarrow>
          let (size, mode, mtime) = memo_key n (sy_dirinfo env path)
          in (Inr (sy_sha env data),
              AList.update path \<lparr>rh_size = size, rh_mode = mode, rh_mtimeNanos = mtime,
                rh_hash = sy_sha env data\<rparr> memos))"

definition remoteContentHash ::
  "sync_env \<Rightarrow> (string, ManifestEntry) gomap \<Rightarrow> string \<Rightarrow> tree \<Rightarrow> (string, remoteHashMemoEntry) gomap \<Rightarrow>
   string res \<times> (string, remoteHashMemoEntry) gomap" where
  "remoteContentHash env committedEntries path t memos =
     (if (case map_of committedEntries path of None \<Rightarrow> False | Some entry \<Rightarrow> me_ContentHash entry \<noteq> [])
      then (Inr (me_ContentHash (the (map_of committedEntries path))), memos)
      else case Stat t path of
             Inl e \<Rightarrow> (Inl e, memos)
           | Inr n \<Rightarrow>
               (case map_of memos path of
                  Some memo \<Rightarrow>
                    if (rh_size memo, rh_mode memo, rh_mtimeNanos memo) = memo_key n (sy_dirinfo env path)
                    then (Inr (rh_hash memo), memos)
                    else hash_and_remember env path t n memos
                | None \<Rightarrow> hash_and_remember env path t n memos))"

text \<open>
  What is to be done for one file of the manifest: nothing, send its content, or first send its hash.
  The differing metadata of a committed entry is looked up again on disk before it counts.
\<close>

datatype file_action = NoAction | SendContent | SendHash

definition same_metadata :: "ManifestEntry \<Rightarrow> ManifestEntry \<Rightarrow> bool" where
  "same_metadata a b \<longleftrightarrow> normalizeMetadata (me_Metadata a) = normalizeMetadata (me_Metadata b)"

definition remote_entry ::
  "sync_env \<Rightarrow> (string, ManifestEntry) gomap \<Rightarrow> ManifestEntry \<Rightarrow> syncSession \<Rightarrow> SyncManager \<Rightarrow>
   (ManifestEntry \<times> place) option" where
  "remote_entry env committedEntries entry session m =
     (case remoteManifestEntryForPath committedEntries (me_Path entry) session of
        None \<Rightarrow> None
      | Some (remoteEntry, pl) \<Rightarrow>
          if \<not> me_IsDir remoteEntry \<and> \<not> same_metadata remoteEntry entry then
            (case refreshRemoteManifestEntry env (me_Path entry) (sm_workspace m) of
               Inr refreshed \<Rightarrow> refreshed
             | Inl _ \<Rightarrow> Some (remoteEntry, pl))
          else Some (remoteEntry, pl))"

definition plan_file ::
  "sync_env \<Rightarrow> (string, ManifestEntry) gomap \<Rightarrow> syncSession \<Rightarrow> SyncManager \<Rightarrow> ManifestEntry \<Rightarrow>
   (string, remoteHashMemoEntry) gomap \<Rightarrow> file_action res \<times> (string, remoteHashMemoEntry) gomap" where
  "plan_file env committedEntries session m entry memos =
     (case remote_entry env committedEntries entry session m of
        None \<Rightarrow> (Inr SendContent, memos)
      | Some (remoteEntry, pl) \<Rightarrow>
          if me_IsDir remoteEntry then (Inr SendContent, memos)
          else if \<not> same_metadata remoteEntry entry then (Inr SendContent, memos)
          else if TrimSpace (me_ContentHash entry) = [] then (Inr SendHash, memos)
          else
            (case remoteContentHash env committedEntries (me_Path entry) (place_tree pl m) memos of
               (Inl e, memos) \<Rightarrow> (Inl e, memos)
             | (Inr hashValue, memos) \<Rightarrow>
                 (Inr (if hashValue \<noteq> me_ContentHash entry then SendContent else NoAction), memos)))"

fun plan_files ::
  "sync_env \<Rightarrow> (string, ManifestEntry) gomap \<Rightarrow> syncSession \<Rightarrow> SyncManager \<Rightarrow> ManifestEntry list \<Rightarrow>
   (string, remoteHashMemoEntry) gomap \<Rightarrow>
   (string list \<times> string list) res \<times> (string, remoteHashMemoEntry) gomap" where
  "plan_files env committed session m [] memos = (Inr ([], []), memos)"
| "plan_files env committed session m (entry # entries) memos =
     (if me_IsDir entry then plan_files env committed session m entries memos
      else case plan_file env committed session m entry memos of
             (Inl e, memos) \<Rightarrow> (Inl e, memos)
           | (Inr action, memos) \<Rightarrow>
               (case plan_files env committed session m entries memos of
                  (Inl e, memos) \<Rightarrow> (Inl e, memos)
                | (Inr (hashPaths, uploadPaths), memos) \<Rightarrow>
                    (Inr (if action = SendHash then me_Path entry # hashPaths else hashPaths,
                          if action = SendContent then me_Path entry # uploadPaths else uploadPaths), memos)))"

definition delete_paths ::
  "(string, ManifestEntry) gomap \<Rightarrow> ManifestEntry list \<Rightarrow> (string, unit) gomap \<Rightarrow> string list" where
  "delete_paths committedEntries entries deleted =
     uniqueStrings (sort (filter (\<lambda>path. path \<notin> set (map me_Path entries) \<and> \<not> isPathDeletedOrNested path deleted)
       (map fst committedEntries)))"

record PlanSyncV2Response =
  pl_HashPaths :: "string list"
  pl_UploadPaths :: "string list"
  pl_DeletePaths :: "string list"

definition plan_result ::
  "(string, ManifestEntry) gomap \<Rightarrow> ManifestEntry list \<Rightarrow> syncSession \<Rightarrow> string list \<Rightarrow> string list \<Rightarrow>
   PlanSyncV2Response" where
  "plan_result committedEntries entries session hashPaths uploadPaths =
     (if hashPaths \<noteq> [] then
        \<lparr>pl_HashPaths = uniqueStrings (sort hashPaths), pl_UploadPaths = [], pl_DeletePaths = []\<rparr>
      else
        \<lparr>pl_HashPaths = [], pl_UploadPaths = uniqueStrings (sort uploadPaths),
         pl_DeletePaths = delete_paths committedEntries entries (ss_deleted session)\<rparr>)"

definition committed_entries :: "SyncManager \<Rightarrow> (string, ManifestEntry) gomap" where
  "committed_entries m = cloneManifestMap (wc_manifest (ws_committed (sm_state m)))"

definition session_entries :: "syncSession \<Rightarrow> ManifestEntry list" where
  "session_entries session = map (\<lambda>(_, entry). cloneManifestEntry entry) (ss_manifest session)"

definition Manager_PlanSyncV2 :: "sync_env \<Rightarrow> string \<Rightarrow> SyncManager \<Rightarrow> PlanSyncV2Response res \<times> SyncManager" where
  "Manager_PlanSyncV2 env sessionID m =
     (case sy_layout env of
        Some e \<Rightarrow> (Inl e, m)
      | None \<Rightarrow>
          let m = m\<lparr>sm_state := ensureCommittedManifestLocked env (sm_workspace m) (sm_state m)\<rparr>
          in case activeSyncLocked (sm_state m) of
               Inl e \<Rightarrow> (Inl e, m)
             | Inr session \<Rightarrow>
                 if ss_sessionID session \<noteq> TrimSpace sessionID then
                   (Inl (NewError ErrSyncEpochMismatch ''plan sync v2 does not match the active sync session''), m)
                 else
                   let committed = committed_entries m;
                       entries = session_entries session;
                       (planned, memos) = plan_files env committed session m entries (ss_remoteHashMemo session);
                       m = put_session (session\<lparr>ss_remoteHashMemo := memos\<rparr>) m
                   in (map_sum id (\<lambda>(hashPaths, uploadPaths).
                         plan_result committed entries session hashPaths uploadPaths) planned, m))"

text \<open>
  The first version of the protocol plans the same way, except that a file without the hash it needs
  is an error; which files need one is asked before.
\<close>

record PlanSyncActionsResponse =
  pa_UploadPaths :: "string list"
  pa_DeletePaths :: "string list"

fun plan_actions ::
  "sync_env \<Rightarrow> (string, ManifestEntry) gomap \<Rightarrow> syncSession \<Rightarrow> SyncManager \<Rightarrow> ManifestEntry list \<Rightarrow>
   (string, remoteHashMemoEntry) gomap \<Rightarrow> string list res \<times> (string, remoteHashMemoEntry) gomap" where
  "plan_actions env committed session m [] memos = (Inr [], memos)"
| "plan_actions env committed session m (entry # entries) memos =
     (if me_IsDir entry then plan_actions env committed session m entries memos
      else case plan_file env committed session m entry memos of
             (Inl e, memos) \<Rightarrow> (Inl e, memos)
           | (Inr SendHash, memos) \<Rightarrow>
               (Inl (NewError ErrInvalidArgument ''manifest file is missing a required content hash''), memos)
           | (Inr action, memos) \<Rightarrow>
               (case plan_actions env committed session m entries memos of
                  (Inl e, memos) \<Rightarrow> (Inl e, memos)
                | (Inr uploadPaths, memos) \<Rightarrow>
                    (Inr (if action = SendContent then me_Path entry # uploadPaths else uploadPaths), memos)))"

definition Manager_PlanSyncActions :: "sync_env \<Rightarrow> SyncManager \<Rightarrow> PlanSyncActionsResponse res \<times> SyncManager" where
  "Manager_PlanSyncActions env m =
     (case sy_layout env of
        Some e \<Rightarrow> (Inl e, m)
      | None \<Rightarrow>
          (case activeSyncLocked (sm_state m) of
             Inl e \<Rightarrow> (Inl e, m)
           | Inr session \<Rightarrow>
               let m = m\<lparr>sm_state := ensureCommittedManifestLocked env (sm_workspace m) (sm_state m)\<rparr>;
                   committed = committed_entries m;
                   entries = session_entries session;
                   (planned, memos) = plan_actions env committed session m entries (ss_remoteHashMemo session);
                   m = put_session (session\<lparr>ss_remoteHashMemo := memos\<rparr>) m
               in (map_sum id (\<lambda>uploadPaths.
                     \<lparr>pa_UploadPaths = uniqueStrings (sort uploadPaths),
                      pa_DeletePaths = delete_paths committed entries (ss_deleted session)\<rparr>) planned, m)))"

definition needs_hash ::
  "sync_env \<Rightarrow> (string, ManifestEntry) gomap \<Rightarrow> syncSession \<Rightarrow> SyncManager \<Rightarrow> ManifestEntry \<Rightarrow> bool" where
  "needs_hash env committedEntries session m entry \<longleftrightarrow>
     \<not> me_IsDir entry \<and>
     (case remoteManifestEntryForPath committedEntries (me_Path entry) session of
        None \<Rightarrow> False
      | Some (remoteEntry, pl) \<Rightarrow>
          let remoteEntry =
            (if \<not> me_IsDir remoteEntry \<and> \<not> same_metadata remoteEntry entry then
               (case refreshRemoteManifestEntry env (me_Path entry) (sm_workspace m) of
                  Inr (Some (refreshed, _)) \<Rightarrow> refreshed | _ \<Rightarrow> remoteEntry)
             else remoteEntry)
          in \<not> me_IsDir remoteEntry \<and> same_metadata remoteEntry entry \<and> TrimSpace (me_ContentHash entry) = [])"

definition Manager_PlanManifestHashes :: "sync_env \<Rightarrow> SyncManager \<Rightarrow> string list res \<times> SyncManager" where
  "Manager_PlanManifestHashes env m =
     (case sy_layout env of
        Some e \<Rightarrow> (Inl e, m)
      | None \<Rightarrow>
          (case activeSyncLocked (sm_state m) of
             Inl e \<Rightarrow> (Inl e, m)
           | Inr session \<Rightarrow>
               let m = m\<lparr>sm_state := ensureCommittedManifestLocked env (sm_workspace m) (sm_state m)\<rparr>
               in (Inr (uniqueStrings (sort (map me_Path
                     (filter (needs_hash env (committed_entries m) session m) (session_entries session))))), m)))"

section \<open>Sending files\<close>

definition wrapOwnerWriteError :: "err \<Rightarrow> err" where
  "wrapOwnerWriteError e =
     (if is_ctx_error e then e
      else case AsError e of
             Some (code, _) \<Rightarrow>
               if code \<in> {ErrConflict, ErrInvalidArgument, ErrUnsupportedPath, ErrUnknownFile, ErrUnknownHandle}
               then e else NewError ErrOwnerWriteFailed (Error e)
           | None \<Rightarrow> NewError ErrOwnerWriteFailed (Error e))"

definition decompressData :: "sync_env \<Rightarrow> string \<Rightarrow> string \<Rightarrow> string res" where
  "decompressData env data compression =
     (if compression = [] then Inr data
      else if compression = ''gzip'' then sy_gunzip env data
      else Inr data)"

definition file_id :: "u64 \<Rightarrow> string" where
  "file_id n = ''file-'' @ fmt04 n"

record BeginFileRequest =
  bf_SyncEpoch :: u64
  bf_Path :: string
  bf_Metadata :: FileMetadata
  bf_ExpectedSize :: int
  bf_StatFingerprint :: string

definition Manager_BeginFile ::
  "sync_env \<Rightarrow> BeginFileRequest \<Rightarrow> SyncManager \<Rightarrow> string res \<times> SyncManager" where
  "Manager_BeginFile env request m =
     (case sy_layout env of
        Some e \<Rightarrow> (Inl e, m)
      | None \<Rightarrow>
          (case validateWorkspacePath (bf_Path request) of
             Some e \<Rightarrow> (Inl e, m)
           | None \<Rightarrow>
               (case activeSyncLocked (sm_state m) of
                  Inl e \<Rightarrow> (Inl e, m)
                | Inr session \<Rightarrow>
                    if ss_epoch session \<noteq> bf_SyncEpoch request then
                      (Inl (NewError ErrSyncEpochMismatch ''file upload does not match the active sync epoch''), m)
                    else
                      let n = ss_nextUploadID session + 1;
                          upload = \<lparr>us_fileID = file_id n, us_path = bf_Path request,
                            us_expectedSize = bf_ExpectedSize request,
                            us_metadata = normalizeMetadata (bf_Metadata request),
                            us_statFingerprint = bf_StatFingerprint request, us_data = []\<rparr>
                      in (Inr (file_id n),
                          put_session (session\<lparr>ss_nextUploadID := n,
                            ss_uploads := AList.update (file_id n) upload (ss_uploads session)\<rparr>) m))))"

record ApplyChunkRequest =
  ac_FileID :: string
  ac_Offset :: int
  ac_Data :: string
  ac_Compression :: string

definition Manager_ApplyChunk ::
  "sync_env \<Rightarrow> ApplyChunkRequest \<Rightarrow> SyncManager \<Rightarrow> err option \<times> SyncManager" where
  "Manager_ApplyChunk env request m =
     (case uploadLocked (ac_FileID request) (sm_state m) of
        Inl e \<Rightarrow> (Some e, m)
      | Inr upload \<Rightarrow>
          if ac_Offset request \<noteq> int (length (us_data upload)) then
            (Some (NewError ErrFileCommitFailed ''chunk offset is not contiguous''), m)
          else
            (case decompressData env (ac_Data request) (ac_Compression request) of
               Inl e \<Rightarrow> (Some (NewError ErrFileCommitFailed (''decompress chunk failed: '' @ Error e)), m)
             | Inr data \<Rightarrow>
                 (case activeSyncLocked (sm_state m) of
                    Inl e \<Rightarrow> (Some e, m)
                  | Inr session \<Rightarrow>
                      (None, put_session (session\<lparr>ss_uploads :=
                         AList.update (ac_FileID request) (upload\<lparr>us_data := us_data upload @ data\<rparr>)
                           (ss_uploads session)\<rparr>) m))))"

text \<open>Putting a received file into the stage, under the metadata of the request.\<close>

definition stage_file :: "string \<Rightarrow> string \<Rightarrow> FileMetadata \<Rightarrow> tree \<Rightarrow> err option \<times> tree" where
  "stage_file path data metadata t =
     (case MkdirAll (workspace_parentPath path) t of
        Inl e \<Rightarrow> (Some (wrapOwnerWriteError e), t)
      | Inr t \<Rightarrow>
          (case PutFile path data (fm_Mode metadata) (fm_MTime metadata) t of
             Inl e \<Rightarrow> (Some (wrapOwnerWriteError e), t)
           | Inr t \<Rightarrow> (None, t)))"

definition note_changed :: "string \<Rightarrow> ManifestEntry \<Rightarrow> syncSession \<Rightarrow> syncSession" where
  "note_changed path entry session =
     session\<lparr>ss_changedFiles := AList.update path (cloneManifestEntry entry) (ss_changedFiles session),
             ss_deleted := AList.delete path (ss_deleted session)\<rparr>"

record CommitFileRequest =
  cf_FileID :: string
  cf_FinalHash :: string
  cf_FinalSize :: int
  cf_MTime :: go_time
  cf_Mode :: "32 word"
  cf_StatFingerprint :: string

definition request_metadata :: "CommitFileRequest \<Rightarrow> FileMetadata" where
  "request_metadata request =
     normalizeMetadata \<lparr>fm_Mode = cf_Mode request, fm_MTime = cf_MTime request, fm_Size = cf_FinalSize request\<rparr>"

definition manifest_entry_of_upload :: "uploadSession \<Rightarrow> syncSession \<Rightarrow> ManifestEntry" where
  "manifest_entry_of_upload upload session =
     (case map_of (ss_manifest session) (us_path upload) of
        Some entry \<Rightarrow> entry
      | None \<Rightarrow> \<lparr>me_Path = us_path upload, me_IsDir = False, me_Metadata = us_metadata upload,
                 me_StatFingerprint = us_statFingerprint upload, me_ContentHash = []\<rparr>)"

definition Manager_CommitFile ::
  "sync_env \<Rightarrow> CommitFileRequest \<Rightarrow> SyncManager \<Rightarrow> err option \<times> SyncManager" where
  "Manager_CommitFile env request m =
     (case activeSyncLocked (sm_state m) of
        Inl e \<Rightarrow> (Some e, m)
      | Inr session \<Rightarrow>
          (case map_of (ss_uploads session) (cf_FileID request) of
             None \<Rightarrow> (Some (NewError ErrUnknownFile ''file upload handle does not exist''), m)
           | Some upload \<Rightarrow>
               let entry = manifest_entry_of_upload upload session;
                   session = session\<lparr>ss_uploads := AList.delete (cf_FileID request) (ss_uploads session)\<rparr>;
                   m = put_session session m;
                   written = int (length (us_data upload))
               in if written \<noteq> cf_FinalSize request \<or> written \<noteq> us_expectedSize upload then
                    (Some (NewError ErrFileCommitFailed ''uploaded file size does not match the expected size''), m)
                  else if sy_sha env (us_data upload) \<noteq> cf_FinalHash request then
                    (Some (NewError ErrFileCommitFailed ''uploaded file hash does not match the committed hash''), m)
                  else
                    (case stage_file (us_path upload) (us_data upload) (request_metadata request) (sm_stage m) of
                       (Some e, t) \<Rightarrow> (Some e, m\<lparr>sm_stage := t\<rparr>)
                     | (None, t) \<Rightarrow>
                         let entry = entry\<lparr>me_Metadata := request_metadata request,
                               me_ContentHash := cf_FinalHash request,
                               me_StatFingerprint := cf_StatFingerprint request\<rparr>
                         in (None, put_session (note_changed (us_path upload) entry session)
                               (m\<lparr>sm_stage := t\<rparr>)))))"

definition Manager_AbortFile :: "string \<Rightarrow> SyncManager \<Rightarrow> err option \<times> SyncManager" where
  "Manager_AbortFile fileID m =
     (case activeSyncLocked (sm_state m) of
        Inl e \<Rightarrow> (Some e, m)
      | Inr session \<Rightarrow>
          if map_of (ss_uploads session) fileID = None then
            (Some (NewError ErrUnknownFile ''file upload handle does not exist''), m)
          else (None, put_session (session\<lparr>ss_uploads := AList.delete fileID (ss_uploads session)\<rparr>) m))"

section \<open>Deletions\<close>

definition zero_precondition :: MutationPrecondition where
  "zero_precondition = \<lparr>pc_Path = [], pc_ObjectGeneration = 0, pc_DirGeneration = 0, pc_MustNotExist = False,
     pc_ObjectIdentity = []\<rparr>"

definition err_delete_epoch :: err where
  "err_delete_epoch = NewError ErrSyncEpochMismatch ''delete path does not match the active sync epoch''"

definition note_deleted :: "string \<Rightarrow> syncSession \<Rightarrow> syncSession" where
  "note_deleted path session =
     session\<lparr>ss_deleted := AList.update path () (ss_deleted session),
       ss_changedFiles := filter (\<lambda>(p, _). \<not> isWorkspacePathEqualOrNested p path) (ss_changedFiles session)\<rparr>"

definition Manager_DeletePath ::
  "u64 \<Rightarrow> string \<Rightarrow> MutationPrecondition \<Rightarrow> SyncManager \<Rightarrow> err option \<times> SyncManager" where
  "Manager_DeletePath epoch path precondition m =
     (case validateWorkspacePath path of
        Some e \<Rightarrow> (Some e, m)
      | None \<Rightarrow>
          let s = sm_state m
          in if wy_activeEpoch (ws_sync s) \<noteq> epoch then (Some err_delete_epoch, m)
             else
               (case checkPreconditionsLocked path precondition (ws_committed s) of
                  Some e \<Rightarrow> (Some e, m)
                | None \<Rightarrow>
                    (case map_of (wy_sessions (ws_sync s)) epoch of
                       None \<Rightarrow> (Some err_delete_epoch, m)
                     | Some session \<Rightarrow>
                         let m = put_session (note_deleted path session) m
                         in (case RemoveAll path (sm_stage m) of
                               Inl e \<Rightarrow> (if errorsIsNotExist e then None else Some e, m)
                             | Inr t \<Rightarrow> (None, m\<lparr>sm_stage := t\<rparr>)))))"

text \<open>Running a step for each element of a list up to the first error.\<close>

fun fold_err :: "('a \<Rightarrow> 's \<Rightarrow> err option \<times> 's) \<Rightarrow> 'a list \<Rightarrow> 's \<Rightarrow> err option \<times> 's" where
  "fold_err f [] s = (None, s)"
| "fold_err f (x # xs) s =
     (case f x s of (None, s) \<Rightarrow> fold_err f xs s | (Some e, s) \<Rightarrow> (Some e, s))"

definition Manager_DeletePathsBatch ::
  "string \<Rightarrow> u64 \<Rightarrow> string list \<Rightarrow> SyncManager \<Rightarrow> err option \<times> SyncManager" where
  "Manager_DeletePathsBatch sessionID epoch paths m =
     (case activeSyncLocked (sm_state m) of
        Inl e \<Rightarrow> (Some e, m)
      | Inr session \<Rightarrow>
          if ss_sessionID session \<noteq> TrimSpace sessionID then
            (Some (NewError ErrSyncEpochMismatch ''delete batch does not match the active sync session''), m)
          else
            fold_err (\<lambda>path. Manager_DeletePath epoch path zero_precondition) paths
              (put_session (session\<lparr>ss_deleteBatches := ss_deleteBatches session + 1\<rparr>) m))"

section \<open>Bundles\<close>

definition bundle_id :: "u64 \<Rightarrow> string" where
  "bundle_id n = ''bundle-'' @ fmt04 n"

definition Manager_UploadBundleBegin :: "string \<Rightarrow> u64 \<Rightarrow> SyncManager \<Rightarrow> string res \<times> SyncManager" where
  "Manager_UploadBundleBegin sessionID epoch m =
     (case activeSyncLocked (sm_state m) of
        Inl e \<Rightarrow> (Inl e, m)
      | Inr session \<Rightarrow>
          if ss_epoch session \<noteq> epoch then
            (Inl (NewError ErrSyncEpochMismatch ''upload bundle does not match the active sync epoch''), m)
          else if ss_sessionID session \<noteq> TrimSpace sessionID then
            (Inl (NewError ErrSyncEpochMismatch ''upload bundle does not match the active sync session''), m)
          else
            let n = ss_nextBundleID session + 1
            in (Inr (bundle_id n), put_session (session\<lparr>ss_nextBundleID := n,
                  ss_bundles := AList.update (bundle_id n) () (ss_bundles session)\<rparr>) m))"

record UploadBundleFile =
  uf_Path :: string
  uf_Metadata :: FileMetadata
  uf_StatFingerprint :: string
  uf_ContentHash :: string
  uf_Data :: string
  uf_Compression :: string

definition bundle_entry :: "UploadBundleFile \<Rightarrow> syncSession \<Rightarrow> ManifestEntry" where
  "bundle_entry file session =
     (let entry = (case map_of (ss_manifest session) (uf_Path file) of
             Some entry \<Rightarrow> entry
           | None \<Rightarrow> \<lparr>me_Path = uf_Path file, me_IsDir = False, me_Metadata = zero_FileMetadata,
                      me_StatFingerprint = [], me_ContentHash = []\<rparr>)
      in entry\<lparr>me_Metadata := normalizeMetadata (uf_Metadata file), me_ContentHash := uf_ContentHash file,
               me_StatFingerprint := uf_StatFingerprint file\<rparr>)"

text \<open>The message of a wrong size also shows the path and the sizes, which is left out here.\<close>

definition bundle_file :: "sync_env \<Rightarrow> UploadBundleFile \<Rightarrow> SyncManager \<Rightarrow> err option \<times> SyncManager" where
  "bundle_file env file m =
     (case validateWorkspacePath (uf_Path file) of
        Some e \<Rightarrow> (Some e, m)
      | None \<Rightarrow>
          (case decompressData env (uf_Data file) (uf_Compression file) of
             Inl e \<Rightarrow> (Some (NewError ErrFileCommitFailed (''decompress bundle file failed: '' @ Error e)), m)
           | Inr data \<Rightarrow>
               if sy_sha env data \<noteq> uf_ContentHash file then
                 (Some (NewError ErrFileCommitFailed
                    ''uploaded bundle file hash does not match the committed hash''), m)
               else if int (length data) \<noteq> fm_Size (uf_Metadata file) then
                 (Some (NewError ErrFileCommitFailed
                    ''uploaded bundle file size does not match the expected size''), m)
               else
                 (case stage_file (uf_Path file) data (normalizeMetadata (uf_Metadata file)) (sm_stage m) of
                    (Some e, t) \<Rightarrow> (Some e, m\<lparr>sm_stage := t\<rparr>)
                  | (None, t) \<Rightarrow>
                      let m = m\<lparr>sm_stage := t\<rparr>
                      in (case activeSyncLocked (sm_state m) of
                            Inl e \<Rightarrow> (Some e, m)
                          | Inr current \<Rightarrow>
                              (None, put_session (note_changed (uf_Path file) (bundle_entry file current) current) m)))))"

definition Manager_UploadBundleCommit ::
  "sync_env \<Rightarrow> string \<Rightarrow> string \<Rightarrow> UploadBundleFile list \<Rightarrow> SyncManager \<Rightarrow> err option \<times> SyncManager" where
  "Manager_UploadBundleCommit env sessionID bundleID files m =
     (case activeSyncLocked (sm_state m) of
        Inl e \<Rightarrow> (Some e, m)
      | Inr session \<Rightarrow>
          if ss_sessionID session \<noteq> TrimSpace sessionID then
            (Some (NewError ErrSyncEpochMismatch ''upload bundle does not match the active sync session''), m)
          else if map_of (ss_bundles session) bundleID = None then
            (Some (NewError ErrUnknownFile ''upload bundle handle does not exist''), m)
          else
            fold_err (bundle_file env) files
              (put_session (session\<lparr>ss_bundles := AList.delete bundleID (ss_bundles session),
                 ss_uploadBundles := ss_uploadBundles session + 1\<rparr>) m))"

section \<open>Publishing\<close>

text \<open>The steps run on the workspace tree and, where the mount is mirrored, on the mount tree.\<close>

definition on_trees ::
  "bool \<Rightarrow> (tree \<Rightarrow> err option \<times> tree) \<Rightarrow> tree \<times> tree \<Rightarrow> err option \<times> tree \<times> tree" where
  "on_trees syncMount f trees =
     (case trees of (w, t) \<Rightarrow>
        (case f w of
           (Some e, w) \<Rightarrow> (Some e, w, t)
         | (None, w) \<Rightarrow> if syncMount then (case f t of (e, t) \<Rightarrow> (e, w, t)) else (None, w, t)))"

definition remove_path :: "string \<Rightarrow> tree \<Rightarrow> err option \<times> tree" where
  "remove_path path t =
     (case RemoveAll path t of
        Inl e \<Rightarrow> (if errorsIsNotExist e then None else Some e, t) | Inr t \<Rightarrow> (None, t))"

definition make_dir :: "string \<Rightarrow> tree \<Rightarrow> err option \<times> tree" where
  "make_dir path t = (case MkdirAll path t of Inl e \<Rightarrow> (Some e, t) | Inr t \<Rightarrow> (None, t))"

definition publish_steps ::
  "sync_env \<Rightarrow> bool \<Rightarrow> tree \<Rightarrow> (string, ManifestEntry) gomap \<Rightarrow> (string, ManifestEntry) gomap \<Rightarrow>
   (string, unit) gomap \<Rightarrow> (tree \<times> tree \<Rightarrow> err option \<times> tree \<times> tree) list" where
  "publish_steps env syncMount stage entries changedFiles deleted =
     map (\<lambda>path. on_trees syncMount (remove_path path)) (sortedDeletePathsDeepestFirst deleted) @
     map (\<lambda>entry. on_trees syncMount (make_dir (me_Path entry)))
       (filter me_IsDir (sortedManifestEntries entries)) @
     map (\<lambda>entry. on_trees syncMount
           (replaceFileFromStaged (sy_created env) (Stat stage (me_Path entry)) (me_Path entry)
             (normalizeMetadata (me_Metadata entry))))
       (sortedManifestEntries changedFiles) @
     [on_trees syncMount (removeUnexpectedDirectories (expectedDirs entries))]"

definition publishSyncWorkspaceIncremental ::
  "sync_env \<Rightarrow> (string, ManifestEntry) gomap \<Rightarrow> (string, ManifestEntry) gomap \<Rightarrow> (string, unit) gomap \<Rightarrow>
   SyncManager \<Rightarrow> err option \<times> SyncManager" where
  "publishSyncWorkspaceIncremental env entries changedFiles deleted m =
     (case sy_mirror env of
        Inl e \<Rightarrow> (Some e, m)
      | Inr syncMount \<Rightarrow>
          if changedFiles = [] \<and> deleted = [] \<and>
             syncManifestMatchesWorkspace (sy_dirinfo env) entries (sm_workspace m) then (None, m)
          else
            (case fold_err id (publish_steps env syncMount (sm_stage m) entries changedFiles deleted)
                    (sm_workspace m, sm_mount m) of
               (e, w, t) \<Rightarrow> (e, m\<lparr>sm_workspace := w, sm_mount := t\<rparr>)))"

definition err_finalize_epoch :: err where
  "err_finalize_epoch = NewError ErrSyncEpochMismatch ''finalize sync does not match the active epoch''"

definition finalize_guard :: "u64 \<Rightarrow> u64 \<Rightarrow> bool \<Rightarrow> workspaceState \<Rightarrow> syncSession res" where
  "finalize_guard epoch attemptID guardStable s =
     (case map_of (wy_sessions (ws_sync s)) epoch of
        None \<Rightarrow> Inl err_finalize_epoch
      | Some session \<Rightarrow>
          if wy_activeEpoch (ws_sync s) \<noteq> epoch then Inl err_finalize_epoch
          else if ss_attemptID session \<noteq> attemptID then
            Inl (NewError ErrSyncEpochMismatch ''finalize sync does not match the active attempt'')
          else if \<not> guardStable then
            Inl (NewError ErrSyncRescanMismatch ''workspace changed during initial sync'')
          else if ss_uploads session \<noteq> [] \<or> ss_bundles session \<noteq> [] then
            Inl (NewError ErrFileCommitFailed ''cannot finalize sync with unfinished uploads'')
          else Inr session)"

definition finish_session :: "u64 \<Rightarrow> workspaceState \<Rightarrow> workspaceState" where
  "finish_session epoch s =
     (let y = ws_sync s
      in s\<lparr>ws_sync := y\<lparr>wy_sessions := AList.delete epoch (wy_sessions y),
           wy_activeEpoch := (if wy_activeEpoch y = epoch then 0 else wy_activeEpoch y)\<rparr>\<rparr>)"

definition Manager_FinalizeSync ::
  "sync_env \<Rightarrow> u64 \<Rightarrow> u64 \<Rightarrow> bool \<Rightarrow> SyncManager \<Rightarrow> err option \<times> SyncManager" where
  "Manager_FinalizeSync env epoch attemptID guardStable m =
     (case sy_layout env of
        Some e \<Rightarrow> (Some e, m)
      | None \<Rightarrow>
          (case finalize_guard epoch attemptID guardStable (sm_state m) of
             Inl e \<Rightarrow> (Some e, m)
           | Inr session \<Rightarrow>
               let entries = cloneManifestMap (ss_manifest session);
                   changedFiles = mergeStagedFilesIntoChangedSet (sm_stage m) entries
                     (cloneManifestMap (ss_changedFiles session))
               in (case publishSyncWorkspaceIncremental env entries changedFiles (ss_deleted session) m of
                     (Some e, m) \<Rightarrow> (Some (wrapOwnerWriteError e), m)
                   | (None, m) \<Rightarrow>
                       let s = syncManifestStateLocked entries (finish_session epoch (sm_state m));
                           s = snd (seedConservativePaths (sy_observed env) s)
                       in (None, m\<lparr>sm_state := s, sm_stage := []\<rparr>))))"

definition Manager_FinalizeSyncV2 ::
  "sync_env \<Rightarrow> string \<Rightarrow> u64 \<Rightarrow> u64 \<Rightarrow> bool \<Rightarrow> SyncManager \<Rightarrow> err option \<times> SyncManager" where
  "Manager_FinalizeSyncV2 env sessionID epoch attemptID guardStable m =
     (case activeSyncLocked (sm_state m) of
        Inl e \<Rightarrow> (Some e, m)
      | Inr session \<Rightarrow>
          if ss_sessionID session \<noteq> TrimSpace sessionID then
            (Some (NewError ErrSyncEpochMismatch ''finalize sync v2 does not match the active sync session''), m)
          else Manager_FinalizeSync env epoch attemptID guardStable m)"

end
