(* ===== verification/Sync_Client.thy ===== *)
theory Sync_Client
  imports Workspace_Sync
begin

text \<open>
  The transfer half of the client's sync attempt (\<open>internal/sync/initial_sync_session.go\<close>): from the
  plan the daemon returns to the finalisation. The client's calls run here directly on the daemon's
  \<open>SyncManager\<close>; the checks of the control service that stand in between are those of \<open>Control_Sync\<close>.
  Progress reports and traces are left out. \<open>gzip\<close> is the compressor of the standard library.
\<close>

record LocalWorkspaceFile =
  lf_Path :: string
  lf_Entry :: ManifestEntry
  lf_Data :: string
  lf_PreciseMTime :: go_time

text \<open>\<open>lf_Data\<close> is the content of the file on the client's disk, at \<open>Abs\<close> in the code.\<close>

section \<open>Deletions\<close>

definition isNestedUnderDeletedPath :: "string \<Rightarrow> string list \<Rightarrow> bool" where
  "isNestedUnderDeletedPath path deleted \<longleftrightarrow>
     list_ex (\<lambda>candidate. candidate \<noteq> [] \<and> HasPrefix path candidate \<and>
       (path = candidate \<or> HasPrefix path (candidate @ ''/''))) deleted"

fun collapse_loop :: "string list \<Rightarrow> string list \<Rightarrow> string list" where
  "collapse_loop collapsed [] = collapsed"
| "collapse_loop collapsed (path # paths) =
     (if isNestedUnderDeletedPath path collapsed then collapse_loop collapsed paths
      else collapse_loop (collapsed @ [path]) paths)"

definition collapseDeletePaths :: "string list \<Rightarrow> string list" where
  "collapseDeletePaths paths = collapse_loop [] (sort_key (\<lambda>p. (length p, p)) paths)"

section \<open>Uploads\<close>

definition syncChunkSize :: nat where "syncChunkSize = 4 * 1024 * 1024"
definition syncBundleFileThreshold :: int where "syncBundleFileThreshold = 1024 * 1024"
definition syncBundleTargetBytes :: int where "syncBundleTargetBytes = 64 * 1024 * 1024"
definition syncBundleMaxFiles :: nat where "syncBundleMaxFiles = 1024"

record uploadBundle =
  ub_files :: "LocalWorkspaceFile list"
  ub_totalSize :: int

definition file_size :: "LocalWorkspaceFile \<Rightarrow> int" where
  "file_size file = fm_Size (me_Metadata (lf_Entry file))"

fun bundle_loop ::
  "LocalWorkspaceFile list \<Rightarrow> uploadBundle list \<Rightarrow> uploadBundle \<Rightarrow> LocalWorkspaceFile list \<Rightarrow>
   LocalWorkspaceFile list \<times> uploadBundle list" where
  "bundle_loop largeFiles bundles current [] =
     (largeFiles, if ub_files current \<noteq> [] then bundles @ [current] else bundles)"
| "bundle_loop largeFiles bundles current (file # files) =
     (let size = file_size file
      in if size \<le> 0 \<or> size > syncBundleFileThreshold then
           bundle_loop (largeFiles @ [file]) bundles current files
         else
           let full = ub_files current \<noteq> [] \<and>
                 (length (ub_files current) \<ge> syncBundleMaxFiles \<or>
                  ub_totalSize current + size > syncBundleTargetBytes);
               bundles = (if full then bundles @ [current] else bundles);
               current = (if full then \<lparr>ub_files = [], ub_totalSize = 0\<rparr> else current)
           in bundle_loop largeFiles bundles
                \<lparr>ub_files = ub_files current @ [file], ub_totalSize = ub_totalSize current + size\<rparr> files)"

definition buildUploadPlan ::
  "LocalWorkspaceFile list \<Rightarrow> LocalWorkspaceFile list \<times> uploadBundle list" where
  "buildUploadPlan files =
     bundle_loop [] [] \<lparr>ub_files = [], ub_totalSize = 0\<rparr> (sort_key (\<lambda>f. (file_size f, lf_Path f)) files)"

definition compressData :: "(string \<Rightarrow> string) \<Rightarrow> string \<Rightarrow> string \<Rightarrow> string \<times> string" where
  "compressData gzip data compression =
     (if compression = [] then (data, [])
      else let compressed = gzip data
           in if length compressed < length data then (compressed, compression) else (data, []))"

definition bundle_request :: "(string \<Rightarrow> string) \<Rightarrow> string \<Rightarrow> LocalWorkspaceFile \<Rightarrow> UploadBundleFile" where
  "bundle_request gzip compression file =
     (let (data, fileCompression) = compressData gzip (lf_Data file) compression
      in \<lparr>uf_Path = lf_Path file, uf_Metadata = me_Metadata (lf_Entry file),
          uf_StatFingerprint = me_StatFingerprint (lf_Entry file),
          uf_ContentHash = me_ContentHash (lf_Entry file), uf_Data = data, uf_Compression = fileCompression\<rparr>)"

definition uploadBundleFiles ::
  "sync_env \<Rightarrow> (string \<Rightarrow> string) \<Rightarrow> string \<Rightarrow> string \<Rightarrow> u64 \<Rightarrow> LocalWorkspaceFile list \<Rightarrow> SyncManager \<Rightarrow>
   err option \<times> SyncManager" where
  "uploadBundleFiles env gzip compression sessionID epoch files m =
     (case Manager_UploadBundleBegin sessionID epoch m of
        (Inl e, m) \<Rightarrow> (Some e, m)
      | (Inr bundleID, m) \<Rightarrow>
          Manager_UploadBundleCommit env sessionID bundleID (map (bundle_request gzip compression) files) m)"

function chunks_of :: "nat \<Rightarrow> 'a list \<Rightarrow> 'a list list" where
  "chunks_of n data = (if data = [] \<or> n = 0 then [] else take n data # chunks_of n (drop n data))"
  by pat_completeness auto
termination
  by (relation "measure (\<lambda>(n, data). length data)") auto

declare chunks_of.simps [simp del]

fun send_chunks ::
  "sync_env \<Rightarrow> (string \<Rightarrow> string) \<Rightarrow> string \<Rightarrow> string \<Rightarrow> int \<Rightarrow> string list \<Rightarrow> SyncManager \<Rightarrow>
   err option \<times> SyncManager" where
  "send_chunks env gzip compression fileID offset [] m = (None, m)"
| "send_chunks env gzip compression fileID offset (chunk # chunks) m =
     (let (data, chunkCompression) = compressData gzip chunk compression
      in case Manager_ApplyChunk env \<lparr>ac_FileID = fileID, ac_Offset = offset, ac_Data = data,
                ac_Compression = chunkCompression\<rparr> m of
           (Some e, m) \<Rightarrow> (Some e, snd (Manager_AbortFile fileID m))
         | (None, m) \<Rightarrow> send_chunks env gzip compression fileID (offset + int (length chunk)) chunks m)"

definition UploadLocalFile ::
  "sync_env \<Rightarrow> (string \<Rightarrow> string) \<Rightarrow> string \<Rightarrow> u64 \<Rightarrow> LocalWorkspaceFile \<Rightarrow> SyncManager \<Rightarrow>
   err option \<times> SyncManager" where
  "UploadLocalFile env gzip compression epoch file m =
     (let entry = lf_Entry file
      in case Manager_BeginFile env \<lparr>bf_SyncEpoch = epoch, bf_Path = lf_Path file,
                bf_Metadata = me_Metadata entry, bf_ExpectedSize = fm_Size (me_Metadata entry),
                bf_StatFingerprint = me_StatFingerprint entry\<rparr> m of
           (Inl e, m) \<Rightarrow> (Some e, m)
         | (Inr fileID, m) \<Rightarrow>
             (case send_chunks env gzip compression fileID 0 (chunks_of syncChunkSize (lf_Data file)) m of
                (Some e, m) \<Rightarrow> (Some e, m)
              | (None, m) \<Rightarrow>
                  Manager_CommitFile env \<lparr>cf_FileID = fileID, cf_FinalHash = me_ContentHash entry,
                    cf_FinalSize = fm_Size (me_Metadata entry), cf_MTime = fm_MTime (me_Metadata entry),
                    cf_Mode = fm_Mode (me_Metadata entry), cf_StatFingerprint = me_StatFingerprint entry\<rparr> m))"

section \<open>From the plan to the end\<close>

definition transfer_deletes :: "string \<Rightarrow> u64 \<Rightarrow> string list \<Rightarrow> SyncManager \<Rightarrow> err option \<times> SyncManager" where
  "transfer_deletes sessionID epoch paths m =
     (if paths = [] then (None, m) else Manager_DeletePathsBatch sessionID epoch paths m)"

definition transfer_files ::
  "sync_env \<Rightarrow> (string \<Rightarrow> string) \<Rightarrow> string \<Rightarrow> string \<Rightarrow> u64 \<Rightarrow> LocalWorkspaceFile list \<Rightarrow> SyncManager \<Rightarrow>
   err option \<times> SyncManager" where
  "transfer_files env gzip compression sessionID epoch files m =
     (let (largeFiles, bundles) = buildUploadPlan files
      in case fold_err (\<lambda>b. uploadBundleFiles env gzip compression sessionID epoch (ub_files b)) bundles m of
           (Some e, m) \<Rightarrow> (Some e, m)
         | (None, m) \<Rightarrow> fold_err (UploadLocalFile env gzip compression epoch) largeFiles m)"

text \<open>
  The end of \<open>performInitialSyncAttemptV2\<close>: \<open>guard\<close> is the answer of the guard that watches the local
  workspace for changes during the attempt.
\<close>

definition transfer_and_finalize ::
  "sync_env \<Rightarrow> (string \<Rightarrow> string) \<Rightarrow> string \<Rightarrow> err option \<Rightarrow> string \<Rightarrow> u64 \<Rightarrow> u64 \<Rightarrow> PlanSyncV2Response \<Rightarrow>
   LocalWorkspaceFile list \<Rightarrow> SyncManager \<Rightarrow> err option \<times> SyncManager" where
  "transfer_and_finalize env gzip compression guard sessionID epoch attemptID plan files m =
     (case transfer_deletes sessionID epoch (collapseDeletePaths (pl_DeletePaths plan)) m of
        (Some e, m) \<Rightarrow> (Some e, m)
      | (None, m) \<Rightarrow>
          (case transfer_files env gzip compression sessionID epoch files m of
             (Some e, m) \<Rightarrow> (Some e, m)
           | (None, m) \<Rightarrow>
               (case guard of
                  Some e \<Rightarrow> (Some e, m)
                | None \<Rightarrow> Manager_FinalizeSyncV2 env sessionID epoch attemptID True m)))"

end
