(* ===== verification/Local_Snapshot.thy ===== *)
theory Local_Snapshot
  imports Sync_Client Session_Registry
begin

text \<open>
  The client's view of its own workspace (\<open>internal/sync/workspace_snapshot.go\<close>), the caches of
  content hashes (\<open>hash_cache.go\<close>) and the guard that watches the workspace during a sync
  (\<open>sync_guard.go\<close>).

  \<open>sha\<close> is SHA-256 in hexadecimal. Reading a file the snapshot knows succeeds. The hash cache on
  disk is the list of records its JSON file holds. Snapshots are values, so cloning one is the identity.
\<close>

section \<open>Snapshots\<close>

record LocalWorkspaceSnapshot =
  ls_WorkspaceInstanceID :: string
  ls_Fingerprint :: string
  ls_ContentFingerprint :: string
  ls_Digest :: WorkspaceDigest
  ls_Files :: "(string, LocalWorkspaceFile) gomap"
  ls_HashedFiles :: "(string, LocalWorkspaceFile) gomap"
  ls_Dirs :: "(string, ManifestEntry) gomap"
  ls_Entries :: "ManifestEntry list"

record LocalFileHashCacheKey =
  hk_Path :: string
  hk_Size :: int
  hk_Mode :: "32 word"
  hk_MTimeNanos :: int

text \<open>Seconds and nanoseconds since 1970 of an instant counted from the year 1.\<close>

definition UnixNano :: "go_time \<Rightarrow> int" where
  "UnixNano t = t - 62135596800 * 1000000000"

definition Unix :: "go_time \<Rightarrow> int" where
  "Unix t = UnixNano t div 1000000000"

definition HashCacheKey :: "LocalWorkspaceFile \<Rightarrow> LocalFileHashCacheKey" where
  "HashCacheKey f = \<lparr>hk_Path = lf_Path f, hk_Size = fm_Size (me_Metadata (lf_Entry f)),
     hk_Mode = fm_Mode (me_Metadata (lf_Entry f)), hk_MTimeNanos = UnixNano (lf_PreciseMTime f)\<rparr>"

definition with_hash :: "string \<Rightarrow> LocalWorkspaceFile \<Rightarrow> LocalWorkspaceFile" where
  "with_hash h f = f\<lparr>lf_Entry := (lf_Entry f)\<lparr>me_ContentHash := h\<rparr>\<rparr>"

definition int_dec :: "int \<Rightarrow> string" where
  "int_dec i = (if i < 0 then ''-'' else []) @ nat_dec (nat \<bar>i\<bar>)"

definition fingerprint_line :: "bool \<Rightarrow> ManifestEntry \<Rightarrow> string" where
  "fingerprint_line includeContentHash entry =
     (let md = me_Metadata entry
      in me_Path entry @ ''|'' @ (if me_IsDir entry then ''true'' else ''false'') @ ''|'' @ int_dec (fm_Size md) @ ''|'' @
         nat_dec (unat (fm_Mode md)) @ ''|'' @ int_dec (Unix (round_second (fm_MTime md))) @ ''|'' @
         me_StatFingerprint entry @ ''|'' @ (if includeContentHash then me_ContentHash entry else []) @ ''\<newline>'')"

definition fingerprintEntries :: "(string \<Rightarrow> string) \<Rightarrow> ManifestEntry list \<Rightarrow> bool \<Rightarrow> string" where
  "fingerprintEntries sha entries includeContentHash =
     sha (concat (map (fingerprint_line includeContentHash) entries))"

definition sortedWorkspacePaths :: "(string, 'v) gomap \<Rightarrow> string list" where
  "sortedWorkspacePaths values = sort (map fst values)"

definition sorted_values :: "(string, 'v) gomap \<Rightarrow> 'v list" where
  "sorted_values m = map (\<lambda>path. the (map_of m path)) (sortedWorkspacePaths m)"

definition allWorkspaceFilesHashed :: "LocalWorkspaceSnapshot \<Rightarrow> bool" where
  "allWorkspaceFilesHashed snapshot \<longleftrightarrow>
     list_all (\<lambda>(_, f). TrimSpace (me_ContentHash (lf_Entry f)) \<noteq> []) (ls_Files snapshot)"

section \<open>Hashing\<close>

definition hashLocalFile :: "(string \<Rightarrow> string) \<Rightarrow> LocalWorkspaceFile \<Rightarrow> string" where
  "hashLocalFile sha f = sha (lf_Data f)"

definition hashWorkspaceFilesParallel ::
  "(string \<Rightarrow> string) \<Rightarrow> LocalWorkspaceFile list \<Rightarrow> LocalWorkspaceFile list" where
  "hashWorkspaceFilesParallel sha files = map (\<lambda>f. with_hash (hashLocalFile sha f) f) files"

text \<open>The hash a file already has in the snapshot, where reuse is allowed.\<close>

definition reusable ::
  "bool \<Rightarrow> LocalWorkspaceSnapshot \<Rightarrow> string \<Rightarrow> LocalWorkspaceFile \<Rightarrow> string option" where
  "reusable allowCacheReuse snapshot path f =
     (if \<not> allowCacheReuse then None
      else case map_of (ls_HashedFiles snapshot) path of
             None \<Rightarrow> None
           | Some cached \<Rightarrow>
               if HashCacheKey cached = HashCacheKey f \<and> me_ContentHash (lf_Entry cached) \<noteq> []
               then Some (me_ContentHash (lf_Entry cached)) else None)"

definition put_hashed :: "string \<Rightarrow> LocalWorkspaceFile \<Rightarrow> LocalWorkspaceSnapshot \<Rightarrow> LocalWorkspaceSnapshot" where
  "put_hashed path f snapshot =
     snapshot\<lparr>ls_Files := AList.update path f (ls_Files snapshot),
              ls_HashedFiles := AList.update path f (ls_HashedFiles snapshot)\<rparr>"

text \<open>Looking at one file: left alone, filled from the snapshot's own hashes, or to be hashed.\<close>

definition hash_visit ::
  "(string, unit) gomap \<Rightarrow> bool \<Rightarrow> bool \<Rightarrow> string \<times> LocalWorkspaceFile \<Rightarrow>
   LocalWorkspaceSnapshot \<times> (string, ManifestEntry) gomap \<times> LocalWorkspaceFile list \<Rightarrow>
   LocalWorkspaceSnapshot \<times> (string, ManifestEntry) gomap \<times> LocalWorkspaceFile list" where
  "hash_visit selected hashAll allowCacheReuse pf st =
     (case pf of (path, f) \<Rightarrow> case st of (result, updated, targets) \<Rightarrow>
        if \<not> hashAll \<and> map_of selected path = None then (result, AList.update path (lf_Entry f) updated, targets)
        else case reusable allowCacheReuse result path f of
               Some h \<Rightarrow> let f = with_hash h f in (put_hashed path f result, AList.update path (lf_Entry f) updated, targets)
             | None \<Rightarrow> (result, updated, targets @ [f]))"

definition hashWorkspaceSnapshot ::
  "(string \<Rightarrow> string) \<Rightarrow> LocalWorkspaceSnapshot \<Rightarrow> (string, unit) gomap \<Rightarrow> bool \<Rightarrow> bool \<Rightarrow> LocalWorkspaceSnapshot" where
  "hashWorkspaceSnapshot sha snapshot selected hashAll allowCacheReuse =
     (let (result, updated, targets) =
            fold (hash_visit selected hashAll allowCacheReuse) (ls_Files snapshot) (snapshot, ls_Dirs snapshot, []);
          hashed = hashWorkspaceFilesParallel sha targets;
          result = fold (\<lambda>f. put_hashed (lf_Path f) f) hashed result;
          updated = fold (\<lambda>f. AList.update (lf_Path f) (lf_Entry f)) hashed updated;
          result = result\<lparr>ls_Entries := sorted_values updated\<rparr>;
          contentFingerprint = fingerprintEntries sha (ls_Entries result) True
      in if hashAll then result\<lparr>ls_ContentFingerprint := contentFingerprint\<rparr> else result)"

definition pathSet :: "string list \<Rightarrow> (string, unit) gomap" where
  "pathSet paths = fold (\<lambda>path. AList.update path ()) paths []"

definition HashWorkspaceSnapshotPaths ::
  "(string \<Rightarrow> string) \<Rightarrow> LocalWorkspaceSnapshot \<Rightarrow> string list \<Rightarrow> LocalWorkspaceSnapshot" where
  "HashWorkspaceSnapshotPaths sha snapshot paths = hashWorkspaceSnapshot sha snapshot (pathSet paths) False True"

definition CompleteWorkspaceSnapshotContent ::
  "(string \<Rightarrow> string) \<Rightarrow> LocalWorkspaceSnapshot \<Rightarrow> bool \<Rightarrow> LocalWorkspaceSnapshot" where
  "CompleteWorkspaceSnapshotContent sha snapshot allowCacheReuse = hashWorkspaceSnapshot sha snapshot [] True allowCacheReuse"

section \<open>The persistent cache\<close>

record persistentHashRecord =
  hr_Path :: string
  hr_Size :: int
  hr_Mode :: "32 word"
  hr_MTimeNanos :: int
  hr_Hash :: string

record PersistentHashCache =
  hc_path :: string
  hc_records :: "(string, persistentHashRecord) gomap"
  hc_dirty :: bool
  hc_hits :: u64
  hc_misses :: u64

definition loadPersistentHashCache :: "string \<Rightarrow> string \<Rightarrow> persistentHashRecord list option \<Rightarrow> PersistentHashCache" where
  "loadPersistentHashCache workspaceInstanceID cachePath file =
     (let cache = \<lparr>hc_path = (if workspaceInstanceID = [] then [] else cachePath), hc_records = [], hc_dirty = False,
            hc_hits = 0, hc_misses = 0\<rparr>
      in if workspaceInstanceID = [] then cache
         else case file of
                None \<Rightarrow> cache
              | Some records \<Rightarrow> cache\<lparr>hc_records := fold (\<lambda>r. AList.update (hr_Path r) r) records []\<rparr>)"

definition record_fits :: "persistentHashRecord \<Rightarrow> LocalFileHashCacheKey \<Rightarrow> bool" where
  "record_fits r key \<longleftrightarrow> hr_Size r = hk_Size key \<and> hr_Mode r = hk_Mode key \<and> hr_MTimeNanos r = hk_MTimeNanos key \<and>
     hr_Hash r \<noteq> []"

definition Cache_Lookup ::
  "LocalWorkspaceFile \<Rightarrow> PersistentHashCache option \<Rightarrow> string option \<times> PersistentHashCache option" where
  "Cache_Lookup f cache =
     (case cache of
        None \<Rightarrow> (None, None)
      | Some c \<Rightarrow>
          (case map_of (hc_records c) (lf_Path f) of
             Some r \<Rightarrow>
               if record_fits r (HashCacheKey f)
               then (Some (hr_Hash r), Some (c\<lparr>hc_hits := hc_hits c + 1\<rparr>))
               else (None, Some (c\<lparr>hc_misses := hc_misses c + 1\<rparr>))
           | None \<Rightarrow> (None, Some (c\<lparr>hc_misses := hc_misses c + 1\<rparr>))))"

definition Cache_Store :: "LocalWorkspaceFile \<Rightarrow> PersistentHashCache option \<Rightarrow> PersistentHashCache option" where
  "Cache_Store f cache =
     (case cache of
        None \<Rightarrow> None
      | Some c \<Rightarrow>
          if lf_Path f = [] \<or> me_ContentHash (lf_Entry f) = [] then cache
          else
            let key = HashCacheKey f
            in Some (c\<lparr>hc_records := AList.update (lf_Path f)
                 \<lparr>hr_Path = lf_Path f, hr_Size = hk_Size key, hr_Mode = hk_Mode key, hr_MTimeNanos = hk_MTimeNanos key,
                  hr_Hash = me_ContentHash (lf_Entry f)\<rparr> (hc_records c), hc_dirty := True\<rparr>))"

text \<open>\<open>Save\<close> yields the records to write, if any.\<close>

definition Cache_Save ::
  "PersistentHashCache option \<Rightarrow> persistentHashRecord list option \<times> PersistentHashCache option" where
  "Cache_Save cache =
     (case cache of
        None \<Rightarrow> (None, None)
      | Some c \<Rightarrow>
          if hc_path c = [] \<or> \<not> hc_dirty c then (None, cache)
          else (Some (map snd (hc_records c)), Some (c\<lparr>hc_dirty := False\<rparr>)))"

definition apply_cached ::
  "string \<times> LocalWorkspaceFile \<Rightarrow> LocalWorkspaceSnapshot \<times> PersistentHashCache option \<Rightarrow>
   LocalWorkspaceSnapshot \<times> PersistentHashCache option" where
  "apply_cached pf st =
     (case pf of (path, f) \<Rightarrow> case st of (result, cache) \<Rightarrow>
        case Cache_Lookup f cache of
          (None, cache) \<Rightarrow> (result, cache)
        | (Some h, cache) \<Rightarrow> (put_hashed path (with_hash h f) result, cache))"

definition ApplyPersistentHashCache ::
  "(string \<Rightarrow> string) \<Rightarrow> LocalWorkspaceSnapshot \<Rightarrow> PersistentHashCache option \<Rightarrow>
   LocalWorkspaceSnapshot \<times> PersistentHashCache option" where
  "ApplyPersistentHashCache sha snapshot cache =
     (if cache = None then (snapshot, cache)
      else
        let (result, cache) =
              fold apply_cached (filter (\<lambda>(_, f). me_ContentHash (lf_Entry f) = []) (ls_Files snapshot)) (snapshot, cache);
            updated = fold (\<lambda>(path, f). AList.update path (lf_Entry f)) (ls_Files result) (ls_Dirs result);
            result = result\<lparr>ls_Entries := sorted_values updated\<rparr>
        in (if allWorkspaceFilesHashed result
            then result\<lparr>ls_ContentFingerprint := fingerprintEntries sha (ls_Entries result) True\<rparr> else result, cache))"

section \<open>The guard\<close>

record SyncGuard =
  sg_dirtyEpoch :: u64
  sg_quiescentSince :: go_time
  sg_watchHealthy :: bool
  sg_failureReason :: string
  sg_lastSnapshot :: LocalWorkspaceSnapshot
  sg_localHashCache :: "(string, LocalWorkspaceFile) gomap"
  sg_persistentHashCache :: "PersistentHashCache option"

definition StartSyncGuard :: "go_time \<Rightarrow> LocalWorkspaceSnapshot \<Rightarrow> PersistentHashCache option \<Rightarrow> SyncGuard" where
  "StartSyncGuard now initial cache =
     \<lparr>sg_dirtyEpoch = 0, sg_quiescentSince = now, sg_watchHealthy = True, sg_failureReason = [],
      sg_lastSnapshot = initial, sg_localHashCache = [], sg_persistentHashCache = cache\<rparr>"

definition AttemptStart :: "SyncGuard option \<Rightarrow> u64" where
  "AttemptStart g = (case g of None \<Rightarrow> 0 | Some g \<Rightarrow> sg_dirtyEpoch g)"

definition syncGuardQuiescenceWindow :: int where
  "syncGuardQuiescenceWindow = 150 * 1000000"

definition Guard_Validate :: "go_time \<Rightarrow> u64 \<Rightarrow> SyncGuard option \<Rightarrow> err option" where
  "Guard_Validate now attempt guard =
     (case guard of
        None \<Rightarrow> None
      | Some g \<Rightarrow>
          if \<not> sg_watchHealthy g then
            Some (NewError ErrSyncRescanMismatch (''sync guard watcher degraded'' @
              (if TrimSpace (sg_failureReason g) \<noteq> [] then '': '' @ TrimSpace (sg_failureReason g) else [])))
          else if sg_dirtyEpoch g \<noteq> attempt then
            Some (NewError ErrSyncRescanMismatch ''workspace changed during initial sync'')
          else if now - sg_quiescentSince g < syncGuardQuiescenceWindow then
            Some (NewError ErrSyncRescanMismatch ''workspace did not remain quiescent through finalize'')
          else None)"

definition markDirtyLocked :: "go_time \<Rightarrow> SyncGuard \<Rightarrow> SyncGuard" where
  "markDirtyLocked now g = g\<lparr>sg_dirtyEpoch := sg_dirtyEpoch g + 1, sg_quiescentSince := now\<rparr>"

definition Guard_fail :: "string \<Rightarrow> SyncGuard \<Rightarrow> SyncGuard" where
  "Guard_fail reason g =
     (if \<not> sg_watchHealthy g then g
      else g\<lparr>sg_watchHealthy := False, sg_failureReason := TrimSpace reason\<rparr>)"

text \<open>Whether two scans differ in what they see from outside the files.\<close>

definition localWorkspaceMetadataChanged :: "LocalWorkspaceSnapshot \<Rightarrow> LocalWorkspaceSnapshot \<Rightarrow> bool" where
  "localWorkspaceMetadataChanged previous current \<longleftrightarrow>
     ls_Fingerprint previous \<noteq> ls_Fingerprint current \<or>
     length (ls_Files previous) \<noteq> length (ls_Files current) \<or> length (ls_Dirs previous) \<noteq> length (ls_Dirs current) \<or>
     list_ex (\<lambda>(path, currentFile).
         case map_of (ls_Files previous) path of
           None \<Rightarrow> True
         | Some previousFile \<Rightarrow> me_Metadata (lf_Entry previousFile) \<noteq> me_Metadata (lf_Entry currentFile) \<or>
             lf_PreciseMTime previousFile \<noteq> lf_PreciseMTime currentFile) (ls_Files current) \<or>
     list_ex (\<lambda>(path, currentDir).
         case map_of (ls_Dirs previous) path of
           None \<Rightarrow> True
         | Some previousDir \<Rightarrow> me_Metadata previousDir \<noteq> me_Metadata currentDir) (ls_Dirs current)"

text \<open>A rescan of the watcher: \<open>scanned\<close> is what \<open>ScanLocalWorkspace\<close> returned.\<close>

definition Guard_rescan :: "go_time \<Rightarrow> LocalWorkspaceSnapshot res \<Rightarrow> SyncGuard \<Rightarrow> SyncGuard" where
  "Guard_rescan now scanned g =
     (case scanned of
        Inl e \<Rightarrow> Guard_fail (Error e) g
      | Inr current \<Rightarrow>
          (let g = (if localWorkspaceMetadataChanged (sg_lastSnapshot g) current then markDirtyLocked now g else g)
           in g\<lparr>sg_lastSnapshot := current\<rparr>))"

definition apply_local :: "(string, LocalWorkspaceFile) gomap \<Rightarrow> LocalWorkspaceSnapshot \<Rightarrow> LocalWorkspaceSnapshot" where
  "apply_local cache snapshot =
     fold (\<lambda>(path, cached) prepared.
         case map_of (ls_Files prepared) path of
           None \<Rightarrow> prepared
         | Some current \<Rightarrow>
             if HashCacheKey cached \<noteq> HashCacheKey current \<or> me_ContentHash (lf_Entry cached) = [] then prepared
             else put_hashed path (with_hash (me_ContentHash (lf_Entry cached)) current) prepared) cache snapshot"

definition applyLocalHashCacheLocked ::
  "LocalWorkspaceSnapshot \<Rightarrow> SyncGuard \<Rightarrow> LocalWorkspaceSnapshot \<times> SyncGuard" where
  "applyLocalHashCacheLocked snapshot g =
     (let prepared = apply_local (sg_localHashCache g) snapshot;
          (prepared, cache) = fold apply_cached
            (filter (\<lambda>(path, _). map_of (ls_HashedFiles prepared) path = None) (ls_Files prepared))
            (prepared, sg_persistentHashCache g)
      in (prepared, g\<lparr>sg_persistentHashCache := cache\<rparr>))"

definition Guard_RefreshSnapshot ::
  "LocalWorkspaceSnapshot res \<Rightarrow> SyncGuard \<Rightarrow> LocalWorkspaceSnapshot res \<times> SyncGuard" where
  "Guard_RefreshSnapshot scanned g =
     (case scanned of
        Inl e \<Rightarrow> (Inl e, g)
      | Inr current \<Rightarrow>
          (case applyLocalHashCacheLocked current (g\<lparr>sg_lastSnapshot := current\<rparr>) of
             (current, g) \<Rightarrow> (Inr current, g)))"

definition Guard_HashPaths ::
  "(string \<Rightarrow> string) \<Rightarrow> LocalWorkspaceSnapshot \<Rightarrow> string list \<Rightarrow> SyncGuard option \<Rightarrow>
   LocalWorkspaceSnapshot \<times> SyncGuard option" where
  "Guard_HashPaths sha snapshot paths guard =
     (case guard of
        None \<Rightarrow> (HashWorkspaceSnapshotPaths sha snapshot paths, None)
      | Some g \<Rightarrow>
          let (prepared, g) = applyLocalHashCacheLocked snapshot g;
              hashed = HashWorkspaceSnapshotPaths sha prepared paths;
              g = g\<lparr>sg_localHashCache := fold (\<lambda>(path, f). AList.update path f) (ls_HashedFiles hashed) (sg_localHashCache g),
                    sg_persistentHashCache := snd (Cache_Save
                      (fold (\<lambda>(_, f). Cache_Store f) (ls_HashedFiles hashed) (sg_persistentHashCache g)))\<rparr>
          in (hashed, Some g))"

end
