(* ===== verification/Workspace_Scan.thy ===== *)
theory Workspace_Scan
  imports Workspace_View Local_Snapshot Drift_Properties
begin

text \<open>
  Scanning a local workspace (\<open>ScanLocalWorkspace\<close> of \<open>internal/sync/workspace_snapshot.go\<close>): the walk
  over the directory tree, the checks on every path, the ignore rules and the snapshot that results.

  \<open>scan_env\<close> holds SHA-256 in hexadecimal and the Unicode tables of \<open>CollisionKey\<close>. A \<open>local_disk\<close> is
  what the disk answers: reading \<open>.stignore\<close>, and the node at the root, \<open>None\<close> when there is none.
  \<open>filepath.WalkDir\<close> follows no symbolic links, so a root that is one has no entries. A
  regular file can be read.
\<close>

record scan_env =
  sv_sha :: "string \<Rightarrow> string"
  sv_nfd :: "string \<Rightarrow> string"
  sv_lower :: "string \<Rightarrow> string"

record local_disk =
  ld_rules :: "string option res"
  ld_root :: "disk_node option res"

section \<open>Visible directories\<close>

definition parentWorkspacePath :: "string \<Rightarrow> string" where
  "parentWorkspacePath path =
     (let path = ToSlash (TrimSpace path)
      in if path = [] \<or> path = ''.'' \<or> CHR ''/'' \<notin> set path then []
         else rev (tl (dropWhile (\<lambda>c. c \<noteq> CHR ''/'') (rev path))))"

lemma length_TrimSpace: "length (TrimSpace s) \<le> length s"
  using suffix_length_le [OF trim_right_rev_suffix, of "rev (trim_left s)"] suffix_length_le [OF trim_left_suffix, of s]
  by (simp add: TrimSpace_def)

lemma parentWorkspacePath_shorter: "path \<noteq> [] \<Longrightarrow> length (parentWorkspacePath path) < length path"
proof -
  assume path: "path \<noteq> []"
  let ?p = "TrimSpace path" and ?d = "dropWhile (\<lambda>c. c \<noteq> CHR ''/'') (rev (TrimSpace path))"
  have "length (tl ?d) < length path"
  proof (cases "?d = []")
    case True
    then show ?thesis unfolding True using path by simp
  next
    case False
    then have "length (tl ?d) < length ?d" by (cases ?d) simp_all
    also have "\<dots> \<le> length (rev ?p)" by (rule length_dropWhile_le)
    also have "\<dots> \<le> length path" using length_TrimSpace by simp
    finally show ?thesis .
  qed
  then show ?thesis using path by (simp add: parentWorkspacePath_def Let_def ToSlash_def)
qed

function mark_loop :: "string \<Rightarrow> (string, unit) gomap \<Rightarrow> (string, unit) gomap" where
  "mark_loop path visible =
     (if path = [] \<or> path = ''.'' then visible
      else mark_loop (parentWorkspacePath path) (AList.update path () visible))"
  by pat_completeness auto
termination
  by (relation "measure (\<lambda>(path, _). length path)") (auto intro: parentWorkspacePath_shorter)

declare mark_loop.simps [simp del]

definition markVisibleWorkspaceAncestors :: "string \<Rightarrow> bool \<Rightarrow> (string, unit) gomap \<Rightarrow> (string, unit) gomap" where
  "markVisibleWorkspaceAncestors path includeSelf visible =
     (let path = ToSlash (TrimSpace path)
      in if path = [] \<or> path = ''.'' then visible
         else mark_loop (if includeSelf then path else parentWorkspacePath path) visible)"

section \<open>The walk\<close>

definition scan_dir_entry :: "string \<Rightarrow> 32 word \<Rightarrow> go_time \<Rightarrow> ManifestEntry" where
  "scan_dir_entry rel mode mtime =
     \<lparr>me_Path = rel, me_IsDir = True,
      me_Metadata = \<lparr>fm_Mode = perm mode, fm_MTime = round_second mtime, fm_Size = 0\<rparr>,
      me_StatFingerprint = ''dir:'' @ nat_dec (unat (perm mode)) @ '':'' @ int_dec (Unix (round_second mtime)),
      me_ContentHash = []\<rparr>"

definition scan_file_entry :: "string \<Rightarrow> 32 word \<Rightarrow> go_time \<Rightarrow> string \<Rightarrow> string \<Rightarrow> ManifestEntry" where
  "scan_file_entry rel mode mtime data hashValue =
     \<lparr>me_Path = rel, me_IsDir = False,
      me_Metadata = \<lparr>fm_Mode = perm mode, fm_MTime = round_second mtime, fm_Size = int (length data)\<rparr>,
      me_StatFingerprint = int_dec (int (length data)) @ '':'' @ nat_dec (unat (perm mode)) @ '':'' @ int_dec (Unix (round_second mtime)),
      me_ContentHash = hashValue\<rparr>"

definition scan_file :: "string \<Rightarrow> 32 word \<Rightarrow> go_time \<Rightarrow> string \<Rightarrow> string \<Rightarrow> LocalWorkspaceFile" where
  "scan_file rel mode mtime data hashValue =
     \<lparr>lf_Path = rel, lf_Entry = scan_file_entry rel mode mtime data hashValue, lf_Data = data, lf_PreciseMTime = mtime\<rparr>"

record scan_state =
  sc_Files :: "(string, LocalWorkspaceFile) gomap"
  sc_HashedFiles :: "(string, LocalWorkspaceFile) gomap"
  sc_collisions :: "(string, string) gomap"
  sc_dirs :: "(string, ManifestEntry) gomap"
  sc_visible :: "(string, unit) gomap"

definition new_scan :: scan_state where
  "new_scan = \<lparr>sc_Files = [], sc_HashedFiles = [], sc_collisions = [], sc_dirs = [], sc_visible = []\<rparr>"

definition scan_dir :: "WorkspaceViewRules \<Rightarrow> string \<Rightarrow> 32 word \<Rightarrow> go_time \<Rightarrow> scan_state \<Rightarrow> scan_state" where
  "scan_dir rules rel mode mtime st =
     (let st = st\<lparr>sc_dirs := AList.update rel (scan_dir_entry rel mode mtime) (sc_dirs st)\<rparr>
      in if AllowsPath rules rel then st\<lparr>sc_visible := markVisibleWorkspaceAncestors rel True (sc_visible st)\<rparr> else st)"

definition scan_regular ::
  "scan_env \<Rightarrow> WorkspaceViewRules \<Rightarrow> (string, unit) gomap \<Rightarrow> bool \<Rightarrow> string \<Rightarrow> 32 word \<Rightarrow> go_time \<Rightarrow> string \<Rightarrow>
   scan_state \<Rightarrow> scan_state" where
  "scan_regular env rules hashPaths hashAll rel mode mtime data st =
     (if \<not> AllowsPath rules rel then st
      else
        let hashValue = (if hashAll \<or> map_of hashPaths rel \<noteq> None then sv_sha env data else []);
            localFile = scan_file rel mode mtime data hashValue;
            st = st\<lparr>sc_Files := AList.update rel localFile (sc_Files st)\<rparr>;
            st = (if hashValue \<noteq> [] then st\<lparr>sc_HashedFiles := AList.update rel localFile (sc_HashedFiles st)\<rparr> else st)
        in st\<lparr>sc_visible := markVisibleWorkspaceAncestors rel False (sc_visible st)\<rparr>)"

definition err_unsupported :: "string \<Rightarrow> err" where
  "err_unsupported msg = NewError ErrUnsupportedPath msg"

text \<open>The function called for every entry but the root; the flag is \<open>fs.SkipDir\<close>.\<close>

definition scan_visit ::
  "scan_env \<Rightarrow> WorkspaceViewRules \<Rightarrow> (string, unit) gomap \<Rightarrow> bool \<Rightarrow> string \<Rightarrow> disk_node \<Rightarrow> scan_state \<Rightarrow>
   (bool \<times> scan_state) res" where
  "scan_visit env rules hashPaths hashAll rel node st =
     (case ValidateRelativePath rel of
        Some e \<Rightarrow> Inl (err_unsupported (Error e))
      | None \<Rightarrow>
          if node = DiskSymlink then
            Inl (err_unsupported ''symbolic links are not supported in the shared workspace'')
          else
            let key = CollisionKey (sv_nfd env) (sv_lower env) rel
            in if (case map_of (sc_collisions st) key of Some previous \<Rightarrow> previous \<noteq> rel | None \<Rightarrow> False) then
                 Inl (err_unsupported ''paths that collide after cross-platform normalization are not supported'')
               else
                 let st = st\<lparr>sc_collisions := AList.update key rel (sc_collisions st)\<rparr>
                 in (case node of
                       DiskGone e \<Rightarrow> Inl e
                     | DiskDir mode mtime _ _ \<Rightarrow>
                         Inr (\<not> AllowsPath rules rel \<and> CanPruneDirectory rules rel, scan_dir rules rel mode mtime st)
                     | DiskFile mode mtime data \<Rightarrow> Inr (False, scan_regular env rules hashPaths hashAll rel mode mtime data st)
                     | _ \<Rightarrow> Inl (err_unsupported ''only regular files are supported in the shared workspace'')))"

definition child_path :: "string \<Rightarrow> string \<Rightarrow> string" where
  "child_path path name = (if path = [] then name else path @ ''/'' @ name)"

fun walk_node ::
    "scan_env \<Rightarrow> WorkspaceViewRules \<Rightarrow> (string, unit) gomap \<Rightarrow> bool \<Rightarrow> string \<Rightarrow> disk_node \<Rightarrow> scan_state \<Rightarrow> scan_state res"
  and walk_entries ::
    "scan_env \<Rightarrow> WorkspaceViewRules \<Rightarrow> (string, unit) gomap \<Rightarrow> bool \<Rightarrow> string \<Rightarrow> (string \<times> disk_node) list \<Rightarrow> scan_state \<Rightarrow>
     scan_state res" where
  "walk_node env rules hashPaths hashAll path node st =
     (case scan_visit env rules hashPaths hashAll path node st of
        Inl e \<Rightarrow> Inl e
      | Inr (skip, st) \<Rightarrow>
          (case node of
             DiskDir _ _ readErr entries \<Rightarrow>
               if skip then Inr st
               else (case readErr of Some e \<Rightarrow> Inl e | None \<Rightarrow> walk_entries env rules hashPaths hashAll path entries st)
           | _ \<Rightarrow> Inr st))"
| "walk_entries env rules hashPaths hashAll path [] st = Inr st"
| "walk_entries env rules hashPaths hashAll path ((name, node) # entries) st =
     (case walk_node env rules hashPaths hashAll (child_path path name) node st of
        Inl e \<Rightarrow> Inl e
      | Inr st \<Rightarrow> walk_entries env rules hashPaths hashAll path entries st)"

declare walk_node.simps [simp del]

fun walk_root ::
  "scan_env \<Rightarrow> WorkspaceViewRules \<Rightarrow> (string, unit) gomap \<Rightarrow> bool \<Rightarrow> disk_node \<Rightarrow> scan_state res" where
  "walk_root env rules hashPaths hashAll (DiskDir _ _ (Some e) entries) = Inl e"
| "walk_root env rules hashPaths hashAll (DiskDir _ _ None entries) = walk_entries env rules hashPaths hashAll [] entries new_scan"
| "walk_root env rules hashPaths hashAll _ = Inr new_scan"

section \<open>The snapshot\<close>

definition empty_snapshot :: LocalWorkspaceSnapshot where
  "empty_snapshot = \<lparr>ls_WorkspaceInstanceID = [], ls_Fingerprint = [], ls_ContentFingerprint = [],
     ls_Digest = \<lparr>dig_Algorithm = [], dig_Value = []\<rparr>, ls_Files = [], ls_HashedFiles = [], ls_Dirs = [], ls_Entries = []\<rparr>"

definition scan_result :: "(string \<Rightarrow> string) \<Rightarrow> scan_state \<Rightarrow> LocalWorkspaceSnapshot" where
  "scan_result sha st =
     (let dirs = filter (\<lambda>(path, _). map_of (sc_visible st) path \<noteq> None) (sc_dirs st);
          entries = sort_key me_Path (sorted_values dirs @ map lf_Entry (sorted_values (sc_Files st)));
          fingerprint = fingerprintEntries sha entries False;
          snapshot = empty_snapshot\<lparr>ls_Files := sc_Files st, ls_HashedFiles := sc_HashedFiles st, ls_Dirs := dirs,
            ls_Entries := entries, ls_Fingerprint := fingerprint\<rparr>;
          snapshot = (if allWorkspaceFilesHashed snapshot
            then snapshot\<lparr>ls_ContentFingerprint := fingerprintEntries sha entries True\<rparr> else snapshot)
      in snapshot\<lparr>ls_Digest := workspace_digest (length entries) fingerprint\<rparr>)"

definition ScanLocalWorkspace ::
  "scan_env \<Rightarrow> local_disk \<Rightarrow> (string, unit) gomap \<Rightarrow> bool \<Rightarrow> LocalWorkspaceSnapshot res" where
  "ScanLocalWorkspace env disk hashPaths hashAll =
     (case LoadWorkspaceViewRules (sv_sha env) (ld_rules disk) of
        Inl e \<Rightarrow> Inl e
      | Inr rules \<Rightarrow>
          (case ld_root disk of
             Inl e \<Rightarrow> Inl e
           | Inr None \<Rightarrow>
               let fingerprint = fingerprintEntries (sv_sha env) [] False
               in Inr (empty_snapshot\<lparr>ls_Fingerprint := fingerprint, ls_Digest := workspace_digest 0 fingerprint\<rparr>)
           | Inr (Some root) \<Rightarrow>
               (case walk_root env rules hashPaths hashAll root of
                  Inl e \<Rightarrow> Inl e
                | Inr st \<Rightarrow> Inr (scan_result (sv_sha env) st))))"

end
