(* ===== verification/View_Properties.thy ===== *)
theory View_Properties
  imports Workspace_View
begin

text \<open>
  What the ignore rules decide: the matcher with its memory finds exactly the matches of a pattern,
  the last matching rule decides, and what pruning a directory hides.
\<close>

section \<open>The matcher\<close>

text \<open>A path matches a pattern when it falls into one piece for each segment of the pattern.\<close>

definition piece :: "string \<Rightarrow> string list \<Rightarrow> bool" where
  "piece p part \<longleftrightarrow> p = ''**'' \<or> (\<exists>s. part = [s] \<and> Match p s = Some True)"

definition segments_match :: "string list \<Rightarrow> string list \<Rightarrow> bool" where
  "segments_match pattern path \<longleftrightarrow> (\<exists>parts. concat parts = path \<and> list_all2 piece pattern parts)"

lemma segments_match_Nil [simp]: "segments_match [] path \<longleftrightarrow> path = []"
  by (auto simp: segments_match_def)

lemma segments_match_Cons:
  "segments_match (p # ps) path \<longleftrightarrow> (\<exists>part rest. path = part @ rest \<and> piece p part \<and> segments_match ps rest)"
proof
  assume "segments_match (p # ps) path"
  then obtain parts where "concat parts = path" "list_all2 piece (p # ps) parts" by (auto simp: segments_match_def)
  then show "\<exists>part rest. path = part @ rest \<and> piece p part \<and> segments_match ps rest"
    by (cases parts) (auto simp: segments_match_def)
next
  assume "\<exists>part rest. path = part @ rest \<and> piece p part \<and> segments_match ps rest"
  then obtain part parts where "path = concat (part # parts)" "list_all2 piece (p # ps) (part # parts)"
    by (auto simp: segments_match_def)
  then show "segments_match (p # ps) path" unfolding segments_match_def by metis
qed

lemma segments_match_star:
  "segments_match (''**'' # ps) path \<longleftrightarrow>
   segments_match ps path \<or> (path \<noteq> [] \<and> segments_match (''**'' # ps) (tl path))"
proof -
  have *: "segments_match (''**'' # ps) q \<longleftrightarrow> (\<exists>part rest. q = part @ rest \<and> segments_match ps rest)" for q
    by (simp add: segments_match_Cons piece_def)
  show ?thesis
  proof (cases path)
    case (Cons x xs)
    then show ?thesis unfolding * by (auto simp: Cons_eq_append_conv)
  qed (auto simp: *)
qed

lemma segments_match_single:
  "p \<noteq> ''**'' \<Longrightarrow> segments_match (p # ps) path \<longleftrightarrow>
   path \<noteq> [] \<and> Match p (hd path) = Some True \<and> segments_match ps (tl path)"
  by (cases path) (auto simp: segments_match_Cons piece_def intro: exI [of _ "[hd path]"])

text \<open>The memory holds only positions from which there is no match, as long as none has been found.\<close>

definition memo_ok :: "string list \<Rightarrow> string list \<Rightarrow> match_memo \<Rightarrow> bool" where
  "memo_ok pattern path memo \<longleftrightarrow>
     (\<forall>i j v. map_of memo (i, j) = Some v \<longrightarrow> \<not> v \<and> \<not> segments_match (drop i pattern) (drop j path))"

lemma memo_ok_put:
  "memo_ok pattern path memo \<Longrightarrow> \<not> segments_match (drop i pattern) (drop j path) \<Longrightarrow>
   memo_ok pattern path (AList.update (i, j) False memo)"
  by (auto simp: memo_ok_def)

lemma match_from_correct:
  "memo_ok pattern path memo \<Longrightarrow> j \<le> length path \<Longrightarrow> match_from pattern path i j memo = (r, memo') \<Longrightarrow>
   (r \<longleftrightarrow> segments_match (drop i pattern) (drop j path)) \<and> (r \<or> memo_ok pattern path memo')"
proof (induction pattern path i j memo arbitrary: r memo' rule: match_from.induct)
  case (1 pattern path i j memo)
  let ?sm = "\<lambda>i j. segments_match (drop i pattern) (drop j path)"
  note memo = "1.prems"(1) and j = "1.prems"(2) and run = "1.prems"(3)
  show ?case
  proof (cases "map_of memo (i, j)")
    case (Some v)
    then show ?thesis using memo run by (auto simp: match_from.simps [of _ _ i j] memo_ok_def)
  next
    case None
    show ?thesis
    proof (cases "i < length pattern")
      case False
      then have sm: "?sm i j \<longleftrightarrow> j = length path" using j by auto
      moreover have "r = (j = length path)" "memo' = AList.update (i, j) False memo"
        using run None False by (auto simp: match_from.simps [of _ _ i j])
      ultimately show ?thesis using memo_ok_put [OF memo, of i j] by auto
    next
      case True
      then have drop_i: "drop i pattern = pattern ! i # drop (i + 1) pattern" by (simp add: Cons_nth_drop_Suc)
      show ?thesis
      proof (cases "pattern ! i = ''**''")
        case star: True
        have sm: "?sm i j \<longleftrightarrow> ?sm (i + 1) j \<or> j < length path \<and> ?sm i (j + 1)"
          using segments_match_star [of "drop (i + 1) pattern" "drop j path"] drop_i star
          by (simp add: tl_drop drop_Suc not_le)
        obtain r1 memo1 where m1: "match_from pattern path (i + 1) j memo = (r1, memo1)" by fastforce
        have IH1: "r1 \<longleftrightarrow> ?sm (i + 1) j" "r1 \<or> memo_ok pattern path memo1"
          using "1.IH"(1) [OF None _ star memo j m1] True by auto
        obtain r2 memo2 where m2: "match_from pattern path i (j + 1) memo1 = (r2, memo2)" by fastforce
        have IH2: "(r2 \<longleftrightarrow> ?sm i (j + 1)) \<and> (r2 \<or> memo_ok pattern path memo2)" if "\<not> r1" "j < length path"
          using "1.IH"(2) [OF None _ star m1 [symmetric] _ _ _ _ m2] IH1 that True by auto
        show ?thesis
          using run None True star m1 m2 IH1 IH2 sm
          by (auto simp: match_from.simps [of _ _ i j memo] memo_ok_put split: if_splits)
      next
        case single: False
        have sm: "?sm i j \<longleftrightarrow> j < length path \<and> Match (pattern ! i) (path ! j) = Some True \<and> ?sm (i + 1) (j + 1)"
          using segments_match_single [OF single, of "drop (i + 1) pattern" "drop j path"] drop_i
          by (cases "j < length path") (auto simp: hd_drop_conv_nth tl_drop drop_Suc)
        obtain r1 memo1 where m1: "match_from pattern path (i + 1) (j + 1) memo = (r1, memo1)" by fastforce
        have IH: "(r1 \<longleftrightarrow> ?sm (i + 1) (j + 1)) \<and> (r1 \<or> memo_ok pattern path memo1)"
          if "j < length path" "Match (pattern ! i) (path ! j) = Some True"
          using "1.IH"(3) [OF None _ single _ _ memo _ m1] that True by auto
        show ?thesis
          using run None True single m1 IH sm memo
          by (auto simp: match_from.simps [of _ _ i j memo] memo_ok_put split: if_splits)
      qed
    qed
  qed
qed

lemma matchWorkspaceViewSegments_iff: "matchWorkspaceViewSegments pattern path \<longleftrightarrow> segments_match pattern path"
  using match_from_correct [of pattern path "[]" 0 0]
  by (cases "match_from pattern path 0 0 []") (auto simp: matchWorkspaceViewSegments_def memo_ok_def)

section \<open>The rule that decides\<close>

lemma evaluate_loop_last:
  "(\<forall>rule \<in> set rules. \<not> rule_matches rule path) \<and> evaluate_loop path idx rules st = st \<or>
   (\<exists>i < length rules. rule_matches (rules ! i) path \<and> (\<forall>rule \<in> set (drop (Suc i) rules). \<not> rule_matches rule path) \<and>
      evaluate_loop path idx rules st = (vr_include (rules ! i), idx + int i))"
proof (induction rules arbitrary: idx st)
  case (Cons rule rules)
  let ?st = "if rule_matches rule path then (vr_include rule, idx) else st"
  from Cons.IH [of "idx + 1" ?st] show ?case
  proof (elim disjE exE conjE)
    fix i assume "i < length rules" "rule_matches (rules ! i) path"
      "\<forall>rule \<in> set (drop (Suc i) rules). \<not> rule_matches rule path"
      "evaluate_loop path (idx + 1) rules ?st = (vr_include (rules ! i), idx + 1 + int i)"
    then show ?thesis by (intro disjI2 exI [of _ "Suc i"]) simp
  next
    assume "\<forall>rule \<in> set rules. \<not> rule_matches rule path" "evaluate_loop path (idx + 1) rules ?st = ?st"
    then show ?thesis by (cases "rule_matches rule path") (auto intro: exI [of _ 0])
  qed
qed simp

section \<open>Pruning\<close>

text \<open>A path the rules take as it is.\<close>

definition view_path :: "string \<Rightarrow> bool" where
  "view_path p \<longleftrightarrow> p \<noteq> [] \<and> normalizeWorkspaceViewPath p = p"

lemma view_path_segments: "view_path p \<Longrightarrow> splitWorkspaceViewSegments p = Split p (CHR ''/'')"
  by (simp add: view_path_def splitWorkspaceViewSegments_def)

lemma rule_matches_iff: "view_path p \<Longrightarrow> rule_matches rule p \<longleftrightarrow> segments_match (vr_segments rule) (Split p (CHR ''/''))"
  by (simp add: rule_matches_def matchWorkspaceViewSegments_iff view_path_segments)

text \<open>A pattern that ends in \<open>**\<close> matches everything below what it matches.\<close>

lemma segments_match_below:
  "segments_match pattern xs \<Longrightarrow> pattern \<noteq> [] \<Longrightarrow> last pattern = ''**'' \<Longrightarrow> segments_match pattern (xs @ ys)"
proof (induction pattern arbitrary: xs)
  case (Cons p ps)
  then obtain part rest where *: "xs = part @ rest" "piece p part" "segments_match ps rest" by (auto simp: segments_match_Cons)
  show ?case
  proof (cases "ps = []")
    case True
    then show ?thesis using Cons.prems(3) by (auto simp: segments_match_Cons piece_def)
  next
    case False
    then have "segments_match ps (rest @ ys)" using Cons.IH [OF *(3)] Cons.prems(3) by simp
    then show ?thesis using *(1,2) by (auto simp: segments_match_Cons)
  qed
qed simp

text \<open>The segments before the first wildcard are literally the beginning of every path that matches.\<close>

lemma segments_match_static:
  assumes "segments_match pattern xs" "\<forall>p \<in> set pattern. CHR 0x5C \<notin> set p"
  shows "prefix (takeWhile (\<lambda>p. \<not> has_wildcard p) pattern) xs"
  using assms
proof (induction pattern arbitrary: xs)
  case (Cons p ps)
  show ?case
  proof (cases "has_wildcard p")
    case False
    then have "literal p" "p \<noteq> ''**''" using Cons.prems(2) by (auto simp: has_wildcard_def literal_def)
    then obtain rest where "xs = p # rest" "segments_match ps rest"
      using Cons.prems(1) by (cases xs) (auto simp: segments_match_single Match_literal)
    then show ?thesis using Cons.IH Cons.prems(2) False by simp
  qed simp
qed simp

lemma Join_prefix_cases:
  assumes "prefix S (Split d (CHR ''/'') @ xs)"
  shows "Join S ''/'' = [] \<or> Join S ''/'' = d \<or> HasPrefix (Join S ''/'') (d @ ''/'') \<or> HasPrefix d (Join S ''/'' @ ''/'')"
proof (cases "S = []")
  case False
  obtain T where T: "S = Split d (CHR ''/'') @ T \<or> Split d (CHR ''/'') = S @ T"
    using assms unfolding prefix_def append_eq_append_conv2 by blast
  show ?thesis
  proof (cases "T = []")
    case True
    then show ?thesis using T by (auto dest: arg_cong [where f = "\<lambda>ps. Join ps ''/''"])
  next
    case nonempty: False
    from T show ?thesis
    proof
      assume "S = Split d (CHR ''/'') @ T"
      then have "Join S ''/'' = d @ ''/'' @ Join T ''/''" using nonempty by (simp add: Join_append)
      then show ?thesis by (simp add: prefix_def)
    next
      assume "Split d (CHR ''/'') = S @ T"
      then have "d = Join S ''/'' @ ''/'' @ Join T ''/''"
        using Join_append [OF False nonempty, of "''/''"] Join_Split [of d "CHR ''/''"] by simp
      then show ?thesis by (metis append.assoc prefixI)
    qed
  qed
qed simp

definition rule_ok :: "workspaceViewRule \<Rightarrow> bool" where
  "rule_ok rule \<longleftrightarrow> vr_staticPrefix rule = workspaceViewStaticPrefix (vr_segments rule) \<and>
     (\<forall>p \<in> set (vr_segments rule). CHR 0x5C \<notin> set p)"

lemma not_mightMatchSubtree:
  assumes "rule_ok rule" "view_path d" "view_path (d @ ''/'' @ s)" "\<not> mightMatchSubtree rule d"
  shows "\<not> rule_matches rule (d @ ''/'' @ s)"
proof
  assume "rule_matches rule (d @ ''/'' @ s)"
  then have "segments_match (vr_segments rule) (Split d (CHR ''/'') @ Split s (CHR ''/''))"
    using rule_matches_iff [OF assms(3)] by (simp add: Split_slash)
  then have "prefix (takeWhile (\<lambda>p. \<not> has_wildcard p) (vr_segments rule)) (Split d (CHR ''/'') @ Split s (CHR ''/''))"
    using assms(1) by (intro segments_match_static) (auto simp: rule_ok_def)
  from Join_prefix_cases [OF this] show False
    using assms(1,2,4) by (auto simp: rule_ok_def mightMatchSubtree_def Let_def view_path_def workspaceViewStaticPrefix_def)
qed

definition subtree_rule :: "workspaceViewRule \<Rightarrow> bool" where
  "subtree_rule rule \<longleftrightarrow> vr_segments rule \<noteq> [] \<and> last (vr_segments rule) = ''**''"

lemma evaluate_view_path:
  "view_path p \<Longrightarrow> evaluate r p = (if p = WorkspaceIgnoreFileName then (True, -1) else evaluate_loop p 0 (wv_rules r) (True, -1))"
  by (simp add: evaluate_def view_path_def isWorkspaceIgnorePath_def Let_def)

lemma set_drop_nth: "i < j \<Longrightarrow> j < length xs \<Longrightarrow> xs ! j \<in> set (drop (Suc i) xs)"
  using in_set_conv_nth [of "xs ! j" "drop (Suc i) xs"] by (auto intro!: exI [of _ "j - Suc i"])

text \<open>An excluding rule decides when no including rule after it matches.\<close>

lemma excluded_by:
  assumes p: "view_path p" "p \<noteq> WorkspaceIgnoreFileName"
    and i: "i < length (wv_rules r)" "rule_matches (wv_rules r ! i) p" "\<not> vr_include (wv_rules r ! i)"
    and later: "\<forall>rule \<in> set (drop (Suc i) (wv_rules r)). \<not> (vr_include rule \<and> rule_matches rule p)"
  shows "\<not> AllowsPath r p"
proof -
  have "\<exists>rule \<in> set (wv_rules r). rule_matches rule p" using i nth_mem by blast
  then obtain j where j: "j < length (wv_rules r)" "rule_matches (wv_rules r ! j) p"
    "\<forall>rule \<in> set (drop (Suc j) (wv_rules r)). \<not> rule_matches rule p"
    "evaluate_loop p 0 (wv_rules r) (True, -1) = (vr_include (wv_rules r ! j), int j)"
    using evaluate_loop_last [of "wv_rules r" p 0 "(True, -1)"] by auto
  have "\<not> vr_include (wv_rules r ! j)"
  proof (cases i j rule: linorder_cases)
    case less
    then show ?thesis using later j(2) set_drop_nth [OF less j(1)] by blast
  next
    case greater
    then show ?thesis using j(3) i(2) set_drop_nth [OF greater i(1)] by blast
  qed (use i(3) in simp)
  then show ?thesis using evaluate_view_path [OF p(1), of r] p(2) j(4) by (simp add: AllowsPath_def)
qed

lemma pruned_below:
  assumes prune: "CanPruneDirectory r d" and d: "view_path d" and q: "view_path (d @ ''/'' @ s)"
    and rules: "\<forall>rule \<in> set (wv_rules r). rule_ok rule"
    and sub: "\<forall>rule \<in> set (wv_rules r). \<not> vr_include rule \<and> rule_matches rule d \<longrightarrow> subtree_rule rule"
  shows "\<not> AllowsPath r (d @ ''/'' @ s)"
proof -
  let ?q = "d @ ''/'' @ s"
  obtain lastMatch where ev: "evaluate r d = (False, lastMatch)"
    and later: "list_all (\<lambda>rule. \<not> (vr_include rule \<and> mightMatchSubtree rule d)) (drop (nat (lastMatch + 1)) (wv_rules r))"
    using prune d by (auto simp: CanPruneDirectory_def Let_def view_path_def split: prod.splits if_splits)
  then obtain i where i: "i < length (wv_rules r)" "rule_matches (wv_rules r ! i) d" "\<not> vr_include (wv_rules r ! i)" "lastMatch = int i"
    using evaluate_loop_last [of "wv_rules r" d 0 "(True, -1)"] evaluate_view_path [OF d, of r]
    by (auto split: if_splits)
  have "segments_match (vr_segments (wv_rules r ! i)) (Split d (CHR ''/'') @ Split s (CHR ''/''))"
    using i sub rule_matches_iff [OF d] nth_mem [OF i(1)] by (intro segments_match_below) (auto simp: subtree_rule_def)
  then have "rule_matches (wv_rules r ! i) ?q" using rule_matches_iff [OF q] by (simp add: Split_slash)
  moreover have "?q \<noteq> WorkspaceIgnoreFileName"
  proof
    assume "?q = WorkspaceIgnoreFileName"
    then have "CHR ''/'' \<in> set WorkspaceIgnoreFileName" by (metis in_set_conv_decomp append_Cons append_Nil)
    then show False by (simp add: WorkspaceIgnoreFileName_def)
  qed
  moreover have "\<forall>rule \<in> set (drop (Suc i) (wv_rules r)). \<not> (vr_include rule \<and> rule_matches rule ?q)"
    using later rules i(4) not_mightMatchSubtree [OF _ d q] in_set_dropD [where xs = "wv_rules r"]
    by (auto simp: list_all_iff nat_add_distrib)
  ultimately show ?thesis using excluded_by [OF q _ i(1) _ i(3)] by blast
qed

end
