(* ===== verification/Workspace_Objects.thy ===== *)
theory Workspace_Objects
  imports Workspace_State
begin

text \<open>
  Identities and generations of the objects of a workspace: what a client may conclude when a
  precondition it sends still holds. The changes of the committed state are the steps of
  \<open>object_step\<close>; every operation of the workspace state is a sequence of them.
\<close>

section \<open>Steps of the committed state\<close>

datatype object_op =
    CommitPath string | CommitDelete string | CommitRename string string
  | OwnerData string | OwnerDelete string | OwnerRename string string | OwnerDentry string

fun object_apply :: "object_op \<Rightarrow> workspaceCommittedState \<Rightarrow> workspaceCommittedState" where
  "object_apply (CommitPath p) c = snd (bumpPathGenerationsLocked p c)"
| "object_apply (CommitDelete p) c = snd (bumpDeleteGenerationsLocked p c)"
| "object_apply (CommitRename p q) c = snd (bumpRenameGenerationsLocked p q c)"
| "object_apply (OwnerData p) c = bumpOwnerDataLocked p c"
| "object_apply (OwnerDelete p) c = bumpOwnerDeleteLocked p c"
| "object_apply (OwnerRename p q) c = bumpOwnerRenameLocked p q c"
| "object_apply (OwnerDentry p) c = bumpOwnerDentryLocked p c"

text \<open>No 64-bit counter is at its end.\<close>

definition objects_room :: "workspaceCommittedState \<Rightarrow> bool" where
  "objects_room c \<longleftrightarrow> wc_nextObjectID c + 1 \<noteq> 0 \<and> (\<forall>p. gen_at (wc_objectGen c) p + 1 \<noteq> 0)"

inductive object_step :: "workspaceCommittedState \<Rightarrow> workspaceCommittedState \<Rightarrow> bool" where
  "objects_room c \<Longrightarrow> object_step c (object_apply op c)"

text \<open>With the manifest of a finished sync as one more step.\<close>

definition manifest_room :: "(string, ManifestEntry) gomap \<Rightarrow> workspaceCommittedState \<Rightarrow> bool" where
  "manifest_room entries c \<longleftrightarrow> unat (wc_nextObjectID c) + length entries < 2 ^ 64 - 1"

inductive workspace_step :: "workspaceCommittedState \<Rightarrow> workspaceCommittedState \<Rightarrow> bool" where
  mutation: "object_step c d \<Longrightarrow> workspace_step c d"
| sync: "manifest_room entries c \<Longrightarrow> workspace_step c (syncManifest_committed entries c)"

section \<open>Identities\<close>

lemma object_identity_inject [simp]: "object_identity m = object_identity n \<longleftrightarrow> m = n"
  unfolding object_identity_def by (metis append_same_eq dec_val_nat_dec option.inject same_append_eq unsigned_word_eqI)

lemma object_identity_not_Nil [simp]: "object_identity n \<noteq> []"
  by (simp add: object_identity_def)

text \<open>Identities are numbered up to the counter and no two paths share one.\<close>

definition identities_ok :: "workspaceCommittedState \<Rightarrow> bool" where
  "identities_ok c \<longleftrightarrow>
     (\<forall>p x. map_of (wc_objectIdentity c) p = Some x \<longrightarrow>
        (\<exists>n. x = object_identity n \<and> unat n \<le> unat (wc_nextObjectID c)) \<and>
        (\<forall>q. map_of (wc_objectIdentity c) q = Some x \<longrightarrow> q = p))"

definition retired :: "string \<Rightarrow> workspaceCommittedState \<Rightarrow> bool" where
  "retired x c \<longleftrightarrow>
     (\<exists>n. x = object_identity n \<and> unat n \<le> unat (wc_nextObjectID c)) \<and>
     (\<forall>p. map_of (wc_objectIdentity c) p \<noteq> Some x)"

lemma bump_same [simp]:
  "wc_objectIdentity (bump_object p c) = wc_objectIdentity c" "wc_nextObjectID (bump_object p c) = wc_nextObjectID c"
  "wc_objectIdentity (bump_dir p c) = wc_objectIdentity c" "wc_nextObjectID (bump_dir p c) = wc_nextObjectID c"
  by (simp_all add: bump_object_def bump_dir_def)

lemma drop_identity_simps [simp]:
  "map_of (wc_objectIdentity (drop_identity p c)) q = (if q = p then None else map_of (wc_objectIdentity c) q)"
  "wc_nextObjectID (drop_identity p c) = wc_nextObjectID c"
  by (simp_all add: drop_identity_def)

lemma give_identity_simps [simp]:
  "map_of (wc_objectIdentity (give_identity p c)) q =
     (if q = p then Some (object_identity (wc_nextObjectID c + 1)) else map_of (wc_objectIdentity c) q)"
  "wc_nextObjectID (give_identity p c) = wc_nextObjectID c + 1"
  by (simp_all add: give_identity_def nextObjectIdentityLocked_def Let_def)

lemma fresh_identity:
  assumes "identities_ok c" "wc_nextObjectID c + 1 \<noteq> 0"
  shows "map_of (wc_objectIdentity c) p \<noteq> Some (object_identity (wc_nextObjectID c + 1))"
    "retired x c \<Longrightarrow> x \<noteq> object_identity (wc_nextObjectID c + 1)"
  using assms unat_plus_one [OF assms(2)] by (fastforce simp: identities_ok_def retired_def)+

text \<open>Going from \<open>c\<close> to \<open>d\<close> keeps the invariant and brings no retired identity back.\<close>

definition kept :: "workspaceCommittedState \<Rightarrow> workspaceCommittedState \<Rightarrow> bool" where
  "kept c d \<longleftrightarrow> unat (wc_nextObjectID c) \<le> unat (wc_nextObjectID d) \<and>
     (identities_ok c \<longrightarrow> identities_ok d \<and> (\<forall>x. retired x c \<longrightarrow> retired x d))"

lemma kept_refl [simp]: "kept c c"
  by (simp add: kept_def)

lemma kept_trans: "kept c d \<Longrightarrow> kept d e \<Longrightarrow> kept c e"
  by (auto simp: kept_def)

lemma kept_same: "wc_objectIdentity d = wc_objectIdentity c \<Longrightarrow> wc_nextObjectID d = wc_nextObjectID c \<Longrightarrow> kept c d"
  by (simp add: kept_def identities_ok_def retired_def)

lemma kept_fewer:
  assumes "\<And>p x. map_of (wc_objectIdentity d) p = Some x \<Longrightarrow> map_of (wc_objectIdentity c) p = Some x"
    and "wc_nextObjectID d = wc_nextObjectID c"
  shows "kept c d"
  unfolding kept_def identities_ok_def retired_def by (metis assms order_refl)

lemma kept_give:
  assumes room: "wc_nextObjectID c + 1 \<noteq> 0"
  shows "kept c (give_identity p c)"
  unfolding kept_def
proof (intro impI conjI allI)
  show "unat (wc_nextObjectID c) \<le> unat (wc_nextObjectID (give_identity p c))"
    using unat_plus_one [OF room] by simp
next
  assume ok: "identities_ok c"
  have more: "unat n \<le> unat (wc_nextObjectID c) \<Longrightarrow> unat n \<le> unat (wc_nextObjectID c + 1)" for n :: u64
    using unat_plus_one [OF room] by simp
  show "identities_ok (give_identity p c)"
    unfolding identities_ok_def
  proof (intro allI impI conjI)
    fix q x assume q: "map_of (wc_objectIdentity (give_identity p c)) q = Some x"
    show "\<exists>n. x = object_identity n \<and> unat n \<le> unat (wc_nextObjectID (give_identity p c))"
      using q ok more by (auto simp: identities_ok_def split: if_splits) blast
    fix r assume r: "map_of (wc_objectIdentity (give_identity p c)) r = Some x"
    show "r = q"
      using q r ok fresh_identity(1) [OF ok room] by (auto simp: identities_ok_def split: if_splits)
  qed
next
  fix x assume ok: "identities_ok c" and x: "retired x c"
  have more: "unat n \<le> unat (wc_nextObjectID c) \<Longrightarrow> unat n \<le> unat (wc_nextObjectID c + 1)" for n :: u64
    using unat_plus_one [OF room] by simp
  from x show "retired x (give_identity p c)"
    using fresh_identity(2) [OF ok room x] more by (auto simp: retired_def)
qed

lemma kept_move:
  assumes "str_at (wc_objectIdentity c) p \<noteq> []" "p \<noteq> q"
    and d: "\<And>r. map_of (wc_objectIdentity d) r =
      (if r = q then Some (str_at (wc_objectIdentity c) p) else if r = p then None
       else map_of (wc_objectIdentity c) r)"
    and "wc_nextObjectID d = wc_nextObjectID c"
  shows "kept c d"
proof -
  have "map_of (wc_objectIdentity c) p = Some (str_at (wc_objectIdentity c) p)"
    using assms(1) by (auto simp: str_at_def split: option.splits)
  then show ?thesis
    unfolding kept_def identities_ok_def retired_def d assms(4)
    by (auto split: if_splits)
qed

lemma kept_ensure: "wc_nextObjectID c + 1 \<noteq> 0 \<Longrightarrow> kept c (ensureObjectIdentityLocked p c)"
  by (simp add: ensureObjectIdentityLocked_def kept_give)

lemma kept_bump: "kept c (bump_object p c)" "kept c (bump_dir p c)"
  by (simp_all add: kept_same)

lemma kept_drop: "kept c (drop_identity p c)"
  by (rule kept_fewer) (auto split: if_splits)

text \<open>A rename: the object leaves its path and arrives at the other one.\<close>

lemma move_identity_simps:
  "map_of (wc_objectIdentity (move_identity x q c)) r =
     (if r = q then Some (if x = [] then object_identity (wc_nextObjectID c + 1) else x)
      else map_of (wc_objectIdentity c) r)"
  "wc_nextObjectID (move_identity x q c) = (if x = [] then wc_nextObjectID c + 1 else wc_nextObjectID c)"
  by (simp_all add: move_identity_def)

lemma kept_rename:
  assumes room: "wc_nextObjectID c + 1 \<noteq> 0" and "p \<noteq> q"
    and same: "\<And>r. map_of (wc_objectIdentity d) r = (if r = p then None else map_of (wc_objectIdentity c) r)"
      "wc_nextObjectID d = wc_nextObjectID c"
  shows "kept c (move_identity (str_at (wc_objectIdentity c) p) q d)"
proof (cases "str_at (wc_objectIdentity c) p = []")
  case True
  have "kept c d" by (rule kept_fewer) (simp_all add: same split: if_splits)
  moreover have "kept d (give_identity q d)" using room same(2) by (simp add: kept_give)
  ultimately show ?thesis using True by (simp add: move_identity_def kept_trans)
next
  case False
  then show ?thesis using assms by (intro kept_move [of c p q]) (simp_all add: move_identity_simps)
qed

lemma object_apply_kept:
  assumes "objects_room c"
  shows "kept c (object_apply op c)"
proof -
  have room: "wc_nextObjectID c + 1 \<noteq> 0" using assms by (simp add: objects_room_def)
  have ensure: "kept c (ensureObjectIdentityLocked p d)"
    if "wc_objectIdentity d = wc_objectIdentity c" "wc_nextObjectID d = wc_nextObjectID c" for p d
    using kept_trans [OF kept_same [OF that] kept_ensure] that room by simp
  have give: "kept c (give_identity p d)"
    if "wc_objectIdentity d = wc_objectIdentity c" "wc_nextObjectID d = wc_nextObjectID c" for p d
    using kept_trans [OF kept_same [OF that] kept_give] that room by simp
  have drop: "kept c (drop_identity p d)"
    if "wc_objectIdentity d = wc_objectIdentity c" "wc_nextObjectID d = wc_nextObjectID c" for p d
    using kept_trans [OF kept_same [OF that] kept_drop] .
  show ?thesis
  proof (cases op)
    case (CommitPath p)
    then show ?thesis using give kept_same by (simp add: bumpPathGenerationsLocked_def Let_def)
  next
    case (CommitDelete p)
    then show ?thesis using drop by (simp add: bumpDeleteGenerationsLocked_def Let_def)
  next
    case (CommitRename p q)
    then show ?thesis
      using kept_rename [OF room] by (simp add: bumpRenameGenerationsLocked_def Let_def)
  next
    case (OwnerData p)
    then show ?thesis using ensure by (simp add: bumpOwnerDataLocked_def)
  next
    case (OwnerDelete p)
    then show ?thesis using drop by (simp add: bumpOwnerDeleteLocked_def)
  next
    case (OwnerRename p q)
    then show ?thesis
      using ensure kept_rename [OF room] by (simp add: bumpOwnerRenameLocked_def bumpOwnerDataLocked_def Let_def)
  next
    case (OwnerDentry p)
    then show ?thesis using ensure kept_same by (simp add: bumpOwnerDentryLocked_def Let_def)
  qed
qed

text \<open>The manifest of a sync gives identities to its paths and takes those of all others.\<close>

lemma touch_path_kept:
  assumes "wc_nextObjectID c + 1 \<noteq> 0"
  shows "kept c (touch_path p c) \<and> unat (wc_nextObjectID (touch_path p c)) \<le> Suc (unat (wc_nextObjectID c))"
proof -
  define d where "d = (if str_at (wc_objectIdentity c) p = [] then give_identity p c else c)"
  have "kept c d" using kept_give [OF assms] by (simp add: d_def)
  moreover have "kept d (touch_path p c)" "wc_nextObjectID (touch_path p c) = wc_nextObjectID d"
    by (simp_all add: touch_path_def d_def Let_def kept_same)
  moreover have "unat (wc_nextObjectID d) \<le> Suc (unat (wc_nextObjectID c))"
    using unat_plus_one [OF assms] by (simp add: d_def)
  ultimately show ?thesis using kept_trans by metis
qed

lemma fold_touch_kept:
  "unat (wc_nextObjectID c) + length ps < 2 ^ 64 - 1 \<Longrightarrow> kept c (fold touch_path ps c)"
proof (induction ps arbitrary: c)
  case (Cons p ps)
  then have "wc_nextObjectID c + 1 \<noteq> 0" by (auto simp: plus_one_neq_0_iff)
  note step = touch_path_kept [OF this, of p]
  with Cons.prems have "unat (wc_nextObjectID (touch_path p c)) + length ps < 2 ^ 64 - 1" by simp
  from kept_trans [OF _ Cons.IH [OF this]] step show ?case by simp
qed simp

lemma syncManifest_kept:
  assumes "manifest_room entries c"
  shows "kept c (syncManifest_committed entries c)"
proof -
  let ?c = "c\<lparr>wc_manifest := cloneManifestMap entries, wc_generation := wc_generation c + 1\<rparr>"
  have "kept ?c (fold touch_path (map fst entries) ?c)"
    using assms by (intro fold_touch_kept) (simp add: manifest_room_def)
  moreover have "kept c ?c" by (simp add: kept_same)
  moreover have "kept (fold touch_path (map fst entries) ?c) (syncManifest_committed entries c)"
    by (rule kept_fewer) (simp_all add: syncManifest_committed_def Let_def map_of_filter_key split: if_splits)
  ultimately show ?thesis using kept_trans by blast
qed

lemma workspace_step_kept: "workspace_step c d \<Longrightarrow> kept c d"
  by (cases rule: workspace_step.cases) (auto simp: object_step.simps object_apply_kept syncManifest_kept)

lemma workspace_run_kept: "workspace_step\<^sup>*\<^sup>* c d \<Longrightarrow> kept c d"
  by (induction rule: rtranclp_induct) (auto intro: kept_trans workspace_step_kept)

section \<open>Generations\<close>

lemma gen_at_bump [simp]: "gen_at (bump k m) k' = (if k' = k then gen_at m k + 1 else gen_at m k')"
  by (simp add: gen_at_def bump_def)

lemma gens_frame [simp]:
  "wc_objectGen (bump_dir p c) = wc_objectGen c" "wc_objectGen (drop_identity p c) = wc_objectGen c"
  "wc_objectGen (give_identity p c) = wc_objectGen c" "wc_objectGen (move_identity x p c) = wc_objectGen c"
  "wc_objectGen (ensureObjectIdentityLocked p c) = wc_objectGen c"
  "wc_objectGen (bump_object p c) = bump p (wc_objectGen c)"
  by (simp_all add: bump_dir_def drop_identity_def give_identity_def move_identity_def bump_object_def
      nextObjectIdentityLocked_def ensureObjectIdentityLocked_def Let_def)

lemma ensure_simps:
  "q \<noteq> p \<Longrightarrow> map_of (wc_objectIdentity (ensureObjectIdentityLocked p c)) q = map_of (wc_objectIdentity c) q"
  by (simp add: ensureObjectIdentityLocked_def)

text \<open>Generations count up, and the object at a path changes only together with its generation.\<close>

definition guarded :: "workspaceCommittedState \<Rightarrow> workspaceCommittedState \<Rightarrow> bool" where
  "guarded c d \<longleftrightarrow> (\<forall>p. unat (gen_at (wc_objectGen c) p) \<le> unat (gen_at (wc_objectGen d) p) \<and>
     (gen_at (wc_objectGen d) p = gen_at (wc_objectGen c) p \<longrightarrow>
        map_of (wc_objectIdentity d) p = map_of (wc_objectIdentity c) p))"

lemma guarded_trans: "guarded c d \<Longrightarrow> guarded d e \<Longrightarrow> guarded c e"
  unfolding guarded_def
proof (intro allI conjI impI)
  fix p
  assume cd: "\<forall>p. unat (gen_at (wc_objectGen c) p) \<le> unat (gen_at (wc_objectGen d) p) \<and>
      (gen_at (wc_objectGen d) p = gen_at (wc_objectGen c) p \<longrightarrow>
        map_of (wc_objectIdentity d) p = map_of (wc_objectIdentity c) p)"
    and de: "\<forall>p. unat (gen_at (wc_objectGen d) p) \<le> unat (gen_at (wc_objectGen e) p) \<and>
      (gen_at (wc_objectGen e) p = gen_at (wc_objectGen d) p \<longrightarrow>
        map_of (wc_objectIdentity e) p = map_of (wc_objectIdentity d) p)"
  show "unat (gen_at (wc_objectGen c) p) \<le> unat (gen_at (wc_objectGen e) p)"
    using cd de order_trans by blast
  assume "gen_at (wc_objectGen e) p = gen_at (wc_objectGen c) p"
  moreover from this have "gen_at (wc_objectGen d) p = gen_at (wc_objectGen c) p"
    using cd [rule_format, of p] de [rule_format, of p] by (metis order_antisym unsigned_word_eqI)
  ultimately show "map_of (wc_objectIdentity e) p = map_of (wc_objectIdentity c) p"
    using cd [rule_format, of p] de [rule_format, of p] by simp
qed

lemma guardedI:
  assumes "objects_room c"
    and "\<And>p. gen_at (wc_objectGen d) p = gen_at (wc_objectGen c) p + 1 \<or>
      gen_at (wc_objectGen d) p = gen_at (wc_objectGen c) p \<and>
      map_of (wc_objectIdentity d) p = map_of (wc_objectIdentity c) p"
  shows "guarded c d"
  unfolding guarded_def
proof (intro allI conjI impI)
  fix p
  have "unat (gen_at (wc_objectGen c) p + 1) = Suc (unat (gen_at (wc_objectGen c) p))"
    using assms(1) by (simp add: objects_room_def unat_plus_one)
  then show "unat (gen_at (wc_objectGen c) p) \<le> unat (gen_at (wc_objectGen d) p)"
    using assms(2) [of p] by auto
  assume "gen_at (wc_objectGen d) p = gen_at (wc_objectGen c) p"
  then show "map_of (wc_objectIdentity d) p = map_of (wc_objectIdentity c) p"
    using assms(2) [of p] by auto
qed

lemma object_apply_guarded: "objects_room c \<Longrightarrow> guarded c (object_apply op c)"
  by (cases op; rule guardedI)
    (auto simp: bumpPathGenerationsLocked_def bumpDeleteGenerationsLocked_def bumpRenameGenerationsLocked_def
      bumpOwnerDataLocked_def bumpOwnerDeleteLocked_def bumpOwnerRenameLocked_def bumpOwnerDentryLocked_def
      Let_def ensure_simps move_identity_simps)

lemma object_run_guarded: "object_step\<^sup>*\<^sup>* c d \<Longrightarrow> guarded c d"
  by (induction rule: rtranclp_induct)
    (auto simp: guarded_def [of c c] object_step.simps intro: guarded_trans object_apply_guarded)

section \<open>Operations of the workspace state as runs\<close>

definition object_run :: "workspaceCommittedState \<Rightarrow> workspaceCommittedState \<Rightarrow> bool" where
  "object_run c d \<longleftrightarrow> (\<exists>ops. d = fold object_apply ops c)"

lemma object_run_refl [simp]: "object_run c c"
  unfolding object_run_def by (metis fold_simps(1))

lemma object_run_trans: "object_run c d \<Longrightarrow> object_run d e \<Longrightarrow> object_run c e"
  unfolding object_run_def by (metis fold_append comp_apply)

lemma object_run_apply: "object_run c (object_apply op c)"
  unfolding object_run_def by (intro exI [of _ "[op]"]) simp

lemmas object_run_owner [simp] =
  object_run_apply [where op = "OwnerData p" for p, simplified]
  object_run_apply [where op = "OwnerDelete p" for p, simplified]
  object_run_apply [where op = "OwnerRename p q" for p q, simplified]
  object_run_apply [where op = "OwnerDentry p" for p, simplified]

lemma fold_run:
  assumes "\<And>x s. object_run (ws_committed s) (ws_committed (f x s))"
  shows "object_run (ws_committed s) (ws_committed (fold f xs s))"
  by (induction xs arbitrary: s) (auto intro: object_run_trans assms)

lemma validate_run: "object_run (ws_committed s) (ws_committed (validateConservativeObservationLocked ob s))"
proof -
  have "object_run (ws_committed s) (validate_object ob s)"
    by (auto simp: validate_object_def Let_def split: option.splits)
  moreover have "object_run c (validate_directory ob s c)" for c
    by (auto simp: validate_directory_def split: option.splits)
  ultimately show ?thesis
    by (auto simp: validateConservativeObservationLocked_def setConservativeObservationLocked_def Let_def
        intro: object_run_trans)
qed

lemma revalidate_run: "object_run (ws_committed s) (ws_committed (snd (revalidateConservativePaths obs s)))"
  using fold_run [of validateConservativeObservationLocked, OF validate_run]
  by (auto simp: revalidateConservativePaths_def split: sum.splits)

lemma set_observation_committed [simp]:
  "ws_committed (setConservativeObservationLocked ob s) = ws_committed s"
  by (simp add: setConservativeObservationLocked_def Let_def)

lemma fold_set_observation [simp]:
  "ws_committed (fold setConservativeObservationLocked obs s) = ws_committed s"
  by (induction obs arbitrary: s) simp_all

lemma seed_committed [simp]: "ws_committed (snd (seedConservativePaths obs s)) = ws_committed s"
  by (auto simp: seedConservativePaths_def split: sum.splits)

lemma owner_change_run: "object_run (ws_committed s) (ws_committed (apply_owner_change ch s))"
  by (cases "inv_Kind ch") (simp_all add: apply_owner_change_def clear_paths_def on_committed_def Let_def)

lemma owner_invalidations_run:
  "object_run (ws_committed s) (ws_committed (snd (ApplyOwnerInvalidationsContext obs chs s)))"
  using fold_run [of apply_owner_change, OF owner_change_run, of s chs]
    seed_committed [of obs "fold apply_owner_change chs s"]
  by (auto simp: ApplyOwnerInvalidationsContext_def Let_def split_def simp del: seed_committed)

section \<open>Properties\<close>

text \<open>
  C39: In every state of a workspace two paths never hold the same object identity, and an identity
  that has been given up names no object again, whatever commits, owner changes and syncs follow:
  an identity precondition that holds means that it is still the same object.
\<close>

theorem identity_names_one_object:
  assumes "workspace_step\<^sup>*\<^sup>* (ws_committed new_workspaceState) b"
    and "workspace_step\<^sup>*\<^sup>* b c" "workspace_step\<^sup>*\<^sup>* c d"
  shows "(map_of (wc_objectIdentity b) p = Some x \<and> map_of (wc_objectIdentity b) q = Some x \<longrightarrow> p = q) \<and>
    (map_of (wc_objectIdentity b) p = Some x \<and> Some x \<notin> range (map_of (wc_objectIdentity c)) \<longrightarrow>
       Some x \<notin> range (map_of (wc_objectIdentity d)))"
proof (intro conjI impI)
  have "identities_ok (ws_committed new_workspaceState)"
    by (simp add: identities_ok_def new_workspaceState_def)
  with assms have ok: "identities_ok b" "identities_ok c"
    using workspace_run_kept unfolding kept_def by blast+
  then show "p = q" if "map_of (wc_objectIdentity b) p = Some x \<and> map_of (wc_objectIdentity b) q = Some x"
    using that unfolding identities_ok_def by blast
  assume x: "map_of (wc_objectIdentity b) p = Some x \<and> Some x \<notin> range (map_of (wc_objectIdentity c))"
  then obtain n where "x = object_identity n" "unat n \<le> unat (wc_nextObjectID b)"
    using ok(1) unfolding identities_ok_def by blast
  moreover have "unat (wc_nextObjectID b) \<le> unat (wc_nextObjectID c)"
    using workspace_run_kept [OF assms(2)] unfolding kept_def by blast
  ultimately have "retired x c"
    using x unfolding retired_def by (metis order_trans rangeI)
  then have "retired x d"
    using workspace_run_kept [OF assms(3)] ok(2) unfolding kept_def by blast
  then show "Some x \<notin> range (map_of (wc_objectIdentity d))"
    unfolding retired_def by (metis rangeE)
qed

lemma objects_roomI:
  "wc_nextObjectID c + 1 \<noteq> 0 \<Longrightarrow> list_all (\<lambda>(p, g). g + 1 \<noteq> 0) (wc_objectGen c) \<Longrightarrow> objects_room c"
  by (auto simp: objects_room_def gen_at_def list_all_iff dest: map_of_SomeD split: option.splits)

text \<open>A file is created, another one renamed over it, and the first name used again.\<close>

definition demo0 :: workspaceCommittedState where "demo0 = ws_committed new_workspaceState"
definition demo1 :: workspaceCommittedState where "demo1 = object_apply (CommitPath ''a'') demo0"
definition demo2 :: workspaceCommittedState where "demo2 = object_apply (CommitDelete ''a'') demo1"
definition demo3 :: workspaceCommittedState where "demo3 = object_apply (CommitPath ''a'') demo2"

lemma demo_steps: "object_step demo0 demo1" "object_step demo1 demo2" "object_step demo2 demo3"
proof -
  have "objects_room demo0" "objects_room demo1" "objects_room demo2"
    by (rule objects_roomI; code_simp)+
  then show "object_step demo0 demo1" "object_step demo1 demo2" "object_step demo2 demo3"
    using object_step.intros demo1_def demo2_def demo3_def by metis+
qed

theorem identity_names_one_object_witness:
  "map_of (wc_objectIdentity demo1) ''a'' = Some ''obj-1'' \<and>
   map_of (wc_objectIdentity demo3) ''a'' = Some ''obj-2'' \<and>
   Some ''obj-1'' \<notin> range (map_of (wc_objectIdentity demo3))"
proof -
  have "workspace_step\<^sup>*\<^sup>* (ws_committed new_workspaceState) demo1"
    using mutation [OF demo_steps(1)] by (simp add: demo0_def r_into_rtranclp)
  moreover have "workspace_step\<^sup>*\<^sup>* demo1 demo2" "workspace_step\<^sup>*\<^sup>* demo2 demo3"
    using mutation [OF demo_steps(2)] mutation [OF demo_steps(3)] by (simp_all add: r_into_rtranclp)
  ultimately have *: "(map_of (wc_objectIdentity demo1) ''a'' = Some ''obj-1'' \<and>
      Some ''obj-1'' \<notin> range (map_of (wc_objectIdentity demo2)) \<longrightarrow>
      Some ''obj-1'' \<notin> range (map_of (wc_objectIdentity demo3)))"
    by (rule identity_names_one_object [THEN conjunct2])
  have "map_of (wc_objectIdentity demo1) ''a'' = Some ''obj-1''" "wc_objectIdentity demo2 = []"
    "map_of (wc_objectIdentity demo3) ''a'' = Some ''obj-2''"
    by code_simp+
  with * show ?thesis by auto
qed

text \<open>
  C40: While commits and owner changes go on, the object at a path changes only together with its
  generation: when a mutation is sent with the generation its sender has seen, that generation is not 0
  and the precondition still holds, the path holds the object the sender saw, or still none. A generation
  of 0, which every path of a fresh sync has, asks for no check.
\<close>

theorem generation_guards_object:
  assumes "object_step\<^sup>*\<^sup>* c d" "gen_at (wc_objectGen c) path = g" "g \<noteq> 0"
    and "checkPreconditionsLocked path \<lparr>pc_Path = [], pc_ObjectGeneration = g, pc_DirGeneration = dg,
      pc_MustNotExist = m, pc_ObjectIdentity = x\<rparr> d = None"
  shows "map_of (wc_objectIdentity d) path = map_of (wc_objectIdentity c) path"
proof -
  have "gen_at (wc_objectGen d) path = g"
    using assms(3,4) by (simp add: checkPreconditionsLocked_def Let_def split: if_splits)
  then show ?thesis
    using object_run_guarded [OF assms(1)] assms(2) unfolding guarded_def by metis
qed

definition demo4 :: workspaceCommittedState where "demo4 = object_apply (OwnerData ''b'') demo1"

theorem generation_guards_object_witness:
  "object_step demo1 demo4 \<and> gen_at (wc_objectGen demo1) ''a'' = 1 \<and>
   map_of (wc_objectIdentity demo4) ''a'' = map_of (wc_objectIdentity demo1) ''a'' \<and>
   map_of (wc_objectIdentity demo4) ''b'' = Some ''obj-2''"
proof -
  have "objects_room demo1" by (rule objects_roomI; code_simp)
  then have step: "object_step demo1 demo4" unfolding demo4_def by (rule object_step.intros)
  have "gen_at (wc_objectGen demo1) ''a'' = 1" "(1 :: u64) \<noteq> 0"
    "checkPreconditionsLocked ''a'' \<lparr>pc_Path = [], pc_ObjectGeneration = 1, pc_DirGeneration = 0,
      pc_MustNotExist = False, pc_ObjectIdentity = ''obj-1''\<rparr> demo4 = None"
    "map_of (wc_objectIdentity demo4) ''b'' = Some ''obj-2''"
    by code_simp+
  moreover have "object_step\<^sup>*\<^sup>* demo1 demo4" using step by blast
  ultimately show ?thesis using step generation_guards_object [of demo1 demo4 "''a''" 1] by blast
qed

definition demo_synced :: workspaceCommittedState where
  "demo_synced = object_apply (CommitPath ''a'') (syncManifest_committed [] demo1)"

text \<open>
  Across a sync this does not hold. A sync whose manifest has no entry for a path forgets its
  generation, so a new object at the path counts from one again, and a precondition on the generation
  of the old object holds for the new one.
\<close>

lemma generation_restarts_after_sync:
  "gen_at (wc_objectGen demo1) ''a'' = 1 \<and> map_of (wc_objectIdentity demo1) ''a'' = Some ''obj-1'' \<and>
   map_of (wc_objectIdentity demo_synced) ''a'' = Some ''obj-2'' \<and>
   checkPreconditionsLocked ''a'' \<lparr>pc_Path = [], pc_ObjectGeneration = 1, pc_DirGeneration = 0,
     pc_MustNotExist = False, pc_ObjectIdentity = []\<rparr> demo_synced = None"
  by code_simp

end
