(* ===== verification/Sync_Tree.thy ===== *)
theory Sync_Tree
  imports Sync_Client Workspace_Objects
begin

text \<open>
  What the file operations of a sync do to a directory tree, read as a map from paths: making
  directories, removing subtrees, replacing files, and the sequence of steps that publishes a sync.
\<close>

section \<open>Ancestors of a path\<close>

lemma set_ancestors_from:
  "set (ancestors_from pre ps) = {pre @ Join xs ''/'' | xs ys. ps = xs @ ys \<and> xs \<noteq> [] \<and> ys \<noteq> []}"
proof (induction pre ps rule: ancestors_from.induct)
  case (3 pre p q qs)
  let ?S = "\<lambda>pre ps. {pre @ Join xs ''/'' | xs ys. ps = xs @ ys \<and> xs \<noteq> [] \<and> ys \<noteq> []}"
  have "?S pre (p # q # qs) = insert (pre @ p) (?S (pre @ p @ ''/'') (q # qs))"
  proof (intro equalityI subsetI)
    fix a assume "a \<in> ?S pre (p # q # qs)"
    then obtain xs ys where a: "a = pre @ Join xs ''/''" "p # q # qs = xs @ ys" "xs \<noteq> []" "ys \<noteq> []" by blast
    then obtain xs' where xs: "xs = p # xs'" "q # qs = xs' @ ys" by (cases xs) auto
    show "a \<in> insert (pre @ p) (?S (pre @ p @ ''/'') (q # qs))"
      using a xs by (cases xs') (auto simp: Join_Cons)
  next
    fix a assume "a \<in> insert (pre @ p) (?S (pre @ p @ ''/'') (q # qs))"
    then show "a \<in> ?S pre (p # q # qs)"
    proof
      assume "a = pre @ p"
      then have "a = pre @ Join [p] ''/''" "p # q # qs = [p] @ q # qs" by simp_all
      then show ?thesis by blast
    next
      assume "a \<in> ?S (pre @ p @ ''/'') (q # qs)"
      then obtain xs ys where "a = (pre @ p @ ''/'') @ Join xs ''/''" "q # qs = xs @ ys" "xs \<noteq> []" "ys \<noteq> []" by blast
      then have "a = pre @ Join (p # xs) ''/''" "p # q # qs = (p # xs) @ ys" "ys \<noteq> []"
        by (simp_all add: Join_Cons)
      then show ?thesis by blast
    qed
  qed
  with 3 show ?case by simp
qed (auto simp: Cons_eq_append_conv)

lemma ancestors_iff: "a \<in> set (ancestors q) \<longleftrightarrow> (\<exists>r. q = a @ ''/'' @ r)"
proof
  assume "a \<in> set (ancestors q)"
  then obtain xs ys where a: "a = Join xs ''/''" "Split q (CHR ''/'') = xs @ ys" "xs \<noteq> []" "ys \<noteq> []"
    by (auto simp: ancestors_def set_ancestors_from)
  then have "q = Join (xs @ ys) ''/''" by (metis Join_Split)
  with a show "\<exists>r. q = a @ ''/'' @ r" by (simp add: Join_append)
next
  assume "\<exists>r. q = a @ ''/'' @ r"
  then obtain r where "q = a @ ''/'' @ r" by blast
  then have "Split q (CHR ''/'') = Split a (CHR ''/'') @ Split r (CHR ''/'')" by (simp add: Split_slash)
  moreover have "a = [] @ Join (Split a (CHR ''/'')) ''/''" by simp
  ultimately show "a \<in> set (ancestors q)"
    unfolding ancestors_def set_ancestors_from using Split_not_Nil by blast
qed

lemma under_iff: "under q p \<longleftrightarrow> q = p \<or> p \<in> set (ancestors q)"
  by (auto simp: under_def ancestors_iff prefix_def)

lemma under_trans: "under r q \<Longrightarrow> under q p \<Longrightarrow> under r p"
  by (auto simp: under_def prefix_def)

lemma ancestors_trans: "a \<in> set (ancestors b) \<Longrightarrow> b \<in> set (ancestors c) \<Longrightarrow> a \<in> set (ancestors c)"
  by (auto simp: ancestors_iff)

text \<open>Two ancestors of one path are comparable.\<close>

lemma ancestors_comparable:
  assumes "a \<in> set (ancestors q)" "b \<in> set (ancestors q)"
  shows "a = b \<or> a \<in> set (ancestors b) \<or> b \<in> set (ancestors a)"
proof -
  obtain r where r: "q = a @ ''/'' @ r" using assms(1) unfolding ancestors_iff by blast
  obtain s where s: "q = b @ ''/'' @ s" using assms(2) unfolding ancestors_iff by blast
  from r s have "a @ ''/'' @ r = b @ ''/'' @ s" by simp
  then obtain us where "a = b @ us \<and> us @ ''/'' @ r = ''/'' @ s \<or> a @ us = b \<and> ''/'' @ r = us @ ''/'' @ s"
    by (auto simp: append_eq_append_conv2)
  then show ?thesis
    by (cases us) (auto simp: ancestors_iff)
qed

text \<open>The parent of a path with proper elements is its last ancestor.\<close>

definition proper_path :: "string \<Rightarrow> bool" where
  "proper_path p \<longleftrightarrow> (\<forall>e \<in> set (Split p (CHR ''/'')). proper_element e)"

lemma proper_element_Nil [simp]: "\<not> proper_element []"
  by (simp add: proper_element_def)

lemma proper_path_not_Nil: "proper_path p \<Longrightarrow> p \<noteq> []"
  by (cases p) (simp_all add: proper_path_def)

lemma proper_path_first: "proper_path (c # s) \<Longrightarrow> c \<noteq> CHR ''/''"
  by (cases "c = CHR ''/''") (simp_all add: proper_path_def)

lemma proper_path_not_dot: "proper_path p \<Longrightarrow> p \<noteq> ''.''"
proof
  assume "proper_path p" "p = ''.''"
  then have "proper_element ''.''" by (simp add: proper_path_def)
  then show False by (simp add: proper_element_def)
qed

lemma proper_ancestor:
  assumes "proper_path q" "a \<in> set (ancestors q)"
  shows "proper_path a"
proof -
  obtain r where "q = a @ CHR ''/'' # r" using assms(2) by (auto simp: ancestors_iff)
  with assms(1) show ?thesis by (simp add: proper_path_def Split_slash)
qed

lemma clean_parts_trailing: "clean_parts r out (ps @ [[]]) = clean_parts r out ps"
  by (induction r out ps rule: clean_parts.induct) (auto split: list.splits)

lemma Clean_slash:
  assumes "proper_path a"
  shows "Clean (a @ ''/'') = a"
proof -
  obtain c s where a: "a = c # s" using proper_path_not_Nil [OF assms] by (cases a) simp_all
  then have "\<not> rooted (a @ ''/'')" using proper_path_first [of c s] assms by (simp add: rooted_def)
  moreover have "elements (a @ ''/'') = Split a (CHR ''/'')"
    using assms calculation
    by (simp add: elements_def Split_slash [of a _ "[]", simplified] clean_parts_trailing clean_parts_proper proper_path_def)
  ultimately show ?thesis by (simp add: Clean_render render_def)
qed

lemma Dir_split: "CHR ''/'' \<notin> set b \<Longrightarrow> Dir (a @ CHR ''/'' # b) = Clean (a @ ''/'')"
proof -
  assume b: "CHR ''/'' \<notin> set b"
  have "dropWhile (\<lambda>c. c \<noteq> CHR ''/'') (rev b @ CHR ''/'' # rev a) = CHR ''/'' # rev a"
    using b by (subst dropWhile_append2) auto
  then show ?thesis by (simp add: Dir_def)
qed

lemma Dir_plain: "CHR ''/'' \<notin> set b \<Longrightarrow> Dir b = ''.''"
proof -
  assume "CHR ''/'' \<notin> set b"
  then have d: "dropWhile (\<lambda>c. c \<noteq> CHR ''/'') (rev b) = []"
    unfolding dropWhile_eq_Nil_conv by (metis set_rev)
  show ?thesis unfolding Dir_def d by (simp add: Clean_def Let_def)
qed

lemma parent_cases:
  assumes "proper_path p"
  shows "(ancestors p = [] \<and> workspace_parentPath p = []) \<or>
    (\<exists>b. p = workspace_parentPath p @ CHR ''/'' # b \<and> CHR ''/'' \<notin> set b \<and> proper_path (workspace_parentPath p) \<and>
       set (ancestors p) = insert (workspace_parentPath p) (set (ancestors (workspace_parentPath p))))"
proof (cases "CHR ''/'' \<in> set p")
  case False
  then show ?thesis
    by (simp add: workspace_parentPath_def Dir_plain ToSlash_def Let_def ancestors_def Split_no_sep)
next
  case True
  then obtain a b where p: "p = a @ CHR ''/'' # b" "CHR ''/'' \<notin> set b"
    by (metis split_list_last)
  have a: "proper_path a"
    using assms by (simp add: p(1) proper_path_def Split_slash)
  have parent: "workspace_parentPath p = a"
    using Dir_split [OF p(2), of a] Clean_slash [OF a] proper_path_not_dot [OF a]
    by (simp add: p(1) workspace_parentPath_def ToSlash_def Let_def)
  have "c = a \<or> c \<in> set (ancestors a)" if c: "c \<in> set (ancestors p)" for c
  proof -
    obtain r where "p = c @ ''/'' @ r" using c unfolding ancestors_iff by blast
    with p(1) have "a @ CHR ''/'' # b = c @ CHR ''/'' # r" by simp
    then obtain us where "a = c @ us \<and> us @ CHR ''/'' # b = CHR ''/'' # r \<or>
        a @ us = c \<and> CHR ''/'' # b = us @ CHR ''/'' # r"
      by (auto simp: append_eq_append_conv2)
    then show ?thesis using p(2) by (cases us) (auto simp: ancestors_iff)
  qed
  moreover have "a \<in> set (ancestors p)" by (auto simp: ancestors_iff p(1))
  ultimately have "set (ancestors p) = insert a (set (ancestors a))"
    using ancestors_trans by blast
  then show ?thesis using p a unfolding parent by blast
qed

section \<open>Operations on a tree\<close>

definition tree_ok :: "tree \<Rightarrow> bool" where
  "tree_ok t \<longleftrightarrow> gomap_ok t \<and>
     (\<forall>p n. map_of t p = Some n \<longrightarrow> (\<forall>a \<in> set (ancestors p). map_of t a = Some DirNode))"

text \<open>The tree \<open>t\<close> with the missing paths of \<open>A\<close> as directories, as a map.\<close>

definition with_dirs :: "string set \<Rightarrow> tree \<Rightarrow> string \<Rightarrow> node option" where
  "with_dirs A t q = (if map_of t q = None \<and> q \<in> A then Some DirNode else map_of t q)"

definition no_file :: "string set \<Rightarrow> tree \<Rightarrow> bool" where
  "no_file A t \<longleftrightarrow> (\<forall>a \<in> A. \<not> is_file (map_of t a))"

lemma is_file_cases: "\<not> is_file x \<longleftrightarrow> x = None \<or> x = Some DirNode"
  by (cases x rule: is_file.cases) auto

lemma mkdirs_ok:
  "no_file (set ps) t \<Longrightarrow>
   \<exists>t'. mkdirs ps t = Inr t' \<and> map_of t' = with_dirs (set ps) t \<and> (gomap_ok t \<longrightarrow> gomap_ok t')"
proof (induction ps arbitrary: t)
  case Nil
  then show ?case by (auto simp: with_dirs_def)
next
  case (Cons p ps)
  then have p: "map_of t p = None \<or> map_of t p = Some DirNode" by (simp add: no_file_def is_file_cases)
  define u where "u = (if map_of t p = None then AList.update p DirNode t else t)"
  have u: "map_of u q = (if q = p then Some DirNode else map_of t q)" "gomap_ok t \<longrightarrow> gomap_ok u" for q
    using p by (auto simp: u_def)
  then have "no_file (set ps) u" using Cons.prems by (auto simp: no_file_def)
  then obtain t' where "mkdirs ps u = Inr t'" "map_of t' = with_dirs (set ps) u" "gomap_ok u \<longrightarrow> gomap_ok t'"
    using Cons.IH by blast
  moreover have "mkdirs (p # ps) t = mkdirs ps u" using p by (auto simp: u_def)
  moreover have "with_dirs (set ps) u = with_dirs (set (p # ps)) t"
    using p u(1) by (auto simp: with_dirs_def fun_eq_iff)
  ultimately show ?case using u(2) by auto
qed

lemma MkdirAll_ok:
  assumes "p \<noteq> []" "no_file (insert p (set (ancestors p))) t"
  obtains t' where "MkdirAll p t = Inr t'" "map_of t' = with_dirs (insert p (set (ancestors p))) t"
    "gomap_ok t \<longrightarrow> gomap_ok t'"
  using mkdirs_ok [of "ancestors p @ [p]" t] assms by (auto simp: MkdirAll_def)

lemma with_dirs_empty [simp]: "with_dirs {} t = map_of t"
  by (simp add: with_dirs_def fun_eq_iff)

lemma MkdirAll_parent:
  assumes "proper_path p" "no_file (set (ancestors p)) t"
  obtains t' where "MkdirAll (workspace_parentPath p) t = Inr t'" "map_of t' = with_dirs (set (ancestors p)) t"
    "gomap_ok t \<longrightarrow> gomap_ok t'"
proof (cases "ancestors p = []")
  case True
  then have "workspace_parentPath p = []" using parent_cases [OF assms(1)] by auto
  then show thesis using that [of t] True by (simp add: MkdirAll_def)
next
  case False
  then have par: "proper_path (workspace_parentPath p)"
    "set (ancestors p) = insert (workspace_parentPath p) (set (ancestors (workspace_parentPath p)))"
    using parent_cases [OF assms(1)] by auto
  show thesis
    using MkdirAll_ok [OF proper_path_not_Nil [OF par(1)], of t] assms(2) that unfolding par(2) by blast
qed

lemma RemoveAll_ok:
  assumes "no_file (set (ancestors p)) t"
  obtains t' where "RemoveAll p t = Inr t'" "map_of t' = (\<lambda>q. if under q p then None else map_of t q)"
    "gomap_ok t \<longrightarrow> gomap_ok t'"
proof -
  have "\<not> blocked t p" using assms by (auto simp: blocked_def no_file_def list_ex_iff)
  then have "RemoveAll p t = Inr (filter (\<lambda>(q, _). \<not> under q p) t)" by (simp add: RemoveAll_def)
  moreover have "map_of (filter (\<lambda>(q, _). \<not> under q p) t) = (\<lambda>q. if under q p then None else map_of t q)"
    by (simp add: fun_eq_iff map_of_filter_key)
  moreover have "gomap_ok t \<longrightarrow> gomap_ok (filter (\<lambda>(q, _). \<not> under q p) t)"
    by (simp add: gomap_ok_def distinct_map_filter)
  ultimately show thesis using that by blast
qed

lemma commit_suffix_facts: "commit_suffix \<noteq> []" "CHR ''/'' \<notin> set commit_suffix"
  by (simp_all add: commit_suffix_def)

lemma commit_path:
  assumes "proper_path p"
  shows "workspace_parentPath (p @ commit_suffix) = workspace_parentPath p" "p @ commit_suffix \<notin> set (ancestors p)"
proof -
  show "p @ commit_suffix \<notin> set (ancestors p)"
    using commit_suffix_facts(1) by (auto simp: ancestors_iff)
  have plain: "workspace_parentPath (p @ commit_suffix) = []" if "CHR ''/'' \<notin> set p"
    using that commit_suffix_facts(2) by (simp add: workspace_parentPath_def Dir_plain ToSlash_def Let_def)
  show "workspace_parentPath (p @ commit_suffix) = workspace_parentPath p"
  proof (cases "CHR ''/'' \<in> set p")
    case True
    then obtain a b where p: "p = a @ CHR ''/'' # b" "CHR ''/'' \<notin> set b" by (metis split_list_last)
    then show ?thesis
      using Dir_split [of "b @ commit_suffix" a] Dir_split [of b a] commit_suffix_facts(2)
      by (simp add: workspace_parentPath_def ToSlash_def)
  next
    case False
    then show ?thesis using plain by (simp add: workspace_parentPath_def Dir_plain ToSlash_def Let_def)
  qed
qed

lemma parent_directory:
  assumes "proper_path p" "map_of t = with_dirs (set (ancestors p)) u" "no_file (set (ancestors p)) u"
  shows "Stat t (workspace_parentPath p) = Inr DirNode"
proof (cases "ancestors p = []")
  case True
  then show ?thesis using parent_cases [OF assms(1)] by (auto simp: Stat_def)
next
  case False
  then have par: "proper_path (workspace_parentPath p)"
    "set (ancestors p) = insert (workspace_parentPath p) (set (ancestors (workspace_parentPath p)))"
    using parent_cases [OF assms(1)] by auto
  have dir: "map_of t a = Some DirNode" if "a \<in> set (ancestors p)" for a
    using that assms(3) by (auto simp: assms(2) with_dirs_def no_file_def is_file_cases)
  then have "\<not> blocked t (workspace_parentPath p)"
    using par(2) by (auto simp: blocked_def list_ex_iff)
  then show ?thesis
    using dir par proper_path_not_Nil [OF par(1)] by (simp add: Stat_def)
qed

lemma replaceFile_ok:
  assumes p: "proper_path p" and parents: "no_file (set (ancestors p)) t"
    and target: "map_of t p \<noteq> Some DirNode" and temp: "map_of t (p @ commit_suffix) \<noteq> Some DirNode"
  obtains t' where "replaceFileFromStaged created (Inr (FileNode data mode mtime)) p md t = (None, t')"
    "map_of t' = (\<lambda>q. if q = p then Some (FileNode data (fm_Mode md) (fm_MTime md))
       else if q = p @ commit_suffix then None else with_dirs (set (ancestors p)) t q)"
    "gomap_ok t \<longrightarrow> gomap_ok t'"
proof -
  obtain t1 where t1: "MkdirAll (workspace_parentPath p) t = Inr t1" "map_of t1 = with_dirs (set (ancestors p)) t"
    "gomap_ok t \<longrightarrow> gomap_ok t1"
    by (rule MkdirAll_parent [OF p parents])
  let ?s = "p @ commit_suffix"
  have "p \<notin> set (ancestors p)" by (auto simp: ancestors_iff)
  then have dirs: "map_of t1 p \<noteq> Some DirNode" "map_of t1 ?s \<noteq> Some DirNode"
    using target temp commit_path(2) [OF p] by (auto simp: t1(2) with_dirs_def)
  have put: "PutFile ?s data (fm_Mode md) (fm_MTime md) t1 =
      Inr (AList.update ?s (FileNode data (fm_Mode md) (fm_MTime md)) t1)"
    using dirs(2) parent_directory [OF p t1(2) parents] commit_path(1) [OF p] by (simp add: PutFile_def)
  let ?t = "AList.update p (FileNode data (fm_Mode md) (fm_MTime md))
    (AList.delete ?s (AList.update ?s (FileNode data (fm_Mode md) (fm_MTime md)) t1))"
  have "replaceFileFromStaged created (Inr (FileNode data mode mtime)) p md t = (None, ?t)"
    using t1(1) put dirs(1) by (simp add: replaceFileFromStaged_def Let_def)
  moreover have "map_of ?t = (\<lambda>q. if q = p then Some (FileNode data (fm_Mode md) (fm_MTime md))
       else if q = ?s then None else with_dirs (set (ancestors p)) t q)"
    by (simp add: fun_eq_iff t1(2))
  ultimately show thesis using that t1(3) by simp
qed

end
