(* ===== verification/Sync_Publish.thy ===== *)
theory Sync_Publish
  imports Sync_Tree
begin

text \<open>
  The steps that publish a sync, phase by phase: the deletions, the directories of the manifest, the
  files of the stage, the directories that are left over.
\<close>

lemma fold_err_append:
  "fold_err f (xs @ ys) s =
     (case fold_err f xs s of (None, s) \<Rightarrow> fold_err f ys s | (Some e, s) \<Rightarrow> (Some e, s))"
  by (induction xs arbitrary: s) (auto split: prod.splits option.splits)

lemma fold_err_done:
  "fold_err f (x # xs) s = (None, s') \<longleftrightarrow> (\<exists>u. f x s = (None, u) \<and> fold_err f xs u = (None, s'))"
  by (auto split: prod.splits option.splits)

text \<open>Where the mount is mirrored and equals the workspace, it stays equal to it.\<close>

lemma fold_on_trees:
  "fold_err id fs w = (None, w') \<Longrightarrow> b \<longrightarrow> t = w \<Longrightarrow>
   fold_err id (map (on_trees b) fs) (w, t) = (None, w', if b then w' else t)"
proof (induction fs arbitrary: w t)
  case (Cons f fs)
  then obtain w1 where f: "f w = (None, w1)" "fold_err id fs w1 = (None, w')"
    using fold_err_done [of id] by (metis id_apply)
  have "on_trees b f (w, t) = (None, w1, if b then w1 else t)"
    using f(1) Cons.prems(2) by (simp add: on_trees_def)
  with Cons.IH [OF f(2), of "if b then w1 else t"] show ?case by simp
qed auto

section \<open>Deletions\<close>

lemma publish_deletes:
  "\<forall>d \<in> set ds. no_file (set (ancestors d)) t \<Longrightarrow>
   \<exists>t'. fold_err id (map remove_path ds) t = (None, t') \<and>
     map_of t' = (\<lambda>q. if \<exists>d \<in> set ds. under q d then None else map_of t q) \<and> (gomap_ok t \<longrightarrow> gomap_ok t')"
proof (induction ds arbitrary: t)
  case (Cons d ds)
  obtain u where u: "RemoveAll d t = Inr u" "map_of u = (\<lambda>q. if under q d then None else map_of t q)"
    "gomap_ok t \<longrightarrow> gomap_ok u"
    using RemoveAll_ok Cons.prems by (metis list.set_intros(1))
  have "\<forall>d \<in> set ds. no_file (set (ancestors d)) u"
    using Cons.prems by (auto simp: no_file_def u(2))
  then obtain t' where t': "fold_err id (map remove_path ds) u = (None, t')"
    "map_of t' = (\<lambda>q. if \<exists>d \<in> set ds. under q d then None else map_of u q)" "gomap_ok u \<longrightarrow> gomap_ok t'"
    using Cons.IH by blast
  have "fold_err id (map remove_path (d # ds)) t = (None, t')"
    using t'(1) u(1) by (simp add: remove_path_def)
  moreover have "map_of t' = (\<lambda>q. if \<exists>d \<in> set (d # ds). under q d then None else map_of t q)"
    by (auto simp: t'(2) u(2) fun_eq_iff)
  ultimately show ?case using t'(3) u(3) by blast
qed simp

section \<open>Directories\<close>

lemma with_dirs_Un: "map_of u = with_dirs A t \<Longrightarrow> with_dirs B u = with_dirs (A \<union> B) t"
  by (auto simp: with_dirs_def fun_eq_iff)

lemma publish_dirs:
  "\<forall>p \<in> set ps. p \<noteq> [] \<and> no_file (insert p (set (ancestors p))) t \<Longrightarrow>
   \<exists>t'. fold_err id (map make_dir ps) t = (None, t') \<and>
     map_of t' = with_dirs (\<Union>p \<in> set ps. insert p (set (ancestors p))) t \<and> (gomap_ok t \<longrightarrow> gomap_ok t')"
proof (induction ps arbitrary: t)
  case (Cons p ps)
  obtain u where u: "MkdirAll p t = Inr u" "map_of u = with_dirs (insert p (set (ancestors p))) t"
    "gomap_ok t \<longrightarrow> gomap_ok u"
    using MkdirAll_ok Cons.prems by (metis list.set_intros(1))
  have "\<forall>p \<in> set ps. p \<noteq> [] \<and> no_file (insert p (set (ancestors p))) u"
    using Cons.prems by (auto simp: no_file_def u(2) with_dirs_def)
  then obtain t' where t': "fold_err id (map make_dir ps) u = (None, t')"
    "map_of t' = with_dirs (\<Union>p \<in> set ps. insert p (set (ancestors p))) u" "gomap_ok u \<longrightarrow> gomap_ok t'"
    using Cons.IH by blast
  have "fold_err id (map make_dir (p # ps)) t = (None, t')"
    using t'(1) u(1) by (simp add: make_dir_def)
  moreover have "map_of t' = with_dirs (\<Union>p \<in> set (p # ps). insert p (set (ancestors p))) t"
    using with_dirs_Un [OF u(2)] t'(2) by simp
  ultimately show ?case using t'(3) u(3) by blast
qed simp

section \<open>Files\<close>

text \<open>A file can be replaced when its parents are directories and nothing is at its two names but a file.\<close>

definition replaceable :: "tree \<Rightarrow> string \<Rightarrow> bool" where
  "replaceable t p \<longleftrightarrow> proper_path p \<and> (\<forall>a \<in> set (ancestors p). map_of t a = Some DirNode) \<and>
     map_of t p \<noteq> Some DirNode \<and> map_of t (p @ commit_suffix) = None"

abbreviation replace_entry :: "(32 word \<Rightarrow> node) \<Rightarrow> tree \<Rightarrow> ManifestEntry \<Rightarrow> tree \<Rightarrow> err option \<times> tree" where
  "replace_entry created stage e \<equiv>
     replaceFileFromStaged created (Stat stage (me_Path e)) (me_Path e) (normalizeMetadata (me_Metadata e))"

definition published_node :: "tree \<Rightarrow> ManifestEntry \<Rightarrow> node option" where
  "published_node stage e =
     (case Stat stage (me_Path e) of
        Inr (FileNode data _ _) \<Rightarrow>
          Some (FileNode data (fm_Mode (me_Metadata e)) (round_second (fm_MTime (me_Metadata e))))
      | _ \<Rightarrow> None)"

lemma replace_entry_ok:
  assumes "replaceable t (me_Path e)" "published_node stage e = Some n"
  obtains t' where "replace_entry created stage e t = (None, t')"
    "map_of t' = (map_of t)(me_Path e \<mapsto> n)" "gomap_ok t \<longrightarrow> gomap_ok t'"
proof -
  obtain data mode mtime where s: "Stat stage (me_Path e) = Inr (FileNode data mode mtime)"
    and n: "n = FileNode data (fm_Mode (me_Metadata e)) (round_second (fm_MTime (me_Metadata e)))"
    using assms(2) by (auto simp: published_node_def split: sum.splits node.splits)
  have t: "proper_path (me_Path e)" "no_file (set (ancestors (me_Path e))) t"
    "map_of t (me_Path e) \<noteq> Some DirNode" "map_of t (me_Path e @ commit_suffix) \<noteq> Some DirNode"
    and same: "with_dirs (set (ancestors (me_Path e))) t = map_of t"
    and temp: "map_of t (me_Path e @ commit_suffix) = None"
    using assms(1) by (auto simp: replaceable_def no_file_def with_dirs_def fun_eq_iff)
  obtain t' where "replaceFileFromStaged created (Inr (FileNode data mode mtime)) (me_Path e)
      (normalizeMetadata (me_Metadata e)) t = (None, t')"
    and t': "map_of t' = (\<lambda>q. if q = me_Path e then Some (FileNode data
        (fm_Mode (normalizeMetadata (me_Metadata e))) (fm_MTime (normalizeMetadata (me_Metadata e))))
       else if q = me_Path e @ commit_suffix then None else with_dirs (set (ancestors (me_Path e))) t q)"
    and "gomap_ok t \<longrightarrow> gomap_ok t'"
    by (rule replaceFile_ok [OF t])
  moreover have "map_of t' = (map_of t)(me_Path e \<mapsto> n)"
    unfolding t' same using temp by (auto simp: fun_eq_iff n normalizeMetadata_def)
  ultimately show thesis using that s by simp
qed

lemma replaceable_other:
  assumes "replaceable t p" "map_of t' = (map_of t)(q \<mapsto> n)" "q \<noteq> p @ commit_suffix"
    "p \<noteq> q" "q \<notin> set (ancestors p)"
  shows "replaceable t' p"
  using assms by (auto simp: replaceable_def)

lemma publish_files:
  assumes "distinct (map me_Path es)"
    and "\<forall>e \<in> set es. replaceable t (me_Path e) \<and> published_node stage e \<noteq> None"
    and "\<forall>e \<in> set es. \<forall>e' \<in> set es. me_Path e' \<noteq> me_Path e @ commit_suffix \<and> me_Path e' \<notin> set (ancestors (me_Path e))"
  shows "\<exists>t'. fold_err id (map (replace_entry created stage) es) t = (None, t') \<and>
     map_of t' = (\<lambda>q. case find (\<lambda>e. me_Path e = q) es of None \<Rightarrow> map_of t q | Some e \<Rightarrow> published_node stage e) \<and>
     (gomap_ok t \<longrightarrow> gomap_ok t')"
  using assms
proof (induction es arbitrary: t)
  case (Cons e es)
  then obtain n where n: "published_node stage e = Some n" by auto
  obtain u where u: "replace_entry created stage e t = (None, u)" "map_of u = (map_of t)(me_Path e \<mapsto> n)"
    "gomap_ok t \<longrightarrow> gomap_ok u"
    using replace_entry_ok [OF _ n] Cons.prems(2) by (metis list.set_intros(1))
  have ok: "\<forall>e' \<in> set es. replaceable u (me_Path e') \<and> published_node stage e' \<noteq> None"
    using Cons.prems by (auto intro!: replaceable_other [OF _ u(2)] simp: image_iff)
  have distinct_tl: "distinct (map me_Path es)"
    and rest: "\<forall>e \<in> set es. \<forall>e' \<in> set es. me_Path e' \<noteq> me_Path e @ commit_suffix \<and>
      me_Path e' \<notin> set (ancestors (me_Path e))"
    using Cons.prems(1,3) by auto
  obtain t' where t': "fold_err id (map (replace_entry created stage) es) u = (None, t')"
    "map_of t' = (\<lambda>q. case find (\<lambda>e. me_Path e = q) es of None \<Rightarrow> map_of u q | Some e \<Rightarrow> published_node stage e)"
    "gomap_ok u \<longrightarrow> gomap_ok t'"
    using Cons.IH [OF distinct_tl ok rest] by blast
  have "find (\<lambda>e'. me_Path e' = me_Path e) es = None"
    using Cons.prems(1) by (auto simp: find_None_iff image_iff)
  then have "map_of t' = (\<lambda>q. case find (\<lambda>e. me_Path e = q) (e # es) of
      None \<Rightarrow> map_of t q | Some e \<Rightarrow> published_node stage e)"
    by (auto simp: t'(2) u(2) n fun_eq_iff split: option.splits)
  moreover have "fold_err id (map (replace_entry created stage) (e # es)) t = (None, t')"
    using t'(1) u(1) by simp
  ultimately show ?case using t'(3) u(3) by blast
qed simp

section \<open>Left-over directories\<close>

lemma no_left_over:
  assumes "gomap_ok t" "\<And>p. map_of t p = Some DirNode \<Longrightarrow> p \<in> set expected"
  shows "removeUnexpectedDirectories expected t = (None, t)"
proof -
  have "filter (\<lambda>(path, n). n = DirNode \<and> path \<notin> set expected) t = []"
    using assms by (auto simp: filter_empty_conv gomap_ok_mem_iff)
  then show ?thesis by (simp add: removeUnexpectedDirectories_def deepest_first_def)
qed

section \<open>A whole publication\<close>

definition manifest_ok :: "(string, ManifestEntry) gomap \<Rightarrow> bool" where
  "manifest_ok M \<longleftrightarrow> gomap_ok M \<and> (\<forall>p e. map_of M p = Some e \<longrightarrow>
     me_Path e = p \<and> ValidateRelativePath p = None \<and> TrimSpace p = p \<and> cloneManifestEntry e = e \<and>
     (\<forall>a \<in> set (ancestors p). \<exists>d. map_of M a = Some d \<and> me_IsDir d))"

definition dirs_of :: "(string, ManifestEntry) gomap \<Rightarrow> string set" where
  "dirs_of M = {p. \<exists>e. map_of M p = Some e \<and> me_IsDir e}"

lemma manifest_ok_path: "manifest_ok M \<Longrightarrow> map_of M p = Some e \<Longrightarrow> me_Path e = p \<and> proper_path p"
  using ValidateRelativePath_elements unfolding manifest_ok_def proper_path_def by blast

lemma manifest_ok_ancestors: "manifest_ok M \<Longrightarrow> map_of M p = Some e \<Longrightarrow> set (ancestors p) \<subseteq> dirs_of M"
  unfolding manifest_ok_def dirs_of_def by blast

lemma sorted_entries:
  assumes "gomap_ok C" "\<And>p e. map_of C p = Some e \<Longrightarrow> me_Path e = p"
  shows "e \<in> set (sortedManifestEntries C) \<longleftrightarrow> map_of C (me_Path e) = Some e"
    "distinct (map me_Path (sortedManifestEntries C))"
    "find (\<lambda>e. me_Path e = p) (sortedManifestEntries C) = map_of C p"
proof -
  have mem: "(p, e) \<in> set C \<longleftrightarrow> map_of C p = Some e" for p e using assms(1) by (rule gomap_ok_mem_iff)
  have set: "e \<in> set (sortedManifestEntries C) \<longleftrightarrow> map_of C (me_Path e) = Some e" for e
  proof -
    have "e \<in> set (sortedManifestEntries C) \<longleftrightarrow> (\<exists>p. (p, e) \<in> set C)"
      by (force simp: sortedManifestEntries_def)
    then show ?thesis using mem assms(2) by metis
  qed
  then show "e \<in> set (sortedManifestEntries C) \<longleftrightarrow> map_of C (me_Path e) = Some e" .
  have "map (me_Path \<circ> snd) C = map fst C"
    using mem assms(2) by (auto intro!: map_cong)
  then have "distinct (map me_Path (map snd C))" using assms(1) unfolding gomap_ok_def map_map by metis
  then have "distinct (map me_Path (sort_key me_Path (map snd C)))"
    by (metis distinct_map distinct_sort set_sort)
  then show d: "distinct (map me_Path (sortedManifestEntries C))" by (simp add: sortedManifestEntries_def)
  show "find (\<lambda>e. me_Path e = p) (sortedManifestEntries C) = map_of C p"
  proof (cases "find (\<lambda>e. me_Path e = p) (sortedManifestEntries C)")
    case None
    then have "\<forall>e \<in> set (sortedManifestEntries C). me_Path e \<noteq> p" by (simp add: find_None_iff)
    then show ?thesis using None set assms(2) by (metis not_Some_eq)
  next
    case (Some e)
    then have "e \<in> set (sortedManifestEntries C)" "me_Path e = p" by (auto simp: find_Some_iff)
    then show ?thesis using Some set by metis
  qed
qed

lemma sorted_dirs:
  assumes "gomap_ok M" "\<And>p e. map_of M p = Some e \<Longrightarrow> me_Path e = p"
  shows "set (map me_Path (filter me_IsDir (sortedManifestEntries M))) = dirs_of M"
proof (rule set_eqI)
  fix p
  have "p \<in> set (map me_Path (filter me_IsDir (sortedManifestEntries M))) \<longleftrightarrow>
    (\<exists>e. map_of M (me_Path e) = Some e \<and> me_IsDir e \<and> p = me_Path e)"
    using sorted_entries(1) [OF assms] by auto
  also have "\<dots> \<longleftrightarrow> p \<in> dirs_of M" unfolding dirs_of_def using assms(2) by blast
  finally show "p \<in> set (map me_Path (filter me_IsDir (sortedManifestEntries M))) \<longleftrightarrow> p \<in> dirs_of M" .
qed

text \<open>What a publication needs: every path that goes is under a deleted one, kinds stay, new files are staged.\<close>

definition publishable ::
  "tree \<Rightarrow> tree \<Rightarrow> (string, ManifestEntry) gomap \<Rightarrow> (string, ManifestEntry) gomap \<Rightarrow> string set \<Rightarrow> bool" where
  "publishable stage w M C D \<longleftrightarrow>
     (\<forall>d \<in> D. map_of w d \<noteq> None \<and> map_of M d = None) \<and>
     (\<forall>p. map_of w p \<noteq> None \<and> map_of M p = None \<longrightarrow> (\<exists>d \<in> D. under p d)) \<and>
     (\<forall>p n e. map_of w p = Some n \<and> map_of M p = Some e \<longrightarrow> (n = DirNode) = me_IsDir e) \<and>
     (\<forall>p e. map_of C p = Some e \<longrightarrow> map_of M p = Some e \<and> \<not> me_IsDir e \<and> published_node stage e \<noteq> None \<and>
        map_of M (p @ commit_suffix) = None) \<and>
     (\<forall>p e. map_of M p = Some e \<and> \<not> me_IsDir e \<and> map_of w p = None \<longrightarrow> map_of C p \<noteq> None)"

definition published ::
  "tree \<Rightarrow> tree \<Rightarrow> (string, ManifestEntry) gomap \<Rightarrow> (string, ManifestEntry) gomap \<Rightarrow> string \<Rightarrow> node option" where
  "published stage w M C p =
     (case map_of M p of
        None \<Rightarrow> None
      | Some e \<Rightarrow> if me_IsDir e then Some DirNode
                  else (case map_of C p of Some e \<Rightarrow> published_node stage e | None \<Rightarrow> map_of w p))"

lemma publishableD:
  assumes "publishable stage w M C D"
  shows "d \<in> D \<Longrightarrow> map_of w d \<noteq> None" "d \<in> D \<Longrightarrow> map_of M d = None"
    "map_of w p \<noteq> None \<Longrightarrow> map_of M p = None \<Longrightarrow> \<exists>d \<in> D. under p d"
    "map_of w p = Some n \<Longrightarrow> map_of M p = Some e \<Longrightarrow> (n = DirNode) = me_IsDir e"
    "map_of C p = Some e \<Longrightarrow> map_of M p = Some e \<and> \<not> me_IsDir e \<and> published_node stage e \<noteq> None \<and>
       map_of M (p @ commit_suffix) = None"
  using assms unfolding publishable_def by (elim conjE, metis)+

lemma manifest_ok_ancestor:
  "manifest_ok M \<Longrightarrow> map_of M p = Some e \<Longrightarrow> a \<in> set (ancestors p) \<Longrightarrow> a \<in> dirs_of M"
  using manifest_ok_ancestors by blast

lemma outside_deleted:
  assumes M: "manifest_ok M" and pub: "publishable stage w M C D" and "map_of M p = Some e" "d \<in> D"
  shows "\<not> under p d"
proof
  assume "under p d"
  then have "d = p \<or> d \<in> dirs_of M" using manifest_ok_ancestor [OF M assms(3)] by (auto simp: under_iff)
  then have "map_of M d \<noteq> None" using assms(3) by (auto simp: dirs_of_def)
  with publishableD(2) [OF pub assms(4)] show False by simp
qed

lemma phase_deletes:
  assumes w: "tree_ok w" and M: "manifest_ok M" and D: "set ds = D" and pub: "publishable stage w M C D"
  shows "\<exists>w1. fold_err id (map remove_path ds) w = (None, w1) \<and> gomap_ok w1 \<and>
    (\<forall>p. map_of w1 p = (if map_of M p = None then None else map_of w p))"
proof -
  have "\<forall>d \<in> set ds. no_file (set (ancestors d)) w"
  proof
    fix d assume "d \<in> set ds"
    then obtain n where "map_of w d = Some n" using publishableD(1) [OF pub] D by blast
    then show "no_file (set (ancestors d)) w" using w by (auto simp: tree_ok_def no_file_def)
  qed
  then obtain w1 where w1: "fold_err id (map remove_path ds) w = (None, w1)" "gomap_ok w1"
    and w1': "map_of w1 = (\<lambda>q. if \<exists>d \<in> set ds. under q d then None else map_of w q)"
    using publish_deletes w unfolding tree_ok_def by meson
  have "map_of w1 p = (if map_of M p = None then None else map_of w p)" for p
  proof (cases "map_of M p")
    case None
    then show ?thesis using publishableD(3) [OF pub, of p] D w1' by (cases "map_of w p") auto
  next
    case (Some e)
    then show ?thesis using outside_deleted [OF M pub Some] D w1' by auto
  qed
  with w1 show ?thesis by blast
qed

lemma phase_dirs:
  assumes M: "manifest_ok M" and pub: "publishable stage w M C D" and w1: "gomap_ok w1"
    and in1: "\<And>p. map_of w1 p = (if map_of M p = None then None else map_of w p)"
  shows "\<exists>w2. fold_err id (map (\<lambda>e. make_dir (me_Path e)) (filter me_IsDir (sortedManifestEntries M))) w1 = (None, w2) \<and>
    gomap_ok w2 \<and> (\<forall>p. map_of w2 p = (case map_of M p of None \<Rightarrow> None
      | Some e \<Rightarrow> if me_IsDir e then Some DirNode else map_of w p))"
proof -
  let ?ps = "map me_Path (filter me_IsDir (sortedManifestEntries M))"
  note kind = publishableD(4) [OF pub]
  have gM: "gomap_ok M" using M by (simp add: manifest_ok_def)
  have Mp: "me_Path e = p" if "map_of M p = Some e" for p e using manifest_ok_path [OF M that] by blast
  have ps: "set ?ps = dirs_of M"
    by (rule sorted_dirs [OF gM Mp])
  have nofile: "no_file (dirs_of M) w1"
    unfolding no_file_def
  proof
    fix a assume "a \<in> dirs_of M"
    then obtain e where e: "map_of M a = Some e" "me_IsDir e" by (auto simp: dirs_of_def)
    then show "\<not> is_file (map_of w1 a)" using kind [of a _ e] by (cases "map_of w a") (simp_all add: in1 is_file_cases)
  qed
  have anc: "insert p (set (ancestors p)) \<subseteq> dirs_of M" if "p \<in> dirs_of M" for p
    using that manifest_ok_ancestor [OF M] unfolding dirs_of_def by blast
  have "\<forall>p \<in> set ?ps. p \<noteq> [] \<and> no_file (insert p (set (ancestors p))) w1"
  proof
    fix p assume "p \<in> set ?ps"
    then have p: "p \<in> dirs_of M" using ps by blast
    then have "p \<noteq> []" using manifest_ok_path [OF M] proper_path_not_Nil unfolding dirs_of_def by blast
    then show "p \<noteq> [] \<and> no_file (insert p (set (ancestors p))) w1"
      using nofile anc [OF p] unfolding no_file_def by blast
  qed
  from publish_dirs [OF this] w1 obtain w2 where w2: "fold_err id (map make_dir ?ps) w1 = (None, w2)" "gomap_ok w2"
    and w2': "map_of w2 = with_dirs (\<Union>p \<in> set ?ps. insert p (set (ancestors p))) w1" by blast
  have "(\<Union>p \<in> set ?ps. insert p (set (ancestors p))) = dirs_of M"
    unfolding ps using anc by blast
  with w2' have w2': "map_of w2 = with_dirs (dirs_of M) w1" by simp
  have "map_of w2 p = (case map_of M p of None \<Rightarrow> None
      | Some e \<Rightarrow> if me_IsDir e then Some DirNode else map_of w p)" for p
  proof (cases "map_of M p")
    case None
    then show ?thesis by (simp add: w2' with_dirs_def in1 dirs_of_def)
  next
    case (Some e)
    then show ?thesis
      using kind [of p _ e] by (cases "map_of w p") (simp_all add: w2' with_dirs_def in1 dirs_of_def)
  qed
  moreover have "map (\<lambda>e. make_dir (me_Path e)) (filter me_IsDir (sortedManifestEntries M)) = map make_dir ?ps" by simp
  ultimately show ?thesis using w2 by metis
qed

lemma phase_files:
  assumes M: "manifest_ok M" and C: "gomap_ok C" and pub: "publishable stage w M C D" and w2: "gomap_ok w2"
    and in2: "\<And>p. map_of w2 p = (case map_of M p of None \<Rightarrow> None
      | Some e \<Rightarrow> if me_IsDir e then Some DirNode else map_of w p)"
  shows "\<exists>w3. fold_err id (map (replace_entry created stage) (sortedManifestEntries C)) w2 = (None, w3) \<and>
    gomap_ok w3 \<and> map_of w3 = published stage w M C"
proof -
  have CM: "map_of M p = Some e \<and> \<not> me_IsDir e" if "map_of C p = Some e" for p e
    using publishableD(5) [OF pub that] by blast
  have Cpath: "me_Path e = p" if "map_of C p = Some e" for p e
    using manifest_ok_path [OF M] CM [OF that] by blast
  note sC = sorted_entries [OF C Cpath]
  have *: "\<forall>e \<in> set (sortedManifestEntries C). replaceable w2 (me_Path e) \<and> published_node stage e \<noteq> None"
  proof
    fix e assume "e \<in> set (sortedManifestEntries C)"
    then have e: "map_of C (me_Path e) = Some e" using sC(1) by blast
    note f = publishableD(5) [OF pub e]
    have "map_of w2 a = Some DirNode" if "a \<in> set (ancestors (me_Path e))" for a
      using manifest_ok_ancestor [OF M _ that] f by (auto simp: in2 dirs_of_def)
    then show "replaceable w2 (me_Path e) \<and> published_node stage e \<noteq> None"
      using f publishableD(4) [OF pub, of "me_Path e"] manifest_ok_path [OF M, of "me_Path e" e]
      by (auto simp: replaceable_def in2)
  qed
  have **: "\<forall>e \<in> set (sortedManifestEntries C). \<forall>e' \<in> set (sortedManifestEntries C).
      me_Path e' \<noteq> me_Path e @ commit_suffix \<and> me_Path e' \<notin> set (ancestors (me_Path e))"
  proof (intro ballI)
    fix e e' assume e: "e \<in> set (sortedManifestEntries C)" "e' \<in> set (sortedManifestEntries C)"
    have C: "map_of C (me_Path e) = Some e" "map_of C (me_Path e') = Some e'" using e sC(1) by blast+
    have "map_of M (me_Path e @ commit_suffix) = None" using publishableD(5) [OF pub C(1)] by blast
    moreover have "me_Path e' \<notin> dirs_of M" using CM [OF C(2)] by (simp add: dirs_of_def)
    ultimately show "me_Path e' \<noteq> me_Path e @ commit_suffix \<and> me_Path e' \<notin> set (ancestors (me_Path e))"
      using CM [OF C(1)] CM [OF C(2)] manifest_ok_ancestor [OF M] by (metis option.discI)
  qed
  obtain w3 where w3: "fold_err id (map (replace_entry created stage) (sortedManifestEntries C)) w2 = (None, w3)"
      "gomap_ok w3"
    and w3': "map_of w3 = (\<lambda>q. case find (\<lambda>e. me_Path e = q) (sortedManifestEntries C) of
        None \<Rightarrow> map_of w2 q | Some e \<Rightarrow> published_node stage e)"
    using publish_files [OF sC(2) * **] w2 by meson
  have "map_of w3 q = published stage w M C q" for q
    using CM [of q] by (cases "map_of C q") (auto simp: w3' sC(3) in2 published_def split: option.splits)
  with w3 show ?thesis by (auto simp: fun_eq_iff)
qed

lemma expected_published:
  assumes pub: "publishable stage w M C D" and "published stage w M C p = Some DirNode"
  shows "p \<in> set (expectedDirs M)"
proof -
  obtain e where e: "map_of M p = Some e" using assms(2) by (cases "map_of M p") (auto simp: published_def)
  have "me_IsDir e"
  proof (rule ccontr)
    assume "\<not> me_IsDir e"
    with assms(2) e publishableD(4) [OF pub _ e, of DirNode] show False
      by (cases "map_of C p") (auto simp: published_def published_node_def split: sum.splits node.splits)
  qed
  then show ?thesis using e by (force simp: expectedDirs_def dest: map_of_SomeD)
qed

lemma publish_phases:
  assumes w: "tree_ok w" and M: "manifest_ok M" and C: "gomap_ok C" and D: "set ds = D"
    and pub: "publishable stage w M C D"
  shows "\<exists>w'. fold_err id (map remove_path ds @
        map (\<lambda>e. make_dir (me_Path e)) (filter me_IsDir (sortedManifestEntries M)) @
        map (replace_entry created stage) (sortedManifestEntries C) @
        [removeUnexpectedDirectories (expectedDirs M)]) w = (None, w') \<and>
      map_of w' = published stage w M C \<and> gomap_ok w'"
proof -
  obtain w1 where w1: "fold_err id (map remove_path ds) w = (None, w1)" "gomap_ok w1"
    "\<And>p. map_of w1 p = (if map_of M p = None then None else map_of w p)"
    using phase_deletes [OF w M D pub] by blast
  obtain w2 where w2: "fold_err id (map (\<lambda>e. make_dir (me_Path e)) (filter me_IsDir (sortedManifestEntries M))) w1 = (None, w2)"
    "gomap_ok w2" "\<And>p. map_of w2 p = (case map_of M p of None \<Rightarrow> None
      | Some e \<Rightarrow> if me_IsDir e then Some DirNode else map_of w p)"
    using phase_dirs [OF M pub w1(2,3)] by blast
  obtain w3 where w3: "fold_err id (map (replace_entry created stage) (sortedManifestEntries C)) w2 = (None, w3)"
    "gomap_ok w3" "map_of w3 = published stage w M C"
    using phase_files [OF M C pub w2(2,3)] by blast
  have "removeUnexpectedDirectories (expectedDirs M) w3 = (None, w3)"
    using no_left_over [OF w3(2)] expected_published [OF pub] w3(3) by metis
  then have "fold_err id [removeUnexpectedDirectories (expectedDirs M)] w3 = (None, w3)" by simp
  then show ?thesis
    unfolding fold_err_append using w1(1) w2(1) w3 by simp
qed

end
