(* ===== verification/Sync_Transfer.thy ===== *)
theory Sync_Transfer
  imports Sync_Publish "HOL-Library.Multiset"
begin

text \<open>
  The transfer of a sync attempt: what sending deletions, bundles and single files does to the active
  session and to the stage.
\<close>

section \<open>The active session\<close>

definition in_session :: "u64 \<Rightarrow> SyncManager \<Rightarrow> syncSession \<Rightarrow> bool" where
  "in_session epoch m s \<longleftrightarrow> epoch \<noteq> 0 \<and> wy_activeEpoch (ws_sync (sm_state m)) = epoch \<and>
     map_of (wy_sessions (ws_sync (sm_state m))) epoch = Some s"

lemma in_session_active: "in_session epoch m s \<Longrightarrow> activeSyncLocked (sm_state m) = Inr s"
  by (auto simp: in_session_def activeSyncLocked_def Let_def)

lemma in_session_put: "in_session epoch m s \<Longrightarrow> in_session epoch (put_session s' m) s'"
  by (simp add: in_session_def put_session_def Let_def)

lemma in_session_trees [simp]:
  "in_session epoch (m\<lparr>sm_stage := t\<rparr>) s \<longleftrightarrow> in_session epoch m s"
  by (simp add: in_session_def)

lemma put_session_same: "in_session epoch m s \<Longrightarrow> put_session s m = m"
  by (simp add: in_session_def put_session_def Let_def update_triv)

lemma put_session_put [simp]: "put_session s' (put_session s m) = put_session s' m"
  by (simp add: put_session_def Let_def)

lemma put_session_fields [simp]:
  "sm_workspace (put_session s m) = sm_workspace m" "sm_mount (put_session s m) = sm_mount m"
  "sm_stage (put_session s m) = sm_stage m"
  "ws_committed (sm_state (put_session s m)) = ws_committed (sm_state m)"
  by (simp_all add: put_session_def Let_def)

lemma put_session_stage: "(put_session s m)\<lparr>sm_stage := t\<rparr> = put_session s (m\<lparr>sm_stage := t\<rparr>)"
  by (simp add: put_session_def Let_def)

section \<open>Compression\<close>

definition compression_ok :: "sync_env \<Rightarrow> (string \<Rightarrow> string) \<Rightarrow> string \<Rightarrow> bool" where
  "compression_ok env gzip compression \<longleftrightarrow>
     compression = [] \<or> compression = ''gzip'' \<and> (\<forall>data. sy_gunzip env (gzip data) = Inr data)"

lemma decompress_compress:
  "compression_ok env gzip compression \<Longrightarrow> compressData gzip data compression = (d, c) \<Longrightarrow>
   decompressData env d c = Inr data"
  by (auto simp: compression_ok_def compressData_def decompressData_def Let_def split: if_splits)

lemma concat_chunks_of: "0 < n \<Longrightarrow> concat (chunks_of n data) = data"
  by (induction n data rule: chunks_of.induct) (subst chunks_of.simps, auto)

section \<open>Deletions\<close>

lemma isNested_under:
  "\<forall>d \<in> set ds. d \<noteq> [] \<Longrightarrow> isNestedUnderDeletedPath p ds \<longleftrightarrow> (\<exists>d \<in> set ds. under p d)"
  unfolding isNestedUnderDeletedPath_def under_def list_ex_iff
  by (metis prefix_order.trans prefix_order.refl prefixI append_prefixD)

lemma collapse_loop_covers:
  "\<forall>d \<in> set collapsed \<union> set ps. d \<noteq> [] \<Longrightarrow>
   set (collapse_loop collapsed ps) \<subseteq> set collapsed \<union> set ps \<and>
   set collapsed \<subseteq> set (collapse_loop collapsed ps) \<and>
   (\<forall>p \<in> set ps. \<exists>d \<in> set (collapse_loop collapsed ps). under p d)"
proof (induction ps arbitrary: collapsed)
  case (Cons p ps)
  show ?case
  proof (cases "isNestedUnderDeletedPath p collapsed")
    case True
    then obtain d where d: "d \<in> set collapsed" "under p d" using isNested_under Cons.prems by auto
    have "\<forall>d \<in> set collapsed \<union> set ps. d \<noteq> []" using Cons.prems by simp
    from Cons.IH [OF this] d True show ?thesis by auto
  next
    case False
    have "\<forall>d \<in> set (collapsed @ [p]) \<union> set ps. d \<noteq> []" using Cons.prems by simp
    from Cons.IH [OF this] False show ?thesis by (auto simp: under_def)
  qed
qed simp

lemma collapse_covers:
  assumes "\<forall>d \<in> set ps. d \<noteq> []"
  shows "set (collapseDeletePaths ps) \<subseteq> set ps" "p \<in> set ps \<Longrightarrow> \<exists>d \<in> set (collapseDeletePaths ps). under p d"
  using collapse_loop_covers [of "[]" "sort_key (\<lambda>p. (length p, p)) ps"] assms
  by (simp_all add: collapseDeletePaths_def)

lemma no_precondition: "checkPreconditionsLocked path zero_precondition c = None"
  by (simp add: checkPreconditionsLocked_def zero_precondition_def Let_def)

lemma DeletePath_empty_stage:
  assumes "in_session epoch m s" "ValidateRelativePath path = None" "sm_stage m = []" "ss_changedFiles s = []"
  shows "Manager_DeletePath epoch path zero_precondition m =
    (None, put_session (s\<lparr>ss_deleted := AList.update path () (ss_deleted s)\<rparr>) m)"
proof -
  have "RemoveAll path [] = Inr []" by (simp add: RemoveAll_def blocked_def list_ex_iff)
  moreover have "note_deleted path s = s\<lparr>ss_deleted := AList.update path () (ss_deleted s)\<rparr>"
    using assms(4) by (simp add: note_deleted_def)
  moreover have "put_session s' (m\<lparr>sm_stage := []\<rparr>) = put_session s' m" for s'
    using assms(3) by (cases m) (simp add: put_session_def Let_def)
  ultimately show ?thesis
    using assms
    by (simp add: Manager_DeletePath_def validateWorkspacePath_def no_precondition in_session_def Let_def
        put_session_stage)
qed

lemma DeletePaths_empty_stage:
  "in_session epoch m s \<Longrightarrow> \<forall>p \<in> set paths. ValidateRelativePath p = None \<Longrightarrow> sm_stage m = [] \<Longrightarrow>
   ss_changedFiles s = [] \<Longrightarrow>
   \<exists>del. fold_err (\<lambda>path. Manager_DeletePath epoch path zero_precondition) paths m =
      (None, put_session (s\<lparr>ss_deleted := del\<rparr>) m) \<and> fst ` set del = fst ` set (ss_deleted s) \<union> set paths"
proof (induction paths arbitrary: m s)
  case Nil
  then have "put_session (s\<lparr>ss_deleted := ss_deleted s\<rparr>) m = m" by (simp add: put_session_same)
  then show ?case by (intro exI [of _ "ss_deleted s"]) simp
next
  case (Cons p paths)
  let ?s = "s\<lparr>ss_deleted := AList.update p () (ss_deleted s)\<rparr>"
  have step: "Manager_DeletePath epoch p zero_precondition m = (None, put_session ?s m)"
    using DeletePath_empty_stage Cons.prems by simp
  have "in_session epoch (put_session ?s m) ?s" using in_session_put [OF Cons.prems(1)] .
  from Cons.IH [OF this] obtain del
    where "fold_err (\<lambda>path. Manager_DeletePath epoch path zero_precondition) paths (put_session ?s m) =
      (None, put_session (?s\<lparr>ss_deleted := del\<rparr>) (put_session ?s m))"
    "fst ` set del = fst ` set (ss_deleted ?s) \<union> set paths"
    using Cons.prems by auto
  then show ?case using step by (auto simp: dom_update)
qed

section \<open>The stage\<close>

text \<open>
  A client's tree: its manifest \<open>M\<close> and the content of each file. The files of \<open>U\<close> are in the stage,
  and nothing else but directories of the manifest.
\<close>

definition files_in :: "(string, ManifestEntry) gomap \<Rightarrow> string set" where
  "files_in M = {p. \<exists>e. map_of M p = Some e \<and> \<not> me_IsDir e}"

definition staged ::
  "(string, ManifestEntry) gomap \<Rightarrow> (string \<Rightarrow> string) \<Rightarrow> string set \<Rightarrow> tree \<Rightarrow> bool" where
  "staged M content U t \<longleftrightarrow> gomap_ok t \<and>
     (\<forall>q \<in> U. \<exists>mode mtime. map_of t q = Some (FileNode (content q) mode mtime)) \<and>
     (\<forall>q. q \<notin> U \<longrightarrow> map_of t q \<noteq> None \<longrightarrow> map_of t q = Some DirNode \<and> q \<in> dirs_of M)"

lemma files_dirs_disjoint: "p \<in> files_in M \<Longrightarrow> p \<notin> dirs_of M"
  by (auto simp: files_in_def dirs_of_def)

lemma files_in_ancestors: "manifest_ok M \<Longrightarrow> p \<in> files_in M \<Longrightarrow> set (ancestors p) \<subseteq> dirs_of M"
  unfolding files_in_def using manifest_ok_ancestors by blast

lemma files_in_proper: "manifest_ok M \<Longrightarrow> p \<in> files_in M \<Longrightarrow> proper_path p"
  unfolding files_in_def using manifest_ok_path by blast

lemma staged_dir: "staged M content U t \<Longrightarrow> U \<subseteq> files_in M \<Longrightarrow> a \<in> dirs_of M \<Longrightarrow> \<not> is_file (map_of t a)"
proof -
  assume a: "staged M content U t" "U \<subseteq> files_in M" "a \<in> dirs_of M"
  then have "a \<notin> U" using files_dirs_disjoint by blast
  then show ?thesis using a(1) unfolding staged_def is_file_cases by blast
qed

lemma stagedD:
  assumes "staged M content U t"
  shows "q \<in> U \<Longrightarrow> \<exists>mode mtime. map_of t q = Some (FileNode (content q) mode mtime)"
    "q \<notin> U \<Longrightarrow> map_of t q = None \<or> map_of t q = Some DirNode \<and> q \<in> dirs_of M"
    "map_of t q = Some DirNode \<Longrightarrow> q \<in> dirs_of M"
proof -
  show 1: "q \<in> U \<Longrightarrow> \<exists>mode mtime. map_of t q = Some (FileNode (content q) mode mtime)"
    using assms unfolding staged_def by blast
  show 2: "q \<notin> U \<Longrightarrow> map_of t q = None \<or> map_of t q = Some DirNode \<and> q \<in> dirs_of M"
    using assms unfolding staged_def by blast
  show "map_of t q = Some DirNode \<Longrightarrow> q \<in> dirs_of M"
    using 1 2 by (cases "q \<in> U") auto
qed

lemma stage_file_ok:
  assumes M: "manifest_ok M" and p: "p \<in> files_in M" and U: "U \<subseteq> files_in M" and t: "staged M content U t"
  obtains t' where "stage_file p (content p) md t = (None, t')" "staged M content (insert p U) t'"
proof -
  have anc: "set (ancestors p) \<subseteq> dirs_of M" by (rule files_in_ancestors [OF M p])
  have proper: "proper_path p" by (rule files_in_proper [OF M p])
  have nofile: "no_file (set (ancestors p)) t"
    unfolding no_file_def using staged_dir [OF t U] anc by blast
  obtain t1 where t1: "MkdirAll (workspace_parentPath p) t = Inr t1" "map_of t1 = with_dirs (set (ancestors p)) t"
    "gomap_ok t \<longrightarrow> gomap_ok t1"
    by (rule MkdirAll_parent [OF proper nofile])
  have "p \<notin> dirs_of M" by (rule files_dirs_disjoint [OF p])
  then have "map_of t p \<noteq> Some DirNode" "p \<notin> set (ancestors p)"
    using stagedD [OF t, of p] anc by auto
  then have target: "map_of t1 p \<noteq> Some DirNode" by (simp add: t1(2) with_dirs_def)
  let ?t = "AList.update p (FileNode (content p) (fm_Mode md) (fm_MTime md)) t1"
  have "stage_file p (content p) md t = (None, ?t)"
    using parent_directory [OF proper t1(2) nofile] target by (simp add: stage_file_def t1(1) PutFile_def)
  moreover have "staged M content (insert p U) ?t"
    unfolding staged_def
  proof (intro conjI ballI allI impI)
    show "gomap_ok ?t" using t t1(3) by (simp add: staged_def)
  next
    fix q assume "q \<in> insert p U"
    then show "\<exists>mode mtime. map_of ?t q = Some (FileNode (content q) mode mtime)"
      using stagedD(1) [OF t, of q] by (cases "q = p") (auto simp: t1(2) with_dirs_def)
  next
    fix q assume q: "q \<notin> insert p U" "map_of ?t q \<noteq> None"
    then show "map_of ?t q = Some DirNode" "q \<in> dirs_of M"
      using stagedD(2) [OF t, of q] anc by (auto simp: t1(2) with_dirs_def split: if_splits)
  qed
  ultimately show thesis by (rule that)
qed

lemma staged_Stat:
  assumes "manifest_ok M" "p \<in> U" "U \<subseteq> files_in M" "staged M content U t"
  obtains mode mtime where "Stat t p = Inr (FileNode (content p) mode mtime)"
proof -
  have p: "p \<in> files_in M" using assms(2,3) by blast
  obtain mode mtime where "map_of t p = Some (FileNode (content p) mode mtime)"
    using assms(2,4) unfolding staged_def by blast
  moreover have "\<not> blocked t p"
    using files_in_ancestors [OF assms(1) p] staged_dir [OF assms(4,3)] by (auto simp: blocked_def list_ex_iff)
  moreover have "p \<noteq> []" using proper_path_not_Nil files_in_proper [OF assms(1) p] by blast
  ultimately show thesis using that by (simp add: Stat_def)
qed

section \<open>Sending files\<close>

record attempt =
  at_M :: "(string, ManifestEntry) gomap"
  at_content :: "string \<Rightarrow> string"
  at_deleted :: "string set"
  at_session :: string
  at_epoch :: u64
  at_id :: u64

text \<open>The session of an attempt in which the deletions are sent and the files \<open>U\<close> too.\<close>

definition session_at :: "attempt \<Rightarrow> string set \<Rightarrow> syncSession \<Rightarrow> bool" where
  "session_at a U s \<longleftrightarrow> ss_manifest s = at_M a \<and> ss_sessionID s = at_session a \<and> ss_epoch s = at_epoch a \<and>
     ss_attemptID s = at_id a \<and> fst ` set (ss_deleted s) = at_deleted a \<and>
     gomap_ok (ss_changedFiles s) \<and> fst ` set (ss_changedFiles s) = U"

definition same_workspace :: "SyncManager \<Rightarrow> SyncManager \<Rightarrow> bool" where
  "same_workspace m m' \<longleftrightarrow> sm_workspace m' = sm_workspace m \<and> sm_mount m' = sm_mount m \<and>
     ws_committed (sm_state m') = ws_committed (sm_state m)"

definition transferred :: "attempt \<Rightarrow> string set \<Rightarrow> SyncManager \<Rightarrow> SyncManager \<Rightarrow> bool" where
  "transferred a U m0 m \<longleftrightarrow> same_workspace m0 m \<and> staged (at_M a) (at_content a) U (sm_stage m) \<and>
     (\<exists>s. in_session (at_epoch a) m s \<and> session_at a U s \<and> ss_uploads s = [] \<and> ss_bundles s = [])"

definition attempt_ok :: "sync_env \<Rightarrow> attempt \<Rightarrow> bool" where
  "attempt_ok env a \<longleftrightarrow> sy_layout env = None \<and> manifest_ok (at_M a) \<and> TrimSpace (at_session a) = at_session a \<and>
     (\<forall>d \<in> at_deleted a. map_of (at_M a) d = None)"

definition local_file :: "sync_env \<Rightarrow> attempt \<Rightarrow> LocalWorkspaceFile \<Rightarrow> bool" where
  "local_file env a f \<longleftrightarrow> lf_Path f \<in> files_in (at_M a) \<and> lf_Data f = at_content a (lf_Path f) \<and>
     me_ContentHash (lf_Entry f) = sy_sha env (lf_Data f) \<and>
     fm_Size (me_Metadata (lf_Entry f)) = int (length (lf_Data f))"

lemma session_at_note_changed:
  assumes "session_at a U s" "p \<notin> at_deleted a"
  shows "session_at a (insert p U) (note_changed p e s)"
proof -
  have "fst ` set (AList.delete p (ss_deleted s)) = fst ` set (ss_deleted s) - {p}"
    by (metis AList.delete_keys set_map set_removeAll)
  then have "fst ` set (AList.delete p (ss_deleted s)) = at_deleted a"
    using assms by (simp add: session_at_def)
  then show ?thesis
    using assms by (simp add: session_at_def note_changed_def dom_update)
qed

lemma file_not_deleted: "attempt_ok env a \<Longrightarrow> p \<in> files_in (at_M a) \<Longrightarrow> p \<notin> at_deleted a"
  by (auto simp: attempt_ok_def files_in_def)

lemma file_valid: "attempt_ok env a \<Longrightarrow> p \<in> files_in (at_M a) \<Longrightarrow> validateWorkspacePath p = None"
  by (auto simp: attempt_ok_def files_in_def manifest_ok_def validateWorkspacePath_def)

lemma bundle_file_ok:
  assumes env: "attempt_ok env a" "compression_ok env gzip compression" and f: "local_file env a f"
    and U: "U \<subseteq> files_in (at_M a)" and m: "transferred a U m0 m"
  obtains m' where "bundle_file env (bundle_request gzip compression f) m = (None, m')"
    "transferred a (insert (lf_Path f) U) m0 m'"
proof -
  let ?r = "bundle_request gzip compression f"
  obtain d c where dc: "compressData gzip (lf_Data f) compression = (d, c)" by fastforce
  have path: "lf_Path f \<in> files_in (at_M a)" using f by (simp add: local_file_def)
  obtain s where s: "in_session (at_epoch a) m s" "session_at a U s" "ss_uploads s = []" "ss_bundles s = []"
    and st: "same_workspace m0 m" "staged (at_M a) (at_content a) U (sm_stage m)"
    using m unfolding transferred_def by blast
  have M: "manifest_ok (at_M a)" using env(1) by (simp add: attempt_ok_def)
  obtain t where t: "stage_file (lf_Path f) (at_content a (lf_Path f)) (normalizeMetadata (uf_Metadata ?r)) (sm_stage m) = (None, t)"
    "staged (at_M a) (at_content a) (insert (lf_Path f) U) t"
    by (rule stage_file_ok [OF M path U st(2)])
  let ?s = "note_changed (lf_Path f) (bundle_entry ?r s) s"
  have req: "uf_Path ?r = lf_Path f" "uf_Data ?r = d" "uf_Compression ?r = c"
    "uf_ContentHash ?r = me_ContentHash (lf_Entry f)" "uf_Metadata ?r = me_Metadata (lf_Entry f)"
    by (simp_all add: bundle_request_def dc)
  have "bundle_file env ?r m = (None, put_session ?s (m\<lparr>sm_stage := t\<rparr>))"
    using f t(1) in_session_active [OF s(1)] decompress_compress [OF env(2) dc] file_valid [OF env(1) path]
    by (simp add: bundle_file_def req local_file_def)
  moreover have "transferred a (insert (lf_Path f) U) m0 (put_session ?s (m\<lparr>sm_stage := t\<rparr>))"
    unfolding transferred_def
  proof (intro conjI exI)
    show "in_session (at_epoch a) (put_session ?s (m\<lparr>sm_stage := t\<rparr>)) ?s"
      using in_session_put [of "at_epoch a" "m\<lparr>sm_stage := t\<rparr>"] s(1) by simp
    show "session_at a (insert (lf_Path f) U) ?s"
      by (rule session_at_note_changed [OF s(2) file_not_deleted [OF env(1) path]])
    show "ss_uploads ?s = []" "ss_bundles ?s = []" using s by (simp_all add: note_changed_def)
    show "same_workspace m0 (put_session ?s (m\<lparr>sm_stage := t\<rparr>))" using st(1) by (simp add: same_workspace_def)
    show "staged (at_M a) (at_content a) (insert (lf_Path f) U) (sm_stage (put_session ?s (m\<lparr>sm_stage := t\<rparr>)))"
      using t(2) by simp
  qed
  ultimately show thesis by (rule that)
qed

lemma bundle_files_ok:
  assumes "attempt_ok env a" "compression_ok env gzip compression" "\<forall>f \<in> set fs. local_file env a f"
    "U \<subseteq> files_in (at_M a)" "transferred a U m0 m"
  shows "\<exists>m'. fold_err (bundle_file env) (map (bundle_request gzip compression) fs) m = (None, m') \<and>
    transferred a (U \<union> lf_Path ` set fs) m0 m'"
  using assms(3-)
proof (induction fs arbitrary: U m)
  case (Cons f fs)
  have f: "local_file env a f" using Cons.prems(1) by simp
  obtain m1 where m1: "bundle_file env (bundle_request gzip compression f) m = (None, m1)"
    "transferred a (insert (lf_Path f) U) m0 m1"
    by (rule bundle_file_ok [OF assms(1,2) f Cons.prems(2,3)])
  have "insert (lf_Path f) U \<subseteq> files_in (at_M a)" using f Cons.prems(2) by (simp add: local_file_def)
  moreover have "\<forall>f \<in> set fs. local_file env a f" using Cons.prems(1) by simp
  ultimately obtain m2 where "fold_err (bundle_file env) (map (bundle_request gzip compression) fs) m1 = (None, m2)"
    "transferred a (insert (lf_Path f) U \<union> lf_Path ` set fs) m0 m2"
    using Cons.IH m1(2) by blast
  then show ?case using m1(1) by simp
qed simp

lemma uploadBundleFiles_ok:
  assumes env: "attempt_ok env a" "compression_ok env gzip compression" "\<forall>f \<in> set fs. local_file env a f"
    and U: "U \<subseteq> files_in (at_M a)" and m: "transferred a U m0 m"
  shows "\<exists>m'. uploadBundleFiles env gzip compression (at_session a) (at_epoch a) fs m = (None, m') \<and>
    transferred a (U \<union> lf_Path ` set fs) m0 m'"
proof -
  obtain s where s: "in_session (at_epoch a) m s" "session_at a U s" "ss_uploads s = []" "ss_bundles s = []"
    and st: "same_workspace m0 m" "staged (at_M a) (at_content a) U (sm_stage m)"
    using m unfolding transferred_def by blast
  let ?n = "ss_nextBundleID s + 1"
  let ?s1 = "s\<lparr>ss_nextBundleID := ?n, ss_bundles := [(bundle_id ?n, ())]\<rparr>"
  let ?s2 = "s\<lparr>ss_nextBundleID := ?n, ss_uploadBundles := ss_uploadBundles s + 1\<rparr>"
  have begun: "Manager_UploadBundleBegin (at_session a) (at_epoch a) m = (Inr (bundle_id ?n), put_session ?s1 m)"
    using s env(1) in_session_active [OF s(1)]
    by (simp add: Manager_UploadBundleBegin_def session_at_def attempt_ok_def Let_def)
  have "transferred a U m0 (put_session ?s2 m)"
    unfolding transferred_def
  proof (intro conjI exI)
    show "in_session (at_epoch a) (put_session ?s2 m) ?s2" by (rule in_session_put [OF s(1)])
  qed (use s st in \<open>simp_all add: same_workspace_def session_at_def\<close>)
  from bundle_files_ok [OF env U this] obtain m' where
    m': "fold_err (bundle_file env) (map (bundle_request gzip compression) fs) (put_session ?s2 m) = (None, m')"
    "transferred a (U \<union> lf_Path ` set fs) m0 m'" by blast
  have "?s1\<lparr>ss_bundles := AList.delete (bundle_id ?n) (ss_bundles ?s1), ss_uploadBundles := ss_uploadBundles ?s1 + 1\<rparr> = ?s2"
    using s(4) by (cases s) simp
  then have "Manager_UploadBundleCommit env (at_session a) (bundle_id ?n) (map (bundle_request gzip compression) fs)
      (put_session ?s1 m) = (None, m')"
    using s(2) env(1) in_session_active [OF in_session_put [OF s(1), of ?s1]] m'(1)
    by (simp add: Manager_UploadBundleCommit_def session_at_def attempt_ok_def)
  then show ?thesis using m'(2) begun by (simp add: uploadBundleFiles_def)
qed

lemma bundles_ok:
  assumes "attempt_ok env a" "compression_ok env gzip compression" "\<forall>b \<in> set bs. \<forall>f \<in> set (ub_files b). local_file env a f"
    "U \<subseteq> files_in (at_M a)" "transferred a U m0 m"
  shows "\<exists>m'. fold_err (\<lambda>b. uploadBundleFiles env gzip compression (at_session a) (at_epoch a) (ub_files b)) bs m = (None, m') \<and>
    transferred a (U \<union> (\<Union>b \<in> set bs. lf_Path ` set (ub_files b))) m0 m'"
  using assms(3-)
proof (induction bs arbitrary: U m)
  case (Cons b bs)
  have b: "\<forall>f \<in> set (ub_files b). local_file env a f" using Cons.prems(1) by simp
  obtain m1 where m1: "uploadBundleFiles env gzip compression (at_session a) (at_epoch a) (ub_files b) m = (None, m1)"
    "transferred a (U \<union> lf_Path ` set (ub_files b)) m0 m1"
    using uploadBundleFiles_ok [OF assms(1,2) b Cons.prems(2,3)] by blast
  have "U \<union> lf_Path ` set (ub_files b) \<subseteq> files_in (at_M a)"
    using b Cons.prems(2) by (auto simp: local_file_def)
  moreover have "\<forall>b \<in> set bs. \<forall>f \<in> set (ub_files b). local_file env a f" using Cons.prems(1) by simp
  ultimately obtain m2 where
    "fold_err (\<lambda>b. uploadBundleFiles env gzip compression (at_session a) (at_epoch a) (ub_files b)) bs m1 = (None, m2)"
    "transferred a (U \<union> lf_Path ` set (ub_files b) \<union> (\<Union>b \<in> set bs. lf_Path ` set (ub_files b))) m0 m2"
    using Cons.IH m1(2) by blast
  then show ?case using m1(1) by (simp add: Un_assoc)
qed simp

text \<open>The chunks of a file are appended to its upload one after the other.\<close>

lemma send_chunks_ok:
  assumes "compression_ok env gzip compression"
  shows "in_session epoch m s \<Longrightarrow> ss_uploads s = [(fid, u)] \<Longrightarrow>
    send_chunks env gzip compression fid (int (length (us_data u))) chunks m =
      (None, put_session (s\<lparr>ss_uploads := [(fid, u\<lparr>us_data := us_data u @ concat chunks\<rparr>)]\<rparr>) m)"
proof (induction chunks arbitrary: m s u)
  case Nil
  have "s\<lparr>ss_uploads := [(fid, u\<lparr>us_data := us_data u @ concat []\<rparr>)]\<rparr> = s" using Nil.prems(2) by (cases s; cases u) simp
  then show ?case using put_session_same [OF Nil.prems(1)] by simp
next
  case (Cons chunk chunks)
  let ?u = "u\<lparr>us_data := us_data u @ chunk\<rparr>"
  let ?s = "s\<lparr>ss_uploads := [(fid, ?u)]\<rparr>"
  obtain d c where dc: "compressData gzip chunk compression = (d, c)" by fastforce
  have "Manager_ApplyChunk env \<lparr>ac_FileID = fid, ac_Offset = int (length (us_data u)), ac_Data = d, ac_Compression = c\<rparr> m =
      (None, put_session ?s m)"
    using Cons.prems(2) in_session_active [OF Cons.prems(1)] decompress_compress [OF assms dc]
    by (simp add: Manager_ApplyChunk_def uploadLocked_def)
  moreover have "in_session epoch (put_session ?s m) ?s" by (rule in_session_put [OF Cons.prems(1)])
  from Cons.IH [OF this, of ?u]
  have "send_chunks env gzip compression fid (int (length (us_data u)) + int (length chunk)) chunks (put_session ?s m) =
      (None, put_session (s\<lparr>ss_uploads := [(fid, u\<lparr>us_data := us_data u @ chunk @ concat chunks\<rparr>)]\<rparr>) m)" by simp
  ultimately show ?case using dc by simp
qed

lemma UploadLocalFile_ok:
  assumes env: "attempt_ok env a" "compression_ok env gzip compression" and f: "local_file env a f"
    and U: "U \<subseteq> files_in (at_M a)" and m: "transferred a U m0 m"
  shows "\<exists>m'. UploadLocalFile env gzip compression (at_epoch a) f m = (None, m') \<and>
    transferred a (insert (lf_Path f) U) m0 m'"
proof -
  have path: "lf_Path f \<in> files_in (at_M a)" using f by (simp add: local_file_def)
  have M: "manifest_ok (at_M a)" and lay: "sy_layout env = None" using env(1) by (simp_all add: attempt_ok_def)
  obtain s where s: "in_session (at_epoch a) m s" "session_at a U s" "ss_uploads s = []" "ss_bundles s = []"
    and st: "same_workspace m0 m" "staged (at_M a) (at_content a) U (sm_stage m)"
    using m unfolding transferred_def by blast
  define fid where "fid = file_id (ss_nextUploadID s + 1)"
  define u where "u = \<lparr>us_fileID = fid, us_path = lf_Path f, us_expectedSize = fm_Size (me_Metadata (lf_Entry f)),
    us_metadata = normalizeMetadata (me_Metadata (lf_Entry f)), us_statFingerprint = me_StatFingerprint (lf_Entry f),
    us_data = []\<rparr>"
  define s1 where "s1 = s\<lparr>ss_nextUploadID := ss_nextUploadID s + 1, ss_uploads := [(fid, u)]\<rparr>"
  define s2 where "s2 = s1\<lparr>ss_uploads := [(fid, u\<lparr>us_data := lf_Data f\<rparr>)]\<rparr>"
  define s3 where "s3 = s1\<lparr>ss_uploads := []\<rparr>"
  have s1: "in_session (at_epoch a) (put_session s1 m) s1" and s2: "in_session (at_epoch a) (put_session s2 m) s2"
    by (rule in_session_put [OF s(1)])+
  define r1 where "r1 = \<lparr>bf_SyncEpoch = at_epoch a, bf_Path = lf_Path f, bf_Metadata = me_Metadata (lf_Entry f),
    bf_ExpectedSize = fm_Size (me_Metadata (lf_Entry f)), bf_StatFingerprint = me_StatFingerprint (lf_Entry f)\<rparr>"
  have begun: "Manager_BeginFile env r1 m = (Inr fid, put_session s1 m)"
    using s(2,3) lay in_session_active [OF s(1)] file_valid [OF env(1) path]
    by (simp add: Manager_BeginFile_def session_at_def Let_def fid_def u_def s1_def r1_def)
  have chunks: "send_chunks env gzip compression fid 0 (chunks_of syncChunkSize (lf_Data f)) (put_session s1 m) =
      (None, put_session s2 m)"
    using send_chunks_ok [OF env(2) s1, of fid u "chunks_of syncChunkSize (lf_Data f)"]
    by (simp add: s1_def s2_def u_def concat_chunks_of syncChunkSize_def)
  define r2 where "r2 = \<lparr>cf_FileID = fid, cf_FinalHash = me_ContentHash (lf_Entry f),
      cf_FinalSize = fm_Size (me_Metadata (lf_Entry f)), cf_MTime = fm_MTime (me_Metadata (lf_Entry f)),
      cf_Mode = fm_Mode (me_Metadata (lf_Entry f)), cf_StatFingerprint = me_StatFingerprint (lf_Entry f)\<rparr>"
  obtain t where t: "stage_file (lf_Path f) (at_content a (lf_Path f)) (request_metadata r2) (sm_stage m) = (None, t)"
    "staged (at_M a) (at_content a) (insert (lf_Path f) U) t"
    by (rule stage_file_ok [OF M path U st(2)])
  obtain e where commit: "Manager_CommitFile env r2 (put_session s2 m) =
      (None, put_session (note_changed (lf_Path f) e s3) (m\<lparr>sm_stage := t\<rparr>))"
    using in_session_active [OF s2] f t(1)
    by (simp add: Manager_CommitFile_def s2_def s3_def u_def r2_def Let_def local_file_def put_session_stage)
  let ?s = "note_changed (lf_Path f) e s3"
  have "transferred a (insert (lf_Path f) U) m0 (put_session ?s (m\<lparr>sm_stage := t\<rparr>))"
    unfolding transferred_def
  proof (intro conjI exI)
    show "in_session (at_epoch a) (put_session ?s (m\<lparr>sm_stage := t\<rparr>)) ?s"
      using in_session_put [of "at_epoch a" "m\<lparr>sm_stage := t\<rparr>"] s(1) by simp
    have "session_at a U s3" using s(2) by (simp add: session_at_def s3_def s1_def)
    then show "session_at a (insert (lf_Path f) U) ?s"
      by (rule session_at_note_changed [OF _ file_not_deleted [OF env(1) path]])
    show "ss_uploads ?s = []" "ss_bundles ?s = []" using s by (simp_all add: note_changed_def s3_def s1_def)
    show "same_workspace m0 (put_session ?s (m\<lparr>sm_stage := t\<rparr>))" using st(1) by (simp add: same_workspace_def)
    show "staged (at_M a) (at_content a) (insert (lf_Path f) U) (sm_stage (put_session ?s (m\<lparr>sm_stage := t\<rparr>)))"
      using t(2) by simp
  qed
  moreover have "UploadLocalFile env gzip compression (at_epoch a) f m =
      (None, put_session ?s (m\<lparr>sm_stage := t\<rparr>))"
    using begun chunks commit by (simp add: UploadLocalFile_def Let_def r1_def r2_def)
  ultimately show ?thesis by blast
qed

lemma large_files_ok:
  assumes "attempt_ok env a" "compression_ok env gzip compression" "\<forall>f \<in> set fs. local_file env a f"
    "U \<subseteq> files_in (at_M a)" "transferred a U m0 m"
  shows "\<exists>m'. fold_err (UploadLocalFile env gzip compression (at_epoch a)) fs m = (None, m') \<and>
    transferred a (U \<union> lf_Path ` set fs) m0 m'"
  using assms(3-)
proof (induction fs arbitrary: U m)
  case (Cons f fs)
  have f: "local_file env a f" using Cons.prems(1) by simp
  obtain m1 where m1: "UploadLocalFile env gzip compression (at_epoch a) f m = (None, m1)"
    "transferred a (insert (lf_Path f) U) m0 m1"
    using UploadLocalFile_ok [OF assms(1,2) f Cons.prems(2,3)] by blast
  have "insert (lf_Path f) U \<subseteq> files_in (at_M a)" using f Cons.prems(2) by (simp add: local_file_def)
  moreover have "\<forall>f \<in> set fs. local_file env a f" using Cons.prems(1) by simp
  ultimately obtain m2 where "fold_err (UploadLocalFile env gzip compression (at_epoch a)) fs m1 = (None, m2)"
    "transferred a (insert (lf_Path f) U \<union> lf_Path ` set fs) m0 m2"
    using Cons.IH m1(2) by blast
  then show ?case using m1(1) by simp
qed simp

section \<open>Bundles\<close>

text \<open>What the bundles built so far promise.\<close>

definition bundle_fits :: "uploadBundle \<Rightarrow> bool" where
  "bundle_fits b \<longleftrightarrow> length (ub_files b) \<le> syncBundleMaxFiles \<and>
     ub_totalSize b = sum_list (map file_size (ub_files b)) \<and> ub_totalSize b \<le> syncBundleTargetBytes \<and>
     (\<forall>f \<in> set (ub_files b). 0 < file_size f \<and> file_size f \<le> syncBundleFileThreshold)"

abbreviation bundled :: "uploadBundle list \<Rightarrow> LocalWorkspaceFile multiset" where
  "bundled bs \<equiv> \<Sum>\<^sub># (mset (map (\<lambda>b. mset (ub_files b)) bs))"

lemma bundle_loop_ok:
  assumes "bundle_loop large bs cur fs = (large', bs')"
    "bundle_fits cur" "\<forall>b \<in> set bs. bundle_fits b \<and> ub_files b \<noteq> []"
    "\<forall>f \<in> set large. file_size f \<le> 0 \<or> file_size f > syncBundleFileThreshold"
  shows "mset large' + bundled bs' = mset large + bundled bs + mset (ub_files cur) + mset fs \<and>
    (\<forall>b \<in> set bs'. bundle_fits b \<and> ub_files b \<noteq> []) \<and>
    (\<forall>f \<in> set large'. file_size f \<le> 0 \<or> file_size f > syncBundleFileThreshold)"
  using assms
proof (induction large bs cur fs rule: bundle_loop.induct)
  case (2 large bs cur f fs)
  let ?full = "ub_files cur \<noteq> [] \<and> (length (ub_files cur) \<ge> syncBundleMaxFiles \<or>
    ub_totalSize cur + file_size f > syncBundleTargetBytes)"
  let ?bs = "if ?full then bs @ [cur] else bs"
  let ?cur = "if ?full then \<lparr>ub_files = [], ub_totalSize = 0\<rparr> else cur"
  show ?case
  proof (cases "file_size f \<le> 0 \<or> file_size f > syncBundleFileThreshold")
    case True
    then show ?thesis using 2(1) [OF refl True] 2(3-) by (simp add: add_ac)
  next
    case False
    let ?next = "\<lparr>ub_files = ub_files ?cur @ [f], ub_totalSize = ub_totalSize ?cur + file_size f\<rparr>"
    have loop: "bundle_loop large ?bs ?next fs = (large', bs')" using 2(3) False by (simp add: Let_def)
    have "bundle_fits ?next"
      using 2(4) False
      by (auto simp: bundle_fits_def syncBundleMaxFiles_def syncBundleTargetBytes_def syncBundleFileThreshold_def)
    moreover have "\<forall>b \<in> set ?bs. bundle_fits b \<and> ub_files b \<noteq> []" using 2(4,5) by auto
    ultimately have "mset large' + bundled bs' = mset large + bundled ?bs + mset (ub_files ?next) + mset fs \<and>
        (\<forall>b \<in> set bs'. bundle_fits b \<and> ub_files b \<noteq> []) \<and>
        (\<forall>f \<in> set large'. file_size f \<le> 0 \<or> file_size f > syncBundleFileThreshold)"
      using 2(2) [OF refl False refl refl refl loop _ _ 2(6)] by blast
    then show ?thesis by (auto simp: add_ac)
  qed
qed (auto split: if_splits)

lemma buildUploadPlan_ok:
  assumes "buildUploadPlan files = (large, bundles)"
  shows "mset large + bundled bundles = mset files" "\<forall>b \<in> set bundles. bundle_fits b \<and> ub_files b \<noteq> []"
    "\<forall>f \<in> set large. file_size f \<le> 0 \<or> file_size f > syncBundleFileThreshold"
proof -
  have "bundle_fits \<lparr>ub_files = [], ub_totalSize = 0\<rparr>"
    by (simp add: bundle_fits_def syncBundleTargetBytes_def)
  from bundle_loop_ok [OF assms [unfolded buildUploadPlan_def] this]
  show "mset large + bundled bundles = mset files" "\<forall>b \<in> set bundles. bundle_fits b \<and> ub_files b \<noteq> []"
    "\<forall>f \<in> set large. file_size f \<le> 0 \<or> file_size f > syncBundleFileThreshold"
    by simp_all
qed

lemma upload_plan_files:
  assumes "buildUploadPlan files = (large, bundles)"
  shows "set files = set large \<union> (\<Union>b \<in> set bundles. set (ub_files b))"
proof -
  have "set files = set_mset (mset large + bundled bundles)"
    using buildUploadPlan_ok(1) [OF assms] by (metis set_mset_mset)
  then show ?thesis by (simp add: set_mset_Union_mset)
qed

lemma transfer_files_ok:
  assumes "attempt_ok env a" "compression_ok env gzip compression" "\<forall>f \<in> set files. local_file env a f"
    "transferred a {} m0 m"
  shows "\<exists>m'. transfer_files env gzip compression (at_session a) (at_epoch a) files m = (None, m') \<and>
    transferred a (lf_Path ` set files) m0 m'"
proof -
  obtain large bundles where b: "buildUploadPlan files = (large, bundles)" by fastforce
  note all = upload_plan_files [OF b]
  have bs: "\<forall>b \<in> set bundles. \<forall>f \<in> set (ub_files b). local_file env a f" and ls: "\<forall>f \<in> set large. local_file env a f"
    using all assms(3) by auto
  let ?U = "\<Union>b \<in> set bundles. lf_Path ` set (ub_files b)"
  obtain m1 where m1: "fold_err (\<lambda>b. uploadBundleFiles env gzip compression (at_session a) (at_epoch a) (ub_files b))
      bundles m = (None, m1)" "transferred a ?U m0 m1"
    using bundles_ok [OF assms(1,2) bs empty_subsetI assms(4)] by auto
  have "?U \<subseteq> files_in (at_M a)" using bs by (auto simp: local_file_def)
  from large_files_ok [OF assms(1,2) ls this m1(2)] obtain m2
    where "fold_err (UploadLocalFile env gzip compression (at_epoch a)) large m1 = (None, m2)"
      "transferred a (?U \<union> lf_Path ` set large) m0 m2" by blast
  moreover have "?U \<union> lf_Path ` set large = lf_Path ` set files" unfolding all by auto
  ultimately show ?thesis using m1(1) b by (simp add: transfer_files_def)
qed

end
