(* ===== verification/Sync_Properties.thy ===== *)
theory Sync_Properties
  imports Sync_Transfer
begin

text \<open>
  What a sync achieves: after an attempt the daemon's workspace is the client's, and the manifest the
  daemon keeps describes it, so the next attempt starts from the same situation.
\<close>

section \<open>Workspaces and manifests\<close>

definition file_metadata :: "string \<Rightarrow> 32 word \<Rightarrow> go_time \<Rightarrow> FileMetadata" where
  "file_metadata data mode mtime =
     normalizeMetadata \<lparr>fm_Mode = perm mode, fm_MTime = mtime, fm_Size = int (length data)\<rparr>"

text \<open>
  The committed manifest describes the workspace on disk: same paths, same kinds, the metadata of
  files as the system reports it, and where a hash is kept it is that of the content.
\<close>

definition entry_describes :: "sync_env \<Rightarrow> ManifestEntry \<Rightarrow> node \<Rightarrow> bool" where
  "entry_describes env e n \<longleftrightarrow>
     (case n of
        DirNode \<Rightarrow> me_IsDir e
      | FileNode data mode mtime \<Rightarrow> \<not> me_IsDir e \<and> me_Metadata e = file_metadata data mode mtime \<and>
          (me_ContentHash e = [] \<or> me_ContentHash e = sy_sha env data))"

definition described :: "sync_env \<Rightarrow> (string, ManifestEntry) gomap \<Rightarrow> tree \<Rightarrow> bool" where
  "described env M w \<longleftrightarrow>
     (\<forall>p. case (map_of M p, map_of w p) of
        (None, None) \<Rightarrow> True | (Some e, Some n) \<Rightarrow> entry_describes env e n | _ \<Rightarrow> False)"

text \<open>The workspace is the tree of a client with manifest \<open>M\<close>: its directories and its files, with their content and metadata.\<close>

definition entry_node :: "(string \<Rightarrow> string) \<Rightarrow> string \<Rightarrow> ManifestEntry \<Rightarrow> node \<Rightarrow> bool" where
  "entry_node content p e n \<longleftrightarrow>
     (case n of
        DirNode \<Rightarrow> me_IsDir e
      | FileNode data mode mtime \<Rightarrow> \<not> me_IsDir e \<and> data = content p \<and> file_metadata data mode mtime = me_Metadata e)"

definition client_tree :: "(string, ManifestEntry) gomap \<Rightarrow> (string \<Rightarrow> string) \<Rightarrow> tree \<Rightarrow> bool" where
  "client_tree M content w \<longleftrightarrow>
     (\<forall>p. case (map_of M p, map_of w p) of
        (None, None) \<Rightarrow> True | (Some e, Some n) \<Rightarrow> entry_node content p e n | _ \<Rightarrow> False)"

text \<open>
  What the client's scan guarantees of its manifest: valid paths, each with its parents, permissions
  as modes, times in seconds, the sizes of the files, the right hash where there is one. No path ends
  like the temporary copies of the daemon.
\<close>

definition client_entry :: "sync_env \<Rightarrow> (string \<Rightarrow> string) \<Rightarrow> ManifestEntry \<Rightarrow> bool" where
  "client_entry env content e \<longleftrightarrow> me_IsDir e \<or>
     perm (fm_Mode (me_Metadata e)) = fm_Mode (me_Metadata e) \<and>
     fm_Size (me_Metadata e) = int (length (content (me_Path e))) \<and>
     (me_ContentHash e = [] \<or> me_ContentHash e = sy_sha env (content (me_Path e)))"

definition client_ok :: "sync_env \<Rightarrow> (string, ManifestEntry) gomap \<Rightarrow> (string \<Rightarrow> string) \<Rightarrow> bool" where
  "client_ok env M content \<longleftrightarrow> manifest_ok M \<and>
     (\<forall>p e. map_of M p = Some e \<longrightarrow> client_entry env content e \<and> (\<forall>q. p \<noteq> q @ commit_suffix))"

text \<open>No path is a file on one side and a directory on the other.\<close>

definition kinds_agree :: "(string, ManifestEntry) gomap \<Rightarrow> tree \<Rightarrow> bool" where
  "kinds_agree M w \<longleftrightarrow>
     (\<forall>p e n. map_of M p = Some e \<longrightarrow> map_of w p = Some n \<longrightarrow> me_IsDir e = (n = DirNode))"

text \<open>The hash tells the client's content of a path from another content the daemon has for it.\<close>

definition no_collision :: "sync_env \<Rightarrow> (string \<Rightarrow> string) \<Rightarrow> tree \<Rightarrow> bool" where
  "no_collision env content w \<longleftrightarrow>
     (\<forall>p data mode mtime. map_of w p = Some (FileNode data mode mtime) \<longrightarrow>
        sy_sha env data = sy_sha env (content p) \<longrightarrow> data = content p)"

lemma described_None: "described env M w \<Longrightarrow> map_of M p = None \<longleftrightarrow> map_of w p = None"
  unfolding described_def by (drule spec [of _ p]) (auto split: option.splits)

lemma described_entry: "described env M w \<Longrightarrow> map_of M p = Some e \<Longrightarrow> map_of w p = Some n \<Longrightarrow> entry_describes env e n"
  unfolding described_def by (drule spec [of _ p]) simp

lemma described_file:
  assumes "described env M w" "map_of M p = Some e" "\<not> me_IsDir e"
  obtains data mode mtime where "map_of w p = Some (FileNode data mode mtime)"
    "me_Metadata e = file_metadata data mode mtime" "me_ContentHash e = [] \<or> me_ContentHash e = sy_sha env data"
proof -
  obtain n where n: "map_of w p = Some n" using described_None [OF assms(1), of p] assms(2) by fastforce
  show thesis using described_entry [OF assms(1,2) n] assms(3) n that by (cases n) (simp_all add: entry_describes_def)
qed

section \<open>The plan\<close>

text \<open>A file the plan leaves alone is on the daemon as the client has it.\<close>

definition same_file :: "sync_env \<Rightarrow> tree \<Rightarrow> ManifestEntry \<Rightarrow> bool" where
  "same_file env w e \<longleftrightarrow> (\<exists>data mode mtime. map_of w (me_Path e) = Some (FileNode data mode mtime) \<and>
     file_metadata data mode mtime = normalizeMetadata (me_Metadata e) \<and> sy_sha env data = me_ContentHash e)"

definition memos_true :: "sync_env \<Rightarrow> tree \<Rightarrow> (string, remoteHashMemoEntry) gomap \<Rightarrow> bool" where
  "memos_true env w memos \<longleftrightarrow>
     (\<forall>p memo data. map_of memos p = Some memo \<longrightarrow> ReadFile w p = Inr data \<longrightarrow> rh_hash memo = sy_sha env data)"

lemma hash_and_remember_true:
  assumes "memos_true env w memos" "hash_and_remember env p w n memos = (r, memos')"
  shows "memos_true env w memos'" "r = Inr h \<Longrightarrow> ReadFile w p = Inr data \<Longrightarrow> h = sy_sha env data"
  using assms by (auto simp: hash_and_remember_def memos_true_def Let_def split: sum.splits prod.splits if_splits)

lemma remoteContentHash_true:
  assumes "described env C w" "memos_true env w memos" "remoteContentHash env C p w memos = (r, memos')"
    "map_of w p = Some (FileNode data mode mtime)" "ReadFile w p = Inr data"
  shows "memos_true env w memos'" "r = Inr h \<Longrightarrow> h = sy_sha env data"
proof -
  have h: "me_ContentHash e = sy_sha env data" if "map_of C p = Some e" "me_ContentHash e \<noteq> []" for e
    using described_entry [OF assms(1) that(1) assms(4)] that(2) by (simp add: entry_describes_def)
  have m: "rh_hash memo = sy_sha env data" if "map_of memos p = Some memo" for memo
    using assms(2,5) that unfolding memos_true_def by blast
  show "memos_true env w memos'" "r = Inr h \<Longrightarrow> h = sy_sha env data"
    using assms(2,3,5) h m hash_and_remember_true [OF assms(2)]
    by (auto simp: remoteContentHash_def split: if_splits option.splits sum.splits)
qed

lemma tree_ok_Stat:
  assumes "tree_ok w" "p \<noteq> []"
  shows "Stat w p = Inr n \<longleftrightarrow> map_of w p = Some n"
proof -
  have "\<not> blocked w p" if "map_of w p = Some n"
    using assms(1) that unfolding tree_ok_def blocked_def list_ex_iff by fastforce
  then show ?thesis using assms(2) by (auto simp: Stat_def split: option.splits)
qed

lemma tree_ok_ReadFile:
  "tree_ok w \<Longrightarrow> p \<noteq> [] \<Longrightarrow> map_of w p = Some (FileNode data mode mtime) \<Longrightarrow> ReadFile w p = Inr data"
  using tree_ok_Stat [of w p "FileNode data mode mtime"] by (simp add: ReadFile_def)

text \<open>What the daemon compares a file with is a file of its workspace, with its metadata.\<close>

lemma round_second_idem [simp]: "round_second (round_second t) = round_second t"
  by (simp add: round_second_def)

lemma normalizeMetadata_idem [simp]: "normalizeMetadata (normalizeMetadata md) = normalizeMetadata md"
  by (simp add: normalizeMetadata_def)

lemma file_metadata_normal [simp]: "normalizeMetadata (file_metadata data mode mtime) = file_metadata data mode mtime"
  by (simp add: file_metadata_def)

lemma remote_entry_file:
  assumes w: "tree_ok (sm_workspace m)" and C: "described env C (sm_workspace m)"
    and fresh: "ss_deleted s = []" "ss_changedFiles s = []" and p: "me_Path e \<noteq> []"
    and r: "remote_entry env C e s m = Some (re, pl)" "\<not> me_IsDir re"
  obtains data mode mtime where "pl = InWorkspace" "map_of (sm_workspace m) (me_Path e) = Some (FileNode data mode mtime)"
    "normalizeMetadata (me_Metadata re) = file_metadata data mode mtime"
proof -
  have remote: "remoteManifestEntryForPath C (me_Path e) s =
      map_option (\<lambda>c. (cloneManifestEntry c, InWorkspace)) (map_of C (me_Path e))"
    using fresh by (simp add: remoteManifestEntryForPath_def isPathDeletedOrNested_def split: option.splits)
  then obtain c where c: "map_of C (me_Path e) = Some c"
    using r(1) by (cases "map_of C (me_Path e)") (auto simp: remote_entry_def)
  then obtain n where n: "map_of (sm_workspace m) (me_Path e) = Some n"
    using described_None [OF C, of "me_Path e"] by fastforce
  have d: "entry_describes env c n" by (rule described_entry [OF C c n])
  have "refreshRemoteManifestEntry env (me_Path e) (sm_workspace m) =
      Inr (Some (manifest_entry (sy_dirinfo env) (me_Path e) n, InWorkspace))"
    using tree_ok_Stat [OF w p, of n] n by (simp add: refreshRemoteManifestEntry_def)
  then have "(re, pl) = (cloneManifestEntry c, InWorkspace) \<or>
      (re, pl) = (manifest_entry (sy_dirinfo env) (me_Path e) n, InWorkspace)"
    using r(1) remote c by (auto simp: remote_entry_def split: if_splits)
  then show thesis
  proof
    assume re: "(re, pl) = (cloneManifestEntry c, InWorkspace)"
    then show thesis using d r(2) n that by (cases n) (auto simp: entry_describes_def cloneManifestEntry_def)
  next
    assume re: "(re, pl) = (manifest_entry (sy_dirinfo env) (me_Path e) n, InWorkspace)"
    then show thesis using r(2) n that by (cases n) (auto simp: manifest_entry_def file_metadata_def)
  qed
qed

lemma plan_file_true:
  assumes w: "tree_ok (sm_workspace m)" and C: "described env C (sm_workspace m)"
    and fresh: "ss_deleted s = []" "ss_changedFiles s = []" and p: "me_Path e \<noteq> []"
    and memos: "memos_true env (sm_workspace m) memos" and plan: "plan_file env C s m e memos = (r, memos')"
  shows "memos_true env (sm_workspace m) memos'" "r = Inr NoAction \<Longrightarrow> same_file env (sm_workspace m) e"
proof -
  have "memos_true env (sm_workspace m) memos' \<and> (r = Inr NoAction \<longrightarrow> same_file env (sm_workspace m) e)"
  proof (cases "\<exists>re pl. remote_entry env C e s m = Some (re, pl) \<and> \<not> me_IsDir re \<and> same_metadata re e \<and>
      TrimSpace (me_ContentHash e) \<noteq> []")
    case False
    then show ?thesis using plan memos by (auto simp: plan_file_def split: option.splits prod.splits if_splits)
  next
    case True
    then obtain re pl where re: "remote_entry env C e s m = Some (re, pl)" "\<not> me_IsDir re" "same_metadata re e"
      "TrimSpace (me_ContentHash e) \<noteq> []" by blast
    obtain data mode mtime where f: "pl = InWorkspace"
        "map_of (sm_workspace m) (me_Path e) = Some (FileNode data mode mtime)"
        "normalizeMetadata (me_Metadata re) = file_metadata data mode mtime"
      by (rule remote_entry_file [OF w C fresh p re(1,2)])
    have read: "ReadFile (sm_workspace m) (me_Path e) = Inr data" by (rule tree_ok_ReadFile [OF w p f(2)])
    obtain h memos2 where h: "remoteContentHash env C (me_Path e) (sm_workspace m) memos = (h, memos2)" by fastforce
    note hash = remoteContentHash_true [OF C memos h f(2) read]
    have "memos' = memos2" "r = Inr NoAction \<Longrightarrow> h = Inr (me_ContentHash e)"
      using plan re f(1) h by (auto simp: plan_file_def place_tree_def split: sum.splits if_splits)
    then show ?thesis
      using hash re(3) f(2,3) by (auto simp: same_file_def same_metadata_def)
  qed
  then show "memos_true env (sm_workspace m) memos'" "r = Inr NoAction \<Longrightarrow> same_file env (sm_workspace m) e" by blast+
qed

lemma plan_files_true:
  assumes "tree_ok (sm_workspace m)" "described env C (sm_workspace m)" "ss_deleted s = []" "ss_changedFiles s = []"
  shows "\<forall>e \<in> set es. me_Path e \<noteq> [] \<Longrightarrow> memos_true env (sm_workspace m) memos \<Longrightarrow>
    plan_files env C s m es memos = (Inr (hs, us), memos') \<Longrightarrow>
    memos_true env (sm_workspace m) memos' \<and> set us \<subseteq> me_Path ` {e \<in> set es. \<not> me_IsDir e} \<and>
    (\<forall>e \<in> set es. \<not> me_IsDir e \<longrightarrow> me_Path e \<in> set hs \<union> set us \<or> same_file env (sm_workspace m) e)"
proof (induction es arbitrary: memos hs us)
  case (Cons e es)
  show ?case
  proof (cases "me_IsDir e")
    case True
    then show ?thesis using Cons.IH [of memos hs us] Cons.prems by auto
  next
    case False
    obtain r memos1 where r: "plan_file env C s m e memos = (r, memos1)" by fastforce
    have p: "me_Path e \<noteq> []" using Cons.prems(1) by simp
    note e = plan_file_true [OF assms p Cons.prems(2) r]
    obtain action hs1 us1 where rest: "r = Inr action" "plan_files env C s m es memos1 = (Inr (hs1, us1), memos')"
      "hs = (if action = SendHash then me_Path e # hs1 else hs1)"
      "us = (if action = SendContent then me_Path e # us1 else us1)"
      using Cons.prems(3) False r by (auto split: sum.splits prod.splits)
    have "\<forall>e \<in> set es. me_Path e \<noteq> []" using Cons.prems(1) by simp
    from Cons.IH [OF this e(1) rest(2)] show ?thesis
      using rest(1,3,4) e(2) False by (cases action) auto
  qed
qed simp

section \<open>Publishing what was transferred\<close>

lemma merge_fold:
  "map_of (fold (\<lambda>path cf. case map_of M path of None \<Rightarrow> cf
      | Some entry \<Rightarrow> if me_IsDir entry then cf else AList.update path entry cf) ps cf) q =
     (if q \<in> set ps \<and> q \<in> files_in M then map_of M q else map_of cf q)"
  "gomap_ok cf \<Longrightarrow> gomap_ok (fold (\<lambda>path cf. case map_of M path of None \<Rightarrow> cf
      | Some entry \<Rightarrow> if me_IsDir entry then cf else AList.update path entry cf) ps cf)"
  by (induction ps arbitrary: cf) (auto simp: files_in_def split: option.splits)

lemma merged_changes:
  assumes "staged M content U stage" "U \<subseteq> files_in M" "gomap_ok cf" "fst ` set cf = U"
  defines "C \<equiv> mergeStagedFilesIntoChangedSet stage M cf"
  shows "map_of C q = (if q \<in> U then map_of M q else None)" "gomap_ok C"
proof -
  show "gomap_ok C" unfolding C_def mergeStagedFilesIntoChangedSet_def by (rule merge_fold(2) [OF assms(3)])
  have dom: "q \<in> set (listWorkspaceEntries stage) \<longleftrightarrow> map_of stage q \<noteq> None"
    by (simp add: listWorkspaceEntries_def map_of_eq_None_iff)
  have "map_of cf q = None" if "q \<notin> U" using that assms(4) by (simp add: map_of_eq_None_iff)
  moreover have "q \<in> set (listWorkspaceEntries stage)" if "q \<in> U" using stagedD(1) [OF assms(1) that] dom by auto
  moreover have "q \<notin> files_in M" if "q \<notin> U" "q \<in> set (listWorkspaceEntries stage)"
    using stagedD(2) [OF assms(1) that(1)] that(2) dom files_dirs_disjoint by auto
  ultimately show "map_of C q = (if q \<in> U then map_of M q else None)"
    unfolding C_def mergeStagedFilesIntoChangedSet_def merge_fold(1) using assms(2) by auto
qed

lemma clone_manifest: "manifest_ok M \<Longrightarrow> cloneManifestMap M = M"
  unfolding cloneManifestMap_def manifest_ok_def by (auto intro!: map_idI simp: gomap_ok_mem_iff)

text \<open>Publishing makes the workspace the client's: with the steps, or by the shortcut when nothing is to be done.\<close>

lemma published_client_tree:
  assumes M: "client_ok env M content" and kinds: "kinds_agree M w"
    and U: "U \<subseteq> files_in M" "staged M content U stage"
    and C: "\<And>q. map_of C q = (if q \<in> U then map_of M q else None)"
    and same: "\<And>p e. map_of M p = Some e \<Longrightarrow> \<not> me_IsDir e \<Longrightarrow> p \<notin> U \<Longrightarrow>
      \<exists>n. map_of w p = Some n \<and> entry_node content p e n"
  shows "case (map_of M p, published stage w M C p) of
      (None, None) \<Rightarrow> True | (Some e, Some n) \<Rightarrow> entry_node content p e n | _ \<Rightarrow> False"
proof (cases "map_of M p")
  case (Some e)
  have ok: "manifest_ok M" "client_entry env content e" "me_Path e = p" "cloneManifestEntry e = e"
    using M Some unfolding client_ok_def manifest_ok_def by blast+
  show ?thesis
  proof (cases "me_IsDir e \<or> p \<notin> U")
    case True
    show ?thesis
    proof (cases "me_IsDir e")
      case True
      then show ?thesis using Some by (simp add: published_def entry_node_def)
    next
      case False
      then obtain n where "map_of w p = Some n" "entry_node content p e n" using same [OF Some] True by blast
      then show ?thesis using Some True False by (simp add: published_def C)
    qed
  next
    case False
    then obtain mode mtime where "Stat stage p = Inr (FileNode (content p) mode mtime)"
      using staged_Stat [OF ok(1) _ U] by blast
    then have "published stage w M C p = Some (FileNode (content p) (fm_Mode (me_Metadata e)) (round_second (fm_MTime (me_Metadata e))))"
      using Some False ok(3) by (simp add: published_def C published_node_def)
    moreover have "normalizeMetadata (me_Metadata e) = me_Metadata e"
      using ok(4) by (cases e) (simp add: cloneManifestEntry_def)
    ultimately show ?thesis
      using Some False ok(2,3)
      by (cases "me_Metadata e") (auto simp: entry_node_def client_entry_def file_metadata_def normalizeMetadata_def)
  qed
qed (simp add: published_def)

lemma transferred_publishable:
  assumes M: "client_ok env M content" and kinds: "kinds_agree M w"
    and U: "U \<subseteq> files_in M" "staged M content U stage"
    and C: "\<And>q. map_of C q = (if q \<in> U then map_of M q else None)"
    and D: "\<And>d. d \<in> D \<Longrightarrow> map_of w d \<noteq> None \<and> map_of M d = None"
    and cover: "\<And>p. map_of w p \<noteq> None \<Longrightarrow> map_of M p = None \<Longrightarrow> \<exists>d \<in> D. under p d"
    and new: "\<And>p e. map_of M p = Some e \<Longrightarrow> \<not> me_IsDir e \<Longrightarrow> map_of w p = None \<Longrightarrow> p \<in> U"
  shows "publishable stage w M C D"
proof -
  have ok: "manifest_ok M" using M by (simp add: client_ok_def)
  have changed: "map_of M p = Some e \<and> \<not> me_IsDir e \<and> published_node stage e \<noteq> None \<and>
      map_of M (p @ commit_suffix) = None" if "map_of C p = Some e" for p e
  proof -
    have p: "p \<in> U" "map_of M p = Some e" using that by (auto simp: C split: if_splits)
    obtain mode mtime where "Stat stage p = Inr (FileNode (content p) mode mtime)" by (rule staged_Stat [OF ok p(1) U])
    then have "published_node stage e \<noteq> None"
      using manifest_ok_path [OF ok p(2)] by (simp add: published_node_def)
    moreover have "\<not> me_IsDir e" using p U(1) by (auto simp: files_in_def)
    moreover have "map_of M (p @ commit_suffix) = None" using M unfolding client_ok_def by (cases "map_of M (p @ commit_suffix)") (simp, blast)
    ultimately show ?thesis using p(2) by blast
  qed
  have "map_of C p \<noteq> None" if "map_of M p = Some e" "\<not> me_IsDir e" "map_of w p = None" for p e
    using new [OF that] that(1) by (simp add: C)
  moreover have "(n = DirNode) = me_IsDir e" if "map_of w p = Some n" "map_of M p = Some e" for p n e
    using kinds that by (simp add: kinds_agree_def)
  ultimately show ?thesis
    unfolding publishable_def using D cover changed by blast
qed

section \<open>The end of an attempt\<close>

lemma wc_manifest_give: "wc_manifest (give_identity p c) = wc_manifest c"
  by (simp add: give_identity_def nextObjectIdentityLocked_def Let_def)

lemma wc_manifest_touch: "wc_manifest (fold touch_path ps c) = wc_manifest c"
  by (induction ps arbitrary: c) (simp_all add: touch_path_def Let_def wc_manifest_give)

lemma wc_manifest_sync: "wc_manifest (ws_committed (syncManifestStateLocked M s)) = cloneManifestMap M"
  by (simp add: syncManifestStateLocked_def syncManifest_committed_def Let_def wc_manifest_touch)

text \<open>What stands between the workspace \<open>w\<close> and the client's tree, and that the transfer brought it.\<close>

definition bridged ::
  "(string, ManifestEntry) gomap \<Rightarrow> (string \<Rightarrow> string) \<Rightarrow> string set \<Rightarrow> string set \<Rightarrow> tree \<Rightarrow> bool" where
  "bridged M content D U w \<longleftrightarrow> U \<subseteq> files_in M \<and> kinds_agree M w \<and>
     (\<forall>d \<in> D. map_of w d \<noteq> None \<and> map_of M d = None) \<and>
     (\<forall>p. map_of w p \<noteq> None \<longrightarrow> map_of M p = None \<longrightarrow> (\<exists>d \<in> D. under p d)) \<and>
     (\<forall>p e. map_of M p = Some e \<longrightarrow> \<not> me_IsDir e \<longrightarrow> p \<notin> U \<longrightarrow>
        (\<exists>n. map_of w p = Some n \<and> entry_node content p e n))"

lemma bridgedD:
  assumes "bridged M content D U w"
  shows "U \<subseteq> files_in M" "kinds_agree M w" "d \<in> D \<Longrightarrow> map_of w d \<noteq> None \<and> map_of M d = None"
    "map_of w p \<noteq> None \<Longrightarrow> map_of M p = None \<Longrightarrow> \<exists>d \<in> D. under p d"
    "map_of M p = Some e \<Longrightarrow> \<not> me_IsDir e \<Longrightarrow> p \<notin> U \<Longrightarrow> \<exists>n. map_of w p = Some n \<and> entry_node content p e n"
  using assms unfolding bridged_def by blast+

lemma shortcut_client_tree:
  assumes M: "manifest_ok M" and b: "bridged M content {} {} w"
    and same: "syncManifestMatchesWorkspace dirinfo M w"
  shows "client_tree M content w"
  unfolding client_tree_def
proof
  fix p
  show "case (map_of M p, map_of w p) of
      (None, None) \<Rightarrow> True | (Some e, Some n) \<Rightarrow> entry_node content p e n | _ \<Rightarrow> False"
  proof (cases "map_of M p")
    case None
    then have "map_of w p = None" using bridgedD(4) [OF b, of p] by blast
    then show ?thesis using None by simp
  next
    case (Some e)
    have current: "map_of (manifestEntriesFromRoot dirinfo w) p = map_option (manifest_entry dirinfo p) (map_of w p)"
      unfolding manifestEntriesFromRoot_def by (induction w) auto
    have "gomap_ok M" using M by (simp add: manifest_ok_def)
    then have "(p, e) \<in> set M" using Some by (simp add: gomap_ok_mem_iff)
    then have "case map_of (manifestEntriesFromRoot dirinfo w) p of None \<Rightarrow> False
      | Some currentEntry \<Rightarrow> me_IsDir currentEntry = me_IsDir e"
      using same unfolding syncManifestMatchesWorkspace_def Let_def list_all_iff
      by (elim conjE, drule_tac x = "(p, e)" in bspec) (auto split: option.splits)
    then obtain n where n: "map_of w p = Some n" "me_IsDir (manifest_entry dirinfo p n) = me_IsDir e"
      unfolding current by (cases "map_of w p") simp_all
    show ?thesis
    proof (cases "me_IsDir e")
      case True
      then show ?thesis using Some n by (simp add: manifest_entry_def entry_node_def)
    next
      case False
      then have "entry_node content p e n" using bridgedD(5) [OF b Some] n(1) by (metis empty_iff option.inject)
      then show ?thesis using Some n(1) by simp
    qed
  qed
qed

lemma publish_client_tree:
  assumes M: "client_ok env M content" and w: "tree_ok (sm_workspace m)" and b: "bridged M content D U (sm_workspace m)"
    and st: "staged M content U (sm_stage m)" and D: "fst ` set del = D"
    and C: "\<And>q. map_of C q = (if q \<in> U then map_of M q else None)" "gomap_ok C"
    and mirror: "sy_mirror env = Inr mir" "mir \<longrightarrow> sm_mount m = sm_workspace m"
  shows "\<exists>m'. publishSyncWorkspaceIncremental env M C del m = (None, m') \<and> client_tree M content (sm_workspace m') \<and>
    gomap_ok (sm_workspace m') \<and> sm_state m' = sm_state m"
proof (cases "C = [] \<and> del = [] \<and> syncManifestMatchesWorkspace (sy_dirinfo env) M (sm_workspace m)")
  case True
  have "q \<notin> U" for q
    using C(1) [of q] True bridgedD(1) [OF b] by (auto simp: files_in_def split: if_splits)
  then have "U = {}" by blast
  then have "client_tree M content (sm_workspace m)"
    using shortcut_client_tree [of M content "sm_workspace m"] M b D True by (auto simp: client_ok_def)
  then show ?thesis using True mirror w by (simp add: publishSyncWorkspaceIncremental_def tree_ok_def)
next
  case False
  have ok: "manifest_ok M" using M by (simp add: client_ok_def)
  have new: "p \<in> U" if "map_of M p = Some e" "\<not> me_IsDir e" "map_of (sm_workspace m) p = None" for p e
    using bridgedD(5) [OF b that(1,2)] that(3) by auto
  have pub: "publishable (sm_stage m) (sm_workspace m) M C D"
    by (rule transferred_publishable [OF M bridgedD(2) [OF b] bridgedD(1) [OF b] st C(1) bridgedD(3) [OF b] bridgedD(4) [OF b] new])
  have "set (sortedDeletePathsDeepestFirst del) = D"
    using D by (simp add: sortedDeletePathsDeepestFirst_def deepest_first_def sortedDeletePaths_def uniqueStrings_def)
  from publish_phases [OF w ok C(2) this pub, of "sy_created env"] obtain w' where
    w': "fold_err id (map remove_path (sortedDeletePathsDeepestFirst del) @
        map (\<lambda>e. make_dir (me_Path e)) (filter me_IsDir (sortedManifestEntries M)) @
        map (replace_entry (sy_created env) (sm_stage m)) (sortedManifestEntries C) @
        [removeUnexpectedDirectories (expectedDirs M)]) (sm_workspace m) = (None, w')"
    "map_of w' = published (sm_stage m) (sm_workspace m) M C" "gomap_ok w'" by blast
  from fold_on_trees [OF w'(1) mirror(2)] obtain t' where
    "fold_err id (publish_steps env mir (sm_stage m) M C del) (sm_workspace m, sm_mount m) = (None, w', t')"
    by (auto simp: publish_steps_def comp_def)
  then have "publishSyncWorkspaceIncremental env M C del m = (None, m\<lparr>sm_workspace := w', sm_mount := t'\<rparr>)"
    using False mirror(1) by (auto simp: publishSyncWorkspaceIncremental_def)
  moreover have "client_tree M content w'"
    unfolding client_tree_def w'(2)
    using published_client_tree [OF M bridgedD(2) [OF b] bridgedD(1) [OF b] st C(1) bridgedD(5) [OF b]] by blast
  ultimately show ?thesis using w'(3) by simp
qed

lemma FinalizeSyncV2_ok:
  assumes env: "attempt_ok env a" and M: "client_ok env (at_M a) (at_content a)"
    and m: "transferred a U m0 m" and w: "tree_ok (sm_workspace m)"
    and b: "bridged (at_M a) (at_content a) (at_deleted a) U (sm_workspace m)"
    and mirror: "sy_mirror env = Inr mir" "mir \<longrightarrow> sm_mount m = sm_workspace m"
  shows "\<exists>m'. Manager_FinalizeSyncV2 env (at_session a) (at_epoch a) (at_id a) True m = (None, m') \<and>
    client_tree (at_M a) (at_content a) (sm_workspace m') \<and> gomap_ok (sm_workspace m') \<and> wc_manifest (ws_committed (sm_state m')) = at_M a"
proof -
  obtain s where s: "in_session (at_epoch a) m s" "session_at a U s" "ss_uploads s = []" "ss_bundles s = []"
    and st: "staged (at_M a) (at_content a) U (sm_stage m)"
    using m unfolding transferred_def by blast
  have ok: "manifest_ok (at_M a)" using M by (simp add: client_ok_def)
  have entries: "cloneManifestMap (ss_manifest s) = at_M a"
    using s(2) clone_manifest [OF ok] by (simp add: session_at_def)
  have cf: "gomap_ok (cloneManifestMap (ss_changedFiles s))" "fst ` set (cloneManifestMap (ss_changedFiles s)) = U"
    using s(2) unfolding session_at_def cloneManifestMap_def by (auto simp: gomap_ok_def comp_def case_prod_unfold image_image)
  let ?C = "mergeStagedFilesIntoChangedSet (sm_stage m) (at_M a) (cloneManifestMap (ss_changedFiles s))"
  note C = merged_changes [OF st bridgedD(1) [OF b] cf]
  have D: "fst ` set (ss_deleted s) = at_deleted a" using s(2) by (simp add: session_at_def)
  obtain m1 where m1: "publishSyncWorkspaceIncremental env (at_M a) ?C (ss_deleted s) m = (None, m1)"
    "client_tree (at_M a) (at_content a) (sm_workspace m1)" "gomap_ok (sm_workspace m1)" "sm_state m1 = sm_state m"
    using publish_client_tree [OF M w b st D C mirror] by blast
  have guard: "finalize_guard (at_epoch a) (at_id a) True (sm_state m) = Inr s"
    using s unfolding in_session_def session_at_def by (simp add: finalize_guard_def)
  have "Manager_FinalizeSyncV2 env (at_session a) (at_epoch a) (at_id a) True m =
      (None, m1\<lparr>sm_state := snd (seedConservativePaths (sy_observed env)
        (syncManifestStateLocked (at_M a) (finish_session (at_epoch a) (sm_state m)))), sm_stage := []\<rparr>)"
    using env s(2) guard m1 in_session_active [OF s(1)]
    by (simp add: Manager_FinalizeSyncV2_def Manager_FinalizeSync_def attempt_ok_def session_at_def Let_def
        clone_manifest [OF ok])
  then show ?thesis
    using m1(2,3) by (simp add: seed_committed wc_manifest_sync clone_manifest [OF ok])
qed

end
