(* ===== verification/Sync_Attempt.thy ===== *)
theory Sync_Attempt
  imports Sync_Properties Local_Snapshot
begin

text \<open>
  The client's side of a sync as a whole (\<open>internal/sync/initial_sync_session.go\<close>): the attempts of both
  protocol versions, the retries and the fallback from one to the other. The daemon's answers are
  those of its \<open>SyncManager\<close>; progress reports and traces are left out.

  \<open>client_env\<close> is what surrounds a run: the daemon's environment, the compressor, the capabilities of
  the handshake, the order in which concurrent calls arrive, and for each attempt what the watcher of
  the workspace does to the guard before it is asked, the time then, and what a rescan finds.
\<close>

record client_env =
  ce_env :: sync_env
  ce_gzip :: "string \<Rightarrow> string"
  ce_caps :: SyncCapabilities
  ce_order :: "ManifestEntry list list \<Rightarrow> ManifestEntry list list"
  ce_watch :: "nat \<Rightarrow> SyncGuard \<Rightarrow> SyncGuard"
  ce_now :: "nat \<Rightarrow> go_time"
  ce_scan :: "nat \<Rightarrow> LocalWorkspaceSnapshot res"

definition supportsCompression :: "SyncCapabilities \<Rightarrow> string" where
  "supportsCompression caps = (if sc_Compression caps = ''gzip'' then ''gzip'' else [])"

definition supportsSyncV2 :: "SyncCapabilities \<Rightarrow> bool" where
  "supportsSyncV2 caps \<longleftrightarrow>
     sc_ProtocolVersion caps \<ge> 2 \<and> sc_ManifestBatch caps \<and> sc_DeleteBatch caps \<and> sc_UploadBundle caps"

section \<open>Sending the manifest\<close>

definition syncManifestBatchSize :: nat where
  "syncManifestBatchSize = 512"

text \<open>The batches are sent concurrently; after a failure the others are given up.\<close>

definition sendManifestBatches ::
  "client_env \<Rightarrow> string \<Rightarrow> ManifestEntry list \<Rightarrow> bool \<Rightarrow> SyncManager \<Rightarrow> err option \<times> SyncManager" where
  "sendManifestBatches ce sessionID entries final m =
     (if entries = [] \<and> \<not> final then (None, m)
      else
        let batches = (if entries = [] then [[]] else chunks_of syncManifestBatchSize entries)
        in fold_err (Manager_SyncManifestBatch sessionID) (ce_order ce batches) m)"

definition manifestEntriesForPaths :: "LocalWorkspaceSnapshot \<Rightarrow> string list \<Rightarrow> ManifestEntry list" where
  "manifestEntriesForPaths snapshot paths =
     concat (map (\<lambda>path. case map_of (ls_HashedFiles snapshot) path of None \<Rightarrow> [] | Some f \<Rightarrow> [lf_Entry f]) paths)"

definition localWorkspaceFilesForPaths :: "LocalWorkspaceSnapshot \<Rightarrow> string list \<Rightarrow> LocalWorkspaceFile list" where
  "localWorkspaceFilesForPaths snapshot paths =
     concat (map (\<lambda>path. case map_of (ls_Files snapshot) path of None \<Rightarrow> [] | Some f \<Rightarrow> [f]) paths)"

section \<open>An attempt\<close>

type_synonym client_state = "LocalWorkspaceSnapshot \<times> SyncGuard \<times> SyncManager"

definition hash_paths ::
  "client_env \<Rightarrow> string list \<Rightarrow> LocalWorkspaceSnapshot \<Rightarrow> SyncGuard \<Rightarrow> LocalWorkspaceSnapshot \<times> SyncGuard" where
  "hash_paths ce paths snapshot g =
     map_prod id the (Guard_HashPaths (sy_sha (ce_env ce)) snapshot paths (Some g))"

text \<open>
  The loop of version 2: the plan is asked for until no more hashes are needed. Nothing in the client
  bounds it, so it is a partial function; \<open>None\<close> would be a loop that does not end.
\<close>

partial_function (option) plan_loop ::
  "client_env \<Rightarrow> string \<Rightarrow> LocalWorkspaceSnapshot \<Rightarrow> SyncGuard \<Rightarrow> SyncManager \<Rightarrow>
   (PlanSyncV2Response res \<times> client_state) option" where
  "plan_loop ce sessionID snapshot g m =
     (case Manager_PlanSyncV2 (ce_env ce) sessionID m of
        (Inl e, m) \<Rightarrow> Some (Inl e, snapshot, g, m)
      | (Inr planned, m) \<Rightarrow>
          if pl_HashPaths planned = [] then Some (Inr planned, snapshot, g, m)
          else
            (case hash_paths ce (pl_HashPaths planned) snapshot g of
               (snapshot, g) \<Rightarrow>
                 (case sendManifestBatches ce sessionID (manifestEntriesForPaths snapshot (pl_HashPaths planned)) False m of
                    (Some e, m) \<Rightarrow> Some (Inl e, snapshot, g, m)
                  | (None, m) \<Rightarrow> plan_loop ce sessionID snapshot g m)))"

definition transfer_planned ::
  "client_env \<Rightarrow> nat \<Rightarrow> string \<Rightarrow> u64 \<Rightarrow> u64 \<Rightarrow> PlanSyncV2Response \<Rightarrow> LocalWorkspaceSnapshot \<Rightarrow> SyncGuard \<Rightarrow>
   SyncManager \<Rightarrow> u64 \<Rightarrow> err option \<times> SyncGuard \<times> SyncManager" where
  "transfer_planned ce attempt sessionID epoch attemptID actions snapshot g m attemptState =
     (case hash_paths ce (pl_UploadPaths actions) snapshot g of
        (snapshot, g) \<Rightarrow>
          let files = localWorkspaceFilesForPaths snapshot (pl_UploadPaths actions);
              g = ce_watch ce attempt g;
              (r, m) = transfer_and_finalize (ce_env ce) (ce_gzip ce) (supportsCompression (ce_caps ce))
                (Guard_Validate (ce_now ce attempt) attemptState (Some g)) sessionID epoch attemptID actions files m
          in (r, g, m))"

definition performInitialSyncAttemptV2 ::
  "client_env \<Rightarrow> nat \<Rightarrow> u64 \<Rightarrow> u64 \<Rightarrow> LocalWorkspaceSnapshot \<Rightarrow> SyncGuard \<Rightarrow> SyncManager \<Rightarrow>
   (err option \<times> SyncGuard \<times> SyncManager) option" where
  "performInitialSyncAttemptV2 ce attempt epoch attemptState snapshot g m =
     (let attemptID = of_nat (attempt + 1)
      in case startSyncSession (ce_env ce) epoch attemptID (ls_Fingerprint snapshot) m of
           (Inl e, m) \<Rightarrow> Some (Some e, g, m)
         | (Inr session, m) \<Rightarrow>
             (case sendManifestBatches ce (sr_SessionID session) (ls_Entries snapshot) True m of
                (Some e, m) \<Rightarrow> Some (Some e, g, m)
              | (None, m) \<Rightarrow>
                  (case plan_loop ce (sr_SessionID session) snapshot g m of
                     None \<Rightarrow> None
                   | Some (Inl e, snapshot, g, m) \<Rightarrow> Some (Some e, g, m)
                   | Some (Inr actions, snapshot, g, m) \<Rightarrow>
                       Some (transfer_planned ce attempt (sr_SessionID session) epoch attemptID actions snapshot g m
                         attemptState))))"

text \<open>Version 1: one round of hashes, a call for each deletion and each file.\<close>

definition transfer_planned_v1 ::
  "client_env \<Rightarrow> nat \<Rightarrow> u64 \<Rightarrow> u64 \<Rightarrow> PlanSyncActionsResponse \<Rightarrow> LocalWorkspaceSnapshot \<Rightarrow> SyncGuard \<Rightarrow>
   SyncManager \<Rightarrow> u64 \<Rightarrow> err option \<times> SyncGuard \<times> SyncManager" where
  "transfer_planned_v1 ce attempt epoch attemptID actions snapshot g m attemptState =
     (case hash_paths ce (pa_UploadPaths actions) snapshot g of
        (snapshot, g) \<Rightarrow>
          (case fold_err (\<lambda>path. Manager_DeletePath epoch path zero_precondition)
                  (collapseDeletePaths (pa_DeletePaths actions)) m of
             (Some e, m) \<Rightarrow> (Some e, g, m)
           | (None, m) \<Rightarrow>
               (case fold_err (UploadLocalFile (ce_env ce) (ce_gzip ce) (supportsCompression (ce_caps ce)) epoch)
                       (localWorkspaceFilesForPaths snapshot (pa_UploadPaths actions)) m of
                  (Some e, m) \<Rightarrow> (Some e, g, m)
                | (None, m) \<Rightarrow>
                    let g = ce_watch ce attempt g
                    in (case Guard_Validate (ce_now ce attempt) attemptState (Some g) of
                          Some e \<Rightarrow> (Some e, g, m)
                        | None \<Rightarrow>
                            (case Manager_FinalizeSync (ce_env ce) epoch attemptID True m of (r, m) \<Rightarrow> (r, g, m))))))"

definition performInitialSyncAttemptV1 ::
  "client_env \<Rightarrow> nat \<Rightarrow> u64 \<Rightarrow> u64 \<Rightarrow> LocalWorkspaceSnapshot \<Rightarrow> SyncGuard \<Rightarrow> SyncManager \<Rightarrow>
   err option \<times> SyncGuard \<times> SyncManager" where
  "performInitialSyncAttemptV1 ce attempt epoch attemptState snapshot g m =
     (let attemptID = of_nat (attempt + 1); env = ce_env ce
      in case Manager_BeginSync env epoch attemptID (ls_Fingerprint snapshot) m of
           (Some e, m) \<Rightarrow> (Some e, g, m)
         | (None, m) \<Rightarrow>
             (case Manager_ScanManifest (ls_Entries snapshot) m of
                (Some e, m) \<Rightarrow> (Some e, g, m)
              | (None, m) \<Rightarrow>
                  (case Manager_PlanManifestHashes env m of
                     (Inl e, m) \<Rightarrow> (Some e, g, m)
                   | (Inr paths, m) \<Rightarrow>
                       let (snapshot, g) = (if paths = [] then (snapshot, g) else hash_paths ce paths snapshot g);
                           entries = (if paths = [] then [] else manifestEntriesForPaths snapshot paths);
                           (sent, m) = (if entries = [] then (None, m) else Manager_ScanManifest entries m)
                       in (case sent of
                             Some e \<Rightarrow> (Some e, g, m)
                           | None \<Rightarrow>
                               (case Manager_PlanSyncActions env m of
                                  (Inl e, m) \<Rightarrow> (Some e, g, m)
                                | (Inr actions, m) \<Rightarrow>
                                    transfer_planned_v1 ce attempt epoch attemptID actions snapshot g m attemptState)))))"

section \<open>Attempts and versions\<close>

definition initialSyncMaxAttempts :: nat where
  "initialSyncMaxAttempts = 3"

definition is_rescan_mismatch :: "err \<Rightarrow> bool" where
  "is_rescan_mismatch e \<longleftrightarrow> (case AsError e of Some (code, _) \<Rightarrow> code = ErrSyncRescanMismatch | None \<Rightarrow> False)"

definition err_changed :: err where
  "err_changed = NewError ErrSyncRescanMismatch ''workspace changed during initial sync''"

text \<open>
  The loop of \<open>performSyncV1\<close> and \<open>performSyncV2\<close> over the attempts that are left: a mismatch leads to a
  fresh snapshot and another attempt. \<open>lastErr\<close> is the error of the attempt before.
\<close>

fun attempts ::
  "(nat \<Rightarrow> u64 \<Rightarrow> LocalWorkspaceSnapshot \<Rightarrow> SyncGuard \<Rightarrow> SyncManager \<Rightarrow> (err option \<times> SyncGuard \<times> SyncManager) option) \<Rightarrow>
   client_env \<Rightarrow> nat \<Rightarrow> nat \<Rightarrow> err option \<Rightarrow> LocalWorkspaceSnapshot \<Rightarrow> SyncGuard \<Rightarrow> SyncManager \<Rightarrow>
   (err option \<times> SyncManager) option" where
  "attempts perform ce attempt 0 lastErr current g m =
     Some (case lastErr of Some e \<Rightarrow> (Some e, m) | None \<Rightarrow> (Some err_changed, m))"
| "attempts perform ce attempt (Suc left) lastErr current g m =
     (case perform attempt (AttemptStart (Some g)) current g m of
        None \<Rightarrow> None
      | Some (None, g, m) \<Rightarrow> Some (None, m)
      | Some (Some e, g, m) \<Rightarrow>
          if is_rescan_mismatch e then
            (case Guard_RefreshSnapshot (ce_scan ce attempt) g of
               (Inl refreshErr, g) \<Rightarrow> Some (Some refreshErr, m)
             | (Inr refreshed, g) \<Rightarrow> attempts perform ce (attempt + 1) left (Some e) refreshed g m)
          else Some (Some e, m))"

definition performSyncV1 ::
  "client_env \<Rightarrow> u64 \<Rightarrow> go_time \<Rightarrow> PersistentHashCache option \<Rightarrow> LocalWorkspaceSnapshot \<Rightarrow> SyncManager \<Rightarrow>
   (err option \<times> SyncManager) option" where
  "performSyncV1 ce epoch now cache snapshot m =
     attempts (\<lambda>attempt st current g m. Some (performInitialSyncAttemptV1 ce attempt epoch st current g m))
       ce 0 initialSyncMaxAttempts None snapshot (StartSyncGuard now snapshot cache) m"

definition performSyncV2 ::
  "client_env \<Rightarrow> u64 \<Rightarrow> go_time \<Rightarrow> PersistentHashCache option \<Rightarrow> LocalWorkspaceSnapshot \<Rightarrow> SyncManager \<Rightarrow>
   (err option \<times> SyncManager) option" where
  "performSyncV2 ce epoch now cache snapshot m =
     attempts (\<lambda>attempt st current g m. performInitialSyncAttemptV2 ce attempt epoch st current g m)
       ce 0 initialSyncMaxAttempts None snapshot (StartSyncGuard now snapshot cache) m"

definition SyncProjectWorkspace ::
  "client_env \<Rightarrow> u64 \<Rightarrow> go_time \<Rightarrow> PersistentHashCache option \<Rightarrow> LocalWorkspaceSnapshot \<Rightarrow> SyncManager \<Rightarrow>
   (err option \<times> SyncManager) option" where
  "SyncProjectWorkspace ce epoch now cache snapshot m =
     (if supportsSyncV2 (ce_caps ce) then
        (case performSyncV2 ce epoch now cache snapshot m of
           None \<Rightarrow> None
         | Some (None, m) \<Rightarrow> Some (None, m)
         | Some (Some e, m) \<Rightarrow>
             if (case AsError e of Some (code, _) \<Rightarrow> code \<noteq> ErrInvalidArgument | None \<Rightarrow> False) then Some (Some e, m)
             else performSyncV1 ce epoch now cache snapshot m)
      else performSyncV1 ce epoch now cache snapshot m)"

end
