(* ===== verification/Snapshot_Hashes.thy ===== *)
theory Snapshot_Hashes
  imports Sync_Attempt
begin

text \<open>
  The hashes of a snapshot: hashing files and taking hashes from the caches changes a snapshot only in
  its hashes, and with caches that are true every hash is that of the file.
\<close>

section \<open>Snapshots that differ in hashes\<close>

abbreviation file_hash :: "LocalWorkspaceFile \<Rightarrow> string" where
  "file_hash f \<equiv> me_ContentHash (lf_Entry f)"

definition variant :: "LocalWorkspaceFile \<Rightarrow> LocalWorkspaceFile \<Rightarrow> bool" where
  "variant f b \<longleftrightarrow> with_hash [] f = with_hash [] b"

lemma variant_refl [simp]: "variant b b"
  by (simp add: variant_def)

lemma variant_with_hash [simp]: "variant (with_hash h f) b \<longleftrightarrow> variant f b"
  by (simp add: variant_def with_hash_def)

lemma variant_fields:
  assumes "variant f b"
  shows "lf_Path f = lf_Path b" "lf_Data f = lf_Data b" "lf_PreciseMTime f = lf_PreciseMTime b"
    "me_Metadata (lf_Entry f) = me_Metadata (lf_Entry b)" "me_Path (lf_Entry f) = me_Path (lf_Entry b)"
    "me_IsDir (lf_Entry f) = me_IsDir (lf_Entry b)" "HashCacheKey f = HashCacheKey b"
  using assms
  by (cases f; cases b; cases "lf_Entry f"; cases "lf_Entry b"; simp add: variant_def with_hash_def HashCacheKey_def)+

lemma variant_trans: "variant f b \<Longrightarrow> variant b c \<Longrightarrow> variant f c"
  by (simp add: variant_def)

lemma variant_entry: "variant f b \<Longrightarrow> lf_Entry f = (lf_Entry b)\<lparr>me_ContentHash := file_hash f\<rparr>"
  by (cases f; cases b; cases "lf_Entry f"; cases "lf_Entry b") (simp add: variant_def with_hash_def)

lemma file_hash_with_hash [simp]: "file_hash (with_hash h f) = h" "lf_Data (with_hash h f) = lf_Data f"
  "lf_Path (with_hash h f) = lf_Path f" "HashCacheKey (with_hash h f) = HashCacheKey f"
  by (simp_all add: with_hash_def HashCacheKey_def)

text \<open>A file that knows its hash truly or not at all; a cached file whose hash is that of \<open>b\<close> if it is current.\<close>

definition true_hash :: "(string \<Rightarrow> string) \<Rightarrow> LocalWorkspaceFile \<Rightarrow> bool" where
  "true_hash sha f \<longleftrightarrow> file_hash f = [] \<or> file_hash f = sha (lf_Data f)"

definition keyed_files :: "(string, LocalWorkspaceFile) gomap \<Rightarrow> bool" where
  "keyed_files files \<longleftrightarrow> (\<forall>p b. map_of files p = Some b \<longrightarrow> lf_Path b = p)"

definition cache_true :: "(string \<Rightarrow> string) \<Rightarrow> (string, LocalWorkspaceFile) gomap \<Rightarrow> (string, LocalWorkspaceFile) gomap \<Rightarrow> bool" where
  "cache_true sha files cache \<longleftrightarrow>
     (\<forall>p c q b. (p, c) \<in> set cache \<longrightarrow> map_of files q = Some b \<longrightarrow> HashCacheKey c = HashCacheKey b \<longrightarrow>
        file_hash c \<noteq> [] \<longrightarrow> file_hash c = sha (lf_Data b))"

lemma cache_trueD:
  "cache_true sha files cache \<Longrightarrow> (p, c) \<in> set cache \<Longrightarrow> map_of files q = Some b \<Longrightarrow> HashCacheKey c = HashCacheKey b \<Longrightarrow>
   file_hash c \<noteq> [] \<Longrightarrow> file_hash c = sha (lf_Data b)"
  unfolding cache_true_def by blast

lemma set_update_subset: "set (AList.update k v xs) \<subseteq> insert (k, v) (set xs)"
  by (induction xs) auto

text \<open>Two files of one table with the same key are one file.\<close>

lemma cache_true_update:
  assumes "cache_true sha files cache" "keyed_files files" "map_of files p = Some b" "HashCacheKey f = HashCacheKey b"
    "file_hash f = sha (lf_Data b)"
  shows "cache_true sha files (AList.update k f cache)"
  unfolding cache_true_def
proof (intro allI impI)
  fix p' c q b' assume c: "(p', c) \<in> set (AList.update k f cache)" "map_of files q = Some b'" "HashCacheKey c = HashCacheKey b'"
    "file_hash c \<noteq> []"
  have "(p', c) \<in> set cache \<or> c = f" using c(1) set_update_subset by fastforce
  then show "file_hash c = sha (lf_Data b')"
  proof
    assume "c = f"
    then have "HashCacheKey b = HashCacheKey b'" using assms(4) c(3) by simp
    then have "q = p" using assms(2,3) c(2) by (auto simp: keyed_files_def HashCacheKey_def)
    then show ?thesis using \<open>c = f\<close> assms(3,5) c(2) by simp
  qed (use assms(1) c cache_trueD in blast)
qed

abbreviation keyed :: "LocalWorkspaceSnapshot \<Rightarrow> bool" where
  "keyed B \<equiv> keyed_files (ls_Files B)"

definition snapshot_of :: "(string \<Rightarrow> string) \<Rightarrow> LocalWorkspaceSnapshot \<Rightarrow> LocalWorkspaceSnapshot \<Rightarrow> bool" where
  "snapshot_of sha B s \<longleftrightarrow> ls_Dirs s = ls_Dirs B \<and> gomap_ok (ls_Files s) \<and>
     (\<forall>p. rel_option (\<lambda>f b. variant f b \<and> true_hash sha f) (map_of (ls_Files s) p) (map_of (ls_Files B) p)) \<and>
     cache_true sha (ls_Files B) (ls_HashedFiles s)"

text \<open>The file at \<open>p\<close> is hashed, in both tables.\<close>

definition hashed_at :: "(string \<Rightarrow> string) \<Rightarrow> string \<Rightarrow> LocalWorkspaceSnapshot \<Rightarrow> bool" where
  "hashed_at sha p s \<longleftrightarrow> (\<exists>f. map_of (ls_Files s) p = Some f \<and> map_of (ls_HashedFiles s) p = Some f \<and>
     file_hash f = sha (lf_Data f))"

lemma snapshot_of_file:
  assumes "snapshot_of sha B s" "map_of (ls_Files s) p = Some f"
  obtains b where "map_of (ls_Files B) p = Some b" "variant f b" "true_hash sha f"
proof -
  have "rel_option (\<lambda>f b. variant f b \<and> true_hash sha f) (map_of (ls_Files s) p) (map_of (ls_Files B) p)"
    using assms(1) by (simp add: snapshot_of_def)
  then show thesis using assms(2) that by (cases "map_of (ls_Files B) p") auto
qed

lemma put_hashed_ok:
  assumes B: "keyed B" and s: "snapshot_of sha B s" and b: "map_of (ls_Files B) p = Some b" and f: "variant f b"
  shows "snapshot_of sha B (put_hashed p (with_hash (sha (lf_Data b)) f) s)"
    "hashed_at sha p (put_hashed p (with_hash (sha (lf_Data b)) f) s)"
proof -
  let ?f = "with_hash (sha (lf_Data b)) f"
  have d: "lf_Data f = lf_Data b" using f by (rule variant_fields)
  show "hashed_at sha p (put_hashed p ?f s)" using d by (simp add: hashed_at_def put_hashed_def)
  have "rel_option (\<lambda>f b. variant f b \<and> true_hash sha f) (map_of (AList.update p ?f (ls_Files s)) q) (map_of (ls_Files B) q)" for q
    using s b f d by (simp add: snapshot_of_def true_hash_def)
  moreover have "cache_true sha (ls_Files B) (AList.update p ?f (ls_HashedFiles s))"
    using s variant_fields(7) [OF f] by (intro cache_true_update [OF _ B b]) (simp_all add: snapshot_of_def)
  ultimately show "snapshot_of sha B (put_hashed p ?f s)" using s by (simp add: snapshot_of_def put_hashed_def)
qed

lemma hashed_at_put:
  "hashed_at sha q s \<Longrightarrow> file_hash f = sha (lf_Data f) \<Longrightarrow> hashed_at sha q (put_hashed p f s)"
  by (auto simp: hashed_at_def put_hashed_def)

text \<open>Both together: steps that keep a snapshot true and the hashes it has.\<close>

definition refined :: "(string \<Rightarrow> string) \<Rightarrow> LocalWorkspaceSnapshot \<Rightarrow> LocalWorkspaceSnapshot \<Rightarrow> LocalWorkspaceSnapshot \<Rightarrow> bool" where
  "refined sha B s s' \<longleftrightarrow> snapshot_of sha B s' \<and> (\<forall>p. hashed_at sha p s \<longrightarrow> hashed_at sha p s')"

lemma refined_refl: "snapshot_of sha B s \<Longrightarrow> refined sha B s s"
  by (simp add: refined_def)

lemma refined_trans: "refined sha B s s' \<Longrightarrow> refined sha B s' s'' \<Longrightarrow> refined sha B s s''"
  by (simp add: refined_def)

lemma refined_put:
  "keyed B \<Longrightarrow> snapshot_of sha B s \<Longrightarrow> map_of (ls_Files B) p = Some b \<Longrightarrow> variant f b \<Longrightarrow>
   refined sha B s (put_hashed p (with_hash (sha (lf_Data b)) f) s)"
  unfolding refined_def using put_hashed_ok hashed_at_put variant_fields(2) by (metis file_hash_with_hash(1,2))

lemma refined_entries: "snapshot_of sha B s \<Longrightarrow> refined sha B s (s\<lparr>ls_Entries := es\<rparr>)"
  by (simp add: refined_def snapshot_of_def hashed_at_def)

section \<open>Hashing a selection\<close>

definition known :: "LocalWorkspaceSnapshot \<Rightarrow> string \<Rightarrow> LocalWorkspaceFile \<Rightarrow> bool" where
  "known B p f \<longleftrightarrow> (\<exists>b. map_of (ls_Files B) p = Some b \<and> variant f b)"

lemma known_path: "keyed B \<Longrightarrow> known B p f \<Longrightarrow> lf_Path f = p"
  using variant_fields(1) by (auto simp: known_def keyed_files_def)

lemma snapshot_of_known: "snapshot_of sha B s \<Longrightarrow> (p, f) \<in> set (ls_Files s) \<Longrightarrow> known B p f"
  using snapshot_of_file [of sha B s p f] gomap_ok_mem_iff [of "ls_Files s" p f]
  unfolding known_def snapshot_of_def by metis

lemma reusable_hash:
  assumes "snapshot_of sha B s" "map_of (ls_Files B) p = Some b" "variant f b" "reusable allow s p f = Some h"
  shows "h = sha (lf_Data b)"
proof -
  obtain c where c: "map_of (ls_HashedFiles s) p = Some c" "HashCacheKey c = HashCacheKey f" "file_hash c = h" "h \<noteq> []"
    using assms(4) by (auto simp: reusable_def split: if_splits option.splits)
  have "cache_true sha (ls_Files B) (ls_HashedFiles s)" using assms(1) by (simp add: snapshot_of_def)
  then show ?thesis
    using cache_trueD [OF _ map_of_SomeD [OF c(1)] assms(2)] c(2-) variant_fields(7) [OF assms(3)] by simp
qed

lemma hash_visit_ok:
  assumes B: "keyed B" and s: "snapshot_of sha B s" and k: "known B p f"
    and v: "hash_visit sel all allow (p, f) (s, upd, ts) = (s', upd', ts')"
  shows "refined sha B s s'" "all \<or> map_of sel p \<noteq> None \<Longrightarrow> hashed_at sha p s' \<or> f \<in> set ts'"
    "set ts \<subseteq> set ts'" "set ts' \<subseteq> insert f (set ts)"
proof -
  obtain b where b: "map_of (ls_Files B) p = Some b" "variant f b" using k by (auto simp: known_def)
  have "refined sha B s s' \<and> (all \<or> map_of sel p \<noteq> None \<longrightarrow> hashed_at sha p s' \<or> f \<in> set ts') \<and>
    set ts \<subseteq> set ts' \<and> set ts' \<subseteq> insert f (set ts)"
  proof (cases "\<not> all \<and> map_of sel p = None")
    case True
    then show ?thesis using v refined_refl [OF s] by (auto simp: hash_visit_def)
  next
    case False
    show ?thesis
    proof (cases "reusable allow s p f")
      case None
      then show ?thesis using v False refined_refl [OF s] by (auto simp: hash_visit_def)
    next
      case (Some h)
      then have "h = sha (lf_Data b)" by (rule reusable_hash [OF s b])
      then show ?thesis
        using v False Some refined_put [OF B s b] put_hashed_ok(2) [OF B s b] by (auto simp: hash_visit_def Let_def)
    qed
  qed
  then show "refined sha B s s'" "all \<or> map_of sel p \<noteq> None \<Longrightarrow> hashed_at sha p s' \<or> f \<in> set ts'"
    "set ts \<subseteq> set ts'" "set ts' \<subseteq> insert f (set ts)" by blast+
qed

lemma hash_visits_ok:
  "keyed B \<Longrightarrow> snapshot_of sha B s \<Longrightarrow> \<forall>(p, f) \<in> set xs. known B p f \<Longrightarrow>
   fold (hash_visit sel all allow) xs (s, upd, ts) = (s', upd', ts') \<Longrightarrow>
   refined sha B s s' \<and> (\<forall>(p, f) \<in> set xs. all \<or> map_of sel p \<noteq> None \<longrightarrow> hashed_at sha p s' \<or> f \<in> set ts') \<and>
   set ts \<subseteq> set ts' \<and> set ts' \<subseteq> set ts \<union> snd ` set xs"
proof (induction xs arbitrary: s upd ts)
  case Nil
  then show ?case by (simp add: refined_refl)
next
  case (Cons x xs)
  obtain p f where x: "x = (p, f)" by fastforce
  obtain s1 upd1 ts1 where v: "hash_visit sel all allow (p, f) (s, upd, ts) = (s1, upd1, ts1)" by (cases "hash_visit sel all allow (p, f) (s, upd, ts)") auto
  have k: "known B p f" using Cons.prems(3) x by simp
  note one = hash_visit_ok [OF Cons.prems(1,2) k v]
  have s1: "snapshot_of sha B s1" using one(1) by (simp add: refined_def)
  have rest: "refined sha B s1 s' \<and> (\<forall>(p, f) \<in> set xs. all \<or> map_of sel p \<noteq> None \<longrightarrow> hashed_at sha p s' \<or> f \<in> set ts') \<and>
      set ts1 \<subseteq> set ts' \<and> set ts' \<subseteq> set ts1 \<union> snd ` set xs"
    using Cons.IH [OF Cons.prems(1) s1] Cons.prems(3,4) x v by simp
  have "refined sha B s s'" using one(1) rest refined_trans by blast
  moreover have "all \<or> map_of sel p \<noteq> None \<longrightarrow> hashed_at sha p s' \<or> f \<in> set ts'"
    using one(2) rest unfolding refined_def by blast
  ultimately show ?case using rest one(3,4) x by auto
qed

lemma put_targets_ok:
  "snapshot_of sha B s \<Longrightarrow> keyed B \<Longrightarrow> \<forall>f \<in> set ts. \<exists>p. known B p f \<Longrightarrow>
   refined sha B s (fold (\<lambda>f. put_hashed (lf_Path f) f) (hashWorkspaceFilesParallel sha ts) s) \<and>
   (\<forall>f \<in> set ts. hashed_at sha (lf_Path f) (fold (\<lambda>f. put_hashed (lf_Path f) f) (hashWorkspaceFilesParallel sha ts) s))"
proof (induction ts arbitrary: s)
  case Nil
  then show ?case by (simp add: hashWorkspaceFilesParallel_def refined_refl)
next
  case (Cons f ts)
  obtain p b where b: "map_of (ls_Files B) p = Some b" "variant f b" "lf_Path f = p"
    using Cons.prems known_path by (metis known_def list.set_intros(1))
  let ?s = "put_hashed p (with_hash (sha (lf_Data b)) f) s"
  have put: "refined sha B s ?s" "hashed_at sha p ?s"
    using refined_put [OF Cons.prems(2,1) b(1,2)] put_hashed_ok(2) [OF Cons.prems(2,1) b(1,2)] by blast+
  have d: "hashLocalFile sha f = sha (lf_Data b)" using variant_fields(2) [OF b(2)] by (simp add: hashLocalFile_def)
  have "snapshot_of sha B ?s" using put(1) by (simp add: refined_def)
  from Cons.IH [OF this Cons.prems(2)] Cons.prems(3) put d b(3)
  show ?case
    unfolding hashWorkspaceFilesParallel_def using refined_trans [OF put(1)] by (simp add: refined_def)
qed

lemma hashWorkspaceSnapshot_ok:
  fixes sel :: "(string, unit) gomap" and all allow :: bool
  assumes s: "snapshot_of sha B s" and B: "keyed B"
  defines "s' \<equiv> hashWorkspaceSnapshot sha s sel all allow"
  shows "refined sha B s s'" "map_of (ls_Files B) p \<noteq> None \<Longrightarrow> all \<or> map_of sel p \<noteq> None \<Longrightarrow> hashed_at sha p s'"
proof -
  obtain s1 upd ts where f: "fold (hash_visit sel all allow) (ls_Files s) (s, ls_Dirs s, []) = (s1, upd, ts)"
    by (cases "fold (hash_visit sel all allow) (ls_Files s) (s, ls_Dirs s, [])") auto
  have k: "\<forall>(p, f) \<in> set (ls_Files s). known B p f" using snapshot_of_known [OF s] by blast
  note v = hash_visits_ok [OF B s k f]
  let ?put = "fold (\<lambda>f. put_hashed (lf_Path f) f) (hashWorkspaceFilesParallel sha ts)"
  have s1: "snapshot_of sha B s1" using v by (simp add: refined_def)
  have ts: "\<forall>f \<in> set ts. \<exists>p. known B p f" using v k by fastforce
  have put: "refined sha B s1 (?put s1)" "f \<in> set ts \<Longrightarrow> hashed_at sha (lf_Path f) (?put s1)" for f
    using put_targets_ok [OF s1 B ts] by blast+
  have fin: "refined sha B (?put s1) s'"
  proof -
    have "snapshot_of sha B (?put s1)" using put(1) by (simp add: refined_def)
    then show ?thesis unfolding s'_def hashWorkspaceSnapshot_def f
      by (simp add: Let_def refined_def snapshot_of_def hashed_at_def)
  qed
  show "refined sha B s s'" using v put(1) fin refined_trans by blast
  assume p: "map_of (ls_Files B) p \<noteq> None" "all \<or> map_of sel p \<noteq> None"
  have "rel_option (\<lambda>f b. variant f b \<and> true_hash sha f) (map_of (ls_Files s) p) (map_of (ls_Files B) p)"
    using s by (simp add: snapshot_of_def)
  then obtain f where pf: "map_of (ls_Files s) p = Some f" using p(1) by (cases "map_of (ls_Files s) p") auto
  then have mem: "(p, f) \<in> set (ls_Files s)" by (rule map_of_SomeD)
  then have "lf_Path f = p" using k known_path [OF B] by blast
  then have "hashed_at sha p s1 \<or> hashed_at sha p (?put s1)" using v mem p(2) put(2) by fastforce
  then show "hashed_at sha p s'" using put(1) fin unfolding refined_def by blast
qed

section \<open>The caches of the guard\<close>

definition records_true :: "(string \<Rightarrow> string) \<Rightarrow> LocalWorkspaceSnapshot \<Rightarrow> PersistentHashCache option \<Rightarrow> bool" where
  "records_true sha B cache \<longleftrightarrow>
     (\<forall>c p r b. cache = Some c \<longrightarrow> map_of (hc_records c) p = Some r \<longrightarrow> map_of (ls_Files B) p = Some b \<longrightarrow>
        record_fits r (HashCacheKey b) \<longrightarrow> hr_Hash r = sha (lf_Data b))"

definition guard_true :: "(string \<Rightarrow> string) \<Rightarrow> LocalWorkspaceSnapshot \<Rightarrow> SyncGuard \<Rightarrow> bool" where
  "guard_true sha B g \<longleftrightarrow> cache_true sha (ls_Files B) (sg_localHashCache g) \<and>
     records_true sha B (sg_persistentHashCache g)"

lemma Cache_Lookup_true:
  assumes "records_true sha B cache" "keyed B" "known B p f" "Cache_Lookup f cache = (h, cache')"
  shows "records_true sha B cache'" "h = Some x \<Longrightarrow> x = sha (lf_Data f)"
proof -
  obtain b where b: "map_of (ls_Files B) p = Some b" "variant f b" using assms(3) by (auto simp: known_def)
  note v = variant_fields [OF b(2)]
  have path: "lf_Path f = p" by (rule known_path [OF assms(2,3)])
  have "records_true sha B cache' \<and> (h = Some x \<longrightarrow> x = sha (lf_Data f))"
    using assms(1,4) b(1) path v(2,7)
    by (cases cache) (auto simp: Cache_Lookup_def records_true_def split: option.splits if_splits)
  then show "records_true sha B cache'" "h = Some x \<Longrightarrow> x = sha (lf_Data f)" by blast+
qed

lemma apply_cached_ok:
  assumes "keyed B" "snapshot_of sha B s" "records_true sha B cache" "known B p f" "apply_cached (p, f) (s, cache) = (s', cache')"
  shows "refined sha B s s' \<and> records_true sha B cache'"
proof -
  obtain b where b: "map_of (ls_Files B) p = Some b" "variant f b" using assms(4) by (auto simp: known_def)
  obtain h c where h: "Cache_Lookup f cache = (h, c)" by fastforce
  note l = Cache_Lookup_true [OF assms(3,1,4) h]
  show ?thesis
  proof (cases h)
    case None
    then show ?thesis using assms(5) h l(1) refined_refl [OF assms(2)] by (simp add: apply_cached_def)
  next
    case (Some x)
    then have "x = sha (lf_Data b)" using l(2) variant_fields(2) [OF b(2)] by simp
    then show ?thesis using assms(5) h Some l(1) refined_put [OF assms(1,2) b] by (simp add: apply_cached_def)
  qed
qed

lemma apply_cached_fold:
  "keyed B \<Longrightarrow> snapshot_of sha B s \<Longrightarrow> records_true sha B cache \<Longrightarrow> \<forall>(p, f) \<in> set xs. known B p f \<Longrightarrow>
   fold apply_cached xs (s, cache) = (s', cache') \<Longrightarrow> refined sha B s s' \<and> records_true sha B cache'"
proof (induction xs arbitrary: s cache)
  case Nil
  then show ?case by (simp add: refined_refl)
next
  case (Cons x xs)
  obtain p f where x: "x = (p, f)" by fastforce
  obtain s1 cache1 where a: "apply_cached (p, f) (s, cache) = (s1, cache1)" by fastforce
  have "known B p f" using Cons.prems(4) x by simp
  note one = apply_cached_ok [OF Cons.prems(1-3) this a]
  then have "snapshot_of sha B s1" by (simp add: refined_def)
  with Cons.IH [of s1 cache1] Cons.prems one x a have "refined sha B s1 s' \<and> records_true sha B cache'" by simp
  then show ?case using one refined_trans by blast
qed

lemma apply_local_ok:
  "keyed B \<Longrightarrow> snapshot_of sha B s \<Longrightarrow> cache_true sha (ls_Files B) cache \<Longrightarrow> refined sha B s (apply_local cache s)"
proof (induction cache arbitrary: s)
  case Nil
  then show ?case by (simp add: apply_local_def refined_refl)
next
  case (Cons x cache)
  obtain p c where x: "x = (p, c)" by fastforce
  have tl: "cache_true sha (ls_Files B) cache" using Cons.prems(3) by (simp add: cache_true_def)
  let ?s = "apply_local [x] s"
  have one: "refined sha B s ?s"
  proof (cases "map_of (ls_Files s) p")
    case None
    then show ?thesis using refined_refl [OF Cons.prems(2)] by (simp add: apply_local_def x)
  next
    case (Some f)
    obtain b where b: "map_of (ls_Files B) p = Some b" "variant f b" by (rule snapshot_of_file [OF Cons.prems(2) Some])
    show ?thesis
    proof (cases "HashCacheKey c \<noteq> HashCacheKey f \<or> file_hash c = []")
      case True
      then show ?thesis using Some refined_refl [OF Cons.prems(2)] by (simp add: apply_local_def x)
    next
      case False
      then have "file_hash c = sha (lf_Data b)"
        using cache_trueD [OF Cons.prems(3), of p c p b] b variant_fields(7) [OF b(2)] x by simp
      then show ?thesis using Some False refined_put [OF Cons.prems(1,2) b] by (simp add: apply_local_def x)
    qed
  qed
  then have "snapshot_of sha B ?s" by (simp add: refined_def)
  from Cons.IH [OF Cons.prems(1) this tl] one refined_trans
  have "refined sha B s (apply_local cache ?s)" by blast
  then show ?case by (simp add: apply_local_def)
qed

lemma applyLocalHashCache_ok:
  assumes B: "keyed B" and s: "snapshot_of sha B s" and g: "guard_true sha B g"
    and a: "applyLocalHashCacheLocked s g = (s', g')"
  shows "refined sha B s s' \<and> guard_true sha B g' \<and> sg_localHashCache g' = sg_localHashCache g"
proof -
  let ?p = "apply_local (sg_localHashCache g) s"
  have one: "refined sha B s ?p" by (rule apply_local_ok [OF B s]) (use g in \<open>simp add: guard_true_def\<close>)
  then have p: "snapshot_of sha B ?p" by (simp add: refined_def)
  let ?xs = "filter (\<lambda>(path, _). map_of (ls_HashedFiles ?p) path = None) (ls_Files ?p)"
  obtain cache where f: "fold apply_cached ?xs (?p, sg_persistentHashCache g) = (s', cache)"
    "g' = g\<lparr>sg_persistentHashCache := cache\<rparr>"
    using a by (auto simp: applyLocalHashCacheLocked_def Let_def split: prod.splits)
  have "\<forall>(p, f) \<in> set ?xs. known B p f" using snapshot_of_known [OF p] by auto
  from apply_cached_fold [OF B p _ this f(1)] g have "refined sha B ?p s' \<and> records_true sha B cache"
    by (simp add: guard_true_def)
  then show ?thesis using one g refined_trans f(2) by (auto simp: guard_true_def)
qed

lemma Cache_Store_true:
  assumes "records_true sha B cache" "keyed B" "cache_true sha (ls_Files B) [(p, f)]"
  shows "records_true sha B (Cache_Store f cache)"
proof -
  have "file_hash f = sha (lf_Data b)"
    if "map_of (ls_Files B) (lf_Path f) = Some b" "file_hash f \<noteq> []"
      "hk_Size (HashCacheKey f) = hk_Size (HashCacheKey b)" "hk_Mode (HashCacheKey f) = hk_Mode (HashCacheKey b)"
      "hk_MTimeNanos (HashCacheKey f) = hk_MTimeNanos (HashCacheKey b)" for b
  proof -
    have "HashCacheKey f = HashCacheKey b"
      using that assms(2) by (simp add: HashCacheKey_def keyed_files_def)
    then show ?thesis using cache_trueD [OF assms(3), of p f "lf_Path f" b] that by simp
  qed
  then show ?thesis
    using assms(1) by (cases cache) (auto simp: Cache_Store_def records_true_def record_fits_def Let_def split: if_splits)
qed

lemma Cache_Stores_true:
  "keyed B \<Longrightarrow> records_true sha B cache \<Longrightarrow> cache_true sha (ls_Files B) xs \<Longrightarrow>
   records_true sha B (fold (\<lambda>(_, f). Cache_Store f) xs cache)"
proof (induction xs arbitrary: cache)
  case (Cons x xs)
  obtain p f where x: "x = (p, f)" by fastforce
  have "cache_true sha (ls_Files B) [(p, f)]" "cache_true sha (ls_Files B) xs"
    using Cons.prems(3) x by (auto simp: cache_true_def)
  then show ?case using Cons.IH Cons.prems Cache_Store_true x by simp
qed simp

lemma cache_true_updates:
  "cache_true sha files xs \<Longrightarrow> cache_true sha files cache \<Longrightarrow>
   cache_true sha files (fold (\<lambda>(path, f). AList.update path f) xs cache)"
proof (induction xs arbitrary: cache)
  case (Cons x xs)
  obtain p f where x: "x = (p, f)" by fastforce
  have "cache_true sha files xs" using Cons.prems(1) by (auto simp: cache_true_def)
  moreover have "cache_true sha files (AList.update p f cache)"
    unfolding cache_true_def
  proof (intro allI impI)
    fix p' c q b assume c: "(p', c) \<in> set (AList.update p f cache)" "map_of files q = Some b"
      "HashCacheKey c = HashCacheKey b" "file_hash c \<noteq> []"
    have "(p', c) \<in> set cache \<or> (p', c) \<in> set (x # xs)" using c(1) set_update_subset x by fastforce
    then show "file_hash c = sha (lf_Data b)"
      using cache_trueD [OF Cons.prems(2) _ c(2-)] cache_trueD [OF Cons.prems(1) _ c(2-)] by blast
  qed
  ultimately show ?case using Cons.IH x by simp
qed simp

lemma Cache_Save_true: "records_true sha B cache \<Longrightarrow> records_true sha B (snd (Cache_Save cache))"
  by (cases cache) (auto simp: Cache_Save_def records_true_def)

lemma Guard_HashPaths_ok:
  assumes B: "keyed B" and s: "snapshot_of sha B s" and g: "guard_true sha B g"
    and h: "Guard_HashPaths sha s paths (Some g) = (s', g')"
  shows "\<exists>g1. g' = Some g1 \<and> guard_true sha B g1 \<and> refined sha B s s' \<and>
    (\<forall>p \<in> set paths. map_of (ls_Files B) p \<noteq> None \<longrightarrow> hashed_at sha p s')"
proof -
  obtain s1 g1 where a: "applyLocalHashCacheLocked s g = (s1, g1)" by fastforce
  note one = applyLocalHashCache_ok [OF B s g a]
  then have s1: "snapshot_of sha B s1" and g1: "guard_true sha B g1" by (simp_all add: refined_def)
  have s': "s' = hashWorkspaceSnapshot sha s1 (pathSet paths) False True"
    using h a by (simp add: Guard_HashPaths_def HashWorkspaceSnapshotPaths_def Let_def)
  note two = hashWorkspaceSnapshot_ok [OF s1 B, where sel = "pathSet paths" and all = False and allow = True, folded s']
  have ct: "cache_true sha (ls_Files B) (ls_HashedFiles s')" using two(1) by (simp add: refined_def snapshot_of_def)
  let ?g = "g1\<lparr>sg_localHashCache := fold (\<lambda>(path, f). AList.update path f) (ls_HashedFiles s') (sg_localHashCache g1),
    sg_persistentHashCache := snd (Cache_Save (fold (\<lambda>(_, f). Cache_Store f) (ls_HashedFiles s') (sg_persistentHashCache g1)))\<rparr>"
  have "g' = Some ?g" using h a s' by (simp add: Guard_HashPaths_def HashWorkspaceSnapshotPaths_def Let_def)
  moreover have "guard_true sha B ?g"
    using g1 ct B by (simp add: guard_true_def cache_true_updates Cache_Save_true Cache_Stores_true)
  moreover have "refined sha B s s'" using one two(1) refined_trans by blast
  moreover have "map_of (pathSet paths) p \<noteq> None" if "p \<in> set paths" for p
  proof -
    have "fst ` set (fold (\<lambda>path. AList.update path ()) ps acc) = set ps \<union> fst ` set acc"
      for ps and acc :: "(string, unit) gomap"
      by (induction ps arbitrary: acc) (auto simp: dom_update)
    then have "p \<in> fst ` set (pathSet paths)" using that by (simp add: pathSet_def)
    then show ?thesis by (simp add: map_of_eq_None_iff)
  qed
  ultimately show ?thesis using two(2) by blast
qed

end
