(* ===== verification/Sync_Convergence.thy ===== *)
theory Sync_Convergence
  imports Snapshot_Hashes
begin

text \<open>
  A whole sync, from the client's snapshot to the daemon's workspace: the manifest in batches, the
  plan with its rounds of hashes, the transfer and the publication.
\<close>

section \<open>The client's snapshot\<close>

definition content_of :: "LocalWorkspaceSnapshot \<Rightarrow> string \<Rightarrow> string" where
  "content_of B p = (case map_of (ls_Files B) p of Some b \<Rightarrow> lf_Data b | None \<Rightarrow> [])"

text \<open>
  What a scan yields: every path valid and with its parent directories, no path twice, files with
  their size and permissions, times in seconds, hashes true where they are known; the entries are
  those of the directories and the files.
\<close>

definition path_ok :: "LocalWorkspaceSnapshot \<Rightarrow> string \<Rightarrow> bool" where
  "path_ok B p \<longleftrightarrow> ValidateRelativePath p = None \<and> TrimSpace p = p \<and>
     (\<forall>a \<in> set (ancestors p). map_of (ls_Dirs B) a \<noteq> None) \<and> (\<forall>q. p \<noteq> q @ commit_suffix)"

definition file_ok :: "string \<Rightarrow> LocalWorkspaceFile \<Rightarrow> bool" where
  "file_ok p f \<longleftrightarrow> lf_Path f = p \<and> me_Path (lf_Entry f) = p \<and> \<not> me_IsDir (lf_Entry f) \<and>
     cloneManifestEntry (lf_Entry f) = lf_Entry f \<and>
     perm (fm_Mode (me_Metadata (lf_Entry f))) = fm_Mode (me_Metadata (lf_Entry f)) \<and>
     fm_Size (me_Metadata (lf_Entry f)) = int (length (lf_Data f))"

definition dir_ok :: "string \<Rightarrow> ManifestEntry \<Rightarrow> bool" where
  "dir_ok p d \<longleftrightarrow> me_Path d = p \<and> me_IsDir d \<and> cloneManifestEntry d = d"

definition scanned :: "(string \<Rightarrow> string) \<Rightarrow> LocalWorkspaceSnapshot \<Rightarrow> bool" where
  "scanned sha B \<longleftrightarrow> gomap_ok (ls_Files B) \<and> gomap_ok (ls_Dirs B) \<and>
     (\<forall>p f. map_of (ls_Files B) p = Some f \<longrightarrow> file_ok p f \<and> true_hash sha f \<and> path_ok B p \<and> map_of (ls_Dirs B) p = None) \<and>
     (\<forall>p d. map_of (ls_Dirs B) p = Some d \<longrightarrow> dir_ok p d \<and> path_ok B p) \<and>
     cache_true sha (ls_Files B) (ls_HashedFiles B) \<and>
     set (ls_Entries B) = snd ` set (ls_Dirs B) \<union> (\<lambda>(_, f). lf_Entry f) ` set (ls_Files B)"

lemma scanned_file:
  "scanned sha B \<Longrightarrow> map_of (ls_Files B) p = Some f \<Longrightarrow>
   file_ok p f \<and> true_hash sha f \<and> path_ok B p \<and> map_of (ls_Dirs B) p = None"
  unfolding scanned_def by blast

lemma scanned_dir: "scanned sha B \<Longrightarrow> map_of (ls_Dirs B) p = Some d \<Longrightarrow> dir_ok p d \<and> path_ok B p"
  unfolding scanned_def by blast

lemma scanned_keyed: "scanned sha B \<Longrightarrow> keyed B"
  unfolding keyed_files_def using scanned_file by (auto simp: file_ok_def)

lemma scanned_self: "scanned sha B \<Longrightarrow> snapshot_of sha B B"
proof -
  assume B: "scanned sha B"
  have "rel_option (\<lambda>f b. variant f b \<and> true_hash sha f) (map_of (ls_Files B) p) (map_of (ls_Files B) p)" for p
    using scanned_file [OF B, of p] by (cases "map_of (ls_Files B) p") auto
  moreover have "gomap_ok (ls_Files B)" "cache_true sha (ls_Files B) (ls_HashedFiles B)"
    using B by (simp_all add: scanned_def)
  ultimately show ?thesis by (simp add: snapshot_of_def)
qed

text \<open>A manifest with the entries of the snapshot, each file with its true hash or without.\<close>

definition manifest_for :: "(string \<Rightarrow> string) \<Rightarrow> LocalWorkspaceSnapshot \<Rightarrow> (string, ManifestEntry) gomap \<Rightarrow> bool" where
  "manifest_for sha B M \<longleftrightarrow> gomap_ok M \<and>
     (\<forall>p. (case map_of (ls_Dirs B) p of
             Some d \<Rightarrow> map_of M p = Some d
           | None \<Rightarrow> (case map_of (ls_Files B) p of
                 None \<Rightarrow> map_of M p = None
               | Some b \<Rightarrow> \<exists>f. variant f b \<and> true_hash sha f \<and> map_of M p = Some (lf_Entry f))))"

lemma manifest_for_dir: "manifest_for sha B M \<Longrightarrow> map_of (ls_Dirs B) p = Some d \<Longrightarrow> map_of M p = Some d"
  unfolding manifest_for_def by (auto dest!: conjunct2 spec [of _ p])

lemma manifest_for_file:
  assumes "manifest_for sha B M" "map_of (ls_Dirs B) p = None" "map_of (ls_Files B) p = Some b"
  obtains f where "variant f b" "true_hash sha f" "map_of M p = Some (lf_Entry f)"
proof -
  have "\<exists>f. variant f b \<and> true_hash sha f \<and> map_of M p = Some (lf_Entry f)"
    using assms unfolding manifest_for_def by (auto dest!: conjunct2 spec [of _ p])
  then show thesis using that by blast
qed

lemma manifest_for_cases:
  assumes M: "manifest_for sha B M" and p: "map_of M p = Some e"
  obtains (dir) "map_of (ls_Dirs B) p = Some e"
  | (regular) b f where "map_of (ls_Dirs B) p = None" "map_of (ls_Files B) p = Some b" "variant f b" "true_hash sha f" "e = lf_Entry f"
proof (cases "map_of (ls_Dirs B) p")
  case None
  then have "case map_of (ls_Files B) p of None \<Rightarrow> map_of M p = None
      | Some b \<Rightarrow> \<exists>f. variant f b \<and> true_hash sha f \<and> map_of M p = Some (lf_Entry f)"
    using M unfolding manifest_for_def by (auto dest!: conjunct2 spec [of _ p])
  then show thesis using p None that(2) by (cases "map_of (ls_Files B) p") auto
qed (use manifest_for_dir [OF M] p that(1) in auto)

lemma variant_file_ok: "variant f b \<Longrightarrow> file_ok p b \<Longrightarrow> file_ok p f"
  unfolding file_ok_def using variant_fields [of f b] variant_entry [of f b]
  by (cases "lf_Entry b") (auto simp: cloneManifestEntry_def)

lemma client_ok_manifest:
  assumes B: "scanned (sy_sha env) B" and M: "manifest_for (sy_sha env) B M"
  shows "client_ok env M (content_of B)"
proof -
  have entry: "me_Path e = p \<and> path_ok B p \<and> cloneManifestEntry e = e \<and> client_entry env (content_of B) e"
    if "map_of M p = Some e" for p e
    using M that
  proof (cases rule: manifest_for_cases)
    case dir
    then show ?thesis using scanned_dir [OF B] by (auto simp: dir_ok_def client_entry_def)
  next
    case (regular b f)
    note fo = scanned_file [OF B regular(2)]
    have "file_ok p f" using variant_file_ok [OF regular(3)] fo by blast
    then show ?thesis using fo regular(2,4,5) variant_fields(2) [OF regular(3)]
      by (auto simp: file_ok_def client_entry_def content_of_def true_hash_def)
  qed
  have dirs: "\<exists>d. map_of M a = Some d \<and> me_IsDir d" if "map_of (ls_Dirs B) a \<noteq> None" for a
    using that manifest_for_dir [OF M] scanned_dir [OF B] by (auto simp: dir_ok_def)
  have "gomap_ok M" using M by (simp add: manifest_for_def)
  then show ?thesis
    unfolding client_ok_def manifest_ok_def using entry dirs unfolding path_ok_def by blast
qed

section \<open>The manifest in batches\<close>

definition put_entries :: "ManifestEntry list \<Rightarrow> (string, ManifestEntry) gomap \<Rightarrow> (string, ManifestEntry) gomap" where
  "put_entries es M = fold (\<lambda>e. AList.update (me_Path e) (cloneManifestEntry e)) es M"

lemma put_entries_append: "put_entries (es @ es') M = put_entries es' (put_entries es M)"
  by (simp add: put_entries_def)

lemma put_entries_gomap: "gomap_ok M \<Longrightarrow> gomap_ok (put_entries es M)"
  unfolding put_entries_def by (induction es arbitrary: M) simp_all

lemma put_entries_other: "p \<notin> me_Path ` set es \<Longrightarrow> map_of (put_entries es M) p = map_of M p"
  unfolding put_entries_def by (induction es arbitrary: M) auto

lemma put_entries_at:
  "\<forall>e \<in> set es. \<forall>e' \<in> set es. me_Path e = me_Path e' \<longrightarrow> e = e' \<Longrightarrow> e \<in> set es \<Longrightarrow>
   map_of (put_entries es M) (me_Path e) = Some (cloneManifestEntry e)"
proof (induction es arbitrary: M)
  case (Cons x es)
  show ?case
  proof (cases "e \<in> set es")
    case True
    have "\<forall>e \<in> set es. \<forall>e' \<in> set es. me_Path e = me_Path e' \<longrightarrow> e = e'" using Cons.prems(1) by simp
    from Cons.IH [OF this True] show ?thesis by (simp add: put_entries_def)
  next
    case False
    then have "e = x" using Cons.prems(2) by simp
    moreover have "me_Path x \<notin> me_Path ` set es"
    proof
      assume "me_Path x \<in> me_Path ` set es"
      then obtain y where "y \<in> set es" "me_Path y = me_Path x" by auto
      then show False using Cons.prems(1) False \<open>e = x\<close> by auto
    qed
    ultimately show ?thesis using put_entries_other [of "me_Path x" es] by (simp add: put_entries_def)
  qed
qed simp

lemma scan_entries_ok:
  "\<forall>e \<in> set es. ValidateRelativePath (me_Path e) = None \<Longrightarrow>
   scan_entries es s = (None, s\<lparr>ss_manifest := put_entries es (ss_manifest s)\<rparr>)"
  by (induction es arbitrary: s) (simp_all add: put_entries_def validateWorkspacePath_def)

text \<open>While the manifest and the plan go back and forth, the session has nothing but its manifest and remembered hashes.\<close>

definition session_open :: "sync_env \<Rightarrow> attempt \<Rightarrow> tree \<Rightarrow> syncSession \<Rightarrow> bool" where
  "session_open env a w s \<longleftrightarrow> session_at a {} s \<and> at_deleted a = {} \<and> ss_uploads s = [] \<and> ss_bundles s = [] \<and>
     memos_true env w (ss_remoteHashMemo s)"

definition daemon_ready :: "sync_env \<Rightarrow> SyncManager \<Rightarrow> bool" where
  "daemon_ready env m \<longleftrightarrow> tree_ok (sm_workspace m) \<and>
     (\<forall>p. map_of (sm_workspace m) p \<noteq> None \<longrightarrow> ValidateRelativePath p = None) \<and>
     (wc_manifest (ws_committed (sm_state m)) = [] \<and> wc_generation (ws_committed (sm_state m)) = 0 \<or>
      described env (wc_manifest (ws_committed (sm_state m))) (sm_workspace m))"

definition planning :: "sync_env \<Rightarrow> attempt \<Rightarrow> SyncManager \<Rightarrow> SyncManager \<Rightarrow> bool" where
  "planning env a m0 m \<longleftrightarrow> sm_workspace m = sm_workspace m0 \<and> sm_mount m = sm_mount m0 \<and> sm_stage m = [] \<and>
     daemon_ready env m \<and> (\<exists>s. in_session (at_epoch a) m s \<and> session_open env a (sm_workspace m) s)"

lemma session_open_fresh: "session_open env a w s \<Longrightarrow> ss_deleted s = [] \<and> ss_changedFiles s = []"
  by (auto simp: session_open_def session_at_def)

lemma SyncManifestBatch_ok:
  assumes "planning env a m0 m" "\<forall>e \<in> set es. ValidateRelativePath (me_Path e) = None" "TrimSpace (at_session a) = at_session a"
  shows "\<exists>m'. Manager_SyncManifestBatch (at_session a) es m = (None, m') \<and>
    planning env (a\<lparr>at_M := put_entries es (at_M a)\<rparr>) m0 m'"
proof -
  obtain s where s: "in_session (at_epoch a) m s" "session_open env a (sm_workspace m) s"
    using assms(1) by (auto simp: planning_def)
  let ?s = "s\<lparr>ss_manifestBatches := ss_manifestBatches s + 1, ss_manifest := put_entries es (ss_manifest s)\<rparr>"
  have id: "ss_sessionID s = at_session a" and M: "ss_manifest s = at_M a"
    using s(2) by (simp_all add: session_open_def session_at_def)
  have "Manager_SyncManifestBatch (at_session a) es m = (None, put_session ?s m)"
    using in_session_active [OF s(1)] assms(3) id
      scan_entries_ok [OF assms(2), of "s\<lparr>ss_manifestBatches := ss_manifestBatches s + 1\<rparr>"]
    by (simp add: Manager_SyncManifestBatch_def)
  moreover have "planning env (a\<lparr>at_M := put_entries es (at_M a)\<rparr>) m0 (put_session ?s m)"
  proof -
    have "in_session (at_epoch a) (put_session ?s m) ?s" by (rule in_session_put [OF s(1)])
    moreover have "session_open env (a\<lparr>at_M := put_entries es (at_M a)\<rparr>) (sm_workspace m) ?s"
      using s(2) M by (simp add: session_open_def session_at_def)
    ultimately show ?thesis using assms(1) by (auto simp: planning_def daemon_ready_def)
  qed
  ultimately show ?thesis by blast
qed

lemma SyncManifestBatches_ok:
  "planning env a m0 m \<Longrightarrow> \<forall>e \<in> set (concat bs). ValidateRelativePath (me_Path e) = None \<Longrightarrow>
   TrimSpace (at_session a) = at_session a \<Longrightarrow>
   \<exists>m'. fold_err (Manager_SyncManifestBatch (at_session a)) bs m = (None, m') \<and>
     planning env (a\<lparr>at_M := put_entries (concat bs) (at_M a)\<rparr>) m0 m'"
proof (induction bs arbitrary: a m)
  case Nil
  then show ?case by (simp add: put_entries_def)
next
  case (Cons b bs)
  have "\<forall>e \<in> set b. ValidateRelativePath (me_Path e) = None" using Cons.prems(2) by simp
  from SyncManifestBatch_ok [OF Cons.prems(1) this Cons.prems(3)] obtain m1 where
    m1: "Manager_SyncManifestBatch (at_session a) b m = (None, m1)"
      "planning env (a\<lparr>at_M := put_entries b (at_M a)\<rparr>) m0 m1" by blast
  from Cons.IH [OF m1(2)] Cons.prems(2,3) obtain m2 where
    "fold_err (Manager_SyncManifestBatch (at_session a)) bs m1 = (None, m2)"
    "planning env (a\<lparr>at_M := put_entries (concat bs) (put_entries b (at_M a))\<rparr>) m0 m2" by auto
  then show ?case using m1(1) by (simp add: put_entries_append)
qed

definition order_ok :: "client_env \<Rightarrow> bool" where
  "order_ok ce \<longleftrightarrow> (\<forall>bs. mset (ce_order ce bs) = mset bs)"

lemma order_concat: "order_ok ce \<Longrightarrow> set (concat (ce_order ce bs)) = set (concat bs)"
proof -
  assume "order_ok ce"
  then have "set (ce_order ce bs) = set bs" unfolding order_ok_def by (metis set_mset_mset)
  then show ?thesis by simp
qed

lemma sendManifestBatches_ok:
  assumes "planning env a m0 m" "\<forall>e \<in> set es. ValidateRelativePath (me_Path e) = None" "TrimSpace (at_session a) = at_session a"
    and ce: "order_ok ce"
  shows "\<exists>m' es'. sendManifestBatches ce (at_session a) es final m = (None, m') \<and> set es' = set es \<and>
    planning env (a\<lparr>at_M := put_entries es' (at_M a)\<rparr>) m0 m'"
proof (cases "es = [] \<and> \<not> final")
  case True
  then show ?thesis using assms(1) by (intro exI [of _ m] exI [of _ "[]"]) (simp add: sendManifestBatches_def put_entries_def)
next
  case False
  let ?bs = "if es = [] then [[]] else chunks_of syncManifestBatchSize es"
  have "concat ?bs = es" by (simp add: concat_chunks_of syncManifestBatchSize_def)
  then have set: "set (concat (ce_order ce ?bs)) = set es" using order_concat [OF ce, of ?bs] by simp
  then have "\<forall>e \<in> set (concat (ce_order ce ?bs)). ValidateRelativePath (me_Path e) = None" using assms(2) by simp
  from SyncManifestBatches_ok [OF assms(1) this assms(3)] obtain m' where
    m': "fold_err (Manager_SyncManifestBatch (at_session a)) (ce_order ce ?bs) m = (None, m')"
      "planning env (a\<lparr>at_M := put_entries (concat (ce_order ce ?bs)) (at_M a)\<rparr>) m0 m'" by blast
  moreover have "sendManifestBatches ce (at_session a) es final m = (None, m')"
    using m'(1) False unfolding sendManifestBatches_def Let_def by auto
  ultimately show ?thesis using set by blast
qed

section \<open>Planning\<close>

lemma map_of_map_entries: "map_of (map (\<lambda>(p, x). (p, f p x)) xs) q = map_option (f q) (map_of xs q)"
  by (induction xs) auto

lemma map_of_clone: "map_of (cloneManifestMap M) p = map_option cloneManifestEntry (map_of M p)"
  unfolding cloneManifestMap_def by (rule map_of_map_entries)

lemma entry_describes_clone: "entry_describes env e n \<Longrightarrow> entry_describes env (cloneManifestEntry e) n"
  by (cases n) (auto simp: entry_describes_def cloneManifestEntry_def)

lemma described_clone: "described env M w \<Longrightarrow> described env (cloneManifestMap M) w"
  unfolding described_def map_of_clone using entry_describes_clone by (fastforce split: option.splits)

lemma described_root: "described env (manifestEntriesFromRoot dirinfo w) w"
  unfolding described_def manifestEntriesFromRoot_def map_of_map_entries
  by (auto simp: manifest_entry_def entry_describes_def file_metadata_def split: option.splits node.splits)

lemma ensure_described:
  assumes "daemon_ready env m"
  shows "described env (wc_manifest (ws_committed (ensureCommittedManifestLocked env (sm_workspace m) (sm_state m)))) (sm_workspace m)"
proof (cases "wc_manifest (ws_committed (sm_state m)) \<noteq> [] \<or> wc_generation (ws_committed (sm_state m)) \<noteq> 0")
  case True
  then show ?thesis using assms by (auto simp: daemon_ready_def ensureCommittedManifestLocked_def Let_def)
next
  case False
  then have "wc_manifest (ws_committed (ensureCommittedManifestLocked env (sm_workspace m) (sm_state m))) =
      cloneManifestMap (manifestEntriesFromRoot (sy_dirinfo env) (sm_workspace m))"
    by (simp add: ensureCommittedManifestLocked_def Let_def on_committed_def wc_manifest_sync)
  then show ?thesis using described_clone [OF described_root] by simp
qed

lemma ensure_sync: "ws_sync (ensureCommittedManifestLocked env w s) = ws_sync s"
  by (simp add: ensureCommittedManifestLocked_def Let_def on_committed_def syncManifestStateLocked_def)

text \<open>A hash is asked for exactly when the file is there with the same metadata and came without one.\<close>

definition same_stat :: "tree \<Rightarrow> ManifestEntry \<Rightarrow> bool" where
  "same_stat w e \<longleftrightarrow> (\<exists>data mode mtime. map_of w (me_Path e) = Some (FileNode data mode mtime) \<and>
     file_metadata data mode mtime = normalizeMetadata (me_Metadata e))"

definition asks :: "tree \<Rightarrow> ManifestEntry \<Rightarrow> bool" where
  "asks w e \<longleftrightarrow> same_stat w e \<and> TrimSpace (me_ContentHash e) = []"

lemma remote_entry_same_stat:
  assumes C: "described env C (sm_workspace m)" and fresh: "ss_deleted s = []" "ss_changedFiles s = []"
    and st: "same_stat (sm_workspace m) e"
  shows "\<exists>re. remote_entry env C e s m = Some (re, InWorkspace) \<and> \<not> me_IsDir re \<and> same_metadata re e"
proof -
  obtain data mode mtime where n: "map_of (sm_workspace m) (me_Path e) = Some (FileNode data mode mtime)"
    "file_metadata data mode mtime = normalizeMetadata (me_Metadata e)"
    using st by (auto simp: same_stat_def)
  then obtain c where c: "map_of C (me_Path e) = Some c" using described_None [OF C, of "me_Path e"] by fastforce
  have d: "entry_describes env c (FileNode data mode mtime)" by (rule described_entry [OF C c n(1)])
  have "remoteManifestEntryForPath C (me_Path e) s = Some (cloneManifestEntry c, InWorkspace)"
    using fresh c by (simp add: remoteManifestEntryForPath_def isPathDeletedOrNested_def)
  then show ?thesis
    using d n(2) by (simp add: remote_entry_def entry_describes_def same_metadata_def cloneManifestEntry_def)
qed

lemma plan_file_ok:
  assumes w: "tree_ok (sm_workspace m)" and C: "described env C (sm_workspace m)"
    and fresh: "ss_deleted s = []" "ss_changedFiles s = []" and p: "me_Path e \<noteq> []"
  shows "\<exists>act memos'. plan_file env C s m e memos = (Inr act, memos') \<and> (act = SendHash \<longleftrightarrow> asks (sm_workspace m) e)"
proof (cases "same_stat (sm_workspace m) e")
  case True
  then obtain re where re: "remote_entry env C e s m = Some (re, InWorkspace)" "\<not> me_IsDir re" "same_metadata re e"
    using remote_entry_same_stat [OF C fresh] by blast
  obtain data mode mtime where n: "map_of (sm_workspace m) (me_Path e) = Some (FileNode data mode mtime)"
    using True by (auto simp: same_stat_def)
  have stat: "Stat (sm_workspace m) (me_Path e) = Inr (FileNode data mode mtime)" using tree_ok_Stat [OF w p] n by blast
  have read: "ReadFile (sm_workspace m) (me_Path e) = Inr data" by (rule tree_ok_ReadFile [OF w p n])
  have "\<exists>h memos'. remoteContentHash env C (me_Path e) (sm_workspace m) memos = (Inr h, memos')"
    using stat read by (simp add: remoteContentHash_def hash_and_remember_def Let_def memo_key_def split: option.splits)
  then show ?thesis using re True by (auto simp: plan_file_def place_tree_def asks_def)
next
  case False
  have "\<not> same_metadata re e" if r: "remote_entry env C e s m = Some (re, pl)" "\<not> me_IsDir re" for re pl
  proof -
    obtain data mode mtime where "map_of (sm_workspace m) (me_Path e) = Some (FileNode data mode mtime)"
      "normalizeMetadata (me_Metadata re) = file_metadata data mode mtime"
      by (rule remote_entry_file [OF w C fresh p r])
    then show ?thesis using False by (auto simp: same_stat_def same_metadata_def)
  qed
  then show ?thesis using False
    by (cases "remote_entry env C e s m") (auto simp: plan_file_def asks_def)
qed

lemma plan_files_ok:
  assumes "tree_ok (sm_workspace m)" "described env C (sm_workspace m)" "ss_deleted s = []" "ss_changedFiles s = []"
  shows "\<forall>e \<in> set es. me_Path e \<noteq> [] \<Longrightarrow>
    \<exists>us memos'. plan_files env C s m es memos =
      (Inr (map me_Path (filter (\<lambda>e. \<not> me_IsDir e \<and> asks (sm_workspace m) e) es), us), memos')"
proof (induction es arbitrary: memos)
  case (Cons e es)
  have p: "me_Path e \<noteq> []" and ps: "\<forall>e \<in> set es. me_Path e \<noteq> []" using Cons.prems by simp_all
  obtain act memos1 where one: "plan_file env C s m e memos = (Inr act, memos1)"
    "act = SendHash \<longleftrightarrow> asks (sm_workspace m) e"
    using plan_file_ok [OF assms p] by blast
  show ?case
  proof (cases "me_IsDir e")
    case True
    then show ?thesis using Cons.IH [OF ps, of memos] by simp
  next
    case False
    obtain us memos2 where "plan_files env C s m es memos1 =
        (Inr (map me_Path (filter (\<lambda>e. \<not> me_IsDir e \<and> asks (sm_workspace m) e) es), us), memos2)"
      using Cons.IH [OF ps] by blast
    then show ?thesis using one False by simp
  qed
qed simp

text \<open>What a plan without further questions says of the workspace and the manifest.\<close>

definition plan_ok :: "sync_env \<Rightarrow> attempt \<Rightarrow> tree \<Rightarrow> PlanSyncV2Response \<Rightarrow> bool" where
  "plan_ok env a w plan \<longleftrightarrow> set (pl_UploadPaths plan) \<subseteq> files_in (at_M a) \<and>
     (\<forall>p e. map_of (at_M a) p = Some e \<longrightarrow> \<not> me_IsDir e \<longrightarrow> p \<notin> set (pl_UploadPaths plan) \<longrightarrow> same_file env w e) \<and>
     set (pl_DeletePaths plan) = {p. map_of w p \<noteq> None \<and> map_of (at_M a) p = None}"

lemma session_entries_clone: "manifest_ok (ss_manifest s) \<Longrightarrow> session_entries s = map snd (ss_manifest s)"
proof -
  assume M: "manifest_ok (ss_manifest s)"
  then have "map (\<lambda>(_, e). cloneManifestEntry e) (ss_manifest s) = map snd (ss_manifest s)"
    by (auto intro!: map_cong simp: manifest_ok_def gomap_ok_mem_iff)
  then show ?thesis by (simp add: session_entries_def)
qed

lemma manifest_entries: "manifest_ok M \<Longrightarrow> e \<in> set (map snd M) \<longleftrightarrow> map_of M (me_Path e) = Some e"
proof -
  assume M: "manifest_ok M"
  then have g: "gomap_ok M" by (simp add: manifest_ok_def)
  have "e \<in> set (map snd M) \<longleftrightarrow> (\<exists>p. map_of M p = Some e)" using gomap_ok_mem_iff [OF g] by force
  then show ?thesis using manifest_ok_path [OF M] by blast
qed

lemma plan_result_sets:
  "set (pl_HashPaths (plan_result C es s hs us)) = set hs"
  "hs = [] \<Longrightarrow> set (pl_UploadPaths (plan_result C es s hs us)) = set us"
  "hs = [] \<Longrightarrow> pl_DeletePaths (plan_result C es s hs us) = delete_paths C es (ss_deleted s)"
  by (simp_all add: plan_result_def uniqueStrings_def)

lemma asked_paths:
  assumes "manifest_ok M"
  shows "set (map me_Path (filter P (map snd M))) = {p. \<exists>e. map_of M p = Some e \<and> P e}"
proof (rule set_eqI)
  fix p
  have "p \<in> set (map me_Path (filter P (map snd M))) \<longleftrightarrow> (\<exists>e \<in> set (map snd M). P e \<and> p = me_Path e)" by auto
  also have "\<dots> \<longleftrightarrow> (\<exists>e. map_of M p = Some e \<and> P e)"
    using manifest_entries [OF assms] manifest_ok_path [OF assms] by metis
  finally show "p \<in> set (map me_Path (filter P (map snd M))) \<longleftrightarrow> p \<in> {p. \<exists>e. map_of M p = Some e \<and> P e}" by simp
qed

lemma delete_paths_set:
  assumes M: "manifest_ok M" and C: "described env C w"
  shows "set (delete_paths C (map snd M) []) = {p. map_of w p \<noteq> None \<and> map_of M p = None}"
proof -
  have "p \<in> set (map me_Path (map snd M)) \<longleftrightarrow> map_of M p \<noteq> None" for p
    using asked_paths [OF M, of "\<lambda>_. True"] by auto
  moreover have "p \<in> fst ` set C \<longleftrightarrow> map_of w p \<noteq> None" for p
    using described_None [OF C, of p] by (simp add: map_of_eq_None_iff)
  ultimately show ?thesis by (auto simp: delete_paths_def uniqueStrings_def isPathDeletedOrNested_def)
qed

lemma plan_ok_result:
  assumes M: "manifest_ok (at_M a)" and C: "described env C w" and s: "ss_deleted s = []"
    and us: "set us \<subseteq> me_Path ` {e \<in> set (map snd (at_M a)). \<not> me_IsDir e}"
    and same: "\<forall>e \<in> set (map snd (at_M a)). \<not> me_IsDir e \<longrightarrow> me_Path e \<in> set us \<or> same_file env w e"
  shows "plan_ok env a w (plan_result C (map snd (at_M a)) s [] us)"
proof -
  have "set us \<subseteq> files_in (at_M a)"
    using us manifest_entries [OF M] by (force simp: files_in_def)
  moreover have "same_file env w e" if "map_of (at_M a) p = Some e" "\<not> me_IsDir e" "p \<notin> set us" for p e
  proof -
    have "me_Path e = p" using manifest_ok_path [OF M that(1)] by blast
    moreover have "e \<in> set (map snd (at_M a))" using manifest_entries [OF M, of e] that(1) calculation by simp
    ultimately show ?thesis using same that(2,3) by blast
  qed
  ultimately show ?thesis
    unfolding plan_ok_def plan_result_sets(2) [OF refl] plan_result_sets(3) [OF refl] s delete_paths_set [OF M C] by blast
qed

text \<open>The step of the daemon: the manifest it has is looked up first if it has none.\<close>

lemma planning_ensured:
  assumes "planning env a m0 m"
  defines "m1 \<equiv> m\<lparr>sm_state := ensureCommittedManifestLocked env (sm_workspace m) (sm_state m)\<rparr>"
  shows "tree_ok (sm_workspace m)" "described env (committed_entries m1) (sm_workspace m)"
    "in_session (at_epoch a) m s \<Longrightarrow> in_session (at_epoch a) m1 s"
    "session_open env a (sm_workspace m) s' \<Longrightarrow> in_session (at_epoch a) m1 s \<Longrightarrow> planning env a m0 (put_session s' m1)"
proof -
  have ready: "daemon_ready env m" using assms(1) by (simp add: planning_def)
  show w: "tree_ok (sm_workspace m)" using ready by (simp add: daemon_ready_def)
  have desc: "described env (wc_manifest (ws_committed (sm_state m1))) (sm_workspace m)"
    using ensure_described [OF ready] by (simp add: m1_def)
  have valid: "\<forall>p. map_of (sm_workspace m) p \<noteq> None \<longrightarrow> ValidateRelativePath p = None"
    using ready by (simp add: daemon_ready_def)
  from desc show "described env (committed_entries m1) (sm_workspace m)"
    by (simp add: committed_entries_def described_clone)
  show "in_session (at_epoch a) m s \<Longrightarrow> in_session (at_epoch a) m1 s" by (simp add: in_session_def m1_def ensure_sync)
  assume s: "session_open env a (sm_workspace m) s'" "in_session (at_epoch a) m1 s"
  have "daemon_ready env (put_session s' m1)" using desc w valid by (simp add: daemon_ready_def m1_def)
  moreover have "in_session (at_epoch a) (put_session s' m1) s'" by (rule in_session_put [OF s(2)])
  ultimately show "planning env a m0 (put_session s' m1)"
    using assms(1) s(1) by (auto simp: planning_def m1_def)
qed

lemma PlanSyncV2_ok:
  assumes pl: "planning env a m0 m" and M: "manifest_ok (at_M a)" and env: "sy_layout env = None"
    "TrimSpace (at_session a) = at_session a"
  shows "\<exists>plan m1. Manager_PlanSyncV2 env (at_session a) m = (Inr plan, m1) \<and> planning env a m0 m1 \<and>
    set (pl_HashPaths plan) = {p. \<exists>e. map_of (at_M a) p = Some e \<and> \<not> me_IsDir e \<and> asks (sm_workspace m) e} \<and>
    (pl_HashPaths plan = [] \<longrightarrow> plan_ok env a (sm_workspace m) plan)"
proof -
  obtain s where s: "in_session (at_epoch a) m s" "session_open env a (sm_workspace m) s"
    using pl by (auto simp: planning_def)
  have sM: "ss_manifest s = at_M a" and id: "ss_sessionID s = at_session a"
    and memos: "memos_true env (sm_workspace m) (ss_remoteHashMemo s)"
    using s(2) by (simp_all add: session_open_def session_at_def)
  have fresh: "ss_deleted s = []" "ss_changedFiles s = []" using session_open_fresh [OF s(2)] by simp_all
  let ?m1 = "m\<lparr>sm_state := ensureCommittedManifestLocked env (sm_workspace m) (sm_state m)\<rparr>"
  let ?w = "sm_workspace ?m1"
  note w = planning_ensured(1,2) [OF pl] and s1 = planning_ensured(3) [OF pl s(1)]
  have w': "tree_ok ?w" "described env (committed_entries ?m1) ?w" using w by simp_all
  let ?es = "map snd (at_M a)"
  have es: "session_entries s = ?es" using session_entries_clone sM M by simp
  have ne: "\<forall>e \<in> set ?es. me_Path e \<noteq> []"
    using manifest_entries [OF M] manifest_ok_path [OF M] proper_path_not_Nil by blast
  define hs where "hs = map me_Path (filter (\<lambda>e. \<not> me_IsDir e \<and> asks (sm_workspace m) e) ?es)"
  obtain us memos' where p: "plan_files env (committed_entries ?m1) s ?m1 ?es (ss_remoteHashMemo s) = (Inr (hs, us), memos')"
    using plan_files_ok [OF w' fresh ne, of "ss_remoteHashMemo s"] by (auto simp: hs_def)
  have t: "memos_true env ?w memos' \<and> set us \<subseteq> me_Path ` {e \<in> set ?es. \<not> me_IsDir e} \<and>
      (\<forall>e \<in> set ?es. \<not> me_IsDir e \<longrightarrow> me_Path e \<in> set hs \<union> set us \<or> same_file env ?w e)"
    by (rule plan_files_true [OF w' fresh ne _ p]) (use memos in simp)
  let ?s = "s\<lparr>ss_remoteHashMemo := memos'\<rparr>"
  let ?plan = "plan_result (committed_entries ?m1) ?es s hs us"
  have "Manager_PlanSyncV2 env (at_session a) m = (Inr ?plan, put_session ?s ?m1)"
    using env id in_session_active [OF s1] es p by (simp add: Manager_PlanSyncV2_def Let_def)
  moreover have "planning env a m0 (put_session ?s ?m1)"
    by (rule planning_ensured(4) [OF pl _ s1]) (use s(2) t in \<open>simp add: session_open_def session_at_def\<close>)
  moreover have "set (pl_HashPaths ?plan) = {p. \<exists>e. map_of (at_M a) p = Some e \<and> \<not> me_IsDir e \<and> asks (sm_workspace m) e}"
    unfolding plan_result_sets hs_def by (rule asked_paths [OF M])
  moreover have "plan_ok env a (sm_workspace m) ?plan" if "pl_HashPaths ?plan = []"
  proof -
    have "hs = []" using that plan_result_sets(1) by (metis set_empty)
    then show ?thesis using plan_ok_result [OF M w(2) fresh(1)] t by simp
  qed
  ultimately show ?thesis by blast
qed

section \<open>The rounds of hashes\<close>

lemma scanned_entry:
  assumes B: "scanned sha B" and e: "e \<in> set (ls_Entries B)"
  shows "cloneManifestEntry e = e \<and> path_ok B (me_Path e) \<and>
    (map_of (ls_Dirs B) (me_Path e) = Some e \<or>
     map_of (ls_Dirs B) (me_Path e) = None \<and> (\<exists>f. map_of (ls_Files B) (me_Path e) = Some f \<and> e = lf_Entry f))"
proof -
  have g: "gomap_ok (ls_Dirs B)" "gomap_ok (ls_Files B)"
    and e': "e \<in> snd ` set (ls_Dirs B) \<union> (\<lambda>(_, f). lf_Entry f) ` set (ls_Files B)"
    using B e by (simp_all add: scanned_def)
  from e' show ?thesis
  proof
    assume "e \<in> snd ` set (ls_Dirs B)"
    then obtain p where "map_of (ls_Dirs B) p = Some e" using gomap_ok_mem_iff [OF g(1)] by force
    then show ?thesis using scanned_dir [OF B, of p e] by (auto simp: dir_ok_def)
  next
    assume "e \<in> (\<lambda>(_, f). lf_Entry f) ` set (ls_Files B)"
    then obtain p f where "map_of (ls_Files B) p = Some f" "e = lf_Entry f" using gomap_ok_mem_iff [OF g(2)] by force
    then show ?thesis using scanned_file [OF B, of p f] by (auto simp: file_ok_def)
  qed
qed

lemma scanned_mem:
  assumes B: "scanned sha B"
  shows "map_of (ls_Dirs B) p = Some d \<Longrightarrow> d \<in> set (ls_Entries B) \<and> me_Path d = p"
    "map_of (ls_Files B) p = Some f \<Longrightarrow> lf_Entry f \<in> set (ls_Entries B) \<and> me_Path (lf_Entry f) = p"
proof -
  have es: "set (ls_Entries B) = snd ` set (ls_Dirs B) \<union> (\<lambda>(_, f). lf_Entry f) ` set (ls_Files B)"
    using B by (simp add: scanned_def)
  show "map_of (ls_Dirs B) p = Some d \<Longrightarrow> d \<in> set (ls_Entries B) \<and> me_Path d = p"
    using scanned_dir [OF B, of p d] map_of_SomeD [of "ls_Dirs B" p d] by (force simp: es dir_ok_def)
  show "map_of (ls_Files B) p = Some f \<Longrightarrow> lf_Entry f \<in> set (ls_Entries B) \<and> me_Path (lf_Entry f) = p"
    using scanned_file [OF B, of p f] map_of_SomeD [of "ls_Files B" p f] by (force simp: es file_ok_def)
qed

lemma first_manifest:
  assumes B: "scanned sha B" and es: "set es = set (ls_Entries B)"
  shows "manifest_for sha B (put_entries es [])"
proof -
  have "\<forall>e \<in> set es. \<forall>e' \<in> set es. me_Path e = me_Path e' \<longrightarrow> e = e'"
    using scanned_entry [OF B] unfolding es by (metis option.distinct(1) option.inject)
  from put_entries_at [OF this] have at: "map_of (put_entries es []) (me_Path e) = Some e" if "e \<in> set (ls_Entries B)" for e
    using scanned_entry [OF B that] that es by metis
  have no: "map_of (put_entries es []) p = None" if "map_of (ls_Dirs B) p = None" "map_of (ls_Files B) p = None" for p
  proof -
    have "p \<notin> me_Path ` set es"
    proof
      assume "p \<in> me_Path ` set es"
      then obtain x where "x \<in> set (ls_Entries B)" "p = me_Path x" unfolding es by blast
      then show False using scanned_entry [OF B, of x] that by auto
    qed
    then show ?thesis using put_entries_other [of p es "[]"] by simp
  qed
  show ?thesis
    unfolding manifest_for_def
  proof (intro conjI allI)
    show "gomap_ok (put_entries es [])" by (rule put_entries_gomap) simp
  next
    fix p
    show "case map_of (ls_Dirs B) p of Some d \<Rightarrow> map_of (put_entries es []) p = Some d
        | None \<Rightarrow> (case map_of (ls_Files B) p of None \<Rightarrow> map_of (put_entries es []) p = None
            | Some b \<Rightarrow> \<exists>f. variant f b \<and> true_hash sha f \<and> map_of (put_entries es []) p = Some (lf_Entry f))"
    proof (cases "map_of (ls_Dirs B) p")
      case (Some d)
      then show ?thesis using at scanned_mem(1) [OF B Some] by auto
    next
      case None
      show ?thesis
      proof (cases "map_of (ls_Files B) p")
        case (Some b)
        have "variant b b \<and> true_hash sha b \<and> map_of (put_entries es []) p = Some (lf_Entry b)"
          using at scanned_mem(2) [OF B Some] scanned_file [OF B Some] by auto
        then have "\<exists>f. variant f b \<and> true_hash sha f \<and> map_of (put_entries es []) p = Some (lf_Entry f)" by blast
        then show ?thesis using None Some by simp
      qed (use None no in simp)
    qed
  qed
qed

text \<open>The files whose hashes were asked for come again with their hashes.\<close>

lemma hashed_entries:
  assumes B: "scanned sha B" and s: "snapshot_of sha B s" and p: "map_of (ls_Files B) p \<noteq> None" "hashed_at sha p s"
  obtains b f where "map_of (ls_Files B) p = Some b" "variant f b" "map_of (ls_Files s) p = Some f"
    "map_of (ls_HashedFiles s) p = Some f" "file_hash f = sha (lf_Data b)" "file_ok p f"
proof -
  obtain f where f: "map_of (ls_Files s) p = Some f" "map_of (ls_HashedFiles s) p = Some f" "file_hash f = sha (lf_Data f)"
    using p(2) by (auto simp: hashed_at_def)
  obtain b where b: "map_of (ls_Files B) p = Some b" "variant f b" by (rule snapshot_of_file [OF s f(1)])
  have "file_ok p f" using variant_file_ok [OF b(2)] scanned_file [OF B b(1)] by blast
  then show thesis using that b f variant_fields(2) [OF b(2)] by simp
qed

lemma set_concat_lookup:
  "x \<in> set (concat (map (\<lambda>p. case map_of m p of None \<Rightarrow> [] | Some f \<Rightarrow> [g f]) ps)) \<longleftrightarrow>
     (\<exists>p f. p \<in> set ps \<and> map_of m p = Some f \<and> x = g f)"
proof -
  have "x \<in> set (case map_of m p of None \<Rightarrow> [] | Some f \<Rightarrow> [g f]) \<longleftrightarrow> (\<exists>f. map_of m p = Some f \<and> x = g f)" for p
    by (cases "map_of m p") auto
  then show ?thesis unfolding set_concat set_map by blast
qed

lemma entries_for_paths:
  "e \<in> set (manifestEntriesForPaths s ps) \<longleftrightarrow> (\<exists>p f. p \<in> set ps \<and> map_of (ls_HashedFiles s) p = Some f \<and> e = lf_Entry f)"
  unfolding manifestEntriesForPaths_def by (rule set_concat_lookup)

lemma files_for_paths:
  "f \<in> set (localWorkspaceFilesForPaths s ps) \<longleftrightarrow> (\<exists>p. p \<in> set ps \<and> map_of (ls_Files s) p = Some f)"
  unfolding localWorkspaceFilesForPaths_def set_concat_lookup [where g = "\<lambda>f. f"] by blast

definition hash_round :: "(string \<Rightarrow> string) \<Rightarrow> LocalWorkspaceSnapshot \<Rightarrow> string list \<Rightarrow> (string, ManifestEntry) gomap \<Rightarrow> (string, ManifestEntry) gomap \<Rightarrow> bool" where
  "hash_round sha B ps M M' \<longleftrightarrow> manifest_for sha B M' \<and> (\<forall>p. p \<notin> set ps \<longrightarrow> map_of M' p = map_of M p) \<and>
     (\<forall>p \<in> set ps. \<exists>e. map_of M' p = Some e \<and> me_ContentHash e = sha (content_of B p))"

lemma next_manifest:
  assumes B: "scanned sha B" and s: "snapshot_of sha B s" and M: "manifest_for sha B M"
    and ps: "\<forall>p \<in> set ps. map_of (ls_Files B) p \<noteq> None \<and> hashed_at sha p s"
    and es: "set es = set (manifestEntriesForPaths s ps)"
  shows "hash_round sha B ps M (put_entries es M)" "\<forall>e \<in> set es. ValidateRelativePath (me_Path e) = None"
proof -
  have e: "\<exists>p b f. p \<in> set ps \<and> map_of (ls_Files B) p = Some b \<and> variant f b \<and> map_of (ls_HashedFiles s) p = Some f \<and>
      file_hash f = sha (lf_Data b) \<and> file_ok p f \<and> e = lf_Entry f \<and> me_Path e = p" if em: "e \<in> set es" for e
  proof -
    obtain p f where p: "p \<in> set ps" "map_of (ls_HashedFiles s) p = Some f" "e = lf_Entry f"
      using em unfolding es entries_for_paths by blast
    from hashed_entries [OF B s, of p] ps p(1) obtain b where
      "map_of (ls_Files B) p = Some b" "variant f b" "file_hash f = sha (lf_Data b)" "file_ok p f"
      using p(2) by (metis option.inject)
    then show ?thesis using p unfolding file_ok_def by blast
  qed
  then have unique: "\<forall>e \<in> set es. \<forall>e' \<in> set es. me_Path e = me_Path e' \<longrightarrow> e = e'" by (metis option.inject)
  show "\<forall>e \<in> set es. ValidateRelativePath (me_Path e) = None"
  proof
    fix x assume "x \<in> set es"
    from e [OF this] obtain p b where "me_Path x = p" "map_of (ls_Files B) p = Some b" by blast
    then show "ValidateRelativePath (me_Path x) = None" using scanned_file [OF B, of p b] by (simp add: path_ok_def)
  qed
  have in_es: "\<exists>b f. map_of (ls_Files B) p = Some b \<and> variant f b \<and> file_hash f = sha (lf_Data b) \<and>
      map_of (put_entries es M) p = Some (lf_Entry f)" if "p \<in> set ps" for p
  proof -
    from hashed_entries [OF B s, of p] ps that obtain b f where f: "map_of (ls_Files B) p = Some b" "variant f b"
      "map_of (ls_HashedFiles s) p = Some f" "file_hash f = sha (lf_Data b)" "file_ok p f" by metis
    then have "lf_Entry f \<in> set es" using that unfolding es entries_for_paths by blast
    from put_entries_at [OF unique this] f(5) have "map_of (put_entries es M) p = Some (lf_Entry f)" by (simp add: file_ok_def)
    then show ?thesis using f by blast
  qed
  have out: "map_of (put_entries es M) p = map_of M p" if "p \<notin> set ps" for p
  proof -
    have "p \<notin> me_Path ` set es" using e that by blast
    then show ?thesis by (rule put_entries_other)
  qed
  have "case map_of (ls_Dirs B) p of Some d \<Rightarrow> map_of (put_entries es M) p = Some d
        | None \<Rightarrow> (case map_of (ls_Files B) p of None \<Rightarrow> map_of (put_entries es M) p = None
            | Some b \<Rightarrow> \<exists>f. variant f b \<and> true_hash sha f \<and> map_of (put_entries es M) p = Some (lf_Entry f))" for p
  proof (cases "p \<in> set ps")
    case True
    then obtain b f where "map_of (ls_Files B) p = Some b" "variant f b" "file_hash f = sha (lf_Data b)"
      "map_of (put_entries es M) p = Some (lf_Entry f)" using in_es by blast
    moreover have "map_of (ls_Dirs B) p = None" using scanned_file [OF B] calculation(1) by blast
    ultimately show ?thesis using variant_fields(2) [of f b] by (auto simp: true_hash_def)
  next
    case False
    show ?thesis using M unfolding out [OF False] manifest_for_def by blast
  qed
  then have "manifest_for sha B (put_entries es M)"
    unfolding manifest_for_def using M put_entries_gomap by (auto simp: manifest_for_def)
  then show "hash_round sha B ps M (put_entries es M)"
    unfolding hash_round_def using out in_es by (force simp: content_of_def)
qed

section \<open>The loop ends\<close>

definition same_watch :: "SyncGuard \<Rightarrow> SyncGuard \<Rightarrow> bool" where
  "same_watch g g' \<longleftrightarrow> sg_dirtyEpoch g' = sg_dirtyEpoch g \<and> sg_quiescentSince g' = sg_quiescentSince g \<and>
     sg_watchHealthy g' = sg_watchHealthy g"

lemma hash_paths_ok:
  assumes B: "scanned (sy_sha (ce_env ce)) B" and s: "snapshot_of (sy_sha (ce_env ce)) B s"
    and g: "guard_true (sy_sha (ce_env ce)) B g" and h: "hash_paths ce ps s g = (s', g')"
  shows "guard_true (sy_sha (ce_env ce)) B g'" "snapshot_of (sy_sha (ce_env ce)) B s'" "same_watch g g'"
    "p \<in> set ps \<Longrightarrow> map_of (ls_Files B) p \<noteq> None \<Longrightarrow> hashed_at (sy_sha (ce_env ce)) p s'"
proof -
  obtain og where G: "Guard_HashPaths (sy_sha (ce_env ce)) s ps (Some g) = (s', og)" "g' = the og"
    using h by (auto simp: hash_paths_def map_prod_def split: prod.splits)
  note ok = Guard_HashPaths_ok [OF scanned_keyed [OF B] s g G(1)]
  then show "guard_true (sy_sha (ce_env ce)) B g'" "snapshot_of (sy_sha (ce_env ce)) B s'"
    "p \<in> set ps \<Longrightarrow> map_of (ls_Files B) p \<noteq> None \<Longrightarrow> hashed_at (sy_sha (ce_env ce)) p s'"
    using G(2) by (auto simp: refined_def)
  show "same_watch g g'"
    using G by (auto simp: Guard_HashPaths_def applyLocalHashCacheLocked_def same_watch_def Let_def split: prod.splits)
qed

definition run_ok :: "client_env \<Rightarrow> bool" where
  "run_ok ce \<longleftrightarrow> sy_layout (ce_env ce) = None \<and> order_ok ce \<and> (\<forall>data. TrimSpace (sy_sha (ce_env ce) data) \<noteq> []) \<and>
     (\<forall>data. sy_gunzip (ce_env ce) (ce_gzip ce data) = Inr data)"

text \<open>The state of the client and the daemon once the plan is final.\<close>

definition planned :: "client_env \<Rightarrow> LocalWorkspaceSnapshot \<Rightarrow> attempt \<Rightarrow> SyncManager \<Rightarrow> SyncGuard \<Rightarrow>
    PlanSyncV2Response \<times> client_state \<Rightarrow> bool" where
  "planned ce B a m0 g r \<longleftrightarrow> (case r of (plan, s', g', m') \<Rightarrow>
     \<exists>M. planning (ce_env ce) (a\<lparr>at_M := M\<rparr>) m0 m' \<and> manifest_for (sy_sha (ce_env ce)) B M \<and>
       plan_ok (ce_env ce) (a\<lparr>at_M := M\<rparr>) (sm_workspace m0) plan \<and> snapshot_of (sy_sha (ce_env ce)) B s' \<and>
       guard_true (sy_sha (ce_env ce)) B g' \<and> same_watch g g')"

lemma plan_loop_last:
  assumes ce: "run_ok ce" and B: "scanned (sy_sha (ce_env ce)) B" and a: "TrimSpace (at_session a) = at_session a"
    and pl: "planning (ce_env ce) a m0 m" and M: "manifest_for (sy_sha (ce_env ce)) B (at_M a)"
    and s: "snapshot_of (sy_sha (ce_env ce)) B s" and g: "guard_true (sy_sha (ce_env ce)) B g" "same_watch g0 g"
    and none: "\<And>p e. map_of (at_M a) p = Some e \<Longrightarrow> \<not> me_IsDir e \<Longrightarrow> \<not> asks (sm_workspace m0) e"
  shows "\<exists>plan s' g' m'. plan_loop ce (at_session a) s g m = Some (Inr plan, s', g', m') \<and> planned ce B a m0 g0 (plan, s', g', m')"
proof -
  have ok: "manifest_ok (at_M a)" using client_ok_manifest [OF B M] by (simp add: client_ok_def)
  have lay: "sy_layout (ce_env ce) = None" using ce by (simp add: run_ok_def)
  have w: "sm_workspace m = sm_workspace m0" using pl by (simp add: planning_def)
  obtain plan m1 where p: "Manager_PlanSyncV2 (ce_env ce) (at_session a) m = (Inr plan, m1)" "planning (ce_env ce) a m0 m1"
    "set (pl_HashPaths plan) = {p. \<exists>e. map_of (at_M a) p = Some e \<and> \<not> me_IsDir e \<and> asks (sm_workspace m) e}"
    "pl_HashPaths plan = [] \<longrightarrow> plan_ok (ce_env ce) a (sm_workspace m) plan"
    using PlanSyncV2_ok [OF pl ok lay a] by blast
  have "set (pl_HashPaths plan) = {}" unfolding p(3) using none w by auto
  then have "pl_HashPaths plan = []" by simp
  then have "plan_loop ce (at_session a) s g m = Some (Inr plan, s, g, m1)" using p(1) by (subst plan_loop.simps) simp
  moreover have "planned ce B a m0 g0 (plan, s, g, m1)"
    unfolding planned_def prod.case
    using p(2,4) \<open>pl_HashPaths plan = []\<close> M s g w by (intro exI [of _ "at_M a"]) simp
  ultimately show ?thesis by blast
qed

lemma plan_loop_ends:
  assumes ce: "run_ok ce" and B: "scanned (sy_sha (ce_env ce)) B" and a: "TrimSpace (at_session a) = at_session a"
    and pl: "planning (ce_env ce) a m0 m" and M: "manifest_for (sy_sha (ce_env ce)) B (at_M a)"
    and s: "snapshot_of (sy_sha (ce_env ce)) B s" and g: "guard_true (sy_sha (ce_env ce)) B g"
  shows "\<exists>plan s' g' m'. plan_loop ce (at_session a) s g m = Some (Inr plan, s', g', m') \<and> planned ce B a m0 g (plan, s', g', m')"
proof -
  let ?sha = "sy_sha (ce_env ce)"
  have ok: "manifest_ok (at_M a)" using client_ok_manifest [OF B M] by (simp add: client_ok_def)
  have lay: "sy_layout (ce_env ce) = None" and ord: "order_ok ce" using ce by (simp_all add: run_ok_def)
  have w: "sm_workspace m = sm_workspace m0" using pl by (simp add: planning_def)
  obtain plan m1 where p: "Manager_PlanSyncV2 (ce_env ce) (at_session a) m = (Inr plan, m1)" "planning (ce_env ce) a m0 m1"
    "set (pl_HashPaths plan) = {p. \<exists>e. map_of (at_M a) p = Some e \<and> \<not> me_IsDir e \<and> asks (sm_workspace m) e}"
    using PlanSyncV2_ok [OF pl ok lay a] by blast
  show ?thesis
  proof (cases "pl_HashPaths plan = []")
    case True
    then have none: "\<not> asks (sm_workspace m0) e" if "map_of (at_M a) p = Some e" "\<not> me_IsDir e" for p e
    proof -
      have "{p. \<exists>e. map_of (at_M a) p = Some e \<and> \<not> me_IsDir e \<and> asks (sm_workspace m) e} = {}" using p(3) True by simp
      then show ?thesis using that w by auto
    qed
    show ?thesis by (rule plan_loop_last [OF ce B a pl M s g _ none]) (simp_all add: same_watch_def)
  next
    case False
    let ?ps = "pl_HashPaths plan"
    obtain s1 g1 where h: "hash_paths ce ?ps s g = (s1, g1)" by fastforce
    note hk = hash_paths_ok [OF B s g h]
    have files: "map_of (ls_Files B) p \<noteq> None" if "p \<in> set ?ps" for p
    proof -
      obtain e where e: "map_of (at_M a) p = Some e" "\<not> me_IsDir e" using p(3) \<open>p \<in> set ?ps\<close> by blast
      from M e(1) show ?thesis by (cases rule: manifest_for_cases) (use scanned_dir [OF B] e(2) in \<open>auto simp: dir_ok_def\<close>)
    qed
    have ps: "\<forall>p \<in> set ?ps. map_of (ls_Files B) p \<noteq> None \<and> hashed_at ?sha p s1" using files hk(4) by blast
    let ?es = "manifestEntriesForPaths s1 ?ps"
    obtain m2 es where m2: "sendManifestBatches ce (at_session a) ?es False m1 = (None, m2)" "set es = set ?es"
      "planning (ce_env ce) (a\<lparr>at_M := put_entries es (at_M a)\<rparr>) m0 m2"
      using sendManifestBatches_ok [OF p(2) next_manifest(2) [OF B hk(2) M ps refl] a ord] by blast
    let ?M = "put_entries es (at_M a)"
    have r: "hash_round ?sha B ?ps (at_M a) ?M" by (rule next_manifest(1) [OF B hk(2) M ps m2(2)])
    have none: "\<not> asks (sm_workspace m0) e" if "map_of ?M p = Some e" "\<not> me_IsDir e" for p e
    proof (cases "p \<in> set ?ps")
      case True
      then show ?thesis using r that(1) ce by (auto simp: hash_round_def asks_def run_ok_def)
    next
      case False
      then show ?thesis using r p(3) that w by (auto simp: hash_round_def)
    qed
    have "plan_loop ce (at_session a) s g m = plan_loop ce (at_session a) s1 g1 m2"
      using p(1) False h m2(1) by (subst plan_loop.simps) simp
    moreover have "\<exists>plan s' g' m'. plan_loop ce (at_session (a\<lparr>at_M := ?M\<rparr>)) s1 g1 m2 = Some (Inr plan, s', g', m') \<and>
        planned ce B (a\<lparr>at_M := ?M\<rparr>) m0 g (plan, s', g', m')"
      by (rule plan_loop_last [OF ce B _ m2(3) _ hk(2,1,3)]) (use a r none in \<open>simp_all add: hash_round_def\<close>)
    ultimately show ?thesis by (auto simp: planned_def)
  qed
qed

section \<open>From the plan to the end\<close>

lemma transfer_deletes_ok:
  assumes pl: "planning env a m0 m" and D: "D = set (collapseDeletePaths ds)"
    and ds: "set ds = {p. map_of (sm_workspace m0) p \<noteq> None \<and> map_of (at_M a) p = None}"
    and a: "TrimSpace (at_session a) = at_session a"
  shows "\<exists>m'. transfer_deletes (at_session a) (at_epoch a) (collapseDeletePaths ds) m = (None, m') \<and>
    transferred (a\<lparr>at_deleted := D\<rparr>) {} m m' \<and> D \<subseteq> set ds \<and> (\<forall>p \<in> set ds. \<exists>d \<in> D. under p d)"
proof -
  obtain s where s: "in_session (at_epoch a) m s" "session_open env a (sm_workspace m) s"
    using pl by (auto simp: planning_def)
  have stage: "sm_stage m = []" and w: "sm_workspace m = sm_workspace m0" using pl by (simp_all add: planning_def)
  have fresh: "ss_deleted s = []" "ss_changedFiles s = []" using session_open_fresh [OF s(2)] by simp_all
  have id: "ss_sessionID s = at_session a" using s(2) by (simp add: session_open_def session_at_def)
  have valid: "\<forall>p \<in> set ds. ValidateRelativePath p = None"
    using pl w unfolding ds by (simp add: planning_def daemon_ready_def)
  then have "\<forall>p \<in> set ds. p \<noteq> []" using proper_path_not_Nil ValidateRelativePath_elements unfolding proper_path_def by blast
  note cover = collapse_covers [OF this]
  have staged: "staged (at_M a) (at_content a) {} []" by (simp add: staged_def)
  have sent: "transferred (a\<lparr>at_deleted := D\<rparr>) {} m (put_session s' m)"
    if "session_at (a\<lparr>at_deleted := D\<rparr>) {} s'" "ss_uploads s' = []" "ss_bundles s' = []" for s'
    using that in_session_put [OF s(1), of s'] stage staged by (auto simp: transferred_def same_workspace_def)
  have "\<exists>m'. transfer_deletes (at_session a) (at_epoch a) (collapseDeletePaths ds) m = (None, m') \<and>
    transferred (a\<lparr>at_deleted := D\<rparr>) {} m m'"
  proof (cases "collapseDeletePaths ds = []")
    case True
    have "transferred (a\<lparr>at_deleted := D\<rparr>) {} m (put_session s m)"
      by (rule sent) (use s(2) True D in \<open>simp_all add: session_open_def session_at_def\<close>)
    then show ?thesis using True put_session_same [OF s(1)] by (simp add: transfer_deletes_def)
  next
    case False
    let ?s = "s\<lparr>ss_deleteBatches := ss_deleteBatches s + 1\<rparr>"
    have in_s: "in_session (at_epoch a) (put_session ?s m) ?s" by (rule in_session_put [OF s(1)])
    have v: "\<forall>p \<in> set (collapseDeletePaths ds). ValidateRelativePath p = None" using cover(1) valid by blast
    have e: "sm_stage (put_session ?s m) = []" "ss_changedFiles ?s = []" using stage fresh by simp_all
    obtain del where del: "fold_err (\<lambda>path. Manager_DeletePath (at_epoch a) path zero_precondition)
        (collapseDeletePaths ds) (put_session ?s m) = (None, put_session (?s\<lparr>ss_deleted := del\<rparr>) (put_session ?s m))"
      "fst ` set del = fst ` set (ss_deleted ?s) \<union> set (collapseDeletePaths ds)"
      using DeletePaths_empty_stage [OF in_s v e] by blast
    have "transferred (a\<lparr>at_deleted := D\<rparr>) {} m (put_session (?s\<lparr>ss_deleted := del\<rparr>) m)"
      by (rule sent) (use s(2) del(2) fresh D in \<open>simp_all add: session_open_def session_at_def\<close>)
    then show ?thesis
      using False del(1) in_session_active [OF s(1)] id a
      by (simp add: transfer_deletes_def Manager_DeletePathsBatch_def)
  qed
  then show ?thesis using cover D by blast
qed

lemma plan_bridged:
  assumes M: "client_ok env M content" and sha: "\<forall>data. TrimSpace (sy_sha env data) \<noteq> []"
    and kinds: "kinds_agree M w" and hash: "no_collision env content w"
    and plan: "plan_ok env a w plan" "at_M a = M"
    and D: "D \<subseteq> set (pl_DeletePaths plan)" "\<forall>p \<in> set (pl_DeletePaths plan). \<exists>d \<in> D. under p d"
  shows "bridged M content D (set (pl_UploadPaths plan)) w"
proof -
  have same: "\<exists>n. map_of w p = Some n \<and> entry_node content p e n"
    if e: "map_of M p = Some e" "\<not> me_IsDir e" "p \<notin> set (pl_UploadPaths plan)" for p e
  proof -
    have ok: "me_Path e = p" "cloneManifestEntry e = e" "client_entry env content e"
      using M e(1) unfolding client_ok_def manifest_ok_def by blast+
    have "same_file env w e" using plan e unfolding plan_ok_def by blast
    then obtain data mode mtime where n: "map_of w p = Some (FileNode data mode mtime)"
      "file_metadata data mode mtime = normalizeMetadata (me_Metadata e)" "sy_sha env data = me_ContentHash e"
      using ok(1) by (auto simp: same_file_def)
    have "normalizeMetadata (me_Metadata e) = me_Metadata e" using ok(2) by (cases e) (simp add: cloneManifestEntry_def)
    moreover have "sy_sha env data \<noteq> []" using sha by (metis TrimSpace_Nil)
    then have "sy_sha env data = sy_sha env (content p)" using ok(1,3) n(3) e(2) by (auto simp: client_entry_def)
    then have "data = content p" using hash n(1) unfolding no_collision_def by blast
    ultimately show ?thesis using n e(2) by (simp add: entry_node_def)
  qed
  have del: "p \<in> set (pl_DeletePaths plan) \<longleftrightarrow> map_of w p \<noteq> None \<and> map_of M p = None" for p
    using plan by (simp add: plan_ok_def)
  have "set (pl_UploadPaths plan) \<subseteq> files_in M" using plan by (simp add: plan_ok_def)
  then show ?thesis
    unfolding bridged_def using D del kinds same by blast
qed

section \<open>An attempt\<close>

text \<open>The workspace is exactly the tree of the snapshot.\<close>

definition snapshot_node :: "LocalWorkspaceSnapshot \<Rightarrow> string \<Rightarrow> node option \<Rightarrow> bool" where
  "snapshot_node B p n \<longleftrightarrow>
     (case n of
        None \<Rightarrow> map_of (ls_Dirs B) p = None \<and> map_of (ls_Files B) p = None
      | Some DirNode \<Rightarrow> map_of (ls_Dirs B) p \<noteq> None
      | Some (FileNode data mode mtime) \<Rightarrow>
          (case map_of (ls_Files B) p of
             None \<Rightarrow> False
           | Some b \<Rightarrow> data = lf_Data b \<and> file_metadata data mode mtime = me_Metadata (lf_Entry b)))"

definition snapshot_tree :: "LocalWorkspaceSnapshot \<Rightarrow> tree \<Rightarrow> bool" where
  "snapshot_tree B w \<longleftrightarrow> (\<forall>p. snapshot_node B p (map_of w p))"

text \<open>No path is a directory on one side and a file on the other.\<close>

definition same_kinds :: "LocalWorkspaceSnapshot \<Rightarrow> tree \<Rightarrow> bool" where
  "same_kinds B w \<longleftrightarrow>
     (\<forall>p. (map_of (ls_Dirs B) p \<noteq> None \<longrightarrow> \<not> is_file (map_of w p)) \<and>
          (map_of (ls_Files B) p \<noteq> None \<longrightarrow> map_of w p \<noteq> Some DirNode))"

lemma same_kinds_agree:
  assumes B: "scanned sha B" and M: "manifest_for sha B M" and k: "same_kinds B w"
  shows "kinds_agree M w"
  unfolding kinds_agree_def
proof (intro allI impI)
  fix p e n assume e: "map_of M p = Some e" and n: "map_of w p = Some n"
  from M e show "me_IsDir e = (n = DirNode)"
  proof (cases rule: manifest_for_cases)
    case dir
    then have "\<not> is_file (Some n)" using k n unfolding same_kinds_def by (metis option.discI)
    then show ?thesis using scanned_dir [OF B dir] by (cases n) (simp_all add: dir_ok_def)
  next
    case (regular b f)
    then have "n \<noteq> DirNode" using k n unfolding same_kinds_def by (metis option.discI)
    moreover have "\<not> me_IsDir e"
      using variant_file_ok [OF regular(3)] scanned_file [OF B regular(2)] regular(5) by (simp add: file_ok_def)
    ultimately show ?thesis by simp
  qed
qed

lemma snapshot_tree_client:
  assumes B: "scanned sha B" and M: "manifest_for sha B M" and w: "client_tree M (content_of B) w"
  shows "snapshot_tree B w"
  unfolding snapshot_tree_def
proof
  fix p
  have c: "case (map_of M p, map_of w p) of (None, None) \<Rightarrow> True
      | (Some e, Some n) \<Rightarrow> entry_node (content_of B) p e n | _ \<Rightarrow> False"
    using w unfolding client_tree_def by blast
  show "snapshot_node B p (map_of w p)"
  proof (cases "map_of M p")
    case None
    have "map_of (ls_Dirs B) p = None" using manifest_for_dir [OF M, of p] None by (cases "map_of (ls_Dirs B) p") auto
    moreover have "map_of (ls_Files B) p = None"
    proof (rule ccontr)
      assume "map_of (ls_Files B) p \<noteq> None"
      then obtain b where b: "map_of (ls_Files B) p = Some b" by blast
      obtain f where "variant f b" "true_hash sha f" "map_of M p = Some (lf_Entry f)" by (rule manifest_for_file [OF M \<open>map_of (ls_Dirs B) p = None\<close> b])
      then show False using None by simp
    qed
    ultimately show ?thesis using c None by (cases "map_of w p") (simp_all add: snapshot_node_def)
  next
    case (Some e)
    then obtain n where n: "map_of w p = Some n" "entry_node (content_of B) p e n" using c by (cases "map_of w p") simp_all
    from M Some show ?thesis
    proof (cases rule: manifest_for_cases)
      case dir
      then show ?thesis using n scanned_dir [OF B dir] by (cases n) (simp_all add: snapshot_node_def entry_node_def dir_ok_def)
    next
      case (regular b f)
      have "\<not> me_IsDir e" using variant_file_ok [OF regular(3)] scanned_file [OF B regular(2)] regular(5) by (simp add: file_ok_def)
      moreover have "me_Metadata e = me_Metadata (lf_Entry b)" using regular(5) variant_fields(4) [OF regular(3)] by simp
      ultimately show ?thesis using n regular(2) by (cases n) (simp_all add: snapshot_node_def entry_node_def content_of_def)
    qed
  qed
qed

lemma client_tree_ready:
  assumes M: "client_ok env M content" and w: "client_tree M content (sm_workspace m)" "gomap_ok (sm_workspace m)"
    and m: "wc_manifest (ws_committed (sm_state m)) = M"
  shows "daemon_ready env m"
proof -
  let ?w = "sm_workspace m"
  have ok: "manifest_ok M" using M by (simp add: client_ok_def)
  have at: "case (map_of M p, map_of ?w p) of (None, None) \<Rightarrow> True
      | (Some e, Some n) \<Rightarrow> entry_node content p e n | _ \<Rightarrow> False" for p
    using w(1) unfolding client_tree_def by blast
  have node: "\<exists>e. map_of M p = Some e \<and> entry_node content p e n" if "map_of ?w p = Some n" for p n
    using at [of p] that by (cases "map_of M p") simp_all
  have valid: "ValidateRelativePath p = None" if "map_of ?w p \<noteq> None" for p
    using node that ok unfolding manifest_ok_def by blast
  have "map_of ?w a = Some DirNode" if p: "map_of ?w p = Some n" "a \<in> set (ancestors p)" for p n a
  proof -
    obtain e where "map_of M p = Some e" using node p(1) by blast
    then obtain d where d: "map_of M a = Some d" "me_IsDir d" using ok p(2) unfolding manifest_ok_def by blast
    then show ?thesis using at [of a] by (cases "map_of ?w a") (simp_all add: entry_node_def split: node.splits)
  qed
  then have "tree_ok ?w" unfolding tree_ok_def using w(2) by blast
  moreover have "described env M ?w"
    unfolding described_def
  proof
    fix p
    have "entry_describes env e n" if "entry_node content p e n" "map_of M p = Some e" for e n
    proof -
      have "client_entry env content e" "me_Path e = p"
        using M that(2) manifest_ok_path [OF ok] unfolding client_ok_def by blast+
      then show ?thesis using that(1) by (cases n) (auto simp: entry_describes_def entry_node_def client_entry_def)
    qed
    then show "case (map_of M p, map_of ?w p) of (None, None) \<Rightarrow> True | (Some e, Some n) \<Rightarrow> entry_describes env e n | _ \<Rightarrow> False"
      using at [of p] by (auto split: option.splits)
  qed
  ultimately show ?thesis using valid m by (simp add: daemon_ready_def)
qed

text \<open>The files a client uploads are those of the plan, with their content and hash.\<close>

lemma upload_files_local:
  assumes B: "scanned (sy_sha env) B" and hashed: "\<forall>p \<in> set ps. hashed_at (sy_sha env) p s" and s: "snapshot_of (sy_sha env) B s"
    and b: "at_content b = content_of B" "set ps \<subseteq> files_in (at_M b)"
  shows "\<forall>f \<in> set (localWorkspaceFilesForPaths s ps). local_file env b f"
    "lf_Path ` set (localWorkspaceFilesForPaths s ps) = set ps"
proof -
  have f: "local_file env b f \<and> lf_Path f = p" if p: "p \<in> set ps" "map_of (ls_Files s) p = Some f" for p f
  proof -
    have h: "hashed_at (sy_sha env) p s" using hashed p(1) by blast
    obtain c where "map_of (ls_Files B) p = Some c" using snapshot_of_file [OF s p(2)] by blast
    then obtain c f' where c: "map_of (ls_Files B) p = Some c" "variant f' c" "map_of (ls_Files s) p = Some f'"
      "file_hash f' = sy_sha env (lf_Data c)" "file_ok p f'"
      using hashed_entries [OF B s _ h] by blast
    have "f' = f" using c(3) p(2) by simp
    then show ?thesis
      using c(1,2,4,5) p(1) b variant_fields(2) [OF c(2)] by (auto simp: local_file_def content_of_def file_ok_def)
  qed
  then show "\<forall>f \<in> set (localWorkspaceFilesForPaths s ps). local_file env b f" using files_for_paths by blast
  have "p \<in> lf_Path ` set (localWorkspaceFilesForPaths s ps)" if p: "p \<in> set ps" for p
  proof -
    obtain g where "map_of (ls_Files s) p = Some g" using hashed p by (auto simp: hashed_at_def)
    then show ?thesis using f [OF p] files_for_paths p by blast
  qed
  moreover have "lf_Path ` set (localWorkspaceFilesForPaths s ps) \<subseteq> set ps" using f files_for_paths by blast
  ultimately show "lf_Path ` set (localWorkspaceFilesForPaths s ps) = set ps" by blast
qed

text \<open>Deletions and files arrive; what is left is the publication.\<close>

lemma transfer_arrives:
  assumes ce: "run_ok ce" and B: "scanned (sy_sha (ce_env ce)) B" and a: "TrimSpace (at_session a) = at_session a"
      "at_content a = content_of B"
    and pl: "planned ce B a m0 g0 (plan, s, g, m)"
    and files: "\<forall>p \<in> set (pl_UploadPaths plan). hashed_at (sy_sha (ce_env ce)) p s1" "snapshot_of (sy_sha (ce_env ce)) B s1"
  obtains M D m2 where "manifest_for (sy_sha (ce_env ce)) B M" "plan_ok (ce_env ce) (a\<lparr>at_M := M\<rparr>) (sm_workspace m0) plan"
    "D \<subseteq> set (pl_DeletePaths plan)" "\<forall>p \<in> set (pl_DeletePaths plan). \<exists>d \<in> D. under p d"
    "attempt_ok (ce_env ce) (a\<lparr>at_M := M, at_deleted := D\<rparr>)"
    "transferred (a\<lparr>at_M := M, at_deleted := D\<rparr>) (set (pl_UploadPaths plan)) m m2"
    "sm_workspace m2 = sm_workspace m0" "sm_mount m2 = sm_mount m0" "tree_ok (sm_workspace m2)"
    "transfer_and_finalize (ce_env ce) (ce_gzip ce) (supportsCompression (ce_caps ce)) None (at_session a) (at_epoch a)
      (at_id a) plan (localWorkspaceFilesForPaths s1 (pl_UploadPaths plan)) m =
     Manager_FinalizeSyncV2 (ce_env ce) (at_session a) (at_epoch a) (at_id a) True m2"
proof -
  let ?env = "ce_env ce" and ?sha = "sy_sha (ce_env ce)"
  let ?files = "localWorkspaceFilesForPaths s1 (pl_UploadPaths plan)" and ?U = "set (pl_UploadPaths plan)"
  obtain M where M: "manifest_for ?sha B M" "planning ?env (a\<lparr>at_M := M\<rparr>) m0 m"
    "plan_ok ?env (a\<lparr>at_M := M\<rparr>) (sm_workspace m0) plan"
    using pl by (auto simp: planned_def)
  define D where "D = set (collapseDeletePaths (pl_DeletePaths plan))"
  define b where "b = a\<lparr>at_M := M, at_deleted := D\<rparr>"
  obtain m1 where m1: "transfer_deletes (at_session a) (at_epoch a) (collapseDeletePaths (pl_DeletePaths plan)) m = (None, m1)"
    "transferred b {} m m1" "D \<subseteq> set (pl_DeletePaths plan)" "\<forall>p \<in> set (pl_DeletePaths plan). \<exists>d \<in> D. under p d"
    using transfer_deletes_ok [OF M(2) D_def] M(3) a(1) by (auto simp: plan_ok_def b_def)
  have att: "attempt_ok ?env b"
    using ce client_ok_manifest [OF B M(1)] a(1) m1(3) M(3)
    by (auto simp: attempt_ok_def run_ok_def client_ok_def b_def plan_ok_def)
  have comp: "compression_ok ?env (ce_gzip ce) (supportsCompression (ce_caps ce))"
    using ce by (simp add: compression_ok_def supportsCompression_def run_ok_def)
  have loc: "\<forall>f \<in> set ?files. local_file ?env b f" and paths: "lf_Path ` set ?files = ?U"
    using upload_files_local [OF B files, of b] M(3) by (simp_all add: b_def a(2) plan_ok_def)
  obtain m2 where m2: "transfer_files ?env (ce_gzip ce) (supportsCompression (ce_caps ce)) (at_session b) (at_epoch b) ?files m1 =
      (None, m2)" "transferred b ?U m m2"
    using transfer_files_ok [OF att comp loc m1(2)] paths by auto
  have w: "sm_workspace m = sm_workspace m0" "sm_mount m = sm_mount m0" "tree_ok (sm_workspace m)"
    using M(2) unfolding planning_def daemon_ready_def by blast+
  have "sm_workspace m2 = sm_workspace m" "sm_mount m2 = sm_mount m"
    using m2(2) by (simp_all add: transferred_def same_workspace_def)
  moreover have "transfer_and_finalize ?env (ce_gzip ce) (supportsCompression (ce_caps ce)) None (at_session a) (at_epoch a)
      (at_id a) plan ?files m = Manager_FinalizeSyncV2 ?env (at_session a) (at_epoch a) (at_id a) True m2"
    using m1(1) m2(1) by (simp add: transfer_and_finalize_def b_def)
  ultimately show thesis
    using that [OF M(1,3) m1(3,4) att [unfolded b_def] m2(2) [unfolded b_def]] w by simp
qed

lemma transfer_converges:
  assumes ce: "run_ok ce" and B: "scanned (sy_sha (ce_env ce)) B" and a: "TrimSpace (at_session a) = at_session a"
      "at_content a = content_of B"
    and pl: "planned ce B a m0 g0 (plan, s, g, m)"
    and files: "\<forall>p \<in> set (pl_UploadPaths plan). hashed_at (sy_sha (ce_env ce)) p s1" "snapshot_of (sy_sha (ce_env ce)) B s1"
    and kinds: "same_kinds B (sm_workspace m0)" and hash: "no_collision (ce_env ce) (content_of B) (sm_workspace m0)"
    and mirror: "sy_mirror (ce_env ce) = Inr mir" "mir \<longrightarrow> sm_mount m0 = sm_workspace m0"
  shows "\<exists>m'. transfer_and_finalize (ce_env ce) (ce_gzip ce) (supportsCompression (ce_caps ce)) None (at_session a) (at_epoch a)
      (at_id a) plan (localWorkspaceFilesForPaths s1 (pl_UploadPaths plan)) m = (None, m') \<and>
    snapshot_tree B (sm_workspace m') \<and> daemon_ready (ce_env ce) m'"
proof -
  obtain M D m2 where M: "manifest_for (sy_sha (ce_env ce)) B M" "plan_ok (ce_env ce) (a\<lparr>at_M := M\<rparr>) (sm_workspace m0) plan"
    and D: "D \<subseteq> set (pl_DeletePaths plan)" "\<forall>p \<in> set (pl_DeletePaths plan). \<exists>d \<in> D. under p d"
    and att: "attempt_ok (ce_env ce) (a\<lparr>at_M := M, at_deleted := D\<rparr>)"
      "transferred (a\<lparr>at_M := M, at_deleted := D\<rparr>) (set (pl_UploadPaths plan)) m m2"
    and w: "sm_workspace m2 = sm_workspace m0" "sm_mount m2 = sm_mount m0" "tree_ok (sm_workspace m2)"
    and fin: "transfer_and_finalize (ce_env ce) (ce_gzip ce) (supportsCompression (ce_caps ce)) None (at_session a) (at_epoch a)
      (at_id a) plan (localWorkspaceFilesForPaths s1 (pl_UploadPaths plan)) m =
     Manager_FinalizeSyncV2 (ce_env ce) (at_session a) (at_epoch a) (at_id a) True m2"
    by (rule transfer_arrives [OF ce B a pl files])
  have cl: "client_ok (ce_env ce) M (content_of B)" by (rule client_ok_manifest [OF B M(1)])
  have br: "bridged M (content_of B) D (set (pl_UploadPaths plan)) (sm_workspace m0)"
    by (rule plan_bridged [OF cl _ same_kinds_agree [OF B M(1) kinds] hash M(2) _ D])
       (use ce in \<open>simp_all add: run_ok_def\<close>)
  let ?b = "a\<lparr>at_M := M, at_deleted := D\<rparr>"
  have "\<exists>m'. Manager_FinalizeSyncV2 (ce_env ce) (at_session ?b) (at_epoch ?b) (at_id ?b) True m2 = (None, m') \<and>
    client_tree (at_M ?b) (at_content ?b) (sm_workspace m') \<and> gomap_ok (sm_workspace m') \<and> wc_manifest (ws_committed (sm_state m')) = at_M ?b"
    by (rule FinalizeSyncV2_ok [OF att(1) _ att(2) w(3) _ mirror(1)]) (use cl br mirror(2) w a(2) in simp_all)
  then obtain m' where m': "Manager_FinalizeSyncV2 (ce_env ce) (at_session a) (at_epoch a) (at_id a) True m2 = (None, m')"
    "client_tree M (content_of B) (sm_workspace m')" "gomap_ok (sm_workspace m')" "wc_manifest (ws_committed (sm_state m')) = M"
    using a(2) by auto
  then show ?thesis
    using fin snapshot_tree_client [OF B M(1) m'(2)] client_tree_ready [OF cl m'(2-4)] by simp
qed

section \<open>A whole run\<close>

lemma TrimSpace_session_id: "TrimSpace (sync_session_id epoch now) = sync_session_id epoch now"
proof (rule TrimSpace_plain)
  have "last (nat_dec (nat \<bar>now\<bar>)) \<in> set (nat_dec (nat \<bar>now\<bar>))" by simp
  from nat_dec_digits [OF this] show "plain (last (sync_session_id epoch now))"
    by (simp add: sync_session_id_def digit_val_plain)
  show "sync_session_id epoch now \<noteq> []" by (simp add: sync_session_id_def)
  show "plain (hd (sync_session_id epoch now))" by (simp add: sync_session_id_def plain_def ascii_space_def)
qed

lemma startSyncSession_ok:
  assumes ready: "daemon_ready env m" and lay: "sy_layout env = None" and epoch: "epoch \<noteq> 0"
  obtains r m1 where "startSyncSession env epoch attemptID fp m = (Inr r, m1)"
    "sr_SessionID r = sync_session_id epoch (sy_now env)"
    "planning env \<lparr>at_M = [], at_content = content, at_deleted = {}, at_session = sync_session_id epoch (sy_now env),
       at_epoch = epoch, at_id = attemptID\<rparr> m m1"
proof -
  let ?s = "ensureCommittedManifestLocked env (sm_workspace m) (sm_state m)"
  let ?n = "new_session env epoch attemptID fp"
  let ?m1 = "m\<lparr>sm_state := ?s\<lparr>ws_sync := \<lparr>wy_activeEpoch = epoch, wy_sessions = [(epoch, ?n)]\<rparr>\<rparr>, sm_stage := []\<rparr>"
  obtain r where "startSyncSession env epoch attemptID fp m = (Inr r, ?m1)" "sr_SessionID r = ss_sessionID ?n"
    using lay by (simp add: startSyncSession_def Let_def)
  moreover have "daemon_ready env ?m1"
    using ready ensure_described [OF ready] by (simp add: daemon_ready_def)
  moreover have "in_session epoch ?m1 ?n" using epoch by (simp add: in_session_def)
  moreover have "session_open env \<lparr>at_M = [], at_content = content, at_deleted = {},
      at_session = sync_session_id epoch (sy_now env), at_epoch = epoch, at_id = attemptID\<rparr> (sm_workspace m) ?n"
    by (simp add: session_open_def session_at_def new_session_def memos_true_def)
  ultimately show thesis
    using that [of r ?m1] by (auto simp: planning_def new_session_def)
qed

lemma planned_upload:
  assumes B: "scanned (sy_sha (ce_env ce)) B" and p: "planned ce B a m0 g (plan, s)" and q: "q \<in> set (pl_UploadPaths plan)"
  shows "map_of (ls_Files B) q \<noteq> None"
proof -
  obtain M e where M: "manifest_for (sy_sha (ce_env ce)) B M" "map_of M q = Some e" "\<not> me_IsDir e"
    using p q unfolding planned_def plan_ok_def by (auto simp: files_in_def split: prod.splits)
  from M(1,2) show ?thesis
    by (cases rule: manifest_for_cases) (use scanned_dir [OF B] M(3) in \<open>auto simp: dir_ok_def\<close>)
qed

text \<open>The watcher sees nothing and the workspace has been quiet for long enough when the guard is asked.\<close>

definition quiet :: "client_env \<Rightarrow> nat \<Rightarrow> SyncGuard \<Rightarrow> bool" where
  "quiet ce attempt g \<longleftrightarrow> ce_watch ce attempt = id \<and> sg_watchHealthy g \<and>
     syncGuardQuiescenceWindow \<le> ce_now ce attempt - sg_quiescentSince g"

lemma quiet_Validate:
  "quiet ce attempt g \<Longrightarrow> same_watch g g' \<Longrightarrow> same_watch g' g'' \<Longrightarrow>
   Guard_Validate (ce_now ce attempt) (sg_dirtyEpoch g) (Some (ce_watch ce attempt g'')) = None"
  by (simp add: quiet_def same_watch_def Guard_Validate_def)

definition can_sync :: "client_env \<Rightarrow> LocalWorkspaceSnapshot \<Rightarrow> SyncManager \<Rightarrow> bool" where
  "can_sync ce B m \<longleftrightarrow> run_ok ce \<and> scanned (sy_sha (ce_env ce)) B \<and> daemon_ready (ce_env ce) m \<and>
     same_kinds B (sm_workspace m) \<and> no_collision (ce_env ce) (content_of B) (sm_workspace m) \<and>
     (\<exists>mir. sy_mirror (ce_env ce) = Inr mir \<and> (mir \<longrightarrow> sm_mount m = sm_workspace m))"

definition proceeds ::
  "client_env \<Rightarrow> nat \<Rightarrow> u64 \<Rightarrow> LocalWorkspaceSnapshot \<Rightarrow> SyncGuard \<Rightarrow> SyncManager \<Rightarrow> attempt \<Rightarrow> PlanSyncV2Response \<Rightarrow>
   LocalWorkspaceSnapshot \<Rightarrow> SyncManager \<Rightarrow> SyncGuard \<Rightarrow> bool" where
  "proceeds ce attempt epoch B g m a plan s1 m3 g2 \<longleftrightarrow>
     (\<forall>st. performInitialSyncAttemptV2 ce attempt epoch st B g m =
        (case transfer_and_finalize (ce_env ce) (ce_gzip ce) (supportsCompression (ce_caps ce))
            (Guard_Validate (ce_now ce attempt) st (Some (ce_watch ce attempt g2))) (at_session a) (at_epoch a) (at_id a) plan
            (localWorkspaceFilesForPaths s1 (pl_UploadPaths plan)) m3 of
           (r, m') \<Rightarrow> Some (r, ce_watch ce attempt g2, m')))"

text \<open>Every attempt gets as far as a final plan; what follows is the transfer.\<close>

lemma attempt_planned:
  assumes ce: "run_ok ce" and B: "scanned (sy_sha (ce_env ce)) B" and ready: "daemon_ready (ce_env ce) m"
    and g: "guard_true (sy_sha (ce_env ce)) B g" and epoch: "epoch \<noteq> 0"
  obtains a plan s g1 m3 s1 g2 where "TrimSpace (at_session a) = at_session a" "at_content a = content_of B"
    "planned ce B a m g (plan, s, g1, m3)"
    "\<forall>q \<in> set (pl_UploadPaths plan). hashed_at (sy_sha (ce_env ce)) q s1" "snapshot_of (sy_sha (ce_env ce)) B s1"
    "same_watch g g2"
    "proceeds ce attempt epoch B g m a plan s1 m3 g2"
proof -
  let ?env = "ce_env ce"
  have lay: "sy_layout ?env = None" and ord: "order_ok ce" using ce by (simp_all add: run_ok_def)
  define a where "a = \<lparr>at_M = [], at_content = content_of B, at_deleted = {}, at_session = sync_session_id epoch (sy_now ?env),
    at_epoch = epoch, at_id = of_nat (attempt + 1)\<rparr>"
  have trim: "TrimSpace (at_session a) = at_session a" by (simp add: a_def TrimSpace_session_id)
  obtain r m1 where m1: "startSyncSession ?env epoch (of_nat (attempt + 1)) (ls_Fingerprint B) m = (Inr r, m1)"
    "sr_SessionID r = at_session a" "planning ?env a m m1"
    using startSyncSession_ok [OF ready lay epoch, of "of_nat (attempt + 1)" "ls_Fingerprint B" "content_of B"]
    unfolding a_def by auto
  have "\<forall>e \<in> set (ls_Entries B). ValidateRelativePath (me_Path e) = None"
    using scanned_entry [OF B] by (simp add: path_ok_def)
  from sendManifestBatches_ok [OF m1(3) this trim ord, of True] obtain m2 es where
    m2: "sendManifestBatches ce (at_session a) (ls_Entries B) True m1 = (None, m2)" "set es = set (ls_Entries B)"
      "planning ?env (a\<lparr>at_M := put_entries es (at_M a)\<rparr>) m m2" by blast
  let ?a = "a\<lparr>at_M := put_entries es []\<rparr>"
  have pl2: "planning ?env ?a m m2" using m2(3) by (simp add: a_def)
  have trim': "TrimSpace (at_session ?a) = at_session ?a" using trim by simp
  have man: "manifest_for (sy_sha ?env) B (at_M ?a)" using first_manifest [OF B m2(2)] by simp
  obtain plan s g1 m3 where p: "plan_loop ce (at_session ?a) B g m2 = Some (Inr plan, s, g1, m3)"
    "planned ce B ?a m g (plan, s, g1, m3)"
    using plan_loop_ends [OF ce B trim' pl2 man scanned_self [OF B] g] by blast
  obtain s1 g2 where h: "hash_paths ce (pl_UploadPaths plan) s g1 = (s1, g2)" by fastforce
  have s: "snapshot_of (sy_sha ?env) B s" "guard_true (sy_sha ?env) B g1" "same_watch g g1"
    using p(2) by (auto simp: planned_def)
  note hk = hash_paths_ok [OF B s(1,2) h]
  have files: "\<forall>q \<in> set (pl_UploadPaths plan). hashed_at (sy_sha ?env) q s1"
    using hk(4) planned_upload [OF B p(2)] by blast
  have watch: "same_watch g g2" using s(3) hk(3) by (simp add: same_watch_def)
  have run: "proceeds ce attempt epoch B g m ?a plan s1 m3 g2"
    using m1(1,2) m2(1) p(1) h
    by (simp add: proceeds_def performInitialSyncAttemptV2_def transfer_planned_def Let_def a_def split: prod.splits)
  show thesis
    by (rule that [OF trim' _ p(2) files hk(2) watch run]) (simp add: a_def)
qed

lemma attempt_converges:
  assumes can: "can_sync ce B m" and g: "guard_true (sy_sha (ce_env ce)) B g" "quiet ce attempt g" and epoch: "epoch \<noteq> 0"
  shows "\<exists>g' m'. performInitialSyncAttemptV2 ce attempt epoch (sg_dirtyEpoch g) B g m = Some (None, g', m') \<and>
    snapshot_tree B (sm_workspace m') \<and> daemon_ready (ce_env ce) m'"
proof -
  have ce: "run_ok ce" and B: "scanned (sy_sha (ce_env ce)) B" and ready: "daemon_ready (ce_env ce) m"
    and kinds: "same_kinds B (sm_workspace m)" and hash: "no_collision (ce_env ce) (content_of B) (sm_workspace m)"
    using can by (simp_all add: can_sync_def)
  obtain mir where mir: "sy_mirror (ce_env ce) = Inr mir" "mir \<longrightarrow> sm_mount m = sm_workspace m"
    using can by (auto simp: can_sync_def)
  obtain a plan s g1 m3 s1 g2 where a: "TrimSpace (at_session a) = at_session a" "at_content a = content_of B"
    "planned ce B a m g (plan, s, g1, m3)"
    "\<forall>q \<in> set (pl_UploadPaths plan). hashed_at (sy_sha (ce_env ce)) q s1" "snapshot_of (sy_sha (ce_env ce)) B s1"
    and watch: "same_watch g g2"
    and run: "proceeds ce attempt epoch B g m a plan s1 m3 g2"
    by (rule attempt_planned [OF ce B ready g(1) epoch])
  have "Guard_Validate (ce_now ce attempt) (sg_dirtyEpoch g) (Some (ce_watch ce attempt g2)) = None"
    by (rule quiet_Validate [OF g(2) watch]) (simp add: same_watch_def)
  then show ?thesis
    using run transfer_converges [OF ce B a kinds hash mir] by (fastforce simp: proceeds_def)
qed

section \<open>A change of kind\<close>

lemma fold_err_fails:
  "(\<And>x s. x \<in> set xs \<Longrightarrow> P s \<Longrightarrow> P (snd (f x s))) \<Longrightarrow> x \<in> set xs \<Longrightarrow> (\<And>s. P s \<Longrightarrow> fst (f x s) \<noteq> None) \<Longrightarrow> P s \<Longrightarrow>
   \<exists>e s'. fold_err f xs s = (Some e, s') \<and> P s'"
proof (induction xs arbitrary: s)
  case (Cons y ys)
  obtain r s1 where y: "f y s = (r, s1)" by fastforce
  have s1: "P s1" using Cons.prems(1) [of y s] Cons.prems(4) y by simp
  show ?case
  proof (cases r)
    case None
    then have "x \<noteq> y" using Cons.prems(3) [OF Cons.prems(4)] y by auto
    then have "x \<in> set ys" using Cons.prems(2) by simp
    then have "\<exists>e s'. fold_err f ys s1 = (Some e, s') \<and> P s'"
      by (intro Cons.IH) (use Cons.prems(1,3) s1 in auto)
    then show ?thesis using y None by simp
  qed (use y s1 in simp)
qed simp

lemma mkdirs_keep: "mkdirs ps t = Inr t' \<Longrightarrow> map_of t q = Some n \<Longrightarrow> map_of t' q = Some n"
proof (induction ps arbitrary: t)
  case (Cons p ps)
  show ?case
  proof (cases "map_of t p")
    case None
    then have "map_of (AList.update p DirNode t) q = Some n" using Cons.prems(2) by auto
    then show ?thesis using Cons.IH [of "AList.update p DirNode t"] Cons.prems(1) None by simp
  next
    case (Some x)
    then show ?thesis using Cons by (cases x) simp_all
  qed
qed simp

lemma mkdirs_file: "p \<in> set ps \<Longrightarrow> is_file (map_of t p) \<Longrightarrow> \<exists>e. mkdirs ps t = Inl e"
proof (induction ps arbitrary: t)
  case (Cons q ps)
  show ?case
  proof (cases "map_of t q")
    case None
    then have "p \<in> set ps" "is_file (map_of (AList.update q DirNode t) p)" using Cons.prems by auto
    then show ?thesis using Cons.IH [of "AList.update q DirNode t"] None by simp
  next
    case (Some x)
    then show ?thesis using Cons by (cases x) auto
  qed
qed simp

lemma make_dir_file:
  assumes "is_file (map_of t p)" "p \<noteq> []"
  shows "is_file (map_of (snd (make_dir q t)) p)" "fst (make_dir p t) \<noteq> None"
proof -
  obtain data mode mtime where p: "map_of t p = Some (FileNode data mode mtime)"
    using assms(1) by (cases "map_of t p" rule: is_file.cases) auto
  show "is_file (map_of (snd (make_dir q t)) p)"
    using assms(1) mkdirs_keep [OF _ p, of "ancestors q @ [q]"]
    by (auto simp: make_dir_def MkdirAll_def split: sum.splits)
  show "fst (make_dir p t) \<noteq> None"
    using mkdirs_file [of p "ancestors p @ [p]", OF _ assms(1)] assms(2) by (auto simp: make_dir_def MkdirAll_def)
qed

lemma remove_path_file: "is_file (map_of t p) \<Longrightarrow> \<not> under p d \<Longrightarrow> is_file (map_of (snd (remove_path d t)) p)"
  by (auto simp: remove_path_def RemoveAll_def map_of_filter_key split: sum.splits)

lemma publish_kind_change:
  assumes M: "manifest_ok M" "p \<in> dirs_of M" and w: "is_file (map_of w p)" and D: "\<forall>d \<in> fst ` set del. \<not> under p d"
  shows "\<exists>e w' t'. fold_err id (publish_steps env mir stage M C del) (w, t) = (Some e, w', t') \<and> is_file (map_of w' p)"
proof -
  let ?ds = "map (\<lambda>d. on_trees mir (remove_path d)) (sortedDeletePathsDeepestFirst del)"
  let ?ms = "map (\<lambda>e. on_trees mir (make_dir (me_Path e))) (filter me_IsDir (sortedManifestEntries M))"
  obtain d where "map_of M p = Some d" using M(2) by (auto simp: dirs_of_def)
  then have p: "p \<noteq> []" using manifest_ok_path [OF M(1)] proper_path_not_Nil by blast
  have paths: "set (map me_Path (filter me_IsDir (sortedManifestEntries M))) = dirs_of M"
  proof (rule sorted_dirs)
    show "gomap_ok M" using M(1) by (simp add: manifest_ok_def)
    show "\<And>p e. map_of M p = Some e \<Longrightarrow> me_Path e = p" using manifest_ok_path [OF M(1)] by blast
  qed
  then have "p \<in> set (map me_Path (filter me_IsDir (sortedManifestEntries M)))" using M(2) by blast
  then obtain e where e: "e \<in> set (filter me_IsDir (sortedManifestEntries M))" "me_Path e = p"
    unfolding set_map by blast
  define xs where "xs = ?ds @ ?ms"
  have keep: "is_file (map_of (fst (snd (on_trees mir f s))) p)" if "is_file (map_of (snd (f (fst s))) p)" for f s
    using that by (cases s; cases "f (fst s)"; cases "fst (f (fst s))") (simp_all add: on_trees_def split: prod.splits)
  have "set (sortedDeletePathsDeepestFirst del) = fst ` set del"
    by (simp add: sortedDeletePathsDeepestFirst_def deepest_first_def sortedDeletePaths_def uniqueStrings_def)
  then have shape: "(\<exists>d. x = on_trees mir (remove_path d) \<and> \<not> under p d) \<or> (\<exists>q. x = on_trees mir (make_dir q))"
    if "x \<in> set xs" for x
    using that D unfolding xs_def by auto
  have step: "is_file (map_of (fst (snd (x s))) p)" if "x \<in> set xs" "is_file (map_of (fst s) p)" for x s
    using shape [OF that(1)] keep remove_path_file [OF that(2)] make_dir_file(1) [OF that(2) p] by blast
  have bad: "fst (on_trees mir (make_dir p) s) \<noteq> None" if "is_file (map_of (fst s) p)" for s
    using make_dir_file(2) [OF that p]
    by (cases s; cases "make_dir p (fst s)"; cases "fst (make_dir p (fst s))") (simp_all add: on_trees_def)
  have mem: "on_trees mir (make_dir p) \<in> set xs" unfolding xs_def set_append set_map using e by blast
  have "\<exists>err s'. fold_err id xs (w, t) = (Some err, s') \<and> is_file (map_of (fst s') p)"
    by (rule fold_err_fails [where f = id and P = "\<lambda>s. is_file (map_of (fst s) p)", OF _ mem])
       (use step bad w in simp_all)
  then obtain err w' t' where f: "fold_err id xs (w, t) = (Some err, w', t')" "is_file (map_of w' p)" by auto
  have "\<exists>ys. publish_steps env mir stage M C del = xs @ ys" by (simp add: publish_steps_def xs_def)
  then obtain ys where "publish_steps env mir stage M C del = xs @ ys" by blast
  then show ?thesis using f fold_err_append [of id xs ys "(w, t)"] by simp
qed

end
