(* ===== verification/Scan_Walk.thy ===== *)
theory Scan_Walk
  imports Workspace_Scan View_Properties Sync_Results
begin

text \<open>
  The walk of a scan: the entries it visits, in the order of the walk, and what their visits leave in
  the state of the scan.
\<close>

section \<open>The visited entries\<close>

definition pruned :: "WorkspaceViewRules \<Rightarrow> string \<Rightarrow> bool" where
  "pruned rules path \<longleftrightarrow> \<not> AllowsPath rules path \<and> CanPruneDirectory rules path"

fun walked_node :: "WorkspaceViewRules \<Rightarrow> string \<Rightarrow> disk_node \<Rightarrow> (string \<times> disk_node) list"
  and walked_entries :: "WorkspaceViewRules \<Rightarrow> string \<Rightarrow> (string \<times> disk_node) list \<Rightarrow> (string \<times> disk_node) list" where
  "walked_node rules path node =
     (path, node) #
     (case node of
        DiskDir _ _ _ entries \<Rightarrow> if pruned rules path then [] else walked_entries rules path entries
      | _ \<Rightarrow> [])"
| "walked_entries rules path [] = []"
| "walked_entries rules path ((name, node) # entries) =
     walked_node rules (child_path path name) node @ walked_entries rules path entries"

declare walked_node.simps [simp del]

lemma walked_node_simps [simp]:
  "walked_node rules path (DiskDir mode mtime readErr entries) =
     (path, DiskDir mode mtime readErr entries) # (if pruned rules path then [] else walked_entries rules path entries)"
  "walked_node rules path (DiskFile mode mtime data) = [(path, DiskFile mode mtime data)]"
  by (simp_all add: walked_node.simps [of rules path])

fun visit_all ::
  "scan_env \<Rightarrow> WorkspaceViewRules \<Rightarrow> (string, unit) gomap \<Rightarrow> bool \<Rightarrow> (string \<times> disk_node) list \<Rightarrow> scan_state \<Rightarrow> scan_state res" where
  "visit_all env rules hashPaths hashAll [] st = Inr st"
| "visit_all env rules hashPaths hashAll ((path, node) # visits) st =
     (case scan_visit env rules hashPaths hashAll path node st of
        Inl e \<Rightarrow> Inl e
      | Inr (_, st) \<Rightarrow> visit_all env rules hashPaths hashAll visits st)"

lemma visit_all_append:
  "visit_all env rules hp ha (xs @ ys) st =
   (case visit_all env rules hp ha xs st of Inl e \<Rightarrow> Inl e | Inr st \<Rightarrow> visit_all env rules hp ha ys st)"
  by (induction env rules hp ha xs st rule: visit_all.induct) (auto split: sum.splits)

text \<open>What a visit that does not fail does.\<close>

lemma scan_visit_cases:
  assumes "scan_visit env rules hp ha path node st = Inr (skip, st')"
  obtains (dir) mode mtime readErr entries coll where "node = DiskDir mode mtime readErr entries"
      "skip = pruned rules path" "st' = scan_dir rules path mode mtime (st\<lparr>sc_collisions := coll\<rparr>)" "ValidateRelativePath path = None"
  | (regular) mode mtime data coll where "node = DiskFile mode mtime data" "\<not> skip"
      "st' = scan_regular env rules hp ha path mode mtime data (st\<lparr>sc_collisions := coll\<rparr>)" "ValidateRelativePath path = None"
  using assms
  by (cases node) (auto simp: scan_visit_def Let_def pruned_def intro: that split: option.splits if_splits)

lemma walk_visits:
  "walk_node env rules hp ha path node st = Inr st' \<Longrightarrow> visit_all env rules hp ha (walked_node rules path node) st = Inr st'"
  "walk_entries env rules hp ha path entries st = Inr st' \<Longrightarrow>
   visit_all env rules hp ha (walked_entries rules path entries) st = Inr st'"
proof (induction env rules hp ha path node st and env rules hp ha path entries st
    arbitrary: st' and st' rule: walk_node_walk_entries.induct)
  case (1 env rules hp ha path node st)
  obtain skip st1 where v: "scan_visit env rules hp ha path node st = Inr (skip, st1)"
    using "1.prems" by (auto simp: walk_node.simps [of _ _ _ _ _ node] split: sum.splits)
  from v show ?case
  proof (cases rule: scan_visit_cases)
    case (dir mode mtime readErr entries coll)
    show ?thesis
    proof (cases skip)
      case True
      then show ?thesis using "1.prems" v dir by (simp add: walk_node.simps [of env rules hp ha path])
    next
      case False
      then have r: "readErr = None" "walk_entries env rules hp ha path entries st1 = Inr st'"
        using "1.prems" v dir(1) by (auto simp: walk_node.simps [of env rules hp ha path] split: option.splits)
      then show ?thesis
        using "1.IH" [OF v refl dir(1) False r] v dir False by simp
    qed
  next
    case regular
    then show ?thesis using "1.prems" v by (simp add: walk_node.simps [of env rules hp ha path])
  qed
next
  case (3 env rules hp ha path name node entries st)
  then obtain st1 where "walk_node env rules hp ha (child_path path name) node st = Inr st1"
    "walk_entries env rules hp ha path entries st1 = Inr st'"
    by (auto split: sum.splits)
  then show ?case using "3.IH" by (simp add: visit_all_append)
qed simp

section \<open>What the visits leave\<close>

text \<open>The file and the directory entry a visited node gives.\<close>

definition scan_hash :: "scan_env \<Rightarrow> (string, unit) gomap \<Rightarrow> bool \<Rightarrow> string \<Rightarrow> string \<Rightarrow> string" where
  "scan_hash env hashPaths hashAll path data = (if hashAll \<or> map_of hashPaths path \<noteq> None then sv_sha env data else [])"

fun shared_file ::
  "scan_env \<Rightarrow> WorkspaceViewRules \<Rightarrow> (string, unit) gomap \<Rightarrow> bool \<Rightarrow> string \<Rightarrow> disk_node \<Rightarrow> LocalWorkspaceFile option" where
  "shared_file env rules hp ha path (DiskFile mode mtime data) =
     (if AllowsPath rules path then Some (scan_file path mode mtime data (scan_hash env hp ha path data)) else None)"
| "shared_file env rules hp ha path _ = None"

fun dir_entry :: "string \<Rightarrow> disk_node \<Rightarrow> ManifestEntry option" where
  "dir_entry path (DiskDir mode mtime _ _) = Some (scan_dir_entry path mode mtime)"
| "dir_entry path _ = None"

lemma scan_dir_fields [simp]:
  "sc_Files (scan_dir rules path mode mtime st) = sc_Files st"
  "sc_HashedFiles (scan_dir rules path mode mtime st) = sc_HashedFiles st"
  "sc_dirs (scan_dir rules path mode mtime st) = AList.update path (scan_dir_entry path mode mtime) (sc_dirs st)"
  "sc_visible (scan_dir rules path mode mtime st) =
     (if AllowsPath rules path then markVisibleWorkspaceAncestors path True (sc_visible st) else sc_visible st)"
  by (simp_all add: scan_dir_def Let_def)

lemma scan_regular_fields [simp]:
  "sc_Files (scan_regular env rules hp ha path mode mtime data st) =
     (case shared_file env rules hp ha path (DiskFile mode mtime data) of None \<Rightarrow> sc_Files st | Some f \<Rightarrow> AList.update path f (sc_Files st))"
  "sc_HashedFiles (scan_regular env rules hp ha path mode mtime data st) =
     (if AllowsPath rules path \<and> scan_hash env hp ha path data \<noteq> []
      then AList.update path (scan_file path mode mtime data (scan_hash env hp ha path data)) (sc_HashedFiles st)
      else sc_HashedFiles st)"
  "sc_dirs (scan_regular env rules hp ha path mode mtime data st) = sc_dirs st"
  "sc_visible (scan_regular env rules hp ha path mode mtime data st) =
     (if AllowsPath rules path then markVisibleWorkspaceAncestors path False (sc_visible st) else sc_visible st)"
  by (simp_all add: scan_regular_def scan_hash_def Let_def)

definition hashed_file ::
  "scan_env \<Rightarrow> WorkspaceViewRules \<Rightarrow> (string, unit) gomap \<Rightarrow> bool \<Rightarrow> string \<Rightarrow> disk_node \<Rightarrow> LocalWorkspaceFile option" where
  "hashed_file env rules hp ha path node =
     (case shared_file env rules hp ha path node of
        None \<Rightarrow> None
      | Some f \<Rightarrow> if me_ContentHash (lf_Entry f) = [] then None else Some f)"

lemma scan_file_hash [simp]: "me_ContentHash (lf_Entry (scan_file path mode mtime data h)) = h"
  by (simp add: scan_file_def scan_file_entry_def)

definition functional :: "(string \<times> disk_node) list \<Rightarrow> bool" where
  "functional vs \<longleftrightarrow> (\<forall>p n n'. (p, n) \<in> set vs \<longrightarrow> (p, n') \<in> set vs \<longrightarrow> n = n')"

text \<open>
  A table of the scan to which a visit adds what its node gives. After all visits it holds exactly
  that, where no path is visited as two different nodes.
\<close>

locale scan_table =
  fixes env :: scan_env and rules :: WorkspaceViewRules and hp :: "(string, unit) gomap" and ha :: bool
    and table :: "scan_state \<Rightarrow> (string, 'v) gomap" and gives :: "string \<Rightarrow> disk_node \<Rightarrow> 'v option"
  assumes visit: "scan_visit env rules hp ha path node st = Inr (skip, st') \<Longrightarrow>
      table st' = (case gives path node of None \<Rightarrow> table st | Some v \<Rightarrow> AList.update path v (table st))"
    and empty: "table new_scan = []"
begin

lemma visits_keyed: "visit_all env rules hp ha vs st = Inr st' \<Longrightarrow> gomap_ok (table st) \<Longrightarrow> gomap_ok (table st')"
proof (induction vs arbitrary: st)
  case (Cons v vs)
  then obtain skip st1 where v: "scan_visit env rules hp ha (fst v) (snd v) st = Inr (skip, st1)"
    "visit_all env rules hp ha vs st1 = Inr st'"
    by (cases v) (auto split: sum.splits)
  then show ?case using Cons.IH [OF v(2)] Cons.prems(2) visit [OF v(1)] by (auto split: option.splits)
qed simp

lemma visits_from:
  "visit_all env rules hp ha vs st = Inr st' \<Longrightarrow> map_of (table st') p = Some x \<Longrightarrow>
   map_of (table st) p = Some x \<or> (\<exists>n. (p, n) \<in> set vs \<and> gives p n = Some x)"
proof (induction vs arbitrary: st)
  case (Cons v vs)
  then obtain path node skip st1 where v: "v = (path, node)" "scan_visit env rules hp ha path node st = Inr (skip, st1)"
    "visit_all env rules hp ha vs st1 = Inr st'"
    by (cases v) (auto split: sum.splits)
  then show ?case using Cons.IH [OF v(3) Cons.prems(2)] visit [OF v(2)] by (auto split: option.splits if_splits)
qed simp

lemma visits_grow:
  "visit_all env rules hp ha vs st = Inr st' \<Longrightarrow>
   map_of (table st) p \<noteq> None \<or> (\<exists>n. (p, n) \<in> set vs \<and> gives p n \<noteq> None) \<Longrightarrow> map_of (table st') p \<noteq> None"
proof (induction vs arbitrary: st)
  case (Cons v vs)
  then obtain path node skip st1 where v: "v = (path, node)" "scan_visit env rules hp ha path node st = Inr (skip, st1)"
    "visit_all env rules hp ha vs st1 = Inr st'"
    by (cases v) (auto split: sum.splits)
  then show ?case using Cons.IH [OF v(3)] Cons.prems(2) visit [OF v(2)] by (auto split: option.splits if_splits)
qed simp

lemma visits_table:
  assumes "visit_all env rules hp ha vs new_scan = Inr st" "functional vs"
  shows "map_of (table st) p = Some x \<longleftrightarrow> (\<exists>n. (p, n) \<in> set vs \<and> gives p n = Some x)"
proof
  assume "map_of (table st) p = Some x"
  then show "\<exists>n. (p, n) \<in> set vs \<and> gives p n = Some x" using visits_from [OF assms(1)] by (simp add: empty)
next
  assume "\<exists>n. (p, n) \<in> set vs \<and> gives p n = Some x"
  then obtain n where n: "(p, n) \<in> set vs" "gives p n = Some x" by blast
  then obtain y where y: "map_of (table st) p = Some y" using visits_grow [OF assms(1), of p] by auto
  then obtain n' where n': "(p, n') \<in> set vs" "gives p n' = Some y"
    using visits_from [OF assms(1) y] by (auto simp: empty)
  then have "n' = n" using assms(2) n(1) unfolding functional_def by blast
  then show "map_of (table st) p = Some x" using n(2) n'(2) y by simp
qed

end

interpretation Files: scan_table env rules hp ha sc_Files "shared_file env rules hp ha" for env rules hp ha
  by unfold_locales (auto elim!: scan_visit_cases simp: new_scan_def split: option.splits)

interpretation Hashed: scan_table env rules hp ha sc_HashedFiles "hashed_file env rules hp ha" for env rules hp ha
  by unfold_locales (auto elim!: scan_visit_cases simp: new_scan_def hashed_file_def split: option.splits if_splits)

interpretation Dirs: scan_table env rules hp ha sc_dirs dir_entry for env rules hp ha
  by unfold_locales (auto elim!: scan_visit_cases simp: new_scan_def split: option.splits)

lemma visits_valid:
  "visit_all env rules hp ha vs st = Inr st' \<Longrightarrow> (p, n) \<in> set vs \<Longrightarrow> ValidateRelativePath p = None"
  by (induction env rules hp ha vs st rule: visit_all.induct) (auto elim: scan_visit_cases split: sum.splits)

lemma visits_kinds:
  "visit_all env rules hp ha vs st = Inr st' \<Longrightarrow> (p, n) \<in> set vs \<Longrightarrow>
   node_IsDir n \<or> (\<exists>mode mtime data. n = DiskFile mode mtime data)"
  by (induction env rules hp ha vs st rule: visit_all.induct) (auto elim: scan_visit_cases split: sum.splits)

text \<open>Two visited paths never have the same collision key.\<close>

lemma scan_visit_key:
  assumes "scan_visit env rules hp ha path node st = Inr (skip, st')"
  shows "\<forall>k r. map_of (sc_collisions st) k = Some r \<longrightarrow> map_of (sc_collisions st') k = Some r"
    "map_of (sc_collisions st') (CollisionKey (sv_nfd env) (sv_lower env) path) = Some path"
proof -
  have "sc_collisions st' = AList.update (CollisionKey (sv_nfd env) (sv_lower env) path) path (sc_collisions st)"
    "case map_of (sc_collisions st) (CollisionKey (sv_nfd env) (sv_lower env) path) of None \<Rightarrow> True | Some previous \<Rightarrow> previous = path"
    using assms by (auto simp: scan_visit_def scan_dir_def scan_regular_def Let_def split: option.splits if_splits disk_node.splits)
  then show "\<forall>k r. map_of (sc_collisions st) k = Some r \<longrightarrow> map_of (sc_collisions st') k = Some r"
    "map_of (sc_collisions st') (CollisionKey (sv_nfd env) (sv_lower env) path) = Some path"
    by (auto split: option.splits)
qed

lemma visits_keys:
  "visit_all env rules hp ha vs st = Inr st' \<Longrightarrow>
   (\<forall>k r. map_of (sc_collisions st) k = Some r \<longrightarrow> map_of (sc_collisions st') k = Some r) \<and>
   (\<forall>(p, n) \<in> set vs. map_of (sc_collisions st') (CollisionKey (sv_nfd env) (sv_lower env) p) = Some p)"
proof (induction vs arbitrary: st)
  case (Cons v vs)
  then obtain path node skip st1 where v: "v = (path, node)" "scan_visit env rules hp ha path node st = Inr (skip, st1)"
    "visit_all env rules hp ha vs st1 = Inr st'"
    by (cases v) (auto split: sum.splits)
  then show ?case using Cons.IH [OF v(3)] scan_visit_key [OF v(2)] by auto
qed simp

section \<open>Visible directories\<close>

text \<open>Paths that are taken as they are: proper elements, and no white space at the ends of the path or of one above it.\<close>

definition tidy :: "string \<Rightarrow> bool" where
  "tidy p \<longleftrightarrow> proper_path p \<and> (\<forall>a \<in> insert p (set (ancestors p)). TrimSpace a = a)"

lemma tidy_ancestor: "tidy p \<Longrightarrow> a \<in> set (ancestors p) \<Longrightarrow> tidy a"
  unfolding tidy_def using proper_ancestor ancestors_trans by blast

lemma tidy_not_dot: "tidy p \<Longrightarrow> p \<noteq> [] \<and> p \<noteq> ''.''"
  unfolding tidy_def using proper_path_not_Nil proper_path_not_dot by blast

lemma parentWorkspacePath_tidy: "tidy p \<Longrightarrow> parentWorkspacePath p = workspace_parentPath p"
proof -
  assume p: "tidy p"
  then have *: "TrimSpace p = p" "proper_path p" by (simp_all add: tidy_def)
  from parent_cases [OF *(2)] show ?thesis
  proof (elim disjE conjE exE)
    assume "ancestors p = []" "workspace_parentPath p = []"
    moreover from this have "CHR ''/'' \<notin> set p"
      using ancestors_iff [of _ p] by (auto simp: in_set_conv_decomp)
    ultimately show ?thesis by (simp add: parentWorkspacePath_def *(1) ToSlash_def)
  next
    fix b assume b: "p = workspace_parentPath p @ CHR ''/'' # b" "CHR ''/'' \<notin> set b"
    have r: "rev p = rev b @ CHR ''/'' # rev (workspace_parentPath p)" by (subst b(1)) simp
    have "dropWhile (\<lambda>c. c \<noteq> CHR ''/'') (rev p) = CHR ''/'' # rev (workspace_parentPath p)"
      unfolding r using b(2) by (subst dropWhile_append2) auto
    moreover have "CHR ''/'' \<in> set p" by (subst b(1)) simp
    ultimately show ?thesis using tidy_not_dot [OF p] by (simp add: parentWorkspacePath_def *(1) ToSlash_def)
  qed
qed

definition marked :: "(string, unit) gomap \<Rightarrow> string \<Rightarrow> bool" where
  "marked visible x \<longleftrightarrow> map_of visible x \<noteq> None"

lemma marked_update [simp]: "marked (AList.update p () visible) x \<longleftrightarrow> x = p \<or> marked visible x"
  by (auto simp: marked_def)

lemma parent_ancestors:
  "tidy p \<Longrightarrow> parentWorkspacePath p = [] \<and> ancestors p = [] \<or>
   tidy (parentWorkspacePath p) \<and> parentWorkspacePath p \<noteq> [] \<and>
   set (ancestors p) = insert (parentWorkspacePath p) (set (ancestors (parentWorkspacePath p)))"
proof -
  assume p: "tidy p"
  then have "proper_path p" by (simp add: tidy_def)
  then show ?thesis
    using parent_cases [of p] tidy_ancestor [OF p, of "workspace_parentPath p"] tidy_not_dot
    unfolding parentWorkspacePath_tidy [OF p] by blast
qed

lemma mark_loop_keys:
  "p = [] \<or> tidy p \<Longrightarrow> marked (mark_loop p visible) x \<longleftrightarrow> marked visible x \<or> p \<noteq> [] \<and> (x = p \<or> x \<in> set (ancestors p))"
proof (induction p visible rule: mark_loop.induct)
  case (1 p visible)
  show ?case
  proof (cases "p = []")
    case False
    then have p: "tidy p" "p \<noteq> ''.''" using "1.prems" tidy_not_dot by blast+
    let ?q = "parentWorkspacePath p"
    have step: "mark_loop p visible = mark_loop ?q (AList.update p () visible)"
      using False p(2) by (simp add: mark_loop.simps [of p])
    from parent_ancestors [OF p(1)] show ?thesis
    proof (elim disjE conjE)
      assume q: "?q = []" "ancestors p = []"
      then show ?thesis unfolding step q(1) using False by (auto simp: mark_loop.simps [of "[]"])
    next
      assume q: "tidy ?q" "?q \<noteq> []" "set (ancestors p) = insert ?q (set (ancestors ?q))"
      then show ?thesis unfolding step using "1.IH" False p(2) by auto
    qed
  qed (simp add: mark_loop.simps [of "[]"])
qed

lemma markVisible_keys:
  assumes "tidy p"
  shows "marked (markVisibleWorkspaceAncestors p self visible) x \<longleftrightarrow> marked visible x \<or> self \<and> x = p \<or> x \<in> set (ancestors p)"
proof -
  have "TrimSpace p = p" "p \<noteq> []" "p \<noteq> ''.''" using assms tidy_not_dot by (auto simp: tidy_def)
  then have "markVisibleWorkspaceAncestors p self visible = mark_loop (if self then p else parentWorkspacePath p) visible"
    by (simp add: markVisibleWorkspaceAncestors_def ToSlash_def)
  then show ?thesis
    using parent_ancestors [OF assms] assms \<open>p \<noteq> []\<close> mark_loop_keys [of p visible x] mark_loop_keys [of "parentWorkspacePath p" visible x]
    by auto
qed

text \<open>Which paths the visit of a node makes visible.\<close>

definition marks :: "WorkspaceViewRules \<Rightarrow> string \<Rightarrow> disk_node \<Rightarrow> string \<Rightarrow> bool" where
  "marks rules q n x \<longleftrightarrow> AllowsPath rules q \<and> (node_IsDir n \<and> x = q \<or> x \<in> set (ancestors q))"

lemma visits_visible:
  "visit_all env rules hp ha vs st = Inr st' \<Longrightarrow> \<forall>(q, n) \<in> set vs. tidy q \<Longrightarrow>
   marked (sc_visible st') x \<longleftrightarrow> marked (sc_visible st) x \<or> (\<exists>(q, n) \<in> set vs. marks rules q n x)"
proof (induction vs arbitrary: st)
  case (Cons v vs)
  then obtain path node skip st1 where v: "v = (path, node)" "scan_visit env rules hp ha path node st = Inr (skip, st1)"
    "visit_all env rules hp ha vs st1 = Inr st'" and t: "tidy path"
    by (cases v) (auto split: sum.splits)
  have "marked (sc_visible st1) x \<longleftrightarrow> marked (sc_visible st) x \<or> marks rules path node x"
    using v(2) by (cases rule: scan_visit_cases) (auto simp: marks_def markVisible_keys [OF t])
  then show ?case using Cons.IH [OF v(3)] Cons.prems(2) v(1) by auto
qed simp

end
