(* ===== verification/Scan_Properties.thy ===== *)
theory Scan_Properties
  imports Scan_Walk
begin

text \<open>
  What a scan shares of a workspace, and what a sync of it brings to the daemon.
\<close>

section \<open>Paths of a directory tree\<close>

text \<open>The names in a directory are proper elements of paths and no name occurs twice.\<close>

fun disk_wf :: "disk_node \<Rightarrow> bool" where
  "disk_wf (DiskDir _ _ _ entries) \<longleftrightarrow>
     distinct (map fst entries) \<and> list_all (\<lambda>(name, node). proper_element name \<and> disk_wf node) entries"
| "disk_wf _ \<longleftrightarrow> True"

fun node_at :: "disk_node \<Rightarrow> string list \<Rightarrow> disk_node option" where
  "node_at node [] = Some node"
| "node_at (DiskDir _ _ _ entries) (x # xs) = (case map_of entries x of None \<Rightarrow> None | Some child \<Rightarrow> node_at child xs)"
| "node_at _ (x # xs) = None"

fun reach :: "WorkspaceViewRules \<Rightarrow> string \<Rightarrow> string list \<Rightarrow> bool" where
  "reach rules path [] \<longleftrightarrow> True"
| "reach rules path (x # xs) \<longleftrightarrow> \<not> pruned rules path \<and> reach rules (child_path path x) xs"

lemma entries_wf:
  "distinct (map fst entries) \<Longrightarrow> list_all (\<lambda>(name, node). proper_element name \<and> disk_wf node) entries \<Longrightarrow>
   map_of entries name = Some c \<Longrightarrow> proper_element name \<and> disk_wf c"
  by (drule map_of_SomeD) (auto simp: list_all_iff)

text \<open>An entry \<open>n\<close> at \<open>q\<close> is found below \<open>node\<close> at \<open>path\<close>, and no directory on the way is pruned.\<close>

definition found :: "WorkspaceViewRules \<Rightarrow> string \<Rightarrow> disk_node \<Rightarrow> string \<Rightarrow> disk_node \<Rightarrow> bool" where
  "found rules path node q n \<longleftrightarrow>
     (\<exists>xs. q = foldl child_path path xs \<and> node_at node xs = Some n \<and> reach rules path xs)"

lemma found_dir:
  "found rules path (DiskDir mode mtime readErr entries) q n \<longleftrightarrow>
   q = path \<and> n = DiskDir mode mtime readErr entries \<or>
   \<not> pruned rules path \<and> (\<exists>name c. map_of entries name = Some c \<and> found rules (child_path path name) c q n)"
  (is "?L \<longleftrightarrow> ?R")
proof
  assume ?L
  then obtain xs where "q = foldl child_path path xs" "node_at (DiskDir mode mtime readErr entries) xs = Some n" "reach rules path xs"
    by (auto simp: found_def)
  then show ?R by (cases xs) (auto simp: found_def split: option.splits)
next
  assume ?R
  then show ?L
  proof (elim disjE conjE exE)
    assume "q = path" "n = DiskDir mode mtime readErr entries"
    then show ?L by (auto simp: found_def intro: exI [of _ "[]"])
  next
    fix name c assume "\<not> pruned rules path" "map_of entries name = Some c" "found rules (child_path path name) c q n"
    then obtain xs where "q = foldl child_path path (name # xs)" "node_at (DiskDir mode mtime readErr entries) (name # xs) = Some n"
      "reach rules path (name # xs)"
      by (auto simp: found_def)
    then show ?L unfolding found_def by blast
  qed
qed

lemma found_leaf: "\<not> node_IsDir node \<Longrightarrow> found rules path node q n \<longleftrightarrow> q = path \<and> n = node"
proof -
  assume "\<not> node_IsDir node"
  then have "node_at node xs = Some n \<longleftrightarrow> xs = [] \<and> n = node" for xs by (cases node; cases xs) auto
  then show ?thesis by (auto simp: found_def)
qed

lemma ex_map_of_Cons:
  "map_of entries name = None \<Longrightarrow>
   (\<exists>nm c. map_of ((name, node) # entries) nm = Some c \<and> P nm c) \<longleftrightarrow> P name node \<or> (\<exists>nm c. map_of entries nm = Some c \<and> P nm c)"
proof -
  assume fresh: "map_of entries name = None"
  have "map_of ((name, node) # entries) nm = Some c \<and> P nm c \<longleftrightarrow>
      nm = name \<and> c = node \<and> P name node \<or> map_of entries nm = Some c \<and> P nm c" for nm c
    using fresh by (cases "nm = name") auto
  then show ?thesis by (simp only:) blast
qed

lemma walked_iff:
  "disk_wf node \<Longrightarrow> (q, n) \<in> set (walked_node rules path node) \<longleftrightarrow> found rules path node q n"
  "distinct (map fst entries) \<Longrightarrow> list_all (\<lambda>(name, node). proper_element name \<and> disk_wf node) entries \<Longrightarrow>
     (q, n) \<in> set (walked_entries rules path entries) \<longleftrightarrow>
     (\<exists>name c. map_of entries name = Some c \<and> found rules (child_path path name) c q n)"
proof (induction rules path node and rules path entries rule: walked_node_walked_entries.induct)
  case (1 rules path node)
  show ?case
  proof (cases "node_IsDir node")
    case True
    then obtain mode mtime readErr entries where node: "node = DiskDir mode mtime readErr entries" by (cases node) auto
    have "(q, n) \<in> set (walked_entries rules path entries) \<longleftrightarrow>
        (\<exists>name c. map_of entries name = Some c \<and> found rules (child_path path name) c q n)" if "\<not> pruned rules path"
      using "1.IH" [OF node that] "1.prems" node by simp
    then show ?thesis unfolding node found_dir by auto
  next
    case False
    then have "walked_node rules path node = [(path, node)]" by (cases node) (simp_all add: walked_node.simps [of _ path])
    then show ?thesis using found_leaf [OF False] by auto
  qed
next
  case (3 rules path name node entries)
  then have "map_of entries name = None" by (auto simp: map_of_eq_None_iff)
  from ex_map_of_Cons [OF this] show ?case using 3 by simp
qed simp

lemma node_at_proper: "disk_wf node \<Longrightarrow> node_at node xs = Some n \<Longrightarrow> \<forall>x \<in> set xs. proper_element x"
proof (induction node xs rule: node_at.induct)
  case (2 mode mtime readErr entries x xs)
  then obtain c where c: "map_of entries x = Some c" "node_at c xs = Some n" by (auto split: option.splits)
  then show ?case using "2.IH" [OF c(1) _ c(2)] entries_wf [OF _ _ c(1)] "2.prems"(1) by auto
qed auto

lemma foldl_child_path: "x \<noteq> [] \<Longrightarrow> foldl child_path x xs = Join (x # xs) ''/''"
proof (induction xs arbitrary: x)
  case (Cons y ys)
  have "child_path x y = x @ ''/'' @ y" using Cons.prems by (simp add: child_path_def)
  then have "foldl child_path x (y # ys) = Join ((x @ ''/'' @ y) # ys) ''/''" using Cons.IH [of "x @ ''/'' @ y"] by simp
  also have "\<dots> = Join (x # y # ys) ''/''" by (cases ys) simp_all
  finally show ?case .
qed simp

lemma reach_iff:
  "reach rules path xs \<longleftrightarrow> (\<forall>ys zs. xs = ys @ zs \<longrightarrow> zs \<noteq> [] \<longrightarrow> \<not> pruned rules (foldl child_path path ys))"
proof (induction xs arbitrary: path)
  case (Cons x xs)
  have "(\<forall>ys zs. x # xs = ys @ zs \<longrightarrow> zs \<noteq> [] \<longrightarrow> P ys) \<longleftrightarrow> P [] \<and> (\<forall>ys zs. xs = ys @ zs \<longrightarrow> zs \<noteq> [] \<longrightarrow> P (x # ys))" for P
    unfolding Cons_eq_append_conv by blast
  from this [of "\<lambda>ys. \<not> pruned rules (foldl child_path path ys)"] show ?case by (simp add: Cons.IH)
qed simp

text \<open>The visited entries of a whole tree: those whose path leads through no pruned directory.\<close>

definition visited :: "WorkspaceViewRules \<Rightarrow> disk_node \<Rightarrow> string \<Rightarrow> disk_node \<Rightarrow> bool" where
  "visited rules root p n \<longleftrightarrow> p \<noteq> [] \<and> node_at root (Split p (CHR ''/'')) = Some n \<and> (\<forall>a \<in> set (ancestors p). \<not> pruned rules a)"

lemma found_child:
  assumes "proper_element x" "disk_wf c"
  shows "found rules x c q n \<longleftrightarrow>
    (\<exists>xs. Split q (CHR ''/'') = x # xs \<and> node_at c xs = Some n \<and> (\<forall>a \<in> set (ancestors q). \<not> pruned rules a))"
proof -
  have x: "x \<noteq> []" using assms(1) by (simp add: proper_element_def)
  have "reach rules x xs \<longleftrightarrow> (\<forall>a \<in> set (ancestors (Join (x # xs) ''/'')). \<not> pruned rules a)"
    and "Split (Join (x # xs) ''/'') (CHR ''/'') = x # xs"
    if "node_at c xs = Some n" for xs
  proof -
    have "\<forall>w \<in> set (x # xs). CHR ''/'' \<notin> set w"
      using node_at_proper [OF assms(2) that] assms(1) by (auto simp: proper_element_def)
    then show split: "Split (Join (x # xs) ''/'') (CHR ''/'') = x # xs" by (intro Split_Join) simp_all
    have "set (ancestors (Join (x # xs) ''/'')) = {Join (x # ys) ''/'' | ys zs. xs = ys @ zs \<and> zs \<noteq> []}"
      unfolding ancestors_def set_ancestors_from split by (auto simp: Cons_eq_append_conv)
    then show "reach rules x xs \<longleftrightarrow> (\<forall>a \<in> set (ancestors (Join (x # xs) ''/'')). \<not> pruned rules a)"
      unfolding reach_iff foldl_child_path [OF x] by auto
  qed
  moreover have "Join (Split q (CHR ''/'')) ''/'' = q" by simp
  ultimately show ?thesis unfolding found_def foldl_child_path [OF x] by metis
qed

lemma walked_visited:
  assumes "disk_wf (DiskDir mode mtime readErr entries)"
  shows "(p, n) \<in> set (walked_entries rules [] entries) \<longleftrightarrow> visited rules (DiskDir mode mtime readErr entries) p n"
proof -
  have wf: "distinct (map fst entries)" "list_all (\<lambda>(name, node). proper_element name \<and> disk_wf node) entries"
    using assms by simp_all
  have "(p, n) \<in> set (walked_entries rules [] entries) \<longleftrightarrow> (\<exists>name c. map_of entries name = Some c \<and> found rules name c p n)"
    unfolding walked_iff(2) [OF wf] by (simp add: child_path_def)
  also have "\<dots> \<longleftrightarrow> (\<exists>name c xs. map_of entries name = Some c \<and> Split p (CHR ''/'') = name # xs \<and> node_at c xs = Some n \<and>
      (\<forall>a \<in> set (ancestors p). \<not> pruned rules a))"
    using found_child entries_wf [OF wf] by metis
  also have "\<dots> \<longleftrightarrow> visited rules (DiskDir mode mtime readErr entries) p n"
  proof (cases "Split p (CHR ''/'')")
    case (Cons x xs)
    have "p = [] \<Longrightarrow> map_of entries x = None"
      using Cons entries_wf [OF wf, of x] by (cases "map_of entries x") auto
    then show ?thesis using Cons by (auto simp: visited_def split: option.splits)
  qed simp
  finally show ?thesis .
qed

lemma visited_proper:
  assumes "disk_wf root" "visited rules root p n"
  shows "proper_path p"
  unfolding proper_path_def using node_at_proper [OF assms(1)] assms(2) by (auto simp: visited_def)

lemma visited_unique: "visited rules root p n \<Longrightarrow> visited rules root p n' \<Longrightarrow> n = n'"
  by (simp add: visited_def)

lemma node_at_append: "node_at root (xs @ ys) = (case node_at root xs of None \<Rightarrow> None | Some n \<Rightarrow> node_at n ys)"
  by (induction root xs rule: node_at.induct) (auto split: option.splits)

lemma visited_ancestor:
  assumes "disk_wf root" "visited rules root p n" "a \<in> set (ancestors p)"
  obtains d where "visited rules root a d" "node_IsDir d"
proof -
  obtain r where p: "p = a @ ''/'' @ r" using assms(3) ancestors_iff by blast
  then have "Split p (CHR ''/'') = Split a (CHR ''/'') @ Split r (CHR ''/'')" by (simp add: Split_slash)
  then obtain d where d: "node_at root (Split a (CHR ''/'')) = Some d" "node_at d (Split r (CHR ''/'')) = Some n"
    using assms(2) by (auto simp: visited_def node_at_append split: option.splits)
  have "Split r (CHR ''/'') \<noteq> []" by simp
  then have "node_IsDir d" using d(2) by (cases d; cases "Split r (CHR ''/'')") auto
  moreover have "a \<noteq> []" using proper_path_not_Nil proper_ancestor visited_proper [OF assms(1,2)] assms(3) by blast
  then have "visited rules root a d"
    using d(1) assms(2) ancestors_trans [OF _ assms(3)] unfolding visited_def by blast
  ultimately show ?thesis by (rule that [rotated])
qed

section \<open>A scan that succeeds\<close>

text \<open>
  No path of the tree has white space at its ends or ends like the temporary files of the daemon.
\<close>

definition no_rules :: WorkspaceViewRules where
  "no_rules = \<lparr>wv_fingerprint = [], wv_rules = []\<rparr>"

fun disk_tidy :: "disk_node \<Rightarrow> bool" where
  "disk_tidy (DiskDir _ _ _ entries) \<longleftrightarrow>
     list_all (\<lambda>(p, _). TrimSpace p = p \<and> \<not> HasSuffix p commit_suffix) (walked_entries no_rules [] entries)"
| "disk_tidy _ \<longleftrightarrow> True"

lemma no_rules_pruned [simp]: "\<not> pruned no_rules p"
  by (simp add: pruned_def AllowsPath_def evaluate_def no_rules_def Let_def)

lemma disk_tidy_path:
  assumes "disk_wf (DiskDir mode mtime readErr entries)" "disk_tidy (DiskDir mode mtime readErr entries)"
    "visited rules (DiskDir mode mtime readErr entries) p n"
  shows "TrimSpace p = p" "\<not> HasSuffix p commit_suffix"
proof -
  have "visited no_rules (DiskDir mode mtime readErr entries) p n" using assms(3) by (simp add: visited_def)
  then have "(p, n) \<in> set (walked_entries no_rules [] entries)" using walked_visited [OF assms(1)] by blast
  then show "TrimSpace p = p" "\<not> HasSuffix p commit_suffix" using assms(2) by (auto simp: list_all_iff)
qed

lemma visited_tidy:
  assumes "disk_wf root" "disk_tidy root" "root = DiskDir mode mtime readErr entries" "visited rules root p n"
  shows "tidy p"
  unfolding tidy_def
proof (intro conjI ballI)
  show "proper_path p" by (rule visited_proper [OF assms(1,4)])
  fix a assume "a \<in> insert p (set (ancestors p))"
  then obtain d where "visited rules root a d" using assms(4) visited_ancestor [OF assms(1,4)] by blast
  then show "TrimSpace a = a" using disk_tidy_path(1) assms(1-3) by blast
qed

text \<open>The state a successful walk of a directory leaves.\<close>

definition scan_of ::
  "scan_env \<Rightarrow> WorkspaceViewRules \<Rightarrow> (string, unit) gomap \<Rightarrow> bool \<Rightarrow> disk_node \<Rightarrow> scan_state \<Rightarrow> bool" where
  "scan_of env rules hp ha root st \<longleftrightarrow>
     (\<exists>mode mtime entries. root = DiskDir mode mtime None entries \<and>
        visit_all env rules hp ha (walked_entries rules [] entries) new_scan = Inr st)"

lemma scan_of_visits:
  assumes wf: "disk_wf root" and scan: "scan_of env rules hp ha root st"
  obtains vs where "visit_all env rules hp ha vs new_scan = Inr st" "\<forall>p n. (p, n) \<in> set vs \<longleftrightarrow> visited rules root p n" "functional vs"
proof -
  obtain mode mtime entries where root: "root = DiskDir mode mtime None entries"
    and vs: "visit_all env rules hp ha (walked_entries rules [] entries) new_scan = Inr st"
    using scan unfolding scan_of_def by blast
  have "(p, n) \<in> set (walked_entries rules [] entries) \<longleftrightarrow> visited rules root p n" for p n
    using walked_visited wf unfolding root by blast
  then show ?thesis using that [OF vs] visited_unique unfolding functional_def by blast
qed

lemma scan_of_tables:
  assumes "disk_wf root" "scan_of env rules hp ha root st"
  shows "map_of (sc_Files st) p = Some f \<longleftrightarrow> (\<exists>n. visited rules root p n \<and> shared_file env rules hp ha p n = Some f)"
    "map_of (sc_HashedFiles st) p = Some f \<longleftrightarrow> (\<exists>n. visited rules root p n \<and> hashed_file env rules hp ha p n = Some f)"
    "map_of (sc_dirs st) p = Some e \<longleftrightarrow> (\<exists>n. visited rules root p n \<and> dir_entry p n = Some e)"
    "gomap_ok (sc_Files st)" "gomap_ok (sc_HashedFiles st)" "gomap_ok (sc_dirs st)"
proof -
  obtain vs where vs: "visit_all env rules hp ha vs new_scan = Inr st" "\<forall>p n. (p, n) \<in> set vs \<longleftrightarrow> visited rules root p n" "functional vs"
    by (rule scan_of_visits [OF assms])
  show "map_of (sc_Files st) p = Some f \<longleftrightarrow> (\<exists>n. visited rules root p n \<and> shared_file env rules hp ha p n = Some f)"
    "map_of (sc_HashedFiles st) p = Some f \<longleftrightarrow> (\<exists>n. visited rules root p n \<and> hashed_file env rules hp ha p n = Some f)"
    "map_of (sc_dirs st) p = Some e \<longleftrightarrow> (\<exists>n. visited rules root p n \<and> dir_entry p n = Some e)"
    using Files.visits_table [OF vs(1,3)] Hashed.visits_table [OF vs(1,3)] Dirs.visits_table [OF vs(1,3)] vs(2)
    by blast+
  show "gomap_ok (sc_Files st)" "gomap_ok (sc_HashedFiles st)" "gomap_ok (sc_dirs st)"
    using Files.visits_keyed [OF vs(1)] Hashed.visits_keyed [OF vs(1)] Dirs.visits_keyed [OF vs(1)]
    by (simp_all add: new_scan_def)
qed

lemma scan_of_checked:
  assumes "disk_wf root" "scan_of env rules hp ha root st" "visited rules root p n"
  shows "ValidateRelativePath p = None" "node_IsDir n \<or> (\<exists>mode mtime data. n = DiskFile mode mtime data)"
    "visited rules root q m \<Longrightarrow>
     CollisionKey (sv_nfd env) (sv_lower env) q = CollisionKey (sv_nfd env) (sv_lower env) p \<Longrightarrow> q = p"
proof -
  obtain vs where vs: "visit_all env rules hp ha vs new_scan = Inr st" "\<forall>p n. (p, n) \<in> set vs \<longleftrightarrow> visited rules root p n" "functional vs"
    by (rule scan_of_visits [OF assms(1,2)])
  have mem: "(p, n) \<in> set vs" using vs(2) assms(3) by blast
  show "ValidateRelativePath p = None" by (rule visits_valid [OF vs(1) mem])
  show "node_IsDir n \<or> (\<exists>mode mtime data. n = DiskFile mode mtime data)" by (rule visits_kinds [OF vs(1) mem])
  have key: "map_of (sc_collisions st) (CollisionKey (sv_nfd env) (sv_lower env) p') = Some p'" if "(p', n') \<in> set vs" for p' n'
    using visits_keys [OF vs(1)] that by auto
  assume "visited rules root q m" "CollisionKey (sv_nfd env) (sv_lower env) q = CollisionKey (sv_nfd env) (sv_lower env) p"
  then show "q = p" using key [OF mem] key [of q m] vs(2) by auto
qed

lemma scan_of_visible:
  assumes "disk_wf root" "disk_tidy root" "scan_of env rules hp ha root st"
  shows "marked (sc_visible st) x \<longleftrightarrow> (\<exists>q n. visited rules root q n \<and> marks rules q n x)"
proof -
  obtain vs where vs: "visit_all env rules hp ha vs new_scan = Inr st" "\<forall>p n. (p, n) \<in> set vs \<longleftrightarrow> visited rules root p n" "functional vs"
    by (rule scan_of_visits [OF assms(1,3)])
  obtain mode mtime entries where "root = DiskDir mode mtime None entries" using assms(3) by (auto simp: scan_of_def)
  then have "\<forall>(q, n) \<in> set vs. tidy q" using visited_tidy [OF assms(1,2)] vs(2) by blast
  from visits_visible [OF vs(1) this, of x] show ?thesis
    using vs(2) by (auto simp: new_scan_def marked_def)
qed

section \<open>The snapshot of a scan\<close>

lemma scan_result_fields [simp]:
  "ls_Files (scan_result sha st) = sc_Files st"
  "ls_HashedFiles (scan_result sha st) = sc_HashedFiles st"
  "ls_Dirs (scan_result sha st) = filter (\<lambda>(path, _). marked (sc_visible st) path) (sc_dirs st)"
  "ls_Entries (scan_result sha st) =
     sort_key me_Path (sorted_values (ls_Dirs (scan_result sha st)) @ map lf_Entry (sorted_values (sc_Files st)))"
  by (simp_all add: scan_result_def Let_def empty_snapshot_def marked_def)

lemma map_of_visible_dirs:
  "map_of (ls_Dirs (scan_result sha st)) p = (if marked (sc_visible st) p then map_of (sc_dirs st) p else None)"
  unfolding scan_result_fields by (rule map_of_filter_key)

lemma set_sorted_values: "gomap_ok m \<Longrightarrow> set (sorted_values m) = snd ` set m"
  by (auto simp: sorted_values_def sortedWorkspacePaths_def gomap_ok_mem_iff image_iff) (force simp: gomap_ok_def)+

lemma ScanLocalWorkspace_result:
  assumes "ScanLocalWorkspace env disk hp ha = Inr B" "LoadWorkspaceViewRules (sv_sha env) (ld_rules disk) = Inr rules"
    "ld_root disk = Inr (Some root)" "node_IsDir root"
  obtains st where "scan_of env rules hp ha root st" "B = scan_result (sv_sha env) st"
proof -
  obtain mode mtime readErr entries where root: "root = DiskDir mode mtime readErr entries" using assms(4) by (cases root) auto
  obtain st where st: "walk_root env rules hp ha root = Inr st" "B = scan_result (sv_sha env) st"
    using assms(1-3) by (auto simp: ScanLocalWorkspace_def split: sum.splits)
  then have "readErr = None" "walk_entries env rules hp ha [] entries new_scan = Inr st"
    unfolding root by (cases readErr; simp)+
  then have "scan_of env rules hp ha root st" using walk_visits(2) unfolding scan_of_def root by blast
  then show ?thesis using that st(2) by blast
qed

lemma shared_file_cases:
  assumes "shared_file env rules hp ha p n = Some f"
  obtains mode mtime data where "n = DiskFile mode mtime data" "AllowsPath rules p"
    "f = scan_file p mode mtime data (scan_hash env hp ha p data)"
  using assms by (cases n) (auto split: if_splits)

lemma perm_idem [simp]: "perm (perm mode) = perm mode"
  by (simp add: perm_def ac_simps)

lemma scan_file_ok: "file_ok p (scan_file p mode mtime data h)"
  by (simp add: file_ok_def scan_file_def scan_file_entry_def cloneManifestEntry_def normalizeMetadata_def)

lemma scan_dir_ok: "dir_entry p n = Some d \<Longrightarrow> dir_ok p d"
  by (cases n) (auto simp: dir_ok_def scan_dir_entry_def cloneManifestEntry_def normalizeMetadata_def)

lemma scan_dirs_closed:
  assumes "disk_wf root" "disk_tidy root" "scan_of env rules hp ha root st"
    and p: "visited rules root p n" "AllowsPath rules p \<and> a \<in> set (ancestors p) \<or> marked (sc_visible st) p \<and> a \<in> set (ancestors p)"
  shows "map_of (ls_Dirs (scan_result sha st)) a \<noteq> None"
proof -
  have a: "a \<in> set (ancestors p)" using p(2) by blast
  obtain d where d: "visited rules root a d" "node_IsDir d" by (rule visited_ancestor [OF assms(1) p(1) a])
  have "\<exists>q m. visited rules root q m \<and> marks rules q m a"
    using p(2)
  proof
    assume "AllowsPath rules p \<and> a \<in> set (ancestors p)"
    then show ?thesis using p(1) unfolding marks_def by blast
  next
    assume "marked (sc_visible st) p \<and> a \<in> set (ancestors p)"
    then obtain q m where "visited rules root q m" "marks rules q m p" using scan_of_visible [OF assms(1-3)] by blast
    then show ?thesis using a ancestors_trans [OF a] unfolding marks_def by blast
  qed
  then have "marked (sc_visible st) a" using scan_of_visible [OF assms(1-3)] by blast
  moreover have "map_of (sc_dirs st) a \<noteq> None"
  proof -
    obtain e where "dir_entry a d = Some e" using d(2) by (cases d) auto
    then show ?thesis using scan_of_tables(3) [OF assms(1,3), of a e] d(1) by auto
  qed
  ultimately show ?thesis by (simp add: map_of_visible_dirs del: scan_result_fields)
qed

lemma scan_path_ok:
  assumes "disk_wf root" "disk_tidy root" "scan_of env rules hp ha root st"
    and p: "visited rules root p n" "AllowsPath rules p \<or> marked (sc_visible st) p"
  shows "path_ok (scan_result sha st) p"
proof -
  obtain mode mtime entries where root: "root = DiskDir mode mtime None entries" using assms(3) by (auto simp: scan_of_def)
  have "TrimSpace p = p" "\<not> HasSuffix p commit_suffix" using disk_tidy_path assms(1,2) p(1) unfolding root by blast+
  moreover have "ValidateRelativePath p = None" by (rule scan_of_checked(1) [OF assms(1,3) p(1)])
  ultimately show ?thesis
    using scan_dirs_closed [OF assms(1-3) p(1), of _ sha] p(2) unfolding path_ok_def by (auto simp: suffix_def simp del: scan_result_fields)
qed

lemma scan_scanned:
  assumes "disk_wf root" "disk_tidy root" "scan_of env rules hp ha root st"
  shows "scanned (sv_sha env) (scan_result (sv_sha env) st)" (is "scanned ?sha ?B")
proof -
  note tables = scan_of_tables [OF assms(1,3)]
  have files: "file_ok p f \<and> true_hash ?sha f \<and> path_ok ?B p \<and> map_of (ls_Dirs ?B) p = None" if "map_of (ls_Files ?B) p = Some f" for p f
  proof -
    obtain n where n: "visited rules root p n" "shared_file env rules hp ha p n = Some f"
      using \<open>map_of (ls_Files ?B) p = Some f\<close> tables(1) by auto
    obtain mode mtime data where f: "n = DiskFile mode mtime data" "AllowsPath rules p"
      "f = scan_file p mode mtime data (scan_hash env hp ha p data)" by (rule shared_file_cases [OF n(2)])
    have "map_of (sc_dirs st) p = None"
    proof (rule ccontr)
      assume "map_of (sc_dirs st) p \<noteq> None"
      then obtain m e where "visited rules root p m" "dir_entry p m = Some e" using tables(3) by blast
      then show False using visited_unique [OF n(1), of m] f(1) by auto
    qed
    moreover have "true_hash ?sha f" unfolding true_hash_def f(3) by (simp add: scan_hash_def) (simp add: scan_file_def)
    ultimately show ?thesis
      using scan_file_ok scan_path_ok [OF assms n(1)] f(2,3) by (simp add: map_of_visible_dirs del: scan_result_fields)
  qed
  have dirs: "dir_ok p d \<and> path_ok ?B p" if "map_of (ls_Dirs ?B) p = Some d" for p d
  proof -
    have "marked (sc_visible st) p" "map_of (sc_dirs st) p = Some d"
      using \<open>map_of (ls_Dirs ?B) p = Some d\<close> by (auto simp: map_of_visible_dirs simp del: scan_result_fields split: if_splits)
    moreover from this obtain n where "visited rules root p n" "dir_entry p n = Some d" using tables(3) by blast
    ultimately show ?thesis using scan_dir_ok scan_path_ok [OF assms] by blast
  qed
  have cache: "cache_true ?sha (ls_Files ?B) (ls_HashedFiles ?B)"
    unfolding cache_true_def
  proof (intro allI impI)
    fix p c q b assume c: "(p, c) \<in> set (ls_HashedFiles ?B)" and b: "map_of (ls_Files ?B) q = Some b"
      and key: "HashCacheKey c = HashCacheKey b" and h: "file_hash c \<noteq> []"
    have "map_of (sc_HashedFiles st) p = Some c" using c tables(5) by (simp add: gomap_ok_mem_iff)
    then obtain n where n: "visited rules root p n" "shared_file env rules hp ha p n = Some c"
      using tables(2) by (auto simp: hashed_file_def split: option.splits if_splits)
    then have "map_of (ls_Files ?B) p = Some c" using tables(1) by auto
    moreover have "p = q"
      using files [OF \<open>map_of (ls_Files ?B) p = Some c\<close>] files [OF b] key by (auto simp: file_ok_def HashCacheKey_def)
    ultimately show "file_hash c = ?sha (lf_Data b)" using files [OF b] b h by (auto simp: true_hash_def)
  qed
  have ok: "gomap_ok (ls_Dirs ?B)"
    using tables(6) distinct_map_filter [of fst "sc_dirs st"] by (simp add: gomap_ok_def)
  have "set (ls_Entries ?B) = snd ` set (ls_Dirs ?B) \<union> (\<lambda>(_, f). lf_Entry f) ` set (ls_Files ?B)"
    using set_sorted_values [OF ok] set_sorted_values [OF tables(4)]
    by (simp add: image_image case_prod_unfold del: scan_result_fields(3))
  then show ?thesis
    unfolding scanned_def using files dirs cache ok tables(4) by (simp del: scan_result_fields(3,4))
qed

section \<open>What is shared\<close>

definition visible_dir :: "WorkspaceViewRules \<Rightarrow> disk_node \<Rightarrow> string \<Rightarrow> bool" where
  "visible_dir rules root p \<longleftrightarrow>
     AllowsPath rules p \<or> (\<exists>q n. visited rules root q n \<and> AllowsPath rules q \<and> p \<in> set (ancestors q))"

lemma scan_files_iff:
  assumes "disk_wf root" "scan_of env rules hp ha root st"
  shows "map_of (ls_Files (scan_result sha st)) p = Some f \<longleftrightarrow>
    (\<exists>mode mtime data. visited rules root p (DiskFile mode mtime data) \<and> AllowsPath rules p \<and>
       f = scan_file p mode mtime data (scan_hash env hp ha p data))"
  using scan_of_tables(1) [OF assms, of p f] by (auto elim!: shared_file_cases)

lemma dir_entry_iff:
  "dir_entry p n = Some d \<longleftrightarrow> (\<exists>mode mtime e entries. n = DiskDir mode mtime e entries \<and> d = scan_dir_entry p mode mtime)"
  by (cases n) auto

lemma marked_visible_dir:
  assumes "disk_wf root" "disk_tidy root" "scan_of env rules hp ha root st" "visited rules root p n" "node_IsDir n"
  shows "marked (sc_visible st) p \<longleftrightarrow> visible_dir rules root p"
proof -
  have "(\<exists>q m. visited rules root q m \<and> marks rules q m p) \<longleftrightarrow> visible_dir rules root p"
    using assms(4,5) visited_unique [OF assms(4)] unfolding marks_def visible_dir_def by blast
  then show ?thesis using scan_of_visible [OF assms(1-3)] by blast
qed

lemma scan_dirs_iff:
  assumes "disk_wf root" "disk_tidy root" "scan_of env rules hp ha root st"
  shows "map_of (ls_Dirs (scan_result sha st)) p = Some d \<longleftrightarrow>
    (\<exists>mode mtime e entries. visited rules root p (DiskDir mode mtime e entries) \<and> visible_dir rules root p \<and>
       d = scan_dir_entry p mode mtime)"
proof -
  have "map_of (ls_Dirs (scan_result sha st)) p = Some d \<longleftrightarrow> marked (sc_visible st) p \<and> map_of (sc_dirs st) p = Some d"
    unfolding map_of_visible_dirs by simp
  also have "\<dots> \<longleftrightarrow> (\<exists>n. visited rules root p n \<and> marked (sc_visible st) p \<and> dir_entry p n = Some d)"
    using scan_of_tables(3) [OF assms(1,3), of p d] by blast
  also have "\<dots> \<longleftrightarrow> (\<exists>n. visited rules root p n \<and> visible_dir rules root p \<and> dir_entry p n = Some d)"
    using marked_visible_dir [OF assms, of p] dir_entry_iff node_IsDir.simps(1) by metis
  also have "\<dots> \<longleftrightarrow> (\<exists>mode mtime e entries. visited rules root p (DiskDir mode mtime e entries) \<and> visible_dir rules root p \<and>
       d = scan_dir_entry p mode mtime)"
    unfolding dir_entry_iff by blast
  finally show ?thesis .
qed

text \<open>A tree on the daemon that shows exactly what is shared of a local tree.\<close>

definition shows_shared :: "WorkspaceViewRules \<Rightarrow> disk_node \<Rightarrow> tree \<Rightarrow> bool" where
  "shows_shared rules root w \<longleftrightarrow>
     (\<forall>p. case map_of w p of
            None \<Rightarrow>
              (\<forall>mode mtime data. visited rules root p (DiskFile mode mtime data) \<longrightarrow> \<not> AllowsPath rules p) \<and>
              (\<forall>n. visited rules root p n \<and> node_IsDir n \<longrightarrow> \<not> visible_dir rules root p)
          | Some DirNode \<Rightarrow> (\<exists>n. visited rules root p n \<and> node_IsDir n) \<and> visible_dir rules root p
          | Some (FileNode data mode mtime) \<Rightarrow>
              AllowsPath rules p \<and>
              (\<exists>mode' mtime'. visited rules root p (DiskFile mode' mtime' data) \<and> perm mode = perm mode' \<and>
                 round_second mtime = round_second mtime'))"

lemma option_node_cases [case_names none regular directory]:
  assumes "x = None \<Longrightarrow> P" "\<And>data mode mtime. x = Some (FileNode data mode mtime) \<Longrightarrow> P" "x = Some DirNode \<Longrightarrow> P"
  shows P
  using assms by (cases x; cases "the x") auto

lemma snapshot_shows_shared:
  assumes "disk_wf root" "disk_tidy root" "scan_of env rules hp ha root st" "snapshot_tree (scan_result sha st) w"
  shows "shows_shared rules root w"
  unfolding shows_shared_def
proof
  fix p
  let ?B = "scan_result sha st"
  note files = scan_files_iff [OF assms(1,3), of sha p] and dirs = scan_dirs_iff [OF assms(1-3), of sha p]
  have node: "snapshot_node ?B p (map_of w p)" using assms(4) unfolding snapshot_tree_def by blast
  show "case map_of w p of
            None \<Rightarrow>
              (\<forall>mode mtime data. visited rules root p (DiskFile mode mtime data) \<longrightarrow> \<not> AllowsPath rules p) \<and>
              (\<forall>n. visited rules root p n \<and> node_IsDir n \<longrightarrow> \<not> visible_dir rules root p)
          | Some DirNode \<Rightarrow> (\<exists>n. visited rules root p n \<and> node_IsDir n) \<and> visible_dir rules root p
          | Some (FileNode data mode mtime) \<Rightarrow>
              AllowsPath rules p \<and>
              (\<exists>mode' mtime'. visited rules root p (DiskFile mode' mtime' data) \<and> perm mode = perm mode' \<and>
                 round_second mtime = round_second mtime')"
  proof (cases "map_of w p" rule: option_node_cases)
    case none
    then have none': "map_of (ls_Files ?B) p = None" "map_of (ls_Dirs ?B) p = None"
      using node unfolding snapshot_node_def by (simp_all only: option.case)
    have "\<not> visible_dir rules root p" if v: "visited rules root p n" "node_IsDir n" for n
    proof
      assume vis: "visible_dir rules root p"
      obtain mode mtime e entries where n: "n = DiskDir mode mtime e entries" using v(2) by (cases n) auto
      have "map_of (ls_Dirs ?B) p = Some (scan_dir_entry p mode mtime)" using v(1) vis unfolding dirs n by blast
      then show False using none'(2) by (simp only: option.distinct)
    qed
    moreover have "\<not> AllowsPath rules p" if v: "visited rules root p (DiskFile mode mtime data)" for mode mtime data
    proof
      assume "AllowsPath rules p"
      then have "map_of (ls_Files ?B) p = Some (scan_file p mode mtime data (scan_hash env hp ha p data))"
        using v unfolding files by blast
      then show False using none'(1) by (simp only: option.distinct)
    qed
    ultimately show ?thesis unfolding none by (simp only: option.case) blast
  next
    case (regular data mode mtime)
    then have "case map_of (ls_Files ?B) p of None \<Rightarrow> False
        | Some b \<Rightarrow> data = lf_Data b \<and> file_metadata data mode mtime = me_Metadata (lf_Entry b)"
      using node unfolding snapshot_node_def by (simp only: option.case node.case)
    then obtain b where b: "map_of (ls_Files ?B) p = Some b" "data = lf_Data b"
      "file_metadata data mode mtime = me_Metadata (lf_Entry b)"
      by (cases "map_of (ls_Files ?B) p") (auto simp del: scan_result_fields)
    obtain mode' mtime' data' where *: "visited rules root p (DiskFile mode' mtime' data')" "AllowsPath rules p"
      "b = scan_file p mode' mtime' data' (scan_hash env hp ha p data')"
      using iffD1 [OF files b(1)] by blast
    have "data' = data" "perm mode = perm mode'" "round_second mtime = round_second mtime'"
      using b(2,3) unfolding *(3) by (simp_all add: scan_file_def scan_file_entry_def file_metadata_def normalizeMetadata_def)
    then show ?thesis unfolding regular using *(1,2) by (simp only: option.case node.case) blast
  next
    case directory
    then obtain d where "map_of (ls_Dirs ?B) p = Some d"
      using node unfolding snapshot_node_def by (cases "map_of (ls_Dirs ?B) p") (simp_all only: option.case node.case simp_thms)
    then obtain mode mtime e entries where "visited rules root p (DiskDir mode mtime e entries)" "visible_dir rules root p"
      using iffD1 [OF dirs] by blast
    then show ?thesis unfolding directory using node_IsDir.simps(1) by (simp only: option.case node.case) blast
  qed
qed

end
