(* ===== verification/Scan_Results.thy ===== *)
theory Scan_Results
  imports Scan_Properties
begin

text \<open>
  The results on sharing a workspace: what the ignore rules match and hide, what a scan takes from the
  disk, and that a sync of a scan shows exactly that on the daemon.
\<close>

section \<open>Rules read from a file\<close>

lemma set_TrimSpace: "set (TrimSpace s) \<subseteq> set s"
proof -
  have "set (TrimSpace s) \<subseteq> set (rev (trim_left s))"
    unfolding TrimSpace_def set_rev by (metis set_mono_suffix set_rev trim_right_rev_suffix)
  also have "\<dots> \<subseteq> set s" using set_mono_suffix [OF trim_left_suffix] by simp
  finally show ?thesis .
qed

lemma set_strip_dot_slash: "set (strip_dot_slash s) \<subseteq> set s"
  by (induction s rule: strip_dot_slash.induct) auto

lemma set_trim_slash: "set (trim_slash s) \<subseteq> set s"
  by (cases s) (auto simp: trim_slash_def)

lemma set_stripped: "set (trim_slash (strip_dot_slash (ToSlash (TrimSpace s)))) \<subseteq> set s"
  unfolding ToSlash_def using set_trim_slash set_strip_dot_slash set_TrimSpace by blast

lemma set_Split: "w \<in> set (Split s sep) \<Longrightarrow> set w \<subseteq> set s"
proof (induction s arbitrary: w)
  case (Cons c s)
  show ?case
  proof (cases "Split s sep")
    case split: (Cons a ws)
    have "set v \<subseteq> set s" if "v \<in> set (a # ws)" for v using Cons.IH [of v] that split by simp
    then show ?thesis using Cons.prems split by (auto split: if_splits) blast+
  qed simp
qed simp

lemma set_segments: "w \<in> set (splitWorkspaceViewSegments p) \<Longrightarrow> set w \<subseteq> set p"
  using set_Split [of w "normalizeWorkspaceViewPath p" "CHR ''/''"] set_stripped [of p]
  by (auto simp: splitWorkspaceViewSegments_def normalizeWorkspaceViewPath_def Let_def split: if_splits)

lemma set_pattern: "set (normalizeWorkspaceViewPattern s) \<subseteq> set s \<union> {CHR ''/'', CHR ''*''}"
proof -
  let ?t = "trim_slash (strip_dot_slash (ToSlash (TrimSpace s)))"
  have "set (butlast ?t) \<subseteq> set s" "set ?t \<subseteq> set s" using set_stripped [of s] in_set_butlastD by fastforce+
  then show ?thesis unfolding normalizeWorkspaceViewPattern_def Let_def by auto
qed

lemma set_replace_crlf: "set (replace_crlf s) \<subseteq> set s"
  by (induction s rule: replace_crlf.induct) auto

lemma parse_rule_ok:
  assumes "parse_rule line = Some rule" "CHR 0x5C \<notin> set line"
  shows "rule_ok rule"
proof -
  let ?l = "TrimSpace line"
  let ?p = "normalizeWorkspaceViewPattern (if HasPrefix ?l ''!'' then TrimSpace (tl ?l) else ?l)"
  have rule: "vr_segments rule = splitWorkspaceViewSegments ?p" "vr_staticPrefix rule = workspaceViewStaticPrefix (vr_segments rule)"
    using assms(1) by (auto simp: parse_rule_def Let_def split: if_splits)
  have "set (TrimSpace (tl ?l)) \<subseteq> set line" using set_TrimSpace [of "tl ?l"] set_TrimSpace [of line] by (cases ?l) auto
  then have "set (if HasPrefix ?l ''!'' then TrimSpace (tl ?l) else ?l) \<subseteq> set line" using set_TrimSpace by auto
  then have "CHR 0x5C \<notin> set ?p"
    using assms(2) set_pattern [of "if HasPrefix ?l ''!'' then TrimSpace (tl ?l) else ?l"] by auto
  then have "CHR 0x5C \<notin> set w" if "w \<in> set (vr_segments rule)" for w using that set_segments [of w] unfolding rule(1) by blast
  then show ?thesis unfolding rule_ok_def using rule(2) by blast
qed

lemma parsed_rules_ok:
  assumes "CHR 0x5C \<notin> set data" "rule \<in> set (wv_rules (parseWorkspaceViewRules fingerprint data))"
  shows "rule_ok rule"
proof -
  obtain line where line: "line \<in> set (Split (replace_crlf data) (CHR ''\<newline>''))" "parse_rule line = Some rule"
    using assms(2) by (auto simp: parseWorkspaceViewRules_def List.map_filter_def split: if_splits)
  have "set line \<subseteq> set data" using set_Split [OF line(1)] set_replace_crlf by blast
  then show ?thesis using parse_rule_ok [OF line(2)] assms(1) by blast
qed

section \<open>An example\<close>

text \<open>A workspace with a rule that hides \<open>build\<close> and one that shows a part of it again.\<close>

definition demo_time :: go_time where
  "demo_time = 62135596800 * 1000000000"

definition demo_scan_env :: scan_env where
  "demo_scan_env = \<lparr>sv_sha = (\<lambda>data. CHR ''h'' # data @ ''h''), sv_nfd = id, sv_lower = map (\<lambda>c. if c = CHR ''A'' then CHR ''a'' else c)\<rparr>"

definition demo_root :: disk_node where
  "demo_root = DiskDir 493 demo_time None
     [(''.stignore'', DiskFile 420 demo_time ''build/\<newline>!build/include/**\<newline>''),
      (''build'', DiskDir 493 demo_time None
        [(''drop.txt'', DiskFile 420 demo_time ''drop''), (''include'', DiskDir 493 demo_time None [(''keep.txt'', DiskFile 420 demo_time ''keep'')])]),
      (''src'', DiskDir 493 demo_time None [(''main.txt'', DiskFile 420 demo_time ''main'')])]"

definition demo_disk :: local_disk where
  "demo_disk = \<lparr>ld_rules = Inr (Some ''build/\<newline>!build/include/**\<newline>''), ld_root = Inr (Some demo_root)\<rparr>"

definition demo_rules :: WorkspaceViewRules where
  "demo_rules = parseWorkspaceViewRules (sv_sha demo_scan_env ''build/\<newline>!build/include/**\<newline>'') ''build/\<newline>!build/include/**\<newline>''"

definition demo_scan :: LocalWorkspaceSnapshot where
  "demo_scan = (case ScanLocalWorkspace demo_scan_env demo_disk [] False of Inl _ \<Rightarrow> empty_snapshot | Inr B \<Rightarrow> B)"

section \<open>Properties\<close>

text \<open>
  C9: The matcher of the ignore rules, which remembers the positions it has tried and whose deferred
  function overwrites what it remembered, is equivalent to the meaning of a pattern: the path falls
  into one piece for each segment of the pattern, any number of elements for \<open>**\<close> and a single element
  that \<open>filepath.Match\<close> accepts for every other segment.
\<close>

theorem matcher_finds_matches:
  "matchWorkspaceViewSegments pattern path \<longleftrightarrow>
   (\<exists>parts. concat parts = path \<and>
      list_all2 (\<lambda>p part. p = ''**'' \<or> (\<exists>s. part = [s] \<and> Match p s = Some True)) pattern parts)"
  unfolding matchWorkspaceViewSegments_iff segments_match_def piece_def [abs_def] ..

text \<open>
  C35: Skipping a directory hides nothing the rules allow: when every excluding rule that matches a
  pruned directory covers its whole subtree, as \<open>dir/\<close> does, no path below the directory is
  allowed by the rules. The rules come from a file without backslashes.
\<close>

theorem pruning_is_sound:
  assumes "rules = parseWorkspaceViewRules fingerprint data" "CHR 0x5C \<notin> set data"
    and "CanPruneDirectory rules d" "view_path d" "view_path (d @ ''/'' @ s)"
    and "\<forall>rule \<in> set (wv_rules rules). \<not> vr_include rule \<and> rule_matches rule d \<longrightarrow> subtree_rule rule"
  shows "\<not> AllowsPath rules (d @ ''/'' @ s)"
  using pruned_below [OF assms(3-5) _ assms(6)] parsed_rules_ok [OF assms(2)] assms(1) by blast

text \<open>
  C8: A scan that succeeds takes exactly what the rules share. The files of the snapshot are the regular
  files on disk that the rules allow and that no pruned directory hides, with their content, permissions,
  times and size; the directories are those that are allowed or that contain something allowed. The root
  is a directory whose entries have proper and distinct names, and no path on the disk has white space
  at its ends or ends in \<open>.symterm-commit\<close>: a directory with a blank before its name is left out, because
  the paths whose parents are marked visible are trimmed first.
\<close>

theorem scan_shares_exactly:
  assumes "ScanLocalWorkspace env disk hp ha = Inr B" "LoadWorkspaceViewRules (sv_sha env) (ld_rules disk) = Inr rules"
    and "ld_root disk = Inr (Some root)" "node_IsDir root" "disk_wf root" "disk_tidy root"
  shows "(map_of (ls_Files B) p = Some f \<longleftrightarrow>
      (\<exists>mode mtime data. visited rules root p (DiskFile mode mtime data) \<and> AllowsPath rules p \<and>
         f = scan_file p mode mtime data (scan_hash env hp ha p data))) \<and>
    (map_of (ls_Dirs B) p = Some d \<longleftrightarrow>
      (\<exists>mode mtime e entries. visited rules root p (DiskDir mode mtime e entries) \<and> visible_dir rules root p \<and>
         d = scan_dir_entry p mode mtime))"
proof -
  obtain st where st: "scan_of env rules hp ha root st" "B = scan_result (sv_sha env) st"
    by (rule ScanLocalWorkspace_result [OF assms(1-4)])
  show ?thesis
    unfolding st(2) using scan_files_iff [OF assms(5) st(1)] scan_dirs_iff [OF assms(5,6) st(1)] by blast
qed

text \<open>
  C36: What a scan accepts can be shared across platforms: every entry the scan has seen is a directory or
  a regular file with a valid portable path, and no two of them have the same collision key. Any
  other entry makes the scan fail.
\<close>

theorem scan_is_portable:
  assumes "ScanLocalWorkspace env disk hp ha = Inr B" "LoadWorkspaceViewRules (sv_sha env) (ld_rules disk) = Inr rules"
    and "ld_root disk = Inr (Some root)" "node_IsDir root" "disk_wf root" "visited rules root p n"
  shows "ValidateRelativePath p = None \<and> (node_IsDir n \<or> (\<exists>mode mtime data. n = DiskFile mode mtime data)) \<and>
    (\<forall>q m. visited rules root q m \<and>
       CollisionKey (sv_nfd env) (sv_lower env) q = CollisionKey (sv_nfd env) (sv_lower env) p \<longrightarrow> q = p)"
proof -
  obtain st where st: "scan_of env rules hp ha root st" by (rule ScanLocalWorkspace_result [OF assms(1-4)])
  show ?thesis using scan_of_checked [OF assms(5) st assms(6)] by blast
qed

text \<open>
  C2: From the client's disk to the daemon: a scan of the client's workspace followed by a sync makes the
  daemon's workspace show exactly what the ignore rules share: a file for every shared file with its
  content, permissions and time in seconds, a directory for every visible one, and nothing else. The sync
  ends without an error and the daemon is then ready for the next one. The conditions are these. On the
  client's side the scan succeeds, the root is a directory whose entries have proper and distinct names,
  no path has white space at its ends or ends in \<open>.symterm-commit\<close>, and the records of the hash
  cache are true. On the daemon's side the workspace is a tree of valid paths, the
  manager is fresh or its manifest describes the workspace, its directories can be made and it mirrors to
  no mount. Between the two, both sides hash alike, the handshake offers version 2,
  the sync epoch is not 0, nothing is a file on one side and a directory on the other, and no two
  contents of a path have the same hash; a hash is never blank and unzipping undoes zipping. During the first attempt the watcher reports nothing and the
  workspace has been quiet for the length of the quiescence window.
\<close>

theorem shared_workspace_reaches_daemon:
  assumes "ScanLocalWorkspace env disk hp ha = Inr B" "LoadWorkspaceViewRules (sv_sha env) (ld_rules disk) = Inr rules"
    and "ld_root disk = Inr (Some root)" "node_IsDir root" "disk_wf root" "disk_tidy root"
    and "run_ok ce" "sv_sha env = sy_sha (ce_env ce)" "supportsSyncV2 (ce_caps ce)" "sy_mirror (ce_env ce) = Inr False"
    and "daemon_ready (ce_env ce) m" "same_kinds B (sm_workspace m)" "no_collision (ce_env ce) (content_of B) (sm_workspace m)"
    and "records_true (sy_sha (ce_env ce)) B cache" "epoch \<noteq> 0"
    and "ce_watch ce 0 = id" "syncGuardQuiescenceWindow \<le> ce_now ce 0 - now"
  shows "\<exists>m'. SyncProjectWorkspace ce epoch now cache B m = Some (None, m') \<and> shows_shared rules root (sm_workspace m') \<and>
    daemon_ready (ce_env ce) m'"
proof -
  obtain st where st: "scan_of env rules hp ha root st" "B = scan_result (sv_sha env) st"
    by (rule ScanLocalWorkspace_result [OF assms(1-4)])
  have "can_sync ce B m"
    unfolding can_sync_def using scan_scanned [OF assms(5,6) st(1)] assms(7,8,10-13) st(2) by auto
  then obtain m' where m': "SyncProjectWorkspace ce epoch now cache B m = Some (None, m')" "snapshot_tree B (sm_workspace m')"
    "daemon_ready (ce_env ce) m'"
    using sync_converges [OF _ assms(9,14-17)] by blast
  moreover have "shows_shared rules root (sm_workspace m')"
    using snapshot_shows_shared [OF assms(5,6) st(1)] m'(2) st(2) by blast
  ultimately show ?thesis by blast
qed

text \<open>
  C37: Where the scan and the view of the owner's file service disagree. For a regular file with a path in
  normal form on the disk of a scan that succeeded, a directory tree with proper and distinct names,
  \<open>PathVisibleOnDisk\<close> asks only whether the rules allow the path of the file. The
  scan shares the file if the rules allow it and no directory above it is excluded and pruned. So an
  allowed file below a pruned directory is visible through the file service and is never synced.
\<close>

theorem scan_and_view_disagree:
  assumes "ScanLocalWorkspace env disk hp ha = Inr B" "LoadWorkspaceViewRules (sv_sha env) (ld_rules disk) = Inr rules"
    and "ld_root disk = Inr (Some root)" "node_IsDir root" "disk_wf root"
    and q: "view_path q" "node_at root (Split q (CHR ''/'')) = Some (DiskFile mode mtime data)"
  shows "PathVisibleOnDisk rules q (Inr (Some (DiskFile mode mtime data))) = Inr (AllowsPath rules q) \<and>
    (map_of (ls_Files B) q \<noteq> None \<longleftrightarrow>
       AllowsPath rules q \<and> \<not> (\<exists>d \<in> set (ancestors q). \<not> AllowsPath rules d \<and> CanPruneDirectory rules d))"
proof -
  obtain st where st: "scan_of env rules hp ha root st" "B = scan_result (sv_sha env) st"
    by (rule ScanLocalWorkspace_result [OF assms(1-4)])
  have "map_of (ls_Files B) q \<noteq> None \<longleftrightarrow> (\<exists>mode mtime data. visited rules root q (DiskFile mode mtime data) \<and> AllowsPath rules q)"
    using scan_files_iff [OF assms(5) st(1), of "sv_sha env" q] unfolding st(2) by blast
  moreover have "PathVisibleOnDisk rules q (Inr (Some (DiskFile mode mtime data))) = Inr (AllowsPath rules q)"
    using q(1) by (simp add: PathVisibleOnDisk_def visibleExistingWorkspacePath.simps view_path_def)
  ultimately show ?thesis using q by (auto simp: visited_def pruned_def view_path_def)
qed

section \<open>Witnesses\<close>

lemma demo_scan_ok: "ScanLocalWorkspace demo_scan_env demo_disk [] False = Inr demo_scan"
  by code_simp

lemma demo_rules_ok: "LoadWorkspaceViewRules (sv_sha demo_scan_env) (ld_rules demo_disk) = Inr demo_rules"
  by code_simp

lemma demo_root_ok: "ld_root demo_disk = Inr (Some demo_root)" "node_IsDir demo_root" "disk_wf demo_root" "disk_tidy demo_root"
  by code_simp+

theorem pruning_is_sound_witness:
  "CanPruneDirectory (parseWorkspaceViewRules [] ''build/'') ''build'' \<and>
   \<not> AllowsPath (parseWorkspaceViewRules [] ''build/'') (''build'' @ ''/'' @ ''x'')"
proof
  show "CanPruneDirectory (parseWorkspaceViewRules [] ''build/'') ''build''" by code_simp
  then show "\<not> AllowsPath (parseWorkspaceViewRules [] ''build/'') (''build'' @ ''/'' @ ''x'')"
  proof (rule pruning_is_sound [OF refl, rotated])
    show "\<forall>rule \<in> set (wv_rules (parseWorkspaceViewRules [] ''build/'')).
        \<not> vr_include rule \<and> rule_matches rule ''build'' \<longrightarrow> subtree_rule rule"
      by code_simp
    show "view_path ''build''" "view_path (''build'' @ ''/'' @ ''x'')" by code_simp+
  qed simp
qed

theorem scan_shares_exactly_witness:
  "(map_of (ls_Files demo_scan) ''src/main.txt'' = Some (scan_file ''src/main.txt'' 420 demo_time ''main'' []) \<longleftrightarrow>
      (\<exists>mode mtime data. visited demo_rules demo_root ''src/main.txt'' (DiskFile mode mtime data) \<and>
         AllowsPath demo_rules ''src/main.txt'' \<and>
         scan_file ''src/main.txt'' 420 demo_time ''main'' [] =
           scan_file ''src/main.txt'' mode mtime data (scan_hash demo_scan_env [] False ''src/main.txt'' data))) \<and>
   (map_of (ls_Dirs demo_scan) ''src/main.txt'' = Some (scan_dir_entry ''src/main.txt'' 0 0) \<longleftrightarrow>
      (\<exists>mode mtime e entries. visited demo_rules demo_root ''src/main.txt'' (DiskDir mode mtime e entries) \<and>
         visible_dir demo_rules demo_root ''src/main.txt'' \<and> scan_dir_entry ''src/main.txt'' 0 0 = scan_dir_entry ''src/main.txt'' mode mtime))"
  by (rule scan_shares_exactly [OF demo_scan_ok demo_rules_ok demo_root_ok])

theorem scan_is_portable_witness:
  "ValidateRelativePath ''src/main.txt'' = None \<and> visited demo_rules demo_root ''src/main.txt'' (DiskFile 420 demo_time ''main'')"
proof -
  have "visited demo_rules demo_root ''src/main.txt'' (DiskFile 420 demo_time ''main'')" by code_simp
  then show ?thesis using scan_is_portable [OF demo_scan_ok demo_rules_ok demo_root_ok(1-3)] by blast
qed

text \<open>With the single rule \<open>build\<close> the directory is pruned, but no rule matches the file in it.\<close>

definition demo_build :: disk_node where
  "demo_build = DiskDir 493 demo_time None
     [(''.stignore'', DiskFile 420 demo_time ''build''), (''build'', DiskDir 493 demo_time None [(''x'', DiskFile 420 demo_time ''hi'')])]"

theorem scan_and_view_disagree_witness:
  "\<exists>B rules. ScanLocalWorkspace demo_scan_env \<lparr>ld_rules = Inr (Some ''build''), ld_root = Inr (Some demo_build)\<rparr> [] False = Inr B \<and>
     LoadWorkspaceViewRules (sv_sha demo_scan_env) (Inr (Some ''build'')) = Inr rules \<and>
     PathVisibleOnDisk rules ''build/x'' (Inr (Some (DiskFile 420 demo_time ''hi''))) = Inr True \<and>
     map_of (ls_Files B) ''build/x'' = None"
proof -
  let ?disk = "\<lparr>ld_rules = Inr (Some ''build''), ld_root = Inr (Some demo_build)\<rparr>"
  have "\<not> sum.isl (ScanLocalWorkspace demo_scan_env ?disk [] False)" by code_simp
  then obtain B where B: "ScanLocalWorkspace demo_scan_env ?disk [] False = Inr B" 
    by (cases "ScanLocalWorkspace demo_scan_env ?disk [] False") simp_all
  let ?rules = "parseWorkspaceViewRules (sv_sha demo_scan_env ''build'') ''build''"
  have rules: "LoadWorkspaceViewRules (sv_sha demo_scan_env) (ld_rules ?disk) = Inr ?rules" by code_simp
  have root: "ld_root ?disk = Inr (Some demo_build)" "node_IsDir demo_build" "disk_wf demo_build"
    "view_path ''build/x''" "node_at demo_build (Split ''build/x'' (CHR ''/'')) = Some (DiskFile 420 demo_time ''hi'')"
    by code_simp+
  have facts: "AllowsPath ?rules ''build/x''" "''build'' \<in> set (ancestors ''build/x'')"
    "\<not> AllowsPath ?rules ''build''" "CanPruneDirectory ?rules ''build''" by code_simp+
  note both = scan_and_view_disagree [OF B rules root]
  have "PathVisibleOnDisk ?rules ''build/x'' (Inr (Some (DiskFile 420 demo_time ''hi''))) = Inr True" using both facts(1) by simp
  moreover have "map_of (ls_Files B) ''build/x'' = None" using both facts(2-) by blast
  ultimately show ?thesis using B rules [simplified] by blast
qed

theorem shared_workspace_reaches_daemon_witness:
  "\<exists>m'. SyncProjectWorkspace demo_run 1 0 None demo_scan (demo_manager []) = Some (None, m') \<and>
     shows_shared demo_rules demo_root (sm_workspace m') \<and> daemon_ready (ce_env demo_run) m'"
proof (rule shared_workspace_reaches_daemon [OF demo_scan_ok demo_rules_ok demo_root_ok])
  show "same_kinds demo_scan (sm_workspace (demo_manager []))" "no_collision (ce_env demo_run) (content_of demo_scan) (sm_workspace (demo_manager []))"
    by (simp_all add: same_kinds_def no_collision_def demo_manager_def)
  show "supportsSyncV2 (ce_caps demo_run)" by (simp add: supportsSyncV2_def demo_run_def defaultSyncCapabilities_def)
  show "records_true (sy_sha (ce_env demo_run)) demo_scan None" by (simp add: records_true_def)
qed (use demo_run_ok demo_ready(1) in \<open>simp_all add: demo_run_def demo_env_def demo_scan_env_def syncGuardQuiescenceWindow_def\<close>)

end
