(* ===== verification/Workspace_Handles.thy ===== *)
theory Workspace_Handles
  imports Workspace_Sync Sync_Client
begin

text \<open>
  Changes of single files through handles (\<open>internal/daemon/workspace_manager_staged_handle.go\<close>, and in
  \<open>workspace_manager.go\<close> and \<open>workspace_manager_owner_authority.go\<close> what it uses): a client opens a
  handle, changes are collected in a temporary file, a flush commits them.

  The state of a project has the daemon's trees: the canonical workspace, the published mount, the
  directory of an authority that is a local root, and the temporary files. The owner's side is
  reached through \<open>ownerfs.Client\<close>, whose operations on the owner's state \<open>'o\<close> are the record
  \<open>owner_client\<close>. \<open>handle_env\<close> holds what else the operations ask for: whether the mount is a mirror,
  the time, a fresh name for a temporary file, what the system reports for directories and new files,
  and what looking at paths in conservative mode finds.

  \<open>flush\<close> gives up the manager's lock while it writes: its three locked parts are operations of
  their own. The hooks of the tests are not set.
\<close>

section \<open>State\<close>

record 'o owner_client =
  oc_GetAttr :: "string \<Rightarrow> 'o \<Rightarrow> (FileMetadata \<times> bool) res"
  oc_Read :: "string \<Rightarrow> int \<Rightarrow> int \<Rightarrow> 'o \<Rightarrow> string res"
  oc_Apply :: "FsOperation \<Rightarrow> string \<Rightarrow> string \<Rightarrow> FileMetadata \<Rightarrow> 'o \<Rightarrow> err option \<times> 'o"
  oc_BeginFileUpload :: "FsOperation \<Rightarrow> string \<Rightarrow> FileMetadata \<Rightarrow> int \<Rightarrow> 'o \<Rightarrow> string res \<times> 'o"
  oc_ApplyFileChunk :: "string \<Rightarrow> int \<Rightarrow> string \<Rightarrow> 'o \<Rightarrow> err option \<times> 'o"
  oc_CommitFileUpload :: "string \<Rightarrow> 'o \<Rightarrow> err option \<times> 'o"
  oc_AbortFileUpload :: "string \<Rightarrow> string \<Rightarrow> 'o \<Rightarrow> 'o"

record 'o handle_env =
  he_client :: "'o owner_client"
  he_mirror :: "bool res"
  he_now :: go_time
  he_temp :: "tree \<Rightarrow> string"
  he_dirinfo :: FileMetadata
  he_created :: "32 word \<Rightarrow> node"
  he_observed :: "string list \<Rightarrow> conservativeObservation list res"

text \<open>The client of an authority is known by a number; \<open>None\<close> is the nil client.\<close>

record workspaceAuthority =
  au_root :: string
  au_client :: "nat option"
  au_state :: AuthorityState
  au_managed :: bool

record 'o project_workspace =
  pw_state :: workspaceState
  pw_authority :: workspaceAuthority
  pw_workspace :: tree
  pw_mount :: tree
  pw_root :: tree
  pw_temps :: tree
  pw_owner :: 'o

datatype tree_place = AtWorkspace | AtMount | AtRoot

fun tree_at :: "tree_place \<Rightarrow> 'o project_workspace \<Rightarrow> tree" where
  "tree_at AtWorkspace w = pw_workspace w"
| "tree_at AtMount w = pw_mount w"
| "tree_at AtRoot w = pw_root w"

fun put_tree :: "tree_place \<Rightarrow> tree \<Rightarrow> 'o project_workspace \<Rightarrow> 'o project_workspace" where
  "put_tree AtWorkspace t w = w\<lparr>pw_workspace := t\<rparr>"
| "put_tree AtMount t w = w\<lparr>pw_mount := t\<rparr>"
| "put_tree AtRoot t w = w\<lparr>pw_root := t\<rparr>"

definition on_state :: "(workspaceState \<Rightarrow> workspaceState) \<Rightarrow> 'o project_workspace \<Rightarrow> 'o project_workspace" where
  "on_state f w = w\<lparr>pw_state := f (pw_state w)\<rparr>"

definition on_handles :: "(workspaceHandleState \<Rightarrow> workspaceHandleState) \<Rightarrow> 'o project_workspace \<Rightarrow> 'o project_workspace" where
  "on_handles f = on_state (\<lambda>s. s\<lparr>ws_handles := f (ws_handles s)\<rparr>)"

definition handles_of :: "'o project_workspace \<Rightarrow> workspaceHandleState" where
  "handles_of w = ws_handles (pw_state w)"

definition committed_of :: "'o project_workspace \<Rightarrow> workspaceCommittedState" where
  "committed_of w = ws_committed (pw_state w)"

section \<open>The authority of a project\<close>

definition normalizedState :: "workspaceAuthority \<Rightarrow> AuthorityState" where
  "normalizedState a = (if \<not> au_managed a then AuthorityStateStable else NormalizeAuthorityState (au_state a))"

definition SetAuthoritativeRoot :: "string \<Rightarrow> 'o project_workspace \<Rightarrow> 'o project_workspace" where
  "SetAuthoritativeRoot root w =
     w\<lparr>pw_authority := \<lparr>au_root = root, au_client = None, au_state = AuthorityStateStable, au_managed = False\<rparr>\<rparr>"

definition SetAuthoritativeClient :: "nat \<Rightarrow> 'o project_workspace \<Rightarrow> 'o project_workspace" where
  "SetAuthoritativeClient client w =
     w\<lparr>pw_authority := \<lparr>au_root = [], au_client = Some client, au_state = AuthorityStateStable, au_managed = True\<rparr>\<rparr>"

definition absent :: "workspaceAuthority \<Rightarrow> workspaceAuthority" where
  "absent a = a\<lparr>au_root := [], au_client := None, au_state := AuthorityStateAbsent\<rparr>"

text \<open>The channel of a client has been closed.\<close>

definition watchAuthoritativeClient :: "nat \<Rightarrow> 'o project_workspace \<Rightarrow> 'o project_workspace" where
  "watchAuthoritativeClient client w =
     (if au_client (pw_authority w) \<noteq> Some client then w else w\<lparr>pw_authority := absent (pw_authority w)\<rparr>)"

definition ClearAuthoritativeRoot :: "'o project_workspace \<Rightarrow> 'o project_workspace" where
  "ClearAuthoritativeRoot w = w\<lparr>pw_authority := absent (pw_authority w)\<rparr>"

definition SetAuthorityState :: "AuthorityState \<Rightarrow> 'o project_workspace \<Rightarrow> 'o project_workspace" where
  "SetAuthorityState state w =
     (let a = (pw_authority w)\<lparr>au_state := NormalizeAuthorityState state\<rparr>
      in w\<lparr>pw_authority := (if au_state a \<noteq> AuthorityStateStable then a\<lparr>au_client := None\<rparr> else a)\<rparr>)"

text \<open>One look of the waiting loop: \<open>None\<close> is another round.\<close>

definition waitForMutationAuthority :: "'o project_workspace \<Rightarrow> unit res option" where
  "waitForMutationAuthority w =
     (let a = pw_authority w; state = normalizedState a
      in if \<not> au_managed a \<or> state = AuthorityStateStable then Some (Inr ())
         else if state = AuthorityStateAbsent then Some (Inl (NewError ErrOwnerMissing ''owner authority is unavailable''))
         else None)"

definition has_client :: "'o project_workspace \<Rightarrow> bool" where
  "has_client w \<longleftrightarrow> au_client (pw_authority w) \<noteq> None"

definition authoritativePath :: "'o project_workspace \<Rightarrow> tree_place" where
  "authoritativePath w = (if TrimSpace (au_root (pw_authority w)) = [] then AtWorkspace else AtRoot)"

definition stagingBasePath :: "'o project_workspace \<Rightarrow> tree_place" where
  "stagingBasePath w = (if has_client w then AtWorkspace else authoritativePath w)"

section \<open>Files and directories\<close>

definition EINVAL :: err where "EINVAL = PlainErr ''invalid argument''"

definition os_Mkdir :: "string \<Rightarrow> tree \<Rightarrow> tree res" where
  "os_Mkdir p t =
     (case Stat t (workspace_parentPath p) of
        Inl e \<Rightarrow> Inl e
      | Inr (FileNode _ _ _) \<Rightarrow> Inl ENOTDIR
      | Inr DirNode \<Rightarrow> if p = [] \<or> map_of t p \<noteq> None then Inl EEXIST else Inr (AList.update p DirNode t))"

text \<open>The path of an entry at or below \<open>source\<close> once \<open>source\<close> has become \<open>target\<close>.\<close>

definition moved :: "string \<Rightarrow> string \<Rightarrow> string \<Rightarrow> string" where
  "moved source target q = (if under q source then target @ drop (length source) q else q)"

text \<open>\<open>os.Rename\<close> to a target that does not exist.\<close>

definition os_Rename :: "string \<Rightarrow> string \<Rightarrow> tree \<Rightarrow> tree res" where
  "os_Rename source target t =
     (case Stat t source of
        Inl e \<Rightarrow> Inl e
      | Inr _ \<Rightarrow>
          (case Stat t (workspace_parentPath target) of
             Inl e \<Rightarrow> Inl e
           | Inr (FileNode _ _ _) \<Rightarrow> Inl ENOTDIR
           | Inr DirNode \<Rightarrow>
               if HasPrefix target (source @ ''/'') then Inl EINVAL
               else Inr (map (\<lambda>(q, n). (moved source target q, n)) t)))"

definition mirrorFile :: "node res \<Rightarrow> string \<Rightarrow> 32 word \<Rightarrow> go_time \<Rightarrow> tree \<Rightarrow> err option \<times> tree" where
  "mirrorFile source target mode mtime t =
     (case MkdirAll (workspace_parentPath target) t of
        Inl e \<Rightarrow> (Some e, t)
      | Inr t \<Rightarrow>
          (case source of
             Inl e \<Rightarrow> (Some e, t)
           | Inr (FileNode data _ _) \<Rightarrow>
               (case PutFile target data mode mtime t of Inl e \<Rightarrow> (Some e, t) | Inr t \<Rightarrow> (None, t))
           | Inr DirNode \<Rightarrow> (Some EISDIR, t)))"

record fileSnapshot =
  fs_exists :: bool
  fs_data :: string
  fs_metadata :: FileMetadata

definition captureFileSnapshot :: "tree \<Rightarrow> string \<Rightarrow> fileSnapshot res" where
  "captureFileSnapshot t p =
     (case Stat t p of
        Inl e \<Rightarrow>
          if errorsIsNotExist e then Inr \<lparr>fs_exists = False, fs_data = [], fs_metadata = zero_FileMetadata\<rparr> else Inl e
      | Inr DirNode \<Rightarrow> Inl (PlainErr ''file snapshot requires a non-directory path'')
      | Inr (FileNode data mode mtime) \<Rightarrow>
          Inr \<lparr>fs_exists = True, fs_data = data, fs_metadata = fileInfoMetadata zero_FileMetadata (FileNode data mode mtime)\<rparr>)"

definition rollback_suffix :: string where
  "rollback_suffix = ''.symterm-rollback''"

definition restoreFileSnapshot :: "string \<Rightarrow> fileSnapshot \<Rightarrow> tree \<Rightarrow> err option \<times> tree" where
  "restoreFileSnapshot p snapshot t =
     (if \<not> fs_exists snapshot then
        (case Remove p t of
           Inl e \<Rightarrow> (if errorsIsNotExist e then None else Some e, t)
         | Inr t \<Rightarrow> (None, t))
      else
        case MkdirAll (workspace_parentPath p) t of
          Inl e \<Rightarrow> (Some e, t)
        | Inr t1 \<Rightarrow>
            (case PutFile (p @ rollback_suffix) (fs_data snapshot) (fm_Mode (fs_metadata snapshot))
                    (fm_MTime (fs_metadata snapshot)) t1 of
               Inl e \<Rightarrow> (Some e, t1)
             | Inr t2 \<Rightarrow>
                 let t3 = AList.delete (p @ rollback_suffix) t2
                 in if map_of t1 p = Some DirNode then (Some EEXIST, t3)
                    else (None, AList.update p (FileNode (fs_data snapshot) (fm_Mode (fs_metadata snapshot))
                      (fm_MTime (fs_metadata snapshot))) t3)))"

definition removePathForOperation :: "string \<Rightarrow> FsOperation \<Rightarrow> tree \<Rightarrow> tree res" where
  "removePathForOperation p op t =
     (case Stat t p of
        Inl e \<Rightarrow> Inl e
      | Inr n \<Rightarrow>
          if op = FsOpRemove then
            (if n = DirNode then Inl (NewError ErrConflict ''remove requires a non-directory path'') else Remove p t)
          else if op = FsOpRmdir then
            (if n \<noteq> DirNode then Inl (NewError ErrConflict ''rmdir requires a directory path'') else Remove p t)
          else Inl (NewError ErrInvalidArgument ''unsupported remove operation''))"

text \<open>The target is removed first; when the rename then fails, it is gone.\<close>

definition renamePathWithOverwrite :: "string \<Rightarrow> string \<Rightarrow> tree \<Rightarrow> err option \<times> tree" where
  "renamePathWithOverwrite source target t =
     (case Stat t source of
        Inl e \<Rightarrow> (Some e, t)
      | Inr info \<Rightarrow>
          (case (case Stat t target of
                   Inr existing \<Rightarrow>
                     if (info = DirNode) \<noteq> (existing = DirNode)
                     then Inl (NewError ErrConflict ''rename target kind changed'') else Remove target t
                 | Inl e \<Rightarrow> if errorsIsNotExist e then Inr t else Inl e) of
             Inl e \<Rightarrow> (Some e, t)
           | Inr t \<Rightarrow> (case os_Rename source target t of Inl e \<Rightarrow> (Some e, t) | Inr t \<Rightarrow> (None, t))))"

text \<open>Copying an entry with everything below it from one tree to another, where the old entry goes.\<close>

definition prepareMirrorDirectoryRoot :: "string \<Rightarrow> tree \<Rightarrow> tree res" where
  "prepareMirrorDirectoryRoot target t =
     (case Stat t target of
        Inl e \<Rightarrow> if errorsIsNotExist e then MkdirAll target t else Inl e
      | Inr (FileNode _ _ _) \<Rightarrow> (case RemoveAll target t of Inl e \<Rightarrow> Inl e | Inr t \<Rightarrow> MkdirAll target t)
      | Inr DirNode \<Rightarrow> Inr (filter (\<lambda>(q, _). \<not> (if target = [] then q \<noteq> [] else HasPrefix q (target @ ''/''))) t))"

definition mirror_entry :: "string \<times> node \<Rightarrow> tree \<Rightarrow> err option \<times> tree" where
  "mirror_entry x t =
     (case x of
        (dest, DirNode) \<Rightarrow> (case MkdirAll dest t of Inl e \<Rightarrow> (Some e, t) | Inr t \<Rightarrow> (None, t))
      | (dest, FileNode data mode mtime) \<Rightarrow>
          let metadata = fileInfoMetadata zero_FileMetadata (FileNode data mode mtime)
          in mirrorFile (Inr (FileNode data mode mtime)) dest (fm_Mode metadata) (fm_MTime metadata) t)"

definition mirrorPath :: "tree \<Rightarrow> string \<Rightarrow> string \<Rightarrow> tree \<Rightarrow> err option \<times> tree" where
  "mirrorPath source p target t =
     (case Stat source p of
        Inl e \<Rightarrow> (Some e, t)
      | Inr (FileNode data mode mtime) \<Rightarrow> mirror_entry (target, FileNode data mode mtime) t
      | Inr DirNode \<Rightarrow>
          (case prepareMirrorDirectoryRoot target t of
             Inl e \<Rightarrow> (Some e, t)
           | Inr t \<Rightarrow>
               fold_err mirror_entry
                 (map (\<lambda>(q, n). (target @ drop (length p) q, n)) (sort_key fst (filter (\<lambda>(q, _). HasPrefix q (p @ ''/'')) source))) t))"

text \<open>\<open>authoritative\<close> and \<open>p\<close> are the tree and the path of the first argument of the code.\<close>

definition syncRenamedMirrorPath :: "tree \<Rightarrow> string \<Rightarrow> string \<Rightarrow> string \<Rightarrow> tree \<Rightarrow> err option \<times> tree" where
  "syncRenamedMirrorPath authoritative p mirrorSource mirrorTarget t =
     (let (r, t) = (if mirrorSource \<noteq> mirrorTarget then renamePathWithOverwrite mirrorSource mirrorTarget t else (Some ENOENT, t))
      in case r of
           None \<Rightarrow> (None, t)
         | Some e \<Rightarrow>
             if \<not> errorsIsNotExist e then (Some e, t)
             else
               case mirrorPath authoritative p mirrorTarget t of
                 (Some e, t) \<Rightarrow> (Some e, t)
               | (None, t) \<Rightarrow>
                   if mirrorSource \<noteq> mirrorTarget then
                     (case RemoveAll mirrorSource t of
                        Inl e \<Rightarrow> (if errorsIsNotExist e then None else Some e, t)
                      | Inr t \<Rightarrow> (None, t))
                   else (None, t))"

section \<open>Handles\<close>

definition handle_id :: "u64 \<Rightarrow> string" where
  "handle_id n = ''handle-'' @ fmt04 n"

definition handleLocked :: "string \<Rightarrow> 'o project_workspace \<Rightarrow> stagedHandle res" where
  "handleLocked handleID w =
     (case map_of (wh_open (handles_of w)) handleID of
        None \<Rightarrow> Inl (NewError ErrUnknownHandle ''staged handle does not exist'')
      | Some handle \<Rightarrow> Inr handle)"

definition put_handle :: "stagedHandle \<Rightarrow> workspaceHandleState \<Rightarrow> workspaceHandleState" where
  "put_handle handle h = h\<lparr>wh_open := AList.update (sh_handleID handle) handle (wh_open h)\<rparr>"

record handleReadTarget =
  rt_tempPath :: string
  rt_metadata :: FileMetadata
  rt_isDir :: bool
  rt_backingKind :: stagedHandleBackingKind

definition readTargetForHandle :: "FsRequest \<Rightarrow> 'o project_workspace \<Rightarrow> handleReadTarget option res" where
  "readTargetForHandle request w =
     (if rq_HandleID request = [] then Inr None
      else case handleLocked (rq_HandleID request) w of
             Inl e \<Rightarrow> Inl e
           | Inr handle \<Rightarrow>
               if sh_path handle \<noteq> rq_Path request then
                 Inl (NewError ErrInvalidArgument ''handle does not match requested path'')
               else if sh_targetKind handle = stagedHandleTargetNone then Inr None
               else Inr (Some \<lparr>rt_tempPath = sh_tempPath handle, rt_metadata = sh_metadata handle,
                      rt_isDir = (sh_targetKind handle = stagedHandleTargetDir), rt_backingKind = sh_backingKind handle\<rparr>))"

definition effectiveOpenIntent :: "FsRequest \<Rightarrow> FsOpenIntent" where
  "effectiveOpenIntent request =
     (if rq_OpenIntent request \<in> {FsOpenIntentReadOnly, FsOpenIntentWritable} then rq_OpenIntent request
      else FsOpenIntentWritable)"

definition isWritableHandleMutation :: "FsOperation \<Rightarrow> bool" where
  "isWritableHandleMutation op \<longleftrightarrow> op \<in> {FsOpWrite, FsOpTruncate, FsOpChmod, FsOpUtimens}"

definition requiresStableMutationAuthority :: "FsOperation \<Rightarrow> FsRequest \<Rightarrow> bool" where
  "requiresStableMutationAuthority op request \<longleftrightarrow>
     (if op = FsOpOpen then effectiveOpenIntent request = FsOpenIntentWritable
      else op \<in> {FsOpCreate, FsOpWrite, FsOpMkdir, FsOpRemove, FsOpRmdir, FsOpRename, FsOpTruncate, FsOpChmod, FsOpUtimens,
                 FsOpFSync, FsOpFlush})"

definition withGenerations :: "string \<Rightarrow> FsReply \<Rightarrow> 'o project_workspace \<Rightarrow> FsReply" where
  "withGenerations path reply w =
     reply\<lparr>rp_ObjectGeneration := gen_at (wc_objectGen (committed_of w)) path,
           rp_DirGeneration := gen_at (wc_dirGen (committed_of w)) (workspace_parentPath path)\<rparr>"

definition replyWithHandle :: "stagedHandleResult \<Rightarrow> string \<Rightarrow> FsReply" where
  "replyWithHandle result handleID = (hr_reply result)\<lparr>rp_HandleID := handleID\<rparr>"

definition conservativePathsForAccess :: "string \<Rightarrow> string list" where
  "conservativePathsForAccess path = uniqueWorkspacePaths [path, workspace_parentPath path]"

definition conservativePathsForMutation :: "string \<Rightarrow> string \<Rightarrow> MutationPrecondition list \<Rightarrow> string list" where
  "conservativePathsForMutation path newPath preconditions =
     uniqueWorkspacePaths ([path, workspace_parentPath path] @
       (if newPath \<noteq> [] then [newPath, workspace_parentPath newPath] else []) @
       concat (map (\<lambda>condition. let target = (if pc_Path condition = [] then path else pc_Path condition)
                              in [target, workspace_parentPath target]) preconditions))"

definition isMissingPathError :: "err \<Rightarrow> bool" where
  "isMissingPathError e \<longleftrightarrow>
     errors_Is e FsErrNotExist \<or> (case AsError e of Some (code, _) \<Rightarrow> code = ErrUnknownFile | None \<Rightarrow> False)"

section \<open>The temporary file behind a handle\<close>

definition ownerFileUploadChunkSize :: int where
  "ownerFileUploadChunkSize = 64 * 1024"

definition ownerFileMetadata :: "'o owner_client \<Rightarrow> string \<Rightarrow> 'o \<Rightarrow> FileMetadata res" where
  "ownerFileMetadata client path owner =
     (case oc_GetAttr client path owner of
        Inl e \<Rightarrow> Inl e
      | Inr (metadata, isDir) \<Rightarrow>
          if isDir then Inl (NewError ErrConflict ''open requires a regular file path'')
          else Inr (normalizeMetadata metadata))"

text \<open>
  The owner's file is read piece by piece until a read gives nothing; \<open>None\<close> would be an owner that
  always gives something.
\<close>

partial_function (option) read_owner :: "'o owner_client \<Rightarrow> string \<Rightarrow> 'o \<Rightarrow> int \<Rightarrow> string \<Rightarrow> string res option" where
  "read_owner client path owner offset acc =
     (case oc_Read client path offset ownerFileUploadChunkSize owner of
        Inl e \<Rightarrow> Some (Inl e)
      | Inr data \<Rightarrow>
          if data = [] then Some (Inr acc)
          else read_owner client path owner (offset + int (length data)) (acc @ data))"

definition set_temp :: "string \<Rightarrow> node \<Rightarrow> 'o project_workspace \<Rightarrow> 'o project_workspace" where
  "set_temp tempPath n w = w\<lparr>pw_temps := AList.update tempPath n (pw_temps w)\<rparr>"

definition remove_temp :: "string \<Rightarrow> 'o project_workspace \<Rightarrow> 'o project_workspace" where
  "remove_temp tempPath w = (if tempPath = [] then w else w\<lparr>pw_temps := AList.delete tempPath (pw_temps w)\<rparr>)"

text \<open>A temporary file is private to its owner (\<open>0600\<close>).\<close>

definition temp_file :: "string \<Rightarrow> go_time \<Rightarrow> node" where
  "temp_file data now = FileNode data 384 now"

text \<open>The flag of the answer says whether a file was copied.\<close>

definition streamOwnerFileToTemp ::
  "'o handle_env \<Rightarrow> string \<Rightarrow> string \<Rightarrow> bool \<Rightarrow> 'o project_workspace \<Rightarrow> ((FileMetadata \<times> bool) res \<times> 'o project_workspace) option" where
  "streamOwnerFileToTemp env path tempPath failIfMissing w =
     (case ownerFileMetadata (he_client env) path (pw_owner w) of
        Inl e \<Rightarrow>
          if isMissingPathError e \<and> \<not> failIfMissing then Some (Inr (zero_FileMetadata, False), w) else Some (Inl e, w)
      | Inr metadata \<Rightarrow>
          (case read_owner (he_client env) path (pw_owner w) 0 [] of
             None \<Rightarrow> None
           | Some (Inl e) \<Rightarrow> Some (Inl e, w)
           | Some (Inr data) \<Rightarrow> Some (Inr (metadata, True), set_temp tempPath (temp_file data (he_now env)) w)))"

definition createStagedFileBacking ::
  "'o handle_env \<Rightarrow> string \<Rightarrow> bool \<Rightarrow> bool \<Rightarrow> 'o project_workspace \<Rightarrow>
   ((string \<times> FileMetadata) res \<times> 'o project_workspace) option" where
  "createStagedFileBacking env path createEmpty failIfMissing w =
     (let tempPath = he_temp env (pw_temps w);
          w = set_temp tempPath (temp_file [] (he_now env)) w;
          metadata = \<lparr>fm_Mode = 0, fm_MTime = he_now env, fm_Size = 0\<rparr>
      in if createEmpty then Some (Inr (tempPath, metadata), w)
         else if has_client w then
           (case streamOwnerFileToTemp env path tempPath failIfMissing w of
              None \<Rightarrow> None
            | Some (Inl e, w) \<Rightarrow> Some (Inl e, remove_temp tempPath w)
            | Some (Inr (metadata, _), w) \<Rightarrow> Some (Inr (tempPath, metadata), w))
         else
           (case Stat (tree_at (stagingBasePath w) w) path of
              Inr (FileNode data mode mtime) \<Rightarrow>
                Some (Inr (tempPath, fileInfoMetadata (he_dirinfo env) (FileNode data mode mtime)),
                      set_temp tempPath (temp_file data (he_now env)) w)
            | Inr DirNode \<Rightarrow> Some (Inl EISDIR, remove_temp tempPath w)
            | Inl e \<Rightarrow>
                if \<not> errorsIsNotExist e then Some (Inl e, remove_temp tempPath w)
                else if failIfMissing then Some (Inl ENOENT, remove_temp tempPath w)
                else Some (Inr (tempPath, metadata), w)))"

text \<open>A handle that reads through to the owner gets a copy of the file before it is written.\<close>

definition promoteHandleToStaged ::
  "'o handle_env \<Rightarrow> string \<Rightarrow> string \<Rightarrow> 'o project_workspace \<Rightarrow> (unit res \<times> 'o project_workspace) option" where
  "promoteHandleToStaged env handleID path w =
     (case createStagedFileBacking env path False True w of
        None \<Rightarrow> None
      | Some (Inl e, w) \<Rightarrow> Some (Inl e, w)
      | Some (Inr (tempPath, metadata), w) \<Rightarrow>
          (case handleLocked handleID w of
             Inl e \<Rightarrow> Some (Inl e, remove_temp tempPath w)
           | Inr handle \<Rightarrow>
               if sh_backingKind handle \<noteq> stagedHandleBackingOwnerReadThrough then Some (Inr (), remove_temp tempPath w)
               else Some (Inr (), on_handles (put_handle (handle\<lparr>sh_tempPath := tempPath, sh_targetKind := stagedHandleTargetFile,
                      sh_backingKind := stagedHandleBackingStagedTemp, sh_openIntent := FsOpenIntentWritable,
                      sh_metadata := metadata\<rparr>)) w)))"

section \<open>Getting a handle\<close>

definition known_handle ::
  "'o handle_env \<Rightarrow> FsOperation \<Rightarrow> FsRequest \<Rightarrow> 'o project_workspace \<Rightarrow> (stagedHandle res \<times> 'o project_workspace) option" where
  "known_handle env op request w =
     (case handleLocked (rq_HandleID request) w of
        Inl e \<Rightarrow> Some (Inl e, w)
      | Inr handle \<Rightarrow>
          if sh_path handle \<noteq> rq_Path request then
            Some (Inl (NewError ErrInvalidArgument ''handle does not match requested path''), w)
          else if sh_newPath handle \<noteq> rq_NewPath request then
            Some (Inl (NewError ErrInvalidArgument ''handle does not match requested rename target''), w)
          else if sh_state handle = stagedHandleCommitting then
            Some (Inl (NewError ErrConflict ''handle commit is in progress''), w)
          else if sh_backingKind handle = stagedHandleBackingOwnerReadThrough \<and> isWritableHandleMutation op then
            (case promoteHandleToStaged env (rq_HandleID request) (rq_Path request) w of
               None \<Rightarrow> None
             | Some (Inl e, w) \<Rightarrow> Some (Inl e, w)
             | Some (Inr _, w) \<Rightarrow> Some (handleLocked (rq_HandleID request) w, w))
          else Some (Inr handle, w))"

definition target_kind :: "FsOperation \<Rightarrow> stagedHandleTargetKind" where
  "target_kind op =
     (if op = FsOpMkdir then stagedHandleTargetDir
      else if op \<in> {FsOpRemove, FsOpRmdir, FsOpRename} then stagedHandleTargetNone
      else stagedHandleTargetFile)"

text \<open>What a new handle starts from: its temporary file, its backing and its metadata.\<close>

definition handle_backing ::
  "'o handle_env \<Rightarrow> FsOperation \<Rightarrow> FsRequest \<Rightarrow> bool \<Rightarrow> 'o project_workspace \<Rightarrow>
   ((string \<times> stagedHandleBackingKind \<times> FileMetadata) res \<times> 'o project_workspace) option" where
  "handle_backing env op request createEmpty w =
     (let staged = stagedHandleBackingStagedTemp; tempPath = he_temp env (pw_temps w); path = rq_Path request
      in case target_kind op of
           stagedHandleTargetDir \<Rightarrow>
             Some (Inr (tempPath, staged, normalizeMetadata \<lparr>fm_Mode = rq_Mode request, fm_MTime = he_now env, fm_Size = 0\<rparr>),
                   set_temp tempPath DirNode w)
         | stagedHandleTargetNone \<Rightarrow>
             (let w = set_temp tempPath (temp_file [] (he_now env)) w
              in case Stat (tree_at (stagingBasePath w) w) path of
                   Inr n \<Rightarrow> Some (Inr (tempPath, staged, fileInfoMetadata (he_dirinfo env) n), w)
                 | Inl e \<Rightarrow>
                     if errorsIsNotExist e
                     then Some (Inr (tempPath, staged, \<lparr>fm_Mode = rq_Mode request, fm_MTime = he_now env, fm_Size = 0\<rparr>), w)
                     else Some (Inl e, remove_temp tempPath w))
         | stagedHandleTargetFile \<Rightarrow>
             if op = FsOpOpen \<and> has_client w \<and> effectiveOpenIntent request = FsOpenIntentReadOnly then
               Some (case ownerFileMetadata (he_client env) path (pw_owner w) of
                       Inl e \<Rightarrow> Inl e
                     | Inr metadata \<Rightarrow> Inr ([], stagedHandleBackingOwnerReadThrough, metadata), w)
             else
               (case createStagedFileBacking env path createEmpty (\<not> createEmpty \<and> op = FsOpOpen) w of
                  None \<Rightarrow> None
                | Some (Inl e, w) \<Rightarrow> Some (Inl e, w)
                | Some (Inr (tempPath, metadata), w) \<Rightarrow> Some (Inr (tempPath, staged, metadata), w)))"

definition new_handle ::
  "FsOperation \<Rightarrow> FsRequest \<Rightarrow> MutationPrecondition list \<Rightarrow> string \<times> stagedHandleBackingKind \<times> FileMetadata \<Rightarrow>
   'o project_workspace \<Rightarrow> stagedHandle \<times> 'o project_workspace" where
  "new_handle op request preconditions backing w =
     (case backing of
        (tempPath, backingKind, metadata) \<Rightarrow>
          let n = wh_nextHandleID (handles_of w) + 1;
              handle = \<lparr>sh_handleID = handle_id n, sh_op = op, sh_path = rq_Path request, sh_newPath = rq_NewPath request,
                sh_tempPath = tempPath, sh_targetKind = target_kind op, sh_backingKind = backingKind,
                sh_openIntent = effectiveOpenIntent request, sh_metadata = metadata, sh_preconditions = preconditions,
                sh_state = stagedHandleClean, sh_resultID = [], sh_transactionID = []\<rparr>
          in (handle, on_handles (\<lambda>h. put_handle handle (h\<lparr>wh_nextHandleID := n\<rparr>)) w))"

definition ensureHandle ::
  "'o handle_env \<Rightarrow> FsOperation \<Rightarrow> FsRequest \<Rightarrow> MutationPrecondition list \<Rightarrow> bool \<Rightarrow> 'o project_workspace \<Rightarrow>
   (stagedHandle res \<times> 'o project_workspace) option" where
  "ensureHandle env op request preconditions createEmpty w =
     (if rq_HandleID request \<noteq> [] then known_handle env op request w
      else case handle_backing env op request createEmpty w of
             None \<Rightarrow> None
           | Some (Inl e, w) \<Rightarrow> Some (Inl e, w)
           | Some (Inr backing, w) \<Rightarrow>
               (case new_handle op request preconditions backing w of (handle, w) \<Rightarrow> Some (Inr handle, w)))"

end
