(* ===== verification/Handle_Commit.thy ===== *)
theory Handle_Commit
  imports Workspace_Handles
begin

text \<open>
  Staging a change in a handle, committing it and giving the handle back
  (\<open>internal/daemon/workspace_manager_staged_handle.go\<close>), and the entry point of all changes,
  \<open>FsMutationContext\<close> of \<open>workspace_manager.go\<close>.

  A staging call is taken as one step. A commit is three steps under the manager's lock with work
  outside of it: \<open>commit_look\<close>, \<open>commit_begin\<close> and \<open>commit_finish\<close>; \<open>commitHandle\<close> is a round of the loop
  without interference. Reads from the owner may go on for ever, hence the options.
\<close>

section \<open>Staging a change\<close>

definition failedHandleResult :: "stagedHandle \<Rightarrow> 'o project_workspace \<Rightarrow> (stagedHandleResult \<times> err option) option" where
  "failedHandleResult handle w =
     (if sh_state handle \<noteq> stagedHandleFailed then None
      else case openResultLocked handle (handles_of w) of
             None \<Rightarrow> Some (\<lparr>hr_reply = zero_FsReply, hr_err = None\<rparr>,
                       Some (NewError ErrFileCommitFailed ''failed handle result is unavailable''))
           | Some result \<Rightarrow> Some (result, hr_err result))"

definition prepareHandleForMutation :: "stagedHandle \<Rightarrow> 'o project_workspace \<Rightarrow> stagedHandle res \<times> 'o project_workspace" where
  "prepareHandleForMutation handle w =
     (if sh_state handle = stagedHandleCommitting then (Inl (NewError ErrConflict ''handle commit is in progress''), w)
      else if sh_state handle = stagedHandleCommitted then
        (case clearHandleResultLocked handle (handles_of w) of
           (handle, h) \<Rightarrow> (Inr handle, on_handles (\<lambda>_. put_handle handle h) w))
      else (Inr handle, w))"

text \<open>Writing \<open>data\<close> at an offset, where a gap is filled with zero bytes; cutting or extending to a size.\<close>

definition write_at :: "nat \<Rightarrow> string \<Rightarrow> string \<Rightarrow> string" where
  "write_at offset data old =
     (if data = [] then old
      else take offset old @ replicate (offset - length old) (CHR 0x00) @ data @ drop (offset + length data) old)"

definition cut_at :: "nat \<Rightarrow> string \<Rightarrow> string" where
  "cut_at n old = take n old @ replicate (n - length old) (CHR 0x00)"

text \<open>The bytes of a temporary file that is opened for writing, and made when it is missing.\<close>

definition open_temp :: "string \<Rightarrow> 'o project_workspace \<Rightarrow> string res" where
  "open_temp tempPath w =
     (if tempPath = [] then Inl ENOENT
      else case map_of (pw_temps w) tempPath of
             None \<Rightarrow> Inr []
           | Some (FileNode data _ _) \<Rightarrow> Inr data
           | Some DirNode \<Rightarrow> Inl EISDIR)"

definition stage_data ::
  "'o handle_env \<Rightarrow> FsOperation \<Rightarrow> FsRequest \<Rightarrow> stagedHandle \<Rightarrow> 'o project_workspace \<Rightarrow>
   stagedHandle res \<times> 'o project_workspace" where
  "stage_data env op request handle w =
     (let temp = sh_tempPath handle; now = he_now env; metadata = sh_metadata handle
      in if op = FsOpOpen then
           (if sh_targetKind handle \<noteq> stagedHandleTargetFile
            then Inl (NewError ErrConflict ''open requires a regular file path'') else Inr handle, w)
         else if op = FsOpCreate then
           (case open_temp temp w of
              Inl e \<Rightarrow> (Inl e, w)
            | Inr _ \<Rightarrow>
                (Inr (handle\<lparr>sh_metadata := \<lparr>fm_Mode = rq_Mode request, fm_MTime = now,
                        fm_Size = int (length (rq_Data request))\<rparr>\<rparr>),
                 set_temp temp (temp_file (rq_Data request) now) w))
         else if op = FsOpWrite then
           (case open_temp temp w of
              Inl e \<Rightarrow> (Inl e, w)
            | Inr old \<Rightarrow>
                if rq_Offset request < 0 then (Inl EINVAL, set_temp temp (temp_file old now) w)
                else
                  let data = write_at (nat (rq_Offset request)) (rq_Data request) old
                  in (Inr (handle\<lparr>sh_metadata := metadata\<lparr>fm_MTime := now, fm_Size := int (length data)\<rparr>\<rparr>),
                      set_temp temp (temp_file data now) w))
         else if op = FsOpTruncate then
           (if rq_Size request < 0 then (Inl EINVAL, w)
            else case map_of (pw_temps w) temp of
                   None \<Rightarrow> (Inl ENOENT, w)
                 | Some DirNode \<Rightarrow> (Inl EISDIR, w)
                 | Some (FileNode old _ _) \<Rightarrow>
                     (Inr (handle\<lparr>sh_metadata := metadata\<lparr>fm_MTime := now, fm_Size := rq_Size request\<rparr>\<rparr>),
                      set_temp temp (temp_file (cut_at (nat (rq_Size request)) old) now) w))
         else if op = FsOpChmod then
           (Inr (handle\<lparr>sh_metadata := metadata\<lparr>fm_Mode := rq_Mode request, fm_MTime := now\<rparr>\<rparr>), w)
         else if op = FsOpUtimens then (Inr (handle\<lparr>sh_metadata := metadata\<lparr>fm_MTime := now\<rparr>\<rparr>), w)
         else (Inl (NewError ErrInvalidArgument ''unsupported staged handle mutation''), w))"

text \<open>
  What both staging calls do before the change itself: a handle, the recorded outcome of one that
  has failed, and the result of a former commit forgotten.
\<close>

datatype 'a staging = StagingReply "FsReply \<times> err option" | StagingHandle 'a

definition stage_handle ::
  "'o handle_env \<Rightarrow> FsOperation \<Rightarrow> FsRequest \<Rightarrow> MutationPrecondition list \<Rightarrow> bool \<Rightarrow> 'o project_workspace \<Rightarrow>
   (stagedHandle staging \<times> 'o project_workspace) option" where
  "stage_handle env op request preconditions createEmpty w =
     (case ensureHandle env op request preconditions createEmpty w of
        None \<Rightarrow> None
      | Some (Inl e, w) \<Rightarrow> Some (StagingReply (zero_FsReply, Some e), w)
      | Some (Inr handle, w) \<Rightarrow>
          (case failedHandleResult handle w of
             Some (result, e) \<Rightarrow> Some (StagingReply (replyWithHandle result (sh_handleID handle), e), w)
           | None \<Rightarrow>
               (case prepareHandleForMutation handle w of
                  (Inl e, w) \<Rightarrow> Some (StagingReply (zero_FsReply\<lparr>rp_HandleID := sh_handleID handle\<rparr>, Some e), w)
                | (Inr handle, w) \<Rightarrow> Some (StagingHandle handle, w))))"

definition staged_reply :: "FsRequest \<Rightarrow> stagedHandle \<Rightarrow> 'o project_workspace \<Rightarrow> FsReply" where
  "staged_reply request handle w = (withGenerations (rq_Path request) zero_FsReply w)\<lparr>rp_HandleID := sh_handleID handle\<rparr>"

definition stageHandleMutation ::
  "'o handle_env \<Rightarrow> FsOperation \<Rightarrow> FsRequest \<Rightarrow> MutationPrecondition list \<Rightarrow> 'o project_workspace \<Rightarrow>
   ((FsReply \<times> err option) \<times> 'o project_workspace) option" where
  "stageHandleMutation env op request preconditions w =
     (case stage_handle env op request preconditions (op = FsOpCreate) w of
        None \<Rightarrow> None
      | Some (StagingReply r, w) \<Rightarrow> Some (r, w)
      | Some (StagingHandle handle, w) \<Rightarrow>
          (case stage_data env op request handle w of
             (Inl e, w) \<Rightarrow> Some ((zero_FsReply, Some e), w)
           | (Inr handle, w) \<Rightarrow>
               let handle = (if op = FsOpOpen then handle\<lparr>sh_state := stagedHandleClean\<rparr>
                             else handle\<lparr>sh_op := op, sh_state := stagedHandleDirty\<rparr>);
                   w = on_handles (put_handle handle) w
               in Some ((staged_reply request handle w, None), w)))"

definition stageDentryMutation ::
  "'o handle_env \<Rightarrow> FsOperation \<Rightarrow> FsRequest \<Rightarrow> MutationPrecondition list \<Rightarrow> 'o project_workspace \<Rightarrow>
   ((FsReply \<times> err option) \<times> 'o project_workspace) option" where
  "stageDentryMutation env op request preconditions w =
     (case stage_handle env op request preconditions False w of
        None \<Rightarrow> None
      | Some (StagingReply r, w) \<Rightarrow> Some (r, w)
      | Some (StagingHandle handle, w) \<Rightarrow>
          if op = FsOpRename \<and> TrimSpace (rq_NewPath request) = [] then
            Some ((zero_FsReply, Some (NewError ErrInvalidArgument ''rename requires a destination path'')), w)
          else
            let handle = handle\<lparr>sh_state := stagedHandleDirty\<rparr>; w = on_handles (put_handle handle) w
            in Some ((staged_reply request handle w, None), w))"

section \<open>Sending a file to the owner\<close>

fun send_pieces :: "'o owner_client \<Rightarrow> string \<Rightarrow> int \<Rightarrow> string list \<Rightarrow> 'o \<Rightarrow> err option \<times> 'o" where
  "send_pieces client uploadID offset [] owner = (None, owner)"
| "send_pieces client uploadID offset (piece # pieces) owner =
     (case oc_ApplyFileChunk client uploadID offset piece owner of
        (None, owner) \<Rightarrow> send_pieces client uploadID (offset + int (length piece)) pieces owner
      | (Some e, owner) \<Rightarrow> (Some e, owner))"

text \<open>A directory can be opened, and has a size, but cannot be read.\<close>

definition send_temp :: "'o owner_client \<Rightarrow> string \<Rightarrow> node \<Rightarrow> 'o \<Rightarrow> err option \<times> 'o" where
  "send_temp client uploadID n owner =
     (case n of
        DirNode \<Rightarrow> (Some EISDIR, owner)
      | FileNode data _ _ \<Rightarrow>
          (case send_pieces client uploadID 0 (chunks_of (nat ownerFileUploadChunkSize) data) owner of
             (Some e, owner) \<Rightarrow> (Some e, owner)
           | (None, owner) \<Rightarrow> oc_CommitFileUpload client uploadID owner))"

definition streamOwnerFileApply :: "'o handle_env \<Rightarrow> stagedHandle \<Rightarrow> 'o project_workspace \<Rightarrow> err option \<times> 'o project_workspace" where
  "streamOwnerFileApply env handle w =
     (case map_of (pw_temps w) (sh_tempPath handle) of
        None \<Rightarrow> (Some ENOENT, w)
      | Some n \<Rightarrow>
          let client = he_client env;
              bytes = (case n of FileNode data _ _ \<Rightarrow> int (length data) | DirNode \<Rightarrow> fm_Size (he_dirinfo env));
              metadata = (sh_metadata handle)\<lparr>fm_Size := bytes\<rparr>
          in (case oc_BeginFileUpload client (sh_op handle) (sh_path handle) metadata bytes (pw_owner w) of
                (Inl e, owner) \<Rightarrow> (Some e, w\<lparr>pw_owner := owner\<rparr>)
              | (Inr uploadID, owner) \<Rightarrow>
                  (case send_temp client uploadID n owner of
                     (None, owner) \<Rightarrow> (None, w\<lparr>pw_owner := owner\<rparr>)
                   | (Some e, owner) \<Rightarrow> (Some e, w\<lparr>pw_owner := oc_AbortFileUpload client uploadID (Error e) owner\<rparr>))))"

section \<open>Committing\<close>

definition failed_write :: "err \<Rightarrow> FsReply \<times> err option" where
  "failed_write e = (zero_FsReply, Some (wrapOwnerWriteError e))"

text \<open>The places of the file itself and of its published copy.\<close>

definition commit_place :: "'o project_workspace \<Rightarrow> tree_place" where
  "commit_place w = (if has_client w then AtWorkspace else authoritativePath w)"

definition restore_at :: "tree_place \<Rightarrow> string \<Rightarrow> fileSnapshot \<Rightarrow> 'o project_workspace \<Rightarrow> err option \<times> 'o project_workspace" where
  "restore_at pl p snapshot w = (case restoreFileSnapshot p snapshot (tree_at pl w) of (r, t) \<Rightarrow> (r, put_tree pl t w))"

text \<open>The error that is wrapped here comes from the file system and is no protocol error.\<close>

definition rollback_error :: "err \<Rightarrow> err \<Rightarrow> err" where
  "rollback_error commitErr rollbackErr = PlainErr (Error commitErr @ ''; rollback failed: '' @ Error rollbackErr)"

definition restoreCommittedView ::
  "string \<Rightarrow> (tree_place \<times> fileSnapshot) list \<Rightarrow> err \<Rightarrow> 'o project_workspace \<Rightarrow> (FsReply \<times> err option) \<times> 'o project_workspace" where
  "restoreCommittedView p snapshots commitErr w =
     (case fold_err (\<lambda>(pl, snapshot). restore_at pl p snapshot) snapshots w of
        (Some e, w) \<Rightarrow> (failed_write (rollback_error commitErr e), w)
      | (None, w) \<Rightarrow> (failed_write commitErr, w))"

definition capture_all :: "string \<Rightarrow> tree_place list \<Rightarrow> 'o project_workspace \<Rightarrow> (tree_place \<times> fileSnapshot) list res" where
  "capture_all p pls w =
     fold (\<lambda>pl r. case r of
              Inl e \<Rightarrow> Inl e
            | Inr snapshots \<Rightarrow>
                (case captureFileSnapshot (tree_at pl w) p of
                   Inl e \<Rightarrow> Inl e
                 | Inr snapshot \<Rightarrow> Inr (snapshots @ [(pl, snapshot)]))) pls (Inr [])"

definition temp_source :: "stagedHandle \<Rightarrow> 'o project_workspace \<Rightarrow> node res" where
  "temp_source handle w = (case map_of (pw_temps w) (sh_tempPath handle) of None \<Rightarrow> Inl ENOENT | Some n \<Rightarrow> Inr n)"

text \<open>The file goes to \<open>target\<close> and from there to the mirror.\<close>

definition replace_and_mirror ::
  "'o handle_env \<Rightarrow> stagedHandle \<Rightarrow> tree_place \<Rightarrow> tree_place \<Rightarrow> 'o project_workspace \<Rightarrow> err option \<times> 'o project_workspace" where
  "replace_and_mirror env handle target mirrorTarget w =
     (let p = sh_path handle; metadata = sh_metadata handle
      in case replaceFileFromStaged (he_created env) (temp_source handle w) p metadata (tree_at target w) of
           (Some e, t) \<Rightarrow> (Some e, put_tree target t w)
         | (None, t) \<Rightarrow>
             let w = put_tree target t w
             in if target = mirrorTarget then (None, w)
                else case mirrorFile (Stat (tree_at target w) p) p (fm_Mode metadata) (fm_MTime metadata)
                            (tree_at mirrorTarget w) of
                       (r, t) \<Rightarrow> (r, put_tree mirrorTarget t w))"

text \<open>What follows a successful change: the generations, the paths looked at again, the reply.\<close>

definition seed_after :: "'o handle_env \<Rightarrow> string list \<Rightarrow> 'o project_workspace \<Rightarrow> 'o project_workspace" where
  "seed_after env paths w = on_state (\<lambda>s. snd (seedConservativePaths (he_observed env paths) s)) w"

definition commit_bumped ::
  "'o handle_env \<Rightarrow> (workspaceCommittedState \<Rightarrow> FsReply \<times> workspaceCommittedState) \<Rightarrow> string list \<Rightarrow> string list \<Rightarrow>
   InvalidateChange list \<Rightarrow> 'o project_workspace \<Rightarrow> (FsReply \<times> err option) \<times> 'o project_workspace" where
  "commit_bumped env raise_gens cleared seeded changes w =
     (case raise_gens (committed_of w) of
        (reply, c) \<Rightarrow>
          ((reply\<lparr>rp_Invalidations := changes\<rparr>, None),
           seed_after env seeded (on_state (\<lambda>s. clear_paths cleared (s\<lparr>ws_committed := c\<rparr>)) w)))"

definition commitStagedFile ::
  "'o handle_env \<Rightarrow> stagedHandle \<Rightarrow> 'o project_workspace \<Rightarrow> (FsReply \<times> err option) \<times> 'o project_workspace" where
  "commitStagedFile env handle w =
     (let p = sh_path handle; target = commit_place w
      in case (if has_client w then streamOwnerFileApply env handle w else (None, w)) of
           (Some e, w) \<Rightarrow> (failed_write e, w)
         | (None, w) \<Rightarrow>
             (case he_mirror env of
                Inl e \<Rightarrow> (failed_write e, w)
              | Inr mirrorRequired \<Rightarrow>
                  let mirrorTarget = (if mirrorRequired then AtMount else AtWorkspace)
                  in case capture_all p (if target = mirrorTarget then [target] else [target, mirrorTarget]) w of
                       Inl e \<Rightarrow> (failed_write e, w)
                     | Inr snapshots \<Rightarrow>
                         (case replace_and_mirror env handle target mirrorTarget w of
                            (Some e, w) \<Rightarrow> restoreCommittedView p snapshots e w
                          | (None, w) \<Rightarrow>
                              commit_bumped env (bumpPathGenerationsLocked p) [] (conservativePathsForAccess p)
                                (DataPath p) w)))"

text \<open>The copy in the mount is made only when the mount is a mirror and is not the target itself.\<close>

definition mirror_of :: "bool \<Rightarrow> tree_place \<Rightarrow> tree_place" where
  "mirror_of mirrorRequired target = (if mirrorRequired then AtMount else target)"

definition mkdir_at :: "string \<Rightarrow> tree_place \<Rightarrow> tree_place \<Rightarrow> 'o project_workspace \<Rightarrow> err option \<times> 'o project_workspace" where
  "mkdir_at p target mirrorTarget w =
     (case os_Mkdir p (tree_at target w) of
        Inl e \<Rightarrow> (Some e, w)
      | Inr t \<Rightarrow>
          let w = put_tree target t w
          in if target = mirrorTarget then (None, w)
             else case MkdirAll (workspace_parentPath p) (tree_at mirrorTarget w) of
                    Inl e \<Rightarrow> (Some e, w)
                  | Inr t \<Rightarrow>
                      let w = put_tree mirrorTarget t w
                      in (case os_Mkdir p (tree_at mirrorTarget w) of
                            Inl e \<Rightarrow> (Some e, w)
                          | Inr t \<Rightarrow> (None, put_tree mirrorTarget t w)))"

definition apply_owner ::
  "'o handle_env \<Rightarrow> stagedHandle \<Rightarrow> string \<Rightarrow> FileMetadata \<Rightarrow> 'o project_workspace \<Rightarrow> err option \<times> 'o project_workspace" where
  "apply_owner env handle newPath metadata w =
     (if has_client w then
        (case oc_Apply (he_client env) (sh_op handle) (sh_path handle) newPath metadata (pw_owner w) of
           (r, owner) \<Rightarrow> (r, w\<lparr>pw_owner := owner\<rparr>))
      else (None, w))"

definition commitStagedMkdir ::
  "'o handle_env \<Rightarrow> stagedHandle \<Rightarrow> 'o project_workspace \<Rightarrow> (FsReply \<times> err option) \<times> 'o project_workspace" where
  "commitStagedMkdir env handle w =
     (let p = sh_path handle; target = commit_place w
      in case apply_owner env handle [] (sh_metadata handle) w of
           (Some e, w) \<Rightarrow> (failed_write e, w)
         | (None, w) \<Rightarrow>
             (case he_mirror env of
                Inl e \<Rightarrow> (failed_write e, w)
              | Inr mirrorRequired \<Rightarrow>
                  (case mkdir_at p target (mirror_of mirrorRequired target) w of
                     (Some e, w) \<Rightarrow> (failed_write e, w)
                   | (None, w) \<Rightarrow>
                       commit_bumped env (bumpPathGenerationsLocked p) [] (conservativePathsForAccess p) (MkdirPath p) w)))"

definition remove_at :: "string \<Rightarrow> FsOperation \<Rightarrow> tree_place \<Rightarrow> tree_place \<Rightarrow> 'o project_workspace \<Rightarrow> err option \<times> 'o project_workspace" where
  "remove_at p op target mirrorTarget w =
     (case removePathForOperation p op (tree_at target w) of
        Inl e \<Rightarrow> (Some e, w)
      | Inr t \<Rightarrow>
          let w = put_tree target t w
          in if target = mirrorTarget then (None, w)
             else case removePathForOperation p op (tree_at mirrorTarget w) of
                    Inl e \<Rightarrow> (if errorsIsNotExist e then None else Some e, w)
                  | Inr t \<Rightarrow> (None, put_tree mirrorTarget t w))"

definition commitStagedDelete ::
  "'o handle_env \<Rightarrow> stagedHandle \<Rightarrow> 'o project_workspace \<Rightarrow> (FsReply \<times> err option) \<times> 'o project_workspace" where
  "commitStagedDelete env handle w =
     (let p = sh_path handle; target = commit_place w
      in case apply_owner env handle [] zero_FileMetadata w of
           (Some e, w) \<Rightarrow> (failed_write e, w)
         | (None, w) \<Rightarrow>
             (case he_mirror env of
                Inl e \<Rightarrow> (failed_write e, w)
              | Inr mirrorRequired \<Rightarrow>
                  (case remove_at p (sh_op handle) target (mirror_of mirrorRequired target) w of
                     (Some e, w) \<Rightarrow> (failed_write e, w)
                   | (None, w) \<Rightarrow>
                       commit_bumped env (bumpDeleteGenerationsLocked p) [p, workspace_parentPath p]
                         [workspace_parentPath p] (DeletePath p) w)))"

text \<open>
  The mirror is brought up to date from the old path of the authoritative tree: this is the first
  argument the code passes to \<open>syncRenamedMirrorPath\<close>.
\<close>

definition rename_at :: "string \<Rightarrow> string \<Rightarrow> tree_place \<Rightarrow> tree_place \<Rightarrow> 'o project_workspace \<Rightarrow> err option \<times> 'o project_workspace" where
  "rename_at source target pl mirror w =
     (case renamePathWithOverwrite source target (tree_at pl w) of
        (Some e, t) \<Rightarrow> (Some e, put_tree pl t w)
      | (None, t) \<Rightarrow>
          let w = put_tree pl t w
          in if pl = mirror then (None, w)
             else case syncRenamedMirrorPath (tree_at pl w) source source target (tree_at mirror w) of
                    (r, t) \<Rightarrow> (r, put_tree mirror t w))"

definition commitStagedRename ::
  "'o handle_env \<Rightarrow> stagedHandle \<Rightarrow> 'o project_workspace \<Rightarrow> (FsReply \<times> err option) \<times> 'o project_workspace" where
  "commitStagedRename env handle w =
     (let p = sh_path handle; q = sh_newPath handle; pl = commit_place w
      in if p = q then ((withGenerations p zero_FsReply w, None), w)
         else case apply_owner env handle q zero_FileMetadata w of
           (Some e, w) \<Rightarrow> (failed_write e, w)
         | (None, w) \<Rightarrow>
             (case he_mirror env of
                Inl e \<Rightarrow> (failed_write e, w)
              | Inr mirrorRequired \<Rightarrow>
                  (case rename_at p q pl (mirror_of mirrorRequired pl) w of
                     (Some e, w) \<Rightarrow> (failed_write e, w)
                   | (None, w) \<Rightarrow>
                       (let paths = [p, q, workspace_parentPath p, workspace_parentPath q]
                        in commit_bumped env (bumpRenameGenerationsLocked p q) paths paths (RenamePaths p q) w))))"

definition commitStagedHandle ::
  "'o handle_env \<Rightarrow> stagedHandle \<Rightarrow> 'o project_workspace \<Rightarrow> (FsReply \<times> err option) \<times> 'o project_workspace" where
  "commitStagedHandle env handle w =
     (let op = sh_op handle
      in if op \<in> {FsOpCreate, FsOpWrite, FsOpTruncate, FsOpChmod, FsOpUtimens} then commitStagedFile env handle w
         else if op = FsOpMkdir then commitStagedMkdir env handle w
         else if op \<in> {FsOpRemove, FsOpRmdir} then commitStagedDelete env handle w
         else if op = FsOpRename then commitStagedRename env handle w
         else ((zero_FsReply, Some (NewError ErrInvalidArgument ''unsupported staged handle operation'')), w))"

section \<open>Flushing a handle\<close>

text \<open>
  The three steps of a commit. \<open>CommitReply\<close> ends the call, \<open>CommitWait\<close> waits for a transaction and
  starts again (without a transaction it fails), \<open>CommitAgain\<close> starts again at once, \<open>CommitGo\<close> goes on.
\<close>

datatype 'a commit_step = CommitReply "FsReply \<times> err option" | CommitWait "string option" | CommitAgain | CommitGo 'a

definition closed_reply :: "string \<Rightarrow> err \<Rightarrow> 'o project_workspace \<Rightarrow> FsReply \<times> err option" where
  "closed_reply handleID e w =
     (case closedResultLocked handleID (handles_of w) of
        Some result \<Rightarrow> (replyWithHandle result handleID, hr_err result)
      | None \<Rightarrow> (zero_FsReply, Some e))"

definition set_result ::
  "stagedHandle \<Rightarrow> stagedHandleState \<Rightarrow> FsReply \<Rightarrow> err option \<Rightarrow> 'o project_workspace \<Rightarrow>
   (FsReply \<times> err option) \<times> 'o project_workspace" where
  "set_result handle state reply e w =
     (case setHandleResultLocked handle state reply e (handles_of w) of
        (result, handle, h) \<Rightarrow>
          ((replyWithHandle result (sh_handleID handle), hr_err result), on_handles (\<lambda>_. put_handle handle h) w))"

definition commit_look :: "string \<Rightarrow> 'o project_workspace \<Rightarrow> string list commit_step \<times> 'o project_workspace" where
  "commit_look handleID w =
     (case handleLocked handleID w of
        Inl e \<Rightarrow> (CommitReply (closed_reply handleID e w), w)
      | Inr handle \<Rightarrow>
          (case sh_state handle of
             stagedHandleClean \<Rightarrow>
               (case set_result handle stagedHandleCommitted (committedReplyLocked (sh_path handle) (committed_of w)) None w of
                  (r, w) \<Rightarrow> (CommitReply r, w))
           | stagedHandleDirty \<Rightarrow>
               (CommitGo (conservativePathsForMutation (sh_path handle) (sh_newPath handle) (sh_preconditions handle)), w)
           | stagedHandleCommitting \<Rightarrow> (CommitWait (transactionLocked handle (handles_of w)), w)
           | _ \<Rightarrow>
               (CommitReply
                  (case openResultLocked handle (handles_of w) of
                     Some result \<Rightarrow> (replyWithHandle result (sh_handleID handle), hr_err result)
                   | None \<Rightarrow> (zero_FsReply, Some (NewError ErrFileCommitFailed ''handle result is unavailable''))), w)))"

definition failed_precondition :: "MutationPrecondition list \<Rightarrow> workspaceCommittedState \<Rightarrow> err option" where
  "failed_precondition preconditions c =
     fold (\<lambda>condition r. case r of Some e \<Rightarrow> Some e | None \<Rightarrow> checkPreconditionsLocked (pc_Path condition) condition c)
       preconditions None"

definition commit_begin :: "string \<Rightarrow> 'o project_workspace \<Rightarrow> (string \<times> stagedHandle) commit_step \<times> 'o project_workspace" where
  "commit_begin handleID w =
     (case handleLocked handleID w of
        Inl e \<Rightarrow> (CommitReply (closed_reply handleID e w), w)
      | Inr handle \<Rightarrow>
          (case sh_state handle of
             stagedHandleCommitting \<Rightarrow> (CommitWait (transactionLocked handle (handles_of w)), w)
           | stagedHandleDirty \<Rightarrow>
               (case failed_precondition (sh_preconditions handle) (committed_of w) of
                  Some e \<Rightarrow>
                    (case set_result handle stagedHandleFailed (zero_FsReply\<lparr>rp_Conflict := True\<rparr>) (Some e) w of
                       (r, w) \<Rightarrow> (CommitReply r, w))
                | None \<Rightarrow>
                    (case beginTransactionLocked handle (handles_of w) of
                       (txn, handle, h) \<Rightarrow>
                         let handle = handle\<lparr>sh_state := stagedHandleCommitting\<rparr>
                         in (CommitGo (txn, handle), on_handles (\<lambda>_. put_handle handle h) w)))
           | _ \<Rightarrow> (CommitAgain, w)))"

definition commit_finish ::
  "string \<Rightarrow> string \<Rightarrow> FsReply \<times> err option \<Rightarrow> 'o project_workspace \<Rightarrow> unit commit_step \<times> 'o project_workspace" where
  "commit_finish handleID txn outcome w =
     (case outcome of
        (reply, commitErr) \<Rightarrow>
          (case handleLocked handleID w of
             Inl _ \<Rightarrow>
               (CommitReply (case commitErr of
                               Some e \<Rightarrow> (zero_FsReply\<lparr>rp_HandleID := handleID\<rparr>, Some e)
                             | None \<Rightarrow> (reply\<lparr>rp_HandleID := handleID\<rparr>, None)),
                on_handles (\<lambda>h. h\<lparr>wh_transactions := AList.delete txn (wh_transactions h)\<rparr>) w)
           | Inr handle \<Rightarrow>
               if sh_transactionID handle \<noteq> txn then (CommitAgain, w)
               else
                 let state = (if commitErr = None then stagedHandleCommitted else stagedHandleFailed)
                 in (case finishTransactionLocked handle state reply commitErr (handles_of w) of
                       (result, handle, h) \<Rightarrow>
                         (CommitReply (replyWithHandle result (sh_handleID handle), commitErr),
                          on_handles (\<lambda>_. put_handle handle h) w))))"

text \<open>
  A call of \<open>commitHandle\<close> that is alone: \<open>None\<close> is a call that has to wait for another one. The waiting
  context of the caller does not end.
\<close>

definition lost_transaction :: "string \<Rightarrow> FsReply \<times> err option" where
  "lost_transaction handleID =
     (zero_FsReply\<lparr>rp_HandleID := handleID\<rparr>, Some (NewError ErrFileCommitFailed ''handle commit transaction is unavailable''))"

definition ended :: "string \<Rightarrow> 'a commit_step \<Rightarrow> (FsReply \<times> err option) option" where
  "ended handleID step =
     (case step of CommitReply r \<Rightarrow> Some r | CommitWait None \<Rightarrow> Some (lost_transaction handleID) | _ \<Rightarrow> None)"

definition answer :: "string \<Rightarrow> 'a commit_step \<times> 'o project_workspace \<Rightarrow> ((FsReply \<times> err option) \<times> 'o project_workspace) option" where
  "answer handleID r = (case ended handleID (fst r) of None \<Rightarrow> None | Some reply \<Rightarrow> Some (reply, snd r))"

definition commitHandle ::
  "'o handle_env \<Rightarrow> FsRequest \<Rightarrow> 'o project_workspace \<Rightarrow> ((FsReply \<times> err option) \<times> 'o project_workspace) option" where
  "commitHandle env request w =
     (let handleID = rq_HandleID request
      in if handleID = [] then
           Some ((zero_FsReply, Some (NewError ErrInvalidArgument ''flush/fsync requires a handle id'')), w)
         else case commit_look handleID w of
                (CommitGo paths, w) \<Rightarrow>
                  (case revalidateConservativePaths (he_observed env paths) (pw_state w) of
                     (Some e, _) \<Rightarrow> Some ((zero_FsReply\<lparr>rp_HandleID := handleID\<rparr>, Some e), w)
                   | (None, s) \<Rightarrow>
                       (case commit_begin handleID (w\<lparr>pw_state := s\<rparr>) of
                          (CommitGo (txn, handle), w) \<Rightarrow>
                            (case commitStagedHandle env handle w of
                               (outcome, w) \<Rightarrow> answer handleID (commit_finish handleID txn outcome w))
                        | r \<Rightarrow> answer handleID r))
              | r \<Rightarrow> answer handleID r)"

text \<open>A flush whose three steps are taken apart: the two steps before and after the work outside the lock.\<close>

definition commit_work ::
  "'o handle_env \<Rightarrow> string \<Rightarrow> string \<times> stagedHandle \<Rightarrow> 'o project_workspace \<Rightarrow>
   unit commit_step \<times> 'o project_workspace" where
  "commit_work env handleID begun w =
     (case begun of
        (txn, handle) \<Rightarrow> (case commitStagedHandle env handle w of (outcome, w) \<Rightarrow> commit_finish handleID txn outcome w))"

section \<open>Giving a handle back\<close>

definition release_state :: "string \<Rightarrow> stagedHandle \<Rightarrow> workspaceHandleState \<Rightarrow> string \<times> workspaceHandleState" where
  "release_state handleID handle h =
     (let h = h\<lparr>wh_open := AList.delete handleID (wh_open h)\<rparr>;
          (resultID, h) = (if sh_resultID handle = [] then recordResultLocked zero_FsReply None h else (sh_resultID handle, h))
      in (resultID, h\<lparr>wh_closed := AList.update handleID \<lparr>ch_resultID = resultID\<rparr> (wh_closed h)\<rparr>))"

definition releaseHandle :: "FsRequest \<Rightarrow> 'o project_workspace \<Rightarrow> ((FsReply \<times> err option) \<times> 'o project_workspace) option" where
  "releaseHandle request w =
     (let handleID = rq_HandleID request
      in if handleID = [] then Some ((zero_FsReply, None), w)
         else case handleLocked handleID w of
                Inl e \<Rightarrow> Some (closed_reply handleID e w, w)
              | Inr handle \<Rightarrow>
                  if sh_state handle = stagedHandleCommitting then
                    answer handleID (CommitWait (transactionLocked handle (handles_of w)) :: unit commit_step, w)
                  else
                    let (resultID, h) = release_state handleID handle (handles_of w);
                        result = (case map_of (wh_results h) resultID of
                                    Some result \<Rightarrow> result | None \<Rightarrow> \<lparr>hr_reply = zero_FsReply, hr_err = None\<rparr>)
                    in Some ((replyWithHandle result handleID, hr_err result),
                             remove_temp (sh_tempPath handle) (on_handles (\<lambda>_. h) w)))"

section \<open>The entry point\<close>

definition dispatch ::
  "'o handle_env \<Rightarrow> FsOperation \<Rightarrow> FsRequest \<Rightarrow> MutationPrecondition list \<Rightarrow> 'o project_workspace \<Rightarrow>
   ((FsReply \<times> err option) \<times> 'o project_workspace) option" where
  "dispatch env op request preconditions w =
     (if op \<in> {FsOpOpen, FsOpCreate, FsOpWrite, FsOpTruncate, FsOpChmod, FsOpUtimens} then
        stageHandleMutation env op request preconditions w
      else if op \<in> {FsOpMkdir, FsOpRemove, FsOpRmdir, FsOpRename} then stageDentryMutation env op request preconditions w
      else if op \<in> {FsOpFSync, FsOpFlush} then commitHandle env request w
      else if op = FsOpRelease then releaseHandle request w
      else Some ((zero_FsReply, Some (NewError ErrInvalidArgument ''unsupported FsMutation operation'')), w))"

text \<open>\<open>None\<close> is also a call that waits for an authority that is being bound again.\<close>

definition Manager_FsMutationContext ::
  "'o handle_env \<Rightarrow> FsOperation \<Rightarrow> FsRequest \<Rightarrow> MutationPrecondition list \<Rightarrow> 'o project_workspace \<Rightarrow>
   ((FsReply \<times> err option) \<times> 'o project_workspace) option" where
  "Manager_FsMutationContext env op request preconditions w =
     (case (case validateWorkspacePath (rq_Path request) of
              Some e \<Rightarrow> Some e
            | None \<Rightarrow> if rq_NewPath request = [] then None else validateWorkspacePath (rq_NewPath request)) of
        Some e \<Rightarrow> Some ((zero_FsReply, Some e), w)
      | None \<Rightarrow>
          (case (if requiresStableMutationAuthority op request then waitForMutationAuthority w else Some (Inr ())) of
             None \<Rightarrow> None
           | Some (Inl e) \<Rightarrow> Some ((zero_FsReply, Some e), w)
           | Some (Inr _) \<Rightarrow>
               (case revalidateConservativePaths
                       (he_observed env (conservativePathsForMutation (rq_Path request) (rq_NewPath request) preconditions))
                       (pw_state w) of
                  (Some e, _) \<Rightarrow> Some ((zero_FsReply, Some e), w)
                | (None, s) \<Rightarrow>
                    let w = w\<lparr>pw_state := s\<rparr>
                    in (case failed_precondition preconditions (committed_of w) of
                          Some e \<Rightarrow> Some ((zero_FsReply\<lparr>rp_Conflict := True\<rparr>, Some e), w)
                        | None \<Rightarrow> dispatch env op request preconditions w))))"

end
