(* ===== verification/Handle_Steps.thy ===== *)
theory Handle_Steps
  imports Handle_Commit
begin

text \<open>
  The handles of a project as a state machine. A state is a project's workspace with the commits that
  have begun and not finished; calls of several clients interleave at the points where the code gives
  up the manager's lock. The invariant ties the handles to the transactions and the recorded results,
  as long as the counters behind the identifiers have not gone round.
\<close>

section \<open>Identifiers\<close>

definition issued :: "(u64 \<Rightarrow> string) \<Rightarrow> u64 \<Rightarrow> string \<Rightarrow> bool" where
  "issued f n s \<longleftrightarrow> (\<exists>m. m \<le> n \<and> s = f m)"

lemma next_greater: "(n :: u64) + 1 \<noteq> 0 \<Longrightarrow> n < n + 1"
  by (simp add: word_less_nat_alt unat_plus_one)

lemma issued_next: "n + 1 \<noteq> 0 \<Longrightarrow> issued f n s \<Longrightarrow> issued f (n + 1) s"
  unfolding issued_def using order.trans [OF _ less_imp_le [OF next_greater], of _ n] by blast

lemma issued_new [simp]: "issued f n (f n)"
  by (auto simp: issued_def)

lemma issued_fresh: "inj f \<Longrightarrow> n + 1 \<noteq> 0 \<Longrightarrow> \<not> issued f n (f (n + 1))"
  unfolding issued_def by (metis injD next_greater not_le)

lemma ids_inj: "inj handle_id" "inj result_id" "inj txn_id"
  by (auto simp: inj_def handle_id_def result_id_def txn_id_def)

lemma ids_not_Nil [simp]: "handle_id n \<noteq> []" "result_id n \<noteq> []" "txn_id n \<noteq> []"
  by (simp_all add: handle_id_def result_id_def txn_id_def)

lemma issued_Nil [simp]: "\<not> issued handle_id n []" "\<not> issued result_id n []" "\<not> issued txn_id n []"
  by (simp_all add: issued_def handle_id_def result_id_def txn_id_def)

section \<open>The invariant\<close>

type_synonym running = "(string \<times> stagedHandle) list"

definition result_known :: "workspaceHandleState \<Rightarrow> string \<Rightarrow> bool" where
  "result_known h r \<longleftrightarrow> map_of (wh_results h) r \<noteq> None \<and> issued result_id (wh_nextResultID h) r"

definition handle_ok :: "workspaceHandleState \<Rightarrow> running \<Rightarrow> string \<Rightarrow> stagedHandle \<Rightarrow> bool" where
  "handle_ok h run i x \<longleftrightarrow> sh_handleID x = i \<and> issued handle_id (wh_nextHandleID h) i \<and> map_of (wh_closed h) i = None \<and>
     (sh_state x = stagedHandleFailed \<longrightarrow> sh_resultID x \<noteq> []) \<and>
     (sh_resultID x \<noteq> [] \<longrightarrow> result_known h (sh_resultID x)) \<and>
     (sh_state x = stagedHandleCommitting \<longrightarrow> (sh_transactionID x, x) \<in> set run)"

definition open_ok :: "workspaceHandleState \<Rightarrow> running \<Rightarrow> bool" where
  "open_ok h run \<longleftrightarrow> (\<forall>i x. map_of (wh_open h) i = Some x \<longrightarrow> handle_ok h run i x)"

definition closed_ok :: "workspaceHandleState \<Rightarrow> bool" where
  "closed_ok h \<longleftrightarrow> (\<forall>i x. map_of (wh_closed h) i = Some x \<longrightarrow>
     issued handle_id (wh_nextHandleID h) i \<and> ch_resultID x \<noteq> [] \<and> result_known h (ch_resultID x))"

definition results_apart :: "workspaceHandleState \<Rightarrow> bool" where
  "results_apart h \<longleftrightarrow>
     (\<forall>i j x y. map_of (wh_open h) i = Some x \<longrightarrow> map_of (wh_open h) j = Some y \<longrightarrow> i \<noteq> j \<longrightarrow> sh_resultID x \<noteq> [] \<longrightarrow>
        sh_resultID x \<noteq> sh_resultID y) \<and>
     (\<forall>i j x y. map_of (wh_open h) i = Some x \<longrightarrow> map_of (wh_closed h) j = Some y \<longrightarrow> sh_resultID x \<noteq> ch_resultID y)"

definition running_ok :: "workspaceHandleState \<Rightarrow> running \<Rightarrow> bool" where
  "running_ok h run \<longleftrightarrow> distinct (map fst run) \<and>
     (\<forall>(txn, x) \<in> set run. map_of (wh_open h) (sh_handleID x) = Some x \<and> sh_state x = stagedHandleCommitting \<and>
        sh_transactionID x = txn \<and> map_of (wh_transactions h) txn = Some () \<and> issued txn_id (wh_nextTxnID h) txn)"

definition handles_ok :: "workspaceHandleState \<Rightarrow> running \<Rightarrow> bool" where
  "handles_ok h run \<longleftrightarrow> open_ok h run \<and> closed_ok h \<and> results_apart h \<and> running_ok h run"

text \<open>The outcomes of the handles that were given back stay.\<close>

definition closed_kept :: "workspaceHandleState \<Rightarrow> workspaceHandleState \<Rightarrow> bool" where
  "closed_kept h h' \<longleftrightarrow> (\<forall>i z. map_of (wh_closed h) i = Some z \<longrightarrow> map_of (wh_closed h') i = Some z \<and>
     map_of (wh_results h') (ch_resultID z) = map_of (wh_results h) (ch_resultID z))"

definition good_move :: "workspaceHandleState \<Rightarrow> workspaceHandleState \<Rightarrow> running \<Rightarrow> bool" where
  "good_move h h' run' \<longleftrightarrow> handles_ok h' run' \<and> closed_kept h h'"

lemma closed_kept_refl [simp]: "closed_kept h h"
  by (simp add: closed_kept_def)

lemma closed_kept_trans: "closed_kept h h1 \<Longrightarrow> closed_kept h1 h2 \<Longrightarrow> closed_kept h h2"
  unfolding closed_kept_def by metis

lemma good_move_refl [simp]: "good_move h h run \<longleftrightarrow> handles_ok h run"
  by (simp add: good_move_def)

lemma good_moveD: "good_move h h' run \<Longrightarrow> handles_ok h' run"
  by (simp add: good_move_def)

lemma good_move_trans: "good_move h h1 run1 \<Longrightarrow> good_move h1 h2 run2 \<Longrightarrow> good_move h h2 run2"
  unfolding good_move_def using closed_kept_trans by blast

definition counters_left :: "workspaceHandleState \<Rightarrow> bool" where
  "counters_left h \<longleftrightarrow> wh_nextHandleID h + 1 \<noteq> 0 \<and> wh_nextResultID h + 1 \<noteq> 0 \<and> wh_nextTxnID h + 1 \<noteq> 0"

lemmas handles_ok_defs = handles_ok_def open_ok_def handle_ok_def closed_ok_def results_apart_def running_ok_def result_known_def

lemma handles_ok_new: "handles_ok (ws_handles new_workspaceState) []"
  by (simp add: handles_ok_defs new_workspaceState_def)

lemma openD: "handles_ok h run \<Longrightarrow> map_of (wh_open h) i = Some x \<Longrightarrow> handle_ok h run i x"
  by (simp add: handles_ok_def open_ok_def)

lemma closedD:
  assumes "handles_ok h run" "map_of (wh_closed h) i = Some x"
  shows "issued handle_id (wh_nextHandleID h) i" "ch_resultID x \<noteq> []" "result_known h (ch_resultID x)"
  using assms by (auto simp: handles_ok_def closed_ok_def)

lemma apartD:
  assumes "handles_ok h run" "map_of (wh_open h) i = Some x"
  shows "map_of (wh_open h) j = Some y \<Longrightarrow> i \<noteq> j \<Longrightarrow> sh_resultID x \<noteq> [] \<Longrightarrow> sh_resultID x \<noteq> sh_resultID y"
    "map_of (wh_closed h) j = Some z \<Longrightarrow> sh_resultID x \<noteq> ch_resultID z"
  using assms unfolding handles_ok_def results_apart_def by blast+

lemma runningD:
  assumes "handles_ok h run" "(txn, x) \<in> set run"
  shows "map_of (wh_open h) (sh_handleID x) = Some x" "sh_state x = stagedHandleCommitting" "sh_transactionID x = txn"
    "map_of (wh_transactions h) txn = Some ()" "issued txn_id (wh_nextTxnID h) txn"
  using assms unfolding handles_ok_def running_ok_def by (blast | auto)+

lemma running_distinct: "handles_ok h run \<Longrightarrow> distinct (map fst run)"
  by (simp add: handles_ok_def running_ok_def)

lemma handles_okI:
  assumes "\<And>i x. map_of (wh_open h) i = Some x \<Longrightarrow> handle_ok h run i x"
    and "\<And>i x. map_of (wh_closed h) i = Some x \<Longrightarrow>
      issued handle_id (wh_nextHandleID h) i \<and> ch_resultID x \<noteq> [] \<and> result_known h (ch_resultID x)"
    and "\<And>i j x y. map_of (wh_open h) i = Some x \<Longrightarrow> map_of (wh_open h) j = Some y \<Longrightarrow> i \<noteq> j \<Longrightarrow> sh_resultID x \<noteq> [] \<Longrightarrow>
      sh_resultID x \<noteq> sh_resultID y"
    and "\<And>i j x y. map_of (wh_open h) i = Some x \<Longrightarrow> map_of (wh_closed h) j = Some y \<Longrightarrow> sh_resultID x \<noteq> ch_resultID y"
    and "distinct (map fst run)"
    and "\<And>txn x. (txn, x) \<in> set run \<Longrightarrow> map_of (wh_open h) (sh_handleID x) = Some x \<and> sh_state x = stagedHandleCommitting \<and>
        sh_transactionID x = txn \<and> map_of (wh_transactions h) txn = Some () \<and> issued txn_id (wh_nextTxnID h) txn"
  shows "handles_ok h run"
proof -
  have "open_ok h run" "closed_ok h" using assms(1,2) by (simp_all add: open_ok_def closed_ok_def)
  moreover have "results_apart h" using assms(3,4) unfolding results_apart_def by blast
  moreover have "running_ok h run" using assms(5) by (auto simp: running_ok_def dest: assms(6))
  ultimately show ?thesis by (simp add: handles_ok_def)
qed

lemma running_other:
  assumes "handles_ok h run" "map_of (wh_open h) i = Some x" "sh_state x \<noteq> stagedHandleCommitting" "(txn, y) \<in> set run"
  shows "sh_handleID y \<noteq> i"
  using runningD(1,2) [OF assms(1,4)] assms(2,3) by auto

lemma put_open [simp]: "wh_open (put_handle x h) = AList.update (sh_handleID x) x (wh_open h)"
  "wh_closed (put_handle x h) = wh_closed h" "wh_results (put_handle x h) = wh_results h"
  "wh_transactions (put_handle x h) = wh_transactions h" "wh_nextHandleID (put_handle x h) = wh_nextHandleID h"
  "wh_nextResultID (put_handle x h) = wh_nextResultID h" "wh_nextTxnID (put_handle x h) = wh_nextTxnID h"
  by (simp_all add: put_handle_def)

text \<open>
  What an operation may do to the handle of one identifier: the others keep what they have, and the
  result it refers to is its own or a new one.
\<close>

definition own_result :: "workspaceHandleState \<Rightarrow> string \<Rightarrow> string" where
  "own_result h i = (case map_of (wh_open h) i of None \<Rightarrow> [] | Some x \<Rightarrow> sh_resultID x)"

definition own_or_new :: "workspaceHandleState \<Rightarrow> string \<Rightarrow> string \<Rightarrow> bool" where
  "own_or_new h i r \<longleftrightarrow> r = [] \<or> r = own_result h i \<or> \<not> result_known h r"

definition others_kept :: "string \<Rightarrow> workspaceHandleState \<Rightarrow> running \<Rightarrow> workspaceHandleState \<Rightarrow> running \<Rightarrow> bool" where
  "others_kept i h run h' run' \<longleftrightarrow>
     (\<forall>j. j \<noteq> i \<longrightarrow> map_of (wh_open h') j = map_of (wh_open h) j \<and> map_of (wh_closed h') j = map_of (wh_closed h) j) \<and>
     (\<forall>z. map_of (wh_closed h) i = Some z \<longrightarrow> map_of (wh_closed h') i = Some z) \<and>
     (\<forall>r. r \<noteq> own_result h i \<longrightarrow> result_known h r \<longrightarrow>
        result_known h' r \<and> map_of (wh_results h') r = map_of (wh_results h) r) \<and>
     (\<forall>s. issued handle_id (wh_nextHandleID h) s \<longrightarrow> issued handle_id (wh_nextHandleID h') s) \<and>
     (\<forall>t y. sh_handleID y \<noteq> i \<longrightarrow> (t, y) \<in> set run' \<longleftrightarrow> (t, y) \<in> set run) \<and>
     (\<forall>t y. sh_handleID y \<noteq> i \<longrightarrow> (t, y) \<in> set run \<longrightarrow>
        map_of (wh_transactions h') t = Some () \<and> issued txn_id (wh_nextTxnID h') t)"

lemma own_apart:
  assumes ok: "handles_ok h run" and r: "own_or_new h i r" "r \<noteq> []"
  shows "map_of (wh_open h) j = Some y \<Longrightarrow> j \<noteq> i \<Longrightarrow> sh_resultID y \<noteq> r"
    "map_of (wh_closed h) j = Some z \<Longrightarrow> ch_resultID z \<noteq> r"
proof -
  assume y: "map_of (wh_open h) j = Some y" "j \<noteq> i"
  then have "sh_resultID y \<noteq> [] \<Longrightarrow> result_known h (sh_resultID y)"
    using openD [OF ok] by (auto simp: handle_ok_def)
  then show "sh_resultID y \<noteq> r"
    using r apartD(1) [OF ok y(1), of i] y(2) by (auto simp: own_or_new_def own_result_def split: option.splits)
next
  assume z: "map_of (wh_closed h) j = Some z"
  then show "ch_resultID z \<noteq> r"
    using r closedD(3) [OF ok z] apartD(2) [OF ok, of i _ j z] by (auto simp: own_or_new_def own_result_def split: option.splits)
qed

lemma handles_ok_change:
  assumes ok: "handles_ok h run" and others: "others_kept i h run h' run'" and dist: "distinct (map fst run')"
    and self: "\<And>x. map_of (wh_open h') i = Some x \<Longrightarrow> handle_ok h' run' i x \<and> own_or_new h i (sh_resultID x)"
    and gone: "\<And>z. map_of (wh_closed h') i = Some z \<Longrightarrow> map_of (wh_open h') i = None \<and> issued handle_id (wh_nextHandleID h') i \<and>
      ch_resultID z \<noteq> [] \<and> result_known h' (ch_resultID z) \<and> (map_of (wh_closed h) i = Some z \<and> ch_resultID z \<noteq> own_result h i \<or>
        own_or_new h i (ch_resultID z))"
    and runs: "\<And>t y. (t, y) \<in> set run' \<Longrightarrow> sh_handleID y = i \<Longrightarrow> map_of (wh_open h') i = Some y \<and> sh_state y = stagedHandleCommitting \<and>
      sh_transactionID y = t \<and> map_of (wh_transactions h') t = Some () \<and> issued txn_id (wh_nextTxnID h') t"
  shows "good_move h h' run'"
proof -
  have open': "map_of (wh_open h') j = map_of (wh_open h) j" and closed': "map_of (wh_closed h') j = map_of (wh_closed h) j"
    if "j \<noteq> i" for j using others that by (simp_all add: others_kept_def)
  have known: "result_known h' r" if "r \<noteq> own_result h i" "result_known h r" for r
    using others that by (simp add: others_kept_def)
  have ids: "issued handle_id (wh_nextHandleID h') s" if "issued handle_id (wh_nextHandleID h) s" for s
    using others that by (simp add: others_kept_def)
  have other_own: "sh_resultID y \<noteq> own_result h i" if "map_of (wh_open h) j = Some y" "j \<noteq> i" "sh_resultID y \<noteq> []" for j y
    using own_apart(1) [OF ok, of i "own_result h i" j y] that by (auto simp: own_or_new_def)
  have closed_own: "ch_resultID z \<noteq> own_result h i" if "map_of (wh_closed h) j = Some z" for j z
    using own_apart(2) [OF ok, of i "own_result h i" j z] closedD(2) [OF ok that] that by (auto simp: own_or_new_def)
  have "closed_kept h h'"
    using others closed_own closedD(3) [OF ok] closed' unfolding closed_kept_def others_kept_def by metis
  moreover have "handles_ok h' run'"
  proof (rule handles_okI)
    fix j y assume y: "map_of (wh_open h') j = Some y"
    show "handle_ok h' run' j y"
    proof (cases "j = i")
      case False
      then have y: "map_of (wh_open h) j = Some y" using y open' by simp
      show ?thesis
        using openD [OF ok y] False others known ids closed' other_own [OF y False]
        by (auto simp: handle_ok_def others_kept_def)
    qed (use y self in simp)
  next
    fix j z assume z: "map_of (wh_closed h') j = Some z"
    show "issued handle_id (wh_nextHandleID h') j \<and> ch_resultID z \<noteq> [] \<and> result_known h' (ch_resultID z)"
    proof (cases "j = i")
      case False
      then have z: "map_of (wh_closed h) j = Some z" using z closed' by simp
      show ?thesis using closedD [OF ok z] known [OF closed_own [OF z]] ids by simp
    qed (use z gone in simp)
  next
    fix j k y z
    assume "map_of (wh_open h') j = Some y" "map_of (wh_open h') k = Some z" "j \<noteq> k" "sh_resultID y \<noteq> []"
    then show "sh_resultID y \<noteq> sh_resultID z"
      using apartD(1) [OF ok, of j y k z] open' self own_apart(1) [OF ok, of i]
      by (cases "j = i"; cases "k = i") metis+
  next
    fix j k y z
    assume y: "map_of (wh_open h') j = Some y" and z: "map_of (wh_closed h') k = Some z"
    show "sh_resultID y \<noteq> ch_resultID z"
    proof (cases "j = i")
      case True
      then have "k \<noteq> i" using gone [of z] y z by auto
      then have "map_of (wh_closed h) k = Some z" using z closed' by simp
      then show ?thesis using self [of y] y True own_apart(2) [OF ok, of i] closedD(2) [OF ok] by metis
    next
      case False
      then have y: "map_of (wh_open h) j = Some y" using y open' by simp
      show ?thesis
        using apartD(2) [OF ok y, of k z] z closed' gone [of z] own_apart(1) [OF ok, of i _ j y] y False
        by (cases "k = i") metis+
    qed
  next
    show "distinct (map fst run')" by (rule dist)
  next
    fix t y assume y: "(t, y) \<in> set run'"
    show "map_of (wh_open h') (sh_handleID y) = Some y \<and> sh_state y = stagedHandleCommitting \<and>
      sh_transactionID y = t \<and> map_of (wh_transactions h') t = Some () \<and> issued txn_id (wh_nextTxnID h') t"
    proof (cases "sh_handleID y = i")
      case False
      then have "(t, y) \<in> set run" using y others by (simp add: others_kept_def)
      then show ?thesis using runningD [OF ok] False others open' by (auto simp: others_kept_def)
    qed (use runs y in simp)
  qed
  ultimately show ?thesis by (simp add: good_move_def)
qed

section \<open>The single changes\<close>

lemma handles_ok_put:
  assumes ok: "handles_ok h run" and others: "others_kept i h run h' run'" and dist: "distinct (map fst run')"
    and x: "map_of (wh_open h') i = Some x" "handle_ok h' run' i x" "own_or_new h i (sh_resultID x)"
    and runs: "\<And>t y. (t, y) \<in> set run' \<Longrightarrow> sh_handleID y = i \<Longrightarrow> y = x \<and> sh_state x = stagedHandleCommitting \<and>
      sh_transactionID x = t \<and> map_of (wh_transactions h') t = Some () \<and> issued txn_id (wh_nextTxnID h') t"
  shows "good_move h h' run'"
  by (rule handles_ok_change [OF ok others dist]) (use x runs in \<open>auto simp: handle_ok_def\<close>)

lemma running_quiet:
  assumes "handles_ok h run" "map_of (wh_open h) i = Some x" "sh_state x \<noteq> stagedHandleCommitting" "(t, y) \<in> set run"
  shows "sh_handleID y \<noteq> i"
  using runningD(1,2) [OF assms(1,4)] assms(2,3) by auto

lemma running_none:
  assumes "handles_ok h run" "map_of (wh_open h) i = None" "(t, y) \<in> set run"
  shows "sh_handleID y \<noteq> i"
  using runningD(1) [OF assms(1,3)] assms(2) by auto

lemma known_put [simp]: "result_known (put_handle x h) = result_known h"
  by (simp add: result_known_def fun_eq_iff)

lemma others_kept_put: "handles_ok h run \<Longrightarrow> others_kept (sh_handleID x) h run (put_handle x h) run"
  by (auto simp: others_kept_def runningD)

lemma put_quiet:
  assumes ok: "handles_ok h run" and x: "map_of (wh_open h) (sh_handleID x) = Some x0"
    and quiet: "sh_state x0 \<noteq> stagedHandleCommitting" "sh_state x \<noteq> stagedHandleCommitting"
    and result: "sh_resultID x = sh_resultID x0" "sh_state x = stagedHandleFailed \<Longrightarrow> sh_state x0 = stagedHandleFailed"
  shows "good_move h (put_handle x h) run"
proof (rule handles_ok_put [OF ok others_kept_put [OF ok] running_distinct [OF ok]])
  show "handle_ok (put_handle x h) run (sh_handleID x) x"
    using openD [OF ok x] quiet result by (auto simp: handle_ok_def)
qed (use running_quiet [OF ok x quiet(1)] x result in \<open>auto simp: own_or_new_def own_result_def\<close>)

lemma put_new:
  assumes ok: "handles_ok h run" and room: "wh_nextHandleID h + 1 \<noteq> 0"
    and x: "sh_handleID x = handle_id (wh_nextHandleID h + 1)" "sh_state x = stagedHandleClean" "sh_resultID x = []"
  shows "good_move h (put_handle x (h\<lparr>wh_nextHandleID := wh_nextHandleID h + 1\<rparr>)) run"
proof -
  let ?h = "put_handle x (h\<lparr>wh_nextHandleID := wh_nextHandleID h + 1\<rparr>)"
  have "\<not> issued handle_id (wh_nextHandleID h) (sh_handleID x)"
    using issued_fresh [OF ids_inj(1) room] x by simp
  then have new: "map_of (wh_open h) (sh_handleID x) = None" "map_of (wh_closed h) (sh_handleID x) = None"
    using openD [OF ok] closedD(1) [OF ok] by (fastforce simp: handle_ok_def)+
  have "others_kept (sh_handleID x) h run ?h run"
    using ok issued_next [OF room] by (auto simp: others_kept_def runningD result_known_def)
  then show ?thesis
  proof (rule handles_ok_put [OF ok _ running_distinct [OF ok]])
    show "handle_ok ?h run (sh_handleID x) x" using x new by (simp add: handle_ok_def)
  qed (use running_none [OF ok new(1)] x in \<open>auto simp: own_or_new_def\<close>)
qed

lemma forget_result:
  assumes ok: "handles_ok h run" and x: "map_of (wh_open h) (sh_handleID x) = Some x"
    and quiet: "sh_state x = stagedHandleCommitted"
  shows "good_move h (put_handle (x\<lparr>sh_resultID := []\<rparr>) (clearResultLocked (sh_resultID x) h)) run"
proof -
  let ?h = "put_handle (x\<lparr>sh_resultID := []\<rparr>) (clearResultLocked (sh_resultID x) h)"
  have "others_kept (sh_handleID x) h run ?h run"
    using x ok by (auto simp: others_kept_def runningD clearResultLocked_def result_known_def own_result_def)
  then show ?thesis
  proof (rule handles_ok_put [OF ok _ running_distinct [OF ok]])
    show "handle_ok ?h run (sh_handleID x) (x\<lparr>sh_resultID := []\<rparr>)"
      using openD [OF ok x] quiet by (simp add: handle_ok_def clearResultLocked_def)
  qed (use running_quiet [OF ok x] quiet in \<open>auto simp: own_or_new_def\<close>)
qed

text \<open>
  The handle gets a result and is at rest; a commit of it that was running is over. The transactions of
  the others stay.
\<close>

lemma result_set:
  assumes ok: "handles_ok h run" and room: "wh_nextResultID h + 1 \<noteq> 0" and x: "map_of (wh_open h) i = Some x"
    and txns: "\<And>t y. (t, y) \<in> set run \<Longrightarrow> sh_handleID y \<noteq> i \<Longrightarrow> map_of txs t = Some ()"
    and st: "st \<noteq> stagedHandleCommitting"
    and set: "setHandleResultLocked x st reply e (h\<lparr>wh_transactions := txs\<rparr>) = (res, x', h')"
  shows "good_move h (put_handle x' h') (filter (\<lambda>(t, y). sh_handleID y \<noteq> i) run)"
proof -
  let ?run = "filter (\<lambda>(t, y). sh_handleID y \<noteq> i) run" and ?h = "put_handle x' h'"
  have xi: "sh_handleID x = i" using openD [OF ok x] by (simp add: handle_ok_def)
  have x': "x' = x\<lparr>sh_resultID := result_id (wh_nextResultID h + 1), sh_state := st, sh_transactionID := []\<rparr>"
    and h': "wh_open h' = wh_open h" "wh_closed h' = wh_closed h" "wh_transactions h' = txs"
      "wh_nextHandleID h' = wh_nextHandleID h" "wh_nextTxnID h' = wh_nextTxnID h" "wh_nextResultID h' = wh_nextResultID h + 1"
    and res': "map_of (wh_results h') r =
        (if r = result_id (wh_nextResultID h + 1) then Some \<lparr>hr_reply = reply, hr_err = e\<rparr>
         else if sh_resultID x \<noteq> [] \<and> r = sh_resultID x then None else map_of (wh_results h) r)" for r
    using set by (auto simp: setHandleResultLocked_def recordResultLocked_def clearResultLocked_def Let_def)
  have fresh: "\<not> result_known h (result_id (wh_nextResultID h + 1))"
    using issued_fresh [OF ids_inj(2) room] by (simp add: result_known_def)
  have "others_kept i h run ?h ?run"
    using x txns runningD(5) [OF ok] issued_next [OF room] issued_fresh [OF ids_inj(2) room]
    by (auto simp: others_kept_def result_known_def x' h' res' xi own_result_def)
  then show ?thesis
  proof (rule handles_ok_put [OF ok])
    show "distinct (map fst ?run)" using running_distinct [OF ok] by (simp add: distinct_map_filter)
    show "handle_ok ?h ?run i x'"
      using openD [OF ok x] st by (simp add: handle_ok_def result_known_def x' h' res')
    show "own_or_new h i (sh_resultID x')" using fresh by (simp add: own_or_new_def x')
  qed (auto simp: h' x' xi)
qed

lemma transaction_begun:
  assumes ok: "handles_ok h run" and room: "wh_nextTxnID h + 1 \<noteq> 0" and x: "map_of (wh_open h) i = Some x"
    and quiet: "sh_state x \<noteq> stagedHandleCommitting" "sh_state x \<noteq> stagedHandleFailed"
    and begun: "beginTransactionLocked x h = (txn, x1, h1)"
  shows "good_move h (put_handle (x1\<lparr>sh_state := stagedHandleCommitting\<rparr>) h1)
    ((txn, x1\<lparr>sh_state := stagedHandleCommitting\<rparr>) # run)"
proof -
  define x2 where "x2 = x1\<lparr>sh_state := stagedHandleCommitting\<rparr>"
  have xi: "sh_handleID x = i" using openD [OF ok x] by (simp add: handle_ok_def)
  have txn: "txn = txn_id (wh_nextTxnID h + 1)" and x2: "x2 = x\<lparr>sh_transactionID := txn, sh_state := stagedHandleCommitting\<rparr>"
    and h1: "h1 = h\<lparr>wh_nextTxnID := wh_nextTxnID h + 1, wh_transactions := AList.update txn () (wh_transactions h)\<rparr>"
    using begun by (auto simp: beginTransactionLocked_def Let_def x2_def)
  have fresh: "(txn, y) \<notin> set run" for y
    using issued_fresh [OF ids_inj(3) room] runningD(5) [OF ok, of txn y] by (auto simp: txn)
  have "others_kept i h run (put_handle x2 h1) ((txn, x2) # run)"
    using xi issued_next [OF room] runningD [OF ok] by (auto simp: others_kept_def result_known_def h1 x2)
  then have "good_move h (put_handle x2 h1) ((txn, x2) # run)"
  proof (rule handles_ok_put [OF ok])
    show "distinct (map fst ((txn, x2) # run))" using running_distinct [OF ok] fresh by auto
    show "handle_ok (put_handle x2 h1) ((txn, x2) # run) i x2"
      using openD [OF ok x] by (simp add: handle_ok_def result_known_def h1 x2)
    show "own_or_new h i (sh_resultID x2)" using x by (simp add: own_or_new_def own_result_def x2)
    fix t y assume "(t, y) \<in> set ((txn, x2) # run)" "sh_handleID y = i"
    then have "t = txn" "y = x2" using running_quiet [OF ok x quiet(1)] by auto
    then show "y = x2 \<and> sh_state x2 = stagedHandleCommitting \<and> sh_transactionID x2 = t \<and>
      map_of (wh_transactions (put_handle x2 h1)) t = Some () \<and> issued txn_id (wh_nextTxnID (put_handle x2 h1)) t"
      by (simp add: x2 h1 txn)
  qed (simp add: x2 xi)
  then show ?thesis by (simp add: x2_def)
qed

lemma running_unique:
  assumes ok: "handles_ok h run" and x: "(txn, x) \<in> set run" and y: "(t, y) \<in> set run"
  shows "t = txn \<longleftrightarrow> sh_handleID y = sh_handleID x"
proof
  assume "t = txn"
  then show "sh_handleID y = sh_handleID x"
    using eq_key_imp_eq_value [OF running_distinct [OF ok] x] y by simp
next
  assume "sh_handleID y = sh_handleID x"
  then have "y = x" using runningD(1) [OF ok x] runningD(1) [OF ok y] by simp
  then show "t = txn" using runningD(3) [OF ok x] runningD(3) [OF ok y] by simp
qed

lemma transaction_finished:
  assumes ok: "handles_ok h run" and room: "wh_nextResultID h + 1 \<noteq> 0" and x: "(txn, x) \<in> set run"
    and st: "st \<noteq> stagedHandleCommitting" and fin: "finishTransactionLocked x st reply e h = (res, x', h')"
  shows "good_move h (put_handle x' h') (filter (\<lambda>(t, _). t \<noteq> txn) run)"
proof -
  have "filter (\<lambda>(t, _). t \<noteq> txn) run = filter (\<lambda>(t, y). sh_handleID y \<noteq> sh_handleID x) run"
    using running_unique [OF ok x] by (auto intro!: filter_cong)
  moreover have "good_move h (put_handle x' h') (filter (\<lambda>(t, y). sh_handleID y \<noteq> sh_handleID x) run)"
  proof (rule result_set [OF ok room runningD(1) [OF ok x] _ st])
    show "setHandleResultLocked x st reply e (h\<lparr>wh_transactions := AList.delete txn (wh_transactions h)\<rparr>) = (res, x', h')"
      using fin runningD(3) [OF ok x] by (simp add: finishTransactionLocked_def)
    fix t y assume y: "(t, y) \<in> set run" "sh_handleID y \<noteq> sh_handleID x"
    then show "map_of (AList.delete txn (wh_transactions h)) t = Some ()"
      using running_unique [OF ok x y(1)] runningD(4) [OF ok y(1)] by simp
  qed
  ultimately show ?thesis by simp
qed

lemma handle_released:
  assumes ok: "handles_ok h run" and room: "wh_nextResultID h + 1 \<noteq> 0" and x: "map_of (wh_open h) i = Some x"
    and quiet: "sh_state x \<noteq> stagedHandleCommitting" and rel: "release_state i x h = (r, h')"
  shows "good_move h h' run" "result_known h' r"
proof -
  have h': "wh_open h' = AList.delete i (wh_open h)" "wh_closed h' = AList.update i \<lparr>ch_resultID = r\<rparr> (wh_closed h)"
      "wh_transactions h' = wh_transactions h" "wh_nextHandleID h' = wh_nextHandleID h" "wh_nextTxnID h' = wh_nextTxnID h"
    using rel by (auto simp: release_state_def recordResultLocked_def Let_def split: if_splits)
  have r: "r \<noteq> [] \<and> result_known h' r \<and> own_or_new h i r"
  proof (cases "sh_resultID x = []")
    case True
    then have "r = result_id (wh_nextResultID h + 1)" "result_known h' r"
      using rel by (auto simp: release_state_def recordResultLocked_def Let_def result_known_def)
    then show ?thesis using issued_fresh [OF ids_inj(2) room] by (auto simp: own_or_new_def result_known_def)
  next
    case False
    then have "r = sh_resultID x" "result_known h' r"
      using rel openD [OF ok x] by (auto simp: release_state_def Let_def result_known_def handle_ok_def)
    then show ?thesis using x False by (simp add: own_or_new_def own_result_def)
  qed
  then show "result_known h' r" by simp
  have known: "result_known h' s \<and> map_of (wh_results h') s = map_of (wh_results h) s" if "result_known h s" for s
    using that rel issued_fresh [OF ids_inj(2) room] issued_next [OF room] by (auto simp: release_state_def recordResultLocked_def Let_def result_known_def split: if_splits)
  have "others_kept i h run h' run"
    using known runningD [OF ok] openD [OF ok x] by (auto simp: others_kept_def h' handle_ok_def)
  then show "good_move h h' run"
  proof (rule handles_ok_change [OF ok _ running_distinct [OF ok]])
    fix z assume "map_of (wh_closed h') i = Some z"
    then show "map_of (wh_open h') i = None \<and> issued handle_id (wh_nextHandleID h') i \<and> ch_resultID z \<noteq> [] \<and>
        result_known h' (ch_resultID z) \<and> (map_of (wh_closed h) i = Some z \<and> ch_resultID z \<noteq> own_result h i \<or>
          own_or_new h i (ch_resultID z))"
      using r openD [OF ok x] by (auto simp: h' handle_ok_def)
  qed (use running_quiet [OF ok x quiet] in \<open>auto simp: h'\<close>)
qed

end
