(* ===== verification/Handle_Machine.thy ===== *)
theory Handle_Machine
  imports Handle_Steps
begin

text \<open>
  Every call on the handles keeps the invariant of \<open>Handle_Steps\<close>: the staging calls, the three steps of
  a flush and the release. The step relation \<open>handle_step\<close> lets them interleave.
\<close>

section \<open>What leaves the handles alone\<close>

lemma handles_frame [simp]:
  "handles_of (set_temp p n w) = handles_of w" "handles_of (remove_temp p w) = handles_of w"
  "handles_of (put_tree pl t w) = handles_of w" "handles_of (w\<lparr>pw_owner := owner\<rparr>) = handles_of w"
  by (cases pl; simp add: handles_of_def set_temp_def remove_temp_def)+

lemma handles_of_on [simp]: "handles_of (on_handles f w) = f (handles_of w)"
  by (simp add: handles_of_def on_handles_def on_state_def)

lemma streamOwnerFileToTemp_handles:
  "streamOwnerFileToTemp env path tempPath failIfMissing w = Some (r, w') \<Longrightarrow> handles_of w' = handles_of w"
  by (auto simp: streamOwnerFileToTemp_def split: sum.splits option.splits if_splits)

lemma createStagedFileBacking_handles:
  assumes "createStagedFileBacking env path createEmpty failIfMissing w = Some (r, w')"
  shows "handles_of w' = handles_of w"
proof -
  let ?w = "set_temp (he_temp env (pw_temps w)) (temp_file [] (he_now env)) w"
  have "handles_of u = handles_of w" if "streamOwnerFileToTemp env path p b ?w = Some (q, u)" for p b q u
    using streamOwnerFileToTemp_handles [OF that] by simp
  then show ?thesis
    using assms by (auto simp: createStagedFileBacking_def Let_def split: if_splits option.splits sum.splits node.splits prod.splits)
qed

lemma handle_backing_handles:
  "handle_backing env op request createEmpty w = Some (r, w') \<Longrightarrow> handles_of w' = handles_of w"
  by (auto simp: handle_backing_def Let_def createStagedFileBacking_handles
      split: stagedHandleTargetKind.splits if_splits option.splits sum.splits prod.splits)

section \<open>Staging\<close>

lemma handleLocked_Inr: "handleLocked i w = Inr x \<longleftrightarrow> map_of (wh_open (handles_of w)) i = Some x"
  by (auto simp: handleLocked_def split: option.splits)

text \<open>A handle that a staging call has got: it is open, and no commit of it is running.\<close>

definition at_rest :: "stagedHandle \<Rightarrow> 'o project_workspace \<Rightarrow> bool" where
  "at_rest x w \<longleftrightarrow> map_of (wh_open (handles_of w)) (sh_handleID x) = Some x \<and> sh_state x \<noteq> stagedHandleCommitting"

lemma promote_ok:
  assumes ok: "handles_ok (handles_of w) run" and x: "map_of (wh_open (handles_of w)) i = Some x" "sh_state x \<noteq> stagedHandleCommitting"
    and p: "promoteHandleToStaged env i path w = Some (r, w')"
  shows "good_move (handles_of w) (handles_of w') run \<and> (\<exists>y. map_of (wh_open (handles_of w')) i = Some y \<and> at_rest y w')"
proof -
  obtain q u where u: "createStagedFileBacking env path False True w = Some (q, u)"
    using p by (auto simp: promoteHandleToStaged_def split: option.splits)
  have h: "handles_of u = handles_of w" by (rule createStagedFileBacking_handles [OF u])
  have xi: "sh_handleID x = i" using openD [OF ok x(1)] by (simp add: handle_ok_def)
  show ?thesis
    using p u x xi ok h put_quiet [OF ok, of "x\<lparr>sh_tempPath := t, sh_targetKind := stagedHandleTargetFile,
          sh_backingKind := stagedHandleBackingStagedTemp, sh_openIntent := FsOpenIntentWritable, sh_metadata := md\<rparr>" x for t md]
    by (auto simp: promoteHandleToStaged_def handleLocked_def at_rest_def split: sum.splits if_splits)
qed

lemma known_handle_ok:
  assumes ok: "handles_ok (handles_of w) run" and k: "known_handle env op request w = Some (r, w')"
  shows "good_move (handles_of w) (handles_of w') run \<and> (\<forall>x. r = Inr x \<longrightarrow> at_rest x w')"
proof (cases "handleLocked (rq_HandleID request) w")
  case (Inl e)
  then show ?thesis using ok k by (auto simp: known_handle_def)
next
  case (Inr x)
  then have x: "map_of (wh_open (handles_of w)) (rq_HandleID request) = Some x" by (simp add: handleLocked_Inr)
  have xi: "sh_handleID x = rq_HandleID request" using openD [OF ok x] by (simp add: handle_ok_def)
  show ?thesis
  proof (cases "sh_state x = stagedHandleCommitting")
    case True
    then show ?thesis using ok k Inr by (auto simp: known_handle_def split: if_splits)
  next
    case False
    have promoted: "good_move (handles_of w) (handles_of u) run" "handleLocked (rq_HandleID request) u = Inr y \<Longrightarrow> at_rest y u"
      if "promoteHandleToStaged env (rq_HandleID request) (rq_Path request) w = Some (q, u)" for q u y
      using promote_ok [OF ok x False that] by (auto simp: handleLocked_Inr)
    show ?thesis
      using k Inr ok x xi False promoted
      by (auto simp: known_handle_def at_rest_def split: if_splits option.splits sum.splits)
  qed
qed

lemma ensureHandle_ok:
  assumes ok: "handles_ok (handles_of w) run" and room: "counters_left (handles_of w)"
    and e: "ensureHandle env op request preconditions createEmpty w = Some (r, w')"
  shows "good_move (handles_of w) (handles_of w') run \<and> (\<forall>x. r = Inr x \<longrightarrow> at_rest x w')"
proof (cases "rq_HandleID request = []")
  case False
  then show ?thesis using known_handle_ok [OF ok] e by (simp add: ensureHandle_def)
next
  case True
  then obtain q u where u: "handle_backing env op request createEmpty w = Some (q, u)"
    using e by (auto simp: ensureHandle_def split: option.splits)
  have h: "handles_of u = handles_of w" by (rule handle_backing_handles [OF u])
  show ?thesis
  proof (cases q)
    case (Inl e')
    then show ?thesis using True e u ok h by (auto simp: ensureHandle_def)
  next
    case (Inr backing)
    obtain x v where xv: "new_handle op request preconditions backing u = (x, v)" by (meson surj_pair)
    then have x: "sh_handleID x = handle_id (wh_nextHandleID (handles_of w) + 1)" "sh_state x = stagedHandleClean" "sh_resultID x = []"
      and v: "handles_of v = put_handle x ((handles_of w)\<lparr>wh_nextHandleID := wh_nextHandleID (handles_of w) + 1\<rparr>)"
      by (auto simp: new_handle_def Let_def h split: prod.splits)
    have "r = Inr x" "w' = v" using True e u Inr xv by (auto simp: ensureHandle_def)
    then show ?thesis
      using put_new [OF ok _ x] room x(2) by (simp add: v at_rest_def counters_left_def)
  qed
qed

lemma stage_data_kept:
  assumes "stage_data env op request x w = (r, w')"
  shows "handles_of w' = handles_of w"
    "r = Inr y \<Longrightarrow> sh_handleID y = sh_handleID x \<and> sh_state y = sh_state x \<and> sh_resultID y = sh_resultID x"
  using assms by (auto simp: stage_data_def Let_def split: if_splits sum.splits option.splits node.splits)

lemma stage_handle_ok:
  assumes ok: "handles_ok (handles_of w) run" and room: "counters_left (handles_of w)"
    and s: "stage_handle env op request preconditions createEmpty w = Some (r, w')"
  shows "good_move (handles_of w) (handles_of w') run \<and> (\<forall>x. r = StagingHandle x \<longrightarrow> at_rest x w')"
proof -
  obtain q u where u: "ensureHandle env op request preconditions createEmpty w = Some (q, u)"
    using s by (auto simp: stage_handle_def split: option.splits)
  have m: "good_move (handles_of w) (handles_of u) run" and rest: "\<And>x. q = Inr x \<Longrightarrow> at_rest x u"
    using ensureHandle_ok [OF ok room u] by auto
  note e = good_moveD [OF m] rest
  show ?thesis
  proof (cases q)
    case (Inl e')
    then show ?thesis using s u m by (auto simp: stage_handle_def)
  next
    case (Inr x)
    have x: "map_of (wh_open (handles_of u)) (sh_handleID x) = Some x" "sh_state x \<noteq> stagedHandleCommitting"
      using e(2) [OF Inr] by (auto simp: at_rest_def)
    show ?thesis
      using s u Inr m e x good_move_trans [OF m forget_result [OF e(1) x(1)]]
      by (auto simp: stage_handle_def prepareHandleForMutation_def clearHandleResultLocked_def at_rest_def
          split: option.splits if_splits)
  qed
qed

lemma staged_put:
  assumes "handles_ok (handles_of w) run" "at_rest x w" "sh_handleID y = sh_handleID x" "sh_resultID y = sh_resultID x"
    "sh_state y \<in> {stagedHandleClean, stagedHandleDirty}"
  shows "good_move (handles_of w) (put_handle y (handles_of w)) run"
  using put_quiet [OF assms(1), of y x] assms by (auto simp: at_rest_def)

lemma stageHandleMutation_ok:
  assumes ok: "handles_ok (handles_of w) run" and room: "counters_left (handles_of w)"
    and s: "stageHandleMutation env op request preconditions w = Some (r, w')"
  shows "good_move (handles_of w) (handles_of w') run"
proof -
  obtain q u where u: "stage_handle env op request preconditions (op = FsOpCreate) w = Some (q, u)"
    using s by (auto simp: stageHandleMutation_def split: option.splits)
  have m: "good_move (handles_of w) (handles_of u) run" and rest: "\<And>x. q = StagingHandle x \<Longrightarrow> at_rest x u"
    using stage_handle_ok [OF ok room u] by auto
  note e = good_moveD [OF m] rest
  show ?thesis
  proof (cases q)
    case (StagingReply a)
    then show ?thesis using s u m by (auto simp: stageHandleMutation_def)
  next
    case (StagingHandle x)
    obtain d v where dv: "stage_data env op request x u = (d, v)" by (meson surj_pair)
    note kept = stage_data_kept(1) [OF dv] stage_data_kept(2) [OF dv]
    show ?thesis
    proof (cases d)
      case (Inl e')
      then show ?thesis using s u StagingHandle dv m kept(1) by (auto simp: stageHandleMutation_def)
    next
      case (Inr y)
      show ?thesis
        using s u StagingHandle dv Inr kept(1) kept(2) [OF Inr]
          good_move_trans [OF m staged_put [OF e(1) e(2) [OF StagingHandle], of "y\<lparr>sh_state := stagedHandleClean\<rparr>"]]
          good_move_trans [OF m staged_put [OF e(1) e(2) [OF StagingHandle], of "y\<lparr>sh_op := op, sh_state := stagedHandleDirty\<rparr>"]]
        by (auto simp: stageHandleMutation_def Let_def)
    qed
  qed
qed

lemma stageDentryMutation_ok:
  assumes ok: "handles_ok (handles_of w) run" and room: "counters_left (handles_of w)"
    and s: "stageDentryMutation env op request preconditions w = Some (r, w')"
  shows "good_move (handles_of w) (handles_of w') run"
proof -
  obtain q u where u: "stage_handle env op request preconditions False w = Some (q, u)"
    using s by (auto simp: stageDentryMutation_def split: option.splits)
  have m: "good_move (handles_of w) (handles_of u) run" and rest: "\<And>x. q = StagingHandle x \<Longrightarrow> at_rest x u"
    using stage_handle_ok [OF ok room u] by auto
  note e = good_moveD [OF m] rest
  show ?thesis
    using s u m rest good_move_trans [OF m staged_put [OF e(1) e(2), of x "x\<lparr>sh_state := stagedHandleDirty\<rparr>" for x]]
    by (auto simp: stageDentryMutation_def Let_def split: staging.splits if_splits)
qed

section \<open>Flushing and releasing\<close>

lemma set_result_ok:
  assumes ok: "handles_ok (handles_of w) run" and room: "counters_left (handles_of w)"
    and x: "map_of (wh_open (handles_of w)) i = Some x" "sh_state x \<noteq> stagedHandleCommitting"
    and st: "st \<noteq> stagedHandleCommitting" and s: "set_result x st reply e w = (r, w')"
  shows "good_move (handles_of w) (handles_of w') run"
proof -
  obtain res y h where set: "setHandleResultLocked x st reply e (handles_of w) = (res, y, h)" by (meson prod_cases3)
  have "filter (\<lambda>(t, y). sh_handleID y \<noteq> i) run = run"
    using running_quiet [OF ok x] by (auto intro!: filter_True)
  moreover have "good_move (handles_of w) (put_handle y h) (filter (\<lambda>(t, y). sh_handleID y \<noteq> i) run)"
    by (rule result_set [OF ok _ x(1) _ st, where txs = "wh_transactions (handles_of w)"])
      (use room set runningD(4) [OF ok] in \<open>auto simp: counters_left_def\<close>)
  ultimately show ?thesis using s set by (auto simp: set_result_def)
qed

lemma commit_look_ok:
  assumes ok: "handles_ok (handles_of w) run" and room: "counters_left (handles_of w)" and l: "commit_look i w = (r, w')"
  shows "good_move (handles_of w) (handles_of w') run"
  using l ok set_result_ok [OF ok room, of i _ stagedHandleCommitted]
  by (auto simp: commit_look_def handleLocked_Inr split: sum.splits stagedHandleState.splits prod.splits)

lemma commit_begin_ok:
  assumes ok: "handles_ok (handles_of w) run" and room: "counters_left (handles_of w)" and b: "commit_begin i w = (r, w')"
  shows "good_move (handles_of w) (handles_of w') (case r of CommitGo begun \<Rightarrow> begun # run | _ \<Rightarrow> run)"
proof (cases "handleLocked i w")
  case (Inl e)
  then show ?thesis using b ok by (auto simp: commit_begin_def)
next
  case (Inr x)
  then have x: "map_of (wh_open (handles_of w)) i = Some x" by (simp add: handleLocked_Inr)
  show ?thesis
    using b Inr ok set_result_ok [OF ok room x, of stagedHandleFailed] transaction_begun [OF ok _ x] room
    by (auto simp: commit_begin_def Let_def counters_left_def split: stagedHandleState.splits option.splits prod.splits)
qed

lemma commit_finish_eq:
  assumes ok: "handles_ok (handles_of w) run" and x: "(txn, x) \<in> set run"
    and fin: "finishTransactionLocked x (if snd outcome = None then stagedHandleCommitted else stagedHandleFailed)
      (fst outcome) (snd outcome) (handles_of w) = (res, y, h)"
  shows "commit_finish (sh_handleID x) txn outcome w =
    (CommitReply (replyWithHandle res (sh_handleID x), snd outcome), on_handles (\<lambda>_. put_handle y h) w)"
proof -
  have "sh_handleID y = sh_handleID x"
    using fin by (auto simp: finishTransactionLocked_def setHandleResultLocked_def Let_def split: prod.splits)
  then show ?thesis
    using runningD(1,3) [OF ok x] fin by (cases outcome) (auto simp: commit_finish_def handleLocked_def Let_def)
qed

lemma commit_finish_ok:
  assumes ok: "handles_ok (handles_of w) run" and room: "counters_left (handles_of w)" and x: "(txn, x) \<in> set run"
    and f: "commit_finish (sh_handleID x) txn outcome w = (r, w')"
  shows "good_move (handles_of w) (handles_of w') (filter (\<lambda>(t, _). t \<noteq> txn) run)"
proof -
  obtain res y h where fin: "finishTransactionLocked x (if snd outcome = None then stagedHandleCommitted else stagedHandleFailed)
      (fst outcome) (snd outcome) (handles_of w) = (res, y, h)" by (meson prod_cases3)
  have "good_move (handles_of w) (put_handle y h) (filter (\<lambda>(t, _). t \<noteq> txn) run)"
    by (rule transaction_finished [OF ok _ x _ fin]) (use room in \<open>auto simp: counters_left_def\<close>)
  then show ?thesis using f commit_finish_eq [OF ok x fin] by auto
qed

lemma releaseHandle_ok:
  assumes ok: "handles_ok (handles_of w) run" and room: "counters_left (handles_of w)"
    and r: "releaseHandle request w = Some (reply, w')"
  shows "good_move (handles_of w) (handles_of w') run"
proof (cases "handleLocked (rq_HandleID request) w")
  case (Inl e)
  then show ?thesis using r ok by (auto simp: releaseHandle_def Let_def split: if_splits)
next
  case (Inr x)
  then have x: "map_of (wh_open (handles_of w)) (rq_HandleID request) = Some x" by (simp add: handleLocked_Inr)
  show ?thesis
    using r Inr ok room handle_released(1) [OF ok _ x]
    by (auto simp: releaseHandle_def Let_def answer_def counters_left_def split: if_splits prod.splits option.splits)
qed

section \<open>The machine\<close>

text \<open>
  \<open>elsewhere\<close> is every step that does not touch the handles: the work of a commit outside the lock, owner
  invalidations, a sync, a change of the authority. A commit may end with any outcome. The identifiers
  still have values left.
\<close>

inductive handle_step :: "'o handle_env \<Rightarrow> 'o project_workspace \<times> running \<Rightarrow> 'o project_workspace \<times> running \<Rightarrow> bool" for env where
  elsewhere: "handles_of w' = handles_of w \<Longrightarrow> handle_step env (w, run) (w', run)"
| staged: "counters_left (handles_of w) \<Longrightarrow> stageHandleMutation env op request preconditions w = Some (r, w') \<Longrightarrow>
    handle_step env (w, run) (w', run)"
| staged_dentry: "counters_left (handles_of w) \<Longrightarrow> stageDentryMutation env op request preconditions w = Some (r, w') \<Longrightarrow>
    handle_step env (w, run) (w', run)"
| looked: "counters_left (handles_of w) \<Longrightarrow> commit_look i w = (s, w') \<Longrightarrow> handle_step env (w, run) (w', run)"
| begun: "counters_left (handles_of w) \<Longrightarrow> commit_begin i w = (b, w') \<Longrightarrow>
    handle_step env (w, run) (w', case b of CommitGo x \<Rightarrow> x # run | _ \<Rightarrow> run)"
| finished: "counters_left (handles_of w) \<Longrightarrow> (txn, x) \<in> set run \<Longrightarrow> commit_finish (sh_handleID x) txn outcome w = (f, w') \<Longrightarrow>
    handle_step env (w, run) (w', filter (\<lambda>(t, _). t \<noteq> txn) run)"
| released: "counters_left (handles_of w) \<Longrightarrow> releaseHandle request w = Some (r, w') \<Longrightarrow> handle_step env (w, run) (w', run)"

definition fresh_project :: "'o project_workspace \<times> running \<Rightarrow> bool" where
  "fresh_project s \<longleftrightarrow> handles_of (fst s) = ws_handles new_workspaceState \<and> snd s = []"

inductive handle_reach :: "'o handle_env \<Rightarrow> 'o project_workspace \<times> running \<Rightarrow> bool" for env where
  start: "fresh_project s \<Longrightarrow> handle_reach env s"
| step: "handle_reach env s \<Longrightarrow> handle_step env s s' \<Longrightarrow> handle_reach env s'"

lemma handle_step_good:
  assumes "handle_step env s s'" "handles_ok (handles_of (fst s)) (snd s)"
  shows "good_move (handles_of (fst s)) (handles_of (fst s')) (snd s')"
  using assms
proof (cases rule: handle_step.cases)
  case (begun w i b w' run)
  then show ?thesis using commit_begin_ok [of w run i b w'] assms(2) by simp
qed (auto simp: stageHandleMutation_ok stageDentryMutation_ok commit_look_ok commit_finish_ok releaseHandle_ok)

lemma handle_reach_ok: "handle_reach env s \<Longrightarrow> handles_ok (handles_of (fst s)) (snd s)"
proof (induction rule: handle_reach.induct)
  case (start s)
  then show ?case by (simp add: fresh_project_def handles_ok_new)
next
  case (step s s')
  then show ?case using handle_step_good good_moveD by blast
qed

lemma handle_steps_good:
  assumes "(handle_step env)\<^sup>*\<^sup>* s s'" "handles_ok (handles_of (fst s)) (snd s)"
  shows "good_move (handles_of (fst s)) (handles_of (fst s')) (snd s')"
  using assms
proof (induction rule: rtranclp_induct)
  case (step u v)
  then have "good_move (handles_of (fst s)) (handles_of (fst u)) (snd u)" by simp
  then show ?case using good_move_trans handle_step_good [OF step.hyps(2)] good_moveD by blast
qed simp

lemma committing_runs:
  assumes ok: "handles_ok h run" and x: "map_of (wh_open h) i = Some x" "sh_state x = stagedHandleCommitting"
  shows "(sh_transactionID x, x) \<in> set run" "transactionLocked x h = Some (sh_transactionID x)"
proof -
  show run: "(sh_transactionID x, x) \<in> set run" using openD [OF ok x(1)] x(2) by (simp add: handle_ok_def)
  have "sh_transactionID x \<noteq> []" using runningD(5) [OF ok run] by auto
  then show "transactionLocked x h = Some (sh_transactionID x)"
    using runningD(4) [OF ok run] by (simp add: transactionLocked_def)
qed

text \<open>A handle that has been given back answers with its recorded outcome.\<close>

lemma released_outcome:
  assumes ok: "handles_ok (handles_of w) run" and room: "counters_left (handles_of w)"
    and x: "map_of (wh_open (handles_of w)) (rq_HandleID request) = Some x"
    and r: "releaseHandle request w = Some (reply, w')"
  shows "\<exists>z res. map_of (wh_closed (handles_of w')) (rq_HandleID request) = Some z \<and>
    map_of (wh_results (handles_of w')) (ch_resultID z) = Some res \<and> ch_resultID z \<noteq> [] \<and>
    reply = (replyWithHandle res (rq_HandleID request), hr_err res)"
proof -
  have i: "rq_HandleID request \<noteq> []" using openD [OF ok x] by (auto simp: handle_ok_def)
  show ?thesis
  proof (cases "sh_state x = stagedHandleCommitting")
    case True
    then show ?thesis using r x i committing_runs(2) [OF ok x True] by (simp add: releaseHandle_def handleLocked_def answer_def ended_def)
  next
    case False
    obtain rid h where rel: "release_state (rq_HandleID request) x (handles_of w) = (rid, h)" by (meson surj_pair)
    have known: "result_known h rid"
      using handle_released(2) [OF ok _ x False rel] room by (simp add: counters_left_def)
    then have "rid \<noteq> []" by (auto simp: result_known_def)
    moreover have "map_of (wh_closed h) (rq_HandleID request) = Some \<lparr>ch_resultID = rid\<rparr>"
      using rel by (auto simp: release_state_def Let_def split: prod.splits)
    moreover have "handles_of w' = h" using r x i False rel by (auto simp: releaseHandle_def handleLocked_def Let_def)
    ultimately show ?thesis
      using r x i False rel known by (auto simp: releaseHandle_def handleLocked_def Let_def result_known_def)
  qed
qed

lemma closed_answers:
  assumes ok: "handles_ok (handles_of w) run"
    and z: "map_of (wh_closed (handles_of w)) (rq_HandleID request) = Some z"
    and res: "map_of (wh_results (handles_of w)) (ch_resultID z) = Some res"
  shows "releaseHandle request w = Some ((replyWithHandle res (rq_HandleID request), hr_err res), w)"
    "commitHandle env request w = Some ((replyWithHandle res (rq_HandleID request), hr_err res), w)"
proof -
  have none: "map_of (wh_open (handles_of w)) (rq_HandleID request) = None"
    using openD [OF ok] z by (cases "map_of (wh_open (handles_of w)) (rq_HandleID request)") (auto simp: handle_ok_def)
  have "rq_HandleID request \<noteq> []" "ch_resultID z \<noteq> []"
    using closedD(1,2) [OF ok z] by auto
  then show "releaseHandle request w = Some ((replyWithHandle res (rq_HandleID request), hr_err res), w)"
    "commitHandle env request w = Some ((replyWithHandle res (rq_HandleID request), hr_err res), w)"
    using none z res by (simp_all add: releaseHandle_def commitHandle_def commit_look_def handleLocked_def closed_reply_def
        closedResultLocked_def answer_def ended_def)
qed

end
