(* ===== verification/Handle_Files.thy ===== *)
theory Handle_Files
  imports Handle_Machine Sync_Tree
begin

text \<open>
  What committing a handle does to the trees: a commit of a file puts the staged bytes at its path in the
  authoritative tree and in the mirror and leaves the other paths alone, and when it fails half way the
  old file comes back.
\<close>

section \<open>Putting a file\<close>

text \<open>Nothing is in the way of writing a file at \<open>p\<close>, also under the two names used on the way.\<close>

definition writable :: "string \<Rightarrow> tree \<Rightarrow> bool" where
  "writable p t \<longleftrightarrow> list_all (\<lambda>a. \<not> is_file (map_of t a)) (ancestors p) \<and> map_of t p \<noteq> Some DirNode \<and>
     map_of t (p @ commit_suffix) \<noteq> Some DirNode"

text \<open>\<open>u\<close> is \<open>t\<close> with \<open>n\<close> at \<open>p\<close>; missing directories above \<open>p\<close> are made.\<close>

definition file_put :: "string \<Rightarrow> node \<Rightarrow> tree \<Rightarrow> tree \<Rightarrow> bool" where
  "file_put p n t u \<longleftrightarrow> map_of u p = Some n \<and> (\<forall>a \<in> set (ancestors p). map_of u a = Some DirNode) \<and>
     map_of u (p @ commit_suffix) \<in> {None, map_of t (p @ commit_suffix)} \<and>
     (\<forall>q. q \<noteq> p \<longrightarrow> q \<noteq> p @ commit_suffix \<longrightarrow> q \<notin> set (ancestors p) \<longrightarrow> map_of u q = map_of t q)"

lemma writable_no_file: "writable p t \<Longrightarrow> no_file (set (ancestors p)) t"
  by (simp add: writable_def no_file_def list_all_iff)

lemma with_dirs_above: "no_file (set (ancestors p)) t \<Longrightarrow> a \<in> set (ancestors p) \<Longrightarrow> with_dirs (set (ancestors p)) t a = Some DirNode"
  by (auto simp: with_dirs_def no_file_def is_file_cases)

lemma self_not_above: "p \<notin> set (ancestors p)"
  by (auto simp: ancestors_iff)

lemma replaceFile_put:
  assumes p: "proper_path p" and t: "writable p t"
  obtains u where "replaceFileFromStaged created (Inr (FileNode data a b)) p md t = (None, u)"
    "file_put p (FileNode data (fm_Mode md) (fm_MTime md)) t u"
proof -
  note free = writable_no_file [OF t]
  obtain u where u: "replaceFileFromStaged created (Inr (FileNode data a b)) p md t = (None, u)"
    "map_of u = (\<lambda>q. if q = p then Some (FileNode data (fm_Mode md) (fm_MTime md))
       else if q = p @ commit_suffix then None else with_dirs (set (ancestors p)) t q)"
    using replaceFile_ok [OF p free, of created data a b md] t by (auto simp: writable_def)
  have "file_put p (FileNode data (fm_Mode md) (fm_MTime md)) t u"
    using with_dirs_above [OF free] commit_path(2) [OF p] self_not_above [of p] commit_suffix_facts(1)
    by (auto simp: file_put_def u(2) with_dirs_def)
  then show thesis using that u(1) by blast
qed

lemma mirrorFile_put:
  assumes p: "proper_path p" and free: "no_file (set (ancestors p)) t" and t: "map_of t p \<noteq> Some DirNode"
  obtains u where "mirrorFile (Inr (FileNode data a b)) p mode mtime t = (None, u)" "file_put p (FileNode data mode mtime) t u"
proof -
  obtain t1 where t1: "MkdirAll (workspace_parentPath p) t = Inr t1" "map_of t1 = with_dirs (set (ancestors p)) t"
    by (rule MkdirAll_parent [OF p free])
  have dir: "map_of t1 p \<noteq> Some DirNode"
    using t self_not_above [of p] by (auto simp: t1(2) with_dirs_def)
  then have "mirrorFile (Inr (FileNode data a b)) p mode mtime t = (None, AList.update p (FileNode data mode mtime) t1)"
    using parent_directory [OF p t1(2) free] t1(1) by (simp add: mirrorFile_def PutFile_def)
  moreover have "file_put p (FileNode data mode mtime) t (AList.update p (FileNode data mode mtime) t1)"
    using with_dirs_above [OF free] self_not_above [of p] commit_path(2) [OF p] commit_suffix_facts(1)
    by (auto simp: file_put_def t1(2) with_dirs_def)
  ultimately show thesis using that by blast
qed

lemma file_put_Stat:
  assumes "file_put p (FileNode d m s) t u" "proper_path p"
  shows "Stat u p = Inr (FileNode d m s)"
  using assms proper_path_not_Nil [OF assms(2)] by (auto simp: file_put_def Stat_def blocked_def list_ex_iff)

lemma file_put_writable: "file_put p (FileNode d m s) t u \<Longrightarrow> writable p t \<Longrightarrow> writable p u"
  by (auto simp: file_put_def writable_def list_all_iff)

lemma writable_capture:
  assumes "proper_path p" "writable p t"
  shows "\<exists>s. captureFileSnapshot t p = Inr s"
proof -
  have "\<not> blocked t p" using assms(2) by (auto simp: writable_def blocked_def list_ex_iff list_all_iff)
  then show ?thesis
    using assms proper_path_not_Nil [OF assms(1)]
    by (cases "map_of t p" rule: is_file.cases)
      (auto simp: captureFileSnapshot_def Stat_def errorsIsNotExist_def writable_def split: option.splits node.splits)
qed

section \<open>Committing a file\<close>

lemma tree_at_put [simp]: "tree_at pl (put_tree pl' t w) = (if pl = pl' then t else tree_at pl w)"
  by (cases pl; cases pl') simp_all

lemma put_tree_frame [simp]: "pw_temps (put_tree pl t w) = pw_temps w" "pw_owner (put_tree pl t w) = pw_owner w"
  "pw_state (put_tree pl t w) = pw_state w" "pw_authority (put_tree pl t w) = pw_authority w"
  by (cases pl; simp)+

lemma tree_at_frame [simp]: "tree_at pl (w\<lparr>pw_owner := o'\<rparr>) = tree_at pl w" "tree_at pl (w\<lparr>pw_state := s\<rparr>) = tree_at pl w"
  "tree_at pl (on_state f w) = tree_at pl w" "tree_at pl (on_handles g w) = tree_at pl w"
  by (cases pl; simp add: on_state_def on_handles_def)+

definition mirror_place :: "bool \<Rightarrow> tree_place" where
  "mirror_place m = (if m then AtMount else AtWorkspace)"

lemma replace_and_mirror_ok:
  assumes p: "proper_path (sh_path x)" and n: "n = FileNode data (fm_Mode (sh_metadata x)) (fm_MTime (sh_metadata x))"
    and src: "map_of (pw_temps w) (sh_tempPath x) = Some (FileNode data a b)"
    and t: "writable (sh_path x) (tree_at pl w)" "writable (sh_path x) (tree_at mp w)"
  shows "\<exists>w'. replace_and_mirror env x pl mp w = (None, w') \<and> file_put (sh_path x) n (tree_at pl w) (tree_at pl w') \<and>
    file_put (sh_path x) n (tree_at mp w) (tree_at mp w') \<and> (\<forall>z. z \<noteq> pl \<longrightarrow> z \<noteq> mp \<longrightarrow> tree_at z w' = tree_at z w) \<and>
    pw_state w' = pw_state w \<and> pw_owner w' = pw_owner w \<and> pw_authority w' = pw_authority w \<and>
    pw_temps w' = pw_temps w"
proof -
  let ?p = "sh_path x" and ?md = "sh_metadata x"
  obtain u where u: "replaceFileFromStaged (he_created env) (Inr (FileNode data a b)) ?p ?md (tree_at pl w) = (None, u)"
    "file_put ?p n (tree_at pl w) u"
    using replaceFile_put [OF p t(1)] n by metis
  have dir: "map_of (tree_at mp w) ?p \<noteq> Some DirNode" using t(2) by (simp add: writable_def)
  obtain v where v: "mirrorFile (Inr n) ?p (fm_Mode ?md) (fm_MTime ?md) (tree_at mp w) = (None, v)"
    "file_put ?p n (tree_at mp w) v"
    using mirrorFile_put [OF p writable_no_file [OF t(2)] dir] n by metis
  have "Stat u ?p = Inr n" using file_put_Stat [OF _ p] u(2) n by simp
  then show ?thesis
    using u v src by (auto simp: replace_and_mirror_def temp_source_def Let_def)
qed

definition owner_accepts :: "'o handle_env \<Rightarrow> stagedHandle \<Rightarrow> 'o project_workspace \<Rightarrow> bool" where
  "owner_accepts env x w \<longleftrightarrow> \<not> has_client w \<or> fst (streamOwnerFileApply env x w) = None"

definition owner_after :: "'o handle_env \<Rightarrow> stagedHandle \<Rightarrow> 'o project_workspace \<Rightarrow> 'o" where
  "owner_after env x w = (if has_client w then pw_owner (snd (streamOwnerFileApply env x w)) else pw_owner w)"

lemma streamOwnerFileApply_frame:
  assumes "streamOwnerFileApply env x w = (r, w')"
  shows "\<exists>owner. w' = w\<lparr>pw_owner := owner\<rparr>"
proof (cases "map_of (pw_temps w) (sh_tempPath x)")
  case None
  then have "w' = w\<lparr>pw_owner := pw_owner w\<rparr>" using assms by (simp add: streamOwnerFileApply_def)
  then show ?thesis by blast
next
  case (Some n)
  then show ?thesis using assms by (auto simp: streamOwnerFileApply_def Let_def split: prod.splits sum.splits option.splits)
qed

definition conservative_mode :: "'o project_workspace \<Rightarrow> bool" where
  "conservative_mode w \<longleftrightarrow> wv_conservative (ws_validation (pw_state w))"

lemma seed_after_frame:
  "tree_at pl (seed_after env paths w) = tree_at pl w" "pw_temps (seed_after env paths w) = pw_temps w"
  "pw_owner (seed_after env paths w) = pw_owner w" "handles_of (seed_after env paths w) = handles_of w"
  "committed_of (seed_after env paths w) = committed_of w" "pw_authority (seed_after env paths w) = pw_authority w"
  "conservative_mode (seed_after env paths w) = conservative_mode w"
proof -
  have obs: "ws_handles (fold setConservativeObservationLocked obs s) = ws_handles s \<and>
      wv_conservative (ws_validation (fold setConservativeObservationLocked obs s)) = wv_conservative (ws_validation s) \<and>
      ws_committed (fold setConservativeObservationLocked obs s) = ws_committed s" for obs s
    by (induction obs arbitrary: s) (simp_all add: setConservativeObservationLocked_def Let_def)
  show "tree_at pl (seed_after env paths w) = tree_at pl w" "pw_temps (seed_after env paths w) = pw_temps w"
    "pw_owner (seed_after env paths w) = pw_owner w" "handles_of (seed_after env paths w) = handles_of w"
    "committed_of (seed_after env paths w) = committed_of w" "pw_authority (seed_after env paths w) = pw_authority w"
    "conservative_mode (seed_after env paths w) = conservative_mode w"
    using obs by (auto simp: conservative_mode_def seed_after_def on_state_def handles_of_def committed_of_def seedConservativePaths_def split: sum.splits)
qed

lemma clear_no_paths [simp]: "clear_paths [] s = s"
  by (simp add: clear_paths_def clearConservativePathsLocked_def uniqueWorkspacePaths_def uniqueStrings_def)

lemma bump_path_generation:
  assumes "bumpPathGenerationsLocked p c = (reply, c')"
  shows "gen_at (wc_objectGen c') p = gen_at (wc_objectGen c) p + 1" "rp_ObjectGeneration reply = gen_at (wc_objectGen c') p"
  using assms by (auto simp: bumpPathGenerationsLocked_def Let_def bump_object_def bump_dir_def bump_def gen_at_def give_identity_def
      nextObjectIdentityLocked_def committedReplyLocked_def split: if_splits prod.splits)

text \<open>A commit of a file for which nothing is in the way.\<close>

lemma commitStagedFile_ok:
  assumes p: "proper_path (sh_path x)" and n: "n = FileNode data (fm_Mode (sh_metadata x)) (fm_MTime (sh_metadata x))"
    and src: "map_of (pw_temps w) (sh_tempPath x) = Some (FileNode data a b)"
    and m: "he_mirror env = Inr m" and owner: "owner_accepts env x w"
    and t: "writable (sh_path x) (tree_at (commit_place w) w)" "writable (sh_path x) (tree_at (mirror_place m) w)"
  shows "\<exists>reply w'. commitStagedFile env x w = ((reply, None), w') \<and>
    file_put (sh_path x) n (tree_at (commit_place w) w) (tree_at (commit_place w) w') \<and>
    file_put (sh_path x) n (tree_at (mirror_place m) w) (tree_at (mirror_place m) w') \<and>
    (\<forall>z. z \<noteq> commit_place w \<longrightarrow> z \<noteq> mirror_place m \<longrightarrow> tree_at z w' = tree_at z w) \<and> pw_owner w' = owner_after env x w \<and>
    pw_authority w' = pw_authority w \<and> pw_temps w' = pw_temps w \<and> conservative_mode w' = conservative_mode w \<and>
    handles_of w' = handles_of w \<and> rp_Invalidations reply = DataPath (sh_path x) \<and>
    gen_at (wc_objectGen (committed_of w')) (sh_path x) = gen_at (wc_objectGen (committed_of w)) (sh_path x) + 1 \<and>
    rp_ObjectGeneration reply = gen_at (wc_objectGen (committed_of w')) (sh_path x)"
proof -
  let ?p = "sh_path x" and ?pl = "commit_place w" and ?mp = "mirror_place m"
  obtain owner' where o': "(if has_client w then streamOwnerFileApply env x w else (None, w)) = (None, w\<lparr>pw_owner := owner'\<rparr>)"
    "owner' = owner_after env x w"
  proof (cases "has_client w")
    case True
    obtain r v where v: "streamOwnerFileApply env x w = (r, v)" by (meson surj_pair)
    have "r = None" using v owner True by (simp add: owner_accepts_def)
    obtain s where s: "v = w\<lparr>pw_owner := s\<rparr>" using streamOwnerFileApply_frame [OF v] by blast
    show thesis by (rule that [of s]) (use v True s \<open>r = None\<close> in \<open>simp_all add: owner_after_def\<close>)
  next
    case False
    show thesis by (rule that [of "pw_owner w"]) (use False in \<open>simp_all add: owner_after_def\<close>)
  qed
  let ?w = "w\<lparr>pw_owner := owner'\<rparr>"
  have "writable ?p (tree_at ?pl ?w)" "writable ?p (tree_at ?mp ?w)" using t by simp_all
  then obtain s1 s2 where "captureFileSnapshot (tree_at ?pl ?w) ?p = Inr s1" "captureFileSnapshot (tree_at ?mp ?w) ?p = Inr s2"
    using writable_capture [OF p] by meson
  then have cap: "\<exists>s. capture_all ?p (if ?pl = ?mp then [?pl] else [?pl, ?mp]) ?w = Inr s" by (simp add: capture_all_def)
  obtain w1 where w1: "replace_and_mirror env x ?pl ?mp ?w = (None, w1)"
    "file_put ?p n (tree_at ?pl w) (tree_at ?pl w1)" "file_put ?p n (tree_at ?mp w) (tree_at ?mp w1)"
    "\<forall>z. z \<noteq> ?pl \<longrightarrow> z \<noteq> ?mp \<longrightarrow> tree_at z w1 = tree_at z w" "pw_state w1 = pw_state w" "pw_owner w1 = owner'" "pw_authority w1 = pw_authority w"
    "pw_temps w1 = pw_temps w"
    using replace_and_mirror_ok [OF p n, of ?w a b ?pl ?mp env] src t by auto
  obtain reply c where bump: "bumpPathGenerationsLocked ?p (committed_of w1) = (reply, c)" by (meson surj_pair)
  define w' where "w' = seed_after env (conservativePathsForAccess ?p) (on_state (\<lambda>s. clear_paths [] (s\<lparr>ws_committed := c\<rparr>)) w1)"
  have "commitStagedFile env x w = ((reply\<lparr>rp_Invalidations := DataPath ?p\<rparr>, None), w')"
    using o'(1) cap w1(1) m bump
    by (auto simp: commitStagedFile_def Let_def commit_bumped_def mirror_place_def [symmetric] w'_def simp del: clear_no_paths)
  moreover have "committed_of w' = c" "handles_of w' = handles_of w1" "pw_owner w' = pw_owner w1" "pw_authority w' = pw_authority w1" "pw_temps w' = pw_temps w1"
    "conservative_mode w' = conservative_mode w1"
    by (simp_all add: w'_def seed_after_frame)
      (simp_all add: committed_of_def handles_of_def on_state_def conservative_mode_def)
  moreover have "tree_at z w' = tree_at z w1" for z by (simp add: w'_def seed_after_frame)
  moreover have "committed_of w1 = committed_of w" "handles_of w1 = handles_of w" "conservative_mode w1 = conservative_mode w"
    using w1(5) by (simp_all add: committed_of_def handles_of_def conservative_mode_def)
  ultimately show ?thesis
    using w1(2-8) o'(2) bump_path_generation [OF bump] by simp
qed

section \<open>A flush that is alone\<close>

definition begun_handle :: "stagedHandle \<Rightarrow> 'o project_workspace \<Rightarrow> stagedHandle" where
  "begun_handle x w = x\<lparr>sh_transactionID := txn_id (wh_nextTxnID (handles_of w) + 1), sh_state := stagedHandleCommitting\<rparr>"

definition begun_state :: "stagedHandle \<Rightarrow> 'o project_workspace \<Rightarrow> 'o project_workspace" where
  "begun_state x w = on_handles (\<lambda>h. put_handle (begun_handle x w) (h\<lparr>wh_nextTxnID := wh_nextTxnID h + 1,
     wh_transactions := AList.update (txn_id (wh_nextTxnID h + 1)) () (wh_transactions h)\<rparr>)) w"

text \<open>A handle with a change that is waiting to be committed, and whose preconditions hold.\<close>

definition ready_to_commit :: "string \<Rightarrow> stagedHandle \<Rightarrow> 'o project_workspace \<Rightarrow> bool" where
  "ready_to_commit i x w \<longleftrightarrow> i \<noteq> [] \<and> map_of (wh_open (handles_of w)) i = Some x \<and> sh_handleID x = i \<and>
     sh_state x = stagedHandleDirty \<and> failed_precondition (sh_preconditions x) (committed_of w) = None"

lemma commit_begin_ready:
  "ready_to_commit i x w \<Longrightarrow>
   commit_begin i w = (CommitGo (txn_id (wh_nextTxnID (handles_of w) + 1), begun_handle x w), begun_state x w)"
  by (simp add: ready_to_commit_def commit_begin_def handleLocked_def beginTransactionLocked_def begun_handle_def begun_state_def
      on_handles_def on_state_def handles_of_def Let_def)

text \<open>How a commit ends, and that its outcome is remembered.\<close>

lemma commit_finish_remembers:
  assumes x: "map_of (wh_open (handles_of w)) i = Some x" "sh_handleID x = i" "sh_transactionID x = txn"
  obtains h where "commit_finish i txn (reply, e) w = (CommitReply (reply\<lparr>rp_HandleID := i\<rparr>, e), on_handles (\<lambda>_. h) w)"
    "commit_look i (on_handles (\<lambda>_. h) w) = (CommitReply (reply\<lparr>rp_HandleID := i\<rparr>, e), on_handles (\<lambda>_. h) w)"
    "\<And>j. j \<noteq> i \<Longrightarrow> map_of (wh_open h) j = map_of (wh_open (handles_of w)) j"
proof -
  let ?st = "if e = None then stagedHandleCommitted else stagedHandleFailed"
  obtain res y h where fin: "finishTransactionLocked x ?st reply e (handles_of w) = (res, y, h)" by (meson prod_cases3)
  have y: "sh_handleID y = i" "sh_state y = ?st" "sh_resultID y \<noteq> []" "map_of (wh_results h) (sh_resultID y) = Some res"
    "res = \<lparr>hr_reply = reply, hr_err = e\<rparr>" "wh_open h = wh_open (handles_of w)"
    using fin x(2) by (auto simp: finishTransactionLocked_def setHandleResultLocked_def recordResultLocked_def clearResultLocked_def Let_def)
  let ?w = "on_handles (\<lambda>_. put_handle y h) w"
  have "commit_finish i txn (reply, e) w = (CommitReply (reply\<lparr>rp_HandleID := i\<rparr>, e), ?w)"
    using x fin y by (simp add: commit_finish_def handleLocked_def replyWithHandle_def Let_def)
  moreover have "commit_look i ?w = (CommitReply (reply\<lparr>rp_HandleID := i\<rparr>, e), ?w)"
    using y by (auto simp: commit_look_def handleLocked_def openResultLocked_def replyWithHandle_def split: if_splits)
  ultimately show thesis using that [of "put_handle y h"] y by simp
qed

lemma flush_ready:
  assumes r: "ready_to_commit i x w" and quiet: "\<not> conservative_mode w"
    and c: "commitStagedHandle env (begun_handle x w) (begun_state x w) = ((reply, e), w2)"
    and h: "handles_of w2 = handles_of (begun_state x w)"
  obtains w3 h where "commitHandle env (request\<lparr>rq_HandleID := i\<rparr>) w = Some ((reply\<lparr>rp_HandleID := i\<rparr>, e), w3)"
    "w3 = on_handles (\<lambda>_. h) w2"
    "commitHandle env (request\<lparr>rq_HandleID := i\<rparr>) w3 = Some ((reply\<lparr>rp_HandleID := i\<rparr>, e), w3)"
proof -
  let ?txn = "txn_id (wh_nextTxnID (handles_of w) + 1)"
  have x: "map_of (wh_open (handles_of w2)) i = Some (begun_handle x w)" "sh_handleID (begun_handle x w) = i"
    "sh_transactionID (begun_handle x w) = ?txn"
    using r by (auto simp: h begun_state_def ready_to_commit_def begun_handle_def)
  obtain h' where fin: "commit_finish i ?txn (reply, e) w2 = (CommitReply (reply\<lparr>rp_HandleID := i\<rparr>, e), on_handles (\<lambda>_. h') w2)"
    "commit_look i (on_handles (\<lambda>_. h') w2) = (CommitReply (reply\<lparr>rp_HandleID := i\<rparr>, e), on_handles (\<lambda>_. h') w2)"
    using commit_finish_remembers [OF x] by metis
  have look: "commit_look i w = (CommitGo (conservativePathsForMutation (sh_path x) (sh_newPath x) (sh_preconditions x)), w)"
    using r by (simp add: commit_look_def handleLocked_def ready_to_commit_def)
  have "commitHandle env (request\<lparr>rq_HandleID := i\<rparr>) w = Some ((reply\<lparr>rp_HandleID := i\<rparr>, e), on_handles (\<lambda>_. h') w2)"
    using r quiet look commit_begin_ready [OF r] c fin(1)
    by (simp add: commitHandle_def Let_def revalidateConservativePaths_def conservative_mode_def answer_def ended_def ready_to_commit_def)
  moreover have "commitHandle env (request\<lparr>rq_HandleID := i\<rparr>) (on_handles (\<lambda>_. h') w2) =
      Some ((reply\<lparr>rp_HandleID := i\<rparr>, e), on_handles (\<lambda>_. h') w2)"
    using r fin(2) by (simp add: commitHandle_def Let_def answer_def ended_def ready_to_commit_def)
  ultimately show thesis using that by blast
qed

lemma begun_frame [simp]:
  "tree_at pl (begun_state x w) = tree_at pl w" "pw_temps (begun_state x w) = pw_temps w" "committed_of (begun_state x w) = committed_of w"
  "commit_place (begun_state x w) = commit_place w" "has_client (begun_state x w) = has_client w"
  "pw_authority (begun_state x w) = pw_authority w" "conservative_mode (begun_state x w) = conservative_mode w"
  by (cases pl; simp add: conservative_mode_def begun_state_def on_handles_def on_state_def committed_of_def commit_place_def has_client_def authoritativePath_def)+

lemma owner_begun [simp]:
  "owner_accepts env (begun_handle x w) (begun_state x w) = owner_accepts env x w"
  "owner_after env (begun_handle x w) (begun_state x w) = owner_after env x w"
proof -
  have "fst (streamOwnerFileApply env (begun_handle x w) (begun_state x w)) = fst (streamOwnerFileApply env x w)"
    "pw_owner (snd (streamOwnerFileApply env (begun_handle x w) (begun_state x w))) = pw_owner (snd (streamOwnerFileApply env x w))"
    "pw_owner (begun_state x w) = pw_owner w"
    by (auto simp: streamOwnerFileApply_def begun_handle_def begun_state_def on_handles_def on_state_def Let_def
        split: option.splits prod.splits sum.splits)
  then show "owner_accepts env (begun_handle x w) (begun_state x w) = owner_accepts env x w"
    "owner_after env (begun_handle x w) (begun_state x w) = owner_after env x w"
    by (simp_all add: owner_accepts_def owner_after_def)
qed

definition file_ops :: "FsOperation set" where
  "file_ops = {FsOpCreate, FsOpWrite, FsOpTruncate, FsOpChmod, FsOpUtimens}"

lemma commit_file: "sh_op x \<in> file_ops \<Longrightarrow> commitStagedHandle env (begun_handle x w) v = commitStagedFile env (begun_handle x w) v"
  by (auto simp: commitStagedHandle_def file_ops_def begun_handle_def)

lemma flush_file:
  assumes r: "ready_to_commit i x w" and quiet: "\<not> conservative_mode w" and op: "sh_op x \<in> file_ops"
    and p: "proper_path (sh_path x)" and n: "n = FileNode data (fm_Mode (sh_metadata x)) (fm_MTime (sh_metadata x))"
    and src: "map_of (pw_temps w) (sh_tempPath x) = Some (FileNode data a b)"
    and m: "he_mirror env = Inr m" and owner: "owner_accepts env x w"
    and t: "writable (sh_path x) (tree_at (commit_place w) w)" "writable (sh_path x) (tree_at (mirror_place m) w)"
  shows "\<exists>reply w'. commitHandle env (request\<lparr>rq_HandleID := i\<rparr>) w = Some ((reply, None), w') \<and>
    commitHandle env (request\<lparr>rq_HandleID := i\<rparr>) w' = Some ((reply, None), w') \<and>
    file_put (sh_path x) n (tree_at (commit_place w) w) (tree_at (commit_place w) w') \<and>
    file_put (sh_path x) n (tree_at (mirror_place m) w) (tree_at (mirror_place m) w') \<and>
    (\<forall>z. z \<noteq> commit_place w \<longrightarrow> z \<noteq> mirror_place m \<longrightarrow> tree_at z w' = tree_at z w) \<and> pw_owner w' = owner_after env x w \<and>
    pw_authority w' = pw_authority w \<and> conservative_mode w' = conservative_mode w \<and>
    rp_Invalidations reply = DataPath (sh_path x) \<and>
    gen_at (wc_objectGen (committed_of w')) (sh_path x) = gen_at (wc_objectGen (committed_of w)) (sh_path x) + 1 \<and>
    rp_ObjectGeneration reply = gen_at (wc_objectGen (committed_of w')) (sh_path x)"
proof -
  let ?x = "begun_handle x w" and ?w = "begun_state x w" and ?p = "sh_path x"
  have same: "sh_path ?x = ?p" "sh_tempPath ?x = sh_tempPath x" "sh_metadata ?x = sh_metadata x" by (simp_all add: begun_handle_def)
  obtain reply w2 where c: "commitStagedFile env ?x ?w = ((reply, None), w2)"
    and e: "file_put ?p n (tree_at (commit_place w) w) (tree_at (commit_place w) w2)"
      "file_put ?p n (tree_at (mirror_place m) w) (tree_at (mirror_place m) w2)"
      "\<forall>z. z \<noteq> commit_place w \<longrightarrow> z \<noteq> mirror_place m \<longrightarrow> tree_at z w2 = tree_at z w" "pw_owner w2 = owner_after env x w"
      "pw_authority w2 = pw_authority w" "conservative_mode w2 = conservative_mode w"
      "rp_Invalidations reply = DataPath ?p"
      "gen_at (wc_objectGen (committed_of w2)) ?p = gen_at (wc_objectGen (committed_of w)) ?p + 1"
      "rp_ObjectGeneration reply = gen_at (wc_objectGen (committed_of w2)) ?p"
    and h: "handles_of w2 = handles_of ?w"
    using commitStagedFile_ok [of ?x n data ?w a b env m] p n src m owner t same by auto
  obtain w3 h' where "commitHandle env (request\<lparr>rq_HandleID := i\<rparr>) w = Some ((reply\<lparr>rp_HandleID := i\<rparr>, None), w3)"
    "w3 = on_handles (\<lambda>_. h') w2"
    "commitHandle env (request\<lparr>rq_HandleID := i\<rparr>) w3 = Some ((reply\<lparr>rp_HandleID := i\<rparr>, None), w3)"
    using flush_ready [OF r quiet _ h] c commit_file [OF op] by metis
  moreover have "committed_of (on_handles (\<lambda>_. h') w2) = committed_of w2" "pw_owner (on_handles (\<lambda>_. h') w2) = pw_owner w2"
    "pw_authority (on_handles (\<lambda>_. h') w2) = pw_authority w2" "conservative_mode (on_handles (\<lambda>_. h') w2) = conservative_mode w2"
    by (simp_all add: conservative_mode_def committed_of_def on_handles_def on_state_def)
  ultimately show ?thesis using e by auto
qed

end
