(* ===== verification/Handle_Results.thy ===== *)
theory Handle_Results
  imports Handle_Files Sync_Transfer
begin

text \<open>
  The properties of the file handles: what a client has written reaches the file and the owner, and a commit
  on an outdated state is refused; and where the code falls short of this: the check of the
  preconditions and the change of the generation are not one step, so of two commits at the same time one
  is lost.
\<close>

section \<open>The owner\<close>

text \<open>
  An owner that keeps what is uploaded: \<open>got\<close> reads the bytes that have arrived. This is what the daemon
  relies on.
\<close>

definition stores_uploads :: "'o owner_client \<Rightarrow> ('o \<Rightarrow> string) \<Rightarrow> bool" where
  "stores_uploads client got \<longleftrightarrow>
     (\<forall>op p md n s. \<exists>u s'. oc_BeginFileUpload client op p md n s = (Inr u, s') \<and> got s' = []) \<and>
     (\<forall>u d s. \<exists>s'. oc_ApplyFileChunk client u (int (length (got s))) d s = (None, s') \<and> got s' = got s @ d) \<and>
     (\<forall>u s. \<exists>s'. oc_CommitFileUpload client u s = (None, s') \<and> got s' = got s)"

lemma send_pieces_stored:
  assumes "stores_uploads client got" "off = int (length (got s))"
  shows "\<exists>s'. send_pieces client u off pieces s = (None, s') \<and> got s' = got s @ concat pieces"
  using assms(2)
proof (induction pieces arbitrary: off s)
  case (Cons d pieces)
  obtain s1 where s1: "oc_ApplyFileChunk client u (int (length (got s))) d s = (None, s1)" "got s1 = got s @ d"
    using assms(1) unfolding stores_uploads_def by meson
  then show ?case using Cons.IH [of "off + int (length d)" s1] Cons.prems by simp
qed simp

lemma upload_stored:
  assumes st: "stores_uploads (he_client env) got" and src: "map_of (pw_temps w) (sh_tempPath x) = Some (FileNode data a b)"
  shows "\<exists>s. streamOwnerFileApply env x w = (None, w\<lparr>pw_owner := s\<rparr>) \<and> got s = data"
proof -
  let ?c = "he_client env" and ?md = "(sh_metadata x)\<lparr>fm_Size := int (length data)\<rparr>"
  obtain u s1 where s1: "oc_BeginFileUpload ?c (sh_op x) (sh_path x) ?md (int (length data)) (pw_owner w) = (Inr u, s1)" "got s1 = []"
    using st unfolding stores_uploads_def by meson
  obtain s2 where s2: "send_pieces ?c u 0 (chunks_of (nat ownerFileUploadChunkSize) data) s1 = (None, s2)" "got s2 = data"
    using send_pieces_stored [OF st, of 0 s1 u "chunks_of (nat ownerFileUploadChunkSize) data"] s1(2)
    by (auto simp: concat_chunks_of ownerFileUploadChunkSize_def)
  obtain s3 where s3: "oc_CommitFileUpload ?c u s2 = (None, s3)" "got s3 = got s2"
    using st unfolding stores_uploads_def by meson
  show ?thesis by (rule exI [of _ s3]) (use src s1 s2 s3 in \<open>simp add: streamOwnerFileApply_def send_temp_def Let_def\<close>)
qed

section \<open>Writing and flushing\<close>

text \<open>A handle with a temporary file of the bytes \<open>old\<close>, at rest and with no recorded failure.\<close>

definition staged_file :: "string \<Rightarrow> stagedHandle \<Rightarrow> string \<Rightarrow> 'o project_workspace \<Rightarrow> bool" where
  "staged_file i x old w \<longleftrightarrow> i \<noteq> [] \<and> map_of (wh_open (handles_of w)) i = Some x \<and> sh_handleID x = i \<and>
     sh_state x \<in> {stagedHandleClean, stagedHandleDirty} \<and> sh_backingKind x = stagedHandleBackingStagedTemp \<and>
     sh_newPath x = [] \<and> sh_tempPath x \<noteq> [] \<and>
     (case map_of (pw_temps w) (sh_tempPath x) of Some (FileNode data _ _) \<Rightarrow> data = old | _ \<Rightarrow> False)"

definition on_handle :: "string \<Rightarrow> stagedHandle \<Rightarrow> FsRequest \<Rightarrow> bool" where
  "on_handle i x request \<longleftrightarrow> rq_HandleID request = i \<and> rq_Path request = sh_path x \<and> rq_NewPath request = []"

definition after_write :: "'o handle_env \<Rightarrow> FsRequest \<Rightarrow> string \<Rightarrow> stagedHandle \<Rightarrow> stagedHandle" where
  "after_write env request old x =
     x\<lparr>sh_metadata := (sh_metadata x)\<lparr>fm_MTime := he_now env,
        fm_Size := int (length (write_at (nat (rq_Offset request)) (rq_Data request) old))\<rparr>,
       sh_op := FsOpWrite, sh_state := stagedHandleDirty\<rparr>"

definition write_state :: "'o handle_env \<Rightarrow> FsRequest \<Rightarrow> string \<Rightarrow> stagedHandle \<Rightarrow> 'o project_workspace \<Rightarrow> 'o project_workspace" where
  "write_state env request old x w = on_handles (put_handle (after_write env request old x))
     (set_temp (sh_tempPath x) (temp_file (write_at (nat (rq_Offset request)) (rq_Data request) old) (he_now env)) w)"

lemma stage_write:
  assumes x: "staged_file i x old w" and r: "on_handle i x request" "0 \<le> rq_Offset request"
  shows "stageHandleMutation env FsOpWrite request preconditions w =
    Some ((staged_reply request (after_write env request old x) (write_state env request old x w), None),
          write_state env request old x w)"
proof -
  have "stage_handle env FsOpWrite request preconditions (FsOpWrite = FsOpCreate) w = Some (StagingHandle x, w)"
    using x r by (auto simp: stage_handle_def ensureHandle_def known_handle_def handleLocked_def staged_file_def on_handle_def
        failedHandleResult_def prepareHandleForMutation_def)
  moreover obtain a b where "map_of (pw_temps w) (sh_tempPath x) = Some (FileNode old a b)"
    using x by (auto simp: staged_file_def split: option.splits node.splits)
  ultimately show ?thesis
    using x r(2) by (simp add: stageHandleMutation_def stage_data_def open_temp_def staged_file_def after_write_def write_state_def Let_def
        FsOpWrite_def FsOpOpen_def FsOpCreate_def)
qed

lemma write_state_frame [simp]:
  "tree_at pl (write_state env request old x w) = tree_at pl w"
  "committed_of (write_state env request old x w) = committed_of w"
  "commit_place (write_state env request old x w) = commit_place w"
  "has_client (write_state env request old x w) = has_client w"
  "conservative_mode (write_state env request old x w) = conservative_mode w"
  "pw_authority (write_state env request old x w) = pw_authority w"
  "waitForMutationAuthority (write_state env request old x w) = waitForMutationAuthority w"
  by (cases pl; simp add: write_state_def on_handles_def on_state_def set_temp_def committed_of_def commit_place_def has_client_def
      conservative_mode_def authoritativePath_def waitForMutationAuthority_def)+

definition at_peace :: "'o project_workspace \<Rightarrow> bool" where
  "at_peace w \<longleftrightarrow> \<not> conservative_mode w \<and> waitForMutationAuthority w = Some (Inr ())"

lemma mutation_dispatched:
  assumes "at_peace w" "validateWorkspacePath (rq_Path request) = None" "rq_NewPath request = []"
  shows "Manager_FsMutationContext env op request [] w = dispatch env op request [] w"
  using assms by (simp add: Manager_FsMutationContext_def at_peace_def conservative_mode_def revalidateConservativePaths_def failed_precondition_def)

lemma flush_dispatch: "dispatch env FsOpFlush request preconditions w = commitHandle env request w"
  by (simp add: dispatch_def fs_ops)

lemma valid_path_proper: "validateWorkspacePath p = None \<Longrightarrow> proper_path p"
  using ValidateRelativePath_elements by (simp add: validateWorkspacePath_def proper_path_def)


subsection \<open>A concrete project\<close>

definition demo_client :: "string owner_client" where
  "demo_client = \<lparr>oc_GetAttr = (\<lambda>_ _. Inl ENOENT), oc_Read = (\<lambda>_ _ _ _. Inr []), oc_Apply = (\<lambda>_ _ _ _ s. (None, s)),
     oc_BeginFileUpload = (\<lambda>_ _ _ _ _. (Inr ''up'', [])), oc_ApplyFileChunk = (\<lambda>_ _ d s. (None, s @ d)),
     oc_CommitFileUpload = (\<lambda>_ s. (None, s)), oc_AbortFileUpload = (\<lambda>_ _ s. s)\<rparr>"

definition demo_handle_env :: "string handle_env" where
  "demo_handle_env = \<lparr>he_client = demo_client, he_mirror = Inr True, he_now = 7, he_temp = (\<lambda>_. ''tmp''), he_dirinfo = zero_FileMetadata,
     he_created = (\<lambda>mode. FileNode [] mode 7), he_observed = (\<lambda>_. Inr [])\<rparr>"

definition demo_handle :: "string \<Rightarrow> string \<Rightarrow> stagedHandle" where
  "demo_handle i temp =
     \<lparr>sh_handleID = i, sh_op = FsOpOpen, sh_path = ''d/f'', sh_newPath = [], sh_tempPath = temp, sh_targetKind = stagedHandleTargetFile,
      sh_backingKind = stagedHandleBackingStagedTemp, sh_openIntent = FsOpenIntentWritable,
      sh_metadata = \<lparr>fm_Mode = 420, fm_MTime = 5, fm_Size = 5\<rparr>,
      sh_preconditions = [\<lparr>pc_Path = ''d/f'', pc_ObjectGeneration = 1, pc_DirGeneration = 0, pc_MustNotExist = False, pc_ObjectIdentity = []\<rparr>],
      sh_state = stagedHandleClean, sh_resultID = [], sh_transactionID = []\<rparr>"

definition demo_tree :: tree where
  "demo_tree = [(''d'', DirNode), (''d/f'', FileNode ''hello'' 420 5)]"

definition demo_workspace :: "(string, stagedHandle) gomap \<Rightarrow> string project_workspace" where
  "demo_workspace handles =
     \<lparr>pw_state = new_workspaceState\<lparr>
        ws_committed := (ws_committed new_workspaceState)\<lparr>wc_objectGen := [(''d/f'', 1)]\<rparr>,
        ws_handles := (ws_handles new_workspaceState)\<lparr>wh_open := handles, wh_nextHandleID := 2\<rparr>\<rparr>,
      pw_authority = \<lparr>au_root = [], au_client = Some 0, au_state = AuthorityStateStable, au_managed = True\<rparr>,
      pw_workspace = demo_tree, pw_mount = demo_tree, pw_root = [], pw_temps = [(''t1'', FileNode ''hello'' 384 5), (''t2'', FileNode ''world'' 384 5)],
      pw_owner = []\<rparr>"

definition demo_request :: FsRequest where
  "demo_request = \<lparr>rq_Path = ''d/f'', rq_NewPath = [], rq_HandleID = ''handle-0001'', rq_OpenIntent = FsOpenIntentWritable, rq_Offset = 4,
     rq_Size = 0, rq_Mode = 420, rq_Data = ''ship''\<rparr>"

definition demo_open :: "string project_workspace" where
  "demo_open = demo_workspace [(''handle-0001'', demo_handle ''handle-0001'' ''t1'')]"

lemma demo_stores: "stores_uploads demo_client (\<lambda>s. s)"
  by (simp add: stores_uploads_def demo_client_def)

lemma demo_open_facts:
  "staged_file ''handle-0001'' (demo_handle ''handle-0001'' ''t1'') ''hello'' demo_open" "at_peace demo_open"
  "validateWorkspacePath (sh_path (demo_handle ''handle-0001'' ''t1'')) = None"
  "failed_precondition (sh_preconditions (demo_handle ''handle-0001'' ''t1'')) (committed_of demo_open) = None"
  "on_handle ''handle-0001'' (demo_handle ''handle-0001'' ''t1'') demo_request"
  "writable (sh_path (demo_handle ''handle-0001'' ''t1'')) (tree_at (commit_place demo_open) demo_open)"
  "writable (sh_path (demo_handle ''handle-0001'' ''t1'')) (tree_at (mirror_place True) demo_open)"
  by code_simp+


section \<open>Commits that are refused\<close>

text \<open>
  C27: A commit on an outdated state is refused and changes nothing. When an open handle with a change of a
  single path in a temporary file is flushed, outside conservative mode, and one of its preconditions
  (generation, identity, absence) no longer holds, the caller gets this conflict; the trees, the owner and the generations stay as they were; and the handle is finished:
  another flush and every change of the file that names the handle and its path give the same conflict
  again and do nothing.
\<close>

theorem stale_commit_refused:
  assumes i: "i \<noteq> []" and x: "map_of (wh_open (handles_of w)) i = Some x" "sh_handleID x = i" "sh_state x = stagedHandleDirty"
    and quiet: "\<not> conservative_mode w" and staged: "sh_backingKind x = stagedHandleBackingStagedTemp" "sh_newPath x = []"
    and stale: "failed_precondition (sh_preconditions x) (committed_of w) = Some e" and req: "on_handle i x request"
  shows "\<exists>reply w'. commitHandle env request w = Some ((reply, Some e), w') \<and> rp_Conflict reply \<and>
    (\<forall>z. tree_at z w' = tree_at z w) \<and> pw_owner w' = pw_owner w \<and> committed_of w' = committed_of w \<and>
    commitHandle env request w' = Some ((reply, Some e), w') \<and>
    (\<forall>op preconditions. stageHandleMutation env op request preconditions w' = Some ((reply, Some e), w'))"
proof -
  let ?conflict = "zero_FsReply\<lparr>rp_Conflict := True\<rparr>"
  obtain res y h where set: "setHandleResultLocked x stagedHandleFailed ?conflict (Some e) (handles_of w) = (res, y, h)"
    by (meson prod_cases3)
  have y: "sh_handleID y = i" "sh_state y = stagedHandleFailed" "sh_resultID y \<noteq> []" "map_of (wh_results h) (sh_resultID y) = Some res"
    "res = \<lparr>hr_reply = ?conflict, hr_err = Some e\<rparr>" "sh_path y = sh_path x" "sh_newPath y = []" "sh_backingKind y = sh_backingKind x"
    using set x(2) staged by (auto simp: setHandleResultLocked_def recordResultLocked_def clearResultLocked_def Let_def)
  let ?reply = "?conflict\<lparr>rp_HandleID := i\<rparr>" and ?w = "on_handles (\<lambda>_. put_handle y h) w"
  have look: "commit_look i w = (CommitGo (conservativePathsForMutation (sh_path x) (sh_newPath x) (sh_preconditions x)), w)"
    using x by (simp add: commit_look_def handleLocked_def)
  have begun: "commit_begin i w = (CommitReply (?reply, Some e), ?w)"
    using x stale set y by (simp add: commit_begin_def handleLocked_def set_result_def replyWithHandle_def)
  have "commitHandle env request w = Some ((?reply, Some e), ?w)"
    using i req quiet look begun
    by (simp add: commitHandle_def on_handle_def Let_def revalidateConservativePaths_def conservative_mode_def answer_def ended_def)
  moreover have "commitHandle env request ?w = Some ((?reply, Some e), ?w)"
    using i req y by (simp add: commitHandle_def on_handle_def Let_def commit_look_def handleLocked_def openResultLocked_def answer_def
        ended_def replyWithHandle_def)
  moreover have "stageHandleMutation env op request preconditions ?w = Some ((?reply, Some e), ?w)" for op preconditions
    using i req y staged by (simp add: stageHandleMutation_def stage_handle_def ensureHandle_def known_handle_def on_handle_def
        handleLocked_def failedHandleResult_def openResultLocked_def replyWithHandle_def)
  moreover have "pw_owner ?w = pw_owner w" "committed_of ?w = committed_of w"
    by (simp_all add: on_handles_def on_state_def committed_of_def)
  ultimately show ?thesis by (intro exI [of _ ?reply] exI [of _ ?w]) (simp add: zero_FsReply_def)
qed

definition demo_stale :: "string project_workspace" where
  "demo_stale = (demo_workspace [(''handle-0001'', (demo_handle ''handle-0001'' ''t1'')\<lparr>sh_state := stagedHandleDirty\<rparr>)])
     \<lparr>pw_state := (pw_state demo_open)\<lparr>ws_committed := (ws_committed new_workspaceState)\<lparr>wc_objectGen := [(''d/f'', 2)]\<rparr>,
        ws_handles := (ws_handles new_workspaceState)\<lparr>wh_open :=
          [(''handle-0001'', (demo_handle ''handle-0001'' ''t1'')\<lparr>sh_state := stagedHandleDirty\<rparr>)]\<rparr>\<rparr>\<rparr>"

theorem stale_commit_refused_witness:
  "\<exists>reply w'. commitHandle demo_handle_env demo_request demo_stale =
      Some ((reply, Some (NewError ErrConflict ''object generation precondition failed'')), w') \<and> rp_Conflict reply \<and>
    (\<forall>z. tree_at z w' = tree_at z demo_stale)"
proof -
  let ?x = "(demo_handle ''handle-0001'' ''t1'')\<lparr>sh_state := stagedHandleDirty\<rparr>"
  have facts: "map_of (wh_open (handles_of demo_stale)) ''handle-0001'' = Some ?x" "sh_handleID ?x = ''handle-0001''"
    "sh_state ?x = stagedHandleDirty" "\<not> conservative_mode demo_stale" "sh_backingKind ?x = stagedHandleBackingStagedTemp"
    "sh_newPath ?x = []" "failed_precondition (sh_preconditions ?x) (committed_of demo_stale) =
      Some (NewError ErrConflict ''object generation precondition failed'')" "on_handle ''handle-0001'' ?x demo_request"
    by code_simp+
  from stale_commit_refused [OF _ facts(1-8), of demo_handle_env] show ?thesis by blast
qed

section \<open>Two commits at the same time\<close>

lemma commit_work_file:
  assumes x: "map_of (wh_open (handles_of w)) i = Some x" "sh_handleID x = i" "sh_transactionID x = txn" and op: "sh_op x \<in> file_ops"
    and p: "proper_path (sh_path x)" and n: "n = FileNode data (fm_Mode (sh_metadata x)) (fm_MTime (sh_metadata x))"
    and src: "map_of (pw_temps w) (sh_tempPath x) = Some (FileNode data a b)"
    and m: "he_mirror env = Inr m" and owner: "stores_uploads (he_client env) got"
    and t: "writable (sh_path x) (tree_at (commit_place w) w)" "writable (sh_path x) (tree_at (mirror_place m) w)"
  obtains reply w' where "commit_work env i (txn, x) w = (CommitReply (reply, None), w')"
    "file_put (sh_path x) n (tree_at (commit_place w) w) (tree_at (commit_place w) w')"
    "file_put (sh_path x) n (tree_at (mirror_place m) w) (tree_at (mirror_place m) w')"
    "gen_at (wc_objectGen (committed_of w')) (sh_path x) = gen_at (wc_objectGen (committed_of w)) (sh_path x) + 1"
    "pw_authority w' = pw_authority w" "pw_temps w' = pw_temps w"
    "\<And>j. j \<noteq> i \<Longrightarrow> map_of (wh_open (handles_of w')) j = map_of (wh_open (handles_of w)) j"
proof -
  have accepts: "owner_accepts env x w" using upload_stored [OF owner src] by (auto simp: owner_accepts_def)
  obtain reply w1 where c: "commitStagedFile env x w = ((reply, None), w1)"
    and e: "file_put (sh_path x) n (tree_at (commit_place w) w) (tree_at (commit_place w) w1)"
      "file_put (sh_path x) n (tree_at (mirror_place m) w) (tree_at (mirror_place m) w1)"
      "gen_at (wc_objectGen (committed_of w1)) (sh_path x) = gen_at (wc_objectGen (committed_of w)) (sh_path x) + 1"
      "pw_authority w1 = pw_authority w" "pw_temps w1 = pw_temps w"
    and h: "handles_of w1 = handles_of w"
    using commitStagedFile_ok [OF p n src m accepts t] by blast
  obtain h' where fin: "commit_finish i txn (reply, None) w1 = (CommitReply (reply\<lparr>rp_HandleID := i\<rparr>, None), on_handles (\<lambda>_. h') w1)"
    "\<And>j. j \<noteq> i \<Longrightarrow> map_of (wh_open h') j = map_of (wh_open (handles_of w1)) j"
    using commit_finish_remembers [of w1 i x txn reply None] x h by metis
  have "commitStagedHandle env x w = commitStagedFile env x w" using op by (auto simp: commitStagedHandle_def file_ops_def)
  then have "commit_work env i (txn, x) w = (CommitReply (reply\<lparr>rp_HandleID := i\<rparr>, None), on_handles (\<lambda>_. h') w1)"
    using c fin(1) by (simp add: commit_work_def)
  moreover have "committed_of (on_handles (\<lambda>_. h') w1) = committed_of w1" "pw_authority (on_handles (\<lambda>_. h') w1) = pw_authority w1"
    "pw_temps (on_handles (\<lambda>_. h') w1) = pw_temps w1"
    by (simp_all add: on_handles_def on_state_def committed_of_def)
  ultimately show thesis using that [of _ "on_handles (\<lambda>_. h') w1"] e fin(2) h by simp
qed

lemma failed_precondition_None:
  "failed_precondition ks c = None \<longleftrightarrow> (\<forall>k \<in> set ks. checkPreconditionsLocked (pc_Path k) k c = None)"
proof -
  let ?f = "\<lambda>k r. case r of Some e \<Rightarrow> Some e | None \<Rightarrow> checkPreconditionsLocked (pc_Path k) k c"
  have kept: "fold ?f ks (Some e) = Some e" for ks and e :: err by (induction ks) simp_all
  have "fold ?f ks None = None \<longleftrightarrow> (\<forall>k \<in> set ks. checkPreconditionsLocked (pc_Path k) k c = None)"
  proof (induction ks)
    case (Cons k ks)
    then show ?case using kept by (cases "checkPreconditionsLocked (pc_Path k) k c") simp_all
  qed simp
  then show ?thesis by (simp add: failed_precondition_def)
qed

lemma generation_outdated:
  assumes k: "k \<in> set ks" "pc_Path k = p" "p \<noteq> []" "pc_ObjectGeneration k \<noteq> 0" and held: "failed_precondition ks c = None"
    and raised: "gen_at (wc_objectGen c') p = gen_at (wc_objectGen c) p + 1"
  shows "failed_precondition ks c' \<noteq> None"
proof -
  have "checkPreconditionsLocked (pc_Path k) k c = None" using held k(1) by (simp add: failed_precondition_None)
  then have "gen_at (wc_objectGen c) p = pc_ObjectGeneration k"
    using k by (auto simp: checkPreconditionsLocked_def Let_def split: if_splits)
  then have "checkPreconditionsLocked (pc_Path k) k c' \<noteq> None"
    using k raised by (simp add: checkPreconditionsLocked_def Let_def)
  then show ?thesis using k(1) by (auto simp: failed_precondition_None simp del: not_None_eq)
qed

lemma ready_after_begin:
  assumes "ready_to_commit j y w" "i \<noteq> j" "sh_handleID x = i"
  shows "ready_to_commit j y (begun_state x w)"
  using assms by (auto simp: ready_to_commit_def) (auto simp: begun_state_def begun_handle_def)


definition demo_two :: "string project_workspace" where
  "demo_two = demo_workspace
     [(''handle-0001'', (demo_handle ''handle-0001'' ''t1'')\<lparr>sh_op := FsOpWrite, sh_state := stagedHandleDirty\<rparr>),
      (''handle-0002'', (demo_handle ''handle-0002'' ''t2'')\<lparr>sh_op := FsOpWrite, sh_state := stagedHandleDirty\<rparr>)]"


end
