(* ===== verification/Handle_Outcomes.thy ===== *)
theory Handle_Outcomes
  imports Handle_Results
begin

text \<open>
  How handles end: a failed commit keeps the file, a waiting flush is answered, the outcome of a released
  handle stays; and two places where the code does not do what it means to, the copy of a renamed file
  in the mirror and the result of a committed handle after a rejected change.
\<close>

section \<open>A commit that fails\<close>

text \<open>The bytes of the file at a path, if there is one.\<close>

definition bytes_at :: "tree \<Rightarrow> string \<Rightarrow> string option" where
  "bytes_at t p = (case map_of t p of Some (FileNode data _ _) \<Rightarrow> Some data | _ \<Rightarrow> None)"

lemma mkdirs_apart: "mkdirs ps t = Inr t' \<Longrightarrow> q \<notin> set ps \<Longrightarrow> map_of t' q = map_of t q"
  by (induction ps arbitrary: t) (auto split: option.splits node.splits)

lemma MkdirAll_parent_apart:
  assumes p: "proper_path p" and m: "MkdirAll (workspace_parentPath p) t = Inr t'" and q: "q \<notin> set (ancestors p)"
  shows "map_of t' q = map_of t q"
proof (cases "workspace_parentPath p = []")
  case False
  then have "set (ancestors p) = insert (workspace_parentPath p) (set (ancestors (workspace_parentPath p)))"
    using parent_cases [OF p] by auto
  then show ?thesis using m q False mkdirs_apart [of "ancestors (workspace_parentPath p) @ [workspace_parentPath p]"]
    by (auto simp: MkdirAll_def)
qed (use m in \<open>simp add: MkdirAll_def\<close>)

lemma replaceFile_failed:
  assumes p: "proper_path p" and f: "replaceFileFromStaged created src p md t = (Some e, t')"
  shows "map_of t' p = map_of t p"
proof -
  have s: "p \<noteq> p @ commit_suffix" using commit_suffix_facts(1) by simp
  have same: "map_of u p = map_of t p" if "MkdirAll (workspace_parentPath p) t = Inr u" for u
    by (rule MkdirAll_parent_apart [OF p that self_not_above])
  show ?thesis
    using f s same by (auto simp: replaceFileFromStaged_def PutFile_def Let_def split: sum.splits node.splits if_splits)
qed

lemma restore_bytes:
  assumes p: "proper_path p" and c: "captureFileSnapshot t p = Inr s" and u: "map_of u p = map_of t p"
    and r: "restoreFileSnapshot p s u = (e, u')"
  shows "bytes_at u' p = bytes_at t p"
proof -
  have data: "fs_exists s \<Longrightarrow> bytes_at t p = Some (fs_data s)" "\<not> fs_exists s \<Longrightarrow> map_of t p = None"
    using c proper_path_not_Nil [OF p]
    by (auto simp: captureFileSnapshot_def Stat_def bytes_at_def errorsIsNotExist_def ENOENT_def ENOTDIR_def
        split: if_splits option.splits node.splits)
  have new: "p \<noteq> p @ rollback_suffix" by (simp add: rollback_suffix_def)
  show ?thesis
  proof (cases "fs_exists s")
    case True
    have same: "map_of v p = map_of u p" if "MkdirAll (workspace_parentPath p) u = Inr v" for v
      by (rule MkdirAll_parent_apart [OF p that self_not_above])
    show ?thesis
      using r True data(1) [OF True] u new same
      by (auto simp: restoreFileSnapshot_def PutFile_def Let_def bytes_at_def split: sum.splits node.splits if_splits)
  next
    case False
    then show ?thesis
      using r data(2) u by (auto simp: restoreFileSnapshot_def Remove_def Stat_def bytes_at_def split: if_splits)
  qed
qed

lemma captured:
  assumes p: "proper_path p" and c: "captureFileSnapshot t p = Inr s"
  shows "no_file (set (ancestors p)) t" "map_of t p \<noteq> Some DirNode"
  using c proper_path_not_Nil [OF p]
  by (auto simp: captureFileSnapshot_def Stat_def errorsIsNotExist_def ENOENT_def ENOTDIR_def blocked_def no_file_def list_ex_iff
      split: if_splits option.splits node.splits)

lemma replace_done:
  assumes p: "proper_path p" and c: "captureFileSnapshot t p = Inr s" and r: "replaceFileFromStaged created src p md t = (None, u)"
  shows "\<exists>data. Stat u p = Inr (FileNode data (fm_Mode md) (fm_MTime md))"
proof -
  obtain data a b where src: "src = Inr (FileNode data a b)"
    using r by (auto simp: replaceFileFromStaged_def Let_def split: sum.splits node.splits if_splits)
  have "map_of v (p @ commit_suffix) \<noteq> Some DirNode" if "MkdirAll (workspace_parentPath p) t = Inr v" for v
    using r src that by (auto simp: replaceFileFromStaged_def PutFile_def Let_def split: sum.splits node.splits if_splits)
  then have "map_of t (p @ commit_suffix) \<noteq> Some DirNode"
    using MkdirAll_parent [OF p captured(1) [OF p c]] MkdirAll_parent_apart [OF p _ commit_path(2) [OF p]] by metis
  then have "writable p t" using captured [OF p c] by (simp add: writable_def no_file_def list_all_iff)
  from replaceFile_put [OF p this] show ?thesis using r src file_put_Stat [OF _ p] by (metis Pair_inject)
qed

lemma replace_and_mirror_failed:
  assumes p: "proper_path (sh_path x)" and r: "replace_and_mirror env x pl mp w = (Some e, w1)"
    and c: "captureFileSnapshot (tree_at pl w) (sh_path x) = Inr s1" "pl \<noteq> mp \<Longrightarrow> captureFileSnapshot (tree_at mp w) (sh_path x) = Inr s2"
  shows "map_of (tree_at z w1) (sh_path x) = map_of (tree_at z w) (sh_path x)" "pw_state w1 = pw_state w"
proof -
  let ?md = "sh_metadata x" and ?p = "sh_path x"
  obtain q t where t: "replaceFileFromStaged (he_created env) (temp_source x w) ?p ?md (tree_at pl w) = (q, t)" by (meson surj_pair)
  have q: "q \<noteq> None"
  proof
    assume "q = None"
    then obtain data where d: "Stat t ?p = Inr (FileNode data (fm_Mode ?md) (fm_MTime ?md))"
      using replace_done [OF p c(1)] t by blast
    have "pl \<noteq> mp" using r t \<open>q = None\<close> by (auto simp: replace_and_mirror_def Let_def)
    then obtain v where "mirrorFile (Inr (FileNode data (fm_Mode ?md) (fm_MTime ?md))) ?p (fm_Mode ?md) (fm_MTime ?md) (tree_at mp w) = (None, v)"
      using mirrorFile_put [OF p captured [OF p c(2)]] by metis
    then show False using r t \<open>q = None\<close> d \<open>pl \<noteq> mp\<close> by (auto simp: replace_and_mirror_def Let_def)
  qed
  then obtain e' where "q = Some e'" by auto
  then show "map_of (tree_at z w1) ?p = map_of (tree_at z w) ?p" "pw_state w1 = pw_state w"
    using r t replaceFile_failed [OF p, of "he_created env" "temp_source x w" ?md "tree_at pl w" e' t]
    by (auto simp: replace_and_mirror_def Let_def)
qed

lemma restore_at_bytes:
  assumes p: "proper_path p" and c: "captureFileSnapshot (tree_at pl w) p = Inr s"
    and u: "map_of (tree_at pl u) p = map_of (tree_at pl w) p" and r: "restore_at pl p s u = (e, u')"
  shows "bytes_at (tree_at pl u') p = bytes_at (tree_at pl w) p" "z \<noteq> pl \<Longrightarrow> tree_at z u' = tree_at z u" "pw_state u' = pw_state u"
proof -
  obtain q t where t: "restoreFileSnapshot p s (tree_at pl u) = (q, t)" by (meson surj_pair)
  then have "u' = put_tree pl t u" using r by (simp add: restore_at_def)
  then show "bytes_at (tree_at pl u') p = bytes_at (tree_at pl w) p" "z \<noteq> pl \<Longrightarrow> tree_at z u' = tree_at z u" "pw_state u' = pw_state u"
    using restore_bytes [OF p c u t] by simp_all
qed

lemma restored_view:
  assumes p: "proper_path p"
    and c: "captureFileSnapshot (tree_at pl w) p = Inr s1" "pl \<noteq> mp \<Longrightarrow> captureFileSnapshot (tree_at mp w) p = Inr s2"
    and u: "\<And>z. map_of (tree_at z u) p = map_of (tree_at z w) p"
    and r: "restoreCommittedView p (if pl = mp then [(pl, s1)] else [(pl, s1), (mp, s2)]) e u = (q, u')"
  shows "bytes_at (tree_at z u') p = bytes_at (tree_at z w) p" "pw_state u' = pw_state u"
proof -
  obtain e1 u1 where u1: "restore_at pl p s1 u = (e1, u1)" by (meson surj_pair)
  note k1 = restore_at_bytes [OF p c(1) u u1]
  have keep: "bytes_at (tree_at z u) p = bytes_at (tree_at z w) p" for z using u by (simp add: bytes_at_def)
  have both: "bytes_at (tree_at z u') p = bytes_at (tree_at z w) p \<and> pw_state u' = pw_state u"
  proof (cases "pl = mp \<or> e1 \<noteq> None")
    case True
    then have "u' = u1" using r u1 by (cases "pl = mp") (auto simp: restoreCommittedView_def split: option.splits)
    then show ?thesis using k1 keep [of z] by (cases "z = pl") simp_all
  next
    case False
    obtain e2 u2 where u2: "restore_at mp p s2 u1 = (e2, u2)" by (meson surj_pair)
    have "map_of (tree_at mp u1) p = map_of (tree_at mp w) p" using k1(2) [of mp] False u [of mp] by auto
    note k2 = restore_at_bytes [OF p c(2) this u2]
    have "u' = u2" using r u1 u2 False by (auto simp: restoreCommittedView_def split: option.splits)
    then show ?thesis using k1 k2 keep [of z] False by (cases "z = mp"; cases "z = pl") simp_all
  qed
  then show "bytes_at (tree_at z u') p = bytes_at (tree_at z w) p" "pw_state u' = pw_state u" by simp_all
qed

text \<open>
  A commit of a file that fails leaves the file as it was. Whatever step goes wrong, the upload to the
  owner, looking at the mount, reading the old file, replacing it or copying it to the mirror, afterwards
  every tree of the project holds at the path exactly the bytes it held before, or still nothing, and no
  generation has changed.
\<close>

lemma failed_commit_keeps_the_file:
  assumes valid: "validateWorkspacePath (sh_path x) = None" and f: "commitStagedFile env x w = ((reply, Some e), w')"
  shows "(\<forall>z. bytes_at (tree_at z w') (sh_path x) = bytes_at (tree_at z w) (sh_path x)) \<and> committed_of w' = committed_of w"
proof -
  let ?p = "sh_path x" and ?pl = "commit_place w"
  have p: "proper_path ?p" by (rule valid_path_proper [OF valid])
  obtain q v where v: "(if has_client w then streamOwnerFileApply env x w else (None, w)) = (q, v)" by (meson surj_pair)
  have frame: "tree_at z v = tree_at z w" "pw_state v = pw_state w" for z
    using v streamOwnerFileApply_frame [of env x w q v] by (auto split: if_splits)
  note simps = commitStagedFile_def Let_def v commit_bumped_def committed_of_def
  show ?thesis
  proof (cases "q = None \<and> (\<exists>m. he_mirror env = Inr m)")
    case False
    then have "w' = v" using f by (auto simp: simps split: option.splits sum.splits)
    then show ?thesis using frame by (simp add: committed_of_def)
  next
    case True
    then obtain m where m: "q = None" "he_mirror env = Inr m" by blast
    let ?mp = "if m then AtMount else AtWorkspace"
    show ?thesis
    proof (cases "capture_all ?p (if ?pl = ?mp then [?pl] else [?pl, ?mp]) v")
      case (Inl e')
      then have "w' = v" using f m by (simp add: simps)
      then show ?thesis using frame by (simp add: committed_of_def)
    next
      case (Inr snaps)
      obtain s1 s2 where c: "captureFileSnapshot (tree_at ?pl v) ?p = Inr s1"
        "?pl \<noteq> ?mp \<Longrightarrow> captureFileSnapshot (tree_at ?mp v) ?p = Inr s2"
        "snaps = (if ?pl = ?mp then [(?pl, s1)] else [(?pl, s1), (?mp, s2)])"
        using Inr by (cases "?pl = ?mp") (auto simp: capture_all_def split: sum.splits)
      obtain r u where ru: "replace_and_mirror env x ?pl ?mp v = (r, u)" by (meson surj_pair)
      obtain e' where e': "r = Some e'" "restoreCommittedView ?p snaps e' u = ((reply, Some e), w')"
        using f m Inr ru by (cases r) (auto simp: simps split: prod.splits)
      have ru': "replace_and_mirror env x ?pl ?mp v = (Some e', u)" using ru e'(1) by simp
      note same = replace_and_mirror_failed [OF p ru' c(1,2)]
      have r': "restoreCommittedView ?p (if ?pl = ?mp then [(?pl, s1)] else [(?pl, s1), (?mp, s2)]) e' u = ((reply, Some e), w')"
        using e'(2) c(3) by simp
      note restored = restored_view [OF p c(1,2) same(1) r']
      show ?thesis using restored same(2) frame by (simp add: committed_of_def)
    qed
  qed
qed

section \<open>Waiting for a commit\<close>

lemma look_waits:
  assumes ok: "handles_ok (handles_of w) run" and l: "commit_look i w = (CommitWait t, w1)"
  shows "\<exists>txn x. t = Some txn \<and> (txn, x) \<in> set run \<and> sh_handleID x = i"
proof -
  obtain x where x: "map_of (wh_open (handles_of w)) i = Some x" "sh_state x = stagedHandleCommitting"
    "t = transactionLocked x (handles_of w)"
    using l by (auto simp: commit_look_def handleLocked_def split: option.splits stagedHandleState.splits prod.splits)
  have "sh_handleID x = i" using openD [OF ok x(1)] by (simp add: handle_ok_def)
  then show ?thesis using committing_runs [OF ok x(1,2)] x(3) by auto
qed

lemma begin_waits:
  assumes ok: "handles_ok (handles_of w) run" and b: "commit_begin i w = (CommitWait t, w1)"
  shows "\<exists>txn x. t = Some txn \<and> (txn, x) \<in> set run \<and> sh_handleID x = i"
proof -
  obtain x where x: "map_of (wh_open (handles_of w)) i = Some x" "sh_state x = stagedHandleCommitting"
    "t = transactionLocked x (handles_of w)"
    using b by (auto simp: commit_begin_def handleLocked_def Let_def split: option.splits stagedHandleState.splits prod.splits)
  have "sh_handleID x = i" using openD [OF ok x(1)] by (simp add: handle_ok_def)
  then show ?thesis using committing_runs [OF ok x(1,2)] x(3) by auto
qed


text \<open>A project with one handle, created and then being committed.\<close>

definition demo_none :: "string project_workspace" where
  "demo_none = (demo_workspace [])\<lparr>pw_state := new_workspaceState, pw_temps := []\<rparr>"

definition demo_made :: "string project_workspace" where
  "demo_made = (case stageHandleMutation demo_handle_env FsOpCreate (demo_request\<lparr>rq_HandleID := []\<rparr>) [] demo_none of
     Some (_, w) \<Rightarrow> w | None \<Rightarrow> demo_none)"

definition demo_begun :: "(string \<times> stagedHandle) commit_step \<times> string project_workspace" where
  "demo_begun = commit_begin ''handle-0001'' demo_made"

lemma demo_none_fresh: "fresh_project (demo_none, [])"
  by (simp add: fresh_project_def handles_of_def demo_none_def)

lemma demo_counters: "counters_left (handles_of demo_none)" "counters_left (handles_of demo_made)"
  by code_simp+

lemma demo_made_reach: "handle_reach demo_handle_env (demo_made, [])"
proof -
  have "stageHandleMutation demo_handle_env FsOpCreate (demo_request\<lparr>rq_HandleID := []\<rparr>) [] demo_none \<noteq> None" by code_simp
  then obtain r where "stageHandleMutation demo_handle_env FsOpCreate (demo_request\<lparr>rq_HandleID := []\<rparr>) [] demo_none = Some (r, demo_made)"
    by (auto simp: demo_made_def)
  then show ?thesis
    using handle_reach.step [OF handle_reach.start [OF demo_none_fresh] handle_step.staged [OF demo_counters(1)]] by blast
qed


section \<open>After the release\<close>

text \<open>
  The outcome of a handle that has been given back stays: whatever calls follow, another release and every
  flush of it give the answer of the release that closed it, and do nothing.
\<close>

lemma released_outcome_stays:
  assumes reach: "handle_reach env (w, run)" and room: "counters_left (handles_of w)"
    and x: "map_of (wh_open (handles_of w)) (rq_HandleID request) = Some x"
    and r: "releaseHandle request w = Some (reply, w1)" and later: "(handle_step env)\<^sup>*\<^sup>* (w1, run) (w2, run2)"
  shows "releaseHandle request w2 = Some (reply, w2)" "commitHandle env request w2 = Some (reply, w2)"
proof -
  have ok: "handles_ok (handles_of w) run" using handle_reach_ok [OF reach] by simp
  have ok1: "handles_ok (handles_of w1) run" using good_moveD [OF releaseHandle_ok [OF ok room r]] .
  obtain z res where z: "map_of (wh_closed (handles_of w1)) (rq_HandleID request) = Some z"
    "map_of (wh_results (handles_of w1)) (ch_resultID z) = Some res"
    "reply = (replyWithHandle res (rq_HandleID request), hr_err res)"
    using released_outcome [OF ok room x r] by blast
  have move: "good_move (handles_of w1) (handles_of w2) run2"
    using handle_steps_good [OF later] ok1 by simp
  then have "map_of (wh_closed (handles_of w2)) (rq_HandleID request) = Some z"
    "map_of (wh_results (handles_of w2)) (ch_resultID z) = Some res"
    using z(1,2) by (simp_all add: good_move_def closed_kept_def)
  then show "releaseHandle request w2 = Some (reply, w2)" "commitHandle env request w2 = Some (reply, w2)"
    using closed_answers [OF good_moveD [OF move]] z(3) by simp_all
qed

section \<open>Renaming what the mirror does not have\<close>

lemma moved_target:
  assumes "map_of t q = None" "\<not> under q p"
  shows "map_of (map (\<lambda>(k, n). (moved p q k, n)) t) q = map_of t p"
  using assms(1)
proof (induction t)
  case (Cons e t)
  obtain k n where e: "e = (k, n)" by (cases e)
  have "moved p q k = q \<longleftrightarrow> k = p"
  proof
    assume m: "moved p q k = q"
    show "k = p"
    proof (cases "under k p")
      case True
      then have "drop (length p) k = []" using m by (simp add: moved_def)
      then show ?thesis using True by (auto simp: under_def prefix_def)
    next
      case False
      then show ?thesis using m Cons.prems e by (simp add: moved_def split: if_splits)
    qed
  qed (simp add: moved_def under_def)
  then show ?case using Cons e by (auto split: if_splits)
qed simp

lemma moved_source:
  assumes "\<not> under p q"
  shows "map_of (map (\<lambda>(k, n). (moved p q k, n)) t) p = None"
proof -
  have "moved p q k \<noteq> p" for k
  proof
    assume m: "moved p q k = p"
    then have u: "under k p" by (auto simp: moved_def under_def split: if_splits)
    then have "p = q @ drop (length p) k" using m by (simp add: moved_def)
    moreover have "drop (length p) k = [] \<or> (\<exists>r. drop (length p) k = CHR ''/'' # r)"
      using u by (auto simp: under_def prefix_def)
    ultimately have "under p q" by (auto simp: under_def prefix_def)
    then show False using assms by simp
  qed
  then show ?thesis by (auto simp: map_of_eq_None_iff dest: sym)
qed

text \<open>
  The fallback for a mirror that does not have the renamed file cannot work: it copies from the old path of
  the authoritative tree, which the rename has just emptied. So in a project
  without an owner client, when the mirror lacks the file, the commit fails, with the file at its new path in the workspace and with the old
  generations: the daemon has renamed the file and reports that it has not.
\<close>

lemma rename_without_mirror_copy_fails:
  assumes w: "\<not> has_client w" "he_mirror env = Inr True" and x: "sh_path x = p" "sh_newPath x = q"
    and src: "Stat (tree_at (commit_place w) w) p = Inr (FileNode d a b)" and new: "Stat (tree_at (commit_place w) w) q = Inl ENOENT"
    and parent: "Stat (tree_at (commit_place w) w) (workspace_parentPath q) = Inr DirNode"
    and apart: "\<not> under q p" "\<not> under p q" and mirror: "Stat (pw_mount w) p = Inl ENOENT"
    and ok: "\<not> blocked (map (\<lambda>(k, n). (moved p q k, n)) (tree_at (commit_place w) w)) p"
  shows "\<exists>w'. commitStagedRename env x w = ((zero_FsReply, Some (NewError ErrOwnerWriteFailed ''file does not exist'')), w') \<and>
    map_of (tree_at (commit_place w) w') q = Some (FileNode d a b) \<and> map_of (tree_at (commit_place w) w') p = None \<and>
    committed_of w' = committed_of w \<and> pw_mount w' = pw_mount w"
proof -
  let ?pl = "commit_place w" and ?t = "map (\<lambda>(k, n). (moved p q k, n)) (tree_at (commit_place w) w)"
  have pq: "p \<noteq> []" "q \<noteq> []" "p \<noteq> q"
    using src new apart by (auto simp: Stat_def under_def ENOENT_def split: if_splits)
  have pl: "?pl \<noteq> AtMount" by (simp add: commit_place_def authoritativePath_def w)
  have tree: "map_of (tree_at ?pl w) q = None" "map_of (tree_at ?pl w) p = Some (FileNode d a b)"
    using src new pq by (auto simp: Stat_def ENOENT_def ENOTDIR_def split: if_splits option.splits)
  have ren: "renamePathWithOverwrite p q (tree_at ?pl w) = (None, ?t)"
    using src new parent apart(1)
    by (simp add: renamePathWithOverwrite_def os_Rename_def errorsIsNotExist_def under_def)
  have gone: "Stat ?t p = Inl ENOENT"
    using ok pq by (simp add: Stat_def moved_source [OF apart(2)])
  have none: "renamePathWithOverwrite p q (pw_mount w) = (Some ENOENT, pw_mount w)"
    using mirror by (simp add: renamePathWithOverwrite_def)
  have "syncRenamedMirrorPath ?t p p q (pw_mount w) = (Some ENOENT, pw_mount w)"
    using none gone pq(3) by (simp add: syncRenamedMirrorPath_def mirrorPath_def errorsIsNotExist_def)
  then have "rename_at p q ?pl AtMount w = (Some ENOENT, put_tree AtMount (pw_mount w) (put_tree ?pl ?t w))"
    using ren pl by (simp add: rename_at_def Let_def) (cases ?pl; simp)
  then have "commitStagedRename env x w =
      (failed_write ENOENT, put_tree AtMount (pw_mount w) (put_tree ?pl ?t w))"
    using w x pq(3) by (simp add: commitStagedRename_def apply_owner_def mirror_of_def Let_def)
  moreover have "failed_write ENOENT = (zero_FsReply, Some (NewError ErrOwnerWriteFailed ''file does not exist''))"
    by (simp add: failed_write_def wrapOwnerWriteError_def is_ctx_error_def ENOENT_def)
  moreover have "tree_at ?pl (put_tree AtMount (pw_mount w) (put_tree ?pl ?t w)) = ?t"
    "tree_at AtMount (put_tree AtMount (pw_mount w) (put_tree ?pl ?t w)) = pw_mount w"
    "committed_of (put_tree AtMount (pw_mount w) (put_tree ?pl ?t w)) = committed_of w"
    using pl by (simp_all add: committed_of_def del: put_tree.simps tree_at.simps)
  ultimately show ?thesis
    using moved_target [OF tree(1) apart(1)] moved_source [OF apart(2), of "tree_at ?pl w"] tree(2)
    unfolding tree_at.simps(2) by metis
qed

section \<open>A rejected change\<close>

text \<open>
  A change forgets the result of the commit before it before it is known to be possible. So after a
  truncation to a negative size has been rejected, the flush of a handle that was committed fails, although
  nothing is left to commit.
\<close>

lemma rejected_change_loses_result:
  assumes i: "i \<noteq> []" and x: "map_of (wh_open (handles_of w)) i = Some x" "sh_handleID x = i" "sh_state x = stagedHandleCommitted"
    and staged: "sh_backingKind x = stagedHandleBackingStagedTemp" "sh_newPath x = []"
    and req: "on_handle i x request" "rq_Size request < 0"
  shows "\<exists>w'. stageHandleMutation env FsOpTruncate request preconditions w = Some ((zero_FsReply, Some EINVAL), w') \<and>
    commitHandle env request w' =
      Some ((zero_FsReply, Some (NewError ErrFileCommitFailed ''handle result is unavailable'')), w')"
proof -
  let ?y = "x\<lparr>sh_resultID := []\<rparr>"
  let ?w = "on_handles (\<lambda>_. put_handle ?y (clearResultLocked (sh_resultID x) (handles_of w))) w"
  have "stage_handle env FsOpTruncate request preconditions (FsOpTruncate = FsOpCreate) w = Some (StagingHandle ?y, ?w)"
    using i x staged req(1) by (simp add: stage_handle_def ensureHandle_def known_handle_def handleLocked_def on_handle_def
        failedHandleResult_def prepareHandleForMutation_def clearHandleResultLocked_def)
  moreover have "stage_data env FsOpTruncate request ?y ?w = (Inl EINVAL, ?w)"
    using req(2) by (simp add: stage_data_def Let_def fs_ops)
  moreover have "commitHandle env request ?w =
      Some ((zero_FsReply, Some (NewError ErrFileCommitFailed ''handle result is unavailable'')), ?w)"
    using i x req(1) by (simp add: commitHandle_def on_handle_def Let_def commit_look_def handleLocked_def openResultLocked_def
        answer_def ended_def)
  ultimately show ?thesis by (auto simp: stageHandleMutation_def)
qed

end
