(* ===== verification/Spec2Isabelle.thy ===== *)
theory Spec2Isabelle
  imports Project_Properties Drift_Properties Follow_Properties Session_Properties Service_Properties Scan_Results Handle_Outcomes
begin

text \<open>
  A verification of the core of symterm: clients share the directory they work in with a daemon, the daemon
  runs their commands in its copy, and everybody who follows a project sees the same state.

  \<^bold>\<open>The parts and how they interact.\<close> A client says hello to the daemon and gets a session
  (\<open>internal/control/session_registry.go\<close>). It opens a project; the coordinator
  (\<open>project_coordinator.go\<close>) prepares it once, however many ask, and keeps its instance
  (\<open>internal/project/instance.go\<close>): who is attached, which session is the authority, the lifecycle from
  initialising over syncing to active, the lock that waits for a confirmation when another workspace
  attaches, the commands. What happens in a project is an event in a bounded log
  (\<open>internal/eventstream/store.go\<close>); clients follow it (\<open>internal/projectready/wait.go\<close>). The authority
  scans its workspace under its ignore rules (\<open>internal/sync\<close>) and syncs it into the daemon's workspace
  (\<open>internal/daemon/workspace_manager_sync.go\<close>). After that single files are changed through handles
  (\<open>workspace_manager_staged_handle.go\<close>), guarded by generations and identities
  (\<open>workspace_manager.go\<close>), and the owner of the files is told. The handlers of the control service
  (\<open>internal/control/*.go\<close>) put these parts together.

  \<^bold>\<open>Vocabulary.\<close> \<open>Go_Prelude\<close> has the Go types and library functions the sources use (byte strings,
  64-bit counters as words, maps as association lists, results as a sum with the error on the left) and the
  lemmas all theories share; \<open>Proto\<close> has the types and errors of \<open>internal/proto\<close>. A struct is a record
  whose fields carry a short prefix, an enum a datatype, a method a function that returns its result and
  the changed state. Definitions have the names of the code; where two components use the same one, it is
  prefixed (\<open>Registry_Session\<close>, \<open>Manager_DeletePath\<close>).

  \<^bold>\<open>Theories and what they model.\<close>
  \<^item> \<open>Event_Stream\<close>: the log with its cursors, retention and subscriptions. The locale \<open>event_codec\<close> is what the
    log needs of an event type; it is interpreted for project, command and invalidation events.
    \<open>Follow_Properties\<close>: the log refines an unbounded sequence, a subscriber misses nothing, and folding
    the events over a snapshot keeps up with the project.
  \<^item> \<open>Project_Instance\<close> and \<open>Project_Ready\<close>: one project and its followers. Any sequence of
    its operations gives \<open>inst_reachable\<close>; \<open>Project_Properties\<close> has the lifecycle, the authority, the reconcile lock, commands and
    departures over every reachable instance, \<open>Drift_Properties\<close> the digests of two workspaces.
    \<open>Project_Demo\<close> is a concrete run for the witnesses.
  \<^item> \<open>Session_Registry\<close>, \<open>Session_Properties\<close>: the sessions, with their records in a store, because two maps
    share them. \<open>TerminateSession\<close> is two steps, as it gives up its lock. The locale \<open>session_view\<close>
    follows a part of a session through every operation.
  \<^item> \<open>Control_Streams\<close>: commands, uploads and invalidations (\<open>command_controller.go\<close>, \<open>upload_tracker.go\<close>,
    \<open>invalidate_hub.go\<close>). \<open>Project_Coordinator\<close>: the coordinator. \<open>Bootstrap\<close>: callers that ask for
    a project at the same time, as an interleaving of the critical sections of \<open>instanceForSession\<close>.
  \<^item> \<open>Control_Service\<close>, \<open>Control_Sync\<close>: the handlers. \<open>Control_Invariant\<close> and \<open>Control_Kept\<close> show once, in the
    locale \<open>svc_kept\<close>, that a predicate kept by the primitive changes is kept by every handler;
    \<open>Control_Properties\<close> interprets it with the invariant of the whole service, \<open>Service_Properties\<close> has
    what each group of handlers does. \<open>Control_Demo\<close> is a concrete run.
  \<^item> \<open>Portable_Paths\<close>: paths and the directories of a project (\<open>portablefs/paths.go\<close>, \<open>layout.go\<close>). \<open>Glob\<close>,
    \<open>Workspace_View\<close>, \<open>View_Properties\<close>: \<open>filepath.Match\<close> and the ignore rules
    (\<open>workspace_view_rules.go\<close>). \<open>Local_Snapshot\<close>, \<open>Workspace_Scan\<close>: the client's snapshot, hash caches, guard
    and scan (\<open>workspace_snapshot.go\<close>, \<open>hash_cache.go\<close>, \<open>sync_guard.go\<close>).
  \<^item> \<open>Workspace_State\<close>: the committed state of a workspace; \<open>Workspace_Objects\<close>: generations and identities
    as a step relation. \<open>Workspace_Tree\<close>: directory trees and file operations.
  \<^item> \<open>Workspace_Sync\<close>: the daemon's sync sessions. \<open>Sync_Client\<close>, \<open>Sync_Attempt\<close>: the client's attempts of
    both protocol versions with retries and fallback (\<open>initial_sync_session.go\<close>). \<open>Sync_Tree\<close>,
    \<open>Sync_Publish\<close>, \<open>Sync_Transfer\<close>, \<open>Sync_Properties\<close>, \<open>Snapshot_Hashes\<close>, \<open>Sync_Convergence\<close>,
    \<open>Sync_Results\<close> lead to the convergence of a sync; \<open>Scan_Walk\<close> (locale \<open>scan_table\<close>),
    \<open>Scan_Properties\<close>, \<open>Scan_Results\<close> to what a scan shares and what the daemon then shows.
  \<^item> \<open>Workspace_Handles\<close>, \<open>Handle_Commit\<close>: handles, staging, committing, releasing, and the authority of the
    workspace (\<open>workspace_manager_owner_authority.go\<close>). \<open>Handle_Steps\<close>, \<open>Handle_Machine\<close>: the calls of
    several clients as steps, and the invariant of handles, transactions and results. \<open>Handle_Files\<close>,
    \<open>Handle_Results\<close>, \<open>Handle_Outcomes\<close>: what commits do to the files and how they end.

  \<^bold>\<open>Loops and bounds.\<close> Structural loops are recursions over lists. \<open>instance_loop\<close> takes its number of
    rounds as an argument; two are enough (\<open>two_rounds_enough\<close>), because only a failed entry makes the loop
    go round again, and that round removes the entry. \<open>Wait_loop\<close> runs over the rounds the streams deliver; \<open>None\<close> is a wait that goes on.
    \<open>plan_loop\<close> and \<open>read_owner\<close> have no bound in the code and are partial functions to options; that a sync
    attempt returns is a theorem, while an owner whose reads never come to an end keeps \<open>read_owner\<close> going.
    A flush or a call that has to wait for somebody else is \<open>None\<close> or a step of its own. Counters are 64-bit
    words that wrap; results on fresh identifiers assume that the counter has not gone round.

  \<^bold>\<open>Parameters.\<close> SHA-256, gzip and the Unicode tables, the clock, the names of temporary files, what the
  operating system reports for directories, the answers of the runtime that runs commands and of the owner's
  file service are arguments of the definitions that use them; theorems name what they need of them.

  \<^bold>\<open>What is left out.\<close>
  \<^item> A handler of the control service is one step; interleavings inside a handler are covered for the
    preparation of projects, the termination of sessions, the readers of the log and the commits of handles only.
  \<^item> Contexts are never cancelled, and a stream's channel is not closed under its reader (\<open>reader_step\<close>).
  \<^item> The operations of a sync session are single steps; the calls of the client run directly on the
    \<open>SyncManager\<close>, without progress reports. What goes wrong when the daemon makes its directories is the
    parameter \<open>sy_layout\<close>.
  \<^item> A file that a scan has seen can be read. Devices do not fail. Directories have no permissions or times of
    their own on the daemon's side, so setting them (\<open>applyDirMetadata\<close>) is no step of the model.
  \<^item> \<open>visibleExistingWorkspacePath\<close> walks the entries of the directory it is given, where the code reads the
    directory again at the normalised path; the two differ for names with white space at the ends of the path.
  \<^item> The reference count of a session is an unbounded integer.
  \<^item> Log and trace output, terminals and processes, FUSE, the transport and its encoding, the administration
    interface, the command line, reading files through the owner (\<open>FsReadContext\<close> of the workspace manager).
\<close>

end
